(* ===== verification/SF_Prelude.thy ===== *)
theory SF_Prelude
  imports
    Complex_Main
    "HOL-Library.AList"
    "HOL-Library.Char_ord"
    "HOL-Library.List_Lexorder"
    "HOL-Library.Product_Lexorder"
begin

text \<open>
  Shared vocabulary of the development: Python exceptions as values, dictionaries as
  association lists in insertion order, bounded queues, the first minimal or maximal element of
  a list under a key, and the few string operations the program uses. The lemmas here are about
  these building blocks only; no part of the program is modelled in this theory.

  Conventions. A Python \<open>float\<close> is a \<^typ>\<open>real\<close>, so rounding is not modelled; where the code
  tests \<open>math.isfinite\<close> the dynamic value type of \<open>SF_Contracts\<close> has a separate constructor for
  a non-finite float. A Python \<open>int\<close> is an \<^typ>\<open>int\<close>. A string is a list of 8-bit characters,
  ordered by code point as Python orders them.
\<close>

named_theorems dict_simps
  \<comment> \<open>rewriting of dictionary lookups after updates\<close>

section \<open>Exceptions as values\<close>

datatype exc =
    ValueError string
  | KeyError string
  | PermissionError string
  | TypeError string
  | UnknownCanonicalKey string
  | NoReplayCandidate string
  | NoKVControlCandidate string
  | OtherException string

text \<open>The class name of an exception, \<open>type(exc).__name__\<close>.\<close>

fun exc_type_name :: "exc \<Rightarrow> string" where
  "exc_type_name (ValueError _) = ''ValueError''"
| "exc_type_name (KeyError _) = ''KeyError''"
| "exc_type_name (PermissionError _) = ''PermissionError''"
| "exc_type_name (TypeError _) = ''TypeError''"
| "exc_type_name (UnknownCanonicalKey _) = ''UnknownCanonicalKey''"
| "exc_type_name (NoReplayCandidate _) = ''NoReplayCandidate''"
| "exc_type_name (NoKVControlCandidate _) = ''NoKVControlCandidate''"
| "exc_type_name (OtherException n) = n"

type_synonym 'a res = "exc + 'a"

definition res_bind :: "'a res \<Rightarrow> ('a \<Rightarrow> 'b res) \<Rightarrow> 'b res" where
  "res_bind m f = (case m of Inl e \<Rightarrow> Inl e | Inr x \<Rightarrow> f x)"

lemma res_bind_simps [simp]:
  "res_bind (Inl e) f = Inl e"
  "res_bind (Inr x) f = f x"
  by (simp_all add: res_bind_def)

lemma res_bind_Inr_iff: "res_bind m f = Inr y \<longleftrightarrow> (\<exists>x. m = Inr x \<and> f x = Inr y)"
  by (cases m) auto

lemma res_bind_Inr_E:
  assumes "res_bind m f = Inr y"
  obtains x where "m = Inr x" and "f x = Inr y"
  using assms by (cases m) auto

text \<open>A list comprehension whose element expression may raise: the first error wins.\<close>

fun res_map :: "('a \<Rightarrow> 'b res) \<Rightarrow> 'a list \<Rightarrow> 'b list res" where
  "res_map f [] = Inr []"
| "res_map f (x # xs) = res_bind (f x) (\<lambda>y. res_bind (res_map f xs) (\<lambda>ys. Inr (y # ys)))"

lemma res_map_Inr_list_all2: "res_map f xs = Inr ys \<Longrightarrow> list_all2 (\<lambda>x y. f x = Inr y) xs ys"
  by (induction xs arbitrary: ys) (auto simp: res_bind_Inr_iff)

lemma res_map_returns: "(\<And>x. x \<in> set xs \<Longrightarrow> \<exists>y. f x = Inr y) \<Longrightarrow> \<exists>ys. res_map f xs = Inr ys"
proof (induction xs)
  case (Cons x xs)
  then obtain y ys where "f x = Inr y" "res_map f xs = Inr ys" by (meson list.set_intros)
  then show ?case by simp
qed simp

lemma res_map_Inr_in: "res_map f xs = Inr ys \<Longrightarrow> y \<in> set ys \<Longrightarrow> \<exists>x \<in> set xs. f x = Inr y"
  by (induction xs arbitrary: ys) (auto simp: res_bind_Inr_iff)

lemma res_map_length: "res_map f xs = Inr ys \<Longrightarrow> length ys = length xs"
  by (drule res_map_Inr_list_all2) (auto dest: list_all2_lengthD)

lemma res_map_total: "(\<And>x. x \<in> set xs \<Longrightarrow> f x = Inr (g x)) \<Longrightarrow> res_map f xs = Inr (map g xs)"
  by (induction xs) auto

section \<open>Dictionaries in insertion order\<close>

text \<open>
  A Python dictionary is an association list: a store to an existing key keeps its position, a
  store to a new key appends, iteration follows the list. \<^const>\<open>AList.update\<close> is that store.
\<close>

type_synonym ('k, 'v) dict = "('k \<times> 'v) list"

definition dict_get :: "('k, 'v) dict \<Rightarrow> 'k \<Rightarrow> 'v option" where
  "dict_get d k = map_of d k"

definition dict_set :: "('k, 'v) dict \<Rightarrow> 'k \<Rightarrow> 'v \<Rightarrow> ('k, 'v) dict" where
  "dict_set d k v = AList.update k v d"

definition dict_has :: "('k, 'v) dict \<Rightarrow> 'k \<Rightarrow> bool" where
  "dict_has d k \<longleftrightarrow> dict_get d k \<noteq> None"

definition dict_get_or :: "('k, 'v) dict \<Rightarrow> 'k \<Rightarrow> 'v \<Rightarrow> 'v" where
  "dict_get_or d k v = (case dict_get d k of None \<Rightarrow> v | Some w \<Rightarrow> w)"

text \<open>\<open>OrderedDict.move_to_end\<close> after a store: the entry becomes the last one.\<close>

definition dict_set_last :: "('k, 'v) dict \<Rightarrow> 'k \<Rightarrow> 'v \<Rightarrow> ('k, 'v) dict" where
  "dict_set_last d k v = AList.delete k d @ [(k, v)]"

definition dict_distinct :: "('k, 'v) dict \<Rightarrow> bool" where
  "dict_distinct d \<longleftrightarrow> distinct (map fst d)"

text \<open>
  The interface every dictionary client relies on: what a lookup returns after a store, and that
  a store keeps one entry per key.
\<close>

locale dictionary =
  fixes empty :: 'd
    and get :: "'d \<Rightarrow> 'k \<Rightarrow> 'v option"
    and put :: "'d \<Rightarrow> 'k \<Rightarrow> 'v \<Rightarrow> 'd"
    and wf :: "'d \<Rightarrow> bool"
  assumes get_empty: "get empty k = None"
    and get_put: "get (put d k v) k' = (if k' = k then Some v else get d k')"
    and wf_empty: "wf empty"
    and wf_put: "wf d \<Longrightarrow> wf (put d k v)"
begin

lemma get_put_same: "get (put d k v) k = Some v"
  by (simp add: get_put)

lemma get_put_other: "k' \<noteq> k \<Longrightarrow> get (put d k v) k' = get d k'"
  by (simp add: get_put)

lemma wf_foldl_put: "wf d \<Longrightarrow> wf (foldl (\<lambda>m x. put m (f x) (g x)) d xs)"
  by (induction xs arbitrary: d) (auto intro: wf_put)

text \<open>A fold of stores: a key keeps its old entry unless an element writes it; the last one wins.\<close>

lemma get_foldl_put_notin:
  "k \<notin> f ` set xs \<Longrightarrow> get (foldl (\<lambda>m x. put m (f x) (g x)) d xs) k = get d k"
  by (induction xs arbitrary: d) (auto simp: get_put)

lemma get_foldl_put_in:
  "k \<in> f ` set xs \<Longrightarrow> \<exists>x \<in> set xs. f x = k \<and>
     get (foldl (\<lambda>m x. put m (f x) (g x)) d xs) k = Some (g x)"
proof (induction xs arbitrary: d)
  case (Cons a xs)
  then show ?case
    by (cases "k \<in> f ` set xs") (auto simp: get_foldl_put_notin get_put)
qed simp

end

interpretation pydict: dictionary "[]" dict_get dict_set dict_distinct
  by unfold_locales
    (auto simp: dict_get_def dict_set_def dict_distinct_def update_conv' distinct_update)

lemma dict_get_Nil [simp, dict_simps]: "dict_get [] k = None"
  by (simp add: dict_get_def)

lemma dict_get_Cons [simp]:
  "dict_get ((k', v) # d) k = (if k' = k then Some v else dict_get d k)"
  by (auto simp: dict_get_def)

lemma dict_get_set [simp, dict_simps]:
  "dict_get (dict_set d k v) k' = (if k' = k then Some v else dict_get d k')"
  by (rule pydict.get_put)

lemma dict_set_Nil [simp]: "dict_set [] k v = [(k, v)]"
  by (simp add: dict_set_def)

lemma dict_set_Cons [simp]:
  "dict_set ((k', v') # d) k v = (if k' = k then (k, v) # d else (k', v') # dict_set d k v)"
  by (simp add: dict_set_def)

lemma dict_distinct_Nil [simp]: "dict_distinct []"
  by (simp add: dict_distinct_def)

lemma dict_distinct_set [simp, intro]: "dict_distinct d \<Longrightarrow> dict_distinct (dict_set d k v)"
  by (rule pydict.wf_put)

lemma dict_has_set [simp]: "dict_has (dict_set d k v) k' \<longleftrightarrow> k' = k \<or> dict_has d k'"
  by (simp add: dict_has_def)

lemma dict_get_Some_in: "dict_get d k = Some v \<Longrightarrow> (k, v) \<in> set d"
  by (simp add: dict_get_def map_of_SomeD)

lemma dict_get_eq_Some_iff: "dict_distinct d \<Longrightarrow> dict_get d k = Some v \<longleftrightarrow> (k, v) \<in> set d"
  by (simp add: dict_get_def dict_distinct_def)

lemma dict_get_None_iff: "dict_get d k = None \<longleftrightarrow> k \<notin> fst ` set d"
  by (simp add: dict_get_def map_of_eq_None_iff)

lemma dict_has_iff: "dict_has d k \<longleftrightarrow> k \<in> fst ` set d"
  by (metis dict_get_None_iff dict_has_def)

lemma in_dict_set:
  "(k', v') \<in> set (dict_set d k v) \<Longrightarrow> (k' = k \<and> v' = v) \<or> (k', v') \<in> set d"
  by (induction d) (auto split: if_splits)

lemma snd_dict_set: "snd ` set (dict_set d k v) \<subseteq> insert v (snd ` set d)"
  by (force dest: in_dict_set)

lemma fst_dict_set [simp]: "fst ` set (dict_set d k v) = insert k (fst ` set d)"
  by (simp add: dict_set_def dom_update)

lemma dict_set_same: "dict_get d k = Some v \<Longrightarrow> dict_set d k v = d"
  by (induction d) (auto split: if_splits)

lemma length_dict_set: "length (dict_set d k v) = (if dict_has d k then length d else Suc (length d))"
  by (induction d) (auto simp: dict_has_def split: if_splits)

lemma dict_get_set_last [simp, dict_simps]:
  "dict_get (dict_set_last d k v) k' = (if k' = k then Some v else dict_get d k')"
  by (auto simp: dict_get_def dict_set_last_def map_add_def delete_conv' split: option.splits)

lemma dict_distinct_set_last [simp, intro]:
  "dict_distinct d \<Longrightarrow> dict_distinct (dict_set_last d k v)"
  by (simp add: dict_distinct_def dict_set_last_def delete_keys distinct_removeAll)

interpretation pyodict: dictionary "[]" dict_get dict_set_last dict_distinct
  by unfold_locales auto

text \<open>Two mappings are equal when they have the same entries, in whatever order.\<close>

definition dict_eq :: "('k, 'v) dict \<Rightarrow> ('k, 'v) dict \<Rightarrow> bool" where
  "dict_eq d e \<longleftrightarrow> (\<forall>k \<in> fst ` set (d @ e). dict_get d k = dict_get e k)"

lemma dict_eq_iff: "dict_eq d e \<longleftrightarrow> map_of d = map_of e"
proof
  assume eq: "dict_eq d e"
  show "map_of d = map_of e"
  proof
    fix k show "map_of d k = map_of e k"
    proof (cases "k \<in> fst ` set (d @ e)")
      case False
      then have "k \<notin> fst ` set d" "k \<notin> fst ` set e" by auto
      then show ?thesis by (simp flip: map_of_eq_None_iff)
    qed (use eq in \<open>auto simp: dict_eq_def dict_get_def\<close>)
  qed
qed (simp add: dict_eq_def dict_get_def)

lemma dict_eq_refl [simp]: "dict_eq d d"
  by (simp add: dict_eq_iff)

section \<open>Bounded queues\<close>

text \<open>\<open>deque(maxlen=n).append\<close>: the oldest elements fall out on the left.\<close>

definition deque_push :: "nat \<Rightarrow> 'a list \<Rightarrow> 'a \<Rightarrow> 'a list" where
  "deque_push n xs x = drop (Suc (length xs) - n) (xs @ [x])"

text \<open>\<open>while len(d) > n: d.popitem(last=False)\<close>.\<close>

function dict_trim :: "nat \<Rightarrow> 'a list \<Rightarrow> 'a list" where
  "dict_trim n xs = (if length xs > n then dict_trim n (tl xs) else xs)"
  by pat_completeness auto
termination
  by (relation "measure (\<lambda>(n, xs). length xs)") auto

declare dict_trim.simps [simp del]

lemma dict_trim_eq_drop: "dict_trim n xs = drop (length xs - n) xs"
proof (induction n xs rule: dict_trim.induct)
  case (1 n xs)
  show ?case
  proof (cases "length xs > n")
    case True
    then have "dict_trim n xs = drop (length (tl xs) - n) (tl xs)"
      using "1.IH" by (simp add: dict_trim.simps [of n xs])
    with True show ?thesis by (cases xs) (auto simp: Suc_diff_le)
  next
    case False
    then show ?thesis by (simp add: dict_trim.simps [of n xs])
  qed
qed

lemma length_dict_trim [simp]: "length (dict_trim n xs) = min n (length xs)"
  by (simp add: dict_trim_eq_drop)

lemma set_dict_trim: "set (dict_trim n xs) \<subseteq> set xs"
  by (simp add: dict_trim_eq_drop set_drop_subset)

lemma dict_distinct_trim [simp, intro]: "dict_distinct d \<Longrightarrow> dict_distinct (dict_trim n d)"
  by (simp add: dict_distinct_def dict_trim_eq_drop drop_map [symmetric])

lemma dict_trim_last: "0 < n \<Longrightarrow> dict_trim n (xs @ [x]) = dict_trim (n - 1) xs @ [x]"
  by (auto simp: dict_trim_eq_drop Suc_diff_le)

lemma length_deque_push: "length (deque_push n xs x) = min n (Suc (length xs))"
  by (simp add: deque_push_def)

lemma deque_push_bounded: "length (deque_push n xs x) \<le> n"
  by (simp add: length_deque_push)

lemma set_deque_push: "set (deque_push n xs x) \<subseteq> insert x (set xs)"
  unfolding deque_push_def by (rule order_trans [OF set_drop_subset]) auto

lemma sorted_wrt_deque_push:
  "sorted_wrt P xs \<Longrightarrow> (\<And>y. y \<in> set xs \<Longrightarrow> P y x) \<Longrightarrow> sorted_wrt P (deque_push n xs x)"
  unfolding deque_push_def by (rule sorted_wrt_drop) (simp add: sorted_wrt_append)

section \<open>First minimal and first maximal element\<close>

text \<open>\<open>min(xs, key=f)\<close> keeps the first of several minimal elements; so does \<open>max\<close>.\<close>

fun min_from :: "('a \<Rightarrow> 'k::linorder) \<Rightarrow> 'a \<Rightarrow> 'a list \<Rightarrow> 'a" where
  "min_from f x [] = x"
| "min_from f x (y # ys) = min_from f (if f y < f x then y else x) ys"

fun max_from :: "('a \<Rightarrow> 'k::linorder) \<Rightarrow> 'a \<Rightarrow> 'a list \<Rightarrow> 'a" where
  "max_from f x [] = x"
| "max_from f x (y # ys) = max_from f (if f x < f y then y else x) ys"

lemma min_from_in: "min_from f x ys \<in> insert x (set ys)"
proof (induction ys arbitrary: x)
  case (Cons y ys)
  from Cons.IH [of "if f y < f x then y else x"] show ?case by (auto split: if_splits)
qed simp

lemma min_from_le: "y \<in> insert x (set ys) \<Longrightarrow> f (min_from f x ys) \<le> f y"
proof (induction ys arbitrary: x y)
  case (Cons z zs)
  have *: "f (min_from f (if f z < f x then z else x) zs) \<le> f w"
    if "w \<in> insert (if f z < f x then z else x) (set zs)" for w
    using that by (rule Cons.IH)
  show ?case
  proof (cases "y \<in> set zs")
    case True
    then show ?thesis using * by simp
  next
    case False
    then have "f (if f z < f x then z else x) \<le> f y" using Cons.prems by auto
    with * [of "if f z < f x then z else x"] show ?thesis by (simp add: order_trans)
  qed
qed simp

lemma max_from_in: "max_from f x ys \<in> insert x (set ys)"
proof (induction ys arbitrary: x)
  case (Cons y ys)
  from Cons.IH [of "if f x < f y then y else x"] show ?case by (auto split: if_splits)
qed simp

lemma max_from_ge: "y \<in> insert x (set ys) \<Longrightarrow> f y \<le> f (max_from f x ys)"
proof (induction ys arbitrary: x y)
  case (Cons z zs)
  have *: "f w \<le> f (max_from f (if f x < f z then z else x) zs)"
    if "w \<in> insert (if f x < f z then z else x) (set zs)" for w
    using that by (rule Cons.IH)
  show ?case
  proof (cases "y \<in> set zs")
    case True
    then show ?thesis using * by simp
  next
    case False
    then have "f y \<le> f (if f x < f z then z else x)" using Cons.prems by auto
    with * [of "if f x < f z then z else x"] show ?thesis by (auto intro: order_trans)
  qed
qed simp

fun py_min :: "('a \<Rightarrow> 'k::linorder) \<Rightarrow> 'a list \<Rightarrow> 'a res" where
  "py_min f [] = Inl (ValueError ''min() arg is an empty sequence'')"
| "py_min f (x # xs) = Inr (min_from f x xs)"

lemma py_min_Inr: "py_min f xs = Inr m \<Longrightarrow> m \<in> set xs \<and> (\<forall>y \<in> set xs. f m \<le> f y)"
  by (cases xs) (use min_from_in [of f] min_from_le [of _ _ _ f] in auto)

lemma py_min_total: "xs \<noteq> [] \<Longrightarrow> \<exists>m. py_min f xs = Inr m"
  by (cases xs) auto

section \<open>Unique elements\<close>

lemma filter_unique: "distinct (map f xs) \<Longrightarrow> x \<in> set xs \<Longrightarrow> filter (\<lambda>y. f y = f x) xs = [x]"
proof (induction xs)
  case (Cons a xs)
  then show ?case
  proof (cases "a = x")
    case True
    then have "f x \<notin> f ` set xs" using Cons.prems(1) by simp
    then have "filter (\<lambda>y. f y = f x) xs = []" by (auto simp: filter_empty_conv image_iff)
    then show ?thesis using True by simp
  next
    case False
    then have "f a \<noteq> f x" using Cons.prems by auto
    then show ?thesis using Cons False by simp
  qed
qed simp

section \<open>Ordered deduplication\<close>

text \<open>\<open>dict.fromkeys(xs)\<close>: the first occurrence of each element, in order.\<close>

definition fromkeys :: "'a list \<Rightarrow> 'a list" where
  "fromkeys xs = rev (remdups (rev xs))"

lemma set_fromkeys [simp]: "set (fromkeys xs) = set xs"
  by (simp add: fromkeys_def)

lemma distinct_fromkeys [simp]: "distinct (fromkeys xs)"
  by (simp add: fromkeys_def)

section \<open>Strings\<close>

definition str_startswith :: "string \<Rightarrow> string \<Rightarrow> bool" where
  "str_startswith s prefix \<longleftrightarrow> take (length prefix) s = prefix"

lemma str_startswith_append [simp]: "str_startswith (p @ s) p"
  by (simp add: str_startswith_def)

lemma str_startswith_iff: "str_startswith s p \<longleftrightarrow> (\<exists>r. s = p @ r)"
  by (metis append_eq_conv_conj append_take_drop_id str_startswith_def)

definition removeprefix :: "string \<Rightarrow> string \<Rightarrow> string" where
  "removeprefix prefix s = (if str_startswith s prefix then drop (length prefix) s else s)"

definition upper_char :: "char \<Rightarrow> char" where
  "upper_char c = (let n = of_char c in if 97 \<le> n \<and> n \<le> (122::nat) then char_of (n - 32) else c)"

definition lower_char :: "char \<Rightarrow> char" where
  "lower_char c = (let n = of_char c in if 65 \<le> n \<and> n \<le> (90::nat) then char_of (n + 32) else c)"

definition str_upper :: "string \<Rightarrow> string" where
  "str_upper s = map upper_char s"

definition str_lower :: "string \<Rightarrow> string" where
  "str_lower s = map lower_char s"

definition is_digit_char :: "char \<Rightarrow> bool" where
  "is_digit_char c \<longleftrightarrow> 48 \<le> (of_char c :: nat) \<and> (of_char c :: nat) \<le> 57"

definition digits_value :: "string \<Rightarrow> int" where
  "digits_value s = foldl (\<lambda>n c. 10 * n + (int (of_char c) - 48)) 0 s"

fun show_nat :: "nat \<Rightarrow> string" where
  "show_nat n = (if n < 10 then [char_of (48 + n)] else show_nat (n div 10) @ [char_of (48 + n mod 10)])"

declare show_nat.simps [simp del]

definition show_int :: "int \<Rightarrow> string" where
  "show_int i = (if i < 0 then ''-'' @ show_nat (nat (- i)) else show_nat (nat i))"

definition str_join :: "string \<Rightarrow> string list \<Rightarrow> string" where
  "str_join sep xs = (case xs of [] \<Rightarrow> [] | y # ys \<Rightarrow> y @ concat (map (\<lambda>s. sep @ s) ys))"

definition str_contains :: "string \<Rightarrow> string \<Rightarrow> bool" where
  "str_contains s sub \<longleftrightarrow> (\<exists>i \<in> set [0..<Suc (length s)]. take (length sub) (drop i s) = sub)"

lemma digits_value_append:
  "digits_value (s @ [c]) = 10 * digits_value s + (int (of_char c) - 48)"
  by (simp add: digits_value_def)

lemma digits_value_show_nat: "digits_value (show_nat n) = int n"
proof (induction n rule: show_nat.induct)
  case (1 n)
  show ?case
  proof (cases "n < 10")
    case True
    then show ?thesis
      by (subst show_nat.simps) (simp add: digits_value_def of_char_of)
  next
    case False
    then have "digits_value (show_nat (n div 10)) = int (n div 10)"
      using "1.IH" by simp
    with False show ?thesis
      by (subst show_nat.simps) (simp add: digits_value_append of_char_of zmod_int zdiv_int)
  qed
qed

section \<open>Step systems\<close>

text \<open>
  The interface between an operation set and the properties of its runs: a step relation, an
  invariant every step keeps, and a preorder every step climbs (given the invariant). A component
  proves the laws once; runs of any length follow.
\<close>

locale step_system =
  fixes step :: "'s \<Rightarrow> 's \<Rightarrow> bool"
    and inv :: "'s \<Rightarrow> bool"
  assumes step_inv: "inv s \<Longrightarrow> step s t \<Longrightarrow> inv t"
begin

lemma run_inv: "step\<^sup>*\<^sup>* s t \<Longrightarrow> inv s \<Longrightarrow> inv t"
  by (induction rule: rtranclp_induct) (auto intro: step_inv)

end

locale monotone_system = step_system +
  fixes above :: "'s \<Rightarrow> 's \<Rightarrow> bool"
  assumes above_refl: "above s s"
    and above_trans: "above s t \<Longrightarrow> above t u \<Longrightarrow> above s u"
    and step_above: "inv s \<Longrightarrow> step s t \<Longrightarrow> above s t"
begin

lemma run_above: "step\<^sup>*\<^sup>* s t \<Longrightarrow> inv s \<Longrightarrow> above s t"
proof (induction rule: rtranclp_induct)
  case base
  show ?case by (rule above_refl)
next
  case (step t u)
  then show ?case by (meson above_trans run_inv step_above)
qed

end

section \<open>Durations\<close>

text \<open>\<open>timedelta(seconds=x)\<close> keeps whole microseconds, a tie goes to the even one.\<close>

definition round_half_even :: "real \<Rightarrow> int" where
  "round_half_even x =
     (let f = \<lfloor>x\<rfloor> in
      if x - real_of_int f < 1 / 2 then f
      else if x - real_of_int f > 1 / 2 then f + 1
      else if even f then f else f + 1)"

definition timedelta_seconds :: "real \<Rightarrow> int" where
  "timedelta_seconds x = round_half_even (x * 1000000)"

lemma timedelta_seconds_whole: "timedelta_seconds (real_of_int n) = n * 1000000"
proof -
  have "real_of_int n * 1000000 = real_of_int (n * 1000000)" by simp
  then show ?thesis by (simp only: timedelta_seconds_def round_half_even_def floor_of_int) simp
qed

section \<open>Clamping\<close>

definition clamp :: "real \<Rightarrow> real \<Rightarrow> real \<Rightarrow> real" where
  "clamp lower upper v = max lower (min upper v)"

definition clamp01 :: "real \<Rightarrow> real" where
  "clamp01 v = clamp 0 1 v"

lemma clamp_bounds: "lower \<le> upper \<Longrightarrow> lower \<le> clamp lower upper v \<and> clamp lower upper v \<le> upper"
  by (auto simp: clamp_def)

lemma clamp01_bounds [simp]: "0 \<le> clamp01 v" "clamp01 v \<le> 1"
  by (auto simp: clamp01_def clamp_def)

lemma clamp01_id: "0 \<le> v \<Longrightarrow> v \<le> 1 \<Longrightarrow> clamp01 v = v"
  by (simp add: clamp01_def clamp_def)

end
