(* ===== verification/SF_Contracts.thy ===== *)
theory SF_Contracts
  imports SF_Prelude
begin

text \<open>
  The State Plane contracts of \<open>stateflow/state/contracts.py\<close>: timestamps, source authority and
  its parser, graph entities and their validation, relations, state values with their freshness
  rule, metrics, events, heartbeats, snapshots and changes. Every record has the fields of the
  frozen dataclass of the same name, prefixed by an abbreviation of the class.

  Timestamps and durations are integers of microseconds, Python's own resolution; the overflow of
  the calendar range is not modelled. A \<open>datetime\<close> is a wall-clock reading with an optional UTC
  offset. Defaults filled in by \<open>utcnow()\<close> and \<open>uuid4()\<close> are arguments of the model.
\<close>

section \<open>Timestamps\<close>

type_synonym timedelta = int

record datetime =
  dt_wall :: int
  dt_offset :: "timedelta option"

definition datetime_aware :: "datetime \<Rightarrow> datetime" where
  "datetime_aware v = (if dt_offset v \<noteq> None then v else v\<lparr>dt_offset := Some 0\<rparr>)"

text \<open>
  Aware datetimes compare by the instant they denote. \<^term>\<open>instant\<close> reads it after
  \<^const>\<open>datetime_aware\<close>, which is how the program compares timestamps everywhere.
\<close>

definition instant :: "datetime \<Rightarrow> int" where
  "instant v = dt_wall v - (case dt_offset v of None \<Rightarrow> 0 | Some d \<Rightarrow> d)"

lemma instant_aware [simp]: "instant (datetime_aware v) = instant v"
  by (simp add: instant_def datetime_aware_def)

lemma aware_idem [simp]: "datetime_aware (datetime_aware v) = datetime_aware v"
  by (simp add: datetime_aware_def)

definition utc :: "int \<Rightarrow> datetime" where
  "utc t = \<lparr>dt_wall = t, dt_offset = Some 0\<rparr>"

lemma instant_utc [simp]: "instant (utc t) = t"
  by (simp add: instant_def utc_def)

section \<open>Dynamic values\<close>

text \<open>
  The values that travel through the plane untyped (\<open>Any\<close>). \<open>PNonFinite\<close> is a float that is NaN
  or infinite. Lists and tuples are not told apart, as the code never does.
\<close>

datatype pyval =
    PNone
  | PBool bool
  | PInt int
  | PFloat real
  | PNonFinite
  | PStr string
  | PTime datetime
  | PList "pyval list"
  | PDict "(string \<times> pyval) list"

fun is_number :: "pyval \<Rightarrow> bool" where
  "is_number (PInt _) = True"
| "is_number (PFloat _) = True"
| "is_number PNonFinite = True"
| "is_number _ = False"

fun is_str :: "pyval \<Rightarrow> bool" where
  "is_str (PStr _) = True"
| "is_str _ = False"

section \<open>Source authority\<close>

datatype source_authority =
    LOG_HINT
  | DERIVED
  | DIRECT_TELEMETRY
  | STRUCTURED_LIFECYCLE
  | AUTHORITATIVE_DOMAIN

fun authority_value :: "source_authority \<Rightarrow> int" where
  "authority_value LOG_HINT = 0"
| "authority_value DERIVED = 1"
| "authority_value DIRECT_TELEMETRY = 2"
| "authority_value STRUCTURED_LIFECYCLE = 3"
| "authority_value AUTHORITATIVE_DOMAIN = 4"

lemma authority_value_inj: "authority_value a = authority_value b \<longleftrightarrow> a = b"
  by (cases a; cases b) auto

instantiation source_authority :: linorder
begin

definition less_eq_source_authority :: "source_authority \<Rightarrow> source_authority \<Rightarrow> bool" where
  "less_eq_source_authority a b \<longleftrightarrow> authority_value a \<le> authority_value b"

definition less_source_authority :: "source_authority \<Rightarrow> source_authority \<Rightarrow> bool" where
  "less_source_authority a b \<longleftrightarrow> authority_value a < authority_value b"

instance
  by standard (auto simp: less_eq_source_authority_def less_source_authority_def authority_value_inj)

end

lemmas authority_order = less_eq_source_authority_def less_source_authority_def

definition authority_of_int :: "int \<Rightarrow> source_authority res" where
  "authority_of_int i =
     (if i = 0 then Inr LOG_HINT
      else if i = 1 then Inr DERIVED
      else if i = 2 then Inr DIRECT_TELEMETRY
      else if i = 3 then Inr STRUCTURED_LIFECYCLE
      else if i = 4 then Inr AUTHORITATIVE_DOMAIN
      else Inl (ValueError ''not a valid SourceAuthority''))"

definition authority_names :: "(string, source_authority) dict" where
  "authority_names =
     [(''LOG_HINT'', LOG_HINT), (''DERIVED'', DERIVED), (''DIRECT_TELEMETRY'', DIRECT_TELEMETRY),
      (''STRUCTURED_LIFECYCLE'', STRUCTURED_LIFECYCLE),
      (''AUTHORITATIVE_DOMAIN'', AUTHORITATIVE_DOMAIN)]"

definition authority_aliases :: "(string, source_authority) dict" where
  "authority_aliases =
     [(''DOMAIN_OWNER'', AUTHORITATIVE_DOMAIN), (''OWNER'', AUTHORITATIVE_DOMAIN),
      (''LIFECYCLE'', STRUCTURED_LIFECYCLE), (''TELEMETRY'', DIRECT_TELEMETRY),
      (''LOG'', LOG_HINT)]"

datatype authority_input = AuthEnum source_authority | AuthStr string | AuthInt int

definition is_sign :: "char \<Rightarrow> bool" where
  "is_sign c \<longleftrightarrow> c = CHR ''+'' \<or> c = CHR ''-''"

text \<open>\<open>int(value)\<close> of a string of signs and digits: at most one sign is accepted.\<close>

definition int_of_signed :: "string \<Rightarrow> int res" where
  "int_of_signed s =
     (let digits = dropWhile is_sign s in
      if length s - length digits > 1 then Inl (ValueError ''invalid literal for int()'')
      else Inr (if str_startswith s ''-'' then - digits_value digits else digits_value digits))"

definition authority_parse_str :: "string \<Rightarrow> source_authority res" where
  "authority_parse_str value =
     (let digits = dropWhile is_sign value in
      if digits \<noteq> [] \<and> list_all is_digit_char digits
      then res_bind (int_of_signed value) authority_of_int
      else
        let normalized = removeprefix ''A4_'' (removeprefix ''A3_'' (removeprefix ''A2_''
              (removeprefix ''A1_'' (removeprefix ''A0_'' (str_upper value)))))
        in (case dict_get authority_aliases normalized of
              Some a \<Rightarrow> Inr a
            | None \<Rightarrow>
                (case dict_get authority_names normalized of
                   Some a \<Rightarrow> Inr a
                 | None \<Rightarrow> Inl (KeyError normalized))))"

fun authority_parse :: "authority_input \<Rightarrow> source_authority res" where
  "authority_parse (AuthEnum a) = Inr a"
| "authority_parse (AuthStr s) = authority_parse_str s"
| "authority_parse (AuthInt i) = authority_of_int i"

lemma authority_of_int_value: "authority_of_int (authority_value a) = Inr a"
  by (cases a) (auto simp: authority_of_int_def)

lemma authority_of_int_Inr_iff: "authority_of_int i = Inr a \<longleftrightarrow> i = authority_value a"
  by (cases a) (auto simp: authority_of_int_def)

text \<open>The name of a level, \<open>authority.name\<close>, as written with its rank prefix.\<close>

fun authority_name :: "source_authority \<Rightarrow> string" where
  "authority_name LOG_HINT = ''LOG_HINT''"
| "authority_name DERIVED = ''DERIVED''"
| "authority_name DIRECT_TELEMETRY = ''DIRECT_TELEMETRY''"
| "authority_name STRUCTURED_LIFECYCLE = ''STRUCTURED_LIFECYCLE''"
| "authority_name AUTHORITATIVE_DOMAIN = ''AUTHORITATIVE_DOMAIN''"

lemma authority_parse_name: "authority_parse_str (authority_name a) = Inr a"
  by (induction a) code_simp+

lemma authority_parse_rank_string: "authority_parse_str (show_int (authority_value a)) = Inr a"
  by (induction a) code_simp+

section \<open>Graph entities\<close>

datatype state_semantic = SEM_OBSERVED | SEM_DERIVED | SEM_RESERVED | SEM_COMMITTED

datatype graph_kind = COMPONENT | DEPLOYMENT

fun graph_value :: "graph_kind \<Rightarrow> string" where
  "graph_value COMPONENT = ''component''"
| "graph_value DEPLOYMENT = ''deployment''"

definition COMPONENT_ENTITY_TYPES :: "string list" where
  "COMPONENT_ENTITY_TYPES =
     [''component'', ''agent'', ''session'', ''task'', ''request'', ''tool_call'',
      ''stateful_object'', ''runtime_object'', ''state_key_catalog'']"

definition DEPLOYMENT_ENTITY_TYPES :: "string list" where
  "DEPLOYMENT_ENTITY_TYPES = [''cluster'', ''node'', ''instance'', ''resource'', ''link'']"

record source_ref =
  sr_backend :: string
  sr_reference :: string
  sr_trace_id :: string
  sr_span_id :: string

record correlation_identity =
  ci_trace_id :: string
  ci_span_id :: string
  ci_agent_id :: string
  ci_session_id :: string
  ci_request_id :: string
  ci_action_id :: string
  ci_component_id :: string
  ci_instance_id :: string

record canonical_key =
  ck_key :: string
  ck_entity_types :: "string list"
  ck_value_type :: string
  ck_unit :: string
  ck_semantic :: state_semantic
  ck_source_priority :: "source_authority list"
  ck_update_mode :: string
  ck_ttl :: "timedelta option"
  ck_aggregation :: string
  ck_cardinality_policy :: string
  ck_schema_version :: string
  ck_deprecated :: bool
  ck_aliases :: "string list"

record component_descriptor =
  cd_component_id :: string
  cd_kind :: string
  cd_implementation :: string
  cd_version :: string
  cd_schema_versions :: "string list"
  cd_produces_state :: "string list"
  cd_consumes_state :: "string list"
  cd_produces_metrics :: "string list"
  cd_consumes_metrics :: "string list"
  cd_manages_types :: "string list"
  cd_relation_capabilities :: "string list"
  cd_update_mode :: string
  cd_endpoint :: string

record graph_entity =
  ge_ref :: string
  ge_graph :: graph_kind
  ge_entity_type :: string
  ge_lifecycle :: string
  ge_owner_component_ref :: string
  ge_parent_ref :: string
  ge_labels :: "(string, string) dict"
  ge_schema_version :: string

definition allowed_entity_types :: "graph_kind \<Rightarrow> string list" where
  "allowed_entity_types g =
     (if g = COMPONENT then COMPONENT_ENTITY_TYPES else DEPLOYMENT_ENTITY_TYPES)"

definition entity_ref_prefix :: "graph_kind \<Rightarrow> string \<Rightarrow> string" where
  "entity_ref_prefix g entity_type = graph_value g @ ''/'' @ entity_type @ ''/''"

definition graph_entity_post_init :: "graph_entity \<Rightarrow> graph_entity res" where
  "graph_entity_post_init e =
     (if ge_entity_type e \<notin> set (allowed_entity_types (ge_graph e))
      then Inl (ValueError (''entity type '' @ ge_entity_type e @ '' is invalid for ''
             @ graph_value (ge_graph e) @ '' graph''))
      else
        let prefix = entity_ref_prefix (ge_graph e) (ge_entity_type e) in
        if \<not> str_startswith (ge_ref e) prefix \<or> length (ge_ref e) = length prefix
        then Inl (ValueError (''entity ref must be '' @ [CHR 0x27]
               @ ''<graph>/<entity_type>/<id>'' @ [CHR 0x27]))
        else Inr e)"

text \<open>The entities that exist at run time: those whose construction did not raise.\<close>

definition wf_entity :: "graph_entity \<Rightarrow> bool" where
  "wf_entity e \<longleftrightarrow> graph_entity_post_init e = Inr e"

lemma wf_entity_iff:
  "wf_entity e \<longleftrightarrow> ge_entity_type e \<in> set (allowed_entity_types (ge_graph e)) \<and>
     (\<exists>i. i \<noteq> [] \<and> ge_ref e = entity_ref_prefix (ge_graph e) (ge_entity_type e) @ i)"
  by (auto simp: wf_entity_def graph_entity_post_init_def Let_def str_startswith_iff)

lemma entity_types_no_slash:
  "t \<in> set (allowed_entity_types g) \<Longrightarrow> CHR ''/'' \<notin> set t"
  by (cases g)
    (auto simp: allowed_entity_types_def COMPONENT_ENTITY_TYPES_def DEPLOYMENT_ENTITY_TYPES_def)

lemma append_slash_unique:
  assumes "a @ CHR ''/'' # x = b @ CHR ''/'' # y" "CHR ''/'' \<notin> set a" "CHR ''/'' \<notin> set b"
  shows "a = b \<and> x = y"
  using assms
proof (induction a arbitrary: b)
  case Nil
  then show ?case by (cases b) auto
next
  case (Cons c cs)
  then show ?case by (cases b) auto
qed

text \<open>An entity reference determines the graph and the entity type.\<close>

lemma wf_entity_ref_unique:
  assumes "wf_entity e" "wf_entity f" "ge_ref e = ge_ref f"
  shows "ge_graph e = ge_graph f \<and> ge_entity_type e = ge_entity_type f"
proof -
  obtain i where i: "ge_ref e = entity_ref_prefix (ge_graph e) (ge_entity_type e) @ i"
    using assms(1) by (auto simp: wf_entity_iff)
  obtain j where j: "ge_ref f = entity_ref_prefix (ge_graph f) (ge_entity_type f) @ j"
    using assms(2) by (auto simp: wf_entity_iff)
  have eq: "entity_ref_prefix (ge_graph e) (ge_entity_type e) @ i
      = entity_ref_prefix (ge_graph f) (ge_entity_type f) @ j"
    using i j assms(3) by simp
  have ty: "ge_entity_type e \<in> set (allowed_entity_types (ge_graph e))"
      "ge_entity_type f \<in> set (allowed_entity_types (ge_graph f))"
    using assms(1,2) by (auto simp: wf_entity_iff)
  have gs: "CHR ''/'' \<notin> set (graph_value g)" for g by (cases g) auto
  from eq have "graph_value (ge_graph e) = graph_value (ge_graph f) \<and>
      ge_entity_type e @ CHR ''/'' # i = ge_entity_type f @ CHR ''/'' # j"
    by (intro append_slash_unique) (auto simp: entity_ref_prefix_def gs)
  moreover from this have "ge_entity_type e = ge_entity_type f"
    using append_slash_unique entity_types_no_slash ty by blast
  moreover have "graph_value g = graph_value h \<Longrightarrow> g = h" for g h by (cases g; cases h) auto
  ultimately show ?thesis by blast
qed

section \<open>Relations, values, samples, events\<close>

record relation_update =
  ru_source_ref :: string
  ru_relation_type :: string
  ru_target_ref :: string
  ru_producer :: string
  ru_timestamp :: datetime
  ru_authority :: source_authority
  ru_attributes :: "(string, pyval) dict"
  ru_ttl :: "timedelta option"
  ru_version :: int
  ru_expected_version :: "int option"
  ru_idempotency_key :: string

record graph_relation =
  gr_source_ref :: string
  gr_relation_type :: string
  gr_target_ref :: string
  gr_producer :: string
  gr_timestamp :: datetime
  gr_authority :: source_authority
  gr_attributes :: "(string, pyval) dict"
  gr_ttl :: "timedelta option"
  gr_version :: int

definition relation_is_fresh :: "graph_relation \<Rightarrow> datetime \<Rightarrow> bool" where
  "relation_is_fresh r now =
     (case gr_ttl r of
        None \<Rightarrow> True
      | Some ttl \<Rightarrow> instant (datetime_aware now) \<le> instant (datetime_aware (gr_timestamp r)) + ttl)"

record state_update =
  su_entity_ref :: string
  su_key :: string
  su_value :: pyval
  su_producer :: string
  su_timestamp :: datetime
  su_ttl :: "timedelta option"
  su_authority :: source_authority
  su_version :: int
  su_semantic :: state_semantic
  su_confidence :: real
  su_source_ref :: "source_ref option"
  su_correlation :: correlation_identity
  su_expected_version :: "int option"
  su_idempotency_key :: string

record metric_sample =
  ms_entity_ref :: string
  ms_metric_key :: string
  ms_value :: pyval
  ms_unit :: string
  ms_producer :: string
  ms_timestamp :: datetime
  ms_labels :: "(string, string) dict"
  ms_correlation :: correlation_identity

record state_event =
  se_event_id :: string
  se_event_type :: string
  se_subject_ref :: string
  se_producer :: string
  se_timestamp :: datetime
  se_correlation :: correlation_identity
  se_payload :: "(string, pyval) dict"
  se_source_ref :: "source_ref option"

record heartbeat =
  hb_subject_ref :: string
  hb_producer :: string
  hb_source_watermark :: string
  hb_schema_version :: string
  hb_timestamp :: datetime
  hb_ttl :: timedelta

record state_value =
  sv_entity_ref :: string
  sv_key :: string
  sv_value :: pyval
  sv_producer :: string
  sv_timestamp :: datetime
  sv_ttl :: "timedelta option"
  sv_authority :: source_authority
  sv_version :: int
  sv_semantic :: state_semantic
  sv_confidence :: real
  sv_source_ref :: "source_ref option"
  sv_correlation :: correlation_identity

definition value_age :: "state_value \<Rightarrow> datetime \<Rightarrow> timedelta" where
  "value_age v now = max 0 (instant (datetime_aware now) - instant (datetime_aware (sv_timestamp v)))"

definition freshness_limit :: "timedelta option \<Rightarrow> timedelta option \<Rightarrow> timedelta option" where
  "freshness_limit ttl max_age =
     (case max_age of
        None \<Rightarrow> ttl
      | Some m \<Rightarrow> (case ttl of None \<Rightarrow> Some m | Some l \<Rightarrow> Some (min l m)))"

definition value_is_fresh :: "state_value \<Rightarrow> datetime \<Rightarrow> timedelta option \<Rightarrow> bool" where
  "value_is_fresh v now max_age =
     (case freshness_limit (sv_ttl v) max_age of None \<Rightarrow> True | Some limit \<Rightarrow> value_age v now \<le> limit)"

record write_result =
  wr_accepted :: bool
  wr_duplicate :: bool
  wr_conflict :: bool
  wr_entity_ref :: string
  wr_key :: string
  wr_version :: int
  wr_reason :: string

record snapshot_request =
  sq_entities :: "string list"
  sq_keys :: "string list"
  sq_max_age_ms :: "(string, int) dict"
  sq_min_authority :: source_authority
  sq_include_relations :: bool

record snapshot =
  sn_token :: string
  sn_logical_time :: int
  sn_created_at :: datetime
  sn_completeness :: real
  sn_values :: "state_value list"
  sn_relations :: "graph_relation list"
  sn_missing :: "string list"
  sn_stale :: "string list"

record graph_query_result =
  gq_snapshot_token :: string
  gq_entities :: "graph_entity list"
  gq_relations :: "graph_relation list"

record state_change =
  sc_cursor :: int
  sc_kind :: string
  sc_subject_ref :: string
  sc_key_or_relation :: string
  sc_version :: int
  sc_timestamp :: datetime

definition snapshot_token :: "int \<Rightarrow> string \<Rightarrow> string" where
  "snapshot_token revision uuid12 = ''snapshot-'' @ show_int revision @ ''-'' @ uuid12"

definition normalize_confidence :: "real \<Rightarrow> real" where
  "normalize_confidence v = clamp01 v"

section \<open>Freshness\<close>

lemma freshness_limit_mono:
  "value_is_fresh v now (Some m) \<Longrightarrow> value_is_fresh v now None"
  by (auto simp: value_is_fresh_def freshness_limit_def split: option.splits)

text \<open>
  Freshness is monotone: tightening the requested age, or asking at an earlier time, can only
  keep a fresh value fresh.
\<close>

lemma value_is_fresh_antimono:
  assumes "value_is_fresh v now (Some m)" "m \<le> m'" "instant now' \<le> instant now"
  shows "value_is_fresh v now' (Some m')"
  using assms
  by (auto simp: value_is_fresh_def freshness_limit_def value_age_def split: option.splits)

text \<open>
  For a non-negative time-to-live the two freshness rules of the code, one on ages and one on
  expiry instants, agree.
\<close>

lemma value_is_fresh_expiry:
  assumes "sv_ttl v = Some ttl" "0 \<le> ttl"
  shows "value_is_fresh v now None \<longleftrightarrow> instant now \<le> instant (sv_timestamp v) + ttl"
  using assms by (auto simp: value_is_fresh_def freshness_limit_def value_age_def)

end
