(* ===== verification/SF_Registry.thy ===== *)
theory SF_Registry
  imports SF_Contracts
begin

text \<open>
  The canonical key registry of \<open>stateflow/state/registry.py\<close> and its default key set.
\<close>

chapter \<open>The registry\<close>

text \<open>
  The canonical key registry of \<open>stateflow/state/registry.py\<close>: registration with aliases,
  resolution, listing and value validation. The default key set is in \<open>SF_Default_Keys\<close>.
\<close>

section \<open>State and operations\<close>

record registry =
  reg_definitions :: "(string, canonical_key) dict"
  reg_aliases :: "(string, string) dict"

definition empty_registry :: registry where
  "empty_registry = \<lparr>reg_definitions = [], reg_aliases = []\<rparr>"

text \<open>The loop over the aliases of a definition, raising at the first one owned by another key.\<close>

fun registry_check_aliases :: "registry \<Rightarrow> canonical_key \<Rightarrow> bool \<Rightarrow> string list \<Rightarrow> unit res" where
  "registry_check_aliases r d replace [] = Inr ()"
| "registry_check_aliases r d replace (alias # rest) =
     (case dict_get (reg_aliases r) alias of
        Some owner \<Rightarrow>
          if owner \<noteq> ck_key d \<and> \<not> replace
          then Inl (ValueError (''canonical key alias already registered: '' @ alias))
          else registry_check_aliases r d replace rest
      | None \<Rightarrow> registry_check_aliases r d replace rest)"

definition registry_register :: "registry \<Rightarrow> canonical_key \<Rightarrow> bool \<Rightarrow> registry res" where
  "registry_register r d replace =
     (if dict_has (reg_definitions r) (ck_key d) \<and> \<not> replace
      then Inl (ValueError (''canonical key already registered: '' @ ck_key d))
      else res_bind (registry_check_aliases r d replace (ck_aliases d)) (\<lambda>_.
        Inr (r\<lparr>reg_definitions := dict_set (reg_definitions r) (ck_key d) d,
               reg_aliases := foldl (\<lambda>m alias. dict_set m alias (ck_key d)) (reg_aliases r)
                                (ck_aliases d)\<rparr>)))"

definition registry_resolve :: "registry \<Rightarrow> string \<Rightarrow> canonical_key res" where
  "registry_resolve r key =
     (let canonical = dict_get_or (reg_aliases r) key key in
      case dict_get (reg_definitions r) canonical of
        Some d \<Rightarrow> Inr d
      | None \<Rightarrow> Inl (UnknownCanonicalKey key))"

definition registry_canonicalize :: "registry \<Rightarrow> string \<Rightarrow> string res" where
  "registry_canonicalize r key = res_bind (registry_resolve r key) (\<lambda>d. Inr (ck_key d))"

definition registry_list :: "registry \<Rightarrow> bool \<Rightarrow> canonical_key list" where
  "registry_list r include_deprecated =
     sort_key ck_key (filter (\<lambda>d. include_deprecated \<or> \<not> ck_deprecated d)
                        (map snd (reg_definitions r)))"

definition validate_value :: "canonical_key \<Rightarrow> pyval \<Rightarrow> bool" where
  "validate_value d value =
     (let kind = ck_value_type d in
      if kind = ''int'' then (case value of PInt _ \<Rightarrow> True | _ \<Rightarrow> False)
      else if kind = ''float'' then is_number value
      else if kind = ''bool'' then (case value of PBool _ \<Rightarrow> True | _ \<Rightarrow> False)
      else if kind \<in> {''string'', ''enum'', ''entity_ref''} then is_str value
      else if kind = ''timestamp'' then (case value of PTime _ \<Rightarrow> True | PStr _ \<Rightarrow> True | _ \<Rightarrow> False)
      else if kind = ''string_list'' then
        (case value of PList xs \<Rightarrow> list_all is_str xs | _ \<Rightarrow> False)
      else if kind = ''map'' then (case value of PDict _ \<Rightarrow> True | _ \<Rightarrow> False)
      else True)"

text \<open>The constructor of a key with the defaults of the dataclass.\<close>

definition canonical :: "string \<Rightarrow> string list \<Rightarrow> string \<Rightarrow> string \<Rightarrow> timedelta \<Rightarrow> canonical_key" where
  "canonical key entity_types value_type unit ttl =
     \<lparr>ck_key = key, ck_entity_types = entity_types, ck_value_type = value_type, ck_unit = unit,
      ck_semantic = SEM_OBSERVED, ck_source_priority = [], ck_update_mode = ''event'',
      ck_ttl = Some ttl, ck_aggregation = ''latest'', ck_cardinality_policy = ''bounded'',
      ck_schema_version = ''1.1'', ck_deprecated = False, ck_aliases = []\<rparr>"

section \<open>Invariant\<close>

text \<open>Every definition is filed under its own key and every alias leads to a definition.\<close>

definition registry_inv :: "registry \<Rightarrow> bool" where
  "registry_inv r \<longleftrightarrow>
     dict_distinct (reg_definitions r) \<and> dict_distinct (reg_aliases r) \<and>
     (\<forall>(k, d) \<in> set (reg_definitions r). ck_key d = k) \<and>
     (\<forall>(a, k) \<in> set (reg_aliases r). dict_has (reg_definitions r) k)"

text \<open>No alias hides the canonical key of another definition.\<close>

definition registry_unshadowed :: "registry \<Rightarrow> bool" where
  "registry_unshadowed r \<longleftrightarrow>
     (\<forall>(a, k) \<in> set (reg_aliases r). dict_has (reg_definitions r) a \<longrightarrow> a = k)"

lemma empty_registry_inv: "registry_inv empty_registry"
  by (simp add: registry_inv_def empty_registry_def)

lemma in_foldl_dict_set_const:
  "(a, k) \<in> set (foldl (\<lambda>m x. dict_set m x v) m xs) \<Longrightarrow> (a \<in> set xs \<and> k = v) \<or> (a, k) \<in> set m"
proof (induction xs arbitrary: m)
  case (Cons x xs)
  then show ?case using in_dict_set [of a k m x v] by fastforce
qed simp

lemma dict_get_foldl_const:
  "dict_get (foldl (\<lambda>m x. dict_set m x v) m xs) k = (if k \<in> set xs then Some v else dict_get m k)"
  by (induction xs arbitrary: m) auto

lemma registry_register_Inr:
  assumes "registry_register r d replace = Inr r'"
  shows "reg_definitions r' = dict_set (reg_definitions r) (ck_key d) d"
    and "reg_aliases r' = foldl (\<lambda>m alias. dict_set m alias (ck_key d)) (reg_aliases r) (ck_aliases d)"
    and "replace \<or> \<not> dict_has (reg_definitions r) (ck_key d)"
  using assms by (auto simp: registry_register_def res_bind_Inr_iff split: if_splits)

lemma registry_register_inv:
  assumes "registry_inv r" "registry_register r d replace = Inr r'"
  shows "registry_inv r'"
proof -
  note eqs = registry_register_Inr [OF assms(2)]
  have "dict_distinct (reg_definitions r')" "dict_distinct (reg_aliases r')"
    using assms(1) pydict.wf_foldl_put [of "reg_aliases r" "\<lambda>x. x" "\<lambda>_. ck_key d" "ck_aliases d"]
    by (auto simp: eqs registry_inv_def)
  moreover have "\<forall>(k, d') \<in> set (reg_definitions r'). ck_key d' = k"
    using assms(1) by (fastforce simp: eqs registry_inv_def dest: in_dict_set)
  moreover have "\<forall>(a, k) \<in> set (reg_aliases r'). dict_has (reg_definitions r') k"
    using assms(1) by (fastforce simp: eqs registry_inv_def dest!: in_foldl_dict_set_const)
  ultimately show ?thesis by (simp add: registry_inv_def)
qed

lemma registry_resolve_in:
  assumes "registry_inv r" "registry_resolve r key = Inr d"
  shows "dict_get (reg_definitions r) (ck_key d) = Some d"
proof -
  let ?c = "dict_get_or (reg_aliases r) key key"
  from assms(2) have "dict_get (reg_definitions r) ?c = Some d"
    by (auto simp: registry_resolve_def Let_def split: option.splits)
  moreover from this have "ck_key d = ?c"
    using assms(1) by (auto simp: registry_inv_def dest: dict_get_Some_in)
  ultimately show ?thesis by simp
qed

text \<open>Without shadowing, resolution is idempotent: a canonical key resolves to itself.\<close>

lemma registry_resolve_canonical:
  assumes "registry_inv r" "registry_unshadowed r" "registry_resolve r key = Inr d"
  shows "registry_resolve r (ck_key d) = Inr d"
proof -
  have d: "dict_get (reg_definitions r) (ck_key d) = Some d"
    using assms(1,3) by (rule registry_resolve_in)
  have "dict_get_or (reg_aliases r) (ck_key d) (ck_key d) = ck_key d"
  proof (cases "dict_get (reg_aliases r) (ck_key d)")
    case (Some k)
    then have "(ck_key d, k) \<in> set (reg_aliases r)" by (rule dict_get_Some_in)
    then show ?thesis using assms(2) d Some
      by (auto simp: registry_unshadowed_def dict_get_or_def dict_has_def)
  qed (simp add: dict_get_or_def)
  with d show ?thesis by (simp add: registry_resolve_def)
qed

chapter \<open>The default keys\<close>

text \<open>
  \<open>default_key_registry\<close> of \<open>stateflow/state/registry.py\<close>: the canonical keys of the design's
  appendix A with their entity types, value types, units and times-to-live, registered one by
  one; the registration never raises and its result satisfies the registry invariant.
\<close>

section \<open>The default key set\<close>

definition default_keys :: "canonical_key list" where
  "default_keys =
     (let dynamic = 500000; lifecycle = 5000000; slow = 30000000 in
     [canonical ''agent.phase'' [''agent''] ''enum'' [] lifecycle,
      canonical ''agent.priority'' [''agent'', ''request''] ''float'' [] slow,
      canonical ''agent.deadline'' [''agent'', ''request''] ''timestamp'' [] slow,
      canonical ''agent.expected_resume_time'' [''agent''] ''timestamp'' [] lifecycle,
      canonical ''session.status'' [''session''] ''enum'' [] lifecycle,
      canonical ''task.dependencies'' [''task''] ''string_list'' [] slow,
      canonical ''request.context_tokens'' [''request''] ''int'' ''token'' lifecycle,
      canonical ''request.expected_output_tokens'' [''request''] ''int'' ''token'' lifecycle,
      canonical ''request.queue_time'' [''request''] ''float'' ''s'' dynamic,
      canonical ''request.retry_count'' [''request''] ''int'' [] lifecycle,
      canonical ''request.target_instance'' [''request''] ''entity_ref'' [] lifecycle,
      (canonical ''runtime.queue_depth'' [''component''] ''int'' [] dynamic)
        \<lparr>ck_aliases := [''runtime.queue.waiting_requests'', ''num_waiting'', ''queue_length'']\<rparr>,
      canonical ''runtime.running'' [''component''] ''int'' [] dynamic,
      canonical ''runtime.ttft_p95'' [''component''] ''float'' ''s'' dynamic,
      canonical ''runtime.tpot_p95'' [''component''] ''float'' ''s'' dynamic,
      canonical ''runtime.prefill_tps'' [''component''] ''float'' ''token/s'' dynamic,
      canonical ''runtime.decode_tps'' [''component''] ''float'' ''token/s'' dynamic,
      canonical ''runtime.kv_usage'' [''component''] ''float'' ''ratio'' dynamic,
      canonical ''runtime.health'' [''component''] ''enum'' [] dynamic,
      canonical ''kv.location'' [''stateful_object''] ''entity_ref'' [] lifecycle,
      canonical ''kv.size'' [''stateful_object''] ''int'' ''byte'' lifecycle,
      canonical ''kv.replica_count'' [''stateful_object''] ''int'' [] lifecycle,
      canonical ''kv.cache_hit'' [''stateful_object'', ''request''] ''bool'' [] lifecycle,
      canonical ''kv.transfer_state'' [''stateful_object''] ''enum'' [] lifecycle,
      canonical ''kv.soft_pin'' [''stateful_object''] ''bool'' [] lifecycle,
      (canonical ''kv.reuse_probability'' [''stateful_object''] ''float'' ''ratio'' lifecycle)
        \<lparr>ck_semantic := SEM_DERIVED, ck_source_priority := [DERIVED]\<rparr>,
      canonical ''tool.queue_depth'' [''component'', ''tool_call''] ''int'' [] lifecycle,
      canonical ''tool.available_concurrency'' [''component''] ''int'' [] lifecycle,
      canonical ''tool.latency_p95'' [''component''] ''float'' ''s'' lifecycle,
      canonical ''tool.success_rate'' [''component''] ''float'' ''ratio'' lifecycle,
      canonical ''node.allocatable'' [''node''] ''map'' [] slow,
      canonical ''node.health'' [''node''] ''enum'' [] lifecycle,
      canonical ''instance.ready'' [''instance''] ''bool'' [] lifecycle,
      canonical ''instance.allocated_gpu'' [''instance''] ''float'' ''gpu'' slow,
      canonical ''resource.hbm.used'' [''resource''] ''int'' ''byte'' dynamic,
      canonical ''resource.hbm.reserved'' [''resource''] ''int'' ''byte'' dynamic,
      canonical ''resource.gpu.util'' [''resource''] ''float'' ''ratio'' dynamic,
      (canonical ''link.effective_bw'' [''link''] ''float'' ''byte/s'' dynamic)
        \<lparr>ck_semantic := SEM_DERIVED\<rparr>])"

fun registry_register_all :: "registry \<Rightarrow> canonical_key list \<Rightarrow> registry res" where
  "registry_register_all r [] = Inr r"
| "registry_register_all r (d # ds) =
     res_bind (registry_register r d False) (\<lambda>r'. registry_register_all r' ds)"

definition default_key_registry :: "registry res" where
  "default_key_registry = registry_register_all empty_registry default_keys"

lemma registry_register_all_inv:
  "registry_inv r \<Longrightarrow> registry_register_all r ds = Inr r' \<Longrightarrow> registry_inv r'"
  by (induction ds arbitrary: r) (auto simp: res_bind_Inr_iff intro: registry_register_inv)

lemma default_key_registry_total: "\<exists>r. default_key_registry = Inr r"
proof -
  have "(case default_key_registry of Inl _ \<Rightarrow> False | Inr _ \<Rightarrow> True)" by code_simp
  then show ?thesis by (auto split: sum.splits)
qed

text \<open>The default registry as a value, for use in examples.\<close>

definition default_registry :: registry where
  "default_registry = (case default_key_registry of Inr r \<Rightarrow> r | Inl _ \<Rightarrow> empty_registry)"

lemma default_registry_inv: "registry_inv default_registry"
  using default_key_registry_total
  by (auto simp: default_registry_def default_key_registry_def
      intro: registry_register_all_inv [OF empty_registry_inv])

lemma default_registry_unshadowed: "registry_unshadowed default_registry"
  by code_simp

lemma default_registry_resolve_alias:
  "res_bind (registry_resolve default_registry ''num_waiting'') (\<lambda>d. Inr (ck_key d))
     = Inr ''runtime.queue_depth''"
  by code_simp

end
