(* ===== verification/SF_Fnmatch.thy ===== *)
theory SF_Fnmatch
  imports SF_Prelude
begin

text \<open>
  Python's \<open>fnmatch.fnmatchcase\<close>, with which the State Plane matches key patterns: \<open>*\<close>, \<open>?\<close>,
  \<open>[seq]\<close> and \<open>[!seq]\<close>, an unclosed bracket being a literal one. The lemmas say what the plane
  relies on: a pattern without magic characters matches exactly itself, and a plain prefix
  followed by \<open>*\<close> matches exactly the strings with that prefix.
\<close>

definition magic_chars :: "char set" where
  "magic_chars = {CHR ''*'', CHR ''?'', CHR ''[''}"

text \<open>The body of a bracket: everything up to the closing bracket, if there is one.\<close>

fun take_class :: "string \<Rightarrow> (string \<times> string) option" where
  "take_class [] = None"
| "take_class (c # cs) =
     (if c = CHR '']'' then Some ([], cs)
      else map_option (\<lambda>(s, r). (c # s, r)) (take_class cs))"

lemma take_class_length: "take_class p = Some (s, r) \<Longrightarrow> length r < length p"
proof (induction p arbitrary: s r)
  case (Cons c cs)
  then show ?case by (fastforce split: if_splits)
qed simp

text \<open>
  A leading \<open>!\<close> negates; a closing bracket in first position is a member. The result is the
  negation flag, the members and the rest of the pattern.
\<close>

definition class_split :: "string \<Rightarrow> (bool \<times> string \<times> string) option" where
  "class_split p =
     (let (neg, q) = (case p of c # cs \<Rightarrow> if c = CHR ''!'' then (True, cs) else (False, p)
                              | [] \<Rightarrow> (False, p));
          (first, q') = (case q of c # cs \<Rightarrow> if c = CHR '']'' then ([c], cs) else ([], q)
                                 | [] \<Rightarrow> ([], q))
      in case take_class q' of
           None \<Rightarrow> None
         | Some (s, r) \<Rightarrow> Some (neg, first @ s, r))"

lemma class_split_length: "class_split p = Some (neg, s, r) \<Longrightarrow> length r < length p"
  by (auto simp: class_split_def split: list.splits if_splits option.splits dest!: take_class_length)

function class_member :: "string \<Rightarrow> char \<Rightarrow> bool" where
  "class_member [] c = False"
| "class_member [a] c = (a = c)"
| "class_member [a, d] c = (a = c \<or> d = c)"
| "class_member (a # d # b # rest) c =
     (if d = CHR ''-'' then (a \<le> c \<and> c \<le> b) \<or> class_member rest c
      else a = c \<or> class_member (d # b # rest) c)"
  by pat_completeness auto
termination
  by (relation "measure (\<lambda>(p, c). length p)") auto

function fnmatch :: "string \<Rightarrow> string \<Rightarrow> bool" where
  "fnmatch s [] = (s = [])"
| "fnmatch s (p # ps) =
     (if p = CHR ''*'' then fnmatch s ps \<or> (case s of [] \<Rightarrow> False | _ # cs \<Rightarrow> fnmatch cs (p # ps))
      else (case s of
              [] \<Rightarrow> False
            | c # cs \<Rightarrow>
                if p = CHR ''?'' then fnmatch cs ps
                else if p = CHR ''['' then
                  (case class_split ps of
                     None \<Rightarrow> c = p \<and> fnmatch cs ps
                   | Some (neg, members, rest) \<Rightarrow>
                       class_member members c \<noteq> neg \<and> fnmatch cs rest)
                else c = p \<and> fnmatch cs ps))"
  by pat_completeness auto
termination
  by (relation "measure (\<lambda>(s, p). length s + length p)") (auto dest: class_split_length)

declare fnmatch.simps(2) [simp del]

lemma fnmatch_Cons_plain:
  "p \<notin> magic_chars \<Longrightarrow> fnmatch s (p # ps) \<longleftrightarrow> (\<exists>cs. s = p # cs \<and> fnmatch cs ps)"
  by (cases s) (auto simp: fnmatch.simps(2) magic_chars_def)

lemma fnmatch_plain: "set p \<inter> magic_chars = {} \<Longrightarrow> fnmatch s p \<longleftrightarrow> s = p"
  by (induction p arbitrary: s) (auto simp: fnmatch_Cons_plain)

lemma fnmatch_star: "fnmatch s ''*''"
  by (induction s) (simp_all add: fnmatch.simps(2))

lemma fnmatch_prefix:
  "set p \<inter> magic_chars = {} \<Longrightarrow> fnmatch s (p @ ''*'') \<longleftrightarrow> str_startswith s p"
  by (induction p arbitrary: s)
    (auto simp: fnmatch_Cons_plain fnmatch_star str_startswith_iff)

text \<open>A question mark stands for exactly one character.\<close>

lemma fnmatch_question: "fnmatch s (CHR ''?'' # p) \<longleftrightarrow> s \<noteq> [] \<and> fnmatch (tl s) p"
  by (cases s) (auto simp: fnmatch.simps(2))

lemma fnmatch_brackets_example:
  "fnmatch ''kv.size'' ''kv.[a-z]*'' \<and> \<not> fnmatch ''kv.Size'' ''kv.[a-z]*''
    \<and> fnmatch ''kv.Size'' ''kv.[!a-z]*'' \<and> fnmatch ''a[b'' ''a[b''"
  by code_simp

end
