(* ===== verification/SF_Plane.thy ===== *)
theory SF_Plane
  imports SF_Registry SF_Fnmatch
begin

text \<open>
  The State Plane of \<open>stateflow/state/plane.py\<close>: its state and the operations that change it.
  Every public method runs under one re-entrant lock, so an operation is one atomic step from
  state to state. Subscriber callbacks run outside the lock and cannot fail the call; the model
  returns the changes that \<open>_notify\<close> delivers, in order, next to the results. The current time
  and the random suffix of a snapshot token are arguments.
\<close>

section \<open>State\<close>

record plane =
  pl_registry :: registry
  pl_components :: "(string, component_descriptor) dict"
  pl_entities :: "(string, graph_entity) dict"
  pl_state :: "(string \<times> string, state_value) dict"
  pl_relations :: "(string \<times> string \<times> string, graph_relation) dict"
  pl_metrics :: "metric_sample list"
  pl_events :: "(string, state_event) dict"
  pl_heartbeats :: "(string, heartbeat) dict"
  pl_idempotency :: "(string, write_result) dict"
  pl_snapshots :: "(string, snapshot) dict"
  pl_changes :: "state_change list"
  pl_revision :: int
  pl_max_snapshots :: nat
  pl_max_changes :: nat
  pl_max_metrics :: nat
  pl_max_events :: nat

text \<open>
  The constructor; \<open>deque(maxlen=max_changes)\<close> raises on a negative length, the other bounds are
  raised to at least one.
\<close>

definition plane_init :: "registry \<Rightarrow> int \<Rightarrow> int \<Rightarrow> int \<Rightarrow> int \<Rightarrow> plane res" where
  "plane_init r max_snapshots max_changes max_metrics max_events =
     (if max_changes < 0 then Inl (ValueError ''maxlen must be non-negative'')
      else Inr
       \<lparr>pl_registry = r, pl_components = [], pl_entities = [], pl_state = [], pl_relations = [],
        pl_metrics = [], pl_events = [], pl_heartbeats = [], pl_idempotency = [],
        pl_snapshots = [], pl_changes = [], pl_revision = 0,
        pl_max_snapshots = nat (max 1 max_snapshots), pl_max_changes = nat max_changes,
        pl_max_metrics = nat (max 1 max_metrics), pl_max_events = nat (max 1 max_events)\<rparr>)"

definition record_change ::
  "plane \<Rightarrow> string \<Rightarrow> string \<Rightarrow> string \<Rightarrow> int \<Rightarrow> datetime \<Rightarrow> plane \<times> state_change" where
  "record_change p kind subject_ref key_or_relation version timestamp =
     (let revision = pl_revision p + 1;
          change = \<lparr>sc_cursor = revision, sc_kind = kind, sc_subject_ref = subject_ref,
                    sc_key_or_relation = key_or_relation, sc_version = version,
                    sc_timestamp = timestamp\<rparr>
      in (p\<lparr>pl_revision := revision,
            pl_changes := deque_push (pl_max_changes p) (pl_changes p) change\<rparr>, change))"

section \<open>Components and entities\<close>

definition register_component :: "plane \<Rightarrow> component_descriptor \<Rightarrow> plane res" where
  "register_component p descriptor =
     (case dict_get (pl_components p) (cd_component_id descriptor) of
        Some existing \<Rightarrow>
          if existing \<noteq> descriptor
          then Inl (ValueError (''component already registered with different descriptor: ''
                 @ cd_component_id descriptor))
          else Inr (p\<lparr>pl_components :=
                 dict_set (pl_components p) (cd_component_id descriptor) descriptor\<rparr>)
      | None \<Rightarrow> Inr (p\<lparr>pl_components :=
                 dict_set (pl_components p) (cd_component_id descriptor) descriptor\<rparr>))"

definition list_components :: "plane \<Rightarrow> component_descriptor list" where
  "list_components p = sort_key cd_component_id (map snd (pl_components p))"

text \<open>Two entities are equal when their labels are equal as mappings and all other fields agree.\<close>

definition entity_eq :: "graph_entity \<Rightarrow> graph_entity \<Rightarrow> bool" where
  "entity_eq a b \<longleftrightarrow> a\<lparr>ge_labels := []\<rparr> = b\<lparr>ge_labels := []\<rparr> \<and> dict_eq (ge_labels a) (ge_labels b)"

lemma entity_eq_refl [simp]: "entity_eq e e"
  by (simp add: entity_eq_def)

definition upsert_entity ::
  "datetime \<Rightarrow> plane \<Rightarrow> graph_entity \<Rightarrow> (plane \<times> state_change list) res" where
  "upsert_entity now p entity =
     (let previous = dict_get (pl_entities p) (ge_ref entity);
          store = (let p' = p\<lparr>pl_entities := dict_set (pl_entities p) (ge_ref entity) entity\<rparr>;
                       (p'', change) = record_change p' ''entity'' (ge_ref entity)
                                         (ge_entity_type entity) 1 now
                   in (p'', [change]))
      in case previous of
           Some e \<Rightarrow>
             if ge_graph e \<noteq> ge_graph entity
             then Inl (ValueError (''entity graph cannot change: '' @ ge_ref entity))
             else if entity_eq e entity then Inr (p, [])
             else Inr store
         | None \<Rightarrow> Inr store)"

definition get_entity :: "plane \<Rightarrow> string \<Rightarrow> graph_entity option" where
  "get_entity p entity_ref = dict_get (pl_entities p) entity_ref"

section \<open>State updates\<close>

definition state_rejected :: "state_update \<Rightarrow> string \<Rightarrow> bool \<Rightarrow> write_result" where
  "state_rejected u reason conflict =
     \<lparr>wr_accepted = False, wr_duplicate = False, wr_conflict = conflict,
      wr_entity_ref = su_entity_ref u, wr_key = su_key u, wr_version = 0, wr_reason = reason\<rparr>"

definition relation_rejected :: "relation_update \<Rightarrow> string \<Rightarrow> bool \<Rightarrow> write_result" where
  "relation_rejected u reason conflict =
     \<lparr>wr_accepted = False, wr_duplicate = False, wr_conflict = conflict,
      wr_entity_ref = ru_source_ref u, wr_key = ru_relation_type u, wr_version = 0,
      wr_reason = reason\<rparr>"

definition accepted_result :: "string \<Rightarrow> string \<Rightarrow> int \<Rightarrow> write_result" where
  "accepted_result entity_ref key version =
     \<lparr>wr_accepted = True, wr_duplicate = False, wr_conflict = False, wr_entity_ref = entity_ref,
      wr_key = key, wr_version = version, wr_reason = ''accepted''\<rparr>"

definition duplicate_of :: "write_result \<Rightarrow> write_result" where
  "duplicate_of previous =
     previous\<lparr>wr_accepted := False, wr_duplicate := True, wr_reason := ''duplicate idempotency key''\<rparr>"

definition idempotent_replay :: "plane \<Rightarrow> string \<Rightarrow> write_result option" where
  "idempotent_replay p key =
     (if key \<noteq> [] then map_option duplicate_of (dict_get (pl_idempotency p) key) else None)"

definition remember_result :: "plane \<Rightarrow> string \<Rightarrow> write_result \<Rightarrow> plane" where
  "remember_result p key result =
     (if key \<noteq> [] then p\<lparr>pl_idempotency := dict_set (pl_idempotency p) key result\<rparr> else p)"

text \<open>
  The optimistic-concurrency and ordering checks of a write against the current value: CAS, then
  authority against fresh state, then out-of-order timestamps, then the explicit version. They are
  the same for state and relations but for the noun in the messages.
\<close>

definition cas_conflict :: "int option \<Rightarrow> int option \<Rightarrow> string option" where
  "cas_conflict expected current_version =
     (case expected of
        None \<Rightarrow> None
      | Some v \<Rightarrow>
          (let actual = (case current_version of None \<Rightarrow> 0 | Some c \<Rightarrow> c) in
           if actual \<noteq> v
           then Some (''CAS conflict: expected '' @ show_int v @ '', got '' @ show_int actual)
           else None))"

definition state_order_conflict ::
  "state_value \<Rightarrow> source_authority \<Rightarrow> datetime \<Rightarrow> int \<Rightarrow> string option" where
  "state_order_conflict current authority timestamp version =
     (if authority < sv_authority current \<and> value_is_fresh current timestamp None
      then Some ''lower-authority source cannot replace fresh state''
      else if authority = sv_authority current \<and>
              instant timestamp < instant (datetime_aware (sv_timestamp current))
      then Some ''out-of-order state update''
      else if version \<noteq> 0 \<and> version \<le> sv_version current
      then Some ''state version must increase''
      else None)"

definition relation_order_conflict ::
  "graph_relation \<Rightarrow> source_authority \<Rightarrow> datetime \<Rightarrow> int \<Rightarrow> string option" where
  "relation_order_conflict current authority timestamp version =
     (if authority < gr_authority current \<and> relation_is_fresh current timestamp
      then Some ''lower-authority source cannot replace fresh relation''
      else if authority = gr_authority current \<and>
              instant timestamp < instant (datetime_aware (gr_timestamp current))
      then Some ''out-of-order relation update''
      else if version \<noteq> 0 \<and> version \<le> gr_version current
      then Some ''relation version must increase''
      else None)"

definition next_version :: "int \<Rightarrow> int option \<Rightarrow> int" where
  "next_version requested current_version =
     (if requested \<noteq> 0 then requested
      else (case current_version of Some c \<Rightarrow> c + 1 | None \<Rightarrow> 1))"

definition published_value ::
  "state_update \<Rightarrow> canonical_key \<Rightarrow> datetime \<Rightarrow> int \<Rightarrow> state_value" where
  "published_value u d timestamp version =
     \<lparr>sv_entity_ref = su_entity_ref u, sv_key = ck_key d, sv_value = su_value u,
      sv_producer = su_producer u, sv_timestamp = timestamp,
      sv_ttl = (case su_ttl u of Some t \<Rightarrow> Some t | None \<Rightarrow> ck_ttl d),
      sv_authority = su_authority u, sv_version = version, sv_semantic = su_semantic u,
      sv_confidence = normalize_confidence (su_confidence u), sv_source_ref = su_source_ref u,
      sv_correlation = su_correlation u\<rparr>"

text \<open>The tail of \<open>_publish_one\<close> once every check has passed.\<close>

definition publish_accept ::
  "plane \<Rightarrow> state_update \<Rightarrow> canonical_key \<Rightarrow> state_value option
     \<Rightarrow> plane \<times> write_result \<times> state_change option" where
  "publish_accept p u d current =
     (let timestamp = datetime_aware (su_timestamp u);
          version = next_version (su_version u) (map_option sv_version current);
          value = published_value u d timestamp version;
          p1 = p\<lparr>pl_state := dict_set (pl_state p) (su_entity_ref u, ck_key d) value\<rparr>;
          (p2, change) = record_change p1 ''state'' (su_entity_ref u) (ck_key d) version timestamp;
          result = accepted_result (su_entity_ref u) (ck_key d) version
      in (remember_result p2 (su_idempotency_key u) result, result, Some change))"

definition publish_one ::
  "plane \<Rightarrow> state_update \<Rightarrow> plane \<times> write_result \<times> state_change option" where
  "publish_one p u =
     (case idempotent_replay p (su_idempotency_key u) of
        Some r \<Rightarrow> (p, r, None)
      | None \<Rightarrow>
     (case dict_get (pl_entities p) (su_entity_ref u) of
        None \<Rightarrow> (p, state_rejected u ''entity is not registered'' False, None)
      | Some entity \<Rightarrow>
     (case registry_resolve (pl_registry p) (su_key u) of
        Inl _ \<Rightarrow> (p, state_rejected u ''canonical key is not registered'' False, None)
      | Inr d \<Rightarrow>
     if ge_entity_type entity \<notin> set (ck_entity_types d)
     then (p, state_rejected u (''key is invalid for entity type '' @ ge_entity_type entity) False, None)
     else if \<not> validate_value d (su_value u)
     then (p, state_rejected u (''value does not match declared type '' @ ck_value_type d) False, None)
     else
       let current = dict_get (pl_state p) (su_entity_ref u, ck_key d) in
       case cas_conflict (su_expected_version u) (map_option sv_version current) of
         Some reason \<Rightarrow> (p, state_rejected u reason True, None)
       | None \<Rightarrow>
           (case (case current of
                    None \<Rightarrow> None
                  | Some c \<Rightarrow> state_order_conflict c (su_authority u)
                                (datetime_aware (su_timestamp u)) (su_version u)) of
              Some reason \<Rightarrow> (p, state_rejected u reason True, None)
            | None \<Rightarrow> publish_accept p u d current))))"

text \<open>Batches: results in order, and the changes to deliver afterwards.\<close>

fun publish_state ::
  "plane \<Rightarrow> state_update list \<Rightarrow> plane \<times> write_result list \<times> state_change list" where
  "publish_state p [] = (p, [], [])"
| "publish_state p (u # us) =
     (let (p1, result, change) = publish_one p u;
          (p2, results, changes) = publish_state p1 us
      in (p2, result # results, (case change of None \<Rightarrow> changes | Some c \<Rightarrow> c # changes)))"

section \<open>Relations\<close>

definition relation_allowed :: "graph_entity \<Rightarrow> graph_entity \<Rightarrow> string \<Rightarrow> bool" where
  "relation_allowed source target relation_type =
     (let s = ge_entity_type source; t = ge_entity_type target in
      if ge_graph source = COMPONENT \<and> ge_graph target = COMPONENT then
        (if relation_type = ''manages'' then s = ''component''
         else if relation_type \<in> {''parent_of'', ''depends_on''}
           then s \<in> {''agent'', ''session'', ''task'', ''request'', ''tool_call''}
         else if relation_type \<in> {''serves'', ''executes''}
           then s = ''component'' \<and> t \<in> {''request'', ''tool_call''}
         else if relation_type \<in> {''owns'', ''uses''} then t = ''stateful_object''
         else if relation_type = ''produces_state''
           then s = ''component'' \<and> t = ''state_key_catalog''
         else if relation_type = ''executing_on''
           then s \<in> {''request'', ''tool_call''} \<and> t = ''component''
         else False)
      else if ge_graph source = DEPLOYMENT \<and> ge_graph target = DEPLOYMENT then
        (if relation_type = ''contains''
           then s \<in> {''cluster'', ''node''} \<and> t \<in> {''node'', ''instance'', ''resource''}
         else if relation_type = ''allocated_to'' then s = ''instance'' \<and> t = ''resource''
         else if relation_type = ''connected_to''
           then s \<in> {''node'', ''resource''} \<and> t \<in> {''node'', ''resource''}
         else False)
      else if ge_graph source \<noteq> COMPONENT \<or> ge_graph target \<noteq> DEPLOYMENT then False
      else if relation_type = ''deployed_on''
        then s = ''component'' \<and> t \<in> {''instance'', ''node''}
      else if relation_type = ''executing_on''
        then s \<in> {''request'', ''tool_call''} \<and> t = ''instance''
      else if relation_type = ''located_on''
        then s = ''stateful_object'' \<and> t \<in> {''resource'', ''node''}
      else False)"

definition upserted_relation :: "relation_update \<Rightarrow> datetime \<Rightarrow> int \<Rightarrow> graph_relation" where
  "upserted_relation u timestamp version =
     \<lparr>gr_source_ref = ru_source_ref u, gr_relation_type = ru_relation_type u,
      gr_target_ref = ru_target_ref u, gr_producer = ru_producer u, gr_timestamp = timestamp,
      gr_authority = ru_authority u, gr_attributes = ru_attributes u, gr_ttl = ru_ttl u,
      gr_version = version\<rparr>"

definition relation_accept ::
  "plane \<Rightarrow> relation_update \<Rightarrow> graph_relation option
     \<Rightarrow> plane \<times> write_result \<times> state_change option" where
  "relation_accept p u current =
     (let timestamp = datetime_aware (ru_timestamp u);
          version = next_version (ru_version u) (map_option gr_version current);
          relation = upserted_relation u timestamp version;
          p1 = p\<lparr>pl_relations := dict_set (pl_relations p)
                   (ru_source_ref u, ru_relation_type u, ru_target_ref u) relation\<rparr>;
          (p2, change) = record_change p1 ''relation'' (ru_source_ref u) (ru_relation_type u)
                           version timestamp;
          result = accepted_result (ru_source_ref u) (ru_relation_type u) version
      in (remember_result p2 (ru_idempotency_key u) result, result, Some change))"

definition upsert_relation ::
  "plane \<Rightarrow> relation_update \<Rightarrow> plane \<times> write_result \<times> state_change option" where
  "upsert_relation p u =
     (case idempotent_replay p (ru_idempotency_key u) of
        Some r \<Rightarrow> (p, r, None)
      | None \<Rightarrow>
     (case (dict_get (pl_entities p) (ru_source_ref u), dict_get (pl_entities p) (ru_target_ref u)) of
        (Some source, Some target) \<Rightarrow>
          if \<not> relation_allowed source target (ru_relation_type u)
          then (p, relation_rejected u ''relation type is not allowed for these graphs'' False, None)
          else
            let current = dict_get (pl_relations p)
                  (ru_source_ref u, ru_relation_type u, ru_target_ref u) in
            (case cas_conflict (ru_expected_version u) (map_option gr_version current) of
               Some reason \<Rightarrow> (p, relation_rejected u reason True, None)
             | None \<Rightarrow>
                 (case (case current of
                          None \<Rightarrow> None
                        | Some c \<Rightarrow> relation_order_conflict c (ru_authority u)
                                      (datetime_aware (ru_timestamp u)) (ru_version u)) of
                    Some reason \<Rightarrow> (p, relation_rejected u reason True, None)
                  | None \<Rightarrow> relation_accept p u current))
      | _ \<Rightarrow> (p, relation_rejected u ''relation endpoints must be registered'' False, None)))"

fun upsert_relations ::
  "plane \<Rightarrow> relation_update list \<Rightarrow> plane \<times> write_result list \<times> state_change list" where
  "upsert_relations p [] = (p, [], [])"
| "upsert_relations p (u # us) =
     (let (p1, result, change) = upsert_relation p u;
          (p2, results, changes) = upsert_relations p1 us
      in (p2, result # results, (case change of None \<Rightarrow> changes | Some c \<Rightarrow> c # changes)))"

section \<open>Metrics, events, heartbeats\<close>

definition write_refused :: "string \<Rightarrow> string \<Rightarrow> bool \<Rightarrow> string \<Rightarrow> write_result" where
  "write_refused entity_ref key duplicate reason =
     \<lparr>wr_accepted = False, wr_duplicate = duplicate, wr_conflict = False,
      wr_entity_ref = entity_ref, wr_key = key, wr_version = 0, wr_reason = reason\<rparr>"

text \<open>\<open>float(sample.value)\<close> of a number.\<close>

fun number_as_float :: "pyval \<Rightarrow> pyval" where
  "number_as_float (PInt i) = PFloat (of_int i)"
| "number_as_float v = v"

definition publish_metric :: "plane \<Rightarrow> metric_sample \<Rightarrow> plane \<times> write_result" where
  "publish_metric p sample =
     (case dict_get (pl_entities p) (ms_entity_ref sample) of
        None \<Rightarrow> (p, write_refused (ms_entity_ref sample) (ms_metric_key sample) False
                     ''entity is not registered'')
      | Some entity \<Rightarrow>
     (case registry_resolve (pl_registry p) (ms_metric_key sample) of
        Inl _ \<Rightarrow> (p, write_refused (ms_entity_ref sample) (ms_metric_key sample) False
                     ''canonical key is not registered'')
      | Inr d \<Rightarrow>
     if ge_entity_type entity \<notin> set (ck_entity_types d)
     then (p, write_refused (ms_entity_ref sample) (ck_key d) False
                ''metric is invalid for entity type'')
     else if \<not> is_number (ms_value sample)
     then (p, write_refused (ms_entity_ref sample) (ck_key d) False
                ''metric value must be numeric'')
     else
       let normalized = sample\<lparr>ms_metric_key := ck_key d,
                               ms_value := number_as_float (ms_value sample),
                               ms_timestamp := datetime_aware (ms_timestamp sample)\<rparr>
       in (p\<lparr>pl_metrics := deque_push (pl_max_metrics p) (pl_metrics p) normalized\<rparr>,
           accepted_result (ms_entity_ref sample) (ck_key d) (pl_revision p))))"

fun publish_metrics :: "plane \<Rightarrow> metric_sample list \<Rightarrow> plane \<times> write_result list" where
  "publish_metrics p [] = (p, [])"
| "publish_metrics p (s # ss) =
     (let (p1, result) = publish_metric p s;
          (p2, results) = publish_metrics p1 ss
      in (p2, result # results))"

definition publish_event ::
  "plane \<Rightarrow> state_event \<Rightarrow> plane \<times> write_result \<times> state_change option" where
  "publish_event p event =
     (if dict_has (pl_events p) (se_event_id event)
      then (p, write_refused (se_subject_ref event) (se_event_type event) True
                 ''duplicate event_id'', None)
      else if \<not> dict_has (pl_entities p) (se_subject_ref event)
      then (p, write_refused (se_subject_ref event) (se_event_type event) False
                 ''subject entity is not registered'', None)
      else
        let normalized = event\<lparr>se_timestamp := datetime_aware (se_timestamp event)\<rparr>;
            p1 = p\<lparr>pl_events := dict_trim (pl_max_events p)
                     (dict_set (pl_events p) (se_event_id event) normalized)\<rparr>;
            (p2, change) = record_change p1 ''event'' (se_subject_ref event)
                             (se_event_type event) 1 (se_timestamp normalized)
        in (p2, accepted_result (se_subject_ref event) (se_event_type event) (sc_cursor change),
            Some change))"

fun publish_events ::
  "plane \<Rightarrow> state_event list \<Rightarrow> plane \<times> write_result list \<times> state_change list" where
  "publish_events p [] = (p, [], [])"
| "publish_events p (e # es) =
     (let (p1, result, change) = publish_event p e;
          (p2, results, changes) = publish_events p1 es
      in (p2, result # results, (case change of None \<Rightarrow> changes | Some c \<Rightarrow> c # changes)))"

definition plane_heartbeat :: "plane \<Rightarrow> heartbeat \<Rightarrow> plane res" where
  "plane_heartbeat p hb =
     (if \<not> dict_has (pl_entities p) (hb_subject_ref hb) \<and>
         \<not> dict_has (pl_components p) (hb_subject_ref hb)
      then Inl (KeyError (''heartbeat subject is not registered: '' @ hb_subject_ref hb))
      else Inr (p\<lparr>pl_heartbeats := dict_set (pl_heartbeats p) (hb_subject_ref hb)
                   (hb\<lparr>hb_timestamp := datetime_aware (hb_timestamp hb)\<rparr>)\<rparr>))"

definition heartbeats :: "plane \<Rightarrow> heartbeat list" where
  "heartbeats p = map snd (sort_key fst (pl_heartbeats p))"

end
