(* ===== verification/SF_Snapshot.thy ===== *)
theory SF_Snapshot
  imports SF_Plane
begin

text \<open>
  The reading side of \<open>stateflow/state/plane.py\<close>: consistent snapshots with completeness and
  freshness accounting, the bounded snapshot store, the change log with resumable cursors,
  metric queries and the freshness report.
\<close>

section \<open>Key patterns and age policies\<close>

definition is_pattern :: "string \<Rightarrow> bool" where
  "is_pattern v \<longleftrightarrow> list_ex (\<lambda>c. c \<in> set ''*?['') v"

definition key_matches :: "string \<Rightarrow> string list \<Rightarrow> bool" where
  "key_matches v patterns \<longleftrightarrow> list_ex (fnmatch v) patterns"

definition canonical_pattern :: "plane \<Rightarrow> string \<Rightarrow> string" where
  "canonical_pattern p key =
     (if is_pattern key then key
      else (case registry_canonicalize (pl_registry p) key of Inr k \<Rightarrow> k | Inl _ \<Rightarrow> key))"

definition applicable_keys :: "plane \<Rightarrow> string \<Rightarrow> string \<Rightarrow> string list option" where
  "applicable_keys p entity_type pattern =
     (if \<not> is_pattern pattern then
        (case registry_resolve (pl_registry p) pattern of
           Inl _ \<Rightarrow> None
         | Inr d \<Rightarrow> Some (if entity_type \<in> set (ck_entity_types d) then [ck_key d] else []))
      else Some (map ck_key
             (filter (\<lambda>d. entity_type \<in> set (ck_entity_types d) \<and> fnmatch (ck_key d) pattern)
               (registry_list (pl_registry p) False))))"

text \<open>The longest matching prefix of the policy decides; \<open>max\<close> keeps the first of equal length.\<close>

definition max_age_for :: "string \<Rightarrow> (string, int) dict \<Rightarrow> timedelta option" where
  "max_age_for key policy =
     (case filter (\<lambda>(prefix, _). prefix \<in> {'''', ''*''} \<or> key = prefix
                     \<or> str_startswith key (prefix @ ''.'')) policy of
        [] \<Rightarrow> None
      | m # ms \<Rightarrow> Some (1000 * max 0 (snd (max_from (\<lambda>item. length (fst item)) m ms))))"

section \<open>Snapshots\<close>

text \<open>
  The three lists of the loop. Each step of the nested loops over entities, key patterns and
  applicable keys appends to exactly one of them, so the loop is the list of its appends in order.
\<close>

datatype snap_item = Selected state_value | Stale string | Missing string

definition snap_identity :: "string \<Rightarrow> string \<Rightarrow> string" where
  "snap_identity entity_ref key = entity_ref @ '':'' @ key"

definition snap_value_item ::
  "plane \<Rightarrow> datetime \<Rightarrow> snapshot_request \<Rightarrow> string \<Rightarrow> string \<Rightarrow> snap_item" where
  "snap_value_item p now req entity_ref key =
     (case dict_get (pl_state p) (entity_ref, key) of
        None \<Rightarrow> Missing (snap_identity entity_ref key)
      | Some v \<Rightarrow>
          (let max_age = max_age_for (sv_key v) (sq_max_age_ms req) in
           if sv_authority v < sq_min_authority req then Missing (snap_identity entity_ref key)
           else if \<not> value_is_fresh v now max_age then Stale (snap_identity entity_ref key)
           else Selected v))"

definition snap_pattern_items ::
  "plane \<Rightarrow> datetime \<Rightarrow> snapshot_request \<Rightarrow> graph_entity \<Rightarrow> string \<Rightarrow> string \<Rightarrow> snap_item list" where
  "snap_pattern_items p now req entity entity_ref pattern =
     (case applicable_keys p (ge_entity_type entity) pattern of
        None \<Rightarrow> [Missing (snap_identity entity_ref pattern)]
      | Some keys \<Rightarrow> map (snap_value_item p now req entity_ref) keys)"

definition snap_entity_items ::
  "plane \<Rightarrow> datetime \<Rightarrow> snapshot_request \<Rightarrow> string list \<Rightarrow> string \<Rightarrow> snap_item list" where
  "snap_entity_items p now req patterns entity_ref =
     (case dict_get (pl_entities p) entity_ref of
        None \<Rightarrow> [Missing entity_ref]
      | Some entity \<Rightarrow> concat (map (snap_pattern_items p now req entity entity_ref) patterns))"

definition snap_items :: "plane \<Rightarrow> datetime \<Rightarrow> snapshot_request \<Rightarrow> snap_item list" where
  "snap_items p now req =
     (let requested_entities = fromkeys (sq_entities req);
          requested_keys = fromkeys (map (canonical_pattern p) (sq_keys req))
      in concat (map (snap_entity_items p now req requested_keys) requested_entities))"

definition items_selected :: "snap_item list \<Rightarrow> state_value list" where
  "items_selected xs = concat (map (\<lambda>i. case i of Selected v \<Rightarrow> [v] | _ \<Rightarrow> []) xs)"

definition items_stale :: "snap_item list \<Rightarrow> string list" where
  "items_stale xs = concat (map (\<lambda>i. case i of Stale s \<Rightarrow> [s] | _ \<Rightarrow> []) xs)"

definition items_missing :: "snap_item list \<Rightarrow> string list" where
  "items_missing xs = concat (map (\<lambda>i. case i of Missing s \<Rightarrow> [s] | _ \<Rightarrow> []) xs)"

text \<open>\<open>list({(item.entity_ref, item.key): item for item in selected}.values())\<close>\<close>

definition dedupe_values :: "state_value list \<Rightarrow> state_value list" where
  "dedupe_values vs = map snd (foldl (\<lambda>m v. dict_set m (sv_entity_ref v, sv_key v) v) [] vs)"

definition relation_key :: "graph_relation \<Rightarrow> string \<times> string \<times> string" where
  "relation_key r = (gr_source_ref r, gr_relation_type r, gr_target_ref r)"

definition snap_relations :: "plane \<Rightarrow> datetime \<Rightarrow> snapshot_request \<Rightarrow> graph_relation list" where
  "snap_relations p now req =
     (if sq_include_relations req then
        filter (\<lambda>r. relation_is_fresh r now \<and>
                  (gr_source_ref r \<in> set (sq_entities req) \<or> gr_target_ref r \<in> set (sq_entities req)))
          (map snd (pl_relations p))
      else [])"

definition store_snapshot :: "plane \<Rightarrow> snapshot \<Rightarrow> plane" where
  "store_snapshot p s =
     p\<lparr>pl_snapshots := dict_trim (pl_max_snapshots p) (dict_set_last (pl_snapshots p) (sn_token s) s)\<rparr>"

definition build_snapshot :: "datetime \<Rightarrow> string \<Rightarrow> plane \<Rightarrow> snapshot_request \<Rightarrow> snapshot" where
  "build_snapshot now uuid12 p req =
     (let items = snap_items p now req;
          selected = dedupe_values (items_selected items);
          missing = items_missing items;
          stale = items_stale items;
          relations = snap_relations p now req;
          expected = length selected + length (remdups missing) + length (remdups stale);
          completeness = (if expected \<noteq> 0 then real (length selected) / real expected else 1)
      in \<lparr>sn_token = snapshot_token (pl_revision p) uuid12, sn_logical_time = pl_revision p,
          sn_created_at = now, sn_completeness = completeness,
          sn_values = sort_key (\<lambda>v. (sv_entity_ref v, sv_key v)) selected,
          sn_relations = sort_key relation_key relations,
          sn_missing = sort (remdups missing), sn_stale = sort (remdups stale)\<rparr>)"

definition get_snapshot :: "datetime \<Rightarrow> string \<Rightarrow> plane \<Rightarrow> snapshot_request \<Rightarrow> plane \<times> snapshot" where
  "get_snapshot now uuid12 p req =
     (let result = build_snapshot now uuid12 p req in (store_snapshot p result, result))"

definition read_snapshot :: "plane \<Rightarrow> string \<Rightarrow> snapshot res" where
  "read_snapshot p token =
     (case dict_get (pl_snapshots p) token of
        Some s \<Rightarrow> Inr s
      | None \<Rightarrow> Inl (KeyError (''unknown or expired snapshot token: '' @ token)))"

definition get_state ::
  "datetime \<Rightarrow> string \<Rightarrow> plane \<Rightarrow> string \<Rightarrow> string list \<Rightarrow> (string, int) dict \<Rightarrow> source_authority
     \<Rightarrow> string \<Rightarrow> (plane \<times> state_value list) res" where
  "get_state now uuid12 p entity_ref keys max_age_ms min_authority snapshot =
     (if snapshot \<noteq> [] then
        res_bind (read_snapshot p snapshot) (\<lambda>frozen.
          let requested = map (canonical_pattern p) keys in
          Inr (p, filter (\<lambda>v. sv_entity_ref v = entity_ref \<and> key_matches (sv_key v) requested)
                    (sn_values frozen)))
      else
        let (p', result) = get_snapshot now uuid12 p
              \<lparr>sq_entities = [entity_ref], sq_keys = keys, sq_max_age_ms = max_age_ms,
               sq_min_authority = min_authority, sq_include_relations = False\<rparr>
        in Inr (p', sn_values result))"

section \<open>Change log, metric queries, freshness report\<close>

definition changes_selected :: "string \<Rightarrow> string list \<Rightarrow> state_change \<Rightarrow> bool" where
  "changes_selected entity_prefix patterns c \<longleftrightarrow>
     (entity_prefix = [] \<or> str_startswith (sc_subject_ref c) entity_prefix) \<and>
     (patterns = [] \<or> key_matches (sc_key_or_relation c) patterns)"

definition plane_changes ::
  "plane \<Rightarrow> int \<Rightarrow> string \<Rightarrow> string list \<Rightarrow> int \<Rightarrow> state_change list" where
  "plane_changes p after_cursor entity_prefix keys limit =
     take (nat (max 0 limit))
       (filter (\<lambda>c. sc_cursor c > after_cursor \<and> changes_selected entity_prefix keys c)
         (pl_changes p))"

definition query_metrics ::
  "plane \<Rightarrow> string list \<Rightarrow> string list \<Rightarrow> datetime option \<Rightarrow> datetime option \<Rightarrow> metric_sample list" where
  "query_metrics p entity_refs keys start_at end_at =
     filter (\<lambda>s.
         (entity_refs = [] \<or> ms_entity_ref s \<in> set entity_refs) \<and>
         (keys = [] \<or> key_matches (ms_metric_key s) keys) \<and>
         (case start_at of None \<Rightarrow> True | Some t \<Rightarrow> instant (ms_timestamp s) \<ge> instant (datetime_aware t)) \<and>
         (case end_at of None \<Rightarrow> True | Some t \<Rightarrow> instant (ms_timestamp s) \<le> instant (datetime_aware t)))
       (pl_metrics p)"

record freshness_report =
  fr_revision :: int
  fr_state_count :: nat
  fr_stale_count :: nat
  fr_stale_ratio :: real
  fr_metric_count :: nat
  fr_event_count :: nat
  fr_adapter_count :: nat
  fr_stale_adapter_count :: nat

definition plane_freshness :: "plane \<Rightarrow> datetime \<Rightarrow> freshness_report" where
  "plane_freshness p now =
     (let total = length (pl_state p);
          stale = length (filter (\<lambda>v. \<not> value_is_fresh v now None) (map snd (pl_state p)))
      in \<lparr>fr_revision = pl_revision p, fr_state_count = total, fr_stale_count = stale,
          fr_stale_ratio = (if total \<noteq> 0 then real stale / real total else 0),
          fr_metric_count = length (pl_metrics p), fr_event_count = length (pl_events p),
          fr_adapter_count = length (pl_heartbeats p),
          fr_stale_adapter_count =
            length (filter (\<lambda>hb. instant (datetime_aware now)
                              > instant (datetime_aware (hb_timestamp hb)) + hb_ttl hb)
                     (map snd (pl_heartbeats p)))\<rparr>)"

end
