(* ===== verification/SF_Graph.thy ===== *)
theory SF_Graph
  imports SF_Snapshot
begin

text \<open>
  \<open>query_graph\<close> of \<open>stateflow/state/plane.py\<close>: a breadth-first search of bounded depth over the
  live relations or those of a snapshot, in both directions. A Python set is a HOL set; its
  iteration order is never observed, the results being sorted.
\<close>

definition next_frontier :: "graph_relation list \<Rightarrow> string set \<Rightarrow> string set \<Rightarrow> string set" where
  "next_frontier rels allowed frontier =
     (\<Union>r \<in> set (filter (\<lambda>r. (allowed = {} \<or> gr_relation_type r \<in> allowed)
                         \<and> (gr_source_ref r \<in> frontier \<or> gr_target_ref r \<in> frontier)) rels).
        {gr_source_ref r, gr_target_ref r})"

text \<open>The relations one iteration records in \<open>included\<close>, keyed by their identity.\<close>

definition include_relations ::
  "graph_relation list \<Rightarrow> string set \<Rightarrow> string set
     \<Rightarrow> (string \<times> string \<times> string, graph_relation) dict
     \<Rightarrow> (string \<times> string \<times> string, graph_relation) dict" where
  "include_relations rels allowed frontier included =
     foldl (\<lambda>m r. dict_set m (relation_key r) r) included
       (filter (\<lambda>r. (allowed = {} \<or> gr_relation_type r \<in> allowed)
                \<and> (gr_source_ref r \<in> frontier \<or> gr_target_ref r \<in> frontier)) rels)"

text \<open>The \<open>for _ in range(depth)\<close> loop, with its early exit when the next frontier is empty.\<close>

fun graph_search ::
  "graph_relation list \<Rightarrow> string set \<Rightarrow> nat \<Rightarrow> string set \<Rightarrow> string set
     \<Rightarrow> (string \<times> string \<times> string, graph_relation) dict
     \<Rightarrow> string set \<times> (string \<times> string \<times> string, graph_relation) dict" where
  "graph_search rels allowed 0 visited frontier included = (visited, included)"
| "graph_search rels allowed (Suc n) visited frontier included =
     (let included' = include_relations rels allowed frontier included;
          nxt = next_frontier rels allowed frontier - visited
      in if nxt = {} then (visited, included')
         else graph_search rels allowed n (visited \<union> nxt) nxt included')"

definition query_graph ::
  "plane \<Rightarrow> string list \<Rightarrow> string list \<Rightarrow> int \<Rightarrow> string \<Rightarrow> graph_query_result res" where
  "query_graph p roots relation_types depth snapshot =
     res_bind (if snapshot \<noteq> [] then res_bind (read_snapshot p snapshot) (\<lambda>s. Inr (sn_relations s))
               else Inr (map snd (pl_relations p)))
       (\<lambda>rels.
          let (visited, included) =
                graph_search rels (set relation_types) (nat (max 0 depth)) (set roots) (set roots) []
          in Inr \<lparr>gq_snapshot_token = snapshot,
                  gq_entities = map snd (sort_key fst
                    (filter (\<lambda>(ref, _). ref \<in> visited) (pl_entities p))),
                  gq_relations = map snd (sort_key fst included)\<rparr>)"

end
