(* ===== verification/SF_Plane_Invariants.thy ===== *)
theory SF_Plane_Invariants
  imports SF_Graph
begin

text \<open>
  What every operation of the State Plane keeps true. The operations are first characterised by
  case rules (refused and nothing changed, or accepted with every check passed); the public
  methods are then the rules of one step relation, and the plane invariant and the monotonicity
  of a plane along its runs are proved for each rule.
\<close>

section \<open>Case rules for the write operations\<close>

lemma state_rejected_simps [simp]:
  "wr_accepted (state_rejected u r c) = False" "wr_conflict (state_rejected u r c) = c"
  "wr_duplicate (state_rejected u r c) = False"
  by (simp_all add: state_rejected_def)

lemma relation_rejected_simps [simp]:
  "wr_accepted (relation_rejected u r c) = False" "wr_conflict (relation_rejected u r c) = c"
  "wr_duplicate (relation_rejected u r c) = False"
  by (simp_all add: relation_rejected_def)

lemma write_refused_simps [simp]:
  "wr_accepted (write_refused e k d r) = False" "wr_duplicate (write_refused e k d r) = d"
  by (simp_all add: write_refused_def)

lemma accepted_result_simps [simp]:
  "wr_accepted (accepted_result e k v) = True" "wr_version (accepted_result e k v) = v"
  "wr_duplicate (accepted_result e k v) = False" "wr_key (accepted_result e k v) = k"
  "wr_entity_ref (accepted_result e k v) = e"
  by (simp_all add: accepted_result_def)

lemma duplicate_of_simps [simp]:
  "wr_accepted (duplicate_of r) = False" "wr_duplicate (duplicate_of r) = True"
  by (simp_all add: duplicate_of_def)

lemma idempotent_replay_Some:
  "idempotent_replay p k = Some r \<longleftrightarrow>
     k \<noteq> [] \<and> (\<exists>r0. dict_get (pl_idempotency p) k = Some r0 \<and> r = duplicate_of r0)"
  by (auto simp: idempotent_replay_def)

lemma idempotent_replay_not_accepted: "idempotent_replay p k = Some r \<Longrightarrow> \<not> wr_accepted r"
  by (auto simp: idempotent_replay_Some)

definition publish_admitted ::
  "plane \<Rightarrow> state_update \<Rightarrow> graph_entity \<Rightarrow> canonical_key \<Rightarrow> bool" where
  "publish_admitted p u entity d \<longleftrightarrow>
     idempotent_replay p (su_idempotency_key u) = None \<and>
     dict_get (pl_entities p) (su_entity_ref u) = Some entity \<and>
     registry_resolve (pl_registry p) (su_key u) = Inr d \<and>
     ge_entity_type entity \<in> set (ck_entity_types d) \<and> validate_value d (su_value u) \<and>
     cas_conflict (su_expected_version u)
       (map_option sv_version (dict_get (pl_state p) (su_entity_ref u, ck_key d))) = None \<and>
     (\<forall>c. dict_get (pl_state p) (su_entity_ref u, ck_key d) = Some c \<longrightarrow>
        state_order_conflict c (su_authority u) (datetime_aware (su_timestamp u)) (su_version u) = None)"

lemma publish_one_cases:
  obtains (refused) r where "publish_one p u = (p, r, None)" "\<not> wr_accepted r"
  | (accepted) entity d where "publish_admitted p u entity d"
      "publish_one p u = publish_accept p u d (dict_get (pl_state p) (su_entity_ref u, ck_key d))"
proof (cases "\<exists>entity d. publish_admitted p u entity d")
  case True
  then obtain entity d where a: "publish_admitted p u entity d" by blast
  then have "publish_one p u = publish_accept p u d (dict_get (pl_state p) (su_entity_ref u, ck_key d))"
    by (auto simp: publish_one_def publish_admitted_def Let_def split: option.splits)
  with a show ?thesis by (rule accepted)
next
  case False
  then have "\<exists>r. publish_one p u = (p, r, None) \<and> \<not> wr_accepted r"
    by (auto simp: publish_one_def publish_admitted_def Let_def
        split: option.splits sum.splits dest: idempotent_replay_not_accepted)
  then show ?thesis using refused by blast
qed

definition relation_admitted ::
  "plane \<Rightarrow> relation_update \<Rightarrow> graph_entity \<Rightarrow> graph_entity \<Rightarrow> bool" where
  "relation_admitted p u source target \<longleftrightarrow>
     idempotent_replay p (ru_idempotency_key u) = None \<and>
     dict_get (pl_entities p) (ru_source_ref u) = Some source \<and>
     dict_get (pl_entities p) (ru_target_ref u) = Some target \<and>
     relation_allowed source target (ru_relation_type u) \<and>
     cas_conflict (ru_expected_version u) (map_option gr_version
       (dict_get (pl_relations p) (ru_source_ref u, ru_relation_type u, ru_target_ref u))) = None \<and>
     (\<forall>c. dict_get (pl_relations p) (ru_source_ref u, ru_relation_type u, ru_target_ref u) = Some c
        \<longrightarrow> relation_order_conflict c (ru_authority u) (datetime_aware (ru_timestamp u))
              (ru_version u) = None)"

lemma upsert_relation_cases:
  obtains (refused) r where "upsert_relation p u = (p, r, None)" "\<not> wr_accepted r"
  | (accepted) source target where "relation_admitted p u source target"
      "upsert_relation p u = relation_accept p u
         (dict_get (pl_relations p) (ru_source_ref u, ru_relation_type u, ru_target_ref u))"
proof (cases "\<exists>source target. relation_admitted p u source target")
  case True
  then obtain source target where a: "relation_admitted p u source target" by blast
  then have "upsert_relation p u = relation_accept p u
         (dict_get (pl_relations p) (ru_source_ref u, ru_relation_type u, ru_target_ref u))"
    by (auto simp: upsert_relation_def relation_admitted_def Let_def split: option.splits)
  with a show ?thesis by (rule accepted)
next
  case False
  then have "\<exists>r. upsert_relation p u = (p, r, None) \<and> \<not> wr_accepted r"
    by (auto simp: upsert_relation_def relation_admitted_def Let_def
        split: option.splits dest: idempotent_replay_not_accepted)
  then show ?thesis using refused by blast
qed

text \<open>The fields an accepted write touches.\<close>

lemma record_change_fields [simp]:
  "pl_registry (fst (record_change p k s r v t)) = pl_registry p"
  "pl_components (fst (record_change p k s r v t)) = pl_components p"
  "pl_entities (fst (record_change p k s r v t)) = pl_entities p"
  "pl_state (fst (record_change p k s r v t)) = pl_state p"
  "pl_relations (fst (record_change p k s r v t)) = pl_relations p"
  "pl_metrics (fst (record_change p k s r v t)) = pl_metrics p"
  "pl_events (fst (record_change p k s r v t)) = pl_events p"
  "pl_heartbeats (fst (record_change p k s r v t)) = pl_heartbeats p"
  "pl_idempotency (fst (record_change p k s r v t)) = pl_idempotency p"
  "pl_snapshots (fst (record_change p k s r v t)) = pl_snapshots p"
  "pl_revision (fst (record_change p k s r v t)) = pl_revision p + 1"
  "pl_max_snapshots (fst (record_change p k s r v t)) = pl_max_snapshots p"
  "pl_max_changes (fst (record_change p k s r v t)) = pl_max_changes p"
  "pl_max_metrics (fst (record_change p k s r v t)) = pl_max_metrics p"
  "pl_max_events (fst (record_change p k s r v t)) = pl_max_events p"
  "pl_changes (fst (record_change p k s r v t))
     = deque_push (pl_max_changes p) (pl_changes p) (snd (record_change p k s r v t))"
  "sc_cursor (snd (record_change p k s r v t)) = pl_revision p + 1"
  by (simp_all add: record_change_def Let_def)

lemma remember_result_fields [simp]:
  "pl_registry (remember_result p k r) = pl_registry p"
  "pl_components (remember_result p k r) = pl_components p"
  "pl_entities (remember_result p k r) = pl_entities p"
  "pl_state (remember_result p k r) = pl_state p"
  "pl_relations (remember_result p k r) = pl_relations p"
  "pl_metrics (remember_result p k r) = pl_metrics p"
  "pl_events (remember_result p k r) = pl_events p"
  "pl_heartbeats (remember_result p k r) = pl_heartbeats p"
  "pl_snapshots (remember_result p k r) = pl_snapshots p"
  "pl_revision (remember_result p k r) = pl_revision p"
  "pl_changes (remember_result p k r) = pl_changes p"
  "pl_max_snapshots (remember_result p k r) = pl_max_snapshots p"
  "pl_max_changes (remember_result p k r) = pl_max_changes p"
  "pl_max_metrics (remember_result p k r) = pl_max_metrics p"
  "pl_max_events (remember_result p k r) = pl_max_events p"
  by (simp_all add: remember_result_def)

section \<open>The step relation of the public methods\<close>

inductive plane_step :: "plane \<Rightarrow> plane \<Rightarrow> bool" where
  register_component: "register_component p d = Inr p' \<Longrightarrow> plane_step p p'"
| upsert_entity: "wf_entity e \<Longrightarrow> upsert_entity now p e = Inr (p', cs) \<Longrightarrow> plane_step p p'"
| publish_state: "publish_state p us = (p', rs, cs) \<Longrightarrow> plane_step p p'"
| upsert_relations: "upsert_relations p us = (p', rs, cs) \<Longrightarrow> plane_step p p'"
| publish_metrics: "publish_metrics p ss = (p', rs) \<Longrightarrow> plane_step p p'"
| publish_events: "publish_events p es = (p', rs, cs) \<Longrightarrow> plane_step p p'"
| heartbeat: "plane_heartbeat p hb = Inr p' \<Longrightarrow> plane_step p p'"
| snapshot: "get_snapshot now uuid12 p req = (p', s) \<Longrightarrow> plane_step p p'"

text \<open>The single writes a step is made of.\<close>

inductive plane_write :: "plane \<Rightarrow> plane \<Rightarrow> bool" where
  component: "plane_write p
     (p\<lparr>pl_components := dict_set (pl_components p) (cd_component_id d) d\<rparr>)"
| entity: "wf_entity e \<Longrightarrow>
     (\<And>e0. dict_get (pl_entities p) (ge_ref e) = Some e0 \<Longrightarrow> ge_graph e0 = ge_graph e) \<Longrightarrow>
     plane_write p (fst (record_change
       (p\<lparr>pl_entities := dict_set (pl_entities p) (ge_ref e) e\<rparr>) k s r v t))"
| state: "publish_admitted p u entity d \<Longrightarrow>
     plane_write p (fst (publish_accept p u d
       (dict_get (pl_state p) (su_entity_ref u, ck_key d))))"
| relation: "relation_admitted p u source target \<Longrightarrow>
     plane_write p (fst (relation_accept p u
       (dict_get (pl_relations p) (ru_source_ref u, ru_relation_type u, ru_target_ref u))))"
| metric: "plane_write p (p\<lparr>pl_metrics := deque_push (pl_max_metrics p) (pl_metrics p) m\<rparr>)"
| event: "dict_has (pl_entities p) (se_subject_ref e) \<Longrightarrow> \<not> dict_has (pl_events p) (se_event_id e) \<Longrightarrow>
     plane_write p (fst (record_change
       (p\<lparr>pl_events := dict_trim (pl_max_events p) (dict_set (pl_events p) (se_event_id e) e)\<rparr>)
       k s r v t))"
| heartbeat: "dict_has (pl_entities p) (hb_subject_ref hb) \<or> dict_has (pl_components p) (hb_subject_ref hb) \<Longrightarrow>
     plane_write p (p\<lparr>pl_heartbeats := dict_set (pl_heartbeats p) (hb_subject_ref hb) hb\<rparr>)"
| snapshot: "plane_write p (store_snapshot p (build_snapshot now uuid12 p req))"

lemma publish_one_write: "publish_one p u = (p', r, c) \<Longrightarrow> plane_write\<^sup>*\<^sup>* p p'"
  by (rule publish_one_cases [of p u]) (auto dest: plane_write.state)

lemma upsert_relation_write: "upsert_relation p u = (p', r, c) \<Longrightarrow> plane_write\<^sup>*\<^sup>* p p'"
  by (rule upsert_relation_cases [of p u]) (auto dest: plane_write.relation)

lemma publish_metric_write: "publish_metric p s = (p', r) \<Longrightarrow> plane_write\<^sup>*\<^sup>* p p'"
  by (auto simp: publish_metric_def Let_def intro!: r_into_rtranclp plane_write.metric
      split: option.splits sum.splits if_splits)

lemma publish_event_write: "publish_event p e = (p', r, c) \<Longrightarrow> plane_write\<^sup>*\<^sup>* p p'"
  using plane_write.event [of p "e\<lparr>se_timestamp := datetime_aware (se_timestamp e)\<rparr>"]
  by (auto simp: publish_event_def Let_def case_prod_beta split: if_splits)

lemma publish_state_write: "publish_state p us = (p', rs, cs) \<Longrightarrow> plane_write\<^sup>*\<^sup>* p p'"
proof (induction us arbitrary: p p' rs cs)
  case (Cons u us)
  then show ?case
    by (auto simp: Let_def split: prod.splits dest!: publish_one_write intro: rtranclp_trans)
qed simp

lemma upsert_relations_write: "upsert_relations p us = (p', rs, cs) \<Longrightarrow> plane_write\<^sup>*\<^sup>* p p'"
proof (induction us arbitrary: p p' rs cs)
  case (Cons u us)
  then show ?case
    by (auto simp: Let_def split: prod.splits dest!: upsert_relation_write intro: rtranclp_trans)
qed simp

lemma publish_metrics_write: "publish_metrics p ss = (p', rs) \<Longrightarrow> plane_write\<^sup>*\<^sup>* p p'"
proof (induction ss arbitrary: p p' rs)
  case (Cons s ss)
  then show ?case
    by (auto simp: Let_def split: prod.splits dest!: publish_metric_write intro: rtranclp_trans)
qed simp

lemma publish_events_write: "publish_events p es = (p', rs, cs) \<Longrightarrow> plane_write\<^sup>*\<^sup>* p p'"
proof (induction es arbitrary: p p' rs cs)
  case (Cons e es)
  then show ?case
    by (auto simp: Let_def split: prod.splits dest!: publish_event_write intro: rtranclp_trans)
qed simp

lemma register_component_write: "register_component p d = Inr p' \<Longrightarrow> plane_write p p'"
  by (auto simp: register_component_def intro: plane_write.component split: option.splits if_splits)

lemma upsert_entity_write:
  "wf_entity e \<Longrightarrow> upsert_entity now p e = Inr (p', cs) \<Longrightarrow> plane_write\<^sup>*\<^sup>* p p'"
  by (auto simp: upsert_entity_def Let_def case_prod_beta
      intro!: r_into_rtranclp plane_write.entity split: option.splits if_splits)

lemma plane_heartbeat_write: "plane_heartbeat p hb = Inr p' \<Longrightarrow> plane_write p p'"
  using plane_write.heartbeat [of p "hb\<lparr>hb_timestamp := datetime_aware (hb_timestamp hb)\<rparr>"]
  by (auto simp: plane_heartbeat_def split: if_splits)

lemma get_snapshot_write: "get_snapshot now uuid12 p req = (p', s) \<Longrightarrow> plane_write p p'"
  by (auto simp: get_snapshot_def Let_def intro: plane_write.snapshot)

lemmas operation_writes =
  register_component_write upsert_entity_write publish_state_write upsert_relations_write
  publish_metrics_write publish_events_write plane_heartbeat_write get_snapshot_write

lemma plane_step_writes: "plane_step p p' \<Longrightarrow> plane_write\<^sup>*\<^sup>* p p'"
  by (erule plane_step.cases) (auto dest: operation_writes)

end
