(* ===== verification/SF_Plane_Safety.thy ===== *)
theory SF_Plane_Safety
  imports SF_Plane_Invariants
begin

text \<open>
  The invariant of the State Plane and the order its runs climb. The invariant says that every
  index is filed under the identity of what it holds, that every stored value is typed by a
  registered key on a registered entity, that every stored relation is one the design allows,
  that the change log is the gap-free tail of the revision history, and that the bounded stores
  keep their bounds. The order says what never goes back: the revision, the set of entities, the
  version of every value and relation.
\<close>

section \<open>The invariant\<close>

definition entities_inv :: "plane \<Rightarrow> bool" where
  "entities_inv p \<longleftrightarrow> dict_distinct (pl_entities p) \<and>
     (\<forall>r e. dict_get (pl_entities p) r = Some e \<longrightarrow> ge_ref e = r \<and> wf_entity e)"

definition value_typed :: "plane \<Rightarrow> string \<Rightarrow> string \<Rightarrow> state_value \<Rightarrow> bool" where
  "value_typed p r k v \<longleftrightarrow>
     sv_entity_ref v = r \<and> sv_key v = k \<and>
     0 \<le> sv_confidence v \<and> sv_confidence v \<le> 1 \<and> dt_offset (sv_timestamp v) \<noteq> None \<and>
     (\<exists>e d key. dict_get (pl_entities p) r = Some e \<and> registry_resolve (pl_registry p) key = Inr d \<and>
        ck_key d = k \<and> ge_entity_type e \<in> set (ck_entity_types d) \<and> validate_value d (sv_value v))"

definition state_inv :: "plane \<Rightarrow> bool" where
  "state_inv p \<longleftrightarrow> dict_distinct (pl_state p) \<and>
     (\<forall>r k v. dict_get (pl_state p) (r, k) = Some v \<longrightarrow> value_typed p r k v)"

definition relation_typed :: "plane \<Rightarrow> string \<times> string \<times> string \<Rightarrow> graph_relation \<Rightarrow> bool" where
  "relation_typed p k r \<longleftrightarrow> relation_key r = k \<and>
     (\<exists>s t. dict_get (pl_entities p) (gr_source_ref r) = Some s \<and>
        dict_get (pl_entities p) (gr_target_ref r) = Some t \<and>
        relation_allowed s t (gr_relation_type r))"

definition relations_inv :: "plane \<Rightarrow> bool" where
  "relations_inv p \<longleftrightarrow> dict_distinct (pl_relations p) \<and>
     (\<forall>k r. dict_get (pl_relations p) k = Some r \<longrightarrow> relation_typed p k r)"

definition log_inv :: "plane \<Rightarrow> bool" where
  "log_inv p \<longleftrightarrow> int (length (pl_changes p)) \<le> pl_revision p \<and>
     map sc_cursor (pl_changes p)
       = [pl_revision p - int (length (pl_changes p)) + 1 .. pl_revision p]"

definition bounds_inv :: "plane \<Rightarrow> bool" where
  "bounds_inv p \<longleftrightarrow>
     0 < pl_max_snapshots p \<and> 0 < pl_max_metrics p \<and> 0 < pl_max_events p \<and>
     length (pl_changes p) \<le> pl_max_changes p \<and> length (pl_metrics p) \<le> pl_max_metrics p \<and>
     length (pl_events p) \<le> pl_max_events p \<and> length (pl_snapshots p) \<le> pl_max_snapshots p"

definition value_id :: "state_value \<Rightarrow> string \<times> string" where
  "value_id v = (sv_entity_ref v, sv_key v)"

definition snapshot_wf :: "snapshot \<Rightarrow> bool" where
  "snapshot_wf s \<longleftrightarrow> 0 \<le> sn_completeness s \<and> sn_completeness s \<le> 1 \<and>
     distinct (map value_id (sn_values s)) \<and> sorted (map value_id (sn_values s))"

definition snapshots_inv :: "plane \<Rightarrow> bool" where
  "snapshots_inv p \<longleftrightarrow> dict_distinct (pl_snapshots p) \<and>
     (\<forall>(t, s) \<in> set (pl_snapshots p).
        sn_token s = t \<and> sn_logical_time s \<le> pl_revision p \<and> snapshot_wf s)"

text \<open>
  The remaining indexes. Components, events and heartbeats are filed under the identity they
  carry, events and heartbeats under a registered subject; a remembered result is an accepted
  one, under a non-empty key, and what it reports to have written is in the plane.
\<close>

definition result_valid :: "plane \<Rightarrow> write_result \<Rightarrow> bool" where
  "result_valid p r \<longleftrightarrow> wr_accepted r \<and> \<not> wr_duplicate r \<and> dict_has (pl_entities p) (wr_entity_ref r) \<and>
     (dict_has (pl_state p) (wr_entity_ref r, wr_key r) \<or>
      (\<exists>t. dict_has (pl_relations p) (wr_entity_ref r, wr_key r, t)))"

definition filed_by :: "('v \<Rightarrow> 'k) \<Rightarrow> ('v \<Rightarrow> bool) \<Rightarrow> ('k, 'v) dict \<Rightarrow> bool" where
  "filed_by f P m \<longleftrightarrow> dict_distinct m \<and> (\<forall>(k, v) \<in> set m. f v = k \<and> P v)"

definition indexes_inv :: "plane \<Rightarrow> bool" where
  "indexes_inv p \<longleftrightarrow>
     filed_by cd_component_id (\<lambda>d. True) (pl_components p) \<and>
     filed_by se_event_id (\<lambda>e. dict_has (pl_entities p) (se_subject_ref e)) (pl_events p) \<and>
     filed_by hb_subject_ref (\<lambda>h. dict_has (pl_entities p) (hb_subject_ref h) \<or>
       dict_has (pl_components p) (hb_subject_ref h)) (pl_heartbeats p) \<and>
     dict_distinct (pl_idempotency p) \<and>
     (\<forall>(k, r) \<in> set (pl_idempotency p). k \<noteq> [] \<and> result_valid p r)"

definition plane_inv :: "plane \<Rightarrow> bool" where
  "plane_inv p \<longleftrightarrow> entities_inv p \<and> state_inv p \<and> relations_inv p \<and> indexes_inv p \<and> log_inv p \<and>
     bounds_inv p \<and> snapshots_inv p"

lemma filed_by_Nil [simp]: "filed_by f P []"
  by (simp add: filed_by_def)

lemma filed_by_set: "filed_by f P m \<Longrightarrow> P v \<Longrightarrow> f v = k \<Longrightarrow> filed_by f P (dict_set m k v)"
  by (auto simp: filed_by_def dest!: in_dict_set)

lemma filed_by_trim: "filed_by f P m \<Longrightarrow> filed_by f P (dict_trim n m)"
  using set_dict_trim [of n m] by (auto simp: filed_by_def)

lemma filed_by_mono: "filed_by f P m \<Longrightarrow> (\<And>v. P v \<Longrightarrow> Q v) \<Longrightarrow> filed_by f Q m"
  by (auto simp: filed_by_def)

lemma filed_by_get: "filed_by f P m \<Longrightarrow> dict_get m k = Some v \<Longrightarrow> f v = k \<and> P v"
  by (auto simp: filed_by_def dest!: dict_get_Some_in)

lemma plane_init_inv: "plane_init r a b c d = Inr p \<Longrightarrow> plane_inv p"
  by (auto simp: plane_init_def plane_inv_def entities_inv_def state_inv_def relations_inv_def
      indexes_inv_def log_inv_def bounds_inv_def snapshots_inv_def split: if_splits)

section \<open>Preservation, field by field\<close>

subsection \<open>The change log\<close>

lemma drop_upto: "drop n [a..b] = [a + int n..b]"
proof (induction n arbitrary: a)
  case (Suc n)
  show ?case
  proof (cases "a \<le> b")
    case True
    then have "drop (Suc n) [a..b] = drop n [a + 1..b]" by (simp add: upto_rec1)
    then show ?thesis by (simp add: Suc.IH algebra_simps)
  qed simp
qed simp

lemma tail_of_upto:
  assumes "map f xs = [hi - int (length xs) + 1 .. hi]"
  shows "map f (drop j xs) = [hi - int (length (drop j xs)) + 1 .. hi]"
proof -
  have "map f (drop j xs) = [hi - int (length xs) + 1 + int j .. hi]"
    using assms by (simp add: drop_map [symmetric] drop_upto)
  then show ?thesis by (cases "j \<le> length xs") (auto simp: of_nat_diff algebra_simps)
qed

lemma record_change_log_inv:
  assumes "log_inv p" and "pl_changes q = pl_changes p" "pl_revision q = pl_revision p"
  shows "log_inv (fst (record_change q k s r v t))"
proof -
  let ?n = "length (pl_changes p)" and ?rv = "pl_revision p"
  let ?c = "snd (record_change q k s r v t)"
  have "map sc_cursor (pl_changes p @ [?c]) = [?rv - int ?n + 1 .. ?rv] @ [?rv + 1]"
    using assms by (simp add: log_inv_def)
  also have "\<dots> = [(?rv + 1) - int (length (pl_changes p @ [?c])) + 1 .. ?rv + 1]"
    using assms(1) upto_rec2 [of "?rv - int ?n + 1" "?rv + 1"] by (simp add: log_inv_def)
  finally have "map sc_cursor (deque_push m (pl_changes p) ?c)
      = [?rv + 1 - int (length (deque_push m (pl_changes p) ?c)) + 1 .. ?rv + 1]" for m
    unfolding deque_push_def by (rule tail_of_upto)
  moreover have "int (length (deque_push m (pl_changes p) ?c)) \<le> ?rv + 1" for m
    using assms(1) by (auto simp: log_inv_def length_deque_push min_def)
  ultimately show ?thesis using assms(2,3) by (simp add: log_inv_def)
qed

subsection \<open>Entities, values and relations\<close>

text \<open>What every single write leaves alone or can only extend.\<close>

definition entities_extend :: "plane \<Rightarrow> plane \<Rightarrow> bool" where
  "entities_extend p q \<longleftrightarrow> (\<forall>r e. dict_get (pl_entities p) r = Some e \<longrightarrow>
     (\<exists>e'. dict_get (pl_entities q) r = Some e' \<and> ge_graph e' = ge_graph e \<and>
        ge_entity_type e' = ge_entity_type e))"

lemma entities_extend_refl [simp]: "pl_entities q = pl_entities p \<Longrightarrow> entities_extend p q"
  by (simp add: entities_extend_def)

lemma value_typed_extend:
  "value_typed p r k v \<Longrightarrow> entities_extend p q \<Longrightarrow> pl_registry q = pl_registry p \<Longrightarrow> value_typed q r k v"
  unfolding value_typed_def entities_extend_def by metis

lemma relation_allowed_cong:
  "ge_graph s' = ge_graph s \<Longrightarrow> ge_entity_type s' = ge_entity_type s \<Longrightarrow>
   ge_graph t' = ge_graph t \<Longrightarrow> ge_entity_type t' = ge_entity_type t \<Longrightarrow>
   relation_allowed s' t' ty = relation_allowed s t ty"
  by (simp add: relation_allowed_def)

lemma relation_typed_extend:
  "relation_typed p k r \<Longrightarrow> entities_extend p q \<Longrightarrow> relation_typed q k r"
  unfolding relation_typed_def entities_extend_def by (metis relation_allowed_cong)

lemma state_inv_extend:
  "state_inv p \<Longrightarrow> entities_extend p q \<Longrightarrow> pl_registry q = pl_registry p \<Longrightarrow>
   pl_state q = pl_state p \<Longrightarrow> state_inv q"
  by (auto simp: state_inv_def intro: value_typed_extend)

lemma relations_inv_extend:
  "relations_inv p \<Longrightarrow> entities_extend p q \<Longrightarrow> pl_relations q = pl_relations p \<Longrightarrow> relations_inv q"
  unfolding relations_inv_def using relation_typed_extend by metis

lemma publish_accept_fields [simp]:
  "pl_registry (fst (publish_accept p u d c)) = pl_registry p"
  "pl_components (fst (publish_accept p u d c)) = pl_components p"
  "pl_entities (fst (publish_accept p u d c)) = pl_entities p"
  "pl_relations (fst (publish_accept p u d c)) = pl_relations p"
  "pl_metrics (fst (publish_accept p u d c)) = pl_metrics p"
  "pl_events (fst (publish_accept p u d c)) = pl_events p"
  "pl_snapshots (fst (publish_accept p u d c)) = pl_snapshots p"
  "pl_revision (fst (publish_accept p u d c)) = pl_revision p + 1"
  "pl_max_snapshots (fst (publish_accept p u d c)) = pl_max_snapshots p"
  "pl_max_changes (fst (publish_accept p u d c)) = pl_max_changes p"
  "pl_max_metrics (fst (publish_accept p u d c)) = pl_max_metrics p"
  "pl_max_events (fst (publish_accept p u d c)) = pl_max_events p"
  "pl_state (fst (publish_accept p u d c)) = dict_set (pl_state p) (su_entity_ref u, ck_key d)
     (published_value u d (datetime_aware (su_timestamp u))
       (next_version (su_version u) (map_option sv_version c)))"
  "pl_heartbeats (fst (publish_accept p u d c)) = pl_heartbeats p"
  by (simp_all add: publish_accept_def Let_def case_prod_beta)

lemma relation_accept_fields [simp]:
  "pl_registry (fst (relation_accept p u c)) = pl_registry p"
  "pl_components (fst (relation_accept p u c)) = pl_components p"
  "pl_entities (fst (relation_accept p u c)) = pl_entities p"
  "pl_state (fst (relation_accept p u c)) = pl_state p"
  "pl_metrics (fst (relation_accept p u c)) = pl_metrics p"
  "pl_events (fst (relation_accept p u c)) = pl_events p"
  "pl_snapshots (fst (relation_accept p u c)) = pl_snapshots p"
  "pl_revision (fst (relation_accept p u c)) = pl_revision p + 1"
  "pl_max_snapshots (fst (relation_accept p u c)) = pl_max_snapshots p"
  "pl_max_changes (fst (relation_accept p u c)) = pl_max_changes p"
  "pl_max_metrics (fst (relation_accept p u c)) = pl_max_metrics p"
  "pl_max_events (fst (relation_accept p u c)) = pl_max_events p"
  "pl_relations (fst (relation_accept p u c)) = dict_set (pl_relations p)
     (ru_source_ref u, ru_relation_type u, ru_target_ref u)
     (upserted_relation u (datetime_aware (ru_timestamp u))
       (next_version (ru_version u) (map_option gr_version c)))"
  "pl_heartbeats (fst (relation_accept p u c)) = pl_heartbeats p"
  by (simp_all add: relation_accept_def Let_def case_prod_beta)

lemma publish_accept_remembers:
  "in_idem \<in> set (pl_idempotency (fst (publish_accept p u d c))) \<Longrightarrow>
     in_idem \<in> set (pl_idempotency p) \<or> in_idem = (su_idempotency_key u,
       accepted_result (su_entity_ref u) (ck_key d) (next_version (su_version u) (map_option sv_version c)))
       \<and> su_idempotency_key u \<noteq> []"
  by (cases in_idem) (auto simp: publish_accept_def Let_def case_prod_beta remember_result_def
      split: if_splits dest!: in_dict_set)

lemma relation_accept_remembers:
  "in_idem \<in> set (pl_idempotency (fst (relation_accept p u c))) \<Longrightarrow>
     in_idem \<in> set (pl_idempotency p) \<or> in_idem = (ru_idempotency_key u,
       accepted_result (ru_source_ref u) (ru_relation_type u) (next_version (ru_version u) (map_option gr_version c)))
       \<and> ru_idempotency_key u \<noteq> []"
  by (cases in_idem) (auto simp: relation_accept_def Let_def case_prod_beta remember_result_def
      split: if_splits dest!: in_dict_set)

lemma accept_idempotency_distinct:
  assumes "dict_distinct (pl_idempotency p)"
  shows "dict_distinct (pl_idempotency (fst (publish_accept p u d c)))"
    and "dict_distinct (pl_idempotency (fst (relation_accept p v r)))"
  using assms by (auto simp: publish_accept_def relation_accept_def Let_def case_prod_beta remember_result_def)

lemma log_inv_remember [simp]: "log_inv (remember_result p k r) \<longleftrightarrow> log_inv p"
  by (simp add: log_inv_def)

lemma publish_accept_log_inv: "log_inv p \<Longrightarrow> log_inv (fst (publish_accept p u d c))"
  by (auto simp: publish_accept_def Let_def case_prod_beta intro!: record_change_log_inv [of p])

lemma relation_accept_log_inv: "log_inv p \<Longrightarrow> log_inv (fst (relation_accept p u c))"
  by (auto simp: relation_accept_def Let_def case_prod_beta intro!: record_change_log_inv [of p])

subsection \<open>Snapshots\<close>

lemma dedupe_dict:
  "\<forall>(k, v) \<in> set m. value_id v = k \<Longrightarrow> dict_distinct m \<Longrightarrow>
   (let m' = foldl (\<lambda>m v. dict_set m (sv_entity_ref v, sv_key v) v) m vs in
      dict_distinct m' \<and> (\<forall>(k, v) \<in> set m'. value_id v = k) \<and>
      snd ` set m' \<subseteq> snd ` set m \<union> set vs)"
proof (induction vs arbitrary: m)
  case (Cons v vs)
  let ?m = "dict_set m (sv_entity_ref v, sv_key v) v"
  have "\<forall>(k, w) \<in> set ?m. value_id w = k"
    using Cons.prems(1) by (auto dest!: in_dict_set simp: value_id_def)
  moreover have "dict_distinct ?m" using Cons.prems(2) by blast
  ultimately have *: "let m' = foldl (\<lambda>m v. dict_set m (sv_entity_ref v, sv_key v) v) ?m vs in
      dict_distinct m' \<and> (\<forall>(k, v) \<in> set m'. value_id v = k) \<and>
      snd ` set m' \<subseteq> snd ` set ?m \<union> set vs"
    by (rule Cons.IH)
  have "snd ` set ?m \<union> set vs \<subseteq> snd ` set m \<union> set (v # vs)"
    using snd_dict_set [of m "(sv_entity_ref v, sv_key v)" v] by auto
  then show ?case using * by (simp only: Let_def foldl.simps) (blast intro: order_trans)
qed auto

lemma map_value_id_eq_fst:
  "\<forall>(k, v) \<in> set m. value_id v = k \<Longrightarrow> map value_id (map snd m) = map fst m"
  by (induction m) auto

lemma dedupe_values_distinct: "distinct (map value_id (dedupe_values vs))"
  using dedupe_dict [of "[]" vs]
  by (simp add: dedupe_values_def Let_def map_value_id_eq_fst dict_distinct_def del: map_map)

lemma dedupe_values_subset: "set (dedupe_values vs) \<subseteq> set vs"
  using dedupe_dict [of "[]" vs] by (auto simp: dedupe_values_def Let_def)

lemma build_snapshot_fields [simp]:
  "sn_token (build_snapshot now u p req) = snapshot_token (pl_revision p) u"
  "sn_logical_time (build_snapshot now u p req) = pl_revision p"
  "sn_created_at (build_snapshot now u p req) = now"
  "set (sn_values (build_snapshot now u p req)) = set (dedupe_values (items_selected (snap_items p now req)))"
  "set (sn_missing (build_snapshot now u p req)) = set (items_missing (snap_items p now req))"
  "set (sn_stale (build_snapshot now u p req)) = set (items_stale (snap_items p now req))"
  "set (sn_relations (build_snapshot now u p req)) = set (snap_relations p now req)"
  by (simp_all add: build_snapshot_def Let_def)

lemma build_snapshot_wf: "snapshot_wf (build_snapshot now u p req)"
proof -
  have "map value_id = map (\<lambda>v. (sv_entity_ref v, sv_key v))" by (simp add: value_id_def fun_eq_iff)
  moreover have "distinct (map value_id (sort_key f (dedupe_values vs)))" for f :: "_ \<Rightarrow> 'a::linorder" and vs
    using dedupe_values_distinct [of vs] by (simp add: distinct_map)
  ultimately show ?thesis
    by (auto simp: snapshot_wf_def build_snapshot_def Let_def divide_le_eq_1)
qed

section \<open>Every single write keeps the invariant\<close>

lemma entities_inv_cong: "pl_entities q = pl_entities p \<Longrightarrow> entities_inv q = entities_inv p"
  by (simp add: entities_inv_def)

lemma snapshots_inv_mono:
  "snapshots_inv p \<Longrightarrow> pl_snapshots q = pl_snapshots p \<Longrightarrow> pl_revision p \<le> pl_revision q \<Longrightarrow> snapshots_inv q"
  by (fastforce simp: snapshots_inv_def)

lemma log_inv_cong:
  "pl_changes q = pl_changes p \<Longrightarrow> pl_revision q = pl_revision p \<Longrightarrow> log_inv q = log_inv p"
  by (simp add: log_inv_def)

lemma publish_accept_bounds_inv: "bounds_inv p \<Longrightarrow> bounds_inv (fst (publish_accept p u d c))"
  by (auto simp: bounds_inv_def publish_accept_def Let_def case_prod_beta length_deque_push)

lemma relation_accept_bounds_inv: "bounds_inv p \<Longrightarrow> bounds_inv (fst (relation_accept p u c))"
  by (auto simp: bounds_inv_def relation_accept_def Let_def case_prod_beta length_deque_push)

lemma entity_write_extends:
  assumes "entities_inv p" "wf_entity e" "pl_entities q = dict_set (pl_entities p) (ge_ref e) e"
  shows "entities_extend p q" "entities_inv q"
proof -
  show "entities_extend p q"
    unfolding entities_extend_def
  proof (intro allI impI)
    fix r e0
    assume e0: "dict_get (pl_entities p) r = Some e0"
    then have "ge_ref e0 = r" "wf_entity e0" using assms(1) by (simp_all add: entities_inv_def)
    then have "r = ge_ref e \<Longrightarrow> ge_graph e = ge_graph e0 \<and> ge_entity_type e = ge_entity_type e0"
      using wf_entity_ref_unique [OF assms(2)] by simp
    then show "\<exists>e'. dict_get (pl_entities q) r = Some e' \<and> ge_graph e' = ge_graph e0 \<and>
        ge_entity_type e' = ge_entity_type e0"
      using e0 assms(3) by auto
  qed
  show "entities_inv q"
    using assms by (auto simp: entities_inv_def)
qed

lemma plane_write_cases_entities:
  assumes "plane_write p q"
  obtains (same) "pl_entities q = pl_entities p" "pl_registry q = pl_registry p"
  | (entity) e where "wf_entity e" "pl_entities q = dict_set (pl_entities p) (ge_ref e) e"
      "pl_registry q = pl_registry p"
  using assms by cases (simp_all add: store_snapshot_def)

lemma plane_write_entities:
  assumes "plane_write p q" "entities_inv p"
  shows "entities_inv q \<and> entities_extend p q \<and> pl_registry q = pl_registry p"
  using assms(1)
proof (cases rule: plane_write_cases_entities)
  case same
  then show ?thesis using assms(2) by (simp add: entities_inv_def)
next
  case (entity e)
  then show ?thesis using entity_write_extends [OF assms(2)] by simp
qed

lemma plane_write_state:
  assumes "plane_write p q" "entities_inv p" "state_inv p"
  shows "state_inv q"
proof -
  note ext = plane_write_entities [OF assms(1,2)]
  from assms(1) show ?thesis
  proof (cases rule: plane_write.cases)
    case (state u e d)
    let ?v = "published_value u d (datetime_aware (su_timestamp u))
       (next_version (su_version u) (map_option sv_version (dict_get (pl_state p) (su_entity_ref u, ck_key d))))"
    have "value_typed q (su_entity_ref u) (ck_key d) ?v"
      using state(2)
      by (auto simp: state(1) value_typed_def published_value_def publish_admitted_def
          normalize_confidence_def datetime_aware_def)
    moreover have "\<And>r k v. dict_get (pl_state p) (r, k) = Some v \<Longrightarrow> value_typed q r k v"
      using assms(3) ext by (auto simp: state_inv_def intro: value_typed_extend)
    ultimately show ?thesis using assms(3) by (auto simp: state(1) state_inv_def)
  qed (use ext assms(3) in \<open>auto simp: store_snapshot_def intro: state_inv_extend\<close>)
qed

lemma plane_write_relations:
  assumes "plane_write p q" "entities_inv p" "relations_inv p"
  shows "relations_inv q"
proof -
  note ext = plane_write_entities [OF assms(1,2)]
  from assms(1) show ?thesis
  proof (cases rule: plane_write.cases)
    case (relation u s t)
    let ?r = "upserted_relation u (datetime_aware (ru_timestamp u)) (next_version (ru_version u)
        (map_option gr_version (dict_get (pl_relations p)
          (ru_source_ref u, ru_relation_type u, ru_target_ref u))))"
    have "relation_typed q (ru_source_ref u, ru_relation_type u, ru_target_ref u) ?r"
      using relation(2)
      by (auto simp: relation(1) relation_typed_def upserted_relation_def relation_admitted_def
          relation_key_def)
    moreover have "\<And>k r. dict_get (pl_relations p) k = Some r \<Longrightarrow> relation_typed q k r"
      using assms(3) ext unfolding relations_inv_def by (metis relation_typed_extend)
    ultimately show ?thesis using assms(3) by (auto simp: relation(1) relations_inv_def)
  qed (use ext assms(3) in \<open>auto simp: store_snapshot_def intro: relations_inv_extend\<close>)
qed

text \<open>
  Everything registered stays registered, so what an index says of its subjects, and what a
  remembered result says of the plane, survives every write.
\<close>

lemma plane_write_grows:
  assumes "plane_write p q"
  shows "dict_has (pl_components p) k \<Longrightarrow> dict_has (pl_components q) k"
    and "dict_has (pl_entities p) r \<Longrightarrow> dict_has (pl_entities q) r"
    and "result_valid p x \<Longrightarrow> result_valid q x"
  using assms by (cases, auto simp: store_snapshot_def result_valid_def)+

lemma plane_write_idempotency:
  assumes "plane_write p q" "(k, r) \<in> set (pl_idempotency q)"
  shows "(k, r) \<in> set (pl_idempotency p) \<or> k \<noteq> [] \<and> result_valid q r"
  using assms
  by cases (auto simp: store_snapshot_def result_valid_def publish_admitted_def relation_admitted_def
      dict_has_def dest!: publish_accept_remembers relation_accept_remembers)

lemma plane_write_indexes:
  assumes w: "plane_write p q" and inv: "indexes_inv p"
  shows "indexes_inv q"
proof -
  note keep = plane_write_grows [OF w]
  have "filed_by cd_component_id (\<lambda>d. True) (pl_components q)"
    using w inv by cases (auto simp: indexes_inv_def store_snapshot_def intro: filed_by_set)
  moreover have "filed_by se_event_id (\<lambda>e. dict_has (pl_entities q) (se_subject_ref e)) (pl_events p)"
    using inv keep(2) by (auto simp: indexes_inv_def intro: filed_by_mono)
  from w this have "filed_by se_event_id (\<lambda>e. dict_has (pl_entities q) (se_subject_ref e)) (pl_events q)"
    by cases (auto simp: store_snapshot_def intro: filed_by_set filed_by_trim)
  moreover have "filed_by hb_subject_ref (\<lambda>h. dict_has (pl_entities q) (hb_subject_ref h) \<or>
       dict_has (pl_components q) (hb_subject_ref h)) (pl_heartbeats p)"
    using inv keep(1,2) by (auto simp: indexes_inv_def intro: filed_by_mono)
  from w this have "filed_by hb_subject_ref (\<lambda>h. dict_has (pl_entities q) (hb_subject_ref h) \<or>
       dict_has (pl_components q) (hb_subject_ref h)) (pl_heartbeats q)"
    by cases (auto simp: store_snapshot_def intro: filed_by_set)
  moreover have "dict_distinct (pl_idempotency q)"
    using w inv by cases (auto simp: indexes_inv_def store_snapshot_def accept_idempotency_distinct)
  moreover have "\<forall>(k, r) \<in> set (pl_idempotency q). k \<noteq> [] \<and> result_valid q r"
    using plane_write_idempotency [OF w] inv keep(3) by (fastforce simp: indexes_inv_def)
  ultimately show ?thesis by (simp add: indexes_inv_def)
qed

lemma plane_write_log: "plane_write p q \<Longrightarrow> log_inv p \<Longrightarrow> log_inv q"
  by (erule plane_write.cases)
    (auto simp: publish_accept_log_inv relation_accept_log_inv
      intro: record_change_log_inv log_inv_cong [THEN iffD2] simp: store_snapshot_def)

lemma length_store_snapshots: "length (pl_snapshots (store_snapshot p s)) \<le> pl_max_snapshots p"
  by (simp add: store_snapshot_def)

lemma plane_write_bounds: "plane_write p q \<Longrightarrow> bounds_inv p \<Longrightarrow> bounds_inv q"
  by (erule plane_write.cases)
    (auto simp: publish_accept_bounds_inv relation_accept_bounds_inv,
     auto simp: bounds_inv_def store_snapshot_def length_deque_push)

lemma plane_write_snapshots:
  assumes "plane_write p q" "snapshots_inv p"
  shows "snapshots_inv q"
  using assms(1)
proof (cases rule: plane_write.cases)
  case (snapshot now u req)
  let ?s = "build_snapshot now u p req"
  have "set (dict_trim n (dict_set_last (pl_snapshots p) k ?s)) \<subseteq> insert (k, ?s) (set (pl_snapshots p))" for n k
    using set_dict_trim [of n "dict_set_last (pl_snapshots p) k ?s"]
    by (auto simp: dict_set_last_def AList.delete_eq)
  with assms(2) show ?thesis
    by (fastforce simp: snapshot snapshots_inv_def store_snapshot_def build_snapshot_wf)
qed (use assms(2) in \<open>auto intro: snapshots_inv_mono\<close>)

lemma plane_write_inv: "plane_inv p \<Longrightarrow> plane_write p q \<Longrightarrow> plane_inv q"
  unfolding plane_inv_def
  by (meson plane_write_entities plane_write_state plane_write_relations plane_write_indexes
      plane_write_log plane_write_bounds plane_write_snapshots)

end
