(* ===== verification/SF_Plane_Runs.thy ===== *)
theory SF_Plane_Runs
  imports SF_Plane_Safety
begin

text \<open>
  Runs of the State Plane, and a small plane to evaluate its operations on.
\<close>

chapter \<open>Runs\<close>

text \<open>
  Runs of the State Plane. The order \<open>plane_above\<close> collects what never goes back along a run; the
  step relation of \<open>SF_Plane_Invariants\<close> is shown to be a monotone system for the plane
  invariant and this order, and the properties of whole runs are read off that interpretation.
\<close>

section \<open>What never goes back\<close>

definition plane_above :: "plane \<Rightarrow> plane \<Rightarrow> bool" where
  "plane_above p q \<longleftrightarrow>
     pl_registry q = pl_registry p \<and> pl_revision p \<le> pl_revision q \<and> entities_extend p q \<and>
     (\<forall>k v. dict_get (pl_state p) k = Some v \<longrightarrow>
        (\<exists>v'. dict_get (pl_state q) k = Some v' \<and> (v' = v \<or> sv_version v < sv_version v'))) \<and>
     (\<forall>k r. dict_get (pl_relations p) k = Some r \<longrightarrow>
        (\<exists>r'. dict_get (pl_relations q) k = Some r' \<and> (r' = r \<or> gr_version r < gr_version r'))) \<and>
     (\<forall>k r. dict_get (pl_idempotency p) k = Some r \<longrightarrow> dict_get (pl_idempotency q) k = Some r) \<and>
     (pl_revision q = pl_revision p \<longrightarrow>
        pl_entities q = pl_entities p \<and> pl_state q = pl_state p \<and>
        pl_relations q = pl_relations p \<and> pl_events q = pl_events p)"

lemma plane_above_refl: "plane_above p p"
  by (simp add: plane_above_def)

lemma entities_extend_trans: "entities_extend p q \<Longrightarrow> entities_extend q r \<Longrightarrow> entities_extend p r"
  unfolding entities_extend_def by metis

lemma plane_above_trans: "plane_above p q \<Longrightarrow> plane_above q r \<Longrightarrow> plane_above p r"
proof -
  assume pq: "plane_above p q" and qr: "plane_above q r"
  have "\<exists>v''. dict_get (pl_state r) k = Some v'' \<and> (v'' = v \<or> sv_version v < sv_version v'')"
    if "dict_get (pl_state p) k = Some v" for k v
  proof -
    from pq that obtain v' where "dict_get (pl_state q) k = Some v'" "v' = v \<or> sv_version v < sv_version v'"
      unfolding plane_above_def by blast
    moreover from this qr obtain v'' where "dict_get (pl_state r) k = Some v''"
        "v'' = v' \<or> sv_version v' < sv_version v''"
      unfolding plane_above_def by blast
    ultimately show ?thesis by auto
  qed
  moreover have "\<exists>v''. dict_get (pl_relations r) k = Some v'' \<and> (v'' = v \<or> gr_version v < gr_version v'')"
    if "dict_get (pl_relations p) k = Some v" for k v
  proof -
    from pq that obtain v' where "dict_get (pl_relations q) k = Some v'" "v' = v \<or> gr_version v < gr_version v'"
      unfolding plane_above_def by blast
    moreover from this qr obtain v'' where "dict_get (pl_relations r) k = Some v''"
        "v'' = v' \<or> gr_version v' < gr_version v''"
      unfolding plane_above_def by blast
    ultimately show ?thesis by auto
  qed
  ultimately show ?thesis
    using pq qr unfolding plane_above_def by (auto intro: entities_extend_trans)
qed

lemma next_version_increases:
  "\<not> (requested \<noteq> 0 \<and> requested \<le> c) \<Longrightarrow> c < next_version requested (Some c)"
  by (auto simp: next_version_def)

lemma state_order_conflict_None:
  "state_order_conflict c a t v = None \<Longrightarrow> \<not> (v \<noteq> 0 \<and> v \<le> sv_version c)"
  by (auto simp: state_order_conflict_def split: if_splits)

lemma relation_order_conflict_None:
  "relation_order_conflict c a t v = None \<Longrightarrow> \<not> (v \<noteq> 0 \<and> v \<le> gr_version c)"
  by (auto simp: relation_order_conflict_def split: if_splits)

lemma idempotent_replay_None_remember:
  "idempotent_replay p k = None \<Longrightarrow> dict_get (pl_idempotency p) k' = Some r \<Longrightarrow>
   dict_get (pl_idempotency (remember_result q k x)) k' = Some r \<longleftrightarrow>
     (if k \<noteq> [] \<and> k' = k then x = r else dict_get (pl_idempotency q) k' = Some r)"
  by (auto simp: remember_result_def)

lemma publish_accept_idempotency:
  "pl_idempotency (fst (publish_accept p u d c)) =
     (if su_idempotency_key u \<noteq> []
      then dict_set (pl_idempotency p) (su_idempotency_key u) (fst (snd (publish_accept p u d c)))
      else pl_idempotency p)"
  by (simp add: publish_accept_def Let_def case_prod_beta remember_result_def)

lemma relation_accept_idempotency:
  "pl_idempotency (fst (relation_accept p u c)) =
     (if ru_idempotency_key u \<noteq> []
      then dict_set (pl_idempotency p) (ru_idempotency_key u) (fst (snd (relation_accept p u c)))
      else pl_idempotency p)"
  by (simp add: relation_accept_def Let_def case_prod_beta remember_result_def)

lemma publish_accept_above:
  assumes "publish_admitted p u e d"
  shows "plane_above p (fst (publish_accept p u d (dict_get (pl_state p) (su_entity_ref u, ck_key d))))"
proof -
  have idem: "su_idempotency_key u \<noteq> [] \<Longrightarrow> dict_get (pl_idempotency p) (su_idempotency_key u) = None"
    using assms by (auto simp: publish_admitted_def idempotent_replay_def)
  have ver: "sv_version c < next_version (su_version u) (Some (sv_version c))"
    if "dict_get (pl_state p) (su_entity_ref u, ck_key d) = Some c" for c
    using assms that by (auto simp: publish_admitted_def dest!: state_order_conflict_None
        intro: next_version_increases)
  show ?thesis
    using idem ver
    by (auto simp: plane_above_def publish_accept_idempotency published_value_def)
qed

lemma relation_accept_above:
  assumes "relation_admitted p u s t"
  shows "plane_above p (fst (relation_accept p u
     (dict_get (pl_relations p) (ru_source_ref u, ru_relation_type u, ru_target_ref u))))"
proof -
  have idem: "ru_idempotency_key u \<noteq> [] \<Longrightarrow> dict_get (pl_idempotency p) (ru_idempotency_key u) = None"
    using assms by (auto simp: relation_admitted_def idempotent_replay_def)
  have ver: "gr_version c < next_version (ru_version u) (Some (gr_version c))"
    if "dict_get (pl_relations p) (ru_source_ref u, ru_relation_type u, ru_target_ref u) = Some c" for c
    using assms that by (auto simp: relation_admitted_def dest!: relation_order_conflict_None
        intro: next_version_increases)
  show ?thesis
    using idem ver
    by (auto simp: plane_above_def relation_accept_idempotency upserted_relation_def)
qed

lemma plane_write_above:
  assumes "plane_inv p" "plane_write p q"
  shows "plane_above p q"
  using assms(2)
proof (cases rule: plane_write.cases)
  case (entity e k s r v t)
  have "entities_extend p q"
    using entity_write_extends [of p e q] assms(1) entity by (simp add: plane_inv_def)
  then show ?thesis using entity by (simp add: plane_above_def)
next
  case (state u e d)
  then show ?thesis by (simp add: publish_accept_above)
next
  case (relation u s t)
  then show ?thesis by (simp add: relation_accept_above)
qed (auto simp: plane_above_def store_snapshot_def)

section \<open>The plane as a monotone system\<close>

interpretation plane_writes: monotone_system plane_write plane_inv plane_above
  by unfold_locales
    (auto intro: plane_write_inv plane_above_refl plane_above_trans plane_write_above)

interpretation plane_runs: monotone_system plane_step plane_inv plane_above
proof unfold_locales
  fix p q
  assume "plane_inv p" "plane_step p q"
  then show "plane_inv q" "plane_above p q"
    by (auto dest!: plane_step_writes intro: plane_writes.run_inv plane_writes.run_above)
qed (auto intro: plane_above_refl plane_above_trans)

chapter \<open>Examples\<close>

text \<open>
  A small plane to evaluate the operations on: one canonical key with an alias, one KV object on
  one resource, and a few updates. The witnesses of the State Plane properties use it.
\<close>

definition ex_size_key :: canonical_key where
  "ex_size_key = canonical ''kv.size'' [''stateful_object''] ''int'' ''byte'' 5000000"

definition ex_registry :: registry where
  "ex_registry = \<lparr>reg_definitions = [(''kv.size'', ex_size_key)],
                  reg_aliases = [(''size'', ''kv.size'')]\<rparr>"

definition ex_kv :: string where
  "ex_kv = ''component/stateful_object/a''"

definition ex_node :: string where
  "ex_node = ''deployment/node/n''"

definition ex_entity :: "string \<Rightarrow> graph_kind \<Rightarrow> string \<Rightarrow> graph_entity" where
  "ex_entity r g t = \<lparr>ge_ref = r, ge_graph = g, ge_entity_type = t, ge_lifecycle = [],
     ge_owner_component_ref = [], ge_parent_ref = [], ge_labels = [], ge_schema_version = ''1.1''\<rparr>"

definition ex_correlation :: correlation_identity where
  "ex_correlation = \<lparr>ci_trace_id = [], ci_span_id = [], ci_agent_id = [], ci_session_id = [],
     ci_request_id = [], ci_action_id = [], ci_component_id = [], ci_instance_id = []\<rparr>"

definition ex_update :: "source_authority \<Rightarrow> int \<Rightarrow> int \<Rightarrow> string \<Rightarrow> int option \<Rightarrow> state_update" where
  "ex_update authority t bytes idem expected =
     \<lparr>su_entity_ref = ex_kv, su_key = ''size'', su_value = PInt bytes, su_producer = ''p'',
      su_timestamp = utc t, su_ttl = None, su_authority = authority, su_version = 0,
      su_semantic = SEM_OBSERVED, su_confidence = 1, su_source_ref = None,
      su_correlation = ex_correlation, su_expected_version = expected, su_idempotency_key = idem\<rparr>"

definition ex_relation :: relation_update where
  "ex_relation = \<lparr>ru_source_ref = ex_kv, ru_relation_type = ''located_on'', ru_target_ref = ex_node,
     ru_producer = ''p'', ru_timestamp = utc 0, ru_authority = STRUCTURED_LIFECYCLE,
     ru_attributes = [], ru_ttl = None, ru_version = 0, ru_expected_version = None,
     ru_idempotency_key = []\<rparr>"

definition ex_request :: snapshot_request where
  "ex_request = \<lparr>sq_entities = [ex_kv], sq_keys = [''size''], sq_max_age_ms = [],
     sq_min_authority = LOG_HINT, sq_include_relations = True\<rparr>"

text \<open>The empty plane, the plane with both entities, then with a value and a relation.\<close>

definition ex_plane0 :: plane where
  "ex_plane0 = \<lparr>pl_registry = ex_registry, pl_components = [], pl_entities = [], pl_state = [],
     pl_relations = [], pl_metrics = [], pl_events = [], pl_heartbeats = [], pl_idempotency = [],
     pl_snapshots = [], pl_changes = [], pl_revision = 0, pl_max_snapshots = 2,
     pl_max_changes = 3, pl_max_metrics = 2, pl_max_events = 2\<rparr>"

definition ex_add_entity :: "graph_entity \<Rightarrow> plane \<Rightarrow> plane" where
  "ex_add_entity e p = (case upsert_entity (utc 0) p e of Inr (q, _) \<Rightarrow> q | Inl _ \<Rightarrow> p)"

definition ex_plane1 :: plane where
  "ex_plane1 = ex_add_entity (ex_entity ex_node DEPLOYMENT ''node'')
     (ex_add_entity (ex_entity ex_kv COMPONENT ''stateful_object'') ex_plane0)"

definition ex_plane2 :: plane where
  "ex_plane2 = fst (publish_state ex_plane1 [ex_update DIRECT_TELEMETRY 10 64 ''k1'' (Some 0)])"

definition ex_plane3 :: plane where
  "ex_plane3 = fst (upsert_relations ex_plane2 [ex_relation])"

lemma ex_wf_entities:
  "wf_entity (ex_entity ex_kv COMPONENT ''stateful_object'')"
  "wf_entity (ex_entity ex_node DEPLOYMENT ''node'')"
  by code_simp+

lemma ex_plane0_init: "plane_init ex_registry 2 3 2 2 = Inr ex_plane0"
  by (simp add: plane_init_def ex_plane0_def)

lemma ex_add_entity_step: "wf_entity e \<Longrightarrow> plane_step\<^sup>*\<^sup>* p (ex_add_entity e p)"
  by (auto simp: ex_add_entity_def split: sum.splits prod.splits intro: plane_step.upsert_entity)

lemma ex_run1: "plane_step\<^sup>*\<^sup>* ex_plane0 ex_plane1"
  unfolding ex_plane1_def by (meson ex_add_entity_step ex_wf_entities rtranclp_trans)

lemma ex_step2: "plane_step ex_plane1 ex_plane2"
  unfolding ex_plane2_def by (metis plane_step.publish_state surjective_pairing)

lemma ex_step3: "plane_step ex_plane2 ex_plane3"
  unfolding ex_plane3_def by (metis plane_step.upsert_relations surjective_pairing)

lemma ex_run2: "plane_step\<^sup>*\<^sup>* ex_plane0 ex_plane2"
  using ex_run1 ex_step2 by simp

lemma ex_run3: "plane_step\<^sup>*\<^sup>* ex_plane0 ex_plane3"
  using ex_run2 ex_step3 by simp

lemma ex_invs: "plane_inv ex_plane0" "plane_inv ex_plane1" "plane_inv ex_plane2" "plane_inv ex_plane3"
proof -
  have 0: "plane_inv ex_plane0" using ex_plane0_init by (rule plane_init_inv)
  show "plane_inv ex_plane0" by (rule 0)
  show "plane_inv ex_plane1" by (rule plane_runs.run_inv [OF ex_run1 0])
  show "plane_inv ex_plane2" by (rule plane_runs.run_inv [OF ex_run2 0])
  show "plane_inv ex_plane3" by (rule plane_runs.run_inv [OF ex_run3 0])
qed

lemma ex_plane2_value:
  "map_option (\<lambda>v. (sv_value v, sv_version v)) (dict_get (pl_state ex_plane2) (ex_kv, ''kv.size''))
     = Some (PInt 64, 1)"
  by code_simp

end
