(* ===== verification/SF_Plane_Properties.thy ===== *)
theory SF_Plane_Properties
  imports SF_Plane_Runs
begin

text \<open>
  The properties of the State Plane's write side, its change log and its snapshots. Each property
  is followed by a witness that applies it to the example plane.
\<close>

section \<open>Runs\<close>

text \<open>C2: Whatever sequence of public operations is run on a new State Plane, the plane invariant
  holds: entities, values, relations, components, events, heartbeats and snapshots are each filed
  once under the identity they carry; stored values are typed by a registered key on a registered
  entity of a permitted type, stored relations are permitted ones between registered entities,
  the subject of an event is a registered entity and that of a heartbeat an entity or a
  component; the result remembered under an idempotency key (never the empty one) is an accepted
  one and the value or relation it reports is in the plane; the change log is the gap-free tail
  of the revision history, snapshots are well formed and every bounded store is within its
  bound.\<close>
theorem plane_reachable_inv:
  assumes "plane_init r max_snapshots max_changes max_metrics max_events = Inr p0"
    and "plane_step\<^sup>*\<^sup>* p0 p"
  shows "plane_inv p"
  by (rule plane_runs.run_inv [OF assms(2) plane_init_inv [OF assms(1)]])

theorem plane_reachable_inv_witness:
  "plane_inv ex_plane3 \<and> pl_relations ex_plane3 \<noteq> [] \<and> pl_state ex_plane3 \<noteq> []"
proof -
  have "pl_relations ex_plane3 \<noteq> [] \<and> pl_state ex_plane3 \<noteq> []" by code_simp
  then show ?thesis using plane_reachable_inv [OF ex_plane0_init ex_run3] by simp
qed

text \<open>C7: Along any run a stored value is only ever replaced by one with a strictly larger version,
  and it never disappears: state versions are a per-key monotone clock.\<close>
theorem value_versions_increase:
  assumes "plane_inv p" and "plane_step\<^sup>*\<^sup>* p q" and "dict_get (pl_state p) k = Some v"
  shows "\<exists>v'. dict_get (pl_state q) k = Some v' \<and> (v' = v \<or> sv_version v < sv_version v')"
  using plane_runs.run_above [OF assms(2,1)] assms(3) unfolding plane_above_def by blast

theorem value_versions_increase_witness:
  "\<exists>v v'. dict_get (pl_state ex_plane2) (ex_kv, ''kv.size'') = Some v \<and>
     dict_get (pl_state ex_plane3) (ex_kv, ''kv.size'') = Some v' \<and> (v' = v \<or> sv_version v < sv_version v')"
proof -
  obtain v where v: "dict_get (pl_state ex_plane2) (ex_kv, ''kv.size'') = Some v"
    using ex_plane2_value by auto
  have "plane_step\<^sup>*\<^sup>* ex_plane2 ex_plane3" using ex_step3 by simp
  from value_versions_increase [OF ex_invs(3) this v] v show ?thesis by blast
qed

text \<open>Two states of one run with the same revision hold the same entities, values, relations
  and events: the logical time of a snapshot identifies the graph state it was taken from.\<close>
theorem equal_revision_equal_state:
  assumes "plane_inv p" and "plane_step\<^sup>*\<^sup>* p q" and "pl_revision q = pl_revision p"
  shows "pl_entities q = pl_entities p \<and> pl_state q = pl_state p \<and>
    pl_relations q = pl_relations p \<and> pl_events q = pl_events p"
  using plane_runs.run_above [OF assms(2,1)] assms(3) unfolding plane_above_def by blast

theorem equal_revision_equal_state_witness:
  "let q = fst (get_snapshot (utc 20) ''u'' ex_plane2 ex_request) in
     pl_revision q = pl_revision ex_plane2 \<and> pl_state q = pl_state ex_plane2"
proof -
  let ?q = "fst (get_snapshot (utc 20) ''u'' ex_plane2 ex_request)"
  have "plane_step ex_plane2 ?q" by (metis plane_step.snapshot surjective_pairing)
  then have run: "plane_step\<^sup>*\<^sup>* ex_plane2 ?q" by simp
  have rev: "pl_revision ?q = pl_revision ex_plane2"
    by (simp add: get_snapshot_def Let_def store_snapshot_def)
  show ?thesis using equal_revision_equal_state [OF ex_invs(3) run rev] rev by simp
qed

section \<open>Idempotent, optimistic and authoritative writes\<close>

lemma publish_one_accepted:
  assumes "publish_one p u = (p', r, c)" "wr_accepted r"
  obtains e d where "publish_admitted p u e d"
    "(p', r, c) = publish_accept p u d (dict_get (pl_state p) (su_entity_ref u, ck_key d))"
  using assms by (rule_tac publish_one_cases [of p u]) auto

text \<open>C15: An accepted update with an idempotency key can be resubmitted at any later time, in any
  form carrying that key: the plane is left unchanged and the answer is the first result marked as
  a duplicate.\<close>
theorem idempotent_resubmission:
  assumes "plane_inv p" and "publish_one p u = (p', r, c)" and "wr_accepted r"
    and "su_idempotency_key u \<noteq> []" and "plane_step\<^sup>*\<^sup>* p' q"
    and "su_idempotency_key u' = su_idempotency_key u"
  shows "publish_one q u' = (q, duplicate_of r, None)"
proof -
  from assms(2,3) obtain e d where "publish_admitted p u e d"
    and acc: "(p', r, c) = publish_accept p u d (dict_get (pl_state p) (su_entity_ref u, ck_key d))"
    by (rule publish_one_accepted)
  have "dict_get (pl_idempotency p') (su_idempotency_key u) = Some r"
    using acc assms(4) publish_accept_idempotency [of p u d] by (metis dict_get_set fst_conv snd_conv)
  moreover have "plane_inv p'"
    using plane_writes.run_inv [OF publish_one_write [OF assms(2)] assms(1)] .
  then have "plane_above p' q" using assms(5) by (rule plane_runs.run_above [rotated])
  ultimately have "dict_get (pl_idempotency q) (su_idempotency_key u) = Some r"
    unfolding plane_above_def by blast
  then show ?thesis using assms(4,6) by (simp add: publish_one_def idempotent_replay_def)
qed

theorem idempotent_resubmission_witness:
  "let u = ex_update DIRECT_TELEMETRY 10 64 ''k1'' (Some 0); r = fst (snd (publish_one ex_plane1 u)) in
     wr_accepted r \<and> publish_one ex_plane3 u = (ex_plane3, duplicate_of r, None)"
proof -
  let ?u = "ex_update DIRECT_TELEMETRY 10 64 ''k1'' (Some 0)"
  have acc: "wr_accepted (fst (snd (publish_one ex_plane1 ?u)))" by code_simp
  have "fst (publish_one ex_plane1 ?u) = ex_plane2"
    by (simp add: ex_plane2_def case_prod_beta)
  then have run: "plane_step\<^sup>*\<^sup>* (fst (publish_one ex_plane1 ?u)) ex_plane3"
    using ex_step3 by simp
  have "publish_one ex_plane1 ?u = (fst (publish_one ex_plane1 ?u),
      fst (snd (publish_one ex_plane1 ?u)), snd (snd (publish_one ex_plane1 ?u)))" by simp
  from idempotent_resubmission [OF ex_invs(2) this acc _ run refl] acc show ?thesis
    by (simp add: ex_update_def)
qed

text \<open>C16: Compare-and-set never loses an update. Once an update that expected version \<open>n\<close> has been
  accepted, every later update of the same key that still expects version \<open>n\<close> is refused and
  changes nothing (for the non-negative explicit versions the plane's clients use).\<close>
theorem compare_and_set_exclusive:
  assumes "plane_inv p" and "publish_one p u = (p', r, c)" and "wr_accepted r"
    and "su_expected_version u = Some n" and "0 \<le> su_version u" and "plane_step\<^sup>*\<^sup>* p' q"
    and "su_entity_ref u' = su_entity_ref u" and "su_key u' = su_key u"
    and "su_expected_version u' = Some n"
  shows "fst (publish_one q u') = q \<and> \<not> wr_accepted (fst (snd (publish_one q u')))"
proof -
  from assms(2,3) obtain e d where adm: "publish_admitted p u e d"
    and acc: "(p', r, c) = publish_accept p u d (dict_get (pl_state p) (su_entity_ref u, ck_key d))"
    by (rule publish_one_accepted)
  let ?k = "(su_entity_ref u, ck_key d)"
  let ?w = "next_version (su_version u) (map_option sv_version (dict_get (pl_state p) ?k))"
  have w: "n < ?w"
    using adm assms(4,5) unfolding publish_admitted_def
    by (auto simp: cas_conflict_def Let_def next_version_def split: option.splits if_splits
        dest: state_order_conflict_None)
  have p': "dict_get (pl_state p') ?k = Some (published_value u d (datetime_aware (su_timestamp u)) ?w)"
    using acc publish_accept_fields(13) [of p u d] by (metis dict_get_set fst_conv)
  have inv': "plane_inv p'"
    using plane_writes.run_inv [OF publish_one_write [OF assms(2)] assms(1)] .
  have above: "plane_above p p'"
    using plane_writes.run_above [OF publish_one_write [OF assms(2)] assms(1)] .
  have above': "plane_above p' q" using assms(6) inv' by (rule plane_runs.run_above)
  obtain v where v: "dict_get (pl_state q) ?k = Some v" "?w \<le> sv_version v"
  proof -
    from above' p' obtain v where "dict_get (pl_state q) ?k = Some v"
        "v = published_value u d (datetime_aware (su_timestamp u)) ?w \<or>
         sv_version (published_value u d (datetime_aware (su_timestamp u)) ?w) < sv_version v"
      unfolding plane_above_def by blast
    then show ?thesis by (intro that) (auto simp: published_value_def)
  qed
  have reg: "registry_resolve (pl_registry q) (su_key u') = Inr d"
    using adm above above' assms(8) by (simp add: publish_admitted_def plane_above_def)
  show ?thesis
  proof (rule publish_one_cases [of q u'])
    fix e' d' assume "publish_admitted q u' e' d'"
    then have "cas_conflict (Some n) (Some (sv_version v)) = None"
      using reg assms(7,9) v(1) by (auto simp: publish_admitted_def)
    then show ?thesis using v(2) w by (simp add: cas_conflict_def Let_def split: if_splits)
  qed auto
qed

theorem compare_and_set_exclusive_witness:
  "let u = ex_update DIRECT_TELEMETRY 10 64 ''k1'' (Some 0);
       u' = ex_update AUTHORITATIVE_DOMAIN 11 65 ''k2'' (Some 0) in
     wr_accepted (fst (snd (publish_one ex_plane1 u))) \<and> fst (publish_one ex_plane3 u') = ex_plane3"
proof -
  let ?u = "ex_update DIRECT_TELEMETRY 10 64 ''k1'' (Some 0)"
  let ?u' = "ex_update AUTHORITATIVE_DOMAIN 11 65 ''k2'' (Some 0)"
  have acc: "wr_accepted (fst (snd (publish_one ex_plane1 ?u)))" by code_simp
  have "fst (publish_one ex_plane1 ?u) = ex_plane2" by (simp add: ex_plane2_def case_prod_beta)
  then have run: "plane_step\<^sup>*\<^sup>* (fst (publish_one ex_plane1 ?u)) ex_plane3" using ex_step3 by simp
  have eq: "publish_one ex_plane1 ?u = (fst (publish_one ex_plane1 ?u),
      fst (snd (publish_one ex_plane1 ?u)), snd (snd (publish_one ex_plane1 ?u)))" by simp
  have "fst (publish_one ex_plane3 ?u') = ex_plane3"
    using compare_and_set_exclusive [OF ex_invs(2) eq acc _ _ run, of 0 ?u'] by (simp add: ex_update_def)
  with acc show ?thesis by simp
qed

text \<open>C17: Authority is respected: an update of lower authority than the stored value is refused and
  changes nothing as long as the stored value is fresh at the update's timestamp, and an update of
  equal authority is refused when its timestamp is earlier.\<close>
theorem authority_protects_fresh_state:
  assumes "registry_resolve (pl_registry p) (su_key u) = Inr d"
    and "dict_get (pl_state p) (su_entity_ref u, ck_key d) = Some v"
    and "(su_authority u < sv_authority v \<and> value_is_fresh v (su_timestamp u) None)
       \<or> (su_authority u = sv_authority v \<and> instant (su_timestamp u) < instant (sv_timestamp v))"
  shows "fst (publish_one p u) = p \<and> \<not> wr_accepted (fst (snd (publish_one p u)))"
proof -
  have "value_is_fresh v (datetime_aware (su_timestamp u)) None = value_is_fresh v (su_timestamp u) None"
    by (simp add: value_is_fresh_def value_age_def split: option.splits)
  then have blocked: "state_order_conflict v (su_authority u) (datetime_aware (su_timestamp u)) (su_version u) \<noteq> None"
    using assms(3) by (auto simp: state_order_conflict_def)
  show ?thesis
  proof (rule publish_one_cases [of p u])
    fix e' d' assume "publish_admitted p u e' d'"
    then show ?thesis using assms(1,2) blocked by (auto simp: publish_admitted_def)
  qed auto
qed

theorem authority_protects_fresh_state_witness:
  "fst (publish_one ex_plane2 (ex_update LOG_HINT 12 1 [] None)) = ex_plane2"
proof -
  have res: "registry_resolve (pl_registry ex_plane2) (su_key (ex_update LOG_HINT 12 1 [] None)) = Inr ex_size_key"
    by code_simp
  obtain v where v: "dict_get (pl_state ex_plane2)
      (su_entity_ref (ex_update LOG_HINT 12 1 [] None), ck_key ex_size_key) = Some v"
    using ex_plane2_value by (auto simp: ex_update_def ex_size_key_def canonical_def)
  have "map_option (\<lambda>v. LOG_HINT < sv_authority v \<and> value_is_fresh v (utc 12) None)
      (dict_get (pl_state ex_plane2) (ex_kv, ''kv.size'')) = Some True" by code_simp
  then have "su_authority (ex_update LOG_HINT 12 1 [] None) < sv_authority v \<and>
      value_is_fresh v (su_timestamp (ex_update LOG_HINT 12 1 [] None)) None"
    using v by (auto simp: ex_update_def ex_size_key_def canonical_def)
  then show ?thesis using authority_protects_fresh_state [OF res v] by blast
qed

end
