(* ===== verification/SF_Snapshot_Properties.thy ===== *)
theory SF_Snapshot_Properties
  imports SF_Plane_Runs
begin

text \<open>
  What a snapshot, the change log and a graph query tell their readers: soundness and completeness
  of the returned values, the accounting of what is missing or stale, paging of the change log
  without gaps or repeats, and the graph search against reachability in bounded distance.
\<close>

section \<open>The items of a snapshot\<close>

lemma in_items:
  "v \<in> set (items_selected xs) \<longleftrightarrow> Selected v \<in> set xs"
  "s \<in> set (items_missing xs) \<longleftrightarrow> Missing s \<in> set xs"
  "s \<in> set (items_stale xs) \<longleftrightarrow> Stale s \<in> set xs"
  by (induction xs) (auto simp: items_selected_def items_missing_def items_stale_def split: snap_item.splits)

definition usable :: "plane \<Rightarrow> datetime \<Rightarrow> snapshot_request \<Rightarrow> state_value \<Rightarrow> bool" where
  "usable p now req v \<longleftrightarrow> sq_min_authority req \<le> sv_authority v \<and>
     value_is_fresh v now (max_age_for (sv_key v) (sq_max_age_ms req))"

lemma snap_value_item_Selected:
  "snap_value_item p now req r k = Selected v \<longleftrightarrow>
     dict_get (pl_state p) (r, k) = Some v \<and> usable p now req v"
  by (auto simp: snap_value_item_def usable_def Let_def split: option.splits)

lemma snap_value_item_unusable:
  assumes "\<And>v. snap_value_item p now req r k \<noteq> Selected v"
  shows "snap_value_item p now req r k \<in> {Missing (snap_identity r k), Stale (snap_identity r k)}"
proof (cases "snap_value_item p now req r k")
  case (Selected v)
  then show ?thesis using assms by blast
qed (auto simp: snap_value_item_def Let_def split: option.splits if_splits)

definition requested :: "plane \<Rightarrow> snapshot_request \<Rightarrow> string \<Rightarrow> string \<Rightarrow> bool" where
  "requested p req r k \<longleftrightarrow> r \<in> set (sq_entities req) \<and>
     (\<exists>e pattern ks. dict_get (pl_entities p) r = Some e \<and> pattern \<in> set (sq_keys req) \<and>
        applicable_keys p (ge_entity_type e) (canonical_pattern p pattern) = Some ks \<and> k \<in> set ks)"

lemma entity_item:
  "dict_get (pl_entities p) r = Some e \<Longrightarrow> pattern \<in> set patterns \<Longrightarrow>
   applicable_keys p (ge_entity_type e) pattern = Some ks \<Longrightarrow> k \<in> set ks \<Longrightarrow>
   snap_value_item p now req r k \<in> set (snap_entity_items p now req patterns r)"
  by (auto simp: snap_entity_items_def snap_pattern_items_def intro!: bexI [of _ pattern])

lemma requested_item:
  "requested p req r k \<Longrightarrow> snap_value_item p now req r k \<in> set (snap_items p now req)"
  unfolding requested_def snap_items_def Let_def by (auto intro!: bexI [of _ r] entity_item)

lemma selected_item_requested:
  "Selected v \<in> set (snap_items p now req) \<Longrightarrow>
     \<exists>r k. requested p req r k \<and> snap_value_item p now req r k = Selected v"
  unfolding requested_def snap_items_def snap_entity_items_def snap_pattern_items_def
  by (fastforce simp: Let_def split: option.splits)

lemma dedupe_values_complete:
  assumes "\<And>v w. v \<in> set vs \<Longrightarrow> w \<in> set vs \<Longrightarrow> value_id v = value_id w \<Longrightarrow> v = w"
  shows "set (dedupe_values vs) = set vs"
proof
  show "set (dedupe_values vs) \<subseteq> set vs" by (rule dedupe_values_subset)
  show "set vs \<subseteq> set (dedupe_values vs)"
  proof
    fix v assume v: "v \<in> set vs"
    then have "value_id v \<in> (\<lambda>v. (sv_entity_ref v, sv_key v)) ` set vs"
      by (auto simp: value_id_def)
    from pydict.get_foldl_put_in [OF this, of "\<lambda>v. v" "[]"] obtain w where
      w: "w \<in> set vs" "(sv_entity_ref w, sv_key w) = value_id v"
        "dict_get (foldl (\<lambda>m v. dict_set m (sv_entity_ref v, sv_key v) v) [] vs) (value_id v) = Some w"
      by auto
    then have "w \<in> set (dedupe_values vs)"
      by (force simp: dedupe_values_def dest: dict_get_Some_in)
    moreover have "w = v" using w(1,2) v assms by (simp add: value_id_def)
    ultimately show "v \<in> set (dedupe_values vs)" by simp
  qed
qed

lemma state_inv_ids:
  "state_inv p \<Longrightarrow> dict_get (pl_state p) (r, k) = Some v \<Longrightarrow> value_id v = (r, k)"
  by (auto simp: state_inv_def value_typed_def value_id_def)

lemma selected_values:
  assumes "state_inv p"
  shows "v \<in> set (dedupe_values (items_selected (snap_items p now req))) \<longleftrightarrow>
    (\<exists>r k. requested p req r k \<and> dict_get (pl_state p) (r, k) = Some v \<and> usable p now req v)"
proof -
  let ?vs = "items_selected (snap_items p now req)"
  have sel: "w \<in> set ?vs \<longleftrightarrow> (\<exists>r k. requested p req r k \<and> dict_get (pl_state p) (r, k) = Some w \<and> usable p now req w)" for w
    using selected_item_requested [of w p now req] requested_item [of p req _ _ now]
    by (metis in_items(1) snap_value_item_Selected)
  have "set (dedupe_values ?vs) = set ?vs"
  proof (rule dedupe_values_complete)
    fix v w assume "v \<in> set ?vs" "w \<in> set ?vs" "value_id v = value_id w"
    then obtain r k r' k' where "dict_get (pl_state p) (r, k) = Some v"
        "dict_get (pl_state p) (r', k') = Some w" "value_id v = value_id w"
      using sel by blast
    with assms show "v = w" by (auto simp: state_inv_ids)
  qed
  then show ?thesis using sel by simp
qed

lemma ratio_eq_1_iff:
  "(if n + m + k \<noteq> 0 then real n / real (n + m + k) else 1) = 1 \<longleftrightarrow> m = 0 \<and> k = (0::nat)"
  by (auto simp: divide_eq_1_iff)

section \<open>Soundness and accounting\<close>

text \<open>C9: A snapshot returns exactly the usable requested state: a value is in the snapshot if and
  only if it is the live value of some requested key on some requested entity, its authority
  reaches the requested minimum and it is fresh under its own time-to-live and the requested age.\<close>
theorem snapshot_values_exact:
  assumes "plane_inv p" and "get_snapshot now uuid12 p req = (p', s)"
  shows "v \<in> set (sn_values s) \<longleftrightarrow>
    (\<exists>r k. requested p req r k \<and> dict_get (pl_state p) (r, k) = Some v \<and>
       sq_min_authority req \<le> sv_authority v \<and>
       value_is_fresh v now (max_age_for (sv_key v) (sq_max_age_ms req)))"
  using assms selected_values [of p v now req]
  by (auto simp: get_snapshot_def Let_def plane_inv_def usable_def)

theorem snapshot_values_exact_witness:
  "\<forall>v. v \<in> set (sn_values (snd (get_snapshot (utc 20) ''u'' ex_plane3 ex_request))) \<longleftrightarrow>
    (\<exists>r k. requested ex_plane3 ex_request r k \<and> dict_get (pl_state ex_plane3) (r, k) = Some v \<and>
       LOG_HINT \<le> sv_authority v \<and> value_is_fresh v (utc 20) (max_age_for (sv_key v) []))"
  using snapshot_values_exact [OF ex_invs(4) surjective_pairing, of _ "utc 20" "''u''" ex_request]
  by (simp add: ex_request_def)

text \<open>Nothing that was asked for is lost: a requested key of a registered entity is either among
  the returned values or its identity is listed as missing or as stale; an unregistered entity is
  listed as missing; and the completeness is one exactly when nothing is missing or stale.\<close>
theorem snapshot_accounts_for_request:
  assumes "plane_inv p" and "get_snapshot now uuid12 p req = (p', s)"
  shows "(requested p req r k \<longrightarrow> (\<exists>v \<in> set (sn_values s). value_id v = (r, k)) \<or>
             snap_identity r k \<in> set (sn_missing s) \<union> set (sn_stale s))
    \<and> (r \<in> set (sq_entities req) \<and> dict_get (pl_entities p) r = None \<longrightarrow> r \<in> set (sn_missing s))
    \<and> (sn_completeness s = 1 \<longleftrightarrow> sn_missing s = [] \<and> sn_stale s = [])"
proof (intro conjI impI)
  have s: "s = build_snapshot now uuid12 p req" using assms(2) by (simp add: get_snapshot_def Let_def)
  show "(\<exists>v \<in> set (sn_values s). value_id v = (r, k)) \<or>
             snap_identity r k \<in> set (sn_missing s) \<union> set (sn_stale s)" if "requested p req r k"
  proof (cases "\<exists>v. snap_value_item p now req r k = Selected v")
    case True
    then obtain v where v: "snap_value_item p now req r k = Selected v" by blast
    then have "v \<in> set (sn_values s)"
      using that selected_values [of p v now req] assms(1)
      by (auto simp: s plane_inv_def snap_value_item_Selected)
    moreover have "value_id v = (r, k)"
      using v assms(1) by (auto simp: snap_value_item_Selected plane_inv_def intro: state_inv_ids)
    ultimately show ?thesis by blast
  next
    case False
    then show ?thesis
      using snap_value_item_unusable [of p now req r k] requested_item [OF that, of now]
      by (auto simp: s in_items)
  qed
  show "r \<in> set (sn_missing s)" if "r \<in> set (sq_entities req) \<and> dict_get (pl_entities p) r = None"
    using that by (force simp: s in_items snap_items_def Let_def snap_entity_items_def)
  show "sn_completeness s = 1 \<longleftrightarrow> sn_missing s = [] \<and> sn_stale s = []"
    unfolding s build_snapshot_def Let_def
    by (simp only: snapshot.select_convs ratio_eq_1_iff) (simp flip: length_0_conv)
qed

theorem snapshot_accounts_for_request_witness:
  "let s = snd (get_snapshot (utc 9000000) ''u'' ex_plane3 ex_request) in
     (requested ex_plane3 ex_request ex_kv ''kv.size'' \<longrightarrow>
        (\<exists>v \<in> set (sn_values s). value_id v = (ex_kv, ''kv.size'')) \<or>
        snap_identity ex_kv ''kv.size'' \<in> set (sn_missing s) \<union> set (sn_stale s)) \<and>
     sn_stale s = [snap_identity ex_kv ''kv.size'']"
proof -
  have "sn_stale (snd (get_snapshot (utc 9000000) ''u'' ex_plane3 ex_request)) = [snap_identity ex_kv ''kv.size'']"
    by code_simp
  then show ?thesis
    using snapshot_accounts_for_request [OF ex_invs(4), of "utc 9000000" "''u''" ex_request
        "fst (get_snapshot (utc 9000000) ''u'' ex_plane3 ex_request)"
        "snd (get_snapshot (utc 9000000) ''u'' ex_plane3 ex_request)" ex_kv "''kv.size''"]
    by (simp add: Let_def)
qed

section \<open>Keeping a snapshot\<close>

lemma dict_get_trim_last:
  assumes "0 < n"
  shows "dict_get (dict_trim n (dict_set_last d k v)) k = Some v"
proof -
  have "dict_get (xs @ [(k, v)]) k = Some v" if "k \<notin> fst ` set xs" for xs
    using that by (induction xs) auto
  moreover have "k \<notin> fst ` set (dict_trim m (AList.delete k d))" for m
    using set_dict_trim [of m "AList.delete k d"] delete_notin_dom [of k d] by blast
  ultimately show ?thesis by (simp add: dict_set_last_def dict_trim_last assms)
qed

section \<open>The change log\<close>

lemma filter_greater_after_take:
  fixes f :: "'a \<Rightarrow> 'b::linorder"
  assumes "sorted_wrt (<) (map f xs)" "0 < length (take n (filter P xs))"
  shows "filter (\<lambda>x. f x > f (last (take n (filter P xs))) \<and> P x) xs = drop n (filter P xs)"
proof -
  let ?ys = "filter P xs"
  have ys: "sorted_wrt (<) (map f ?ys)" using assms(1) by (simp add: sorted_wrt_map sorted_wrt_filter)
  have "filter (\<lambda>y. f y > f (last (take n ys))) ys = drop n ys"
    if srt: "sorted_wrt (<) (map f ys)" and ne: "0 < length (take n ys)" for ys
  proof -
    let ?l = "last (take n ys)"
    have l: "?l \<in> set (take n ys)" using ne by simp
    obtain zs where zs: "take n ys = zs @ [?l]"
      using ne by (metis append_butlast_last_id length_greater_0_conv)
    have "sorted_wrt (\<lambda>a b. f a < f b) (take n ys)"
      using srt sorted_wrt_take by (auto simp: sorted_wrt_map)
    then have "sorted_wrt (\<lambda>a b. f a < f b) (zs @ [?l])" using zs by simp
    then have "\<forall>y \<in> set (zs @ [?l]). f y \<le> f ?l" by (auto simp: sorted_wrt_append)
    then have "\<forall>y \<in> set (take n ys). f y \<le> f ?l" using zs by simp
    moreover have "\<forall>y \<in> set (drop n ys). f ?l < f y"
    proof -
      have "sorted_wrt (\<lambda>a b. f a < f b) (take n ys @ drop n ys)"
        using srt by (simp add: sorted_wrt_map)
      then show ?thesis using l by (simp add: sorted_wrt_append del: append_take_drop_id)
    qed
    ultimately have "filter (\<lambda>y. f y > f ?l) (take n ys @ drop n ys) = drop n ys"
      unfolding filter_append by (simp add: filter_empty_conv filter_id_conv leD)
    then show ?thesis by simp
  qed
  from this [OF ys assms(2)] show ?thesis by (simp add: conj_commute)
qed

lemma sorted_cursors: "log_inv p \<Longrightarrow> sorted_wrt (<) (map sc_cursor (pl_changes p))"
  by (simp add: log_inv_def sorted_wrt_upto)

lemma map_filter_upto:
  assumes "map f xs = [a..b]" "a - 1 \<le> (c::int)"
  shows "map f (filter (\<lambda>x. c < f x) xs) = [c + 1..b]"
proof -
  have "map f (filter (\<lambda>x. c < f x) xs) = filter ((<) c) (map f xs)"
    by (simp add: filter_map comp_def)
  also have "\<dots> = filter ((<) c) [a..b]" by (simp add: assms(1))
  also have "\<dots> = [c + 1..b]"
  proof (rule sorted_distinct_set_unique)
    show "sorted (filter ((<) c) [a..b])" by (rule sorted_wrt_filter) simp
  qed (use assms(2) in auto)
  finally show ?thesis .
qed

text \<open>C35: A change feed can be read in pages. When a page of a filtered change query, of a positive
  size, is full, asking again after the cursor of its last change returns exactly the next changes:
  the two pages together are one page of both sizes, with nothing skipped and nothing returned
  twice, on any plane that keeps the plane invariant.\<close>
theorem change_pages_compose:
  assumes "plane_inv p" and "0 < n" and "0 \<le> m"
    and "page = plane_changes p after prefix keys n" and "int (length page) = n"
  shows "page @ plane_changes p (sc_cursor (last page)) prefix keys m
       = plane_changes p after prefix keys (n + m)"
proof -
  let ?P = "\<lambda>c. after < sc_cursor c \<and> changes_selected prefix keys c"
  let ?l = "sc_cursor (last page)"
  have page: "page = take (nat n) (filter ?P (pl_changes p))"
    using assms(2,4) by (simp add: plane_changes_def)
  have srt: "sorted_wrt (<) (map sc_cursor (pl_changes p))"
    using assms(1) by (simp add: plane_inv_def sorted_cursors)
  have ne: "0 < length (take (nat n) (filter ?P (pl_changes p)))"
    using assms(2,5) page by simp
  have "last page \<in> set page" using ne page by simp
  then have l: "after < ?l" using page set_take_subset by fastforce
  have "filter (\<lambda>c. ?l < sc_cursor c \<and> changes_selected prefix keys c) (pl_changes p)
      = filter (\<lambda>c. ?l < sc_cursor c \<and> ?P c) (pl_changes p)"
    using l by (intro filter_cong) auto
  also have "\<dots> = drop (nat n) (filter ?P (pl_changes p))"
    using filter_greater_after_take [OF srt ne] page by simp
  finally have "plane_changes p ?l prefix keys m
      = take (nat m) (drop (nat n) (filter ?P (pl_changes p)))"
    using assms(3) by (simp add: plane_changes_def)
  then show ?thesis
    using assms(2,3) page by (simp add: plane_changes_def nat_add_distrib take_add)
qed

theorem change_pages_compose_witness:
  "plane_changes ex_plane3 0 ''component/'' [] 1
     @ plane_changes ex_plane3 (sc_cursor (last (plane_changes ex_plane3 0 ''component/'' [] 1))) ''component/'' [] 5
   = plane_changes ex_plane3 0 ''component/'' [] 6
   \<and> length (plane_changes ex_plane3 0 ''component/'' [] 6) = 2"
proof -
  have "length (plane_changes ex_plane3 0 ''component/'' [] 1) = 1" by code_simp
  moreover have "length (plane_changes ex_plane3 0 ''component/'' [] 6) = 2" by code_simp
  ultimately show ?thesis
    using change_pages_compose [OF ex_invs(4) _ _ refl, of 1 5 0 "''component/''" "[]"] by simp
qed

text \<open>The change log has no gaps: a reader that is not further behind than the log is long gets
  every change after its cursor, one per revision up to the present one; and a reader whose
  cursor is the present revision gets nothing.\<close>
theorem change_log_gap_free:
  assumes "plane_inv p" and "pl_revision p - int (length (pl_changes p)) \<le> after"
    and "int (length (pl_changes p)) \<le> limit"
  shows "map sc_cursor (plane_changes p after [] [] limit) = [after + 1..pl_revision p]"
proof -
  have "map sc_cursor (filter (\<lambda>c. after < sc_cursor c) (pl_changes p)) = [after + 1..pl_revision p]"
    by (rule map_filter_upto) (use assms in \<open>auto simp: plane_inv_def log_inv_def\<close>)
  moreover have "length (filter (\<lambda>c. after < sc_cursor c) (pl_changes p)) \<le> nat (max 0 limit)"
    using assms(3) length_filter_le [of "\<lambda>c. after < sc_cursor c" "pl_changes p"] by linarith
  ultimately show ?thesis by (simp add: plane_changes_def changes_selected_def)
qed

theorem change_log_gap_free_witness:
  "map sc_cursor (plane_changes ex_plane3 2 [] [] 10) = [3, 4]"
proof -
  have "pl_revision ex_plane3 = 4" "length (pl_changes ex_plane3) = 3" by code_simp+
  then show ?thesis using change_log_gap_free [OF ex_invs(4), of 2 10] by (simp add: upto.simps)
qed

end
