(* ===== verification/SF_Graph_Properties.thy ===== *)
theory SF_Graph_Properties
  imports SF_Graph SF_Plane_Runs
begin

text \<open>
  The breadth-first search of \<open>query_graph\<close> against its specification: what a query returns is the
  set of entities at most \<open>depth\<close> undirected steps from a root and the set of relations touching
  one closer than that.
\<close>

section \<open>The specification: distance in the relation graph\<close>

definition followed :: "string set \<Rightarrow> graph_relation \<Rightarrow> bool" where
  "followed allowed r \<longleftrightarrow> allowed = {} \<or> gr_relation_type r \<in> allowed"

definition linked :: "graph_relation list \<Rightarrow> string set \<Rightarrow> string \<Rightarrow> string \<Rightarrow> bool" where
  "linked rels allowed a b \<longleftrightarrow> (\<exists>r \<in> set rels. followed allowed r \<and>
     (gr_source_ref r = a \<and> gr_target_ref r = b \<or> gr_source_ref r = b \<and> gr_target_ref r = a))"

definition within_hops :: "graph_relation list \<Rightarrow> string set \<Rightarrow> nat \<Rightarrow> string set \<Rightarrow> string set" where
  "within_hops rels allowed n roots = {b. \<exists>a \<in> roots. \<exists>k \<le> n. (linked rels allowed ^^ k) a b}"

definition touching :: "graph_relation list \<Rightarrow> string set \<Rightarrow> string set \<Rightarrow> graph_relation set" where
  "touching rels allowed refs = {r \<in> set rels. followed allowed r \<and>
     (gr_source_ref r \<in> refs \<or> gr_target_ref r \<in> refs)}"

definition neighbours :: "graph_relation list \<Rightarrow> string set \<Rightarrow> string set \<Rightarrow> string set" where
  "neighbours rels allowed refs = {b. \<exists>a \<in> refs. linked rels allowed a b}"

lemma hops_0 [simp]: "within_hops rels allowed 0 roots = roots"
  by (auto simp: within_hops_def)

lemma hops_superset: "roots \<subseteq> within_hops rels allowed n roots"
  unfolding within_hops_def using relpowp_0_I by fast

lemma hops_Suc:
  "within_hops rels allowed (Suc n) roots = within_hops rels allowed n (roots \<union> neighbours rels allowed roots)"
proof (intro set_eqI iffI)
  fix b assume "b \<in> within_hops rels allowed (Suc n) roots"
  then obtain a k where "a \<in> roots" "k \<le> Suc n" "(linked rels allowed ^^ k) a b"
    by (auto simp: within_hops_def)
  then show "b \<in> within_hops rels allowed n (roots \<union> neighbours rels allowed roots)"
    by (cases k) (force simp: within_hops_def neighbours_def simp del: relpowp.simps
        elim!: relpowp_Suc_E2 intro: exI [of _ 0])+
next
  fix b assume "b \<in> within_hops rels allowed n (roots \<union> neighbours rels allowed roots)"
  then obtain a k where "a \<in> roots \<union> neighbours rels allowed roots" "k \<le> n"
      "(linked rels allowed ^^ k) a b"
    by (auto simp: within_hops_def)
  then consider "a \<in> roots" | a' where "a' \<in> roots" "linked rels allowed a' a"
    by (auto simp: neighbours_def)
  then show "b \<in> within_hops rels allowed (Suc n) roots"
  proof cases
    case 1
    then show ?thesis using \<open>k \<le> n\<close> \<open>(linked rels allowed ^^ k) a b\<close>
      unfolding within_hops_def by (auto simp del: relpowp.simps intro: le_SucI)
  next
    case 2
    have "(linked rels allowed ^^ Suc k) a' b"
      using 2(2) \<open>(linked rels allowed ^^ k) a b\<close> by (rule relpowp_Suc_I2)
    then show ?thesis using 2(1) \<open>k \<le> n\<close>
      unfolding within_hops_def using Suc_le_mono by blast
  qed
qed

lemma hops_closed:
  assumes "neighbours rels allowed roots \<subseteq> roots"
  shows "within_hops rels allowed n roots = roots"
  by (induction n) (use assms in \<open>auto simp: hops_Suc Un_absorb2\<close>)

section \<open>One round of the loop\<close>

lemma next_frontier_neighbours:
  "next_frontier rels allowed refs \<subseteq> refs \<union> neighbours rels allowed refs"
  "neighbours rels allowed refs \<subseteq> next_frontier rels allowed refs"
  by (auto simp: next_frontier_def neighbours_def linked_def followed_def)

definition keyed :: "graph_relation set \<Rightarrow> ((string \<times> string \<times> string) \<times> graph_relation) set" where
  "keyed rs = (\<lambda>r. (relation_key r, r)) ` rs"

lemma keyed_Un: "keyed (a \<union> b) = keyed a \<union> keyed b"
  by (auto simp: keyed_def)

lemma set_dict_set_consistent:
  "(\<And>v'. (k, v') \<in> set d \<Longrightarrow> v' = v) \<Longrightarrow> set (dict_set d k v) = insert (k, v) (set d)"
  by (induction d) (auto split: if_splits)

lemma set_foldl_dict_set_keyed:
  assumes "inj_on relation_key R" "set rs \<subseteq> R" "set d \<subseteq> keyed R"
  shows "set (foldl (\<lambda>m r. dict_set m (relation_key r) r) d rs) = set d \<union> keyed (set rs)"
  using assms(2,3)
proof (induction rs arbitrary: d)
  case (Cons r rs)
  have *: "set (dict_set d (relation_key r) r) = insert (relation_key r, r) (set d)"
    using Cons.prems assms(1) by (intro set_dict_set_consistent) (auto simp: keyed_def dest: inj_onD)
  have "set (dict_set d (relation_key r) r) \<subseteq> keyed R"
    unfolding * using Cons.prems by (auto simp: keyed_def)
  with Cons.IH Cons.prems(1)
  have "set (foldl (\<lambda>m r. dict_set m (relation_key r) r) d (r # rs))
      = set (dict_set d (relation_key r) r) \<union> keyed (set rs)" by simp
  then show ?case unfolding * by (simp add: keyed_def)
qed (simp add: keyed_def)

lemma set_include_relations:
  assumes "inj_on relation_key (set rels)" "set d \<subseteq> keyed (set rels)"
  shows "set (include_relations rels allowed frontier d) = set d \<union> keyed (touching rels allowed frontier)"
proof -
  have "set (filter (\<lambda>r. (allowed = {} \<or> gr_relation_type r \<in> allowed)
                \<and> (gr_source_ref r \<in> frontier \<or> gr_target_ref r \<in> frontier)) rels)
      = touching rels allowed frontier"
    by (auto simp: touching_def followed_def)
  then show ?thesis
    unfolding include_relations_def using assms
    by (subst set_foldl_dict_set_keyed [where R = "set rels"]) (auto simp: touching_def)
qed

lemma touching_Un: "touching rels allowed (a \<union> b) = touching rels allowed a \<union> touching rels allowed b"
  by (auto simp: touching_def)

lemma touching_subset: "touching rels allowed refs \<subseteq> set rels"
  by (auto simp: touching_def)

lemma touching_mono: "a \<subseteq> b \<Longrightarrow> touching rels allowed a \<subseteq> touching rels allowed b"
  by (auto simp: touching_def)

section \<open>The search\<close>

lemma graph_search_visited:
  assumes "frontier \<subseteq> visited" "neighbours rels allowed (visited - frontier) \<subseteq> visited"
  shows "fst (graph_search rels allowed n visited frontier included) = within_hops rels allowed n visited"
  using assms
proof (induction n arbitrary: visited frontier included)
  case (Suc n)
  let ?nxt = "next_frontier rels allowed frontier - visited"
  have split: "neighbours rels allowed visited
      = neighbours rels allowed (visited - frontier) \<union> neighbours rels allowed frontier"
    using Suc.prems(1) by (auto simp: neighbours_def)
  have grow: "visited \<union> ?nxt = visited \<union> neighbours rels allowed visited"
    unfolding split using Suc.prems next_frontier_neighbours [of rels allowed frontier] by blast
  show ?case
  proof (cases "?nxt = {}")
    case True
    then have "neighbours rels allowed visited \<subseteq> visited" using grow by blast
    then show ?thesis using True by (simp add: hops_closed)
  next
    case False
    have nb: "neighbours rels allowed (visited \<union> ?nxt - ?nxt) \<subseteq> visited \<union> ?nxt"
      using grow by (auto simp: neighbours_def)
    have "fst (graph_search rels allowed n (visited \<union> ?nxt) ?nxt inc)
        = within_hops rels allowed n (visited \<union> ?nxt)" for inc
      by (rule Suc.IH [OF Un_upper2 nb])
    then show ?thesis using False unfolding hops_Suc grow [symmetric] by (simp add: Let_def del: Un_Diff_cancel)
  qed
qed simp

lemma graph_search_included:
  assumes "frontier \<subseteq> visited" "neighbours rels allowed (visited - frontier) \<subseteq> visited"
    and "inj_on relation_key (set rels)" "set included \<subseteq> keyed (set rels)"
    and "keyed (touching rels allowed (visited - frontier)) \<subseteq> set included"
  shows "set (snd (graph_search rels allowed n visited frontier included)) = set included \<union>
           (if n = 0 then {} else keyed (touching rels allowed (within_hops rels allowed (n - 1) visited)))"
  using assms
proof (induction n arbitrary: visited frontier included)
  case (Suc n)
  let ?nxt = "next_frontier rels allowed frontier - visited"
  let ?inc = "include_relations rels allowed frontier included"
  have inc: "set ?inc = set included \<union> keyed (touching rels allowed visited)"
  proof -
    have "touching rels allowed visited
        = touching rels allowed (visited - frontier) \<union> touching rels allowed frontier"
      using Suc.prems(1) by (auto simp: touching_def)
    then show ?thesis
      using Suc.prems by (auto simp: set_include_relations keyed_Un)
  qed
  have split: "neighbours rels allowed visited
      = neighbours rels allowed (visited - frontier) \<union> neighbours rels allowed frontier"
    using Suc.prems(1) by (auto simp: neighbours_def)
  have grow: "visited \<union> ?nxt = visited \<union> neighbours rels allowed visited"
    unfolding split using Suc.prems next_frontier_neighbours [of rels allowed frontier] by blast
  show ?case
  proof (cases "?nxt = {}")
    case True
    then have "neighbours rels allowed visited \<subseteq> visited" using grow by blast
    then show ?thesis using True inc by (simp add: hops_closed)
  next
    case False
    have "set (snd (graph_search rels allowed n (visited \<union> ?nxt) ?nxt ?inc)) = set ?inc \<union>
        (if n = 0 then {} else keyed (touching rels allowed (within_hops rels allowed (n - 1) (visited \<union> ?nxt))))"
    proof (rule Suc.IH)
      show "neighbours rels allowed (visited \<union> ?nxt - ?nxt) \<subseteq> visited \<union> ?nxt"
        using grow by (auto simp: neighbours_def)
      show "set ?inc \<subseteq> keyed (set rels)"
        using Suc.prems(4) touching_subset inc by (fastforce simp: keyed_def)
      have "touching rels allowed (visited \<union> ?nxt - ?nxt) \<subseteq> touching rels allowed visited"
        by (rule touching_mono) blast
      then show "keyed (touching rels allowed (visited \<union> ?nxt - ?nxt)) \<subseteq> set ?inc"
        using inc by (auto simp: keyed_def)
    qed (use Suc.prems in auto)
    moreover have "touching rels allowed visited \<subseteq> touching rels allowed (within_hops rels allowed n visited)"
      by (rule touching_mono) (rule hops_superset)
    moreover have "n \<noteq> 0 \<Longrightarrow> within_hops rels allowed (n - 1) (visited \<union> ?nxt) = within_hops rels allowed n visited"
      using hops_Suc [of rels allowed "n - 1" visited] grow by simp
    ultimately have "set (snd (graph_search rels allowed n (visited \<union> ?nxt) ?nxt ?inc))
        = set included \<union> keyed (touching rels allowed (within_hops rels allowed n visited))"
      using inc by (cases "n = 0") (auto simp: keyed_def)
    then show ?thesis using False by (simp add: Let_def del: Un_Diff_cancel)
  qed
qed simp

section \<open>What a query returns\<close>

lemma live_relations_inj:
  assumes "relations_inv p"
  shows "inj_on relation_key (set (map snd (pl_relations p)))"
proof -
  have "relation_key r = k \<and> dict_get (pl_relations p) k = Some r" if "(k, r) \<in> set (pl_relations p)" for k r
    using that assms by (cases k) (auto simp: relations_inv_def relation_typed_def dict_get_eq_Some_iff)
  note ids = this
  show ?thesis
  proof (rule inj_onI)
    fix r r' assume "r \<in> set (map snd (pl_relations p))" "r' \<in> set (map snd (pl_relations p))"
      and "relation_key r = relation_key r'"
    then obtain k k' where "(k, r) \<in> set (pl_relations p)" "(k', r') \<in> set (pl_relations p)"
        "relation_key r = relation_key r'"
      by (auto simp del: split_paired_Ex)
    then show "r = r'" using ids [of k r] ids [of k' r'] by simp
  qed
qed

lemma graph_search_from_roots:
  assumes "inj_on relation_key (set rels)"
  shows "fst (graph_search rels allowed n roots roots []) = within_hops rels allowed n roots"
    and "snd ` set (snd (graph_search rels allowed n roots roots []))
      = (if n = 0 then {} else touching rels allowed (within_hops rels allowed (n - 1) roots))"
proof -
  have none: "neighbours rels allowed (roots - roots) = {}" "touching rels allowed (roots - roots) = {}"
    by (auto simp: neighbours_def touching_def)
  show "fst (graph_search rels allowed n roots roots []) = within_hops rels allowed n roots"
    by (rule graph_search_visited) (simp_all add: none del: Diff_cancel)
  have "set (snd (graph_search rels allowed n roots roots []))
      = (if n = 0 then {} else keyed (touching rels allowed (within_hops rels allowed (n - 1) roots)))"
    by (subst graph_search_included) (use assms none in \<open>auto simp: keyed_def simp del: Diff_cancel\<close>)
  then show "snd ` set (snd (graph_search rels allowed n roots roots []))
      = (if n = 0 then {} else touching rels allowed (within_hops rels allowed (n - 1) roots))"
    by (auto simp: keyed_def image_image)
qed

text \<open>C8: A live graph query returns exactly what its depth reaches: the registered entities at most
  \<open>depth\<close> undirected steps from a root along relations of the requested types, and the relations
  of those types that touch an entity closer than \<open>depth\<close> steps, whatever the order of the stored
  relations and however early the search stops.\<close>
theorem query_graph_exact:
  assumes "plane_inv p"
  shows "\<exists>g. query_graph p roots types depth [] = Inr g \<and>
    set (gq_entities g) = {e. \<exists>ref. dict_get (pl_entities p) ref = Some e \<and>
       ref \<in> within_hops (map snd (pl_relations p)) (set types) (nat depth) (set roots)} \<and>
    set (gq_relations g) = (if depth \<le> 0 then {} else
       touching (map snd (pl_relations p)) (set types)
         (within_hops (map snd (pl_relations p)) (set types) (nat depth - 1) (set roots)))"
proof -
  let ?rels = "map snd (pl_relations p)"
  have inj: "inj_on relation_key (set ?rels)"
    using assms live_relations_inj by (simp add: plane_inv_def del: set_map)
  have ents: "dict_distinct (pl_entities p)" using assms by (simp add: plane_inv_def entities_inv_def)
  let ?gs = "graph_search ?rels (set types) (nat depth) (set roots) (set roots) []"
  have nat: "nat (max 0 depth) = nat depth" by simp
  obtain g where g: "query_graph p roots types depth [] = Inr g"
      "set (gq_entities g) = snd ` {x \<in> set (pl_entities p). fst x \<in> fst ?gs}"
      "set (gq_relations g) = snd ` set (snd ?gs)"
    by (simp add: query_graph_def nat Let_def case_prod_beta del: max_def)
  have "snd ` {x \<in> set (pl_entities p). fst x \<in> fst ?gs}
      = {e. \<exists>ref. dict_get (pl_entities p) ref = Some e \<and> ref \<in> fst ?gs}"
    using ents by (force simp: dict_get_eq_Some_iff)
  then show ?thesis
    using g graph_search_from_roots [OF inj, of "set types" "nat depth" "set roots"] by (simp add: nat_eq_iff2)
qed

theorem query_graph_exact_witness:
  "\<exists>g. query_graph ex_plane3 [ex_kv] [] 1 [] = Inr g \<and>
    set (gq_entities g) = {e. \<exists>ref. dict_get (pl_entities ex_plane3) ref = Some e \<and>
       ref \<in> within_hops (map snd (pl_relations ex_plane3)) {} 1 {ex_kv}} \<and>
    set (gq_relations g) = touching (map snd (pl_relations ex_plane3)) {} {ex_kv}"
  using query_graph_exact [OF ex_invs(4), of "[ex_kv]" "[]" 1] by simp

end
