(* ===== verification/SF_Scheduler_Types.thy ===== *)
theory SF_Scheduler_Types
  imports SF_Prelude
begin

text \<open>
  What the request scheduler reads and writes: the target and the scheduling view of
  \<open>stateflow/state/schema.py\<close>, and the configuration, estimates, cost and latency breakdowns,
  candidate evaluations and routing decisions of \<open>stateflow/scheduler/types.py\<close>.

  A Python set that is only tested for membership and emptiness is a HOL set. The free-form
  \<open>metadata\<close> of a target is the record of the entries the scheduler and the gateway read, each with
  its conversion applied: \<open>float(x)\<close> and \<open>int(x)\<close> give a number or the exception they raise, a truth
  test gives a truth value.
\<close>

section \<open>Phases and decision reasons\<close>

datatype agent_phase =
    CREATED | RUNNABLE | CONTEXT_BUILDING | MODEL_QUEUED | MODEL_PREFILL | MODEL_DECODE
  | PLANNING | REPLANNING | TOOL_PREPARING | TOOL_QUEUED | TOOL_RUNNING | TOOL_WAITING
  | TOOL_RESULT_READY | CONTEXT_UPDATING | CHECKPOINTING | BLOCKED | PAUSED | COMPLETED
  | FAILED | CANCELLED

fun phase_value :: "agent_phase \<Rightarrow> string" where
  "phase_value CREATED = ''CREATED''"
| "phase_value RUNNABLE = ''RUNNABLE''"
| "phase_value CONTEXT_BUILDING = ''CONTEXT_BUILDING''"
| "phase_value MODEL_QUEUED = ''MODEL_QUEUED''"
| "phase_value MODEL_PREFILL = ''MODEL_PREFILL''"
| "phase_value MODEL_DECODE = ''MODEL_DECODE''"
| "phase_value PLANNING = ''PLANNING''"
| "phase_value REPLANNING = ''REPLANNING''"
| "phase_value TOOL_PREPARING = ''TOOL_PREPARING''"
| "phase_value TOOL_QUEUED = ''TOOL_QUEUED''"
| "phase_value TOOL_RUNNING = ''TOOL_RUNNING''"
| "phase_value TOOL_WAITING = ''TOOL_WAITING''"
| "phase_value TOOL_RESULT_READY = ''TOOL_RESULT_READY''"
| "phase_value CONTEXT_UPDATING = ''CONTEXT_UPDATING''"
| "phase_value CHECKPOINTING = ''CHECKPOINTING''"
| "phase_value BLOCKED = ''BLOCKED''"
| "phase_value PAUSED = ''PAUSED''"
| "phase_value COMPLETED = ''COMPLETED''"
| "phase_value FAILED = ''FAILED''"
| "phase_value CANCELLED = ''CANCELLED''"

datatype decision_reason =
    CRITICAL_OVERRIDE | SUCCESS_DOMINANT | COST_DOMINANT | KV_AFFINITY | LOAD_BALANCE
  | LATENCY_TIEBREAK | HYSTERESIS_HOLD | FALLBACK

fun decision_reason_value :: "decision_reason \<Rightarrow> string" where
  "decision_reason_value CRITICAL_OVERRIDE = ''CRITICAL_OVERRIDE''"
| "decision_reason_value SUCCESS_DOMINANT = ''SUCCESS_DOMINANT''"
| "decision_reason_value COST_DOMINANT = ''COST_DOMINANT''"
| "decision_reason_value KV_AFFINITY = ''KV_AFFINITY''"
| "decision_reason_value LOAD_BALANCE = ''LOAD_BALANCE''"
| "decision_reason_value LATENCY_TIEBREAK = ''LATENCY_TIEBREAK''"
| "decision_reason_value HYSTERESIS_HOLD = ''HYSTERESIS_HOLD''"
| "decision_reason_value FALLBACK = ''FALLBACK''"

section \<open>Targets\<close>

record target_metadata =
  md_base_success :: "real res option"
  md_success_by_phase :: "(string, real res) dict"
  md_uncertainty :: "real res option"
  md_out_of_distribution :: bool
  md_requires_remote_kv :: bool
  md_capability_rank :: "int res option"
  md_session_local :: bool
  md_engine :: string
  md_version :: string
  md_node_id :: string
  md_queue_depth :: "int res option"
  md_allocated_gpu :: "real res option"
  md_path :: string

definition no_metadata :: target_metadata where
  "no_metadata = \<lparr>md_base_success = None, md_success_by_phase = [], md_uncertainty = None,
     md_out_of_distribution = False, md_requires_remote_kv = False, md_capability_rank = None,
     md_session_local = False, md_engine = ''unknown'', md_version = [], md_node_id = [],
     md_queue_depth = None, md_allocated_gpu = None, md_path = []\<rparr>"

record target_candidate =
  tc_model_id :: string
  tc_endpoint_id :: string
  tc_replica_id :: string
  tc_tier :: string
  tc_capabilities :: "string set"
  tc_context_window_tokens :: int
  tc_region :: string
  tc_security_domain :: string
  tc_cache_domain :: string
  tc_adapter_id :: string
  tc_tokenizer_id :: string
  tc_model_revision :: string
  tc_quantization :: string
  tc_backend_key :: string
  tc_available :: bool
  tc_healthy :: bool
  tc_supports_remote_kv :: bool
  tc_compatible :: bool
  tc_base_success :: real
  tc_base_uncertainty :: real
  tc_inference_cost :: real
  tc_input_cost_per_token :: real
  tc_output_cost_per_token :: real
  tc_kv_fetch_cost_per_token :: real
  tc_kv_recompute_cost_per_token :: real
  tc_fallback_path_cost :: real
  tc_routing_overhead_cost :: real
  tc_queue_latency_seconds :: real
  tc_kv_fetch_latency_per_token :: real
  tc_kv_recompute_latency_per_token :: real
  tc_prefill_tokens_per_second :: real
  tc_decode_tokens_per_second :: real
  tc_load_balance_score :: real
  tc_local_kv_tokens :: int
  tc_remote_kv_tokens :: int
  tc_remote_kv_reuse_factor :: real
  tc_metadata :: target_metadata

text \<open>The constructor with its defaults.\<close>

definition TargetCandidate :: "string \<Rightarrow> string \<Rightarrow> string \<Rightarrow> target_candidate" where
  "TargetCandidate model endpoint replica =
     \<lparr>tc_model_id = model, tc_endpoint_id = endpoint, tc_replica_id = replica,
      tc_tier = ''efficient'', tc_capabilities = {}, tc_context_window_tokens = 128000,
      tc_region = ''default'', tc_security_domain = ''default'', tc_cache_domain = ''default'',
      tc_adapter_id = [], tc_tokenizer_id = [], tc_model_revision = [], tc_quantization = [],
      tc_backend_key = ''default'', tc_available = True, tc_healthy = True,
      tc_supports_remote_kv = True, tc_compatible = True, tc_base_success = 8 / 10,
      tc_base_uncertainty = 3 / 100, tc_inference_cost = 0, tc_input_cost_per_token = 0,
      tc_output_cost_per_token = 0, tc_kv_fetch_cost_per_token = 0,
      tc_kv_recompute_cost_per_token = 0, tc_fallback_path_cost = 0,
      tc_routing_overhead_cost = 0, tc_queue_latency_seconds = 0,
      tc_kv_fetch_latency_per_token = 0, tc_kv_recompute_latency_per_token = 0,
      tc_prefill_tokens_per_second = 10000, tc_decode_tokens_per_second = 100,
      tc_load_balance_score = 0, tc_local_kv_tokens = 0, tc_remote_kv_tokens = 0,
      tc_remote_kv_reuse_factor = 1 / 2, tc_metadata = no_metadata\<rparr>"

type_synonym target_key = "string \<times> string \<times> string"

definition target_key :: "target_candidate \<Rightarrow> target_key" where
  "target_key t = (tc_model_id t, tc_endpoint_id t, tc_replica_id t)"

section \<open>The scheduling view\<close>

record state_availability =
  av_harness_native_state :: bool
  av_tool_lifecycle :: bool
  av_task_progress :: bool
  av_execution_dag :: bool
  av_context_state :: bool
  av_inference_state :: bool
  av_kv_state :: bool
  av_state_completeness :: real

record scheduling_view =
  hv_session_id :: string
  hv_task_id :: string
  hv_step_id :: string
  hv_state_id :: string
  hv_state_version :: int
  hv_tenant_id :: string
  hv_security_domain :: string
  hv_security_sensitive :: bool
  hv_session_turn :: int
  hv_phase :: agent_phase
  hv_runnable :: bool
  hv_logical_model :: string
  hv_required_capabilities :: "string set"
  hv_allowed_models :: "string set"
  hv_allowed_regions :: "string set"
  hv_allowed_cache_domains :: "string set"
  hv_remote_kv_allowed :: bool
  hv_task_type :: string
  hv_task_progress :: real
  hv_progress_velocity :: real
  hv_exploring_score :: real
  hv_production_score :: real
  hv_error_severity :: real
  hv_spinning_score :: real
  hv_recovery_score :: real
  hv_verification_score :: real
  hv_plan_stability :: real
  hv_consecutive_failures :: int
  hv_consecutive_no_progress_steps :: int
  hv_failure_streak :: int
  hv_critical_error :: bool
  hv_critical_step :: bool
  hv_critical_path_urgency :: real
  hv_context_compaction_needed :: bool
  hv_truncation_risk :: real
  hv_prompt_tokens :: int
  hv_predicted_output_tokens :: int
  hv_reusable_kv_tokens :: int
  hv_local_kv_tokens :: int
  hv_remote_kv_tokens :: int
  hv_predicted_time_until_next_model_call_seconds :: real
  hv_continuation_probability :: real
  hv_kv_reuse_probability :: real
  hv_predicted_remaining_turns :: int
  hv_next_action_probabilities :: "(string, real) dict"
  hv_remaining_deadline_seconds :: "real option"
  hv_cost_budget :: "real option"
  hv_preferred_endpoint :: string
  hv_preferred_replica :: string
  hv_current_model :: string
  hv_current_tier :: string
  hv_stable_steps :: int
  hv_migration_penalty :: real
  hv_state_completeness :: real
  hv_state_freshness :: real
  hv_state_availability :: state_availability
  hv_candidates :: "target_candidate list"

text \<open>The constructors with their defaults.\<close>

definition StateAvailability :: state_availability where
  "StateAvailability = \<lparr>av_harness_native_state = False, av_tool_lifecycle = False,
     av_task_progress = False, av_execution_dag = False, av_context_state = False,
     av_inference_state = False, av_kv_state = False, av_state_completeness = 0\<rparr>"

definition HarnessSchedulingView :: "string \<Rightarrow> scheduling_view" where
  "HarnessSchedulingView session =
     \<lparr>hv_session_id = session, hv_task_id = ''default-task'', hv_step_id = [], hv_state_id = [],
      hv_state_version = 0, hv_tenant_id = ''default'', hv_security_domain = ''default'',
      hv_security_sensitive = False, hv_session_turn = 0, hv_phase = CREATED,
      hv_runnable = False, hv_logical_model = [], hv_required_capabilities = {},
      hv_allowed_models = {}, hv_allowed_regions = {}, hv_allowed_cache_domains = {},
      hv_remote_kv_allowed = True, hv_task_type = ''unknown'', hv_task_progress = 0,
      hv_progress_velocity = 0, hv_exploring_score = 0, hv_production_score = 0,
      hv_error_severity = 0, hv_spinning_score = 0, hv_recovery_score = 0,
      hv_verification_score = 0, hv_plan_stability = 0, hv_consecutive_failures = 0,
      hv_consecutive_no_progress_steps = 0, hv_failure_streak = 0, hv_critical_error = False,
      hv_critical_step = False, hv_critical_path_urgency = 0,
      hv_context_compaction_needed = False, hv_truncation_risk = 0, hv_prompt_tokens = 0,
      hv_predicted_output_tokens = 0, hv_reusable_kv_tokens = 0, hv_local_kv_tokens = 0,
      hv_remote_kv_tokens = 0, hv_predicted_time_until_next_model_call_seconds = 0,
      hv_continuation_probability = 0, hv_kv_reuse_probability = 0,
      hv_predicted_remaining_turns = 0, hv_next_action_probabilities = [],
      hv_remaining_deadline_seconds = None, hv_cost_budget = None, hv_preferred_endpoint = [],
      hv_preferred_replica = [], hv_current_model = [], hv_current_tier = [],
      hv_stable_steps = 0, hv_migration_penalty = 0, hv_state_completeness = 0,
      hv_state_freshness = 0, hv_state_availability = StateAvailability, hv_candidates = []\<rparr>"

section \<open>Configuration, estimates and breakdowns\<close>

record scheduler_config =
  cf_s_min :: real
  cf_epsilon_success :: real
  cf_beta :: real
  cf_epsilon_cost :: real
  cf_lambda_future :: real
  cf_failure_streak_override :: int
  cf_deescalation_stable_steps :: int
  cf_error_severity_override :: real
  cf_spinning_score_override :: real
  cf_min_state_completeness_for_downgrade :: real
  cf_predictor_uncertainty_override :: real
  cf_future_value_decay_seconds :: real
  cf_remote_future_reuse_factor :: real
  cf_scheduler_version :: string

definition default_config :: scheduler_config where
  "default_config = \<lparr>cf_s_min = 90 / 100, cf_epsilon_success = 3 / 100, cf_beta = 1,
     cf_epsilon_cost = 5 / 100, cf_lambda_future = 1, cf_failure_streak_override = 2,
     cf_deescalation_stable_steps = 2, cf_error_severity_override = 75 / 100,
     cf_spinning_score_override = 70 / 100, cf_min_state_completeness_for_downgrade = 50 / 100,
     cf_predictor_uncertainty_override = 25 / 100, cf_future_value_decay_seconds = 5,
     cf_remote_future_reuse_factor = 1 / 2, cf_scheduler_version = ''success-first-0.1''\<rparr>"

record filter_rejection =
  fj_model_id :: string
  fj_endpoint_id :: string
  fj_replica_id :: string
  fj_reasons :: "string list"

record success_estimate =
  es_predicted_success :: real
  es_uncertainty :: real
  es_confidence :: real
  es_lower_confidence_bound :: real
  es_predictor_version :: string
  es_notes :: "string list"

definition with_lcb :: "real \<Rightarrow> success_estimate \<Rightarrow> success_estimate" where
  "with_lcb b e = e\<lparr>es_lower_confidence_bound :=
     max 0 (min 1 (es_predicted_success e - b * es_uncertainty e))\<rparr>"

record cost_breakdown =
  cb_inference_cost :: real
  cb_kv_fetch_cost :: real
  cb_kv_recompute_cost :: real
  cb_expected_retry_cost :: real
  cb_routing_overhead_cost :: real
  cb_future_kv_value :: real
  cb_effective_cost :: real
  cb_local_kv_tokens :: int
  cb_remote_kv_tokens :: int
  cb_miss_tokens :: int

record latency_breakdown =
  lb_queue_latency_seconds :: real
  lb_kv_latency_seconds :: real
  lb_prefill_latency_seconds :: real
  lb_decode_latency_seconds :: real
  lb_predicted_latency_seconds :: real
  lb_critical_path_latency_seconds :: real

section \<open>Evaluations and decisions\<close>

text \<open>
  Evaluations are mutable objects that several lists share. \<open>ce_ref\<close> is the identity of the
  object: an update writes every copy with that identity, and \<open>is\<close> compares it.
\<close>

record candidate_evaluation =
  ce_ref :: nat
  ce_model_id :: string
  ce_endpoint_id :: string
  ce_replica_id :: string
  ce_tier :: string
  ce_eligible :: bool
  ce_rejection_reasons :: "string list"
  ce_predicted_success :: real
  ce_success_uncertainty :: real
  ce_success_confidence :: real
  ce_success_lcb :: real
  ce_success_gate :: bool
  ce_cost_gate :: bool
  ce_selected :: bool
  ce_inference_cost :: real
  ce_kv_fetch_cost :: real
  ce_kv_recompute_cost :: real
  ce_expected_retry_cost :: real
  ce_routing_overhead_cost :: real
  ce_future_kv_value :: real
  ce_effective_cost :: real
  ce_queue_latency_seconds :: real
  ce_kv_latency_seconds :: real
  ce_prefill_latency_seconds :: real
  ce_decode_latency_seconds :: real
  ce_predicted_latency_seconds :: real
  ce_critical_path_latency_seconds :: real
  ce_local_kv_tokens :: int
  ce_remote_kv_tokens :: int
  ce_miss_tokens :: int
  ce_predictor_version :: string
  ce_predictor_notes :: "string list"
  ce_load_balance_score :: real

text \<open>A fresh evaluation of a target, with the defaults of the dataclass.\<close>

definition CandidateEvaluation :: "nat \<Rightarrow> target_candidate \<Rightarrow> candidate_evaluation" where
  "CandidateEvaluation ref t =
     \<lparr>ce_ref = ref, ce_model_id = tc_model_id t, ce_endpoint_id = tc_endpoint_id t,
      ce_replica_id = tc_replica_id t, ce_tier = tc_tier t, ce_eligible = False,
      ce_rejection_reasons = [], ce_predicted_success = 0, ce_success_uncertainty = 1,
      ce_success_confidence = 0, ce_success_lcb = 0, ce_success_gate = False,
      ce_cost_gate = False, ce_selected = False, ce_inference_cost = 0, ce_kv_fetch_cost = 0,
      ce_kv_recompute_cost = 0, ce_expected_retry_cost = 0, ce_routing_overhead_cost = 0,
      ce_future_kv_value = 0, ce_effective_cost = 0, ce_queue_latency_seconds = 0,
      ce_kv_latency_seconds = 0, ce_prefill_latency_seconds = 0, ce_decode_latency_seconds = 0,
      ce_predicted_latency_seconds = 0, ce_critical_path_latency_seconds = 0,
      ce_local_kv_tokens = 0, ce_remote_kv_tokens = 0, ce_miss_tokens = 0,
      ce_predictor_version = [], ce_predictor_notes = [], ce_load_balance_score = 0\<rparr>"

definition evaluation_key :: "candidate_evaluation \<Rightarrow> target_key" where
  "evaluation_key e = (ce_model_id e, ce_endpoint_id e, ce_replica_id e)"

record routing_decision =
  rd_selected_model :: string
  rd_selected_endpoint :: string
  rd_selected_replica :: string
  rd_predicted_success :: real
  rd_predicted_cost :: real
  rd_predicted_latency_seconds :: real
  rd_decision_reason :: decision_reason
  rd_candidates :: "candidate_evaluation list"
  rd_scheduler_version :: string
  rd_state_id :: string
  rd_state_version :: int
  rd_decision_id :: string
  rd_timestamp :: int
  rd_override_reasons :: "string list"
  rd_fallback :: bool

datatype schedule_error =
    NoFeasibleTarget string "filter_rejection list"
  | ScheduleError exc

end
