(* ===== verification/SF_Scheduler_Gates.thy ===== *)
theory SF_Scheduler_Gates
  imports SF_Scheduler_Types
begin

text \<open>
  The gates of the scheduler: the hard filter (\<open>capability_filter.py\<close>), the deterministic safety
  overrides (\<open>critical_override.py\<close>), the model-level success gate (\<open>success_gate.py\<close>) and the cost
  equivalence gate (\<open>cost_gate.py\<close>), with the lemmas that say what passes each.
\<close>

section \<open>The hard filter\<close>

definition filter_kv_tokens :: "scheduling_view \<Rightarrow> target_candidate \<Rightarrow> int \<times> int \<times> int" where
  "filter_kv_tokens view t =
     (let prompt = max 0 (hv_prompt_tokens view);
          local_kv = min prompt (max 0 (tc_local_kv_tokens t));
          remote0 = min (prompt - local_kv) (max 0 (tc_remote_kv_tokens t));
          remote = (if \<not> hv_remote_kv_allowed view \<or> \<not> tc_supports_remote_kv t then 0 else remote0)
      in (local_kv, remote, max 0 (prompt - local_kv - remote)))"

definition filter_lower_bound :: "scheduling_view \<Rightarrow> target_candidate \<Rightarrow> real" where
  "filter_lower_bound view t =
     (let (local_kv, remote, miss) = filter_kv_tokens view t in
      max 0 (tc_inference_cost t)
      + of_int (max 0 (hv_prompt_tokens view)) * max 0 (tc_input_cost_per_token t)
      + of_int (max 0 (hv_predicted_output_tokens view)) * max 0 (tc_output_cost_per_token t)
      + of_int remote * max 0 (tc_kv_fetch_cost_per_token t)
      + of_int miss * max 0 (tc_kv_recompute_cost_per_token t)
      + max 0 (tc_routing_overhead_cost t))"

definition reason_if :: "bool \<Rightarrow> string \<Rightarrow> string list" where
  "reason_if b r = (if b then [r] else [])"

lemma reason_if_Nil [simp]: "reason_if b r = [] \<longleftrightarrow> \<not> b"
  by (simp add: reason_if_def)

definition target_reasons :: "scheduling_view \<Rightarrow> target_candidate \<Rightarrow> string list" where
  "target_reasons view t =
     (let required_tokens = max 0 (hv_prompt_tokens view) + max 0 (hv_predicted_output_tokens view);
          missing = hv_required_capabilities view - tc_capabilities t
      in reason_if (\<not> tc_available t) ''endpoint_unavailable''
       @ reason_if (\<not> tc_healthy t) ''endpoint_unhealthy''
       @ reason_if (\<not> tc_compatible t) ''adapter_tokenizer_or_revision_incompatible''
       @ reason_if (required_tokens > tc_context_window_tokens t) ''context_window_exceeded''
       @ reason_if (missing \<noteq> {})
           (''missing_capabilities:'' @ str_join '','' (sorted_list_of_set missing))
       @ reason_if (hv_allowed_models view \<noteq> {} \<and> tc_model_id t \<notin> hv_allowed_models view)
           ''model_not_allowed''
       @ reason_if (hv_allowed_regions view \<noteq> {} \<and> tc_region t \<notin> hv_allowed_regions view)
           ''region_not_allowed''
       @ reason_if (hv_allowed_cache_domains view \<noteq> {}
                      \<and> tc_cache_domain t \<notin> hv_allowed_cache_domains view)
           ''cache_domain_not_allowed''
       @ reason_if (hv_security_domain view \<noteq> [] \<and> tc_security_domain t \<noteq> hv_security_domain view)
           ''security_domain_mismatch''
       @ reason_if (md_requires_remote_kv (tc_metadata t) \<and> \<not> hv_remote_kv_allowed view)
           ''remote_kv_required_but_forbidden''
       @ (case hv_cost_budget view of None \<Rightarrow> []
          | Some budget \<Rightarrow> reason_if (filter_lower_bound view t > budget) ''hard_cost_budget_exceeded''))"

record filter_result =
  fr_eligible :: "target_candidate list"
  fr_rejected :: "filter_rejection list"

definition reject :: "target_candidate \<Rightarrow> string list \<Rightarrow> filter_rejection" where
  "reject t reasons = \<lparr>fj_model_id = tc_model_id t, fj_endpoint_id = tc_endpoint_id t,
     fj_replica_id = tc_replica_id t, fj_reasons = reasons\<rparr>"

definition rejection_key :: "filter_rejection \<Rightarrow> target_key" where
  "rejection_key r = (fj_model_id r, fj_endpoint_id r, fj_replica_id r)"

fun hard_filter :: "scheduling_view \<Rightarrow> target_candidate list \<Rightarrow> filter_result" where
  "hard_filter view [] = \<lparr>fr_eligible = [], fr_rejected = []\<rparr>"
| "hard_filter view (t # ts) =
     (let reasons = target_reasons view t; rest = hard_filter view ts in
      if reasons \<noteq> [] then rest\<lparr>fr_rejected := reject t reasons # fr_rejected rest\<rparr>
      else rest\<lparr>fr_eligible := t # fr_eligible rest\<rparr>)"

text \<open>What a request may rely on once a target has passed.\<close>

definition target_safe :: "scheduling_view \<Rightarrow> target_candidate \<Rightarrow> bool" where
  "target_safe view t \<longleftrightarrow>
     tc_available t \<and> tc_healthy t \<and> tc_compatible t \<and>
     max 0 (hv_prompt_tokens view) + max 0 (hv_predicted_output_tokens view) \<le> tc_context_window_tokens t \<and>
     hv_required_capabilities view \<subseteq> tc_capabilities t \<and>
     (hv_allowed_models view = {} \<or> tc_model_id t \<in> hv_allowed_models view) \<and>
     (hv_allowed_regions view = {} \<or> tc_region t \<in> hv_allowed_regions view) \<and>
     (hv_allowed_cache_domains view = {} \<or> tc_cache_domain t \<in> hv_allowed_cache_domains view) \<and>
     (hv_security_domain view = [] \<or> tc_security_domain t = hv_security_domain view) \<and>
     (md_requires_remote_kv (tc_metadata t) \<longrightarrow> hv_remote_kv_allowed view)"

lemma target_reasons_Nil:
  "target_reasons view t = [] \<longleftrightarrow> target_safe view t \<and>
     (\<forall>budget. hv_cost_budget view = Some budget \<longrightarrow> filter_lower_bound view t \<le> budget)"
  by (auto simp: target_reasons_def target_safe_def Let_def not_less split: option.splits)

lemma fr_eligible_hard_filter:
  "fr_eligible (hard_filter view ts) = filter (\<lambda>t. target_reasons view t = []) ts"
  by (induction ts) (simp_all add: Let_def)

lemma fr_rejected_hard_filter:
  "fr_rejected (hard_filter view ts)
     = map (\<lambda>t. reject t (target_reasons view t)) (filter (\<lambda>t. target_reasons view t \<noteq> []) ts)"
  by (induction ts) (simp_all add: Let_def)

section \<open>Safety overrides\<close>

record critical_override =
  co_active :: bool
  co_reasons :: "string list"

definition critical_override :: "scheduling_view \<Rightarrow> scheduler_config \<Rightarrow> critical_override" where
  "critical_override view config =
     (let reasons =
         reason_if (hv_critical_error view) ''critical_error''
       @ reason_if (hv_error_severity view \<ge> cf_error_severity_override config) ''high_error_severity''
       @ reason_if (hv_failure_streak view \<ge> cf_failure_streak_override config) ''failure_streak''
       @ reason_if (hv_consecutive_failures view \<ge> cf_failure_streak_override config)
           ''consecutive_failures''
       @ reason_if (hv_spinning_score view \<ge> cf_spinning_score_override config) ''spinning''
       @ reason_if (hv_recovery_score view \<ge> cf_error_severity_override config)
           ''recovery_or_replanning''
       @ reason_if (hv_context_compaction_needed view) ''context_compaction''
       @ reason_if (hv_critical_step view) ''critical_path_step''
       @ reason_if (hv_security_sensitive view) ''security_sensitive''
       @ reason_if (phase_value (hv_phase view) \<in> {''REPLANNING'', ''BLOCKED''}) ''replanning_or_blocked''
       @ reason_if (hv_state_completeness view < cf_min_state_completeness_for_downgrade config)
           ''state_unknown_safe_fallback''
      in \<lparr>co_active = reasons \<noteq> [], co_reasons = fromkeys reasons\<rparr>)"

text \<open>
  \<open>capable_only\<close>: the \<open>or\<close> reads the capability rank only when the tier does not decide, and
  \<open>int()\<close> of a malformed rank raises.
\<close>

definition capable_tier :: "target_candidate \<Rightarrow> bool" where
  "capable_tier t \<longleftrightarrow> str_lower (tc_tier t) \<in> {''capable'', ''frontier'', ''strong'', ''premium''}"

definition is_capable :: "target_candidate \<Rightarrow> bool res" where
  "is_capable t =
     (if capable_tier t then Inr True
      else (case md_capability_rank (tc_metadata t) of
              None \<Rightarrow> Inr False
            | Some rank \<Rightarrow> res_bind rank (\<lambda>r. Inr (r \<ge> 2))))"

fun capable_targets :: "target_candidate list \<Rightarrow> target_candidate list res" where
  "capable_targets [] = Inr []"
| "capable_targets (t # ts) =
     res_bind (is_capable t) (\<lambda>c. res_bind (capable_targets ts) (\<lambda>rest.
       Inr (if c then t # rest else rest)))"

definition capable_only :: "target_candidate list \<Rightarrow> target_candidate list res" where
  "capable_only ts = res_bind (capable_targets ts) (\<lambda>capable. Inr (if capable \<noteq> [] then capable else ts))"

lemma capable_targets_Inr:
  "capable_targets ts = Inr cs \<Longrightarrow> cs = filter (\<lambda>t. is_capable t = Inr True) ts"
  by (induction ts arbitrary: cs) (auto simp: res_bind_Inr_iff)

lemma capable_targets_total:
  "(\<And>t. t \<in> set ts \<Longrightarrow> \<exists>c. is_capable t = Inr c) \<Longrightarrow> \<exists>cs. capable_targets ts = Inr cs"
proof (induction ts)
  case (Cons t ts)
  then obtain c cs where "is_capable t = Inr c" "capable_targets ts = Inr cs"
    by (meson list.set_intros)
  then show ?case by simp
qed simp

lemma capable_only_cases:
  assumes "capable_only ts = Inr cs"
  shows "(cs = filter (\<lambda>t. is_capable t = Inr True) ts \<and> cs \<noteq> []) \<or>
         (cs = ts \<and> (\<forall>t \<in> set ts. is_capable t \<noteq> Inr True))"
proof -
  from assms obtain xs where xs: "capable_targets ts = Inr xs" "cs = (if xs \<noteq> [] then xs else ts)"
    by (auto simp: capable_only_def res_bind_Inr_iff)
  then have "xs = filter (\<lambda>t. is_capable t = Inr True) ts" by (blast dest: capable_targets_Inr)
  then show ?thesis using xs(2) by (auto simp: filter_empty_conv split: if_splits)
qed

lemma capable_only_nonempty: "capable_only ts = Inr cs \<Longrightarrow> ts \<noteq> [] \<Longrightarrow> cs \<noteq> []"
  by (auto dest: capable_only_cases)

lemma capable_only_subset: "capable_only ts = Inr cs \<Longrightarrow> set cs \<subseteq> set ts"
  by (auto dest: capable_only_cases)

section \<open>The success gate\<close>

record success_gate_result =
  sg_model_ids :: "string set"
  sg_best_lcb :: real
  sg_fallback :: bool

fun success_by_model ::
  "candidate_evaluation list \<Rightarrow> (string, real) dict \<Rightarrow> (string, real) dict" where
  "success_by_model [] m = m"
| "success_by_model (e # es) m =
     success_by_model es
       (dict_set m (ce_model_id e) (max (dict_get_or m (ce_model_id e) 0) (ce_success_lcb e)))"

definition success_gate ::
  "candidate_evaluation list \<Rightarrow> real \<Rightarrow> real \<Rightarrow> success_gate_result" where
  "success_gate evaluations s_min epsilon_success =
     (case success_by_model evaluations [] of
        [] \<Rightarrow> \<lparr>sg_model_ids = {}, sg_best_lcb = 0, sg_fallback = True\<rparr>
      | m # ms \<Rightarrow>
         (let best = snd (max_from snd m ms);
              margin = max 0 epsilon_success;
              accepted = set (map fst
                (filter (\<lambda>(_, lcb). lcb \<ge> s_min \<and> lcb \<ge> best - margin) (m # ms)))
          in if accepted \<noteq> {} then \<lparr>sg_model_ids = accepted, sg_best_lcb = best, sg_fallback = False\<rparr>
             else \<lparr>sg_model_ids = set (map fst
                      (filter (\<lambda>(_, lcb). lcb \<ge> best - 1 / 10 ^ 12) (m # ms))),
                   sg_best_lcb = best, sg_fallback = True\<rparr>))"

section \<open>The cost gate\<close>

definition cost_gate :: "candidate_evaluation list \<Rightarrow> real \<Rightarrow> candidate_evaluation list" where
  "cost_gate evaluations epsilon_cost =
     (case evaluations of
        [] \<Rightarrow> []
      | e # es \<Rightarrow>
         (let best = ce_effective_cost (min_from ce_effective_cost e es);
              threshold = best * (1 + max 0 epsilon_cost) + 1 / 10 ^ 12
          in filter (\<lambda>item. ce_effective_cost item \<le> threshold) evaluations))"

lemma cost_gate_Cons:
  "cost_gate (e # es) eps = filter (\<lambda>item. ce_effective_cost item
     \<le> ce_effective_cost (min_from ce_effective_cost e es) * (1 + max 0 eps) + 1 / 10 ^ 12) (e # es)"
  unfolding cost_gate_def Let_def list.case ..

lemma cost_gate_subset: "set (cost_gate es eps) \<subseteq> set es"
  by (auto simp: cost_gate_def Let_def split: list.splits)

lemma cost_gate_within:
  assumes "x \<in> set (cost_gate es eps)" "y \<in> set es" "\<And>e. e \<in> set es \<Longrightarrow> 0 \<le> ce_effective_cost e"
  shows "ce_effective_cost x \<le> ce_effective_cost y * (1 + max 0 eps) + 1 / 10 ^ 12"
proof -
  obtain e es' where es: "es = e # es'" using assms(2) by (cases es) auto
  let ?b = "ce_effective_cost (min_from ce_effective_cost e es')"
  have "ce_effective_cost x \<le> ?b * (1 + max 0 eps) + 1 / 10 ^ 12"
    using assms(1) unfolding es cost_gate_Cons set_filter by blast
  moreover have "?b \<le> ce_effective_cost y" using assms(2) by (auto simp: es intro: min_from_le)
  then have "?b * (1 + max 0 eps) \<le> ce_effective_cost y * (1 + max 0 eps)"
    by (intro mult_right_mono) auto
  ultimately show ?thesis by linarith
qed

lemma cost_gate_nonempty:
  assumes "es \<noteq> []" "\<And>e. e \<in> set es \<Longrightarrow> 0 \<le> ce_effective_cost e"
  shows "cost_gate es eps \<noteq> []"
proof -
  obtain e es' where es: "es = e # es'" using assms(1) by (cases es) auto
  let ?m = "min_from ce_effective_cost e es'"
  have "?m \<in> set es" using min_from_in [of ce_effective_cost e es'] by (simp add: es)
  moreover have "ce_effective_cost ?m \<le> ce_effective_cost ?m * (1 + max 0 eps) + 1 / 10 ^ 12"
    using assms(2) [OF calculation] mult_left_mono [of 1 "1 + max 0 eps" "ce_effective_cost ?m"]
    by (simp add: add_increasing2)
  ultimately have "?m \<in> set (cost_gate es eps)" unfolding es cost_gate_Cons set_filter by blast
  then show ?thesis by (metis empty_iff list.set(1))
qed

section \<open>What the success gate lets through\<close>

definition model_lcb :: "candidate_evaluation list \<Rightarrow> string \<Rightarrow> real" where
  "model_lcb es m = Max (insert 0 (ce_success_lcb ` {e \<in> set es. ce_model_id e = m}))"

lemma success_by_model_keys:
  "dict_distinct m \<Longrightarrow> dict_distinct (success_by_model es m)"
  "fst ` set (success_by_model es m) = fst ` set m \<union> ce_model_id ` set es"
  by (induction es arbitrary: m) auto

lemma Max_insert_max: "finite S \<Longrightarrow> Max (insert (max b l) S) = Max (insert b (insert l S))"
  for b :: "'a::linorder"
  by (cases "S = {}") (simp_all add: max.assoc)

lemma success_by_model_get:
  "dict_get (success_by_model es d) m =
     (if m \<in> ce_model_id ` set es
      then Some (Max (insert (dict_get_or d m 0) (ce_success_lcb ` {e \<in> set es. ce_model_id e = m})))
      else dict_get d m)"
proof (induction es arbitrary: d)
  case (Cons e es)
  let ?l = "ce_success_lcb e" and ?b = "dict_get_or d m 0"
  let ?S = "ce_success_lcb ` {e \<in> set es. ce_model_id e = m}"
  have fin: "finite ?S" by simp
  show ?case
  proof (cases "ce_model_id e = m")
    case True
    then have "{x \<in> set (e # es). ce_model_id x = m} = insert e {x \<in> set es. ce_model_id x = m}" by auto
    then have "ce_success_lcb ` {x \<in> set (e # es). ce_model_id x = m} = insert ?l ?S" by simp
    moreover have "Max (insert (max ?b ?l) ?S) = Max (insert ?b (insert ?l ?S))"
      by (rule Max_insert_max) (rule fin)
    moreover have "dict_get (success_by_model (e # es) d) m = Some (Max (insert (max ?b ?l) ?S))"
    proof (cases "m \<in> ce_model_id ` set es")
      case True
      then show ?thesis using \<open>ce_model_id e = m\<close> by (simp add: Cons.IH dict_get_or_def del: Max_insert)
    next
      case False
      then have S: "?S = {}" by auto
      show ?thesis unfolding S using False \<open>ce_model_id e = m\<close> by (simp add: Cons.IH dict_get_or_def)
    qed
    ultimately show ?thesis using True by (simp del: Max_insert)
  next
    case False
    then have "{x \<in> set (e # es). ce_model_id x = m} = {x \<in> set es. ce_model_id x = m}" by auto
    then show ?thesis using False by (auto simp: Cons.IH dict_get_or_def)
  qed
qed simp

lemma model_lcb_nonneg: "0 \<le> model_lcb es m"
  by (simp add: model_lcb_def)

lemma model_lcb_const:
  assumes "\<And>e. e \<in> set es \<Longrightarrow> ce_model_id e = m \<Longrightarrow> ce_success_lcb e = l" "0 \<le> l"
    "m \<in> ce_model_id ` set es"
  shows "model_lcb es m = l"
proof -
  have "ce_success_lcb ` {e \<in> set es. ce_model_id e = m} = {l}" using assms by auto
  then show ?thesis using assms(2) by (simp add: model_lcb_def)
qed

text \<open>The gate in terms of the conservative bound of each model.\<close>

lemma success_gate_spec:
  fixes es s_min eps
  defines "g \<equiv> success_gate es s_min eps" and "models \<equiv> ce_model_id ` set es"
  assumes "es \<noteq> []"
  shows "sg_fallback g \<longleftrightarrow> (\<forall>m \<in> models. model_lcb es m < s_min)"
    and "\<not> sg_fallback g \<Longrightarrow> sg_model_ids g = {m \<in> models. s_min \<le> model_lcb es m \<and>
           (\<forall>n \<in> models. model_lcb es n \<le> model_lcb es m + max 0 eps)}"
    and "sg_fallback g \<Longrightarrow> sg_model_ids g = {m \<in> models.
           \<forall>n \<in> models. model_lcb es n \<le> model_lcb es m + 1 / 10 ^ 12}"
    and "sg_model_ids g \<noteq> {}"
proof -
  let ?d = "success_by_model es []"
  have dist: "dict_distinct ?d" by (simp add: success_by_model_keys)
  have dom: "fst ` set ?d = models" by (simp add: success_by_model_keys models_def)
  have val: "(m, l) \<in> set ?d \<longleftrightarrow> m \<in> models \<and> l = model_lcb es m" for m l
    using dict_get_eq_Some_iff [OF dist, of m l]
    by (simp add: success_by_model_get models_def model_lcb_def dict_get_or_def eq_commute
        split: if_splits del: Max_insert)
  have "?d \<noteq> []" using dom assms(3) by (auto simp: models_def)
  then obtain x xs where d: "?d = x # xs" by (cases ?d) auto
  let ?best = "snd (max_from snd x xs)"
  have "max_from snd x xs \<in> set ?d" using max_from_in [of snd x xs] by (simp add: d)
  then obtain b where b: "b \<in> models" "?best = model_lcb es b"
    using val by (metis prod.collapse)
  have best: "model_lcb es m \<le> ?best" if "m \<in> models" for m
    using that val [of m "model_lcb es m"] max_from_ge [of "(m, model_lcb es m)" x xs snd] by (simp add: d)
  have above: "?best - c \<le> model_lcb es m \<longleftrightarrow> (\<forall>n \<in> models. model_lcb es n \<le> model_lcb es m + c)"
    if "m \<in> models" for m c
    using best b by (auto simp: algebra_simps) (meson add_le_cancel_right order_trans)
  let ?acc = "{m \<in> models. s_min \<le> model_lcb es m \<and>
           (\<forall>n \<in> models. model_lcb es n \<le> model_lcb es m + max 0 eps)}"
  let ?fb = "{m \<in> models. \<forall>n \<in> models. model_lcb es n \<le> model_lcb es m + 1 / 10 ^ 12}"
  have acc: "set (map fst (filter (\<lambda>(_, lcb). lcb \<ge> s_min \<and> lcb \<ge> ?best - max 0 eps) ?d)) = ?acc"
    using val above by (auto simp: image_iff)
  have fb: "set (map fst (filter (\<lambda>(_, lcb). lcb \<ge> ?best - 1 / 10 ^ 12) ?d)) = ?fb"
    using val above by (auto simp: image_iff)
  have g: "g = (if ?acc \<noteq> {} then \<lparr>sg_model_ids = ?acc, sg_best_lcb = ?best, sg_fallback = False\<rparr>
      else \<lparr>sg_model_ids = ?fb, sg_best_lcb = ?best, sg_fallback = True\<rparr>)"
    unfolding acc [symmetric] fb [symmetric] g_def success_gate_def d list.case Let_def ..
  have acc_iff: "?acc \<noteq> {} \<longleftrightarrow> (\<exists>m \<in> models. s_min \<le> model_lcb es m)"
  proof
    assume "\<exists>m \<in> models. s_min \<le> model_lcb es m"
    then have "s_min \<le> model_lcb es b" using best b(2) by (metis order_trans)
    moreover have "\<forall>n \<in> models. model_lcb es n \<le> model_lcb es b + max 0 eps"
      using best b(2) by (simp add: add_increasing2)
    ultimately show "?acc \<noteq> {}" using b(1) by blast
  qed blast
  have bfb: "b \<in> ?fb" using b best by (auto intro: add_increasing2)
  show "sg_fallback g \<longleftrightarrow> (\<forall>m \<in> models. model_lcb es m < s_min)"
    using acc_iff unfolding g by (auto simp: not_less)
  show "\<not> sg_fallback g \<Longrightarrow> sg_model_ids g = ?acc" "sg_fallback g \<Longrightarrow> sg_model_ids g = ?fb"
    unfolding g by (auto split: if_splits)
  show "sg_model_ids g \<noteq> {}" unfolding g using bfb by auto
qed

end
