(* ===== verification/SF_Scheduler_Cost.thy ===== *)
theory SF_Scheduler_Cost
  imports SF_Scheduler_Gates
begin

text \<open>
  The cost and latency models of the scheduler: \<open>cost_model.py\<close>, \<open>kv_value.py\<close>,
  \<open>latency_model.py\<close>. The lemmas bound each part and relate the cost to the lower bound the hard
  filter compares with the budget.
\<close>

section \<open>KV coverage of the prompt\<close>

definition kv_breakdown :: "scheduling_view \<Rightarrow> target_candidate \<Rightarrow> int \<times> int \<times> int" where
  "kv_breakdown view t =
     (let prompt_tokens = max 0 (hv_prompt_tokens view);
          local_kv = min prompt_tokens (max 0 (tc_local_kv_tokens t));
          remote0 = min (prompt_tokens - local_kv) (max 0 (tc_remote_kv_tokens t));
          remote = (if \<not> hv_remote_kv_allowed view \<or> \<not> tc_supports_remote_kv t then 0 else remote0)
      in (local_kv, remote, max 0 (prompt_tokens - local_kv - remote)))"

lemma kv_breakdown_partition:
  assumes "kv_breakdown view t = (l, r, m)"
  shows "0 \<le> l" "0 \<le> r" "0 \<le> m" "l + r + m = max 0 (hv_prompt_tokens view)"
    and "\<not> hv_remote_kv_allowed view \<Longrightarrow> r = 0"
proof -
  let ?p = "max 0 (hv_prompt_tokens view)" and ?x = "max 0 (tc_local_kv_tokens t)"
  let ?y = "max 0 (tc_remote_kv_tokens t)"
  let ?off = "\<not> hv_remote_kv_allowed view \<or> \<not> tc_supports_remote_kv t"
  have l: "l = min ?p ?x" and r: "r = (if ?off then 0 else min (?p - l) ?y)"
    and m: "m = max 0 (?p - l - r)"
    using assms unfolding kv_breakdown_def Let_def prod.inject by blast+
  show "0 \<le> l" unfolding l by simp
  have "l \<le> ?p" unfolding l by (rule min.cobounded1)
  then have r': "0 \<le> r" "r \<le> ?p - l" unfolding r by simp_all
  then show "0 \<le> r" "0 \<le> m" "l + r + m = ?p" unfolding m by simp_all
  show "\<not> hv_remote_kv_allowed view \<Longrightarrow> r = 0" unfolding r by simp
qed

lemma filter_kv_tokens_eq: "filter_kv_tokens view t = kv_breakdown view t"
  by (simp add: filter_kv_tokens_def kv_breakdown_def)

section \<open>The value of keeping KV for later turns\<close>

definition future_kv_value ::
  "scheduling_view \<Rightarrow> target_candidate \<Rightarrow> scheduler_config \<Rightarrow> int option \<Rightarrow> int option \<Rightarrow> real" where
  "future_kv_value view t config local_kv_tokens remote_kv_tokens =
     (let local_kv = max 0 (case local_kv_tokens of None \<Rightarrow> tc_local_kv_tokens t | Some n \<Rightarrow> n);
          remote = max 0 (case remote_kv_tokens of None \<Rightarrow> tc_remote_kv_tokens t | Some n \<Rightarrow> n);
          effective_reusable_tokens =
            of_int local_kv + of_int remote * clamp 0 1 (tc_remote_kv_reuse_factor t);
          p_continue = clamp01 (hv_continuation_probability view);
          p_reuse = clamp01 (hv_kv_reuse_probability view);
          remaining_turns = max 0 (hv_predicted_remaining_turns view);
          recompute_cost = max 0 (tc_kv_recompute_cost_per_token t);
          gap = max 0 (hv_predicted_time_until_next_model_call_seconds view);
          decay_scale = max (1 / 10 ^ 6) (cf_future_value_decay_seconds config);
          decay = exp (- gap / decay_scale)
      in max 0 (p_continue * p_reuse * effective_reusable_tokens * of_int remaining_turns
                * recompute_cost * decay))"

lemma future_kv_value_nonneg [simp]: "0 \<le> future_kv_value view t config l r"
  by (simp add: future_kv_value_def Let_def)

text \<open>The value never exceeds recomputing every reusable token once per remaining turn.\<close>

lemma future_kv_value_bound:
  assumes "0 \<le> l" "0 \<le> r"
  shows "future_kv_value view t config (Some l) (Some r)
    \<le> of_int (l + r) * of_int (max 0 (hv_predicted_remaining_turns view))
        * max 0 (tc_kv_recompute_cost_per_token t)"
proof -
  let ?d = "exp (- max 0 (hv_predicted_time_until_next_model_call_seconds view)
      / max (1 / 10 ^ 6) (cf_future_value_decay_seconds config))"
  let ?p = "clamp01 (hv_continuation_probability view)" and ?q = "clamp01 (hv_kv_reuse_probability view)"
  let ?f = "clamp 0 1 (tc_remote_kv_reuse_factor t)"
  let ?e = "of_int l + of_int r * ?f"
  let ?n = "of_int (max 0 (hv_predicted_remaining_turns view)) :: real"
  let ?c = "max 0 (tc_kv_recompute_cost_per_token t)"
  have d: "0 \<le> ?d" "?d \<le> 1" by (auto simp: divide_nonpos_pos)
  have f: "0 \<le> ?f" "?f \<le> 1" by (simp_all add: clamp_def)
  have e: "0 \<le> ?e" "?e \<le> of_int (l + r)"
    using assms f mult_left_le [of ?f "of_int r"] by auto
  have pq: "0 \<le> ?p * ?q" "?p * ?q \<le> 1" by (auto intro: mult_le_one)
  have "?p * ?q * ?e * ?n * ?c * ?d = (?p * ?q * ?d) * (?e * ?n * ?c)" by (simp add: algebra_simps)
  also have "\<dots> \<le> 1 * (?e * ?n * ?c)"
    using pq d e by (intro mult_right_mono) (auto intro: mult_le_one)
  also have "\<dots> \<le> of_int (l + r) * ?n * ?c"
    using e by (auto intro!: mult_right_mono)
  finally show ?thesis
    unfolding future_kv_value_def Let_def option.case max_absorb2 [OF assms(1)] max_absorb2 [OF assms(2)]
    using assms by (intro max.boundedI mult_nonneg_nonneg) simp_all
qed

section \<open>Effective cost\<close>

definition effective_cost ::
  "scheduling_view \<Rightarrow> target_candidate \<Rightarrow> success_estimate \<Rightarrow> scheduler_config \<Rightarrow> cost_breakdown" where
  "effective_cost view t estimate config =
     (let (local_kv, remote, miss) = kv_breakdown view t;
          prompt_tokens = max 0 (hv_prompt_tokens view);
          output_tokens = max 0 (hv_predicted_output_tokens view);
          inference = max 0 (tc_inference_cost t)
            + of_int prompt_tokens * max 0 (tc_input_cost_per_token t)
            + of_int output_tokens * max 0 (tc_output_cost_per_token t);
          fetch = of_int remote * max 0 (tc_kv_fetch_cost_per_token t);
          recompute = of_int miss * max 0 (tc_kv_recompute_cost_per_token t);
          expected_retry = max 0 (1 - es_predicted_success estimate) * max 0 (tc_fallback_path_cost t);
          future = future_kv_value view t config (Some local_kv) (Some remote);
          raw_effective = inference + fetch + recompute + expected_retry
            + max 0 (tc_routing_overhead_cost t) - cf_lambda_future config * future
      in \<lparr>cb_inference_cost = inference, cb_kv_fetch_cost = fetch, cb_kv_recompute_cost = recompute,
          cb_expected_retry_cost = expected_retry,
          cb_routing_overhead_cost = max 0 (tc_routing_overhead_cost t),
          cb_future_kv_value = future, cb_effective_cost = max 0 raw_effective,
          cb_local_kv_tokens = local_kv, cb_remote_kv_tokens = remote, cb_miss_tokens = miss\<rparr>)"

lemma effective_cost_nonneg [simp]: "0 \<le> cb_effective_cost (effective_cost view t est config)"
  by (simp add: effective_cost_def Let_def split: prod.splits)

lemma effective_cost_lower:
  "filter_lower_bound view t
     \<le> cb_effective_cost (effective_cost view t est config)
        + cf_lambda_future config * cb_future_kv_value (effective_cost view t est config)"
proof -
  obtain l r m where k: "kv_breakdown view t = (l, r, m)" by (cases "kv_breakdown view t")
  let ?e = "max 0 (1 - es_predicted_success est) * max 0 (tc_fallback_path_cost t)"
  have le: "a \<le> max 0 (a + e - b) + b" if "0 \<le> e" for a b e :: real
    using that max.cobounded2 [of "a + e - b" 0] by linarith
  have e: "0 \<le> ?e" by simp
  have "cb_effective_cost (effective_cost view t est config) = max 0 (filter_lower_bound view t + ?e
      - cf_lambda_future config * cb_future_kv_value (effective_cost view t est config))"
    unfolding effective_cost_def filter_lower_bound_def filter_kv_tokens_eq Let_def k prod.case
      cost_breakdown.select_convs by (simp only: ac_simps)
  then show ?thesis using le [OF e] by simp
qed

section \<open>Latency\<close>

definition predicted_latency :: "scheduling_view \<Rightarrow> target_candidate \<Rightarrow> latency_breakdown" where
  "predicted_latency view t =
     (let (local_kv, remote, miss) = kv_breakdown view t;
          fetch = of_int remote * max 0 (tc_kv_fetch_latency_per_token t);
          recompute = of_int miss * max 0 (tc_kv_recompute_latency_per_token t);
          kv_latency = fetch + recompute;
          prefill_tps = max (1 / 10 ^ 9) (tc_prefill_tokens_per_second t);
          decode_tps = max (1 / 10 ^ 9) (tc_decode_tokens_per_second t);
          prefill = of_int miss / prefill_tps;
          decode = of_int (max 0 (hv_predicted_output_tokens view)) / decode_tps;
          total = max 0 (tc_queue_latency_seconds t) + kv_latency + prefill + decode;
          critical_factor = 1 + 0 * max 0 (hv_critical_path_urgency view)
      in \<lparr>lb_queue_latency_seconds = max 0 (tc_queue_latency_seconds t),
          lb_kv_latency_seconds = kv_latency, lb_prefill_latency_seconds = prefill,
          lb_decode_latency_seconds = decode, lb_predicted_latency_seconds = total,
          lb_critical_path_latency_seconds = total * critical_factor\<rparr>)"

lemma predicted_latency_nonneg: "0 \<le> lb_predicted_latency_seconds (predicted_latency view t)"
proof -
  obtain l r m where k: "kv_breakdown view t = (l, r, m)" by (cases "kv_breakdown view t")
  then show ?thesis
    using kv_breakdown_partition [OF k] by (simp add: predicted_latency_def Let_def max_def)
qed

end
