(* ===== verification/SF_Predictors.thy ===== *)
theory SF_Predictors
  imports SF_Scheduler_Types
begin

text \<open>
  The success predictors of \<open>success_predictor.py\<close>. The scheduler uses a predictor through one
  operation; what it may rely on is the locale \<open>success_predictor\<close>: an estimate, when there is
  one, consists of probabilities. Both predictors of the code are interpretations.
\<close>

type_synonym predictor = "scheduling_view \<Rightarrow> target_candidate \<Rightarrow> success_estimate res"

section \<open>The contract of a predictor\<close>

definition estimate_ok :: "success_estimate \<Rightarrow> bool" where
  "estimate_ok e \<longleftrightarrow> 0 \<le> es_predicted_success e \<and> es_predicted_success e \<le> 1 \<and>
     0 \<le> es_uncertainty e \<and> es_uncertainty e \<le> 1 \<and> 0 \<le> es_confidence e \<and> es_confidence e \<le> 1"

locale success_predictor =
  fixes estimate :: predictor
  assumes estimate_ok: "estimate view t = Inr e \<Longrightarrow> estimate_ok e"
begin

lemma lcb_bounds:
  assumes "estimate view t = Inr e" "0 \<le> b"
  shows "0 \<le> es_lower_confidence_bound (with_lcb b e)"
    and "es_lower_confidence_bound (with_lcb b e) \<le> es_predicted_success e"
proof -
  have "0 \<le> b * es_uncertainty e" using estimate_ok [OF assms(1)] assms(2) by (simp add: estimate_ok_def)
  then show "es_lower_confidence_bound (with_lcb b e) \<le> es_predicted_success e"
    using estimate_ok [OF assms(1)] by (simp add: with_lcb_def estimate_ok_def min_le_iff_disj)
qed (simp add: with_lcb_def)

lemma lcb_antimono:
  assumes "estimate view t = Inr e" "b \<le> c"
  shows "es_lower_confidence_bound (with_lcb c e) \<le> es_lower_confidence_bound (with_lcb b e)"
proof -
  have "b * es_uncertainty e \<le> c * es_uncertainty e"
    using estimate_ok [OF assms(1)] assms(2) by (intro mult_right_mono) (auto simp: estimate_ok_def)
  then show ?thesis by (auto simp: with_lcb_def)
qed

end

section \<open>The heuristic predictor\<close>

definition tier_ranks :: "(string, int) dict" where
  "tier_ranks = [(''efficient'', 0), (''cheap'', 0), (''capable'', 1), (''strong'', 1),
     (''frontier'', 2), (''premium'', 2)]"

definition tier_rank :: "string \<Rightarrow> int" where
  "tier_rank tier = dict_get_or tier_ranks (str_lower tier) 0"

definition heuristic_base :: "scheduling_view \<Rightarrow> target_candidate \<Rightarrow> real res" where
  "heuristic_base view t =
     res_bind (case md_base_success (tc_metadata t) of None \<Rightarrow> Inr (tc_base_success t) | Some r \<Rightarrow> r)
       (\<lambda>predicted. case dict_get (md_success_by_phase (tc_metadata t)) (phase_value (hv_phase view)) of
          None \<Rightarrow> Inr predicted | Some r \<Rightarrow> r)"

definition heuristic_adjusted :: "scheduling_view \<Rightarrow> target_candidate \<Rightarrow> real \<Rightarrow> real" where
  "heuristic_adjusted view t predicted0 =
     (let risk = max (max (hv_error_severity view) (hv_spinning_score view)) (hv_recovery_score view);
          rank = tier_rank (tc_tier t);
          predicted1 = (if risk > 0 then
              (if rank \<ge> 2 then predicted0 + 4 / 100 * risk
               else if rank = 1 then predicted0 + 15 / 1000 * risk
               else predicted0 - 10 / 100 * risk) else predicted0);
          predicted2 = (if hv_exploring_score view > 65 / 100
                           \<or> phase_value (hv_phase view) \<in> {''PLANNING'', ''REPLANNING''}
                        then predicted1 + 2 / 100 * min 1 (of_int rank / 2) else predicted1);
          predicted3 = (if hv_production_score view > 65 / 100 \<and> hv_plan_stability view > 55 / 100 \<and> rank = 0
                        then predicted2 + 2 / 100 else predicted2);
          predicted4 = (if hv_verification_score view > 65 / 100 \<and> rank = 0
                        then predicted3 - 3 / 100 else predicted3)
      in if hv_truncation_risk view > 7 / 10 \<and> rank = 0
         then predicted4 - 5 / 100 * hv_truncation_risk view else predicted4)"

definition heuristic_uncertainty :: "scheduling_view \<Rightarrow> target_candidate \<Rightarrow> real \<Rightarrow> real" where
  "heuristic_uncertainty view t base =
     clamp 0 (1 / 2)
       (base + 18 / 100 * (1 - clamp01 (hv_state_completeness view))
        + 5 / 100 * clamp01 (hv_truncation_risk view)
        + (if md_out_of_distribution (tc_metadata t) then 10 / 100 else 0))"

definition heuristic_estimate :: "string \<Rightarrow> predictor" where
  "heuristic_estimate version view t =
     res_bind (heuristic_base view t) (\<lambda>predicted0.
     res_bind (case md_uncertainty (tc_metadata t) of None \<Rightarrow> Inr (tc_base_uncertainty t) | Some r \<Rightarrow> r)
       (\<lambda>uncertainty0.
          let predicted = heuristic_adjusted view t predicted0;
              uncertainty = heuristic_uncertainty view t uncertainty0
          in Inr \<lparr>es_predicted_success = clamp01 predicted, es_uncertainty = uncertainty,
                  es_confidence = clamp01 (1 - uncertainty), es_lower_confidence_bound = 0,
                  es_predictor_version = version, es_notes = [''heuristic_capability_profile'']\<rparr>))"

lemma heuristic_uncertainty_bounds:
  "0 \<le> heuristic_uncertainty view t b" "heuristic_uncertainty view t b \<le> 1 / 2"
  using clamp_bounds [of 0 "1 / 2 :: real"] by (auto simp: heuristic_uncertainty_def)

interpretation heuristic: success_predictor "heuristic_estimate version" for version
proof
  fix view t e assume "heuristic_estimate version view t = Inr e"
  then obtain p b where "e = \<lparr>es_predicted_success = clamp01 p, es_uncertainty = heuristic_uncertainty view t b,
      es_confidence = clamp01 (1 - heuristic_uncertainty view t b), es_lower_confidence_bound = 0,
      es_predictor_version = version, es_notes = [''heuristic_capability_profile'']\<rparr>"
    unfolding heuristic_estimate_def Let_def res_bind_Inr_iff by blast
  then show "estimate_ok e"
    using heuristic_uncertainty_bounds [of view t b] by (simp add: estimate_ok_def)
qed

section \<open>The Beta posterior predictor\<close>

record beta_posterior =
  bp_alpha :: real
  bp_beta :: real
  bp_version :: string
  bp_counts :: "(string \<times> string \<times> string, int \<times> int) dict"

definition beta_bucket :: "beta_posterior \<Rightarrow> string \<times> string \<times> string \<Rightarrow> int \<times> int" where
  "beta_bucket bp key = dict_get_or (bp_counts bp) key (0, 0)"

definition record_success_outcome ::
  "beta_posterior \<Rightarrow> string \<Rightarrow> string \<Rightarrow> string \<Rightarrow> bool \<Rightarrow> beta_posterior" where
  "record_success_outcome bp task_type phase model_id success =
     (let key = (task_type, phase, model_id); (s, f) = beta_bucket bp key
      in bp\<lparr>bp_counts := dict_set (bp_counts bp) key (if success then (s + 1, f) else (s, f + 1))\<rparr>)"

definition beta_estimate :: "beta_posterior \<Rightarrow> predictor" where
  "beta_estimate bp view t =
     (let (s, f) = beta_bucket bp (hv_task_type view, phase_value (hv_phase view), tc_model_id t);
          posterior_alpha = bp_alpha bp + of_int s;
          posterior_beta = bp_beta bp + of_int f;
          total = posterior_alpha + posterior_beta
      in if total * total * (total + 1) = 0 then Inl (OtherException ''ZeroDivisionError'')
         else
           (let mean0 = posterior_alpha / total;
                variance = (posterior_alpha * posterior_beta) / (total * total * (total + 1));
                uncertainty0 = min (1 / 2) (sqrt (max 0 variance) * 2);
                mean = (if s + f = 0 then tc_base_success t else mean0);
                uncertainty = (if s + f = 0 then max uncertainty0 (tc_base_uncertainty t) else uncertainty0)
            in Inr \<lparr>es_predicted_success = clamp01 mean, es_uncertainty = clamp01 uncertainty,
                    es_confidence = clamp01 (1 - uncertainty), es_lower_confidence_bound = 0,
                    es_predictor_version = bp_version bp,
                    es_notes = [''beta_bucket_observations='' @ show_int (s + f)]\<rparr>))"

interpretation beta: success_predictor "beta_estimate bp" for bp
  by unfold_locales (auto simp: beta_estimate_def Let_def estimate_ok_def split: prod.splits if_splits)

text \<open>With a proper prior the posterior mean follows the evidence: it is defined, it lies strictly
  between zero and one, and a further success raises it while a failure lowers it.\<close>

definition counts_ok :: "beta_posterior \<Rightarrow> bool" where
  "counts_ok bp \<longleftrightarrow> 0 < bp_alpha bp \<and> 0 < bp_beta bp \<and>
     (\<forall>k s f. dict_get (bp_counts bp) k = Some (s, f) \<longrightarrow> 0 \<le> s \<and> 0 \<le> f)"

lemma beta_bucket_nonneg: "counts_ok bp \<Longrightarrow> beta_bucket bp k = (s, f) \<Longrightarrow> 0 \<le> s \<and> 0 \<le> f"
  by (cases k) (auto simp: counts_ok_def beta_bucket_def dict_get_or_def split: option.splits)

lemma record_success_outcome_ok: "counts_ok bp \<Longrightarrow> counts_ok (record_success_outcome bp a b c ok)"
proof -
  assume ok: "counts_ok bp"
  obtain s f where sf: "beta_bucket bp (a, b, c) = (s, f)" by (cases "beta_bucket bp (a, b, c)")
  show "counts_ok (record_success_outcome bp a b c ok)"
    using ok beta_bucket_nonneg [OF ok sf] by (simp add: record_success_outcome_def counts_ok_def Let_def sf)
qed

lemma record_success_outcome_bucket:
  "beta_bucket (record_success_outcome bp a b c ok) k =
     (let (s, f) = beta_bucket bp k
      in if k = (a, b, c) then (if ok then (s + 1, f) else (s, f + 1)) else (s, f))"
  by (cases "beta_bucket bp (a, b, c)"; cases "beta_bucket bp k")
    (simp add: record_success_outcome_def Let_def, auto simp: beta_bucket_def dict_get_or_def)

lemma beta_total:
  assumes "counts_ok bp" "beta_bucket bp k = (s, f)"
  shows "0 < bp_alpha bp + of_int s + (bp_beta bp + of_int f)"
  using assms beta_bucket_nonneg [OF assms] by (simp add: counts_ok_def add_pos_nonneg)

lemma beta_estimate_total: "counts_ok bp \<Longrightarrow> \<exists>e. beta_estimate bp view t = Inr e"
  using beta_total by (fastforce simp: beta_estimate_def Let_def split: prod.splits)

text \<open>A recorded success raises the posterior mean of its bucket, a recorded failure lowers it.\<close>

definition posterior_mean :: "beta_posterior \<Rightarrow> string \<times> string \<times> string \<Rightarrow> real" where
  "posterior_mean bp k = (case beta_bucket bp k of (s, f) \<Rightarrow>
     (bp_alpha bp + of_int s) / (bp_alpha bp + of_int s + (bp_beta bp + of_int f)))"

lemma posterior_mean_moves:
  assumes "counts_ok bp"
  shows "posterior_mean (record_success_outcome bp a b c True) (a, b, c) > posterior_mean bp (a, b, c)"
    and "posterior_mean (record_success_outcome bp a b c False) (a, b, c) < posterior_mean bp (a, b, c)"
proof -
  obtain s f where sf: "beta_bucket bp (a, b, c) = (s, f)" by (cases "beta_bucket bp (a, b, c)")
  let ?x = "bp_alpha bp + of_int s" and ?y = "bp_beta bp + of_int f"
  have pos: "0 < ?x" "0 < ?y"
    using assms beta_bucket_nonneg [OF assms sf] by (simp_all add: counts_ok_def add_pos_nonneg)
  have same: "bp_alpha (record_success_outcome bp a b c ok) = bp_alpha bp"
    "bp_beta (record_success_outcome bp a b c ok) = bp_beta bp" for ok
    by (simp_all add: record_success_outcome_def Let_def split: prod.splits)
  have "x / (x + y) < (x + 1) / (x + 1 + y)" "x / (x + (y + 1)) < x / (x + y)"
    if "0 < x" "0 < y" for x y :: real
    using that by (simp_all add: divide_simps algebra_simps)
  from this [OF pos]
  show "posterior_mean (record_success_outcome bp a b c True) (a, b, c) > posterior_mean bp (a, b, c)"
    "posterior_mean (record_success_outcome bp a b c False) (a, b, c) < posterior_mean bp (a, b, c)"
    by (simp_all add: posterior_mean_def record_success_outcome_bucket sf same add_ac)
qed

end
