(* ===== verification/SF_Placement.thy ===== *)
theory SF_Placement
  imports SF_Scheduler_Types
begin

text \<open>
  Session-aware replica placement (\<open>placement.py\<close>), the last step of the scheduler: which of the
  candidates that passed both gates serves the request, and why.
\<close>

definition is_local :: "scheduling_view \<Rightarrow> target_candidate \<Rightarrow> bool" where
  "is_local view t \<longleftrightarrow>
     (if hv_preferred_replica view \<noteq> [] \<and> tc_replica_id t = hv_preferred_replica view then True
      else if hv_preferred_endpoint view \<noteq> [] \<and> tc_endpoint_id t = hv_preferred_endpoint view then True
      else md_session_local (tc_metadata t))"

record placement_result =
  pr_evaluation :: candidate_evaluation
  pr_reason :: string

type_synonym placement_pair = "target_candidate \<times> candidate_evaluation"

abbreviation pair_latency :: "placement_pair \<Rightarrow> real" where
  "pair_latency x \<equiv> ce_predicted_latency_seconds (snd x)"

definition first_turn_rank :: "placement_pair \<Rightarrow> real \<times> real \<times> int \<times> string \<times> string" where
  "first_turn_rank x = (- tc_load_balance_score (fst x), pair_latency x,
     - ce_local_kv_tokens (snd x), tc_endpoint_id (fst x), tc_replica_id (fst x))"

text \<open>\<open>sorted\<close> is stable, so its first element is the first minimal one.\<close>

definition choose_placement :: "scheduling_view \<Rightarrow> placement_pair list \<Rightarrow> placement_result res" where
  "choose_placement view candidates =
     (case candidates of
        [] \<Rightarrow> Inl (ValueError ''placement requires at least one candidate'')
      | c # cs \<Rightarrow>
         if hv_session_turn view \<le> 0 then
           (let best = min_from first_turn_rank c cs;
                latency_best = min_from pair_latency c cs;
                reason = (if ce_ref (snd best) \<noteq> ce_ref (snd latency_best) then ''LOAD_BALANCE''
                          else ''LATENCY_TIEBREAK'')
            in Inr \<lparr>pr_evaluation = snd best, pr_reason = reason\<rparr>)
         else
           (let here = filter (\<lambda>x. is_local view (fst x)) candidates;
                away = filter (\<lambda>x. \<not> is_local view (fst x)) candidates
            in case (here, away) of
                 (l # ls, r # rs) \<Rightarrow>
                   (let local_best = min_from pair_latency l ls;
                        remote_best = min_from pair_latency r rs;
                        move_penalty = max 0 (hv_migration_penalty view)
                    in if pair_latency local_best \<le> pair_latency remote_best + move_penalty
                       then Inr \<lparr>pr_evaluation = snd local_best, pr_reason = ''KV_AFFINITY''\<rparr>
                       else Inr \<lparr>pr_evaluation = snd remote_best, pr_reason = ''LATENCY_TIEBREAK''\<rparr>)
               | (l # ls, []) \<Rightarrow>
                   Inr \<lparr>pr_evaluation = snd (min_from pair_latency l ls), pr_reason = ''KV_AFFINITY''\<rparr>
               | ([], _) \<Rightarrow>
                   Inr \<lparr>pr_evaluation = snd (min_from pair_latency c cs), pr_reason = ''LATENCY_TIEBREAK''\<rparr>))"

lemma choose_placement_total: "cs \<noteq> [] \<Longrightarrow> \<exists>r. choose_placement view cs = Inr r"
  by (auto simp: choose_placement_def Let_def neq_Nil_conv split: list.splits)

text \<open>What the choice optimises: the load balance first on a first turn, then the latency; on a later
  turn the latency, with the migration penalty in favour of a local candidate.\<close>

definition placement_ok :: "scheduling_view \<Rightarrow> placement_pair list \<Rightarrow> placement_pair \<Rightarrow> bool" where
  "placement_ok view cs x \<longleftrightarrow> x \<in> set cs \<and>
     (if hv_session_turn view \<le> 0
      then \<forall>y \<in> set cs. tc_load_balance_score (fst y) \<le> tc_load_balance_score (fst x) \<and>
             (tc_load_balance_score (fst y) = tc_load_balance_score (fst x) \<longrightarrow>
                pair_latency x \<le> pair_latency y)
      else \<forall>y \<in> set cs. pair_latency x \<le> pair_latency y +
             (if is_local view (fst x) \<and> \<not> is_local view (fst y)
              then max 0 (hv_migration_penalty view) else 0))"

lemma first_minimum:
  assumes "xs = y # ys" "x = min_from f y ys"
  shows "x \<in> set xs" "\<And>z. z \<in> set xs \<Longrightarrow> f x \<le> f z"
  using min_from_in [of f y ys] min_from_le [of _ y ys f] by (simp_all add: assms)

lemma first_turn_rank_le:
  assumes "first_turn_rank x \<le> first_turn_rank y"
  shows "tc_load_balance_score (fst y) \<le> tc_load_balance_score (fst x)"
    and "tc_load_balance_score (fst y) = tc_load_balance_score (fst x) \<Longrightarrow> pair_latency x \<le> pair_latency y"
  using assms by (auto simp: first_turn_rank_def less_eq_prod_def)

lemma choose_placement_spec:
  assumes "choose_placement view cs = Inr r"
  obtains x where "pr_evaluation r = snd x" "placement_ok view cs x"
proof -
  obtain c cs' where cs: "cs = c # cs'" using assms by (cases cs) (simp_all add: choose_placement_def)
  let ?here = "filter (\<lambda>x. is_local view (fst x)) cs" and ?away = "filter (\<lambda>x. \<not> is_local view (fst x)) cs"
  let ?pen = "max 0 (hv_migration_penalty view)"
  consider (first) "hv_session_turn view \<le> 0"
    | (both) l ls a as where "0 < hv_session_turn view" "?here = l # ls" "?away = a # as"
    | (here) l ls where "0 < hv_session_turn view" "?here = l # ls" "?away = []"
    | (away) "0 < hv_session_turn view" "?here = []"
    by (metis list.exhaust not_le)
  then show ?thesis
  proof cases
    case first
    let ?x = "min_from first_turn_rank c cs'"
    have "pr_evaluation r = snd ?x" using assms first by (auto simp: choose_placement_def cs Let_def)
    moreover note first_minimum [where f = first_turn_rank, OF cs refl]
    ultimately show ?thesis
      using first_turn_rank_le by (intro that [of ?x]) (simp_all add: placement_ok_def first)
  next
    case both
    let ?x = "min_from pair_latency l ls" and ?y = "min_from pair_latency a as"
    note x = first_minimum [where f = pair_latency, OF both(2) refl] and y = first_minimum [where f = pair_latency, OF both(3) refl]
    have *: "pr_evaluation r = (if pair_latency ?x \<le> pair_latency ?y + ?pen then snd ?x else snd ?y)"
      using assms both(1) both(2,3) [unfolded cs]
      by (simp add: choose_placement_def cs Let_def del: filter.simps split: if_splits) auto
    show ?thesis
    proof (cases "pair_latency ?x \<le> pair_latency ?y + ?pen")
      case True
      have "pair_latency ?x \<le> pair_latency z + (if is_local view (fst ?x) \<and> \<not> is_local view (fst z) then ?pen else 0)"
        if "z \<in> set cs" for z
        using True x y(2) [of z] x(2) [of z] that by (cases "is_local view (fst z)") auto
      moreover have "?x \<in> set cs" using x(1) by simp
      ultimately have "placement_ok view cs ?x" using both(1) by (simp add: placement_ok_def)
      then show ?thesis using * True that by simp
    next
      case False
      have "pair_latency ?y \<le> pair_latency z" if "z \<in> set cs" for z
        using False x(2) [of z] y(2) [of z] that max.cobounded1 [of 0 "hv_migration_penalty view"]
        by (cases "is_local view (fst z)") auto
      moreover have "?y \<in> set cs" using y(1) by simp
      ultimately have "placement_ok view cs ?y" using both(1) by (simp add: placement_ok_def add_increasing2)
      then show ?thesis using * False that by simp
    qed
  next
    case here
    let ?x = "min_from pair_latency l ls"
    note x = first_minimum [where f = pair_latency, OF here(2) refl]
    have "pr_evaluation r = snd ?x" using assms here(1) here(2,3) [unfolded cs]
      by (simp add: choose_placement_def cs Let_def del: filter.simps) auto
    moreover have "pair_latency ?x \<le> pair_latency z" if "z \<in> set cs" for z
      using x(2) [of z] that here(3) by (simp add: filter_empty_conv)
    moreover have "?x \<in> set cs" using x(1) by simp
    ultimately show ?thesis using here(1) by (intro that [of ?x]) (simp_all add: placement_ok_def add_increasing2)
  next
    case away
    let ?x = "min_from pair_latency c cs'"
    note x = first_minimum [where f = pair_latency, OF cs refl]
    have "pr_evaluation r = snd ?x"
      using assms away(1) away(2) [unfolded cs]
      by (simp add: choose_placement_def cs Let_def del: filter.simps) auto
    then show ?thesis using x away by (intro that [of ?x]) (auto simp: placement_ok_def filter_empty_conv)
  qed
qed

end
