(* ===== verification/SF_Scheduler.thy ===== *)
theory SF_Scheduler
  imports SF_Scheduler_Cost SF_Predictors SF_Placement
begin

text \<open>
  The scheduler itself (\<open>scheduler.py\<close>, \<open>decision.py\<close>): hard filter, safety policy, success
  estimates, success gate, budget, cost gate, latency and placement, hysteresis, and the decision
  with its candidate trace.

  The predictor is an argument, as it is in the code. Evaluations are mutable objects shared
  between the lists of the pipeline: each step returns the objects it has written, and
  \<open>write_back\<close> stores them over the older copies with the same identity.
\<close>

definition sched_bind ::
  "schedule_error + 'a \<Rightarrow> ('a \<Rightarrow> schedule_error + 'b) \<Rightarrow> schedule_error + 'b" where
  "sched_bind m f = (case m of Inl e \<Rightarrow> Inl e | Inr x \<Rightarrow> f x)"

lemma sched_bind_simps [simp]:
  "sched_bind (Inl e) f = Inl e"
  "sched_bind (Inr x) f = f x"
  by (simp_all add: sched_bind_def)

lemma sched_bind_Inr_iff: "sched_bind m f = Inr y \<longleftrightarrow> (\<exists>x. m = Inr x \<and> f x = Inr y)"
  by (cases m) auto

definition raising :: "'a res \<Rightarrow> schedule_error + 'a" where
  "raising m = (case m of Inl e \<Rightarrow> Inl (ScheduleError e) | Inr x \<Rightarrow> Inr x)"

lemma raising_simps [simp]: "raising (Inl e) = Inl (ScheduleError e)" "raising (Inr x) = Inr x"
  by (simp_all add: raising_def)

lemma raising_Inr_iff [simp]: "raising m = Inr x \<longleftrightarrow> m = Inr x"
  by (cases m) auto

section \<open>Estimates\<close>

definition fallback_estimate :: "exc \<Rightarrow> success_estimate" where
  "fallback_estimate e = \<lparr>es_predicted_success = 0, es_uncertainty = 1, es_confidence = 0,
     es_lower_confidence_bound = 0, es_predictor_version = ''fallback-unavailable'',
     es_notes = [''predictor_error:'' @ exc_type_name e]\<rparr>"

definition estimate_or_fallback ::
  "predictor \<Rightarrow> scheduling_view \<Rightarrow> target_candidate \<Rightarrow> success_estimate" where
  "estimate_or_fallback predict view t =
     (case predict view t of Inr e \<Rightarrow> e | Inl e \<Rightarrow> fallback_estimate e)"

fun estimate_by_model ::
  "predictor \<Rightarrow> scheduling_view \<Rightarrow> target_candidate list \<Rightarrow> (string, success_estimate) dict
     \<Rightarrow> (string, success_estimate) dict" where
  "estimate_by_model predict view [] estimates = estimates"
| "estimate_by_model predict view (t # ts) estimates =
     estimate_by_model predict view ts
       (if dict_has estimates (tc_model_id t) then estimates
        else dict_set estimates (tc_model_id t) (estimate_or_fallback predict view t))"

definition predictor_requires_safe_mode :: "scheduler_config \<Rightarrow> success_estimate list \<Rightarrow> bool" where
  "predictor_requires_safe_mode config estimates =
     (let threshold = max 0 (cf_predictor_uncertainty_override config) in
      list_ex (\<lambda>e. es_uncertainty e \<ge> threshold \<or>
        list_ex (\<lambda>note. str_startswith note ''predictor_error:''
                  \<or> str_contains note ''out_of_distribution'') (es_notes e)) estimates)"

record policy =
  po_override :: critical_override
  po_targets :: "target_candidate list"
  po_estimates :: "(string, success_estimate) dict"

definition choose_policy ::
  "predictor \<Rightarrow> scheduler_config \<Rightarrow> scheduling_view \<Rightarrow> target_candidate list \<Rightarrow> policy res" where
  "choose_policy predict config view eligible =
     (let override = critical_override view config in
      res_bind (if co_active override then capable_only eligible else Inr eligible) (\<lambda>policy_targets.
        let estimates = estimate_by_model predict view policy_targets [] in
        if \<not> co_active override \<and> predictor_requires_safe_mode config (map snd estimates) then
          res_bind (capable_only eligible) (\<lambda>capable.
            Inr \<lparr>po_override = \<lparr>co_active = True, co_reasons = [''predictor_uncertainty_or_ood'']\<rparr>,
                 po_targets = capable, po_estimates = estimate_by_model predict view capable []\<rparr>)
        else Inr \<lparr>po_override = override, po_targets = policy_targets, po_estimates = estimates\<rparr>))"

section \<open>Evaluated targets\<close>

record evaluated_target =
  et_target :: target_candidate
  et_evaluation :: candidate_evaluation
  et_estimate :: success_estimate

definition evaluate_target ::
  "scheduler_config \<Rightarrow> (string, success_estimate) dict \<Rightarrow> nat \<times> target_candidate
     \<Rightarrow> evaluated_target res" where
  "evaluate_target config estimates = (\<lambda>(ref, t).
     (case dict_get estimates (tc_model_id t) of
        None \<Rightarrow> Inl (KeyError (tc_model_id t))
      | Some e \<Rightarrow>
         (let estimate = with_lcb (cf_beta config) e in
          Inr \<lparr>et_target = t,
               et_evaluation = (CandidateEvaluation ref t)\<lparr>ce_eligible := True,
                 ce_predicted_success := es_predicted_success estimate,
                 ce_success_uncertainty := es_uncertainty estimate,
                 ce_success_confidence := es_confidence estimate,
                 ce_success_lcb := es_lower_confidence_bound estimate,
                 ce_predictor_version := es_predictor_version estimate,
                 ce_predictor_notes := es_notes estimate,
                 ce_load_balance_score := tc_load_balance_score t\<rparr>,
               et_estimate = estimate\<rparr>)))"

definition evaluate_targets ::
  "scheduler_config \<Rightarrow> (string, success_estimate) dict \<Rightarrow> target_candidate list
     \<Rightarrow> evaluated_target list res" where
  "evaluate_targets config estimates ts = res_map (evaluate_target config estimates) (enumerate 0 ts)"

text \<open>The copies of one object: the newest one wins.\<close>

definition newest :: "candidate_evaluation list \<Rightarrow> candidate_evaluation \<Rightarrow> candidate_evaluation" where
  "newest written e = (case find (\<lambda>w. ce_ref w = ce_ref e) written of Some w \<Rightarrow> w | None \<Rightarrow> e)"

definition write_back ::
  "candidate_evaluation list \<Rightarrow> evaluated_target list \<Rightarrow> evaluated_target list" where
  "write_back written items = map (\<lambda>i. i\<lparr>et_evaluation := newest written (et_evaluation i)\<rparr>) items"

definition mark_success_gate :: "string set \<Rightarrow> evaluated_target \<Rightarrow> evaluated_target" where
  "mark_success_gate models i = i\<lparr>et_evaluation :=
     (et_evaluation i)\<lparr>ce_success_gate := tc_model_id (et_target i) \<in> models\<rparr>\<rparr>"

definition price :: "scheduling_view \<Rightarrow> scheduler_config \<Rightarrow> evaluated_target \<Rightarrow> evaluated_target" where
  "price view config i =
     (let b = effective_cost view (et_target i) (et_estimate i) config in
      i\<lparr>et_evaluation := (et_evaluation i)\<lparr>
          ce_inference_cost := cb_inference_cost b, ce_kv_fetch_cost := cb_kv_fetch_cost b,
          ce_kv_recompute_cost := cb_kv_recompute_cost b,
          ce_expected_retry_cost := cb_expected_retry_cost b,
          ce_routing_overhead_cost := cb_routing_overhead_cost b,
          ce_future_kv_value := cb_future_kv_value b, ce_effective_cost := cb_effective_cost b,
          ce_local_kv_tokens := cb_local_kv_tokens b, ce_remote_kv_tokens := cb_remote_kv_tokens b,
          ce_miss_tokens := cb_miss_tokens b\<rparr>\<rparr>)"

definition within_budget ::
  "scheduling_view \<Rightarrow> evaluated_target list \<Rightarrow> schedule_error + evaluated_target list" where
  "within_budget view items =
     (case hv_cost_budget view of
        None \<Rightarrow> Inr items
      | Some budget \<Rightarrow>
         (let ok = filter (\<lambda>i. ce_effective_cost (et_evaluation i) \<le> budget + 1 / 10 ^ 12) items
          in if ok = []
             then Inl (NoFeasibleTarget ''all success-eligible targets exceeded the hard cost budget''
                    (map (\<lambda>i. reject (et_target i) [''effective_cost_budget_exceeded'']) items))
             else Inr ok))"

definition mark_cost_gate :: "target_key set \<Rightarrow> evaluated_target \<Rightarrow> evaluated_target" where
  "mark_cost_gate keys i = i\<lparr>et_evaluation :=
     (et_evaluation i)\<lparr>ce_cost_gate := target_key (et_target i) \<in> keys\<rparr>\<rparr>"

definition item_by_key :: "evaluated_target list \<Rightarrow> (target_key, evaluated_target) dict" where
  "item_by_key items = foldl (\<lambda>d i. dict_set d (target_key (et_target i)) i) [] items"

definition with_latency :: "latency_breakdown \<Rightarrow> candidate_evaluation \<Rightarrow> candidate_evaluation" where
  "with_latency l e = e\<lparr>ce_queue_latency_seconds := lb_queue_latency_seconds l,
     ce_kv_latency_seconds := lb_kv_latency_seconds l,
     ce_prefill_latency_seconds := lb_prefill_latency_seconds l,
     ce_decode_latency_seconds := lb_decode_latency_seconds l,
     ce_predicted_latency_seconds := lb_predicted_latency_seconds l,
     ce_critical_path_latency_seconds := lb_critical_path_latency_seconds l\<rparr>"

definition time_candidate ::
  "scheduling_view \<Rightarrow> (target_key, evaluated_target) dict \<Rightarrow> candidate_evaluation
     \<Rightarrow> placement_pair res" where
  "time_candidate view by_key e =
     (case dict_get by_key (evaluation_key e) of
        None \<Rightarrow> Inl (KeyError (ce_model_id e))
      | Some i \<Rightarrow> Inr (et_target i, with_latency (predicted_latency view (et_target i)) e))"

section \<open>Reason and hysteresis\<close>

definition routing_reason ::
  "evaluated_target list \<Rightarrow> candidate_evaluation list \<Rightarrow> string \<Rightarrow> bool \<Rightarrow> bool \<Rightarrow> decision_reason" where
  "routing_reason success_items cost_items placement_reason override_active fallback =
     (if override_active then CRITICAL_OVERRIDE
      else if fallback then FALLBACK
      else if card (set (map (\<lambda>i. tc_model_id (et_target i)) success_items)) = 1 then SUCCESS_DOMINANT
      else if placement_reason = ''KV_AFFINITY'' then KV_AFFINITY
      else if placement_reason = ''LOAD_BALANCE'' then LOAD_BALANCE
      else if length cost_items < length success_items then COST_DOMINANT
      else LATENCY_TIEBREAK)"

definition should_hold_tier ::
  "scheduler_config \<Rightarrow> scheduling_view \<Rightarrow> candidate_evaluation \<Rightarrow> placement_pair list \<Rightarrow> bool" where
  "should_hold_tier config view selected cost_pairs =
     (if hv_current_tier view = [] \<or> hv_current_model view = [] then False
      else tier_rank (hv_current_tier view) > tier_rank (ce_tier selected)
         \<and> hv_stable_steps view < cf_deescalation_stable_steps config
         \<and> list_ex (\<lambda>x. tc_model_id (fst x) = hv_current_model view) cost_pairs)"

definition hold_tier ::
  "scheduler_config \<Rightarrow> scheduling_view \<Rightarrow> bool \<Rightarrow> placement_pair list
     \<Rightarrow> candidate_evaluation \<times> decision_reason \<Rightarrow> (candidate_evaluation \<times> decision_reason) res" where
  "hold_tier config view override_active cost_pairs = (\<lambda>(selected, reason).
     (if \<not> override_active \<and> should_hold_tier config view selected cost_pairs then
        (let hold_pairs = filter (\<lambda>x. tc_model_id (fst x) = hv_current_model view) cost_pairs in
         if hold_pairs \<noteq> [] then
           res_bind (choose_placement view hold_pairs) (\<lambda>held. Inr (pr_evaluation held, HYSTERESIS_HOLD))
         else Inr (selected, reason))
      else Inr (selected, reason)))"

section \<open>The trace and the decision\<close>

definition trace_entry ::
  "(target_key, candidate_evaluation) dict \<Rightarrow> (target_key, filter_rejection) dict
     \<Rightarrow> nat \<times> target_candidate \<Rightarrow> candidate_evaluation" where
  "trace_entry evaluated_by_key rejection_by_key = (\<lambda>(ref, t).
     (case dict_get evaluated_by_key (target_key t) of
        Some e \<Rightarrow> e
      | None \<Rightarrow>
         (case dict_get rejection_by_key (target_key t) of
            Some r \<Rightarrow> (CandidateEvaluation ref t)\<lparr>ce_rejection_reasons := fj_reasons r\<rparr>
          | None \<Rightarrow> (CandidateEvaluation ref t)\<lparr>ce_rejection_reasons :=
                      [''critical_override_capable_only'']\<rparr>)))"

definition candidate_trace ::
  "evaluated_target list \<Rightarrow> filter_rejection list \<Rightarrow> target_candidate list
     \<Rightarrow> candidate_evaluation list" where
  "candidate_trace evaluated rejected targets =
     (let rejection_by_key = foldl (\<lambda>d r. dict_set d (rejection_key r) r) [] rejected;
          evaluated_by_key =
            foldl (\<lambda>d i. dict_set d (target_key (et_target i)) (et_evaluation i)) [] evaluated
      in map (trace_entry evaluated_by_key rejection_by_key) (enumerate (length evaluated) targets))"

definition build_routing_decision ::
  "scheduling_view \<Rightarrow> candidate_evaluation \<Rightarrow> candidate_evaluation list \<Rightarrow> decision_reason
     \<Rightarrow> scheduler_config \<Rightarrow> string list \<Rightarrow> bool \<Rightarrow> string \<Rightarrow> int \<Rightarrow> routing_decision" where
  "build_routing_decision view selected evaluations reason config override_reasons fallback
       decision_id timestamp =
     \<lparr>rd_selected_model = ce_model_id selected, rd_selected_endpoint = ce_endpoint_id selected,
      rd_selected_replica = ce_replica_id selected,
      rd_predicted_success = ce_predicted_success selected,
      rd_predicted_cost = ce_effective_cost selected,
      rd_predicted_latency_seconds = ce_predicted_latency_seconds selected,
      rd_decision_reason = reason,
      rd_candidates = map (\<lambda>e. if ce_ref e = ce_ref selected then e\<lparr>ce_selected := True\<rparr> else e) evaluations,
      rd_scheduler_version = cf_scheduler_version config, rd_state_id = hv_state_id view,
      rd_state_version = hv_state_version view, rd_decision_id = decision_id,
      rd_timestamp = timestamp, rd_override_reasons = override_reasons, rd_fallback = fallback\<rparr>"

text \<open>A decision sink that raises is ignored.\<close>

definition deliver ::
  "(scheduling_view \<Rightarrow> routing_decision \<Rightarrow> unit res) option \<Rightarrow> scheduling_view \<Rightarrow> routing_decision
     \<Rightarrow> routing_decision" where
  "deliver sink view d =
     (case sink of None \<Rightarrow> d | Some f \<Rightarrow> (case f view d of Inl _ \<Rightarrow> d | Inr _ \<Rightarrow> d))"

section \<open>The pipeline\<close>

text \<open>From the policy to the candidates that reach placement.\<close>

record selection =
  sl_evaluated :: "evaluated_target list"
  sl_success_items :: "evaluated_target list"
  sl_cost_pairs :: "placement_pair list"
  sl_fallback :: bool

definition select_candidates ::
  "scheduler_config \<Rightarrow> scheduling_view \<Rightarrow> policy \<Rightarrow> schedule_error + selection" where
  "select_candidates config view po =
     sched_bind (raising (evaluate_targets config (po_estimates po) (po_targets po))) (\<lambda>evaluated0.
     let gate = success_gate (map et_evaluation evaluated0) (cf_s_min config) (cf_epsilon_success config);
         evaluated1 = map (mark_success_gate (sg_model_ids gate)) evaluated0;
         success0 = filter (\<lambda>i. tc_model_id (et_target i) \<in> sg_model_ids gate) evaluated1
     in if success0 = [] then Inl (NoFeasibleTarget ''success predictor produced no usable candidate'' [])
        else
          let priced = map (price view config) success0;
              evaluated2 = write_back (map et_evaluation priced) evaluated1
          in sched_bind (within_budget view priced) (\<lambda>affordable.
             let cost_items0 = cost_gate (map et_evaluation affordable) (cf_epsilon_cost config);
                 success_items = map (mark_cost_gate (evaluation_key ` set cost_items0)) affordable;
                 cost_items = map (newest (map et_evaluation success_items)) cost_items0
             in sched_bind (raising (res_map (time_candidate view (item_by_key success_items)) cost_items))
                  (\<lambda>cost_pairs.
                     Inr \<lparr>sl_evaluated = write_back (map snd cost_pairs)
                            (write_back (map et_evaluation success_items) evaluated2),
                          sl_success_items = success_items, sl_cost_pairs = cost_pairs,
                          sl_fallback = sg_fallback gate\<rparr>)))"

definition schedule ::
  "predictor \<Rightarrow> scheduler_config \<Rightarrow> (scheduling_view \<Rightarrow> routing_decision \<Rightarrow> unit res) option
     \<Rightarrow> string \<Rightarrow> int \<Rightarrow> scheduling_view \<Rightarrow> target_candidate list option
     \<Rightarrow> schedule_error + routing_decision" where
  "schedule predict config sink decision_id now view targets =
     (let target_list = (case targets of Some ts \<Rightarrow> ts | None \<Rightarrow> hv_candidates view) in
      if target_list = [] then Inl (NoFeasibleTarget ''no scheduling targets were registered'' [])
      else
        let filtered = hard_filter view target_list in
        if fr_eligible filtered = [] then
          Inl (NoFeasibleTarget ''all scheduling targets failed hard capability/security filters''
                 (fr_rejected filtered))
        else
          sched_bind (raising (choose_policy predict config view (fr_eligible filtered))) (\<lambda>po.
          sched_bind (select_candidates config view po) (\<lambda>sl.
          sched_bind (raising (choose_placement view (sl_cost_pairs sl))) (\<lambda>placement.
          let active = co_active (po_override po);
              reason = routing_reason (sl_success_items sl) (map snd (sl_cost_pairs sl))
                         (pr_reason placement) active (sl_fallback sl)
          in sched_bind (raising (hold_tier config view active (sl_cost_pairs sl)
                                    (pr_evaluation placement, reason))) (\<lambda>(selected, reason').
             Inr (deliver sink view
               (build_routing_decision view selected
                  (candidate_trace (sl_evaluated sl) (fr_rejected filtered) target_list)
                  reason' config (co_reasons (po_override po)) (sl_fallback sl) decision_id now)))))))"

end
