(* ===== verification/SF_Scheduler_Lemmas.thy ===== *)
theory SF_Scheduler_Lemmas
  imports SF_Scheduler
begin

text \<open>
  What each phase of the pipeline establishes: the estimates cover the policy targets, the
  evaluations carry the key, tier and bound of their target through every update, the candidates
  that reach placement have passed both gates and the budget, and the phases fail only where the
  code raises on purpose.
\<close>

section \<open>Estimates and policy\<close>

lemma estimate_by_model_spec:
  "dict_get (estimate_by_model predict view ts d) m =
     (case dict_get d m of Some e \<Rightarrow> Some e
      | None \<Rightarrow> map_option (estimate_or_fallback predict view) (find (\<lambda>t. tc_model_id t = m) ts))"
  by (induction ts arbitrary: d) (auto simp: dict_has_def split: option.splits)

lemma estimate_by_model_covers:
  assumes "t \<in> set ts"
  obtains t' where "t' \<in> set ts" "tc_model_id t' = tc_model_id t"
    "dict_get (estimate_by_model predict view ts []) (tc_model_id t) = Some (estimate_or_fallback predict view t')"
proof -
  have "find (\<lambda>x. tc_model_id x = tc_model_id t) ts \<noteq> None" using assms by (auto simp: find_None_iff)
  then obtain t' where t': "find (\<lambda>x. tc_model_id x = tc_model_id t) ts = Some t'" by auto
  then have "t' \<in> set ts" "tc_model_id t' = tc_model_id t" by (auto simp: find_Some_iff)
  with t' show ?thesis by (intro that) (simp_all add: estimate_by_model_spec)
qed

lemma choose_policy_cases:
  assumes "choose_policy predict config view eligible = Inr po"
  shows "po_estimates po = estimate_by_model predict view (po_targets po) []"
    and "(po_targets po = eligible \<and> \<not> co_active (po_override po)) \<or>
         (capable_only eligible = Inr (po_targets po) \<and> co_active (po_override po))"
    and "co_active (critical_override view config) \<Longrightarrow> po_override po = critical_override view config"
  using assms by (auto simp: choose_policy_def Let_def res_bind_Inr_iff split: if_splits)

lemma choose_policy_total:
  assumes "\<And>t. t \<in> set eligible \<Longrightarrow> \<exists>c. is_capable t = Inr c"
  shows "\<exists>po. choose_policy predict config view eligible = Inr po"
proof -
  obtain cs where "capable_targets eligible = Inr cs"
    using capable_targets_total [OF assms] by blast
  then have "\<exists>ds. capable_only eligible = Inr ds" by (simp add: capable_only_def)
  then show ?thesis by (auto simp: choose_policy_def Let_def)
qed

lemma choose_policy_targets:
  assumes "choose_policy predict config view eligible = Inr po" "eligible \<noteq> []"
  shows "set (po_targets po) \<subseteq> set eligible" "po_targets po \<noteq> []"
proof -
  consider "po_targets po = eligible" | "capable_only eligible = Inr (po_targets po)"
    using choose_policy_cases(2) [OF assms(1)] by blast
  then have "set (po_targets po) \<subseteq> set eligible \<and> po_targets po \<noteq> []"
    by cases (use assms(2) capable_only_nonempty capable_only_subset in \<open>simp, blast\<close>)
  then show "set (po_targets po) \<subseteq> set eligible" "po_targets po \<noteq> []" by blast+
qed

section \<open>Evaluations\<close>

abbreviation item_ref :: "evaluated_target \<Rightarrow> nat" where
  "item_ref i \<equiv> ce_ref (et_evaluation i)"

definition model_estimate ::
  "scheduler_config \<Rightarrow> (string, success_estimate) dict \<Rightarrow> string \<Rightarrow> success_estimate" where
  "model_estimate config ests m = with_lcb (cf_beta config) (the (dict_get ests m))"

text \<open>What an evaluation keeps of the target it evaluates, whatever has been written since.\<close>

definition staged ::
  "scheduling_view \<Rightarrow> scheduler_config \<Rightarrow> string set \<Rightarrow> evaluated_target \<Rightarrow> candidate_evaluation \<Rightarrow> bool" where
  "staged view config ids i e \<longleftrightarrow>
     ce_ref e = item_ref i \<and> evaluation_key e = target_key (et_target i) \<and>
     ce_tier e = tc_tier (et_target i) \<and> ce_eligible e \<and> \<not> ce_selected e \<and>
     ce_success_lcb e = es_lower_confidence_bound (et_estimate i) \<and>
     ce_predicted_success e = es_predicted_success (et_estimate i) \<and>
     (ce_success_gate e \<longleftrightarrow> tc_model_id (et_target i) \<in> ids) \<and>
     (tc_model_id (et_target i) \<in> ids \<longrightarrow>
        ce_effective_cost e = cb_effective_cost (effective_cost view (et_target i) (et_estimate i) config))"

definition fresh_item ::
  "scheduler_config \<Rightarrow> (string, success_estimate) dict \<Rightarrow> evaluated_target \<Rightarrow> bool" where
  "fresh_item config ests i \<longleftrightarrow>
     et_estimate i = model_estimate config ests (tc_model_id (et_target i)) \<and>
     evaluation_key (et_evaluation i) = target_key (et_target i) \<and>
     ce_tier (et_evaluation i) = tc_tier (et_target i) \<and> ce_eligible (et_evaluation i) \<and>
     \<not> ce_selected (et_evaluation i) \<and> \<not> ce_cost_gate (et_evaluation i) \<and>
     ce_success_lcb (et_evaluation i) = es_lower_confidence_bound (et_estimate i) \<and>
     ce_predicted_success (et_evaluation i) = es_predicted_success (et_estimate i)"

lemma evaluate_targets_Inr:
  assumes "evaluate_targets config ests ts = Inr items"
  shows "map et_target items = ts" "map item_ref items = [0..<length ts]"
    "\<And>i. i \<in> set items \<Longrightarrow> fresh_item config ests i"
proof -
  have one: "snd x = et_target i \<and> fst x = item_ref i \<and> fresh_item config ests i"
    if "evaluate_target config ests x = Inr i" for x i
    using that by (auto simp: evaluate_target_def fresh_item_def model_estimate_def Let_def
        CandidateEvaluation_def evaluation_key_def target_key_def split: prod.splits option.splits)
  have "list_all2 (\<lambda>x i. evaluate_target config ests x = Inr i) (enumerate 0 ts) items"
    using assms unfolding evaluate_targets_def by (rule res_map_Inr_list_all2)
  then have all: "list_all2 (\<lambda>x i. snd x = et_target i \<and> fst x = item_ref i \<and> fresh_item config ests i)
      (enumerate 0 ts) items"
    by (rule list.rel_mono_strong) (blast dest: one)
  from all have "map et_target items = map snd (enumerate 0 ts)" "map item_ref items = map fst (enumerate 0 ts)"
    by (induction rule: list_all2_induct) auto
  then show "map et_target items = ts" "map item_ref items = [0..<length ts]" by simp_all
  show "fresh_item config ests i" if "i \<in> set items" for i
    using all that by (auto simp: list_all2_conv_all_nth in_set_conv_nth)
qed

lemma evaluate_targets_total:
  assumes "\<And>t. t \<in> set ts \<Longrightarrow> dict_get ests (tc_model_id t) \<noteq> None"
  shows "\<exists>items. evaluate_targets config ests ts = Inr items"
proof -
  have "\<exists>i. evaluate_target config ests x = Inr i" if "x \<in> set (enumerate 0 ts)" for x
    using assms [of "snd x"] that
    by (cases x) (auto simp: evaluate_target_def Let_def in_set_enumerate_eq nth_mem)
  then show ?thesis unfolding evaluate_targets_def by (rule res_map_returns)
qed

lemma staged_newest:
  assumes "inj_on item_ref (set items)" "i \<in> set items" "staged view config ids i e"
    and "\<And>w. w \<in> set written \<Longrightarrow> \<exists>j \<in> set items. staged view config ids j w"
  shows "staged view config ids i (newest written e)"
proof (cases "find (\<lambda>w. ce_ref w = ce_ref e) written")
  case (Some w)
  then have "w \<in> set written" "ce_ref w = ce_ref e" by (auto simp: find_Some_iff)
  then obtain j where j: "j \<in> set items" "staged view config ids j w" using assms(4) by blast
  then have "item_ref j = item_ref i" using \<open>ce_ref w = ce_ref e\<close> assms(3) by (simp add: staged_def)
  then have "j = i" using assms(1,2) j(1) by (auto dest: inj_onD)
  then show ?thesis using j(2) Some by (simp add: newest_def)
qed (use assms(3) in \<open>simp add: newest_def\<close>)

section \<open>From the estimates to placement\<close>

text \<open>
  What is known of the selection: which items were evaluated, that the trace's evaluations are
  those of the items, and that every pair offered to placement is an item of a gated model,
  within the budget and within the cost tolerance of every other such item.
\<close>

definition affordable :: "scheduling_view \<Rightarrow> scheduler_config \<Rightarrow> evaluated_target \<Rightarrow> bool" where
  "affordable view config i \<longleftrightarrow> (\<forall>b. hv_cost_budget view = Some b \<longrightarrow>
     cb_effective_cost (effective_cost view (et_target i) (et_estimate i) config) \<le> b + 1 / 10 ^ 12)"

definition item_cost :: "scheduling_view \<Rightarrow> scheduler_config \<Rightarrow> evaluated_target \<Rightarrow> real" where
  "item_cost view config i = cb_effective_cost (effective_cost view (et_target i) (et_estimate i) config)"

lemma item_cost_nonneg [simp]: "0 \<le> item_cost view config i"
  by (simp add: item_cost_def)

lemma within_budget_Inr:
  assumes "within_budget view items = Inr ok" "items \<noteq> []"
  shows "ok \<noteq> []" "set ok \<subseteq> set items"
    "\<And>i b. i \<in> set ok \<Longrightarrow> hv_cost_budget view = Some b \<Longrightarrow>
        ce_effective_cost (et_evaluation i) \<le> b + 1 / 10 ^ 12"
    "\<And>i b. i \<in> set items \<Longrightarrow> hv_cost_budget view = Some b \<Longrightarrow>
        ce_effective_cost (et_evaluation i) \<le> b + 1 / 10 ^ 12 \<Longrightarrow> i \<in> set ok"
    "hv_cost_budget view = None \<Longrightarrow> ok = items"
  using assms by (auto simp: within_budget_def Let_def split: option.splits if_splits)

lemma newest_in: "newest written e \<in> insert e (set written)"
  by (auto simp: newest_def find_Some_iff split: option.splits)

lemma item_by_key_get:
  assumes "dict_get (item_by_key items) k = Some i"
  shows "i \<in> set items" "target_key (et_target i) = k"
proof -
  let ?f = "\<lambda>i. target_key (et_target i)"
  have "k \<in> ?f ` set items"
    using assms pydict.get_foldl_put_notin [of k ?f items "\<lambda>i. i" "[]"] by (auto simp: item_by_key_def)
  from pydict.get_foldl_put_in [OF this, of "\<lambda>i. i" "[]"]
  show "i \<in> set items" "target_key (et_target i) = k"
    using assms by (auto simp: item_by_key_def)
qed

lemma item_by_key_covers:
  assumes "i \<in> set items"
  shows "dict_get (item_by_key items) (target_key (et_target i)) \<noteq> None"
  using pydict.get_foldl_put_in [of "target_key (et_target i)" "\<lambda>i. target_key (et_target i)" items
      "\<lambda>i. i" "[]"] assms
  by (auto simp: item_by_key_def)

text \<open>The pair offered to placement for an item: its own evaluation, timed on a target of its key.\<close>

definition offered ::
  "scheduling_view \<Rightarrow> scheduler_config \<Rightarrow> string set \<Rightarrow> evaluated_target list \<Rightarrow> placement_pair \<Rightarrow> bool" where
  "offered view config ids items x \<longleftrightarrow>
     (\<exists>i \<in> set items. staged view config ids i (snd x) \<and> tc_model_id (et_target i) \<in> ids \<and>
        affordable view config i \<and> target_key (fst x) = target_key (et_target i) \<and>
        fst x \<in> et_target ` set items \<and>
        pair_latency x = lb_predicted_latency_seconds (predicted_latency view (fst x)) \<and>
        (\<forall>j \<in> set items. tc_model_id (et_target j) \<in> ids \<longrightarrow>
           item_cost view config i \<le> item_cost view config j * (1 + max 0 (cf_epsilon_cost config)) + 1 / 10 ^ 12))"

lemma fresh_item_staged:
  assumes "fresh_item config ests i"
  shows "tc_model_id (et_target i) \<notin> ids \<Longrightarrow> staged view config ids i (et_evaluation (mark_success_gate ids i))"
    and "staged view config ids i (et_evaluation (price view config (mark_success_gate ids i)))"
  using assms
  by (auto simp: fresh_item_def staged_def mark_success_gate_def price_def Let_def evaluation_key_def target_key_def)

lemma staged_more:
  assumes "staged view config ids i e"
  shows "staged view config ids i (e\<lparr>ce_cost_gate := b\<rparr>)" "staged view config ids i (with_latency l e)"
  using assms by (auto simp: staged_def with_latency_def evaluation_key_def)

lemma et_target_stages [simp]:
  "et_target (mark_success_gate ids i) = et_target i"
  "et_target (price view config i) = et_target i"
  "et_target (mark_cost_gate keys i) = et_target i"
  by (simp_all add: mark_success_gate_def price_def mark_cost_gate_def Let_def)

lemma item_ref_stages [simp]:
  "item_ref (mark_success_gate ids i) = item_ref i"
  "item_ref (price view config i) = item_ref i"
  "item_ref (mark_cost_gate keys i) = item_ref i"
  by (simp_all add: mark_success_gate_def price_def mark_cost_gate_def Let_def)

lemma newest_found:
  assumes "w \<in> set written" "ce_ref w = ce_ref e"
  shows "newest written e \<in> set written" "ce_ref (newest written e) = ce_ref e"
proof -
  have "find (\<lambda>w. ce_ref w = ce_ref e) written \<noteq> None" using assms by (auto simp: find_None_iff)
  then obtain v where v: "find (\<lambda>w. ce_ref w = ce_ref e) written = Some v" by blast
  then have "v \<in> set written" "ce_ref v = ce_ref e" by (auto simp: find_Some_iff)
  with v show "newest written e \<in> set written" "ce_ref (newest written e) = ce_ref e"
    by (simp_all add: newest_def)
qed

text \<open>The items as they stand after pricing, budget, cost gate and timing.\<close>

definition priced_items ::
  "scheduling_view \<Rightarrow> scheduler_config \<Rightarrow> string set \<Rightarrow> evaluated_target list \<Rightarrow> evaluated_target list" where
  "priced_items view config ids items = map (price view config)
      (filter (\<lambda>i. tc_model_id (et_target i) \<in> ids) (map (mark_success_gate ids) items))"

definition gated ::
  "scheduling_view \<Rightarrow> scheduler_config \<Rightarrow> (string, success_estimate) dict \<Rightarrow> string set
     \<Rightarrow> evaluated_target list \<Rightarrow> evaluated_target list \<Rightarrow> bool" where
  "gated view config ests ids items ok \<longleftrightarrow>
     inj_on item_ref (set items) \<and> (\<forall>i \<in> set items. fresh_item config ests i) \<and>
     priced_items view config ids items \<noteq> [] \<and>
     within_budget view (priced_items view config ids items) = Inr ok"

lemma priced_staged:
  assumes "gated view config ests ids items ok" "p \<in> set (priced_items view config ids items)"
  obtains i where "i \<in> set items" "tc_model_id (et_target i) \<in> ids" "et_target p = et_target i"
    "staged view config ids i (et_evaluation p)"
  using assms fresh_item_staged(2) by (auto simp: priced_items_def gated_def)

lemma affordable_items:
  assumes "gated view config ests ids items ok"
  shows "ok \<noteq> []" "set ok \<subseteq> set (priced_items view config ids items)"
  using assms within_budget_Inr(1,2) [of view "priced_items view config ids items" ok]
  by (simp_all add: gated_def)

lemma affordable_staged:
  assumes "gated view config ests ids items ok" "p \<in> set ok"
  obtains i where "i \<in> set items" "tc_model_id (et_target i) \<in> ids" "et_target p = et_target i"
    "staged view config ids i (et_evaluation p)"
  using affordable_items(2) [OF assms(1)] priced_staged [OF assms(1)] assms(2) by blast

lemma mark_cost_gate_staged:
  assumes "gated view config ests ids items ok" "j \<in> set (map (mark_cost_gate keys) ok)"
  obtains i where "i \<in> set items" "tc_model_id (et_target i) \<in> ids" "et_target j = et_target i"
    "staged view config ids i (et_evaluation j)"
proof -
  obtain p where p: "p \<in> set ok" "j = mark_cost_gate keys p"
    using assms(2) by auto
  from affordable_staged [OF assms(1) p(1)]
  obtain i where "i \<in> set items" "tc_model_id (et_target i) \<in> ids" "et_target p = et_target i"
      "staged view config ids i (et_evaluation p)" .
  with p(2) show ?thesis
    by (intro that [of i]) (auto simp: mark_cost_gate_def intro: staged_more)
qed

lemma marked_written:
  assumes "gated view config ests ids items ok" "w \<in> set (map et_evaluation (map (mark_cost_gate keys) ok))"
  shows "\<exists>j \<in> set items. staged view config ids j w"
proof -
  obtain j where j: "j \<in> set (map (mark_cost_gate keys) ok)" "w = et_evaluation j" using assms(2) by auto
  from mark_cost_gate_staged [OF assms(1) j(1)] show ?thesis using j(2) by metis
qed

text \<open>An evaluation that passes the cost gate is affordable and within the tolerance of every item of
  a gated model, those over the budget included.\<close>

lemma cost_gate_staged:
  assumes g: "gated view config ests ids items ok"
    and e: "e \<in> set (cost_gate (map et_evaluation ok) (cf_epsilon_cost config))"
  obtains i where "i \<in> set items" "tc_model_id (et_target i) \<in> ids" "staged view config ids i e"
    "affordable view config i"
    "\<forall>j \<in> set items. tc_model_id (et_target j) \<in> ids \<longrightarrow>
       item_cost view config i \<le> item_cost view config j * (1 + max 0 (cf_epsilon_cost config)) + 1 / 10 ^ 12"
proof -
  let ?priced = "priced_items view config ids items"
  have budget: "within_budget view ?priced = Inr ok" and some: "?priced \<noteq> []"
    and fresh: "\<And>i. i \<in> set items \<Longrightarrow> fresh_item config ests i"
    using g by (auto simp: gated_def)
  have "e \<in> et_evaluation ` set ok" using e cost_gate_subset by fastforce
  then obtain p where p: "p \<in> set ok" "e = et_evaluation p" by blast
  from affordable_staged [OF g p(1)] p(2)
  obtain i where i: "i \<in> set items" "tc_model_id (et_target i) \<in> ids" "et_target p = et_target i"
      "staged view config ids i e" by metis
  then have cost: "ce_effective_cost e = item_cost view config i"
    by (simp add: staged_def item_cost_def)
  have aff: "affordable view config i"
    using within_budget_Inr(3) [OF budget some p(1)] cost p(2)
    by (simp add: affordable_def item_cost_def)
  have nonneg: "0 \<le> ce_effective_cost x" if x: "x \<in> set (map et_evaluation ok)" for x
  proof -
    obtain q where "q \<in> set ok" "x = et_evaluation q" using x by auto
    then show ?thesis using affordable_staged [OF g, of q] by (metis effective_cost_nonneg staged_def)
  qed
  have "item_cost view config i \<le> item_cost view config j * (1 + max 0 (cf_epsilon_cost config)) + 1 / 10 ^ 12"
    if j: "j \<in> set items" "tc_model_id (et_target j) \<in> ids" for j
  proof -
    let ?q = "price view config (mark_success_gate ids j)"
    have q: "?q \<in> set ?priced" using j by (auto simp: priced_items_def)
    have qc: "ce_effective_cost (et_evaluation ?q) = item_cost view config j"
      using fresh_item_staged(2) [OF fresh [OF j(1)], where ids = ids] j(2) by (simp add: staged_def item_cost_def)
    show ?thesis
    proof (cases "?q \<in> set ok")
      case True
      then have "et_evaluation ?q \<in> set (map et_evaluation ok)" by simp
      from cost_gate_within [OF e this nonneg] show ?thesis by (simp add: cost qc)
    next
      case False
      then obtain b where b: "hv_cost_budget view = Some b"
        using within_budget_Inr(5) [OF budget some] q by (cases "hv_cost_budget view") auto
      then have "b + 1 / 10 ^ 12 < item_cost view config j"
        using within_budget_Inr(4) [OF budget some q b] False qc by fastforce
      moreover have "item_cost view config i \<le> b + 1 / 10 ^ 12"
        using aff b by (simp add: affordable_def item_cost_def)
      moreover have "item_cost view config j * 1 \<le> item_cost view config j * (1 + max 0 (cf_epsilon_cost config))"
        by (intro mult_left_mono) auto
      ultimately have "item_cost view config i \<le> item_cost view config j * (1 + max 0 (cf_epsilon_cost config))"
        by simp
      then show ?thesis by (rule add_increasing2 [rotated]) simp
    qed
  qed
  then show ?thesis using that i aff by blast
qed

section \<open>The selection as a whole\<close>

lemma staged_through:
  assumes "inj_on item_ref (set items)" "i \<in> set items"
    and "\<And>w. w \<in> set written \<Longrightarrow> \<exists>j \<in> set items. staged view config ids j w"
    and "staged view config ids i e \<or> (ce_ref e = item_ref i \<and> (\<exists>w \<in> set written. ce_ref w = item_ref i))"
  shows "staged view config ids i (newest written e)"
proof (cases "staged view config ids i e")
  case True
  then show ?thesis using assms(1-3) by (intro staged_newest)
next
  case False
  then obtain w where w: "w \<in> set written" "ce_ref w = ce_ref e" "ce_ref e = item_ref i"
    using assms(4) by auto
  then obtain j where j: "j \<in> set items" "staged view config ids j (newest written e)"
    using newest_found(1) assms(3) by blast
  then have "item_ref j = item_ref i"
    using newest_found(2) [OF w(1,2)] w(3) by (simp add: staged_def)
  then show ?thesis using j assms(1,2) by (metis inj_onD)
qed

lemma time_candidate_offered:
  assumes g: "gated view config ests ids items ok"
    and succ: "succ = map (mark_cost_gate keys) ok"
    and e: "e0 \<in> set (cost_gate (map et_evaluation ok) (cf_epsilon_cost config))"
    and x: "time_candidate view (item_by_key succ) (newest (map et_evaluation succ) e0) = Inr x"
  shows "offered view config ids items x"
proof -
  obtain i where i: "i \<in> set items" "tc_model_id (et_target i) \<in> ids" "staged view config ids i e0"
    "affordable view config i"
    "\<forall>j \<in> set items. tc_model_id (et_target j) \<in> ids \<longrightarrow>
       item_cost view config i \<le> item_cost view config j * (1 + max 0 (cf_epsilon_cost config)) + 1 / 10 ^ 12"
    using cost_gate_staged [OF g e] by metis
  let ?e = "newest (map et_evaluation succ) e0"
  have st: "staged view config ids i ?e"
  proof (rule staged_newest)
    show "inj_on item_ref (set items)" using g by (simp add: gated_def)
    show "\<exists>j \<in> set items. staged view config ids j w" if w: "w \<in> set (map et_evaluation succ)" for w
      by (rule marked_written [OF g w [unfolded succ]])
  qed (use i in simp_all)
  obtain k where by_key: "dict_get (item_by_key succ) (evaluation_key ?e) = Some k"
      and xk: "x = (et_target k, with_latency (predicted_latency view (et_target k)) ?e)"
    using x by (auto simp: time_candidate_def split: option.splits)
  note k = item_by_key_get [OF by_key] xk
  have "et_target k \<in> et_target ` set items"
    using mark_cost_gate_staged [OF g, of k keys] k(1) succ by (metis imageI)
  then show ?thesis
    unfolding offered_def using i st k staged_more(2) [OF st]
    by (intro bexI [of _ i]) (simp_all add: staged_def, simp add: with_latency_def)
qed

lemma select_candidates_Inr:
  assumes "select_candidates config view po = Inr sl"
  obtains items g where
    "evaluate_targets config (po_estimates po) (po_targets po) = Inr items"
    "g = success_gate (map et_evaluation items) (cf_s_min config) (cf_epsilon_success config)"
    "sl_fallback sl = sg_fallback g"
    "list_all2 (\<lambda>i j. et_target j = et_target i \<and> staged view config (sg_model_ids g) i (et_evaluation j))
       items (sl_evaluated sl)"
    "\<forall>x \<in> set (sl_cost_pairs sl). offered view config (sg_model_ids g) items x"
    "sl_cost_pairs sl \<noteq> []"
proof -
  obtain items where items: "evaluate_targets config (po_estimates po) (po_targets po) = Inr items"
    using assms by (auto simp: select_candidates_def sched_bind_Inr_iff)
  define g where "g = success_gate (map et_evaluation items) (cf_s_min config) (cf_epsilon_success config)"
  let ?ids = "sg_model_ids g"
  let ?priced = "priced_items view config ?ids items"
  have step: "select_candidates config view po =
     (if filter (\<lambda>i. tc_model_id (et_target i) \<in> ?ids) (map (mark_success_gate ?ids) items) = []
      then Inl (NoFeasibleTarget ''success predictor produced no usable candidate'' [])
      else sched_bind (within_budget view ?priced) (\<lambda>ok.
         let cost0 = cost_gate (map et_evaluation ok) (cf_epsilon_cost config);
             succ = map (mark_cost_gate (evaluation_key ` set cost0)) ok
         in sched_bind (raising (res_map (time_candidate view (item_by_key succ))
                (map (newest (map et_evaluation succ)) cost0)))
              (\<lambda>pairs. Inr \<lparr>sl_evaluated = write_back (map snd pairs)
                  (write_back (map et_evaluation succ) (write_back (map et_evaluation ?priced)
                     (map (mark_success_gate ?ids) items))),
                 sl_success_items = succ, sl_cost_pairs = pairs, sl_fallback = sg_fallback g\<rparr>)))"
    unfolding select_candidates_def items raising_simps sched_bind_simps Let_def g_def priced_items_def ..
  then have some: "?priced \<noteq> []" using assms by (auto simp: priced_items_def split: if_splits)
  then have "sched_bind (within_budget view ?priced) (\<lambda>ok.
         let cost0 = cost_gate (map et_evaluation ok) (cf_epsilon_cost config);
             succ = map (mark_cost_gate (evaluation_key ` set cost0)) ok
         in sched_bind (raising (res_map (time_candidate view (item_by_key succ))
                (map (newest (map et_evaluation succ)) cost0)))
              (\<lambda>pairs. Inr \<lparr>sl_evaluated = write_back (map snd pairs)
                  (write_back (map et_evaluation succ) (write_back (map et_evaluation ?priced)
                     (map (mark_success_gate ?ids) items))),
                 sl_success_items = succ, sl_cost_pairs = pairs, sl_fallback = sg_fallback g\<rparr>)) = Inr sl"
    using step assms by (simp add: priced_items_def)
  then obtain ok cost0 succ pairs where ok: "within_budget view ?priced = Inr ok"
    and cost0: "cost0 = cost_gate (map et_evaluation ok) (cf_epsilon_cost config)"
    and succ: "succ = map (mark_cost_gate (evaluation_key ` set cost0)) ok"
    and pairs: "res_map (time_candidate view (item_by_key succ)) (map (newest (map et_evaluation succ)) cost0) = Inr pairs"
    and sl: "sl = \<lparr>sl_evaluated = write_back (map snd pairs)
                  (write_back (map et_evaluation succ) (write_back (map et_evaluation ?priced)
                     (map (mark_success_gate ?ids) items))),
                 sl_success_items = succ, sl_cost_pairs = pairs, sl_fallback = sg_fallback g\<rparr>"
    unfolding sched_bind_Inr_iff Let_def raising_Inr_iff by blast
  have inj: "inj_on item_ref (set items)" and fresh: "\<And>i. i \<in> set items \<Longrightarrow> fresh_item config (po_estimates po) i"
    using evaluate_targets_Inr [OF items] by (metis distinct_map distinct_upt, blast)
  have gt: "gated view config (po_estimates po) ?ids items ok"
    using inj fresh some ok by (simp add: gated_def)
  have offered: "offered view config ?ids items x" if x: "x \<in> set pairs" for x
  proof -
    obtain e0 where "e0 \<in> set cost0" "time_candidate view (item_by_key succ) (newest (map et_evaluation succ) e0) = Inr x"
      using res_map_Inr_in [OF pairs x] by auto
    then show ?thesis using time_candidate_offered [OF gt succ] cost0 by blast
  qed
  have w1: "\<exists>j \<in> set items. staged view config ?ids j w" if w: "w \<in> set (map et_evaluation ?priced)" for w
  proof -
    obtain p where p: "p \<in> set ?priced" "w = et_evaluation p" using w by auto
    from priced_staged [OF gt p(1)] show ?thesis using p(2) by metis
  qed
  have w2: "\<exists>j \<in> set items. staged view config ?ids j w" if w: "w \<in> set (map et_evaluation succ)" for w
    by (rule marked_written [OF gt w [unfolded succ]])
  have w3: "\<exists>j \<in> set items. staged view config ?ids j w" if w: "w \<in> set (map snd pairs)" for w
  proof -
    obtain x where x: "x \<in> set pairs" "w = snd x" using w by auto
    from offered [OF x(1)] show ?thesis unfolding offered_def x(2) by blast
  qed
  have all: "staged view config ?ids i (newest (map snd pairs) (newest (map et_evaluation succ)
      (newest (map et_evaluation ?priced) (et_evaluation (mark_success_gate ?ids i)))))"
    if i: "i \<in> set items" for i
  proof -
    have "staged view config ?ids i (newest (map et_evaluation ?priced) (et_evaluation (mark_success_gate ?ids i)))"
    proof (rule staged_through [OF inj i w1])
      show "staged view config ?ids i (et_evaluation (mark_success_gate ?ids i)) \<or>
          item_ref (mark_success_gate ?ids i) = item_ref i \<and> (\<exists>w \<in> set (map et_evaluation ?priced). ce_ref w = item_ref i)"
      proof (cases "tc_model_id (et_target i) \<in> ?ids")
        case True
        then have "price view config (mark_success_gate ?ids i) \<in> set ?priced"
          using i by (auto simp: priced_items_def)
        moreover have "item_ref (price view config (mark_success_gate ?ids i)) = item_ref i" by simp
        ultimately have "\<exists>w \<in> set (map et_evaluation ?priced). ce_ref w = item_ref i"
          unfolding set_map by (intro bexI [OF _ imageI])
        then show ?thesis by simp
      qed (use fresh_item_staged(1) [OF fresh [OF i]] in simp)
    qed
    then show ?thesis using staged_newest [OF inj i] w2 w3 by meson
  qed
  have "list_all2 (\<lambda>i j. et_target j = et_target i \<and> staged view config ?ids i (et_evaluation j))
       items (sl_evaluated sl)"
    using all by (auto simp: sl write_back_def list_all2_conv_all_nth)
  moreover have "sl_cost_pairs sl \<noteq> []"
  proof -
    have "0 \<le> ce_effective_cost e" if e: "e \<in> set (map et_evaluation ok)" for e
    proof -
      obtain p where p: "p \<in> set ok" "e = et_evaluation p" using e by auto
      from affordable_staged [OF gt p(1)] show ?thesis using p(2) by (metis effective_cost_nonneg staged_def)
    qed
    then have "cost0 \<noteq> []" unfolding cost0
      by (rule cost_gate_nonempty [rotated]) (use affordable_items(1) [OF gt] in simp_all)
    then show ?thesis using res_map_length [OF pairs] by (auto simp: sl)
  qed
  ultimately show ?thesis using that [OF items g_def] offered by (simp add: sl)
qed

section \<open>When the selection fails\<close>

lemma select_candidates_step:
  assumes "evaluate_targets config (po_estimates po) (po_targets po) = Inr items"
    and "g = success_gate (map et_evaluation items) (cf_s_min config) (cf_epsilon_success config)"
  shows "select_candidates config view po =
     (if priced_items view config (sg_model_ids g) items = []
      then Inl (NoFeasibleTarget ''success predictor produced no usable candidate'' [])
      else sched_bind (within_budget view (priced_items view config (sg_model_ids g) items)) (\<lambda>ok.
         let cost0 = cost_gate (map et_evaluation ok) (cf_epsilon_cost config);
             succ = map (mark_cost_gate (evaluation_key ` set cost0)) ok
         in sched_bind (raising (res_map (time_candidate view (item_by_key succ))
                (map (newest (map et_evaluation succ)) cost0)))
              (\<lambda>pairs. Inr \<lparr>sl_evaluated = write_back (map snd pairs)
                  (write_back (map et_evaluation succ)
                    (write_back (map et_evaluation (priced_items view config (sg_model_ids g) items))
                     (map (mark_success_gate (sg_model_ids g)) items))),
                 sl_success_items = succ, sl_cost_pairs = pairs, sl_fallback = sg_fallback g\<rparr>)))"
proof -
  have "priced_items view config (sg_model_ids g) items = [] \<longleftrightarrow>
      filter (\<lambda>i. tc_model_id (et_target i) \<in> sg_model_ids g) (map (mark_success_gate (sg_model_ids g)) items) = []"
    by (simp add: priced_items_def)
  then show ?thesis
    unfolding select_candidates_def assms(1) raising_simps sched_bind_simps Let_def assms(2) [symmetric]
      priced_items_def by simp
qed

lemma gate_passes_some:
  assumes "items \<noteq> []" "\<And>i. i \<in> set items \<Longrightarrow> fresh_item config ests i"
    and "g = success_gate (map et_evaluation items) s_min eps"
  shows "priced_items view config (sg_model_ids g) items \<noteq> []"
proof -
  have "sg_model_ids g \<subseteq> ce_model_id ` set (map et_evaluation items)" "sg_model_ids g \<noteq> {}"
    using success_gate_spec(2,3,4) [of "map et_evaluation items" s_min eps] assms(1,3) by auto
  then obtain i where "i \<in> set items" "ce_model_id (et_evaluation i) \<in> sg_model_ids g" by auto
  moreover from this(1) have "ce_model_id (et_evaluation i) = tc_model_id (et_target i)"
    using assms(2) by (auto simp: fresh_item_def evaluation_key_def target_key_def)
  ultimately show ?thesis by (auto simp: priced_items_def filter_empty_conv)
qed

lemma time_candidates_total:
  assumes g: "gated view config ests ids items ok" and succ: "succ = map (mark_cost_gate keys) ok"
  shows "\<exists>pairs. res_map (time_candidate view (item_by_key succ))
     (map (newest (map et_evaluation succ)) (cost_gate (map et_evaluation ok) (cf_epsilon_cost config))) = Inr pairs"
proof -
  have "\<exists>x. time_candidate view (item_by_key succ) c = Inr x"
    if "c \<in> set (map (newest (map et_evaluation succ)) (cost_gate (map et_evaluation ok) (cf_epsilon_cost config)))" for c
  proof -
    from that obtain e0 where e0: "e0 \<in> set (cost_gate (map et_evaluation ok) (cf_epsilon_cost config))"
        "c = newest (map et_evaluation succ) e0" by auto
    obtain p where p: "p \<in> set ok" "e0 = et_evaluation p"
      using e0(1) cost_gate_subset by fastforce
    obtain i where i: "i \<in> set items" "et_target p = et_target i" "staged view config ids i e0"
      using affordable_staged [OF g p(1)] p(2) by metis
    have "staged view config ids i c" unfolding e0(2)
    proof (rule staged_newest)
      show "inj_on item_ref (set items)" using g by (simp add: gated_def)
      show "\<exists>j \<in> set items. staged view config ids j w" if w: "w \<in> set (map et_evaluation succ)" for w
        by (rule marked_written [OF g w [unfolded succ]])
    qed (use i in simp_all)
    then have "evaluation_key c = target_key (et_target (mark_cost_gate keys p))"
      using i(2) by (simp add: staged_def)
    moreover have "mark_cost_gate keys p \<in> set succ" using p(1) by (simp add: succ)
    ultimately show ?thesis using item_by_key_covers [of "mark_cost_gate keys p" succ]
      by (auto simp: time_candidate_def split: option.splits)
  qed
  then show ?thesis by (rule res_map_returns)
qed

text \<open>
  The refusal for the budget: some target passed the success gate, the effective cost of every
  one that did is above the budget (beyond the tolerance), and each is reported with that reason.
\<close>

definition success_eligible :: "scheduler_config \<Rightarrow> evaluated_target list \<Rightarrow> evaluated_target list" where
  "success_eligible config items = filter (\<lambda>i. tc_model_id (et_target i) \<in> sg_model_ids
     (success_gate (map et_evaluation items) (cf_s_min config) (cf_epsilon_success config))) items"

definition over_budget ::
  "scheduler_config \<Rightarrow> scheduling_view \<Rightarrow> policy \<Rightarrow> filter_rejection list \<Rightarrow> bool" where
  "over_budget config view po rejections \<longleftrightarrow>
     (\<exists>budget items. hv_cost_budget view = Some budget \<and>
        evaluate_targets config (po_estimates po) (po_targets po) = Inr items \<and>
        success_eligible config items \<noteq> [] \<and>
        (\<forall>i \<in> set (success_eligible config items).
           budget + 1 / 10 ^ 12 < cb_effective_cost (effective_cost view (et_target i) (et_estimate i) config)) \<and>
        rejections = map (\<lambda>i. reject (et_target i) [''effective_cost_budget_exceeded''])
          (success_eligible config items))"

lemma priced_items_eligible:
  assumes "ids = sg_model_ids (success_gate (map et_evaluation items) (cf_s_min config) (cf_epsilon_success config))"
  shows "priced_items view config ids items
    = map (\<lambda>i. price view config (mark_success_gate ids i)) (success_eligible config items)"
  by (simp add: priced_items_def success_eligible_def assms filter_map mark_success_gate_def o_def)

lemma price_marked:
  "et_target (price view config (mark_success_gate ids i)) = et_target i"
  "ce_effective_cost (et_evaluation (price view config (mark_success_gate ids i)))
     = cb_effective_cost (effective_cost view (et_target i) (et_estimate i) config)"
  by (simp_all add: price_def mark_success_gate_def Let_def)

lemma within_budget_refuses:
  assumes "evaluate_targets config (po_estimates po) (po_targets po) = Inr items"
    and "ids = sg_model_ids (success_gate (map et_evaluation items) (cf_s_min config) (cf_epsilon_success config))"
    and "priced_items view config ids items \<noteq> []"
    and "within_budget view (priced_items view config ids items) = Inl e"
  shows "\<exists>rej. over_budget config view po rej \<and>
    e = NoFeasibleTarget ''all success-eligible targets exceeded the hard cost budget'' rej"
proof -
  obtain budget where b: "hv_cost_budget view = Some budget"
    using assms(4) by (auto simp: within_budget_def split: option.splits)
  have e: "filter (\<lambda>i. ce_effective_cost (et_evaluation i) \<le> budget + 1 / 10 ^ 12) (priced_items view config ids items) = []"
    "e = NoFeasibleTarget ''all success-eligible targets exceeded the hard cost budget''
       (map (\<lambda>i. reject (et_target i) [''effective_cost_budget_exceeded'']) (priced_items view config ids items))"
    using assms(4) b by (auto simp: within_budget_def Let_def split: if_splits)
  have "over_budget config view po (map (\<lambda>i. reject (et_target i) [''effective_cost_budget_exceeded''])
      (success_eligible config items))"
    using e(1) assms(1,3) b
    by (auto simp: over_budget_def filter_empty_conv priced_items_eligible [OF assms(2)] price_marked not_le)
  moreover have "map (\<lambda>i. reject (et_target i) [''effective_cost_budget_exceeded'']) (priced_items view config ids items)
      = map (\<lambda>i. reject (et_target i) [''effective_cost_budget_exceeded'']) (success_eligible config items)"
    by (simp add: priced_items_eligible [OF assms(2)] price_marked o_def)
  ultimately show ?thesis using e(2) by simp
qed

lemma select_candidates_total:
  assumes "evaluate_targets config (po_estimates po) (po_targets po) = Inr items" "items \<noteq> []"
  shows "(\<exists>sl. select_candidates config view po = Inr sl) \<or>
    (\<exists>rej. over_budget config view po rej \<and> select_candidates config view po
       = Inl (NoFeasibleTarget ''all success-eligible targets exceeded the hard cost budget'' rej))"
proof -
  define g where "g = success_gate (map et_evaluation items) (cf_s_min config) (cf_epsilon_success config)"
  let ?priced = "priced_items view config (sg_model_ids g) items"
  have inj: "inj_on item_ref (set items)" and fresh: "\<And>i. i \<in> set items \<Longrightarrow> fresh_item config (po_estimates po) i"
    using evaluate_targets_Inr [OF assms(1)] by (metis distinct_map distinct_upt, blast)
  have some: "?priced \<noteq> []" using gate_passes_some [OF assms(2) fresh g_def] by blast
  show ?thesis
  proof (cases "within_budget view ?priced")
    case (Inl e)
    then have "\<exists>rej. over_budget config view po rej \<and>
        e = NoFeasibleTarget ''all success-eligible targets exceeded the hard cost budget'' rej"
      by (rule within_budget_refuses [OF assms(1) g_def [THEN arg_cong] some])
    then show ?thesis using select_candidates_step [OF assms(1) g_def, of view] some Inl by auto
  next
    case (Inr ok)
    then have "gated view config (po_estimates po) (sg_model_ids g) items ok"
      using inj fresh some by (simp add: gated_def)
    from time_candidates_total [OF this refl] obtain pairs where
      "res_map (time_candidate view (item_by_key (map (mark_cost_gate (evaluation_key ` set
           (cost_gate (map et_evaluation ok) (cf_epsilon_cost config)))) ok)))
         (map (newest (map et_evaluation (map (mark_cost_gate (evaluation_key ` set
           (cost_gate (map et_evaluation ok) (cf_epsilon_cost config)))) ok)))
           (cost_gate (map et_evaluation ok) (cf_epsilon_cost config))) = Inr pairs" ..
    then have "\<exists>sl. select_candidates config view po = Inr sl"
      unfolding select_candidates_step [OF assms(1) g_def, of view] Inr sched_bind_simps Let_def
      using some by simp
    then show ?thesis ..
  qed
qed

section \<open>The cost gate mark\<close>

text \<open>An evaluation is marked as having passed the cost gate only when a candidate of its key reaches
  placement.\<close>

definition marked_by :: "target_key set \<Rightarrow> candidate_evaluation \<Rightarrow> bool" where
  "marked_by keys e \<longleftrightarrow> (ce_cost_gate e \<longrightarrow> evaluation_key e \<in> keys)"

lemma marked_by_newest:
  "marked_by keys e \<Longrightarrow> (\<And>w. w \<in> set written \<Longrightarrow> marked_by keys w) \<Longrightarrow> marked_by keys (newest written e)"
  using newest_in [of written e] by auto

lemma select_candidates_cost_gate:
  assumes "select_candidates config view po = Inr sl" "j \<in> set (sl_evaluated sl)" "ce_cost_gate (et_evaluation j)"
  shows "\<exists>z \<in> set (sl_cost_pairs sl). target_key (fst z) = evaluation_key (et_evaluation j)"
proof -
  obtain items where items: "evaluate_targets config (po_estimates po) (po_targets po) = Inr items"
    using assms(1) by (auto simp: select_candidates_def sched_bind_Inr_iff)
  define g where "g = success_gate (map et_evaluation items) (cf_s_min config) (cf_epsilon_success config)"
  let ?ids = "sg_model_ids g"
  let ?priced = "priced_items view config ?ids items"
  have fresh: "\<And>i. i \<in> set items \<Longrightarrow> fresh_item config (po_estimates po) i"
    using evaluate_targets_Inr(3) [OF items] .
  have inj: "inj_on item_ref (set items)" using evaluate_targets_Inr(2) [OF items] by (metis distinct_map distinct_upt)
  have some: "?priced \<noteq> []"
    using assms(1) unfolding select_candidates_step [OF items g_def] by (auto split: if_splits)
  obtain ok cost0 succ pairs where ok: "within_budget view ?priced = Inr ok"
    and cost0: "cost0 = cost_gate (map et_evaluation ok) (cf_epsilon_cost config)"
    and succ: "succ = map (mark_cost_gate (evaluation_key ` set cost0)) ok"
    and pairs: "res_map (time_candidate view (item_by_key succ)) (map (newest (map et_evaluation succ)) cost0) = Inr pairs"
    and sl: "sl_evaluated sl = write_back (map snd pairs) (write_back (map et_evaluation succ)
                  (write_back (map et_evaluation ?priced) (map (mark_success_gate ?ids) items)))"
      "sl_cost_pairs sl = pairs"
    using assms(1) some unfolding select_candidates_step [OF items g_def]
    by (auto simp: sched_bind_Inr_iff Let_def)
  have gt: "gated view config (po_estimates po) ?ids items ok"
    using inj fresh some ok by (simp add: gated_def)
  let ?keys = "evaluation_key ` set cost0"
  have m0: "marked_by ?keys (et_evaluation (mark_success_gate ?ids i))"
    "marked_by ?keys (et_evaluation (price view config (mark_success_gate ?ids i)))" if "i \<in> set items" for i
    using fresh [OF that] by (simp_all add: marked_by_def fresh_item_def mark_success_gate_def price_def Let_def)
  have m1: "marked_by ?keys w" if "w \<in> set (map et_evaluation ?priced)" for w
    using that m0(2) by (auto simp: priced_items_def)
  have m2: "marked_by ?keys w" if w: "w \<in> set (map et_evaluation succ)" for w
  proof -
    obtain p where p: "p \<in> set ok" "w = et_evaluation (mark_cost_gate ?keys p)" using w by (auto simp: succ)
    obtain i where "et_target p = et_target i" "staged view config ?ids i (et_evaluation p)"
      using affordable_staged [OF gt p(1)] by metis
    then show ?thesis by (simp add: p(2) marked_by_def mark_cost_gate_def staged_def evaluation_key_def)
  qed
  have m3: "marked_by ?keys w" if w: "w \<in> set (map snd pairs)" for w
  proof -
    obtain x where x: "x \<in> set pairs" "w = snd x" using w by auto
    from res_map_Inr_in [OF pairs x(1)] obtain e0 where e0: "e0 \<in> set cost0"
        "time_candidate view (item_by_key succ) (newest (map et_evaluation succ) e0) = Inr x" by auto
    have "e0 \<in> et_evaluation ` set ok" using e0(1) cost_gate_subset unfolding cost0 by fastforce
    then obtain p where p: "p \<in> set ok" "e0 = et_evaluation p" by blast
    have "p \<in> set ?priced" using affordable_items(2) [OF gt] p(1) by blast
    then have "marked_by ?keys e0" using m1 p(2) by auto
    then have "marked_by ?keys (newest (map et_evaluation succ) e0)" using m2 by (rule marked_by_newest)
    then show ?thesis using e0(2) x(2)
      by (auto simp: time_candidate_def with_latency_def marked_by_def evaluation_key_def split: option.splits)
  qed
  obtain i where i: "i \<in> set items" "et_evaluation j = newest (map snd pairs) (newest (map et_evaluation succ)
      (newest (map et_evaluation ?priced) (et_evaluation (mark_success_gate ?ids i))))"
    using assms(2) by (auto simp: sl(1) write_back_def)
  have "marked_by ?keys (et_evaluation j)"
    unfolding i(2) by (intro marked_by_newest m0(1) m1 m2 m3 i(1))
  then obtain e0 where e0: "e0 \<in> set cost0" "evaluation_key e0 = evaluation_key (et_evaluation j)"
    using assms(3) by (auto simp: marked_by_def)
  have "\<exists>x \<in> set pairs. target_key (fst x) = evaluation_key e0"
  proof -
    obtain n where n: "n < length cost0" "cost0 ! n = e0" using e0(1) by (auto simp: in_set_conv_nth)
    have "list_all2 (\<lambda>c x. time_candidate view (item_by_key succ) c = Inr x) (map (newest (map et_evaluation succ)) cost0) pairs"
      by (rule res_map_Inr_list_all2 [OF pairs])
    then have t: "n < length pairs"
        "time_candidate view (item_by_key succ) (newest (map et_evaluation succ) e0) = Inr (pairs ! n)"
      using n by (auto simp: list_all2_conv_all_nth)
    obtain i' where "i' \<in> set items" "staged view config ?ids i' e0"
      using cost_gate_staged [OF gt] e0(1) cost0 by metis
    moreover have "staged view config ?ids i' (newest (map et_evaluation succ) e0)"
      by (rule staged_newest [OF inj calculation])
        (use marked_written [OF gt] succ in blast)
    moreover obtain k where "dict_get (item_by_key succ) (evaluation_key (newest (map et_evaluation succ) e0)) = Some k"
        "fst (pairs ! n) = et_target k"
      using t(2) by (cases "pairs ! n") (auto simp: time_candidate_def split: option.splits)
    moreover from this(1) have "target_key (et_target k) = evaluation_key (newest (map et_evaluation succ) e0)"
      by (rule item_by_key_get)
    ultimately have "target_key (fst (pairs ! n)) = evaluation_key e0" by (simp add: staged_def)
    then show ?thesis using t(1) by auto
  qed
  then show ?thesis using e0(2) sl(2) by simp
qed

end
