(* ===== verification/SF_Scheduler_Runs.thy ===== *)
theory SF_Scheduler_Runs
  imports SF_Scheduler_Lemmas
begin

text \<open>
  A successful run of the scheduler, taken apart once: which pair was selected, from which items,
  and what the decision records. The scheduler properties are consequences of \<open>schedule_Inr\<close>;
  the runs that fail are classified by \<open>schedule_Inl\<close>.
\<close>

section \<open>Hysteresis and delivery\<close>

lemma deliver_id [simp]: "deliver sink view d = d"
  by (simp add: deliver_def split: option.splits sum.splits)

lemma hold_tier_Inr:
  assumes "hold_tier config view active pairs (snd x, reason) = Inr (selected, reason')"
    and "x \<in> set pairs"
  obtains y where "y \<in> set pairs" "selected = snd y"
    "reason' = HYSTERESIS_HOLD \<longrightarrow> tc_model_id (fst y) = hv_current_model view \<or> reason = HYSTERESIS_HOLD"
    "\<not> (\<not> active \<and> should_hold_tier config view (snd x) pairs) \<Longrightarrow> y = x \<and> reason' = reason"
    "\<not> active \<and> should_hold_tier config view (snd x) pairs \<Longrightarrow>
       tc_model_id (fst y) = hv_current_model view \<and> reason' = HYSTERESIS_HOLD"
proof (cases "\<not> active \<and> should_hold_tier config view (snd x) pairs")
  case True
  let ?hold = "filter (\<lambda>x. tc_model_id (fst x) = hv_current_model view) pairs"
  have "?hold \<noteq> []" using True by (auto simp: should_hold_tier_def list_ex_iff filter_empty_conv split: if_splits)
  then obtain held where held: "choose_placement view ?hold = Inr held" "selected = pr_evaluation held"
      "reason' = HYSTERESIS_HOLD"
    using assms(1) True by (auto simp: hold_tier_def Let_def res_bind_Inr_iff)
  obtain y where "selected = snd y" "placement_ok view ?hold y"
    using choose_placement_spec [OF held(1)] held(2) by metis
  then show ?thesis using True held(3) by (intro that [of y]) (auto simp: placement_ok_def)
next
  case False
  then have "selected = snd x" "reason' = reason" using assms(1) by (auto simp: hold_tier_def)
  with False assms(2) show ?thesis by (intro that [of x]) auto
qed

lemma hold_tier_total: "\<exists>r. hold_tier config view active pairs s = Inr r"
proof -
  let ?hold = "filter (\<lambda>x. tc_model_id (fst x) = hv_current_model view) pairs"
  have "\<exists>r. res_bind (choose_placement view ?hold) (\<lambda>held. Inr (pr_evaluation held, HYSTERESIS_HOLD)) = Inr r"
    if "?hold \<noteq> []"
    using choose_placement_total [OF that, of view] by auto
  then show ?thesis unfolding hold_tier_def Let_def case_prod_beta by (auto split: if_split)
qed

section \<open>A successful run\<close>

abbreviation schedule_targets :: "scheduling_view \<Rightarrow> target_candidate list option \<Rightarrow> target_candidate list" where
  "schedule_targets view targets \<equiv> (case targets of Some ts \<Rightarrow> ts | None \<Rightarrow> hv_candidates view)"

lemma schedule_Inr:
  assumes "schedule predict config sink decision_id now view targets = Inr d"
  obtains eligible po items g x y reason and sl :: selection where
    "eligible = filter (\<lambda>t. target_reasons view t = []) (schedule_targets view targets)" "eligible \<noteq> []"
    "choose_policy predict config view eligible = Inr po"
    "select_candidates config view po = Inr sl"
    "evaluate_targets config (po_estimates po) (po_targets po) = Inr items"
    "g = success_gate (map et_evaluation items) (cf_s_min config) (cf_epsilon_success config)"
    "sl_fallback sl = sg_fallback g"
    "list_all2 (\<lambda>i j. et_target j = et_target i \<and> staged view config (sg_model_ids g) i (et_evaluation j))
       items (sl_evaluated sl)"
    "\<forall>z \<in> set (sl_cost_pairs sl). offered view config (sg_model_ids g) items z"
    "x \<in> set (sl_cost_pairs sl)" "placement_ok view (sl_cost_pairs sl) x"
    "y \<in> set (sl_cost_pairs sl)"
    "\<not> (\<not> co_active (po_override po) \<and> should_hold_tier config view (snd x) (sl_cost_pairs sl)) \<Longrightarrow>
       y = x \<and> reason = routing_reason (sl_success_items sl) (map snd (sl_cost_pairs sl))
         (pr_reason (projr (choose_placement view (sl_cost_pairs sl)))) (co_active (po_override po)) (sg_fallback g)"
    "\<not> co_active (po_override po) \<and> should_hold_tier config view (snd x) (sl_cost_pairs sl) \<Longrightarrow>
       tc_model_id (fst y) = hv_current_model view \<and> reason = HYSTERESIS_HOLD"
    "d = build_routing_decision view (snd y)
       (candidate_trace (sl_evaluated sl) (fr_rejected (hard_filter view (schedule_targets view targets)))
          (schedule_targets view targets))
       reason config (co_reasons (po_override po)) (sg_fallback g) decision_id now"
proof -
  let ?ts = "schedule_targets view targets"
  let ?el = "fr_eligible (hard_filter view ?ts)"
  have ne: "?ts \<noteq> []" "?el \<noteq> []" using assms by (auto simp: schedule_def Let_def split: if_splits)
  obtain po where po: "choose_policy predict config view ?el = Inr po"
    using assms ne by (auto simp: schedule_def Let_def sched_bind_Inr_iff)
  obtain sl where sl: "select_candidates config view po = Inr sl"
    using assms ne po by (auto simp: schedule_def Let_def sched_bind_Inr_iff)
  obtain pl where pl: "choose_placement view (sl_cost_pairs sl) = Inr pl"
    using assms ne po sl by (auto simp: schedule_def Let_def sched_bind_Inr_iff)
  let ?act = "co_active (po_override po)"
  let ?reason = "routing_reason (sl_success_items sl) (map snd (sl_cost_pairs sl)) (pr_reason pl) ?act (sl_fallback sl)"
  have "sched_bind (raising (hold_tier config view ?act (sl_cost_pairs sl) (pr_evaluation pl, ?reason)))
      (\<lambda>(selected, reason'). Inr (deliver sink view (build_routing_decision view selected
         (candidate_trace (sl_evaluated sl) (fr_rejected (hard_filter view ?ts)) ?ts)
         reason' config (co_reasons (po_override po)) (sl_fallback sl) decision_id now))) = Inr d"
    using assms ne po sl pl by (simp add: schedule_def Let_def)
  then obtain selected reason where hold: "hold_tier config view ?act (sl_cost_pairs sl) (pr_evaluation pl, ?reason)
        = Inr (selected, reason)"
      and d: "d = build_routing_decision view selected
         (candidate_trace (sl_evaluated sl) (fr_rejected (hard_filter view ?ts)) ?ts)
         reason config (co_reasons (po_override po)) (sl_fallback sl) decision_id now"
    by (auto simp: sched_bind_Inr_iff)
  obtain x where x: "pr_evaluation pl = snd x" "placement_ok view (sl_cost_pairs sl) x"
    using choose_placement_spec [OF pl] by metis
  then have xin: "x \<in> set (sl_cost_pairs sl)" by (simp add: placement_ok_def)
  obtain y where y: "y \<in> set (sl_cost_pairs sl)" "selected = snd y"
    "\<not> (\<not> ?act \<and> should_hold_tier config view (snd x) (sl_cost_pairs sl)) \<Longrightarrow> y = x \<and> reason = ?reason"
    "\<not> ?act \<and> should_hold_tier config view (snd x) (sl_cost_pairs sl) \<Longrightarrow>
       tc_model_id (fst y) = hv_current_model view \<and> reason = HYSTERESIS_HOLD"
    using hold_tier_Inr [OF hold [unfolded x(1)] xin] by metis
  from select_candidates_Inr [OF sl] obtain items g where s:
    "evaluate_targets config (po_estimates po) (po_targets po) = Inr items"
    "g = success_gate (map et_evaluation items) (cf_s_min config) (cf_epsilon_success config)"
    "sl_fallback sl = sg_fallback g"
    "list_all2 (\<lambda>i j. et_target j = et_target i \<and> staged view config (sg_model_ids g) i (et_evaluation j))
       items (sl_evaluated sl)"
    "\<forall>z \<in> set (sl_cost_pairs sl). offered view config (sg_model_ids g) items z"
    "sl_cost_pairs sl \<noteq> []" .
  show ?thesis
  proof (rule that [OF fr_eligible_hard_filter ne(2) po sl s(1-5) xin x(2) y(1)])
    show "y = x \<and> reason = routing_reason (sl_success_items sl) (map snd (sl_cost_pairs sl))
         (pr_reason (projr (choose_placement view (sl_cost_pairs sl)))) ?act (sg_fallback g)"
      if "\<not> (\<not> ?act \<and> should_hold_tier config view (snd x) (sl_cost_pairs sl))"
      using y(3) [OF that] unfolding pl sum.sel s(3) .
    show "tc_model_id (fst y) = hv_current_model view \<and> reason = HYSTERESIS_HOLD"
      if "\<not> ?act \<and> should_hold_tier config view (snd x) (sl_cost_pairs sl)"
      by (rule y(4) [OF that])
    show "d = build_routing_decision view (snd y)
       (candidate_trace (sl_evaluated sl) (fr_rejected (hard_filter view ?ts)) ?ts)
       reason config (co_reasons (po_override po)) (sg_fallback g) decision_id now"
      unfolding d y(2) s(3) ..
  qed
qed

section \<open>The selected candidate\<close>

definition decision_key :: "routing_decision \<Rightarrow> target_key" where
  "decision_key d = (rd_selected_model d, rd_selected_endpoint d, rd_selected_replica d)"

lemma build_routing_decision_fields [simp]:
  "decision_key (build_routing_decision view sel es reason config ors fb did now) = evaluation_key sel"
  "rd_selected_model (build_routing_decision view sel es reason config ors fb did now) = ce_model_id sel"
  "rd_predicted_success (build_routing_decision view sel es reason config ors fb did now) = ce_predicted_success sel"
  "rd_predicted_cost (build_routing_decision view sel es reason config ors fb did now) = ce_effective_cost sel"
  "rd_predicted_latency_seconds (build_routing_decision view sel es reason config ors fb did now)
     = ce_predicted_latency_seconds sel"
  "rd_decision_reason (build_routing_decision view sel es reason config ors fb did now) = reason"
  "rd_override_reasons (build_routing_decision view sel es reason config ors fb did now) = ors"
  "rd_fallback (build_routing_decision view sel es reason config ors fb did now) = fb"
  "rd_candidates (build_routing_decision view sel es reason config ors fb did now)
     = map (\<lambda>e. if ce_ref e = ce_ref sel then e\<lparr>ce_selected := True\<rparr> else e) es"
  by (simp_all add: build_routing_decision_def decision_key_def evaluation_key_def)

section \<open>The trace\<close>

lemma trace_entry_cases:
  obtains (evaluated) e where "dict_get ev (target_key t) = Some e" "trace_entry ev rj (n, t) = e"
  | (rejected) reasons where "dict_get ev (target_key t) = None"
      "trace_entry ev rj (n, t) = (CandidateEvaluation n t)\<lparr>ce_rejection_reasons := reasons\<rparr>"
proof (cases "dict_get ev (target_key t)")
  case None
  then show ?thesis using that(2) by (cases "dict_get rj (target_key t)") (simp_all add: trace_entry_def)
next
  case (Some e)
  then show ?thesis using that(1) by (simp add: trace_entry_def)
qed

lemma fresh_evaluation [simp]:
  "evaluation_key ((CandidateEvaluation n t)\<lparr>ce_rejection_reasons := rs\<rparr>) = target_key t"
  "ce_ref ((CandidateEvaluation n t)\<lparr>ce_rejection_reasons := rs\<rparr>) = n"
  "\<not> ce_eligible ((CandidateEvaluation n t)\<lparr>ce_rejection_reasons := rs\<rparr>)"
  "\<not> ce_success_gate ((CandidateEvaluation n t)\<lparr>ce_rejection_reasons := rs\<rparr>)"
  "\<not> ce_selected ((CandidateEvaluation n t)\<lparr>ce_rejection_reasons := rs\<rparr>)"
  by (simp_all add: CandidateEvaluation_def evaluation_key_def target_key_def)

definition evaluated_index :: "evaluated_target list \<Rightarrow> (target_key, candidate_evaluation) dict" where
  "evaluated_index items =
     foldl (\<lambda>d i. dict_set d (target_key (et_target i)) (et_evaluation i)) [] items"

lemma evaluated_index_get:
  assumes "dict_get (evaluated_index items) k = Some e"
  shows "\<exists>j \<in> set items. target_key (et_target j) = k \<and> e = et_evaluation j"
proof -
  let ?f = "\<lambda>i. target_key (et_target i)"
  have "k \<in> ?f ` set items"
    using assms pydict.get_foldl_put_notin [of k ?f items et_evaluation "[]"] by (auto simp: evaluated_index_def)
  from pydict.get_foldl_put_in [OF this, of et_evaluation "[]"] show ?thesis
    using assms by (auto simp: evaluated_index_def)
qed

lemma evaluated_index_covers:
  assumes "j \<in> set items"
  shows "\<exists>e. dict_get (evaluated_index items) (target_key (et_target j)) = Some e"
  using pydict.get_foldl_put_in [of "target_key (et_target j)" "\<lambda>i. target_key (et_target i)" items
      et_evaluation "[]"] assms
  by (auto simp: evaluated_index_def)

lemma candidate_trace_in:
  assumes "e \<in> set (candidate_trace evaluated rejected ts)"
  obtains (evaluated) j where "j \<in> set evaluated" "e = et_evaluation j" "target_key (et_target j) \<in> target_key ` set ts"
  | (fresh) n t rs where "length evaluated \<le> n" "t \<in> set ts"
      "dict_get (evaluated_index evaluated) (target_key t) = None"
      "e = (CandidateEvaluation n t)\<lparr>ce_rejection_reasons := rs\<rparr>"
proof -
  let ?rj = "foldl (\<lambda>d r. dict_set d (rejection_key r) r) [] rejected"
  obtain n t where nt: "(n, t) \<in> set (enumerate (length evaluated) ts)"
      "e = trace_entry (evaluated_index evaluated) ?rj (n, t)"
    using assms by (auto simp: candidate_trace_def evaluated_index_def Let_def)
  then have n: "length evaluated \<le> n" "t \<in> set ts"
    by (auto simp: in_set_enumerate_eq)
  show ?thesis
  proof (cases rule: trace_entry_cases [of "evaluated_index evaluated" t ?rj n])
    case (evaluated e')
    from evaluated_index_get [OF evaluated(1)] obtain j where
      "j \<in> set evaluated" "target_key (et_target j) = target_key t" "e' = et_evaluation j" by blast
    then show ?thesis using that(1) [of j] nt(2) n(2) evaluated(2) by simp
  next
    case rejected
    then show ?thesis using that(2) [of n t] n nt(2) by simp
  qed
qed

lemma candidate_trace_keys:
  assumes "\<And>j. j \<in> set evaluated \<Longrightarrow> evaluation_key (et_evaluation j) = target_key (et_target j)"
  shows "map evaluation_key (candidate_trace evaluated rejected ts) = map target_key ts"
proof -
  let ?rj = "foldl (\<lambda>d r. dict_set d (rejection_key r) r) [] rejected"
  have "evaluation_key (trace_entry (evaluated_index evaluated) ?rj (n, t)) = target_key t" for n t
  proof (cases rule: trace_entry_cases [of "evaluated_index evaluated" t ?rj n])
    case (evaluated e)
    then show ?thesis using evaluated_index_get assms by metis
  qed simp
  then have "map (evaluation_key \<circ> trace_entry (evaluated_index evaluated) ?rj) (enumerate n ts) = map target_key ts" for n
    by (induction ts arbitrary: n) simp_all
  then show ?thesis by (simp add: candidate_trace_def evaluated_index_def Let_def)
qed

lemma candidate_trace_covers:
  assumes "j \<in> set evaluated" "target_key (et_target j) \<in> target_key ` set ts"
  obtains j' where "j' \<in> set evaluated" "target_key (et_target j') = target_key (et_target j)"
    "et_evaluation j' \<in> set (candidate_trace evaluated rejected ts)"
proof -
  let ?rj = "foldl (\<lambda>d r. dict_set d (rejection_key r) r) [] rejected"
  obtain e where e: "dict_get (evaluated_index evaluated) (target_key (et_target j)) = Some e"
    using evaluated_index_covers [OF assms(1)] by blast
  obtain n where n: "n < length ts" "target_key (ts ! n) = target_key (et_target j)"
    using assms(2) by (auto simp: in_set_conv_nth)
  then have "candidate_trace evaluated rejected ts ! n = e"
    using e by (simp add: candidate_trace_def evaluated_index_def Let_def trace_entry_def nth_enumerate_eq)
  moreover have "n < length (candidate_trace evaluated rejected ts)"
    using n(1) by (simp add: candidate_trace_def Let_def)
  ultimately have "e \<in> set (candidate_trace evaluated rejected ts)" by (metis nth_mem)
  then show ?thesis using evaluated_index_get [OF e] that by blast
qed

section \<open>Everything a decision says\<close>

text \<open>What the trace keeps of an evaluated item, the selected flag apart.\<close>

definition traced ::
  "scheduling_view \<Rightarrow> scheduler_config \<Rightarrow> string set \<Rightarrow> evaluated_target list \<Rightarrow> candidate_evaluation \<Rightarrow> bool" where
  "traced view config ids items e \<longleftrightarrow>
     (if ce_eligible e
      then \<exists>j \<in> set items. evaluation_key e = target_key (et_target j) \<and>
             ce_success_lcb e = es_lower_confidence_bound (et_estimate j) \<and>
             (ce_success_gate e \<longleftrightarrow> tc_model_id (et_target j) \<in> ids) \<and>
             (ce_success_gate e \<longrightarrow> ce_effective_cost e = item_cost view config j)
      else \<not> ce_success_gate e)"

lemma traced_eligible:
  assumes "traced view config ids items e" "ce_eligible e"
  shows "\<exists>j \<in> set items. evaluation_key e = target_key (et_target j) \<and>
             ce_success_lcb e = es_lower_confidence_bound (et_estimate j) \<and>
             (ce_success_gate e \<longleftrightarrow> tc_model_id (et_target j) \<in> ids) \<and>
             (ce_success_gate e \<longrightarrow> ce_effective_cost e = item_cost view config j)"
  using assms by (simp add: traced_def)

lemma traced_gate: "traced view config ids items e \<Longrightarrow> ce_success_gate e \<Longrightarrow> ce_eligible e"
  by (auto simp: traced_def split: if_splits)

lemma traced_staged: "j \<in> set items \<Longrightarrow> staged view config ids j e \<Longrightarrow> traced view config ids items e"
  by (auto simp: traced_def staged_def item_cost_def)

lemma traced_selected [simp]:
  "traced view config ids items (e\<lparr>ce_selected := b\<rparr>) = traced view config ids items e"
  by (simp add: traced_def evaluation_key_def)

lemma traced_fresh [simp]:
  "traced view config ids items ((CandidateEvaluation n t)\<lparr>ce_rejection_reasons := rs\<rparr>)"
  by (simp add: traced_def)

lemma candidate_trace_traced:
  assumes "list_all2 (\<lambda>i j. et_target j = et_target i \<and> staged view config ids i (et_evaluation j)) items evaluated"
    and "e \<in> set (candidate_trace evaluated rejected ts)"
  shows "traced view config ids items e"
  using assms(2)
proof (cases rule: candidate_trace_in)
  case (evaluated j)
  then obtain n where "n < length evaluated" "e = et_evaluation (evaluated ! n)"
    by (auto simp: in_set_conv_nth)
  then have "items ! n \<in> set items" "staged view config ids (items ! n) e"
    using assms(1) by (auto simp: list_all2_conv_all_nth)
  then show ?thesis by (rule traced_staged)
qed simp

definition selected_run ::
  "predictor \<Rightarrow> scheduler_config \<Rightarrow> scheduling_view \<Rightarrow> target_candidate list \<Rightarrow> routing_decision \<Rightarrow> policy
     \<Rightarrow> evaluated_target list \<Rightarrow> success_gate_result \<Rightarrow> evaluated_target \<Rightarrow> bool" where
  "selected_run predict config view ts d po items g i \<longleftrightarrow>
     choose_policy predict config view (filter (\<lambda>t. target_reasons view t = []) ts) = Inr po \<and>
     filter (\<lambda>t. target_reasons view t = []) ts \<noteq> [] \<and>
     evaluate_targets config (po_estimates po) (po_targets po) = Inr items \<and>
     g = success_gate (map et_evaluation items) (cf_s_min config) (cf_epsilon_success config) \<and>
     i \<in> set items \<and> tc_model_id (et_target i) \<in> sg_model_ids g \<and>
     decision_key d = target_key (et_target i) \<and> rd_predicted_cost d = item_cost view config i \<and>
     rd_predicted_success d = es_predicted_success (et_estimate i) \<and>
     affordable view config i \<and>
     (\<forall>j \<in> set items. tc_model_id (et_target j) \<in> sg_model_ids g \<longrightarrow>
        item_cost view config i \<le> item_cost view config j * (1 + max 0 (cf_epsilon_cost config)) + 1 / 10 ^ 12) \<and>
     rd_fallback d = sg_fallback g \<and> rd_override_reasons d = co_reasons (po_override po) \<and>
     (co_active (po_override po) \<longrightarrow> rd_decision_reason d = CRITICAL_OVERRIDE) \<and>
     (\<forall>e \<in> set (rd_candidates d). traced view config (sg_model_ids g) items e) \<and>
     (\<forall>j \<in> set items. \<exists>e \<in> set (rd_candidates d). ce_eligible e \<and> evaluation_key e = target_key (et_target j))"

lemma selected_runD:
  assumes "selected_run predict config view ts d po items g i"
  shows "choose_policy predict config view (filter (\<lambda>t. target_reasons view t = []) ts) = Inr po"
    "filter (\<lambda>t. target_reasons view t = []) ts \<noteq> []"
    "evaluate_targets config (po_estimates po) (po_targets po) = Inr items"
    "g = success_gate (map et_evaluation items) (cf_s_min config) (cf_epsilon_success config)"
    "i \<in> set items"
    "tc_model_id (et_target i) \<in> sg_model_ids g"
    "decision_key d = target_key (et_target i)"
    "rd_predicted_cost d = item_cost view config i"
    "rd_predicted_success d = es_predicted_success (et_estimate i)"
    "affordable view config i"
    "(\<forall>j \<in> set items. tc_model_id (et_target j) \<in> sg_model_ids g \<longrightarrow> item_cost view config i \<le> item_cost view config j * (1 + max 0 (cf_epsilon_cost config)) + 1 / 10 ^ 12)"
    "rd_fallback d = sg_fallback g"
    "rd_override_reasons d = co_reasons (po_override po)"
    "(co_active (po_override po) \<longrightarrow> rd_decision_reason d = CRITICAL_OVERRIDE)"
    "(\<forall>e \<in> set (rd_candidates d). traced view config (sg_model_ids g) items e)"
    "(\<forall>j \<in> set items. \<exists>e \<in> set (rd_candidates d). ce_eligible e \<and> evaluation_key e = target_key (et_target j))"
  using assms unfolding selected_run_def by - (elim conjE, assumption)+

lemma schedule_selected:
  assumes "schedule predict config sink decision_id now view targets = Inr d"
  obtains po items g i where
    "selected_run predict config view (schedule_targets view targets) d po items g i"
proof -
  obtain eligible po items g x y reason and sl :: selection where r:
    "eligible = filter (\<lambda>t. target_reasons view t = []) (schedule_targets view targets)" "eligible \<noteq> []"
    "choose_policy predict config view eligible = Inr po"
    "evaluate_targets config (po_estimates po) (po_targets po) = Inr items"
    "g = success_gate (map et_evaluation items) (cf_s_min config) (cf_epsilon_success config)"
    "list_all2 (\<lambda>i j. et_target j = et_target i \<and> staged view config (sg_model_ids g) i (et_evaluation j))
       items (sl_evaluated sl)"
    "\<forall>z \<in> set (sl_cost_pairs sl). offered view config (sg_model_ids g) items z"
    "y \<in> set (sl_cost_pairs sl)"
    "\<not> (\<not> co_active (po_override po) \<and> should_hold_tier config view (snd x) (sl_cost_pairs sl)) \<Longrightarrow>
       y = x \<and> reason = routing_reason (sl_success_items sl) (map snd (sl_cost_pairs sl))
         (pr_reason (projr (choose_placement view (sl_cost_pairs sl)))) (co_active (po_override po)) (sg_fallback g)"
    "d = build_routing_decision view (snd y)
       (candidate_trace (sl_evaluated sl) (fr_rejected (hard_filter view (schedule_targets view targets)))
          (schedule_targets view targets))
       reason config (co_reasons (po_override po)) (sg_fallback g) decision_id now"
    by (rule schedule_Inr [OF assms]) blast
  have "offered view config (sg_model_ids g) items y" using r(7,8) by blast
  then obtain i where i: "i \<in> set items" "staged view config (sg_model_ids g) i (snd y)"
      "tc_model_id (et_target i) \<in> sg_model_ids g" "affordable view config i"
      "\<forall>j \<in> set items. tc_model_id (et_target j) \<in> sg_model_ids g \<longrightarrow>
       item_cost view config i \<le> item_cost view config j * (1 + max 0 (cf_epsilon_cost config)) + 1 / 10 ^ 12"
    unfolding offered_def by blast
  have trace: "\<forall>e \<in> set (rd_candidates d). traced view config (sg_model_ids g) items e"
    using candidate_trace_traced [OF r(6)] by (auto simp: r(10))
  have el: "set (po_targets po) \<subseteq> set (schedule_targets view targets)"
    using choose_policy_targets(1) [OF r(3,2)] r(1) by auto
  have cover: "\<forall>j \<in> set items. \<exists>e \<in> set (rd_candidates d). ce_eligible e \<and> evaluation_key e = target_key (et_target j)"
  proof
    fix j assume "j \<in> set items"
    then obtain n where n: "n < length items" "j = items ! n" by (auto simp: in_set_conv_nth)
    let ?k = "sl_evaluated sl ! n"
    have k: "?k \<in> set (sl_evaluated sl)" "et_target ?k = et_target j"
      using r(6) n by (auto simp: list_all2_conv_all_nth)
    have "et_target j \<in> set (map et_target items)" using \<open>j \<in> set items\<close> by simp
    then have "et_target j \<in> set (po_targets po)" using evaluate_targets_Inr(1) [OF r(4)] by simp
    then have "target_key (et_target ?k) \<in> target_key ` set (schedule_targets view targets)"
      using el k(2) by auto
    from candidate_trace_covers [OF k(1) this] obtain k' where k':
      "k' \<in> set (sl_evaluated sl)" "target_key (et_target k') = target_key (et_target ?k)"
      "et_evaluation k' \<in> set (candidate_trace (sl_evaluated sl)
         (fr_rejected (hard_filter view (schedule_targets view targets))) (schedule_targets view targets))" .
    then obtain m where "m < length (sl_evaluated sl)" "k' = sl_evaluated sl ! m" by (auto simp: in_set_conv_nth)
    then have "staged view config (sg_model_ids g) (items ! m) (et_evaluation k')" "et_target k' = et_target (items ! m)"
      using r(6) by (auto simp: list_all2_conv_all_nth)
    then have "ce_eligible (et_evaluation k') \<and> evaluation_key (et_evaluation k') = target_key (et_target j)"
      using k'(2) k(2) by (simp add: staged_def)
    moreover let ?e = "if ce_ref (et_evaluation k') = ce_ref (snd y)
        then (et_evaluation k')\<lparr>ce_selected := True\<rparr> else et_evaluation k'"
    have "?e \<in> set (rd_candidates d)"
      unfolding r(10) build_routing_decision_fields set_map using k'(3) by (rule imageI)
    moreover have "ce_eligible ?e = ce_eligible (et_evaluation k')"
      "evaluation_key ?e = evaluation_key (et_evaluation k')"
      by (simp_all add: evaluation_key_def)
    ultimately show "\<exists>e \<in> set (rd_candidates d). ce_eligible e \<and> evaluation_key e = target_key (et_target j)"
      by (intro bexI [of _ ?e]) simp_all
  qed
  have reason: "co_active (po_override po) \<longrightarrow> rd_decision_reason d = CRITICAL_OVERRIDE"
    using r(9) by (simp add: r(10) routing_reason_def)
  have d: "decision_key d = target_key (et_target i)" "rd_predicted_cost d = item_cost view config i"
    "rd_predicted_success d = es_predicted_success (et_estimate i)" "rd_fallback d = sg_fallback g"
    "rd_override_reasons d = co_reasons (po_override po)"
    using i(2,3) by (simp_all add: r(10) staged_def item_cost_def)
  show ?thesis
    by (rule that [of po items g i])
      (unfold selected_run_def, intro conjI, use r(1-5) i d reason trace cover in simp_all)
qed

section \<open>When a run succeeds\<close>

lemma schedule_outcome:
  assumes "\<And>t. t \<in> set (schedule_targets view targets) \<Longrightarrow> \<exists>c. is_capable t = Inr c"
    and "t \<in> set (schedule_targets view targets)" "target_reasons view t = []"
  shows "(\<exists>d. schedule predict config sink decision_id now view targets = Inr d) \<or>
    (\<exists>po rej. choose_policy predict config view
          (filter (\<lambda>t. target_reasons view t = []) (schedule_targets view targets)) = Inr po \<and>
       over_budget config view po rej \<and> schedule predict config sink decision_id now view targets
         = Inl (NoFeasibleTarget ''all success-eligible targets exceeded the hard cost budget'' rej))"
proof -
  let ?ts = "schedule_targets view targets"
  let ?el = "fr_eligible (hard_filter view ?ts)"
  have ne: "?ts \<noteq> []" "?el \<noteq> []"
    using assms(2,3) by (auto simp: fr_eligible_hard_filter filter_empty_conv)
  have "\<exists>c. is_capable x = Inr c" if "x \<in> set ?el" for x
    using assms(1) that by (auto simp: fr_eligible_hard_filter)
  then obtain po where po: "choose_policy predict config view ?el = Inr po"
    using choose_policy_total by meson
  note pt = choose_policy_targets [OF po ne(2)]
  have "dict_get (po_estimates po) (tc_model_id x) \<noteq> None" if "x \<in> set (po_targets po)" for x
    using estimate_by_model_covers [OF that] choose_policy_cases(1) [OF po] by (metis option.distinct(1))
  then obtain items where items: "evaluate_targets config (po_estimates po) (po_targets po) = Inr items"
    using evaluate_targets_total by blast
  then have "items \<noteq> []" using evaluate_targets_Inr(1) pt(2) by fastforce
  from select_candidates_total [OF items this, of view] show ?thesis
  proof (elim disjE exE conjE)
    fix sl assume sl: "select_candidates config view po = Inr sl"
    then have "sl_cost_pairs sl \<noteq> []" by (rule select_candidates_Inr)
    then obtain pl where pl: "choose_placement view (sl_cost_pairs sl) = Inr pl"
      using choose_placement_total by blast
    obtain r where "hold_tier config view (co_active (po_override po)) (sl_cost_pairs sl)
        (pr_evaluation pl, routing_reason (sl_success_items sl) (map snd (sl_cost_pairs sl))
           (pr_reason pl) (co_active (po_override po)) (sl_fallback sl)) = Inr r"
      using hold_tier_total by blast
    then have "\<exists>d. schedule predict config sink decision_id now view targets = Inr d"
      using ne po sl pl by (cases r) (simp add: schedule_def Let_def)
    then show ?thesis ..
  next
    fix rej assume "over_budget config view po rej" "select_candidates config view po
       = Inl (NoFeasibleTarget ''all success-eligible targets exceeded the hard cost budget'' rej)"
    then show ?thesis using ne po
      by (intro disjI2 exI [of _ po] exI [of _ rej]) (simp add: schedule_def Let_def fr_eligible_hard_filter)
  qed
qed

end
