(* ===== verification/SF_Scheduler_Properties.thy ===== *)
theory SF_Scheduler_Properties
  imports SF_Scheduler_Runs
begin

text \<open>
  The properties of the scheduler. Each is about every successful run of \<open>schedule\<close>, for every
  predictor, configuration, view and list of targets; the example below instantiates them.
\<close>

section \<open>An example\<close>

text \<open>A well-observed view, and two targets of two models, the second one of a capable tier.\<close>

definition ex_view :: scheduling_view where
  "ex_view = (HarnessSchedulingView ''s'')\<lparr>hv_state_completeness := 1\<rparr>"

definition ex_small :: target_candidate where
  "ex_small = (TargetCandidate ''small'' ''e1'' ''r1'')\<lparr>tc_base_success := 95 / 100, tc_inference_cost := 1\<rparr>"

definition ex_large :: target_candidate where
  "ex_large = (TargetCandidate ''large'' ''e2'' ''r1'')
     \<lparr>tc_tier := ''frontier'', tc_base_success := 96 / 100, tc_inference_cost := 3\<rparr>"

definition ex_predict :: predictor where
  "ex_predict = heuristic_estimate ''heuristic-0.1''"

abbreviation ex_schedule :: "scheduling_view \<Rightarrow> schedule_error + routing_decision" where
  "ex_schedule view \<equiv> schedule ex_predict default_config None ''d'' 0 view (Some [ex_small, ex_large])"

lemma ex_targets_pass:
  "target_reasons ex_view ex_small = []" "target_reasons ex_view ex_large = []"
  "hv_cost_budget ex_view = None"
  by (simp_all add: target_reasons_Nil target_safe_def ex_view_def ex_small_def ex_large_def
      HarnessSchedulingView_def TargetCandidate_def no_metadata_def)

lemma ex_ranks: "t \<in> set [ex_small, ex_large] \<Longrightarrow> \<exists>c. is_capable t = Inr c"
  by (auto simp: is_capable_def ex_small_def ex_large_def TargetCandidate_def no_metadata_def)

lemma ex_runs:
  assumes "hv_cost_budget view = None" "target_reasons view ex_small = []"
  obtains d where "ex_schedule view = Inr d"
  using schedule_outcome [of view "Some [ex_small, ex_large]" ex_small ex_predict default_config None "''d''" 0]
    ex_ranks assms by (auto simp: over_budget_def)

section \<open>When scheduling succeeds\<close>

lemma schedule_refusals:
  fixes view targets
  defines "ts \<equiv> schedule_targets view targets"
  assumes "\<And>t. t \<in> set ts \<Longrightarrow> \<exists>c. is_capable t = Inr c"
    and "\<And>d. schedule predict config sink decision_id now view targets \<noteq> Inr d"
  shows "(ts = [] \<and> schedule predict config sink decision_id now view targets
            = Inl (NoFeasibleTarget ''no scheduling targets were registered'' [])) \<or>
    (ts \<noteq> [] \<and> (\<forall>t \<in> set ts. target_reasons view t \<noteq> []) \<and>
       schedule predict config sink decision_id now view targets
         = Inl (NoFeasibleTarget ''all scheduling targets failed hard capability/security filters''
             (map (\<lambda>t. reject t (target_reasons view t)) ts))) \<or>
    (\<exists>po rej. choose_policy predict config view (filter (\<lambda>t. target_reasons view t = []) ts) = Inr po \<and>
       over_budget config view po rej \<and> schedule predict config sink decision_id now view targets
         = Inl (NoFeasibleTarget ''all success-eligible targets exceeded the hard cost budget'' rej))"
proof (cases "\<exists>t \<in> set ts. target_reasons view t = []")
  case True
  then show ?thesis
    using schedule_outcome [of view targets _ predict config sink decision_id now] assms(2,3)
    by (simp add: ts_def) blast
next
  case False
  then have "fr_eligible (hard_filter view ts) = []"
    "fr_rejected (hard_filter view ts) = map (\<lambda>t. reject t (target_reasons view t)) ts"
    by (auto simp: fr_eligible_hard_filter fr_rejected_hard_filter filter_empty_conv filter_id_conv)
  then show ?thesis using False by (cases "ts = []") (auto simp: schedule_def Let_def ts_def)
qed

text \<open>C14: Scheduling fails only on purpose. When every capability rank is readable, a request is
  routed, or there are no targets, or every target fails the hard filter and its reasons are
  reported, or the request carries a cost budget that the effective cost of every target that passed
  the success gate exceeds by more than the tolerance (of those that passed the filter, under the
  policy and the estimates of the run), and exactly these are reported. A predictor that fails, for some targets or for all,
  never makes scheduling fail, and the gates never leave nothing to choose from.\<close>
theorem schedule_total:
  fixes view targets
  defines "ts \<equiv> schedule_targets view targets"
  assumes "\<And>t. t \<in> set ts \<Longrightarrow> \<exists>c. is_capable t = Inr c"
    and "\<And>d. schedule predict config sink decision_id now view targets \<noteq> Inr d"
  shows "(ts = [] \<and> schedule predict config sink decision_id now view targets
            = Inl (NoFeasibleTarget ''no scheduling targets were registered'' [])) \<or>
    (ts \<noteq> [] \<and> (\<forall>t \<in> set ts. target_reasons view t \<noteq> []) \<and>
       schedule predict config sink decision_id now view targets
         = Inl (NoFeasibleTarget ''all scheduling targets failed hard capability/security filters''
             (map (\<lambda>t. reject t (target_reasons view t)) ts))) \<or>
    (\<exists>po rej. choose_policy predict config view (filter (\<lambda>t. target_reasons view t = []) ts) = Inr po \<and>
       over_budget config view po rej \<and> schedule predict config sink decision_id now view targets
         = Inl (NoFeasibleTarget ''all success-eligible targets exceeded the hard cost budget'' rej))"
  unfolding ts_def using assms(2,3) unfolding ts_def by (rule schedule_refusals)

theorem schedule_total_witness:
  "schedule ex_predict default_config None ''d'' 0 ex_view (Some [ex_small\<lparr>tc_healthy := False\<rparr>])
     = Inl (NoFeasibleTarget ''all scheduling targets failed hard capability/security filters''
         [reject (ex_small\<lparr>tc_healthy := False\<rparr>) [''endpoint_unhealthy'']])"
proof -
  let ?t = "ex_small\<lparr>tc_healthy := False\<rparr>"
  have r: "target_reasons ex_view ?t = [''endpoint_unhealthy'']"
    by (simp add: target_reasons_def reason_if_def ex_view_def ex_small_def Let_def
        HarnessSchedulingView_def TargetCandidate_def no_metadata_def)
  have "schedule ex_predict default_config None ''d'' 0 ex_view (Some [?t]) \<noteq> Inr d" for d
    by (simp add: schedule_def Let_def r)
  moreover have "\<exists>c. is_capable t = Inr c" if "t \<in> set [?t]" for t
    using that by (auto simp: is_capable_def ex_small_def TargetCandidate_def no_metadata_def)
  ultimately show ?thesis
    using schedule_total [of ex_view "Some [?t]" ex_predict default_config None "''d''" 0] ex_targets_pass(3)
    by (simp add: r over_budget_def)
qed

section \<open>What may be selected\<close>

lemma policy_targets_safe:
  assumes "choose_policy predict config view (filter (\<lambda>t. target_reasons view t = []) ts) = Inr po"
    and "filter (\<lambda>t. target_reasons view t = []) ts \<noteq> []"
    and "evaluate_targets config (po_estimates po) (po_targets po) = Inr items" "i \<in> set items"
  shows "et_target i \<in> set ts" "target_reasons view (et_target i) = []" "et_target i \<in> set (po_targets po)"
proof -
  have "et_target i \<in> set (map et_target items)" using assms(4) by simp
  then show "et_target i \<in> set (po_targets po)" using evaluate_targets_Inr(1) [OF assms(3)] by simp
  then show "et_target i \<in> set ts" "target_reasons view (et_target i) = []"
    using choose_policy_targets(1) [OF assms(1,2)] by auto
qed

lemma schedule_safe:
  assumes "schedule predict config sink decision_id now view targets = Inr d"
  shows "\<exists>t \<in> set (schedule_targets view targets). decision_key d = target_key t \<and> target_safe view t \<and>
    (\<forall>budget. hv_cost_budget view = Some budget \<longrightarrow> filter_lower_bound view t \<le> budget)"
proof -
  obtain po items g i where "selected_run predict config view (schedule_targets view targets) d po items g i"
    by (rule schedule_selected [OF assms])
  then have r:
    "choose_policy predict config view
       (filter (\<lambda>t. target_reasons view t = []) (schedule_targets view targets)) = Inr po"
    "filter (\<lambda>t. target_reasons view t = []) (schedule_targets view targets) \<noteq> []"
    "evaluate_targets config (po_estimates po) (po_targets po) = Inr items"
    "i \<in> set items" "decision_key d = target_key (et_target i)"
    by (auto dest: selected_runD)
  from policy_targets_safe [OF r(1-4)] r(5) show ?thesis by (auto simp: target_reasons_Nil)
qed

text \<open>C1: No score can buy a constraint: the selected target is one of the offered targets, it is
  available, healthy and compatible, its context window holds the request, it has every required
  capability, it is allowed by the model, region, cache domain and security restrictions of the
  request, it does not need forbidden remote KV, and its minimal cost is within the budget.\<close>
theorem schedule_selects_safe_target:
  assumes "schedule predict config sink decision_id now view targets = Inr d"
  shows "\<exists>t \<in> set (schedule_targets view targets). decision_key d = target_key t \<and> target_safe view t \<and>
    (\<forall>budget. hv_cost_budget view = Some budget \<longrightarrow> filter_lower_bound view t \<le> budget)"
  using assms by (rule schedule_safe)

theorem schedule_selects_safe_target_witness:
  "\<exists>d. ex_schedule ex_view = Inr d \<and>
     (decision_key d = (''small'', ''e1'', ''r1'') \<or> decision_key d = (''large'', ''e2'', ''r1''))"
proof -
  obtain d where d: "ex_schedule ex_view = Inr d"
    using ex_runs ex_targets_pass(1,3) by blast
  from schedule_selects_safe_target [OF this] show ?thesis
    using d by (auto simp: target_key_def ex_small_def ex_large_def TargetCandidate_def)
qed

section \<open>Success first\<close>

lemma item_model_lcb:
  assumes "evaluate_targets config ests ts = Inr items" "i \<in> set items"
  shows "tc_model_id (et_target i) \<in> ce_model_id ` set (map et_evaluation items)"
    and "model_lcb (map et_evaluation items) (tc_model_id (et_target i)) = es_lower_confidence_bound (et_estimate i)"
proof -
  have fresh: "fresh_item config ests j" if "j \<in> set items" for j
    using evaluate_targets_Inr(3) [OF assms(1) that] .
  have id: "ce_model_id (et_evaluation j) = tc_model_id (et_target j)" if "j \<in> set items" for j
    using fresh [OF that] by (simp add: fresh_item_def evaluation_key_def target_key_def)
  show *: "tc_model_id (et_target i) \<in> ce_model_id ` set (map et_evaluation items)"
    using assms(2) id [OF assms(2)] by force
  show "model_lcb (map et_evaluation items) (tc_model_id (et_target i)) = es_lower_confidence_bound (et_estimate i)"
  proof (rule model_lcb_const [OF _ _ *])
    show "0 \<le> es_lower_confidence_bound (et_estimate i)"
      using fresh [OF assms(2)] by (simp add: fresh_item_def model_estimate_def with_lcb_def)
    show "ce_success_lcb e = es_lower_confidence_bound (et_estimate i)"
      if e: "e \<in> set (map et_evaluation items)" "ce_model_id e = tc_model_id (et_target i)" for e
    proof -
      obtain j where j: "j \<in> set items" "e = et_evaluation j" using e(1) by auto
      then have "tc_model_id (et_target j) = tc_model_id (et_target i)" using id e(2) by simp
      then show ?thesis using fresh [OF j(1)] fresh [OF assms(2)] j(2) by (simp add: fresh_item_def)
    qed
  qed
qed

lemma fallback_items:
  assumes "evaluate_targets config ests ts = Inr items" "items \<noteq> []"
  shows "sg_fallback (success_gate (map et_evaluation items) s_min margin) \<longleftrightarrow>
    (\<forall>j \<in> set items. es_lower_confidence_bound (et_estimate j) < s_min)"
proof -
  let ?es = "map et_evaluation items"
  have "sg_fallback (success_gate ?es s_min margin) \<longleftrightarrow> (\<forall>m \<in> ce_model_id ` set ?es. model_lcb ?es m < s_min)"
    by (rule success_gate_spec(1)) (simp add: assms(2))
  moreover have "ce_model_id (et_evaluation j) = tc_model_id (et_target j)" if "j \<in> set items" for j
    using evaluate_targets_Inr(3) [OF assms(1) that] by (simp add: fresh_item_def evaluation_key_def target_key_def)
  ultimately show ?thesis using item_model_lcb(2) [OF assms(1)] by simp
qed

text \<open>A trace that shows every item, and only items, shows whether all values are below a bound.\<close>

lemma trace_below:
  assumes "\<And>e. e \<in> E \<Longrightarrow> p e \<Longrightarrow> \<exists>j \<in> I. key e = k j \<and> v e = l j"
    and "\<And>j. j \<in> I \<Longrightarrow> \<exists>e \<in> E. p e \<and> key e = k j"
    and "\<And>i j. i \<in> I \<Longrightarrow> j \<in> I \<Longrightarrow> k i = k j \<Longrightarrow> l i = l j"
  shows "(\<forall>j \<in> I. l j < (b :: 'b :: linorder)) \<longleftrightarrow> (\<forall>e \<in> E. p e \<longrightarrow> v e < b)"
proof
  assume all: "\<forall>e \<in> E. p e \<longrightarrow> v e < b"
  show "\<forall>j \<in> I. l j < b"
  proof
    fix j assume j: "j \<in> I"
    from assms(2) [OF this] obtain e where e: "e \<in> E" "p e" "key e = k j" by blast
    from assms(1) [OF e(1,2)] obtain i where "i \<in> I" "key e = k i" "v e = l i" by blast
    then show "l j < b" using assms(3) [of i j] j e all by auto
  qed
qed (use assms(1) in fastforce)

text \<open>C6: Success comes first. The conservative success bound of the selected model reaches the
  required minimum and is within the success tolerance of every evaluated candidate; when no
  evaluated candidate reaches the minimum, the decision is marked as a fallback and the selected
  model has the best bound there is.\<close>
theorem schedule_success_first:
  assumes "schedule predict config sink decision_id now view targets = Inr d"
  shows "\<exists>s \<in> set (rd_candidates d). ce_eligible s \<and> evaluation_key s = decision_key d \<and> ce_success_gate s \<and>
     (rd_fallback d \<longleftrightarrow> (\<forall>e \<in> set (rd_candidates d). ce_eligible e \<longrightarrow> ce_success_lcb e < cf_s_min config)) \<and>
     (\<not> rd_fallback d \<longrightarrow> cf_s_min config \<le> ce_success_lcb s \<and>
        (\<forall>e \<in> set (rd_candidates d). ce_eligible e \<longrightarrow>
           ce_success_lcb e \<le> ce_success_lcb s + max 0 (cf_epsilon_success config))) \<and>
     (rd_fallback d \<longrightarrow> (\<forall>e \<in> set (rd_candidates d). ce_eligible e \<longrightarrow>
           ce_success_lcb e \<le> ce_success_lcb s + 1 / 10 ^ 12))"
proof -
  obtain po items g i where "selected_run predict config view (schedule_targets view targets) d po items g i"
    by (rule schedule_selected [OF assms])
  then have r:
    "evaluate_targets config (po_estimates po) (po_targets po) = Inr items"
    "g = success_gate (map et_evaluation items) (cf_s_min config) (cf_epsilon_success config)"
    "i \<in> set items" "tc_model_id (et_target i) \<in> sg_model_ids g" "decision_key d = target_key (et_target i)"
    "rd_fallback d = sg_fallback g"
    "\<forall>e \<in> set (rd_candidates d). traced view config (sg_model_ids g) items e"
    "\<forall>j \<in> set items. \<exists>e \<in> set (rd_candidates d). ce_eligible e \<and> evaluation_key e = target_key (et_target j)"
    by (auto dest: selected_runD)
  let ?es = "map et_evaluation items"
  let ?lcb = "\<lambda>j. es_lower_confidence_bound (et_estimate j)"
  note ml = item_model_lcb [OF r(1)]
  have ne: "?es \<noteq> []" using r(3) by auto
  have tr: "\<exists>j \<in> set items. evaluation_key e = target_key (et_target j) \<and> ce_success_lcb e = ?lcb j \<and>
        (ce_success_gate e \<longleftrightarrow> tc_model_id (et_target j) \<in> sg_model_ids g)"
    if "e \<in> set (rd_candidates d)" "ce_eligible e" for e
    using traced_eligible [OF bspec [OF r(7) that(1)] that(2)] by blast
  have same: "?lcb j = ?lcb k" if "j \<in> set items" "k \<in> set items" "target_key (et_target j) = target_key (et_target k)" for j k
    using ml(2) [OF that(1)] ml(2) [OF that(2)] that(3) by (simp add: target_key_def)
  obtain s where s: "s \<in> set (rd_candidates d)" "ce_eligible s" "evaluation_key s = target_key (et_target i)"
    using r(3,8) by blast
  obtain js where js: "js \<in> set items" "evaluation_key s = target_key (et_target js)" "ce_success_lcb s = ?lcb js"
      "ce_success_gate s \<longleftrightarrow> tc_model_id (et_target js) \<in> sg_model_ids g"
    using tr [OF s(1,2)] by blast
  have sl: "ce_success_lcb s = ?lcb i" using js s(3) same [OF js(1) r(3)] by simp
  have sg: "ce_success_gate s" using js(4) r(4) js(2) s(3) by (simp add: target_key_def)
  have "items \<noteq> []" using r(3) by auto
  from fallback_items [OF r(1) this] have fb: "sg_fallback g \<longleftrightarrow> (\<forall>j \<in> set items. ?lcb j < cf_s_min config)"
    by (simp add: r(2))
  have trace_fb: "(\<forall>j \<in> set items. ?lcb j < cf_s_min config) \<longleftrightarrow>
      (\<forall>e \<in> set (rd_candidates d). ce_eligible e \<longrightarrow> ce_success_lcb e < cf_s_min config)"
    by (rule trace_below [where key = evaluation_key and k = "\<lambda>j. target_key (et_target j)"]) (use tr r(8) same in blast)+
  have best: "ce_success_lcb e \<le> ce_success_lcb s + c"
    if e: "e \<in> set (rd_candidates d)" "ce_eligible e" and
      le: "\<forall>n \<in> ce_model_id ` set ?es. model_lcb ?es n \<le> model_lcb ?es (tc_model_id (et_target i)) + c" for e c
  proof -
    obtain j where j: "j \<in> set items" "ce_success_lcb e = ?lcb j" using tr e by blast
    then show ?thesis using bspec [OF le ml(1) [OF j(1)]] by (simp add: ml(2) r(3) sl)
  qed
  have gate: "\<not> sg_fallback g \<Longrightarrow> cf_s_min config \<le> ?lcb i \<and>
        (\<forall>n \<in> ce_model_id ` set ?es. model_lcb ?es n \<le> model_lcb ?es (tc_model_id (et_target i)) + max 0 (cf_epsilon_success config))"
    "sg_fallback g \<Longrightarrow> \<forall>n \<in> ce_model_id ` set ?es. model_lcb ?es n \<le> model_lcb ?es (tc_model_id (et_target i)) + 1 / 10 ^ 12"
    using success_gate_spec(2,3) [OF ne] r(2,4) ml(2) [OF r(3)] by auto
  show ?thesis
    using s sl sg gate best fb trace_fb r(5,6) by (intro bexI [of _ s]) auto
qed

theorem schedule_success_first_witness:
  "\<exists>d s. ex_schedule ex_view = Inr d \<and> s \<in> set (rd_candidates d) \<and> evaluation_key s = decision_key d \<and>
     (\<not> rd_fallback d \<longrightarrow> 75 / 100 \<le> ce_success_lcb s)"
proof -
  obtain d where d: "ex_schedule ex_view = Inr d"
    using ex_runs ex_targets_pass(1,3) by blast
  from schedule_success_first [OF this] show ?thesis
    using d by (auto simp: default_config_def)
qed

end
