(* ===== verification/SF_Prediction_Contracts.thy ===== *)
theory SF_Prediction_Contracts
  imports SF_Contracts SF_Scheduler_Types
begin

text \<open>
  \<open>stateflow/prediction/contracts.py\<close>: what a prediction says of a candidate action. Each record
  is the frozen dataclass of the same name. Identifiers drawn from \<open>uuid4()\<close> are arguments of the
  model. \<open>Prediction\<close> is the checked constructor: it clamps the confidence as
  \<open>__post_init__\<close> does.
\<close>

record candidate_action =
  ca_action_type :: string
  ca_target_component :: string
  ca_parameters :: "(string, pyval) dict"
  ca_candidate_id :: string

record performance_prediction =
  pp_ttft_seconds :: "real option"
  pp_tpot_seconds :: "real option"
  pp_e2e_seconds :: "real option"
  pp_throughput :: "real option"
  pp_transfer_eta_seconds :: "real option"

record reliability_prediction =
  rp_success_probability :: "real option"
  rp_oom_probability :: "real option"
  rp_timeout_probability :: "real option"
  rp_slo_violation_probability :: "real option"

record cost_prediction =
  cp_gpu_seconds :: "real option"
  cp_memory_time :: "real option"
  cp_network_bytes :: "int option"
  cp_storage_io_bytes :: "int option"
  cp_monetary_cost :: "real option"

record future_state_prediction =
  fp_queue_depth :: "real option"
  fp_hbm_pressure :: "real option"
  fp_kv_location :: "string option"
  fp_demand :: "real option"
  fp_contention :: "real option"
  fp_values :: "(string, pyval) dict"

record prediction_request =
  pq_snapshot_id :: string
  pq_candidate_action :: candidate_action

record prediction =
  pd_snapshot_id :: string
  pd_candidate_id :: string
  pd_performance :: performance_prediction
  pd_reliability :: reliability_prediction
  pd_cost :: cost_prediction
  pd_future_state :: future_state_prediction
  pd_confidence :: real
  pd_model_version :: string
  pd_applicability :: string
  pd_feature_freshness_ms :: "(string, int) dict"
  pd_calibration_error :: "real option"
  pd_fallback :: string
  pd_notes :: "string list"
  pd_prediction_id :: string

text \<open>The parts a prediction starts from when nothing is known, the defaults of the dataclasses.\<close>

definition PerformancePrediction :: performance_prediction where
  "PerformancePrediction = \<lparr>pp_ttft_seconds = None, pp_tpot_seconds = None, pp_e2e_seconds = None,
     pp_throughput = None, pp_transfer_eta_seconds = None\<rparr>"

definition ReliabilityPrediction :: reliability_prediction where
  "ReliabilityPrediction = \<lparr>rp_success_probability = None, rp_oom_probability = None,
     rp_timeout_probability = None, rp_slo_violation_probability = None\<rparr>"

definition CostPrediction :: cost_prediction where
  "CostPrediction = \<lparr>cp_gpu_seconds = None, cp_memory_time = None, cp_network_bytes = None,
     cp_storage_io_bytes = None, cp_monetary_cost = None\<rparr>"

definition FutureStatePrediction :: future_state_prediction where
  "FutureStatePrediction = \<lparr>fp_queue_depth = None, fp_hbm_pressure = None, fp_kv_location = None,
     fp_demand = None, fp_contention = None, fp_values = []\<rparr>"

definition prediction_post_init :: "prediction \<Rightarrow> prediction" where
  "prediction_post_init p = p\<lparr>pd_confidence := clamp01 (pd_confidence p)\<rparr>"

definition Prediction :: "string \<Rightarrow> string \<Rightarrow> string \<Rightarrow> string \<Rightarrow> prediction" where
  "Prediction prediction_id snapshot_id candidate_id model_version =
     prediction_post_init
       \<lparr>pd_snapshot_id = snapshot_id, pd_candidate_id = candidate_id,
        pd_performance = PerformancePrediction, pd_reliability = ReliabilityPrediction,
        pd_cost = CostPrediction, pd_future_state = FutureStatePrediction, pd_confidence = 0,
        pd_model_version = model_version, pd_applicability = ''unknown'',
        pd_feature_freshness_ms = [], pd_calibration_error = None, pd_fallback = ''baseline'',
        pd_notes = [], pd_prediction_id = prediction_id\<rparr>"

text \<open>
  \<open>Prediction.from_routing_evaluation\<close>. The scheduler never writes \<open>kv_transfer_bytes\<close> into the
  metadata of an evaluation, so the number of network bytes is unknown.
\<close>

definition from_routing_evaluation ::
  "string \<Rightarrow> string \<Rightarrow> candidate_action \<Rightarrow> candidate_evaluation \<Rightarrow> string \<Rightarrow> prediction" where
  "from_routing_evaluation prediction_id snapshot_id candidate evaluation model_version =
     prediction_post_init
       \<lparr>pd_snapshot_id = snapshot_id, pd_candidate_id = ca_candidate_id candidate,
        pd_performance = PerformancePrediction
          \<lparr>pp_e2e_seconds := Some (ce_predicted_latency_seconds evaluation)\<rparr>,
        pd_reliability = ReliabilityPrediction
          \<lparr>rp_success_probability := Some (ce_predicted_success evaluation)\<rparr>,
        pd_cost = CostPrediction\<lparr>cp_monetary_cost := Some (ce_effective_cost evaluation)\<rparr>,
        pd_future_state = FutureStatePrediction
          \<lparr>fp_values := [(''future_kv_value'', PFloat (ce_future_kv_value evaluation))]\<rparr>,
        pd_confidence = ce_success_confidence evaluation, pd_model_version = model_version,
        pd_applicability = ''routing'', pd_feature_freshness_ms = [],
        pd_calibration_error = None, pd_fallback = ''baseline'',
        pd_notes = ce_predictor_notes evaluation, pd_prediction_id = prediction_id\<rparr>"

section \<open>Well-formed predictions\<close>

text \<open>
  What a consumer relies on: known probabilities are probabilities, known quantities are not
  negative, and the end-to-end time is not shorter than the time to the first token.
\<close>

definition known :: "('a \<Rightarrow> bool) \<Rightarrow> 'a option \<Rightarrow> bool" where
  "known P v \<longleftrightarrow> (case v of None \<Rightarrow> True | Some x \<Rightarrow> P x)"

lemma known_simps [simp]: "known P None" "known P (Some x) \<longleftrightarrow> P x"
  by (simp_all add: known_def)

abbreviation nonneg :: "real option \<Rightarrow> bool" where
  "nonneg \<equiv> known (\<lambda>x. 0 \<le> x)"

abbreviation is_probability :: "real option \<Rightarrow> bool" where
  "is_probability \<equiv> known (\<lambda>x. 0 \<le> x \<and> x \<le> 1)"

definition performance_ok :: "performance_prediction \<Rightarrow> bool" where
  "performance_ok p \<longleftrightarrow> nonneg (pp_ttft_seconds p) \<and> nonneg (pp_tpot_seconds p) \<and>
     nonneg (pp_e2e_seconds p) \<and> nonneg (pp_throughput p) \<and> nonneg (pp_transfer_eta_seconds p) \<and>
     known (\<lambda>e. \<exists>t. pp_ttft_seconds p = Some t \<and> t \<le> e) (pp_e2e_seconds p)"

definition reliability_ok :: "reliability_prediction \<Rightarrow> bool" where
  "reliability_ok r \<longleftrightarrow> is_probability (rp_success_probability r) \<and> is_probability (rp_oom_probability r) \<and>
     is_probability (rp_timeout_probability r) \<and> is_probability (rp_slo_violation_probability r)"

definition cost_ok :: "cost_prediction \<Rightarrow> bool" where
  "cost_ok c \<longleftrightarrow> nonneg (cp_gpu_seconds c) \<and> nonneg (cp_memory_time c) \<and>
     known (\<lambda>n. 0 \<le> n) (cp_network_bytes c) \<and> known (\<lambda>n. 0 \<le> n) (cp_storage_io_bytes c) \<and>
     nonneg (cp_monetary_cost c)"

definition future_ok :: "future_state_prediction \<Rightarrow> bool" where
  "future_ok f \<longleftrightarrow> nonneg (fp_queue_depth f) \<and> nonneg (fp_hbm_pressure f) \<and> nonneg (fp_demand f) \<and>
     nonneg (fp_contention f)"

definition prediction_ok :: "prediction \<Rightarrow> bool" where
  "prediction_ok p \<longleftrightarrow> performance_ok (pd_performance p) \<and> reliability_ok (pd_reliability p) \<and>
     cost_ok (pd_cost p) \<and> future_ok (pd_future_state p) \<and> 0 \<le> pd_confidence p \<and> pd_confidence p \<le> 1"

lemmas parts_ok_defs = performance_ok_def reliability_ok_def cost_ok_def future_ok_def

lemma unknown_parts_ok [simp]:
  "performance_ok PerformancePrediction" "reliability_ok ReliabilityPrediction"
  "cost_ok CostPrediction" "future_ok FutureStatePrediction"
  by (simp_all add: parts_ok_defs PerformancePrediction_def ReliabilityPrediction_def
      CostPrediction_def FutureStatePrediction_def)

lemma Prediction_ok: "prediction_ok (Prediction i s c v)"
  by (simp add: prediction_ok_def Prediction_def prediction_post_init_def)

end
