(* ===== verification/SF_Feature_Resolver.thy ===== *)
theory SF_Feature_Resolver
  imports SF_Prediction_Contracts
begin

text \<open>
  \<open>_FeatureResolver\<close> of \<open>stateflow/prediction/model.py\<close>: where the inputs of the analytical model
  come from. The resolver is mutable, so its four fields are passed along as a \<open>feature_state\<close>. A
  feature is a parameter of the candidate action, or else the value of a canonical key in the
  snapshot, when that is unambiguous.
\<close>

record feature_state =
  fs_freshness :: "(string, int) dict"
  fs_notes :: "string list"
  fs_required :: nat
  fs_available :: nat

definition feature_start :: feature_state where
  "feature_start = \<lparr>fs_freshness = [], fs_notes = [], fs_required = 0, fs_available = 0\<rparr>"

type_synonym 'a feature_reader = "feature_state \<Rightarrow> ('a \<times> feature_state) res"

text \<open>Reading one feature after another, and a computation that reads no feature.\<close>

definition feat_bind :: "'a feature_reader \<Rightarrow> ('a \<Rightarrow> 'b feature_reader) \<Rightarrow> 'b feature_reader" where
  "feat_bind m f s = res_bind (m s) (\<lambda>(x, s'). f x s')"

definition feat_return :: "'a \<Rightarrow> 'a feature_reader" where
  "feat_return x s = Inr (x, s)"

definition feature_note :: "string \<Rightarrow> feature_state \<Rightarrow> feature_state" where
  "feature_note n s = s\<lparr>fs_notes := fs_notes s @ [n]\<rparr>"

text \<open>The value of the snapshot a canonical key selects: the one of the target component, or the only one.\<close>

definition matching_values :: "snapshot \<Rightarrow> string \<Rightarrow> state_value list" where
  "matching_values snapshot key = filter (\<lambda>v. sv_key v = key) (sn_values snapshot)"

definition feature_age_ms :: "snapshot \<Rightarrow> state_value \<Rightarrow> int" where
  "feature_age_ms snapshot v =
     max 0 ((instant (sn_created_at snapshot) - instant (sv_timestamp v)) div 1000)"

definition selected_value :: "snapshot \<Rightarrow> string \<Rightarrow> string \<Rightarrow> state_value option" where
  "selected_value snapshot target key =
     (case filter (\<lambda>v. sv_entity_ref v = target) (matching_values snapshot key) of
        [v] \<Rightarrow> Some v
      | _ \<Rightarrow> (case matching_values snapshot key of [v] \<Rightarrow> Some v | _ \<Rightarrow> None))"

definition feature_resolve ::
  "snapshot \<Rightarrow> candidate_action \<Rightarrow> string \<Rightarrow> string \<Rightarrow> feature_state \<Rightarrow> pyval \<times> feature_state" where
  "feature_resolve snapshot candidate parameter key s =
     (case dict_get (ca_parameters candidate) parameter of
        Some v \<Rightarrow> (v, s)
      | None \<Rightarrow>
          if key = [] then (PNone, s)
          else
            (case selected_value snapshot (ca_target_component candidate) key of
               Some v \<Rightarrow>
                 (sv_value v, s\<lparr>fs_freshness := dict_set (fs_freshness s) key (feature_age_ms snapshot v)\<rparr>)
             | None \<Rightarrow>
                 (PNone, if length (matching_values snapshot key) > 1
                         then feature_note (''ambiguous_feature:'' @ key) s else s)))"

text \<open>\<open>float(value)\<close> of a finite, non-negative number, or the reason there is none.\<close>

definition feature_float :: "string \<Rightarrow> pyval \<Rightarrow> real res" where
  "feature_float parameter value =
     (if \<not> is_number value
      then Inl (ValueError (''prediction feature '' @ parameter @ '' must be numeric''))
      else
        (case value of
           PInt i \<Rightarrow> if i < 0 then Inl (ValueError (''prediction feature '' @ parameter
                       @ '' must be finite and non-negative'')) else Inr (real_of_int i)
         | PFloat x \<Rightarrow> if x < 0 then Inl (ValueError (''prediction feature '' @ parameter
                       @ '' must be finite and non-negative'')) else Inr x
         | _ \<Rightarrow> Inl (ValueError (''prediction feature '' @ parameter
                       @ '' must be finite and non-negative''))))"

text \<open>
  \<open>number\<close>: \<open>None\<close> is the default without a value, and \<open>number_or\<close> is the same call with a
  numeric default.
\<close>

definition feature_number ::
  "snapshot \<Rightarrow> candidate_action \<Rightarrow> string \<Rightarrow> string \<Rightarrow> bool \<Rightarrow> bool \<Rightarrow> real option feature_reader" where
  "feature_number snapshot candidate parameter key required positive s0 =
     (let (value, s1) = feature_resolve snapshot candidate parameter key s0;
          s2 = (if required then s1\<lparr>fs_required := Suc (fs_required s1)\<rparr> else s1);
          label = (if key \<noteq> [] then key else parameter)
      in if value = PNone
         then Inr (None, if required then feature_note (''missing_feature:'' @ label) s2 else s2)
         else res_bind (feature_float parameter value) (\<lambda>number.
           if positive \<and> number = 0
           then Inr (None, if required then feature_note (''invalid_feature:'' @ label) s2 else s2)
           else Inr (Some number,
                     if required then s2\<lparr>fs_available := Suc (fs_available s2)\<rparr> else s2)))"

definition feature_number_or ::
  "real \<Rightarrow> snapshot \<Rightarrow> candidate_action \<Rightarrow> string \<Rightarrow> string \<Rightarrow> real feature_reader" where
  "feature_number_or fallback snapshot candidate parameter key =
     feat_bind (feature_number snapshot candidate parameter key False False)
       (\<lambda>v. feat_return (case v of None \<Rightarrow> fallback | Some x \<Rightarrow> x))"

definition feature_string ::
  "snapshot \<Rightarrow> candidate_action \<Rightarrow> string \<Rightarrow> string \<Rightarrow> string option feature_reader" where
  "feature_string snapshot candidate parameter key s0 =
     (case feature_resolve snapshot candidate parameter key s0 of
        (PNone, s) \<Rightarrow> Inr (None, s)
      | (PStr t, s) \<Rightarrow> Inr (Some t, s)
      | (_, s) \<Rightarrow> Inl (ValueError (''prediction feature '' @ parameter @ '' must be a string'')))"

definition feature_confidence :: "snapshot \<Rightarrow> feature_state \<Rightarrow> real" where
  "feature_confidence snapshot s =
     (let coverage = (if fs_required s \<noteq> 0 then real (fs_available s) / real (fs_required s) else 0)
      in clamp01 (sn_completeness snapshot * (35 / 100 + 65 / 100 * coverage)))"

definition required_features_complete :: "feature_state \<Rightarrow> bool" where
  "required_features_complete s \<longleftrightarrow> fs_available s = fs_required s"

section \<open>Laws of the resolver\<close>

lemma feat_bind_Inr_iff: "feat_bind m f s = Inr y \<longleftrightarrow> (\<exists>x s'. m s = Inr (x, s') \<and> f x s' = Inr y)"
  by (auto simp: feat_bind_def res_bind_Inr_iff)

lemma feat_return_Inr_iff [simp]: "feat_return x s = Inr (y, t) \<longleftrightarrow> y = x \<and> t = s"
  by (auto simp: feat_return_def)

lemma feature_float_nonneg: "feature_float p v = Inr x \<Longrightarrow> 0 \<le> x"
  by (auto simp: feature_float_def split: pyval.splits if_splits)

lemma feature_number_nonneg: "feature_number sn c p k r q s = Inr (v, s') \<Longrightarrow> nonneg v"
  by (auto simp: feature_number_def Let_def res_bind_Inr_iff dest: feature_float_nonneg
      split: prod.splits if_splits)

lemma feature_number_positive: "feature_number sn c p k r True s = Inr (Some x, s') \<Longrightarrow> 0 < x"
  by (fastforce simp: feature_number_def Let_def res_bind_Inr_iff dest: feature_float_nonneg
      split: prod.splits if_splits)

lemma feature_number_or_nonneg:
  "feature_number_or d sn c p k s = Inr (x, s') \<Longrightarrow> 0 \<le> d \<Longrightarrow> 0 \<le> x"
  by (auto simp: feature_number_or_def feat_bind_Inr_iff dest!: feature_number_nonneg split: option.splits)

lemma feature_resolve_frame:
  assumes "feature_resolve sn c p k s = (v, s')"
  shows "fs_required s' = fs_required s" "fs_available s' = fs_available s"
  using assms by (auto simp: feature_resolve_def feature_note_def split: option.splits if_splits)

text \<open>
  The accounting law: every read adds at most one required feature, and counts it as available
  exactly when it has a value. So the coverage is a fraction between zero and one.
\<close>

definition counted :: "feature_state \<Rightarrow> bool" where
  "counted s \<longleftrightarrow> fs_available s \<le> fs_required s"

lemma counted_start [simp]: "counted feature_start"
  by (simp add: counted_def feature_start_def)

lemma feature_number_accounts:
  assumes "feature_number sn c p k r q s = Inr (v, s')"
  shows "fs_required s' = fs_required s + (if r then 1 else 0)"
    and "fs_available s' = fs_available s + (if r \<and> v \<noteq> None then 1 else 0)"
  using assms
  by (auto simp: feature_number_def Let_def res_bind_Inr_iff feature_note_def
      dest: feature_resolve_frame split: prod.splits if_splits)

lemma feature_number_counted:
  "feature_number sn c p k r q s = Inr (v, s') \<Longrightarrow> counted s \<Longrightarrow> counted s'"
  using feature_number_accounts [of sn c p k r q s v s'] by (auto simp: counted_def split: if_splits)

lemma feature_number_or_accounts:
  assumes "feature_number_or d sn c p k s = Inr (v, s')"
  shows "fs_required s' = fs_required s" "fs_available s' = fs_available s"
  using assms by (auto simp: feature_number_or_def feat_bind_Inr_iff dest: feature_number_accounts)

lemma feature_string_accounts:
  assumes "feature_string sn c p k s = Inr (v, s')"
  shows "fs_required s' = fs_required s" "fs_available s' = fs_available s"
  using assms
  by (auto simp: feature_string_def dest: feature_resolve_frame split: prod.splits pyval.splits)

lemma feature_confidence_bounds [simp]:
  "0 \<le> feature_confidence sn s" "feature_confidence sn s \<le> 1"
  by (simp_all add: feature_confidence_def Let_def)

text \<open>A snapshot value other than those of the named key never decides a feature.\<close>

lemma feature_resolve_local:
  assumes "sn_created_at sn = sn_created_at sn'" "matching_values sn k = matching_values sn' k"
  shows "feature_resolve sn c p k s = feature_resolve sn' c p k s"
  unfolding feature_resolve_def selected_value_def feature_age_ms_def assms ..

text \<open>A parameter of the candidate shadows the snapshot.\<close>

lemma feature_resolve_parameter:
  "dict_get (ca_parameters c) p = Some v \<Longrightarrow> feature_resolve sn c p k s = (v, s)"
  by (simp add: feature_resolve_def)

end
