(* ===== verification/SF_Prediction_Model.thy ===== *)
theory SF_Prediction_Model
  imports SF_Feature_Resolver
begin

text \<open>
  \<open>AnalyticalPredictionModel.predict\<close> of \<open>stateflow/prediction/model.py\<close>, stage by stage in the
  order in which the code reads its features: the order decides the notes, the freshness entries
  and which error is raised first. An input that is required and missing makes every quantity
  computed from it \<open>None\<close>.
\<close>

section \<open>The arithmetic of a stage\<close>

definition rate_duration :: "real \<Rightarrow> real option \<Rightarrow> real \<Rightarrow> real option" where
  "rate_duration amount rate setup =
     (if amount \<le> 0 then Some setup
      else (case rate of None \<Rightarrow> None | Some r \<Rightarrow> if r \<le> 0 then None else Some (setup + amount / r)))"

definition deadline_risk :: "real \<Rightarrow> real \<Rightarrow> real" where
  "deadline_risk duration deadline =
     (if deadline \<le> 0 then 1 else clamp01 ((duration / deadline - 8 / 10) / (2 / 10)))"

definition success_probability :: "real option \<Rightarrow> real option \<Rightarrow> real option \<Rightarrow> real option" where
  "success_probability base oom timeout =
     (if base = None \<and> oom = None \<and> timeout = None then None
      else Some (clamp01 (foldl (\<lambda>result risk. case risk of None \<Rightarrow> result | Some r \<Rightarrow> result * (1 - clamp01 r))
             (clamp01 (case base of None \<Rightarrow> 1 | Some b \<Rightarrow> b)) [oom, timeout])))"

definition monetary_cost ::
  "real option \<Rightarrow> real \<Rightarrow> real \<Rightarrow> real \<Rightarrow> real \<Rightarrow> real \<Rightarrow> real \<Rightarrow> real option" where
  "monetary_cost gpu_seconds network_bytes storage_bytes fixed gpu_rate network_rate storage_rate =
     (case gpu_seconds of None \<Rightarrow> None
      | Some g \<Rightarrow> Some (fixed + g * gpu_rate + network_bytes * network_rate + storage_bytes * storage_rate))"

definition applicability :: "string \<Rightarrow> string" where
  "applicability action_type =
     (let normalized = str_lower action_type in
      if normalized \<in> {''route'', ''admit'', ''fallback''} then ''routing''
      else if normalized \<in> {''keep'', ''offload'', ''prefetch'', ''migrate''} then ''kv''
      else if normalized \<noteq> [] then normalized else ''unknown'')"

text \<open>\<open>sum(parts) if all(item is not None for item in parts) else None\<close>.\<close>

definition sum_known :: "real option list \<Rightarrow> real option" where
  "sum_known parts = (if None \<in> set parts then None else Some (sum_list (map the parts)))"

section \<open>The stages\<close>

text \<open>The queueing delay, the bytes to move and the time to move them.\<close>

definition transfer_stage :: "snapshot \<Rightarrow> candidate_action \<Rightarrow> (real \<times> real \<times> real option) feature_reader" where
  "transfer_stage sn c =
     feat_bind (feature_number_or 0 sn c ''queue_seconds'' ''request.queue_time'') (\<lambda>queue_seconds.
     feat_bind (feature_number_or 0 sn c ''transfer_bytes'' ''kv.size'') (\<lambda>transfer_bytes.
     feat_bind (feature_number_or 0 sn c ''transfer_setup_seconds'' []) (\<lambda>transfer_setup.
     feat_bind (feature_number sn c ''effective_bw_bytes_per_second'' ''link.effective_bw''
                  (transfer_bytes > 0) (transfer_bytes > 0)) (\<lambda>effective_bw.
     feat_return (queue_seconds, transfer_bytes,
       rate_duration transfer_bytes effective_bw transfer_setup)))))"

definition prefill_stage :: "snapshot \<Rightarrow> candidate_action \<Rightarrow> real option feature_reader" where
  "prefill_stage sn c =
     feat_bind (feature_number_or 0 sn c ''prompt_tokens'' ''request.context_tokens'') (\<lambda>prompt_tokens.
     feat_bind (feature_number_or 0 sn c ''cached_tokens'' []) (\<lambda>cached.
     let cached_tokens = min prompt_tokens cached;
         prefill_tokens = max 0 (prompt_tokens - cached_tokens)
     in feat_bind (feature_number sn c ''prefill_tokens_per_second'' ''runtime.prefill_tps''
                     (prefill_tokens > 0) (prefill_tokens > 0)) (\<lambda>prefill_tps.
        feat_return (rate_duration prefill_tokens prefill_tps 0))))"

definition decode_stage :: "snapshot \<Rightarrow> candidate_action \<Rightarrow> (real option \<times> real option) feature_reader" where
  "decode_stage sn c =
     feat_bind (feature_number_or 0 sn c ''expected_output_tokens'' ''request.expected_output_tokens'')
       (\<lambda>output_tokens.
     feat_bind (feature_number sn c ''decode_tokens_per_second'' ''runtime.decode_tps''
                  (output_tokens > 0) (output_tokens > 0)) (\<lambda>decode_tps.
     feat_return (decode_tps, rate_duration output_tokens decode_tps 0)))"

definition performance_of ::
  "real \<Rightarrow> real option \<Rightarrow> real option \<Rightarrow> real option \<Rightarrow> real option \<Rightarrow> performance_prediction" where
  "performance_of queue_seconds transfer_seconds prefill_seconds decode_tps decode_seconds =
     \<lparr>pp_ttft_seconds = sum_known [Some queue_seconds, transfer_seconds, prefill_seconds],
      pp_tpot_seconds = (case decode_tps of None \<Rightarrow> None | Some r \<Rightarrow> if r = 0 then None else Some (1 / r)),
      pp_e2e_seconds = sum_known [Some queue_seconds, transfer_seconds, prefill_seconds, decode_seconds],
      pp_throughput = decode_tps,
      pp_transfer_eta_seconds = transfer_seconds\<rparr>"

text \<open>The memory the action leaves in use, and its share of the capacity.\<close>

definition memory_stage :: "snapshot \<Rightarrow> candidate_action \<Rightarrow> (real \<times> real option) feature_reader" where
  "memory_stage sn c =
     feat_bind (feature_number_or 0 sn c ''hbm_used_bytes'' ''resource.hbm.used'') (\<lambda>hbm_used.
     feat_bind (feature_number_or 0 sn c ''hbm_reserved_bytes'' ''resource.hbm.reserved'') (\<lambda>hbm_reserved.
     feat_bind (feature_number_or 0 sn c ''predicted_kv_growth_bytes'' []) (\<lambda>predicted_kv_growth.
     feat_bind (feature_number_or 0 sn c ''hbm_release_bytes'' []) (\<lambda>hbm_release.
     let predicted_hbm = max 0 (hbm_used + hbm_reserved + predicted_kv_growth - hbm_release)
     in feat_bind (feature_number sn c ''hbm_capacity_bytes'' [] (predicted_hbm > 0) (predicted_hbm > 0))
          (\<lambda>hbm_capacity.
        feat_return (predicted_hbm,
          case hbm_capacity of None \<Rightarrow> None
          | Some k \<Rightarrow> if k > 0 then Some (predicted_hbm / k) else None))))))"

definition reliability_stage ::
  "snapshot \<Rightarrow> candidate_action \<Rightarrow> real option \<Rightarrow> real option \<Rightarrow> reliability_prediction feature_reader" where
  "reliability_stage sn c e2e_seconds hbm_pressure =
     feat_bind (feature_number sn c ''deadline_seconds'' [] False False) (\<lambda>deadline.
     let oom_probability = map_option (\<lambda>h. clamp01 (max 0 (h - 9 / 10) * 2)) hbm_pressure;
         timeout_probability = (case (e2e_seconds, deadline) of
             (Some e, Some d) \<Rightarrow> Some (deadline_risk e d) | _ \<Rightarrow> None)
     in feat_bind (feature_number sn c ''base_success_probability'' [] False False) (\<lambda>base_success.
        let risks = List.map_filter (\<lambda>r. r) [oom_probability, timeout_probability]
        in feat_return
          \<lparr>rp_success_probability = success_probability base_success oom_probability timeout_probability,
           rp_oom_probability = oom_probability, rp_timeout_probability = timeout_probability,
           rp_slo_violation_probability = (case risks of [] \<Rightarrow> None | r # rs \<Rightarrow> Some (foldl max r rs))\<rparr>))"

definition cost_stage ::
  "snapshot \<Rightarrow> candidate_action \<Rightarrow> real option \<Rightarrow> real \<Rightarrow> real \<Rightarrow> cost_prediction feature_reader" where
  "cost_stage sn c e2e_seconds predicted_hbm transfer_bytes =
     feat_bind (feature_number_or 0 sn c ''allocated_gpu'' ''instance.allocated_gpu'') (\<lambda>allocated_gpu.
     feat_bind (feature_number_or 0 sn c ''storage_io_bytes'' []) (\<lambda>storage_io.
     feat_bind (feature_number_or 0 sn c ''fixed_cost'' []) (\<lambda>fixed.
     feat_bind (feature_number_or 0 sn c ''gpu_second_cost'' []) (\<lambda>gpu_rate.
     feat_bind (feature_number_or 0 sn c ''network_byte_cost'' []) (\<lambda>network_rate.
     feat_bind (feature_number_or 0 sn c ''storage_io_byte_cost'' []) (\<lambda>storage_rate.
     let gpu_seconds = map_option (\<lambda>e. e * allocated_gpu) e2e_seconds
     in feat_return
       \<lparr>cp_gpu_seconds = gpu_seconds,
        cp_memory_time = map_option (\<lambda>e. predicted_hbm * e) e2e_seconds,
        cp_network_bytes = Some \<lfloor>transfer_bytes\<rfloor>,
        cp_storage_io_bytes = Some \<lfloor>storage_io\<rfloor>,
        cp_monetary_cost = monetary_cost gpu_seconds transfer_bytes storage_io fixed gpu_rate
          network_rate storage_rate\<rparr>))))))"

definition future_stage ::
  "snapshot \<Rightarrow> candidate_action \<Rightarrow> real \<Rightarrow> real option \<Rightarrow> future_state_prediction feature_reader" where
  "future_stage sn c predicted_hbm hbm_pressure =
     feat_bind (feature_number sn c ''queue_depth'' ''runtime.queue_depth'' False False) (\<lambda>queue_depth.
     feat_bind (feature_number_or 0 sn c ''queue_delta'' []) (\<lambda>queue_delta.
     feat_bind (feature_number sn c ''gpu_utilization'' ''resource.gpu.util'' False False) (\<lambda>gpu_util.
     feat_bind (feature_string sn c ''target_kv_location'' ''kv.location'') (\<lambda>kv_location.
     feat_return
       \<lparr>fp_queue_depth = map_option (\<lambda>q. q + queue_delta) queue_depth,
        fp_hbm_pressure = hbm_pressure, fp_kv_location = kv_location, fp_demand = queue_depth,
        fp_contention = gpu_util,
        fp_values = [(''predicted_hbm_bytes'', PFloat predicted_hbm)]\<rparr>))))"

section \<open>The model\<close>

text \<open>A prediction model is asked with the identifier its prediction will carry.\<close>

record prediction_model =
  pm_version :: string
  pm_predict :: "string \<Rightarrow> snapshot \<Rightarrow> candidate_action \<Rightarrow> prediction res"

definition predict_parts ::
  "snapshot \<Rightarrow> candidate_action \<Rightarrow>
     (performance_prediction \<times> reliability_prediction \<times> cost_prediction \<times> future_state_prediction) feature_reader" where
  "predict_parts sn c =
     feat_bind (transfer_stage sn c) (\<lambda>(queue_seconds, transfer_bytes, transfer_seconds).
     feat_bind (prefill_stage sn c) (\<lambda>prefill_seconds.
     feat_bind (decode_stage sn c) (\<lambda>(decode_tps, decode_seconds).
     let performance = performance_of queue_seconds transfer_seconds prefill_seconds decode_tps decode_seconds;
         e2e_seconds = pp_e2e_seconds performance
     in feat_bind (memory_stage sn c) (\<lambda>(predicted_hbm, hbm_pressure).
        feat_bind (reliability_stage sn c e2e_seconds hbm_pressure) (\<lambda>reliability.
        feat_bind (cost_stage sn c e2e_seconds predicted_hbm transfer_bytes) (\<lambda>cost.
        feat_bind (future_stage sn c predicted_hbm hbm_pressure) (\<lambda>future_state.
        feat_return (performance, reliability, cost, future_state))))))))"

definition analytical_predict ::
  "string \<Rightarrow> string \<Rightarrow> snapshot \<Rightarrow> candidate_action \<Rightarrow> prediction res" where
  "analytical_predict version prediction_id snapshot candidate =
     res_bind (predict_parts snapshot candidate feature_start)
       (\<lambda>((performance, reliability, cost, future_state), s).
          let confidence = feature_confidence snapshot s in
          Inr (prediction_post_init
            \<lparr>pd_snapshot_id = sn_token snapshot, pd_candidate_id = ca_candidate_id candidate,
             pd_performance = performance, pd_reliability = reliability, pd_cost = cost,
             pd_future_state = future_state, pd_confidence = confidence,
             pd_model_version = version, pd_applicability = applicability (ca_action_type candidate),
             pd_feature_freshness_ms = fs_freshness s, pd_calibration_error = None,
             pd_fallback = (if confidence \<ge> 1 / 2 \<and> required_features_complete s
                            then ''none'' else ''baseline''),
             pd_notes = fs_notes s, pd_prediction_id = prediction_id\<rparr>))"

definition AnalyticalPredictionModel :: "string \<Rightarrow> prediction_model" where
  "AnalyticalPredictionModel version =
     \<lparr>pm_version = version, pm_predict = analytical_predict version\<rparr>"

end
