(* ===== verification/SF_Prediction_Lemmas.thy ===== *)
theory SF_Prediction_Lemmas
  imports SF_Prediction_Model
begin

text \<open>
  What every stage of the analytical model guarantees: its quantities are not negative, and as
  long as no required feature is missing they are known. The number of required features without a
  value never decreases along a prediction, so a complete prediction had every one of them.
\<close>

section \<open>Missing required features\<close>

definition missing_features :: "feature_state \<Rightarrow> nat" where
  "missing_features s = fs_required s - fs_available s"

text \<open>A read from \<open>s\<close> to \<open>t\<close> keeps the accounting sound and never finds a missing feature again.\<close>

definition accounts :: "feature_state \<Rightarrow> feature_state \<Rightarrow> bool" where
  "accounts s t \<longleftrightarrow> (counted s \<longrightarrow> counted t \<and> missing_features s \<le> missing_features t)"

lemma accounts_refl [simp]: "accounts s s"
  by (simp add: accounts_def)

lemma accounts_trans: "accounts s t \<Longrightarrow> accounts t u \<Longrightarrow> accounts s u"
  by (auto simp: accounts_def)

lemma number_accounts:
  assumes "feature_number sn c p k r q s = Inr (v, t)"
  shows "accounts s t"
  using feature_number_accounts [OF assms] by (auto simp: accounts_def counted_def missing_features_def split: if_splits)

lemma number_or_accounts:
  assumes "feature_number_or d sn c p k s = Inr (v, t)"
  shows "accounts s t"
  using feature_number_or_accounts [OF assms] by (auto simp: accounts_def counted_def missing_features_def split: if_splits)

lemma string_accounts:
  assumes "feature_string sn c p k s = Inr (v, t)"
  shows "accounts s t"
  using feature_string_accounts [OF assms] by (auto simp: accounts_def counted_def missing_features_def split: if_splits)

lemma required_number_known:
  assumes "feature_number sn c p k True q s = Inr (v, t)" "counted s" "missing_features t = 0"
  shows "v \<noteq> None"
  using feature_number_accounts [OF assms(1)] assms(2,3)
  by (auto simp: counted_def missing_features_def split: if_splits)

lemmas reads_account = number_accounts number_or_accounts string_accounts

section \<open>The arithmetic\<close>

lemma rate_duration_nonneg: "nonneg rate \<Longrightarrow> 0 \<le> su \<Longrightarrow> nonneg (rate_duration amount rate su)"
  by (auto simp: rate_duration_def split: option.splits)

lemma rate_duration_known: "amount \<le> 0 \<or> (\<exists>r. rate = Some r \<and> 0 < r) \<Longrightarrow> rate_duration amount rate su \<noteq> None"
  by (auto simp: rate_duration_def)

lemma sum_known_None_iff: "sum_known ps = None \<longleftrightarrow> None \<in> set ps"
  by (simp add: sum_known_def)

lemma deadline_risk_bounds [simp]: "0 \<le> deadline_risk d l" "deadline_risk d l \<le> 1"
  by (simp_all add: deadline_risk_def)

lemma success_probability_ok: "is_probability (success_probability base oom timeout)"
  by (simp add: success_probability_def)

text \<open>A risk can only lower the predicted success, and never below what the other risk leaves of it.\<close>

lemma success_probability_le_base:
  assumes "success_probability (Some b) oom timeout = Some p"
  shows "p \<le> clamp01 b"
proof -
  let ?f = "\<lambda>r risk. case risk of None \<Rightarrow> r | Some x \<Rightarrow> r * (1 - clamp01 x)"
  have step: "0 \<le> ?f r risk \<and> ?f r risk \<le> r" if "0 \<le> r" for r risk
    using that clamp01_bounds by (cases risk) (auto intro: mult_left_le)
  have "0 \<le> clamp01 b" by simp
  with step have a: "0 \<le> ?f (clamp01 b) oom" "?f (clamp01 b) oom \<le> clamp01 b" by blast+
  with step have b: "0 \<le> ?f (?f (clamp01 b) oom) timeout" "?f (?f (clamp01 b) oom) timeout \<le> clamp01 b"
    by (meson order_trans)+
  then have "clamp01 (?f (?f (clamp01 b) oom) timeout) = ?f (?f (clamp01 b) oom) timeout"
    using clamp01_bounds(2) [of b] by (intro clamp01_id) (auto intro: order_trans simp del: clamp01_bounds)
  moreover have "p = clamp01 (?f (?f (clamp01 b) oom) timeout)"
    using assms by (simp add: success_probability_def)
  ultimately show ?thesis using b(2) by simp
qed

lemma monetary_cost_nonneg:
  "nonneg g \<Longrightarrow> 0 \<le> n \<Longrightarrow> 0 \<le> s \<Longrightarrow> 0 \<le> f \<Longrightarrow> 0 \<le> gr \<Longrightarrow> 0 \<le> nr \<Longrightarrow> 0 \<le> sr \<Longrightarrow>
     nonneg (monetary_cost g n s f gr nr sr)"
  by (auto simp: monetary_cost_def intro!: add_nonneg_nonneg split: option.splits)

lemma foldl_max_bounds:
  fixes r :: real
  assumes "0 \<le> r" "r \<le> 1" "\<And>x. x \<in> set rs \<Longrightarrow> 0 \<le> x \<and> x \<le> 1"
  shows "0 \<le> foldl max r rs \<and> foldl max r rs \<le> 1"
  using assms by (induction rs arbitrary: r) (simp_all add: max_def)

section \<open>The stages\<close>

lemma transfer_stage_ok:
  assumes "transfer_stage sn c s = Inr ((q, b, t), s')"
  shows "0 \<le> q" "0 \<le> b" "nonneg t" "accounts s s'"
    and "counted s \<Longrightarrow> missing_features s' = 0 \<Longrightarrow> t \<noteq> None"
proof -
  obtain s1 s2 s3 su bw where r:
    "feature_number_or 0 sn c ''queue_seconds'' ''request.queue_time'' s = Inr (q, s1)"
    "feature_number_or 0 sn c ''transfer_bytes'' ''kv.size'' s1 = Inr (b, s2)"
    "feature_number_or 0 sn c ''transfer_setup_seconds'' [] s2 = Inr (su, s3)"
    "feature_number sn c ''effective_bw_bytes_per_second'' ''link.effective_bw'' (b > 0) (b > 0) s3 = Inr (bw, s')"
    and t: "t = rate_duration b bw su"
    using assms by (auto simp: transfer_stage_def feat_bind_Inr_iff)
  have su: "0 \<le> su" using feature_number_or_nonneg [OF r(3)] by simp
  show "0 \<le> q" "0 \<le> b" using r(1,2) by (auto dest: feature_number_or_nonneg)
  show "nonneg t" unfolding t using feature_number_nonneg [OF r(4)] su by (rule rate_duration_nonneg)
  have a: "accounts s s3" using r(1-3) by (meson reads_account accounts_trans)
  then show "accounts s s'" using r(4) by (meson reads_account accounts_trans)
  show "t \<noteq> None" if "counted s" "missing_features s' = 0"
  proof (cases "b > 0")
    case True
    with r(4) have bw: "feature_number sn c ''effective_bw_bytes_per_second'' ''link.effective_bw'' True True s3 = Inr (bw, s')"
      by simp
    have "bw \<noteq> None" using required_number_known [OF bw] a that by (simp add: accounts_def)
    with bw show ?thesis unfolding t by (intro rate_duration_known) (use feature_number_positive in blast)
  qed (simp add: t rate_duration_def)
qed

lemma prefill_stage_ok:
  assumes "prefill_stage sn c s = Inr (t, s')"
  shows "nonneg t" "accounts s s'" and "counted s \<Longrightarrow> missing_features s' = 0 \<Longrightarrow> t \<noteq> None"
proof -
  obtain p k s1 s2 n r where r:
    "feature_number_or 0 sn c ''prompt_tokens'' ''request.context_tokens'' s = Inr (p, s1)"
    "feature_number_or 0 sn c ''cached_tokens'' [] s1 = Inr (k, s2)"
    "feature_number sn c ''prefill_tokens_per_second'' ''runtime.prefill_tps'' (n > 0) (n > 0) s2 = Inr (r, s')"
    and t: "t = rate_duration n r 0"
    using assms unfolding prefill_stage_def feat_bind_Inr_iff Let_def feat_return_Inr_iff by blast
  show "nonneg t" unfolding t using feature_number_nonneg [OF r(3)] by (rule rate_duration_nonneg) simp
  have a: "accounts s s2" using r(1,2) by (meson reads_account accounts_trans)
  then show "accounts s s'" using r(3) by (meson reads_account accounts_trans)
  show "t \<noteq> None" if "counted s" "missing_features s' = 0"
  proof (cases "n > 0")
    case True
    with r(3) have bw: "feature_number sn c ''prefill_tokens_per_second'' ''runtime.prefill_tps'' True True s2 = Inr (r, s')"
      by simp
    have "r \<noteq> None" using required_number_known [OF bw] a that by (simp add: accounts_def)
    with bw show ?thesis unfolding t by (intro rate_duration_known) (use feature_number_positive in blast)
  qed (simp add: t rate_duration_def)
qed

lemma decode_stage_ok:
  assumes "decode_stage sn c s = Inr ((r, t), s')"
  shows "nonneg r" "nonneg t" "accounts s s'" and "counted s \<Longrightarrow> missing_features s' = 0 \<Longrightarrow> t \<noteq> None"
proof -
  obtain n s1 where r:
    "feature_number_or 0 sn c ''expected_output_tokens'' ''request.expected_output_tokens'' s = Inr (n, s1)"
    "feature_number sn c ''decode_tokens_per_second'' ''runtime.decode_tps'' (n > 0) (n > 0) s1 = Inr (r, s')"
    and t: "t = rate_duration n r 0"
    using assms by (auto simp: decode_stage_def feat_bind_Inr_iff)
  show "nonneg r" using feature_number_nonneg [OF r(2)] .
  then show "nonneg t" unfolding t by (rule rate_duration_nonneg) simp
  have a: "accounts s s1" using r(1) by (meson reads_account)
  then show "accounts s s'" using r(2) by (meson reads_account accounts_trans)
  show "t \<noteq> None" if "counted s" "missing_features s' = 0"
  proof (cases "n > 0")
    case True
    with r(2) have bw: "feature_number sn c ''decode_tokens_per_second'' ''runtime.decode_tps'' True True s1 = Inr (r, s')"
      by simp
    have "r \<noteq> None" using required_number_known [OF bw] a that by (simp add: accounts_def)
    with bw show ?thesis unfolding t by (intro rate_duration_known) (use feature_number_positive in blast)
  qed (simp add: t rate_duration_def)
qed

lemma performance_of_ok:
  assumes "0 \<le> q" "nonneg t" "nonneg p" "nonneg r" "nonneg d"
  shows "performance_ok (performance_of q t p r d)"
  using assms
  by (auto simp: performance_ok_def performance_of_def sum_known_def known_def split: option.splits)

lemma memory_stage_ok:
  assumes "memory_stage sn c s = Inr ((m, h), s')"
  shows "0 \<le> m" "nonneg h" "accounts s s'"
    and "counted s \<Longrightarrow> missing_features s' = 0 \<Longrightarrow> 0 < m \<Longrightarrow> h \<noteq> None"
proof -
  obtain u s1 rv s2 g s3 rel s4 k where r:
    "feature_number_or 0 sn c ''hbm_used_bytes'' ''resource.hbm.used'' s = Inr (u, s1)"
    "feature_number_or 0 sn c ''hbm_reserved_bytes'' ''resource.hbm.reserved'' s1 = Inr (rv, s2)"
    "feature_number_or 0 sn c ''predicted_kv_growth_bytes'' [] s2 = Inr (g, s3)"
    "feature_number_or 0 sn c ''hbm_release_bytes'' [] s3 = Inr (rel, s4)"
    "feature_number sn c ''hbm_capacity_bytes'' [] (m > 0) (m > 0) s4 = Inr (k, s')"
    and m: "m = max 0 (u + rv + g - rel)"
    and h: "h = (case k of None \<Rightarrow> None | Some k \<Rightarrow> if k > 0 then Some (m / k) else None)"
    using assms by (auto simp: memory_stage_def feat_bind_Inr_iff Let_def)
  show "0 \<le> m" by (simp add: m)
  then show "nonneg h" by (simp add: h split: option.splits)
  have a: "accounts s s4" using r(1-4) by (meson reads_account accounts_trans)
  then show "accounts s s'" using r(5) by (meson reads_account accounts_trans)
  show "h \<noteq> None" if "counted s" "missing_features s' = 0" "0 < m"
  proof -
    from r(5) that have k: "feature_number sn c ''hbm_capacity_bytes'' [] True True s4 = Inr (k, s')" by simp
    have "k \<noteq> None" using required_number_known [OF k] a that by (simp add: accounts_def)
    then show ?thesis using k by (auto simp: h dest: feature_number_positive)
  qed
qed

lemma some_risk_ok:
  assumes "\<And>r. r \<in> set rs \<Longrightarrow> 0 \<le> r \<and> r \<le> (1::real)"
  shows "is_probability (case rs of [] \<Rightarrow> None | r # rs \<Rightarrow> Some (foldl max r rs))"
  using assms by (cases rs) (auto intro!: conjI foldl_max_bounds [THEN conjunct1] foldl_max_bounds [THEN conjunct2])

lemma reliability_stage_ok:
  assumes "reliability_stage sn c e h s = Inr (r, s')"
  shows "reliability_ok r" "accounts s s'"
proof -
  obtain dl s1 base o' tm where f:
    "feature_number sn c ''deadline_seconds'' [] False False s = Inr (dl, s1)"
    "feature_number sn c ''base_success_probability'' [] False False s1 = Inr (base, s')"
    and o': "o' = map_option (\<lambda>h. clamp01 (max 0 (h - 9 / 10) * 2)) h"
    and tm: "tm = (case (e, dl) of (Some e, Some d) \<Rightarrow> Some (deadline_risk e d) | _ \<Rightarrow> None)"
    and r: "r = \<lparr>rp_success_probability = success_probability base o' tm, rp_oom_probability = o',
        rp_timeout_probability = tm,
        rp_slo_violation_probability =
          (case List.map_filter (\<lambda>r. r) [o', tm] of [] \<Rightarrow> None | r # rs \<Rightarrow> Some (foldl max r rs))\<rparr>"
    using assms unfolding reliability_stage_def feat_bind_Inr_iff Let_def feat_return_Inr_iff by blast
  from f show "accounts s s'" by (meson reads_account accounts_trans)
  have p: "is_probability o'" "is_probability tm" by (auto simp: o' tm known_def split: option.splits)
  have "is_probability (rp_slo_violation_probability r)"
    unfolding r reliability_prediction.select_convs
    by (rule some_risk_ok) (use p in \<open>auto simp: List.map_filter_def known_def split: option.splits if_splits\<close>)
  with p show "reliability_ok r" by (simp add: reliability_ok_def r success_probability_ok)
qed

lemma cost_stage_ok:
  assumes "cost_stage sn c e m b s = Inr (r, s')" "nonneg e" "0 \<le> m" "0 \<le> b"
  shows "cost_ok r" "accounts s s'"
    and "e \<noteq> None \<Longrightarrow> cp_gpu_seconds r \<noteq> None \<and> cp_memory_time r \<noteq> None \<and> cp_monetary_cost r \<noteq> None"
proof -
  obtain a s1 io s2 fx s3 gr s4 nr s5 sr where f:
    "feature_number_or 0 sn c ''allocated_gpu'' ''instance.allocated_gpu'' s = Inr (a, s1)"
    "feature_number_or 0 sn c ''storage_io_bytes'' [] s1 = Inr (io, s2)"
    "feature_number_or 0 sn c ''fixed_cost'' [] s2 = Inr (fx, s3)"
    "feature_number_or 0 sn c ''gpu_second_cost'' [] s3 = Inr (gr, s4)"
    "feature_number_or 0 sn c ''network_byte_cost'' [] s4 = Inr (nr, s5)"
    "feature_number_or 0 sn c ''storage_io_byte_cost'' [] s5 = Inr (sr, s')"
    and r: "r = \<lparr>cp_gpu_seconds = map_option (\<lambda>e. e * a) e, cp_memory_time = map_option (\<lambda>e. m * e) e,
        cp_network_bytes = Some \<lfloor>b\<rfloor>, cp_storage_io_bytes = Some \<lfloor>io\<rfloor>,
        cp_monetary_cost = monetary_cost (map_option (\<lambda>e. e * a) e) b io fx gr nr sr\<rparr>"
    using assms(1) by (auto simp: cost_stage_def feat_bind_Inr_iff Let_def)
  show "accounts s s'" using f by (meson reads_account accounts_trans)
  have nn: "0 \<le> a" "0 \<le> io" "0 \<le> fx" "0 \<le> gr" "0 \<le> nr" "0 \<le> sr"
    using f by (auto dest: feature_number_or_nonneg)
  have g: "nonneg (map_option (\<lambda>e. e * a) e)" using assms(2) nn(1) by (cases e) auto
  show "cost_ok r"
    using assms(2-4) nn g monetary_cost_nonneg [OF g assms(4) nn(2-6)]
    by (cases e) (auto simp: cost_ok_def r)
  show "e \<noteq> None \<Longrightarrow> cp_gpu_seconds r \<noteq> None \<and> cp_memory_time r \<noteq> None \<and> cp_monetary_cost r \<noteq> None"
    by (auto simp: r monetary_cost_def)
qed

lemma future_stage_ok:
  assumes "future_stage sn c m h s = Inr (r, s')" "nonneg h"
  shows "future_ok r" "accounts s s'" "fp_hbm_pressure r = h"
proof -
  obtain q s1 dl s2 u s3 k where f:
    "feature_number sn c ''queue_depth'' ''runtime.queue_depth'' False False s = Inr (q, s1)"
    "feature_number_or 0 sn c ''queue_delta'' [] s1 = Inr (dl, s2)"
    "feature_number sn c ''gpu_utilization'' ''resource.gpu.util'' False False s2 = Inr (u, s3)"
    "feature_string sn c ''target_kv_location'' ''kv.location'' s3 = Inr (k, s')"
    and r: "r = \<lparr>fp_queue_depth = map_option (\<lambda>q. q + dl) q, fp_hbm_pressure = h, fp_kv_location = k,
        fp_demand = q, fp_contention = u, fp_values = [(''predicted_hbm_bytes'', PFloat m)]\<rparr>"
    using assms(1) by (auto simp: future_stage_def feat_bind_Inr_iff Let_def)
  show "accounts s s'" using f by (meson reads_account accounts_trans)
  have "nonneg q" "0 \<le> dl" "nonneg u"
    using f by (auto dest: feature_number_nonneg feature_number_or_nonneg)
  then show "future_ok r" using assms(2) by (cases q) (auto simp: future_ok_def r)
  show "fp_hbm_pressure r = h" by (simp add: r)
qed

section \<open>The whole prediction\<close>

definition timing_known :: "performance_prediction \<Rightarrow> bool" where
  "timing_known p \<longleftrightarrow> pp_ttft_seconds p \<noteq> None \<and> pp_e2e_seconds p \<noteq> None \<and> pp_transfer_eta_seconds p \<noteq> None"

definition cost_known :: "cost_prediction \<Rightarrow> bool" where
  "cost_known c \<longleftrightarrow> cp_gpu_seconds c \<noteq> None \<and> cp_memory_time c \<noteq> None \<and> cp_monetary_cost c \<noteq> None"

lemma predict_parts_ok:
  assumes "predict_parts sn c s = Inr ((pf, rl, co, fu), s')"
  shows "performance_ok pf" "reliability_ok rl" "cost_ok co" "future_ok fu" "accounts s s'"
    and "counted s \<Longrightarrow> missing_features s' = 0 \<Longrightarrow> timing_known pf \<and> cost_known co"
proof -
  obtain q b t s1 p s2 r d s3 m h s4 s5 s6 where f:
    "transfer_stage sn c s = Inr ((q, b, t), s1)" "prefill_stage sn c s1 = Inr (p, s2)"
    "decode_stage sn c s2 = Inr ((r, d), s3)" "memory_stage sn c s3 = Inr ((m, h), s4)"
    "reliability_stage sn c (pp_e2e_seconds (performance_of q t p r d)) h s4 = Inr (rl, s5)"
    "cost_stage sn c (pp_e2e_seconds (performance_of q t p r d)) m b s5 = Inr (co, s6)"
    "future_stage sn c m h s6 = Inr (fu, s')" and pf: "pf = performance_of q t p r d"
    using assms by (auto simp: predict_parts_def feat_bind_Inr_iff Let_def)
  note ok = transfer_stage_ok [OF f(1)] prefill_stage_ok [OF f(2)] decode_stage_ok [OF f(3)]
    memory_stage_ok [OF f(4)] reliability_stage_ok [OF f(5)]
  show pok: "performance_ok pf" unfolding pf using ok by (intro performance_of_ok) auto
  then have e: "nonneg (pp_e2e_seconds (performance_of q t p r d))" by (simp add: performance_ok_def pf)
  note cok = cost_stage_ok [OF f(6) e] and fok = future_stage_ok [OF f(7)]
  show "reliability_ok rl" "cost_ok co" "future_ok fu" using ok cok fok by auto
  have a: "accounts s3 s'" using ok cok fok by (meson accounts_trans)
  then show "accounts s s'" using ok by (meson accounts_trans)
  show "timing_known pf \<and> cost_known co" if s: "counted s" "missing_features s' = 0"
  proof -
    have "counted s1" "counted s2" "counted s3" "missing_features s3 = 0"
      using ok a s by (auto simp: accounts_def)
    moreover from this have "missing_features s2 = 0" "missing_features s1 = 0"
      using ok(4,7,11) s(1) by (auto simp: accounts_def)
    ultimately have "t \<noteq> None" "p \<noteq> None" "d \<noteq> None" using ok s(1) by auto
    then have "timing_known pf" by (auto simp: timing_known_def pf performance_of_def sum_known_None_iff)
    then show ?thesis using cok(3) ok(1,2,13) by (auto simp: timing_known_def cost_known_def pf)
  qed
qed

lemma analytical_predict_Inr:
  assumes "analytical_predict v i sn c = Inr p"
  obtains s where "predict_parts sn c feature_start
      = Inr ((pd_performance p, pd_reliability p, pd_cost p, pd_future_state p), s)"
    "pd_confidence p = feature_confidence sn s" "pd_snapshot_id p = sn_token sn"
    "pd_candidate_id p = ca_candidate_id c" "pd_model_version p = v" "pd_prediction_id p = i"
    "pd_fallback p = (if feature_confidence sn s \<ge> 1 / 2 \<and> required_features_complete s then ''none'' else ''baseline'')"
    "pd_notes p = fs_notes s"
  using assms
  by (auto simp: analytical_predict_def res_bind_Inr_iff Let_def prediction_post_init_def clamp01_id)

end
