(* ===== verification/SF_Prediction_Service.thy ===== *)
theory SF_Prediction_Service
  imports SF_Prediction_Lemmas SF_Snapshot
begin

text \<open>
  \<open>stateflow/prediction/service.py\<close>: predictions over the snapshots of a plane, journaled with
  their inputs so that they can be replayed. An operation returns its result and the service it
  leaves; an exception leaves the service as it was at that point. The clock and the identifiers
  drawn from \<open>uuid4()\<close> are arguments. Snapshots are values here, so the deep copies of the code are
  identities.
\<close>

section \<open>The journal\<close>

record prediction_record =
  jr_request :: prediction_request
  jr_snapshot :: snapshot
  jr_prediction :: prediction
  jr_created_at :: datetime

definition replay_pointer :: "prediction_record \<Rightarrow> string" where
  "replay_pointer r = ''prediction:'' @ pd_prediction_id (jr_prediction r)"

record prediction_journal =
  pj_records :: "(string, prediction_record) dict"
  pj_order :: "string list"

definition empty_prediction_journal :: prediction_journal where
  "empty_prediction_journal = \<lparr>pj_records = [], pj_order = []\<rparr>"

definition journal_append :: "prediction_journal \<Rightarrow> prediction_record \<Rightarrow> prediction_journal res" where
  "journal_append j r =
     (let prediction_id = pd_prediction_id (jr_prediction r) in
      if dict_has (pj_records j) prediction_id
      then Inl (ValueError (''prediction already journaled: '' @ prediction_id))
      else Inr (j\<lparr>pj_records := dict_set (pj_records j) prediction_id r,
                  pj_order := pj_order j @ [prediction_id]\<rparr>))"

definition journal_get :: "prediction_journal \<Rightarrow> string \<Rightarrow> prediction_record res" where
  "journal_get j prediction_id =
     (case dict_get (pj_records j) prediction_id of
        Some r \<Rightarrow> Inr r
      | None \<Rightarrow> Inl (KeyError (''unknown prediction: '' @ prediction_id)))"

definition journal_list :: "prediction_journal \<Rightarrow> string \<Rightarrow> string \<Rightarrow> prediction_record list res" where
  "journal_list j snapshot_id model_version =
     res_bind
       (res_map (\<lambda>i. case dict_get (pj_records j) i of Some r \<Rightarrow> Inr r | None \<Rightarrow> Inl (KeyError i)) (pj_order j))
       (\<lambda>records. Inr (filter (\<lambda>r.
          (snapshot_id = [] \<or> pd_snapshot_id (jr_prediction r) = snapshot_id) \<and>
          (model_version = [] \<or> pd_model_version (jr_prediction r) = model_version)) records))"

section \<open>The service\<close>

record prediction_service =
  ps_model :: prediction_model
  ps_min_confidence :: real
  ps_fallback :: string
  ps_journal :: prediction_journal
  ps_models :: "(string, prediction_model) dict"

definition register_model :: "prediction_service \<Rightarrow> prediction_model \<Rightarrow> bool \<Rightarrow> prediction_service res" where
  "register_model s m replace =
     (if dict_has (ps_models s) (pm_version m) \<and> \<not> replace
      then Inl (ValueError (''prediction model already registered: '' @ pm_version m))
      else Inr (s\<lparr>ps_models := dict_set (ps_models s) (pm_version m) m\<rparr>))"

fun register_models :: "prediction_service \<Rightarrow> prediction_model list \<Rightarrow> prediction_service res" where
  "register_models s [] = Inr s"
| "register_models s (m # ms) = res_bind (register_model s m False) (\<lambda>s'. register_models s' ms)"

definition prediction_service_init ::
  "prediction_model option \<Rightarrow> real \<Rightarrow> string \<Rightarrow> prediction_journal option \<Rightarrow> prediction_model list
     \<Rightarrow> prediction_service res" where
  "prediction_service_init model min_confidence fallback journal additional_models =
     (if \<not> (0 \<le> min_confidence \<and> min_confidence \<le> 1)
      then Inl (ValueError ''min_confidence must be between zero and one'')
      else
        let m = (case model of Some m \<Rightarrow> m | None \<Rightarrow> AnalyticalPredictionModel ''analytical-0.1'')
        in register_models
             \<lparr>ps_model = m, ps_min_confidence = min_confidence, ps_fallback = fallback,
              ps_journal = (case journal of Some j \<Rightarrow> j | None \<Rightarrow> empty_prediction_journal),
              ps_models = [(pm_version m, m)]\<rparr> additional_models)"

text \<open>
  \<open>_evaluate\<close>: a model that raises yields a prediction without confidence, and a prediction below
  the required confidence is marked with the fallback of the service.
\<close>

definition unavailable_prediction ::
  "prediction_service \<Rightarrow> string \<Rightarrow> snapshot \<Rightarrow> prediction_request \<Rightarrow> prediction_model \<Rightarrow> exc \<Rightarrow> prediction" where
  "unavailable_prediction s prediction_id snapshot request model e =
     (Prediction prediction_id (sn_token snapshot) (ca_candidate_id (pq_candidate_action request)) (pm_version model))
       \<lparr>pd_confidence := 0, pd_applicability := ''unavailable'', pd_fallback := ps_fallback s,
        pd_notes := [''predictor_error:'' @ exc_type_name e]\<rparr>"

definition service_evaluate ::
  "prediction_service \<Rightarrow> string \<Rightarrow> snapshot \<Rightarrow> prediction_request \<Rightarrow> prediction_model \<Rightarrow> prediction" where
  "service_evaluate s prediction_id snapshot request model =
     (case pm_predict model prediction_id snapshot (pq_candidate_action request) of
        Inl e \<Rightarrow> unavailable_prediction s prediction_id snapshot request model e
      | Inr p \<Rightarrow>
          if pd_confidence p \<ge> ps_min_confidence s then p
          else prediction_post_init (p\<lparr>pd_fallback := ps_fallback s,
                 pd_notes := pd_notes p @ [''low_confidence_fallback'']\<rparr>))"

definition service_predict ::
  "plane \<Rightarrow> string \<Rightarrow> datetime \<Rightarrow> prediction_service \<Rightarrow> prediction_request
     \<Rightarrow> prediction res \<times> prediction_service" where
  "service_predict p prediction_id now s request =
     (case read_snapshot p (pq_snapshot_id request) of
        Inl e \<Rightarrow> (Inl e, s)
      | Inr snapshot \<Rightarrow>
          (let prediction = service_evaluate s prediction_id snapshot request (ps_model s) in
           case journal_append (ps_journal s)
                  \<lparr>jr_request = request, jr_snapshot = snapshot, jr_prediction = prediction,
                   jr_created_at = now\<rparr> of
             Inl e \<Rightarrow> (Inl e, s)
           | Inr j \<Rightarrow> (Inr prediction, s\<lparr>ps_journal := j\<rparr>)))"

fun service_predict_many ::
  "plane \<Rightarrow> prediction_service \<Rightarrow> (string \<times> datetime \<times> prediction_request) list
     \<Rightarrow> prediction list res \<times> prediction_service" where
  "service_predict_many p s [] = (Inr [], s)"
| "service_predict_many p s ((i, now, request) # rest) =
     (case service_predict p i now s request of
        (Inl e, s') \<Rightarrow> (Inl e, s')
      | (Inr x, s') \<Rightarrow>
          (case service_predict_many p s' rest of
             (Inl e, s'') \<Rightarrow> (Inl e, s'')
           | (Inr xs, s'') \<Rightarrow> (Inr (x # xs), s'')))"

definition service_replay ::
  "prediction_service \<Rightarrow> string \<Rightarrow> string \<Rightarrow> string \<Rightarrow> prediction res" where
  "service_replay s fresh_id prediction_id model_version =
     res_bind (journal_get (ps_journal s) prediction_id) (\<lambda>r.
       let version = (if model_version \<noteq> [] then model_version else pd_model_version (jr_prediction r)) in
       case dict_get (ps_models s) version of
         None \<Rightarrow> Inl (KeyError (''prediction model version is unavailable: '' @ version))
       | Some model \<Rightarrow>
           (let replayed = service_evaluate s fresh_id (jr_snapshot r) (jr_request r) model in
            Inr (if version = pd_model_version (jr_prediction r)
                 then prediction_post_init (replayed\<lparr>pd_prediction_id := prediction_id\<rparr>) else replayed)))"

definition service_records :: "prediction_service \<Rightarrow> string \<Rightarrow> string \<Rightarrow> prediction_record list res" where
  "service_records s snapshot_id model_version = journal_list (ps_journal s) snapshot_id model_version"

text \<open>The three ways an evaluation ends.\<close>

lemma unavailable_prediction_simps [simp]:
  "pd_prediction_id (unavailable_prediction s i sn r m e) = i"
  "pd_snapshot_id (unavailable_prediction s i sn r m e) = sn_token sn"
  "pd_candidate_id (unavailable_prediction s i sn r m e) = ca_candidate_id (pq_candidate_action r)"
  "pd_model_version (unavailable_prediction s i sn r m e) = pm_version m"
  "pd_confidence (unavailable_prediction s i sn r m e) = 0"
  "pd_fallback (unavailable_prediction s i sn r m e) = ps_fallback s"
  by (simp_all add: unavailable_prediction_def Prediction_def prediction_post_init_def)

definition mark_doubtful :: "prediction_service \<Rightarrow> prediction \<Rightarrow> prediction" where
  "mark_doubtful s p = prediction_post_init
     (p\<lparr>pd_fallback := ps_fallback s, pd_notes := pd_notes p @ [''low_confidence_fallback'']\<rparr>)"

lemma mark_doubtful_simps [simp]:
  "pd_prediction_id (mark_doubtful s p) = pd_prediction_id p"
  "pd_snapshot_id (mark_doubtful s p) = pd_snapshot_id p"
  "pd_candidate_id (mark_doubtful s p) = pd_candidate_id p"
  "pd_model_version (mark_doubtful s p) = pd_model_version p"
  "pd_fallback (mark_doubtful s p) = ps_fallback s"
  by (simp_all add: mark_doubtful_def prediction_post_init_def)

lemma service_evaluate_cases:
  obtains e where "pm_predict m i sn (pq_candidate_action r) = Inl e"
      "service_evaluate s i sn r m = unavailable_prediction s i sn r m e"
  | p where "pm_predict m i sn (pq_candidate_action r) = Inr p" "ps_min_confidence s \<le> pd_confidence p"
      "service_evaluate s i sn r m = p"
  | p where "pm_predict m i sn (pq_candidate_action r) = Inr p" "pd_confidence p < ps_min_confidence s"
      "service_evaluate s i sn r m = mark_doubtful s p"
proof (cases "pm_predict m i sn (pq_candidate_action r)")
  case (Inl e)
  with that(1) show ?thesis by (simp add: service_evaluate_def)
next
  case (Inr p)
  with that(2,3) show ?thesis
    by (cases "ps_min_confidence s \<le> pd_confidence p") (simp_all add: service_evaluate_def mark_doubtful_def)
qed

section \<open>The contract of a model\<close>

text \<open>
  What the journal, the replay and the controllers rely on: a prediction carries the version of its
  model, the snapshot and the candidate it is about and the identifier it was given; the identifier
  influences nothing else; and the numbers make sense.
\<close>

locale sound_model =
  fixes m :: prediction_model
  assumes identified: "pm_predict m i sn c = map_sum id (\<lambda>p. p\<lparr>pd_prediction_id := i\<rparr>) (pm_predict m j sn c)"
    and versioned: "pm_predict m i sn c = Inr p \<Longrightarrow> pd_model_version p = pm_version m"
    and about: "pm_predict m i sn c = Inr p \<Longrightarrow> pd_snapshot_id p = sn_token sn \<and> pd_candidate_id p = ca_candidate_id c"
    and ok: "pm_predict m i sn c = Inr p \<Longrightarrow> prediction_ok p"
begin

lemma evaluate_ok: "prediction_ok (service_evaluate s i sn r m)"
proof (rule service_evaluate_cases [of m i sn r s])
  fix e assume "service_evaluate s i sn r m = unavailable_prediction s i sn r m e"
  then show ?thesis using Prediction_ok by (simp add: unavailable_prediction_def prediction_ok_def)
next
  fix p assume "pm_predict m i sn (pq_candidate_action r) = Inr p" "service_evaluate s i sn r m = p"
  then show ?thesis using ok by simp
next
  fix p assume p: "pm_predict m i sn (pq_candidate_action r) = Inr p" "service_evaluate s i sn r m = mark_doubtful s p"
  then show ?thesis using ok [OF p(1)] by (simp add: mark_doubtful_def prediction_ok_def prediction_post_init_def)
qed

lemma predict_id:
  assumes "pm_predict m i sn c = Inr p"
  shows "pd_prediction_id p = i"
proof -
  have "p = p\<lparr>pd_prediction_id := i\<rparr>" using identified [of i sn c i] assms by simp
  then have "pd_prediction_id p = pd_prediction_id (p\<lparr>pd_prediction_id := i\<rparr>)" by (rule arg_cong)
  then show ?thesis by simp
qed

lemma evaluate_id: "pd_prediction_id (service_evaluate s i sn r m) = i"
  by (rule service_evaluate_cases [of m i sn r s]) (auto simp: predict_id)

lemma evaluate_version: "pd_model_version (service_evaluate s i sn r m) = pm_version m"
  by (rule service_evaluate_cases [of m i sn r s]) (auto simp: versioned)

lemma evaluate_snapshot: "pd_snapshot_id (service_evaluate s i sn r m) = sn_token sn"
  by (rule service_evaluate_cases [of m i sn r s]) (auto simp: about)

lemma evaluate_candidate:
  "pd_candidate_id (service_evaluate s i sn r m) = ca_candidate_id (pq_candidate_action r)"
  by (rule service_evaluate_cases [of m i sn r s]) (auto simp: about)

text \<open>Evaluating again, under another identifier, changes the identifier only.\<close>

lemma evaluate_again:
  "(service_evaluate s j sn r m)\<lparr>pd_prediction_id := i\<rparr> = service_evaluate s i sn r m"
proof (cases "pm_predict m j sn (pq_candidate_action r)")
  case (Inl e)
  then show ?thesis using identified [of i sn "pq_candidate_action r" j]
    by (simp add: service_evaluate_def unavailable_prediction_def Prediction_def prediction_post_init_def)
next
  case (Inr p)
  then show ?thesis using identified [of i sn "pq_candidate_action r" j]
    by (simp add: service_evaluate_def prediction_post_init_def)
qed

text \<open>A prediction the service marks as usable is one the model made with enough confidence.\<close>

lemma evaluate_low_confidence:
  assumes "pd_confidence (service_evaluate s i sn r m) < ps_min_confidence s"
  shows "pd_fallback (service_evaluate s i sn r m) = ps_fallback s"
  by (rule service_evaluate_cases [of m i sn r s]) (use assms in auto)

end

interpretation analytical: sound_model "AnalyticalPredictionModel v" for v
proof (unfold_locales, goal_cases)
  case (1 i sn c j)
  show ?case
    by (auto simp: AnalyticalPredictionModel_def analytical_predict_def res_bind_def Let_def
        prediction_post_init_def split: sum.splits prod.splits)
next
  case (2 i sn c p)
  then show ?case by (auto simp: AnalyticalPredictionModel_def elim: analytical_predict_Inr)
next
  case (3 i sn c p)
  then show ?case by (auto simp: AnalyticalPredictionModel_def elim: analytical_predict_Inr)
next
  case (4 i sn c p)
  then obtain s where "predict_parts sn c feature_start
      = Inr ((pd_performance p, pd_reliability p, pd_cost p, pd_future_state p), s)"
    "pd_confidence p = feature_confidence sn s"
    by (auto simp: AnalyticalPredictionModel_def elim: analytical_predict_Inr)
  then show ?case using predict_parts_ok [of sn c feature_start] by (simp add: prediction_ok_def)
qed

end
