(* ===== verification/SF_Prediction_Properties.thy ===== *)
theory SF_Prediction_Properties
  imports SF_Prediction_Service
begin

text \<open>
  The properties of the prediction model and its service, with an example that instantiates them:
  a request of 100 prompt and 10 output tokens whose parameters supply every rate.
\<close>

section \<open>An example\<close>

definition ex_snapshot :: snapshot where
  "ex_snapshot = \<lparr>sn_token = ''t'', sn_logical_time = 1, sn_created_at = utc 0, sn_completeness = 1,
     sn_values = [], sn_relations = [], sn_missing = [], sn_stale = []\<rparr>"

definition ex_candidate :: candidate_action where
  "ex_candidate = \<lparr>ca_action_type = ''route'', ca_target_component = ''e'',
     ca_parameters = [(''prompt_tokens'', PInt 100), (''prefill_tokens_per_second'', PInt 50),
       (''expected_output_tokens'', PInt 10), (''decode_tokens_per_second'', PInt 5)],
     ca_candidate_id = ''c''\<rparr>"

definition ex_plane :: plane where
  "ex_plane = (projr (plane_init empty_registry 8 8 8 8))
     \<lparr>pl_snapshots := [(''t'', ex_snapshot)]\<rparr>"

definition ex_service :: prediction_service where
  "ex_service = \<lparr>ps_model = AnalyticalPredictionModel ''v'', ps_min_confidence = 1 / 2,
     ps_fallback = ''heuristic'', ps_journal = empty_prediction_journal,
     ps_models = [(''v'', AnalyticalPredictionModel ''v'')]\<rparr>"

abbreviation ex_request :: prediction_request where
  "ex_request \<equiv> \<lparr>pq_snapshot_id = ''t'', pq_candidate_action = ex_candidate\<rparr>"

lemma ex_parameter:
  "dict_get (ca_parameters ex_candidate) p =
     (if p = ''prompt_tokens'' then Some (PInt 100) else if p = ''prefill_tokens_per_second'' then Some (PInt 50)
      else if p = ''expected_output_tokens'' then Some (PInt 10)
      else if p = ''decode_tokens_per_second'' then Some (PInt 5) else None)"
  by (simp add: ex_candidate_def)

lemma ex_no_values: "matching_values ex_snapshot k = []"
  by (simp add: matching_values_def ex_snapshot_def)

text \<open>The reads of the example: a supplied feature has its value, any other one its default.\<close>

lemma ex_supplied:
  assumes "dict_get (ca_parameters ex_candidate) p = Some (PInt n)" "0 < n"
  shows "feature_number ex_snapshot ex_candidate p k r q s = Inr (Some (real_of_int n),
      if r then s\<lparr>fs_required := Suc (fs_required s), fs_available := Suc (fs_available s)\<rparr> else s)"
    and "feature_number_or d ex_snapshot ex_candidate p k s = Inr (real_of_int n, s)"
  using assms
  by (simp_all add: feature_number_def feature_number_or_def feature_resolve_def feature_float_def
      Let_def feat_bind_def feat_return_def)

lemma ex_absent:
  assumes "dict_get (ca_parameters ex_candidate) p = None"
  shows "feature_number ex_snapshot ex_candidate p k False False s = Inr (None, s)"
    and "feature_number_or d ex_snapshot ex_candidate p k s = Inr (d, s)"
    and "feature_string ex_snapshot ex_candidate p k s = Inr (None, s)"
  using assms
  by (simp_all add: feature_number_def feature_number_or_def feature_string_def feature_resolve_def
      selected_value_def ex_no_values Let_def feat_bind_def feat_return_def)

lemmas ex_reads = ex_supplied ex_absent ex_parameter feat_bind_def feat_return_def Let_def

lemma ex_transfer: "transfer_stage ex_snapshot ex_candidate s = Inr ((0, 0, Some 0), s)"
  by (simp add: transfer_stage_def ex_reads rate_duration_def)

lemma ex_prefill: "prefill_stage ex_snapshot ex_candidate s = Inr (Some 2,
    s\<lparr>fs_required := Suc (fs_required s), fs_available := Suc (fs_available s)\<rparr>)"
  by (simp add: prefill_stage_def ex_reads rate_duration_def)

lemma ex_decode: "decode_stage ex_snapshot ex_candidate s = Inr ((Some 5, Some 2),
    s\<lparr>fs_required := Suc (fs_required s), fs_available := Suc (fs_available s)\<rparr>)"
  by (simp add: decode_stage_def ex_reads rate_duration_def)

lemma ex_memory: "memory_stage ex_snapshot ex_candidate s = Inr ((0, None), s)"
  by (simp add: memory_stage_def ex_reads)

lemma ex_start: "sn_completeness ex_snapshot = 1" "fs_required feature_start = 0" "fs_available feature_start = 0"
  by (simp_all add: ex_snapshot_def feature_start_def)

lemma ex_prediction:
  obtains p where "analytical_predict ''v'' i ex_snapshot ex_candidate = Inr p" "pd_fallback p = ''none''"
    "pp_e2e_seconds (pd_performance p) = Some 4" "pd_confidence p = 1" "pd_prediction_id p = i"
proof -
  obtain pf rl co fu s where parts: "predict_parts ex_snapshot ex_candidate feature_start = Inr ((pf, rl, co, fu), s)"
    and s: "fs_required s = 2" "fs_available s = 2" and e: "pp_e2e_seconds pf = Some 4"
    by (simp add: predict_parts_def ex_transfer ex_prefill ex_decode ex_memory reliability_stage_def
        cost_stage_def future_stage_def ex_reads performance_of_def sum_known_def ex_start)
  have c: "feature_confidence ex_snapshot s = 1"
    using s by (simp add: feature_confidence_def ex_start clamp01_id)
  have "\<exists>p. analytical_predict ''v'' i ex_snapshot ex_candidate = Inr p \<and> pd_fallback p = ''none'' \<and>
      pp_e2e_seconds (pd_performance p) = Some 4 \<and> pd_confidence p = 1 \<and> pd_prediction_id p = i"
    using s e c by (simp add: analytical_predict_def parts prediction_post_init_def clamp01_id required_features_complete_def)
  with that show ?thesis by blast
qed

section \<open>What a prediction says\<close>

text \<open>C40: Every prediction of the analytical model is well formed: known probabilities lie between
  zero and one, known times, byte counts and costs are not negative, a known end-to-end time comes
  with a known time to first token that is not longer, and the confidence lies between zero and
  one, whatever the snapshot and the parameters of the candidate hold.\<close>
theorem prediction_well_formed:
  assumes "analytical_predict version i sn c = Inr p"
  shows "prediction_ok p"
proof -
  obtain s where "predict_parts sn c feature_start
      = Inr ((pd_performance p, pd_reliability p, pd_cost p, pd_future_state p), s)"
    "pd_confidence p = feature_confidence sn s"
    by (rule analytical_predict_Inr [OF assms])
  then show ?thesis using predict_parts_ok [of sn c feature_start] by (simp add: prediction_ok_def)
qed

theorem prediction_well_formed_witness:
  "\<exists>p. analytical_predict ''v'' ''i'' ex_snapshot ex_candidate = Inr p \<and> prediction_ok p"
proof -
  obtain p where p: "analytical_predict ''v'' ''i'' ex_snapshot ex_candidate = Inr p"
    using ex_prediction by blast
  with prediction_well_formed [OF p] show ?thesis by blast
qed

text \<open>C36: A prediction that declares no fallback is complete: its time to first token, end-to-end
  time, transfer time, GPU time, memory time and monetary cost are all known, and its confidence is
  at least one half. So one missing required rate is enough to withdraw the prediction.\<close>
theorem trusted_prediction_complete:
  assumes "analytical_predict version i sn c = Inr p" "pd_fallback p = ''none''"
  shows "timing_known (pd_performance p) \<and> cost_known (pd_cost p) \<and> 1 / 2 \<le> pd_confidence p"
proof -
  obtain s where s: "predict_parts sn c feature_start
      = Inr ((pd_performance p, pd_reliability p, pd_cost p, pd_future_state p), s)"
    "pd_confidence p = feature_confidence sn s"
    "pd_fallback p = (if feature_confidence sn s \<ge> 1 / 2 \<and> required_features_complete s then ''none'' else ''baseline'')"
    by (rule analytical_predict_Inr [OF assms(1)])
  then have "missing_features s = 0" "1 / 2 \<le> pd_confidence p"
    using assms(2) by (auto simp: missing_features_def required_features_complete_def split: if_splits)
  then show ?thesis using predict_parts_ok(6) [OF s(1)] by simp
qed

theorem trusted_prediction_complete_witness:
  "\<exists>p. analytical_predict ''v'' ''i'' ex_snapshot ex_candidate = Inr p \<and> timing_known (pd_performance p)"
proof -
  obtain p where p: "analytical_predict ''v'' ''i'' ex_snapshot ex_candidate = Inr p" "pd_fallback p = ''none''"
    by (rule ex_prediction)
  with trusted_prediction_complete [OF p] show ?thesis by blast
qed

text \<open>The canonical keys the model reads; nothing else in a snapshot can change a prediction.\<close>

definition feature_keys :: "string list" where
  "feature_keys = [''request.queue_time'', ''kv.size'', ''link.effective_bw'', ''request.context_tokens'',
     ''runtime.prefill_tps'', ''request.expected_output_tokens'', ''runtime.decode_tps'',
     ''resource.hbm.used'', ''resource.hbm.reserved'', ''instance.allocated_gpu'',
     ''runtime.queue_depth'', ''resource.gpu.util'', ''kv.location'']"

definition same_features :: "snapshot \<Rightarrow> snapshot \<Rightarrow> bool" where
  "same_features sn sn' \<longleftrightarrow> sn_token sn = sn_token sn' \<and> sn_created_at sn = sn_created_at sn' \<and>
     sn_completeness sn = sn_completeness sn' \<and>
     (\<forall>k \<in> set feature_keys. matching_values sn k = matching_values sn' k)"

lemma same_features_resolve:
  assumes "same_features sn sn'" "k = [] \<or> k \<in> set feature_keys"
  shows "feature_resolve sn c p k = feature_resolve sn' c p k"
proof
  fix s show "feature_resolve sn c p k s = feature_resolve sn' c p k s"
  proof (cases "k = []")
    case True
    then show ?thesis by (simp add: feature_resolve_def split: option.split)
  next
    case False
    with assms show ?thesis by (intro feature_resolve_local) (auto simp: same_features_def)
  qed
qed

lemma same_features_reads:
  assumes "same_features sn sn'" "k = [] \<or> k \<in> set feature_keys"
  shows "feature_number sn c p k r q = feature_number sn' c p k r q"
    and "feature_number_or d sn c p k = feature_number_or d sn' c p k"
    and "feature_string sn c p k = feature_string sn' c p k"
proof -
  show n: "feature_number sn c p k r q = feature_number sn' c p k r q" for r q
    by (simp add: feature_number_def same_features_resolve [OF assms] fun_eq_iff)
  show "feature_number_or d sn c p k = feature_number_or d sn' c p k"
    by (simp add: feature_number_or_def n)
  show "feature_string sn c p k = feature_string sn' c p k"
    by (simp add: feature_string_def same_features_resolve [OF assms] fun_eq_iff)
qed

text \<open>A prediction is a function of the features it names: two snapshots with the same token,
  creation time and completeness that agree on the values of the thirteen canonical keys the model
  reads give the same prediction, or the same error, for every candidate, however else they
  differ.\<close>
theorem prediction_reads_named_keys_only:
  assumes "same_features sn sn'"
  shows "analytical_predict version i sn c = analytical_predict version i sn' c"
proof -
  note r = same_features_reads [OF assms]
  have "transfer_stage sn c = transfer_stage sn' c" "prefill_stage sn c = prefill_stage sn' c"
    "decode_stage sn c = decode_stage sn' c" "memory_stage sn c = memory_stage sn' c"
    "reliability_stage sn c = reliability_stage sn' c" "cost_stage sn c = cost_stage sn' c"
    "future_stage sn c = future_stage sn' c"
    by (simp_all add: transfer_stage_def prefill_stage_def decode_stage_def memory_stage_def
        reliability_stage_def cost_stage_def future_stage_def r feature_keys_def fun_eq_iff)
  then have "predict_parts sn c = predict_parts sn' c" by (simp add: predict_parts_def)
  then show ?thesis using assms
    by (simp add: analytical_predict_def same_features_def feature_confidence_def)
qed

theorem prediction_reads_named_keys_only_witness:
  "analytical_predict ''v'' ''i'' (ex_snapshot\<lparr>sn_stale := [''x''], sn_logical_time := 9\<rparr>) ex_candidate
     = analytical_predict ''v'' ''i'' ex_snapshot ex_candidate"
  by (rule prediction_reads_named_keys_only) (simp add: same_features_def matching_values_def)

section \<open>The service\<close>

text \<open>What the steps of a service keep: its configuration, its active model, and every journal entry.\<close>

inductive service_step :: "prediction_service \<Rightarrow> prediction_service \<Rightarrow> bool" where
  predicting: "service_predict p i now s request = (r, t) \<Longrightarrow> service_step s t"
| registering: "register_model s m replace = Inr t \<Longrightarrow> (replace \<longrightarrow> pm_version m \<noteq> pm_version (ps_model s))
    \<Longrightarrow> service_step s t"

inductive_cases service_stepE: "service_step s t"

definition active_registered :: "prediction_service \<Rightarrow> bool" where
  "active_registered s \<longleftrightarrow> dict_get (ps_models s) (pm_version (ps_model s)) = Some (ps_model s)"

definition extends_service :: "prediction_service \<Rightarrow> prediction_service \<Rightarrow> bool" where
  "extends_service s t \<longleftrightarrow> ps_model t = ps_model s \<and> ps_min_confidence t = ps_min_confidence s \<and>
     ps_fallback t = ps_fallback s \<and>
     (\<forall>i r. dict_get (pj_records (ps_journal s)) i = Some r \<longrightarrow> dict_get (pj_records (ps_journal t)) i = Some r)"

lemma journal_append_Inr:
  "journal_append j r = Inr j' \<longleftrightarrow> \<not> dict_has (pj_records j) (pd_prediction_id (jr_prediction r)) \<and>
     j' = j\<lparr>pj_records := dict_set (pj_records j) (pd_prediction_id (jr_prediction r)) r,
            pj_order := pj_order j @ [pd_prediction_id (jr_prediction r)]\<rparr>"
  by (auto simp: journal_append_def Let_def)

lemma service_predict_cases:
  assumes "service_predict p i now s request = (r, t)"
  obtains e where "r = Inl e" "t = s"
  | sn where "read_snapshot p (pq_snapshot_id request) = Inr sn"
      "r = Inr (service_evaluate s i sn request (ps_model s))"
      "journal_append (ps_journal s) \<lparr>jr_request = request, jr_snapshot = sn,
         jr_prediction = service_evaluate s i sn request (ps_model s), jr_created_at = now\<rparr> = Inr (ps_journal t)"
      "t = s\<lparr>ps_journal := ps_journal t\<rparr>"
  using assms by (auto simp: service_predict_def Let_def split: sum.splits)

interpretation service: monotone_system service_step active_registered extends_service
proof (unfold_locales, goal_cases)
  case (1 s t)
  from 1(2) show ?case
  proof (cases rule: service_step.cases)
    case (predicting p i now request r)
    then show ?thesis using 1(1)
      by (elim service_predict_cases) (auto simp: active_registered_def, metis prediction_service.select_convs(1,5)
        prediction_service.surjective prediction_service.update_convs(4))
  next
    case (registering m replace)
    then show ?thesis using 1(1)
      by (auto simp: register_model_def active_registered_def dict_has_def split: if_splits)
  qed
next
  case (2 s) then show ?case by (simp add: extends_service_def)
next
  case (3 s t u) then show ?case by (auto simp: extends_service_def)
next
  case (4 s t)
  from 4(2) show ?case
  proof (cases rule: service_step.cases)
    case (predicting p i now request r)
    from this(1) show ?thesis
    proof (cases rule: service_predict_cases)
      case (2 sn)
      then show ?thesis unfolding extends_service_def
        by (subst (1 2 3) 2(4)) (auto simp: journal_append_Inr dict_has_def)
    qed (simp add: extends_service_def)
  next
    case (registering m replace)
    then show ?thesis by (auto simp: register_model_def extends_service_def split: if_splits)
  qed
qed

text \<open>A new service has its active model registered: the additional models cannot replace it.\<close>

lemma register_model_registered:
  "register_model s m False = Inr t \<Longrightarrow> active_registered s \<Longrightarrow> active_registered t"
  by (auto simp: register_model_def active_registered_def dict_has_def split: if_splits)

lemma register_models_registered:
  "register_models s ms = Inr t \<Longrightarrow> active_registered s \<Longrightarrow> active_registered t"
proof (induction ms arbitrary: s)
  case (Cons m ms)
  then show ?case using register_model_registered by (auto simp: res_bind_Inr_iff)
qed simp

lemma new_service_registered:
  assumes "prediction_service_init model c fallback journal ms = Inr s"
  shows "active_registered s"
  using assms register_models_registered [of _ ms s]
  by (force simp: prediction_service_init_def Let_def active_registered_def split: if_splits)

text \<open>C37: A journaled prediction can be replayed: as long as the active model is registered (it is in
  every new service) and not replaced, replaying the prediction after any further predictions, on any
  planes, and any further model registrations returns exactly the prediction that was served,
  identifier included, although the state plane has moved on. It holds of every active model that
  keeps the contract of a model: the identifier it is given is copied to its prediction and
  influences nothing else, the prediction carries the model's version and is about the given
  snapshot and candidate, and its numbers are in range. The analytical model does.\<close>
theorem replay_reproduces_prediction:
  assumes "sound_model (ps_model s)" "active_registered s"
    and "service_predict p i now s request = (Inr x, s1)" "service_step\<^sup>*\<^sup>* s1 s2"
  shows "service_replay s2 fresh i [] = Inr x"
proof -
  let ?m = "ps_model s"
  from assms(3) obtain sn where x: "x = service_evaluate s i sn request ?m"
    and j: "journal_append (ps_journal s) \<lparr>jr_request = request, jr_snapshot = sn, jr_prediction = x,
         jr_created_at = now\<rparr> = Inr (ps_journal s1)"
    by (cases rule: service_predict_cases) auto
  have id: "pd_prediction_id x = i" and ver: "pd_model_version x = pm_version ?m"
    unfolding x by (rule sound_model.evaluate_id [OF assms(1)], rule sound_model.evaluate_version [OF assms(1)])
  have step: "service_step s s1" using assms(3) by (rule predicting)
  have reg: "active_registered s2" and ext: "extends_service s1 s2" "extends_service s s1"
    using service.run_inv service.run_above service.step_above service.step_inv step assms(2,4) by blast+
  have cfg: "ps_model s2 = ?m" "ps_min_confidence s2 = ps_min_confidence s" "ps_fallback s2 = ps_fallback s"
    using ext by (auto simp: extends_service_def)
  have rec: "dict_get (pj_records (ps_journal s2)) i
      = Some \<lparr>jr_request = request, jr_snapshot = sn, jr_prediction = x, jr_created_at = now\<rparr>"
    using j ext(1) id by (auto simp: extends_service_def journal_append_Inr)
  have model: "dict_get (ps_models s2) (pm_version ?m) = Some ?m"
    using reg cfg(1) by (simp add: active_registered_def)
  have same: "service_evaluate s2 fresh sn request ?m = service_evaluate s fresh sn request ?m"
    using cfg by (simp add: service_evaluate_def unavailable_prediction_def split: sum.split)
  have "prediction_ok x" unfolding x by (rule sound_model.evaluate_ok [OF assms(1)])
  then have "prediction_post_init x = x" by (simp add: prediction_ok_def prediction_post_init_def clamp01_id)
  then show ?thesis
    by (simp add: service_replay_def journal_get_def rec ver model same sound_model.evaluate_again [OF assms(1)]
        flip: x)
qed

lemma ex_service_active: "active_registered ex_service"
  by (simp add: active_registered_def ex_service_def AnalyticalPredictionModel_def)

lemma ex_read: "read_snapshot ex_plane ''t'' = Inr ex_snapshot"
  by (simp add: read_snapshot_def ex_plane_def plane_init_def)

lemma ex_predicts:
  obtains x s1 where "service_predict ex_plane ''i'' (utc 1) ex_service ex_request = (Inr x, s1)"
  by (auto simp: service_predict_def ex_read Let_def journal_append_def ex_service_def
      empty_prediction_journal_def dict_has_def)

theorem replay_reproduces_prediction_witness:
  "\<exists>x s1 s2. service_predict ex_plane ''i'' (utc 1) ex_service ex_request = (Inr x, s1) \<and>
     service_predict ex_plane ''j'' (utc 2) s1 ex_request = s2 \<and>
     service_replay (snd s2) ''fresh'' ''i'' [] = Inr x"
proof -
  obtain x s1 where p: "service_predict ex_plane ''i'' (utc 1) ex_service ex_request = (Inr x, s1)"
    by (rule ex_predicts)
  let ?s2 = "service_predict ex_plane ''j'' (utc 2) s1 ex_request"
  have "service_step s1 (snd ?s2)" by (rule predicting [of _ _ _ _ _ "fst ?s2"]) simp
  then have "service_replay (snd ?s2) ''fresh'' ''i'' [] = Inr x"
    using replay_reproduces_prediction [OF _ ex_service_active p] analytical.sound_model_axioms
    by (auto simp: ex_service_def)
  with p show ?thesis by blast
qed

text \<open>C38: A request about a known snapshot, under an identifier not journaled yet, is always answered
  by a service whose active model keeps the contract of a model (its predictions carry the identifier
  and the version, are about the given snapshot and candidate, and have numbers in range, as those of
  the analytical model do), even when the model raises: an exception of the model becomes a
  prediction without confidence, and every answer below the required confidence names the fallback of
  the service. The answer is about the requested snapshot and candidate, a confident prediction of the
  model is passed on unchanged, and the answer is journaled with exactly those inputs.\<close>
theorem service_answers_and_journals:
  assumes "read_snapshot p (pq_snapshot_id request) = Inr sn" "sound_model (ps_model s)"
    and "\<not> dict_has (pj_records (ps_journal s)) i"
  shows "\<exists>x t. service_predict p i now s request = (Inr x, t) \<and> prediction_ok x \<and>
     pd_snapshot_id x = sn_token sn \<and> pd_candidate_id x = ca_candidate_id (pq_candidate_action request) \<and>
     (pd_confidence x < ps_min_confidence s \<longrightarrow> pd_fallback x = ps_fallback s) \<and>
     (case pm_predict (ps_model s) i sn (pq_candidate_action request) of
        Inl e \<Rightarrow> pd_confidence x = 0 \<and> pd_fallback x = ps_fallback s
      | Inr y \<Rightarrow> pd_performance x = pd_performance y \<and> pd_confidence x = pd_confidence y \<and>
          (ps_min_confidence s \<le> pd_confidence y \<longrightarrow> x = y)) \<and>
     journal_get (ps_journal t) i
       = Inr \<lparr>jr_request = request, jr_snapshot = sn, jr_prediction = x, jr_created_at = now\<rparr>"
proof -
  let ?m = "ps_model s"
  let ?x = "service_evaluate s i sn request ?m"
  let ?r = "\<lparr>jr_request = request, jr_snapshot = sn, jr_prediction = ?x, jr_created_at = now\<rparr>"
  note id = sound_model.evaluate_id [OF assms(2), of s i sn request]
  obtain j where j: "journal_append (ps_journal s) ?r = Inr j" using assms(3) by (simp add: journal_append_Inr id)
  then have "service_predict p i now s request = (Inr ?x, s\<lparr>ps_journal := j\<rparr>)"
    by (simp add: service_predict_def assms(1))
  moreover have "journal_get j i = Inr ?r" using j by (auto simp: journal_append_Inr journal_get_def id)
  moreover have "case pm_predict ?m i sn (pq_candidate_action request) of
        Inl e \<Rightarrow> pd_confidence ?x = 0 \<and> pd_fallback ?x = ps_fallback s
      | Inr y \<Rightarrow> pd_performance ?x = pd_performance y \<and> pd_confidence ?x = pd_confidence y \<and>
          (ps_min_confidence s \<le> pd_confidence y \<longrightarrow> ?x = y)"
    using sound_model.ok [OF assms(2), of i sn "pq_candidate_action request"]
    by (cases rule: service_evaluate_cases [of ?m i sn request s])
      (auto simp: mark_doubtful_def prediction_post_init_def prediction_ok_def clamp01_id)
  ultimately show ?thesis
    using sound_model.evaluate_ok [OF assms(2)] sound_model.evaluate_snapshot [OF assms(2)]
      sound_model.evaluate_candidate [OF assms(2)] sound_model.evaluate_low_confidence [OF assms(2)]
    by (intro exI [of _ ?x] exI [of _ "s\<lparr>ps_journal := j\<rparr>"]) simp
qed

theorem service_answers_and_journals_witness:
  "\<exists>x t. service_predict ex_plane ''i'' (utc 1) ex_service ex_request = (Inr x, t) \<and> pd_candidate_id x = ''c''"
proof -
  have "\<not> dict_has (pj_records (ps_journal ex_service)) ''i''"
    by (simp add: ex_service_def empty_prediction_journal_def dict_has_def)
  moreover have "sound_model (ps_model ex_service)"
    using analytical.sound_model_axioms by (simp add: ex_service_def)
  ultimately show ?thesis
    using service_answers_and_journals [of ex_plane ex_request ex_snapshot ex_service "''i''" "utc 1"]
    by (auto simp: ex_read ex_service_def ex_candidate_def)
qed

end
