(* ===== verification/SF_Control_Contracts.thy ===== *)
theory SF_Control_Contracts
  imports SF_Prediction_Contracts
begin

text \<open>
  \<open>stateflow/control/contracts.py\<close>: the records of the controller plane. Defaults drawn from
  \<open>uuid4()\<close> or \<open>utcnow()\<close> are arguments of the model.
\<close>

datatype objective = SUCCESS | LATENCY | COST | THROUGHPUT | ENERGY

fun objective_value_str :: "objective \<Rightarrow> string" where
  "objective_value_str SUCCESS = ''success''"
| "objective_value_str LATENCY = ''latency''"
| "objective_value_str COST = ''cost''"
| "objective_value_str THROUGHPUT = ''throughput''"
| "objective_value_str ENERGY = ''energy''"

record policy_intent =
  pi_name :: string
  pi_objectives :: "objective list"
  pi_version :: string
  pi_workload :: string
  pi_tenant :: string
  pi_sla :: string

definition PolicyIntent :: "string \<Rightarrow> objective list \<Rightarrow> policy_intent" where
  "PolicyIntent name objectives = \<lparr>pi_name = name, pi_objectives = objectives, pi_version = ''1'',
     pi_workload = ''default'', pi_tenant = ''default'', pi_sla = []\<rparr>"

definition policy_interactive :: policy_intent where
  "policy_interactive = PolicyIntent ''interactive'' [LATENCY, SUCCESS, COST]"

definition policy_critical :: policy_intent where
  "policy_critical = PolicyIntent ''critical'' [SUCCESS, LATENCY, COST]"

definition policy_batch :: policy_intent where
  "policy_batch = PolicyIntent ''batch'' [COST, SUCCESS, LATENCY]"

record reservation =
  rv_resource_ref :: string
  rv_owner :: string
  rv_amount :: "(string, real) dict"
  rv_expires_at :: datetime
  rv_status :: string

record action =
  ac_target_component :: string
  ac_action_type :: string
  ac_parameters :: "(string, pyval) dict"
  ac_preconditions :: "(string, pyval) dict"
  ac_idempotency_key :: string
  ac_reservations :: "reservation list"
  ac_timeout_seconds :: real
  ac_rollback_action :: "(string, pyval) dict"
  ac_dry_run :: bool
  ac_action_id :: string

text \<open>The constraints of a decision are strings; the formatted numbers in them stay numbers here.\<close>

datatype constraint =
    CText string
  | CNumber string real

record decision_record =
  de_snapshot_id :: string
  de_policy_version :: string
  de_candidate_ids :: "string list"
  de_prediction_ids :: "string list"
  de_model_versions :: "string list"
  de_selected_action :: action
  de_reason :: string
  de_constraints :: "constraint list"
  de_decision_id :: string
  de_timestamp :: datetime

datatype action_status = STARTED | COMMITTED | ACTION_FAILED | ACTION_CANCELLED | ROLLED_BACK

record outcome =
  oc_action_id :: string
  oc_status :: action_status
  oc_started_at :: datetime
  oc_completed_at :: datetime
  oc_actual_latency_seconds :: "real option"
  oc_actual_cost :: "real option"
  oc_actual_success :: "bool option"
  oc_resource_delta :: "(string, real) dict"
  oc_error :: string

record feedback =
  fe_decision_id :: string
  fe_action_id :: string
  fe_prediction_id :: string
  fe_outcome :: outcome
  fe_prediction_error :: "(string, real) dict"
  fe_policy_kpis :: "(string, real) dict"
  fe_calibration_sample :: "(string, pyval) dict"
  fe_replay_pointer :: string
  fe_timestamp :: datetime
  fe_feedback_id :: string

section \<open>Equality of records\<close>

text \<open>
  The generated \<open>__eq__\<close> of the dataclasses: mappings compare without regard to order, timestamps
  by instant, everything else by value.
\<close>

definition datetime_eq :: "datetime \<Rightarrow> datetime \<Rightarrow> bool" where
  "datetime_eq a b \<longleftrightarrow> instant a = instant b"

definition reservation_eq :: "reservation \<Rightarrow> reservation \<Rightarrow> bool" where
  "reservation_eq a b \<longleftrightarrow> rv_resource_ref a = rv_resource_ref b \<and> rv_owner a = rv_owner b \<and>
     dict_eq (rv_amount a) (rv_amount b) \<and> datetime_eq (rv_expires_at a) (rv_expires_at b) \<and>
     rv_status a = rv_status b"

definition action_eq :: "action \<Rightarrow> action \<Rightarrow> bool" where
  "action_eq a b \<longleftrightarrow> ac_target_component a = ac_target_component b \<and> ac_action_type a = ac_action_type b \<and>
     dict_eq (ac_parameters a) (ac_parameters b) \<and> dict_eq (ac_preconditions a) (ac_preconditions b) \<and>
     ac_idempotency_key a = ac_idempotency_key b \<and>
     list_all2 reservation_eq (ac_reservations a) (ac_reservations b) \<and>
     ac_timeout_seconds a = ac_timeout_seconds b \<and>
     dict_eq (ac_rollback_action a) (ac_rollback_action b) \<and> ac_dry_run a = ac_dry_run b \<and>
     ac_action_id a = ac_action_id b"

definition decision_eq :: "decision_record \<Rightarrow> decision_record \<Rightarrow> bool" where
  "decision_eq a b \<longleftrightarrow> de_snapshot_id a = de_snapshot_id b \<and> de_policy_version a = de_policy_version b \<and>
     de_candidate_ids a = de_candidate_ids b \<and> de_prediction_ids a = de_prediction_ids b \<and>
     de_model_versions a = de_model_versions b \<and> action_eq (de_selected_action a) (de_selected_action b) \<and>
     de_reason a = de_reason b \<and> de_constraints a = de_constraints b \<and>
     de_decision_id a = de_decision_id b \<and> datetime_eq (de_timestamp a) (de_timestamp b)"

definition future_eq :: "future_state_prediction \<Rightarrow> future_state_prediction \<Rightarrow> bool" where
  "future_eq a b \<longleftrightarrow> a\<lparr>fp_values := []\<rparr> = b\<lparr>fp_values := []\<rparr> \<and> dict_eq (fp_values a) (fp_values b)"

definition prediction_eq :: "prediction \<Rightarrow> prediction \<Rightarrow> bool" where
  "prediction_eq a b \<longleftrightarrow> future_eq (pd_future_state a) (pd_future_state b) \<and>
     dict_eq (pd_feature_freshness_ms a) (pd_feature_freshness_ms b) \<and>
     a\<lparr>pd_future_state := FutureStatePrediction, pd_feature_freshness_ms := []\<rparr>
       = b\<lparr>pd_future_state := FutureStatePrediction, pd_feature_freshness_ms := []\<rparr>"

definition outcome_eq :: "outcome \<Rightarrow> outcome \<Rightarrow> bool" where
  "outcome_eq a b \<longleftrightarrow> dict_eq (oc_resource_delta a) (oc_resource_delta b) \<and>
     datetime_eq (oc_started_at a) (oc_started_at b) \<and> datetime_eq (oc_completed_at a) (oc_completed_at b) \<and>
     oc_action_id a = oc_action_id b \<and> oc_status a = oc_status b \<and>
     oc_actual_latency_seconds a = oc_actual_latency_seconds b \<and> oc_actual_cost a = oc_actual_cost b \<and>
     oc_actual_success a = oc_actual_success b \<and> oc_error a = oc_error b"

lemma record_eq_refl [simp]:
  "datetime_eq t t" "action_eq a a" "decision_eq d d" "prediction_eq p p" "outcome_eq c c"
  by (simp_all add: datetime_eq_def action_eq_def decision_eq_def future_eq_def prediction_eq_def
      outcome_eq_def reservation_eq_def list_all2_same)

lemma prediction_eq_ids:
  assumes "prediction_eq p q"
  shows "pd_prediction_id p = pd_prediction_id q" "pd_candidate_id p = pd_candidate_id q"
    "pd_model_version p = pd_model_version q" "pd_reliability p = pd_reliability q"
    "pd_performance p = pd_performance q" "pd_cost p = pd_cost q" "pd_fallback p = pd_fallback q"
    "pd_snapshot_id p = pd_snapshot_id q" "pd_applicability p = pd_applicability q"
proof -
  let ?n = "\<lambda>p::prediction. p\<lparr>pd_future_state := FutureStatePrediction, pd_feature_freshness_ms := []\<rparr>"
  have n: "?n p = ?n q" using assms by (simp add: prediction_eq_def)
  show "pd_prediction_id p = pd_prediction_id q" using arg_cong [OF n, of pd_prediction_id] by simp
  show "pd_candidate_id p = pd_candidate_id q" using arg_cong [OF n, of pd_candidate_id] by simp
  show "pd_model_version p = pd_model_version q" using arg_cong [OF n, of pd_model_version] by simp
  show "pd_reliability p = pd_reliability q" using arg_cong [OF n, of pd_reliability] by simp
  show "pd_performance p = pd_performance q" using arg_cong [OF n, of pd_performance] by simp
  show "pd_cost p = pd_cost q" using arg_cong [OF n, of pd_cost] by simp
  show "pd_fallback p = pd_fallback q" using arg_cong [OF n, of pd_fallback] by simp
  show "pd_snapshot_id p = pd_snapshot_id q" using arg_cong [OF n, of pd_snapshot_id] by simp
  show "pd_applicability p = pd_applicability q" using arg_cong [OF n, of pd_applicability] by simp
qed

lemma prediction_eq_trans: "prediction_eq p q \<Longrightarrow> prediction_eq q r \<Longrightarrow> prediction_eq p r"
  unfolding prediction_eq_def future_eq_def dict_eq_iff by (elim conjE) (simp only:)

lemma prediction_eq_sym: "prediction_eq p q \<Longrightarrow> prediction_eq q p"
  unfolding prediction_eq_def future_eq_def dict_eq_iff by (elim conjE) (simp only:)

end
