(* ===== verification/SF_Evaluation.thy ===== *)
theory SF_Evaluation
  imports SF_Control_Contracts
begin

text \<open>
  \<open>stateflow/control/evaluation.py\<close>: the feedback of an observed outcome on the prediction that was
  selected, and the evaluation report with its calibration bins.
\<close>

section \<open>Feedback\<close>

type_synonym errors_kpis = "(string, real) dict \<times> (string, real) dict"

definition continuous_error ::
  "string \<Rightarrow> real option \<Rightarrow> real option \<Rightarrow> errors_kpis \<Rightarrow> errors_kpis res" where
  "continuous_error name predicted actual = (\<lambda>(errors, kpis).
     case actual of None \<Rightarrow> Inr (errors, kpis)
     | Some a \<Rightarrow>
         if a < 0 then Inl (ValueError (''actual '' @ name @ '' must be non-negative''))
         else
           let kpis' = dict_set kpis (''actual_'' @ name) a in
           case predicted of None \<Rightarrow> Inr (errors, kpis')
           | Some p \<Rightarrow>
               if p < 0 then Inl (ValueError (''predicted '' @ name @ '' must be non-negative''))
               else
                 let absolute = \<bar>p - a\<bar>;
                     errors' = dict_set errors (name @ ''_absolute_error'') absolute
                 in Inr (if a > 0 then dict_set errors' (name @ ''_absolute_percentage_error'') (absolute / a)
                         else errors', kpis'))"

definition success_error ::
  "prediction \<Rightarrow> outcome \<Rightarrow> errors_kpis \<Rightarrow> (errors_kpis \<times> (string, pyval) dict) res" where
  "success_error prediction outcome = (\<lambda>(errors, kpis).
     case oc_actual_success outcome of None \<Rightarrow> Inr ((errors, kpis), [])
     | Some success \<Rightarrow>
         let observed = (if success then 1 else 0);
             kpis' = dict_set kpis ''actual_success'' observed
         in case rp_success_probability (pd_reliability prediction) of
              None \<Rightarrow> Inr ((errors, kpis'), [])
            | Some probability \<Rightarrow>
                if \<not> (0 \<le> probability \<and> probability \<le> 1)
                then Inl (ValueError ''success probability must be between zero and one'')
                else Inr ((dict_set (dict_set errors ''success_absolute_error'' \<bar>probability - observed\<bar>)
                             ''success_brier'' ((probability - observed)\<^sup>2), kpis'),
                          [(''predicted_probability'', PFloat probability),
                           (''observed_success'', PFloat observed),
                           (''model_version'', PStr (pd_model_version prediction)),
                           (''applicability'', PStr (pd_applicability prediction))]))"

definition build_feedback ::
  "string \<Rightarrow> datetime \<Rightarrow> decision_record \<Rightarrow> prediction \<Rightarrow> outcome \<Rightarrow> string \<Rightarrow> feedback res" where
  "build_feedback feedback_id now decision prediction outcome replay_pointer =
     (if oc_action_id outcome \<noteq> ac_action_id (de_selected_action decision)
      then Inl (ValueError ''outcome action_id does not match the selected action'')
      else if pd_prediction_id prediction \<notin> set (de_prediction_ids decision)
      then Inl (ValueError ''prediction does not belong to the decision'')
      else
        res_bind (continuous_error ''latency'' (pp_e2e_seconds (pd_performance prediction))
                    (oc_actual_latency_seconds outcome) ([], [])) (\<lambda>m1.
        res_bind (continuous_error ''cost'' (cp_monetary_cost (pd_cost prediction))
                    (oc_actual_cost outcome) m1) (\<lambda>m2.
        res_bind (success_error prediction outcome m2) (\<lambda>((errors, kpis), calibration).
        Inr \<lparr>fe_decision_id = de_decision_id decision, fe_action_id = oc_action_id outcome,
             fe_prediction_id = pd_prediction_id prediction, fe_outcome = outcome,
             fe_prediction_error = errors, fe_policy_kpis = kpis,
             fe_calibration_sample = calibration, fe_replay_pointer = replay_pointer,
             fe_timestamp = now, fe_feedback_id = feedback_id\<rparr>))))"

section \<open>Calibration bins\<close>

record calibration_bin =
  cn_lower_bound :: real
  cn_upper_bound :: real
  cn_samples :: nat
  cn_mean_confidence :: real
  cn_observed_success_rate :: real
  cn_absolute_gap :: real

definition mean :: "real list \<Rightarrow> real option" where
  "mean values = (if values = [] then None else Some (sum_list values / real (length values)))"

definition bin_index :: "nat \<Rightarrow> real \<Rightarrow> nat" where
  "bin_index count probability = min (count - 1) (nat \<lfloor>probability * real count\<rfloor>)"

fun group_samples ::
  "nat \<Rightarrow> (real \<times> real) list \<Rightarrow> (real \<times> real) list list \<Rightarrow> (real \<times> real) list list res" where
  "group_samples count [] grouped = Inr grouped"
| "group_samples count ((probability, observed) # rest) grouped =
     (if \<not> (0 \<le> probability \<and> probability \<le> 1)
      then Inl (ValueError ''success probability must be between zero and one'')
      else let index = bin_index count probability in
        group_samples count rest (grouped[index := grouped ! index @ [(probability, observed)]]))"

definition calibration_bin_of :: "nat \<Rightarrow> nat \<Rightarrow> (real \<times> real) list \<Rightarrow> calibration_bin" where
  "calibration_bin_of count index values =
     (let width = 1 / real count;
          confidence = sum_list (map fst values) / real (length values);
          observed = sum_list (map snd values) / real (length values)
      in \<lparr>cn_lower_bound = real index * width, cn_upper_bound = real (index + 1) * width,
          cn_samples = length values, cn_mean_confidence = confidence,
          cn_observed_success_rate = observed, cn_absolute_gap = \<bar>confidence - observed\<bar>\<rparr>)"

definition calibration_bins :: "(real \<times> real) list \<Rightarrow> nat \<Rightarrow> calibration_bin list res" where
  "calibration_bins samples count =
     res_bind (group_samples count samples (replicate count [])) (\<lambda>grouped.
       Inr (map (\<lambda>(index, values). calibration_bin_of count index values)
              (filter (\<lambda>(index, values). values \<noteq> []) (enumerate 0 grouped))))"

section \<open>The report\<close>

record evaluation_report =
  er_samples :: nat
  er_observed_fields :: nat
  er_predicted_fields :: nat
  er_coverage :: real
  er_latency_samples :: nat
  er_latency_mae :: "real option"
  er_latency_mape_samples :: nat
  er_latency_mape :: "real option"
  er_cost_samples :: nat
  er_cost_mae :: "real option"
  er_cost_mape_samples :: nat
  er_cost_mape :: "real option"
  er_success_samples :: nat
  er_success_brier_score :: "real option"
  er_success_ece :: "real option"
  er_fallback_rate :: real
  er_calibration_bins :: "calibration_bin list"

definition count_true :: "bool list \<Rightarrow> nat" where
  "count_true bs = length (filter (\<lambda>b. b) bs)"

definition observed_count :: "feedback \<Rightarrow> nat" where
  "observed_count f = count_true [oc_actual_latency_seconds (fe_outcome f) \<noteq> None,
     oc_actual_cost (fe_outcome f) \<noteq> None, oc_actual_success (fe_outcome f) \<noteq> None]"

definition predicted_count :: "prediction \<Rightarrow> feedback \<Rightarrow> nat" where
  "predicted_count p f = count_true
     [oc_actual_latency_seconds (fe_outcome f) \<noteq> None \<and> pp_e2e_seconds (pd_performance p) \<noteq> None,
      oc_actual_cost (fe_outcome f) \<noteq> None \<and> cp_monetary_cost (pd_cost p) \<noteq> None,
      oc_actual_success (fe_outcome f) \<noteq> None \<and> rp_success_probability (pd_reliability p) \<noteq> None]"

text \<open>\<open>_append_error\<close>: the errors recorded under a key, in the order of the entries.\<close>

definition recorded_errors :: "string \<Rightarrow> (prediction \<times> feedback) list \<Rightarrow> real list" where
  "recorded_errors key entries = List.map_filter (\<lambda>(p, f). dict_get (fe_prediction_error f) key) entries"

fun number_of :: "pyval option \<Rightarrow> real option" where
  "number_of (Some (PFloat x)) = Some x"
| "number_of (Some (PInt i)) = Some (real_of_int i)"
| "number_of (Some (PBool b)) = Some (if b then 1 else 0)"
| "number_of _ = None"

definition calibration_pair :: "feedback \<Rightarrow> (real \<times> real) option" where
  "calibration_pair f =
     (case (number_of (dict_get (fe_calibration_sample f) ''predicted_probability''),
            number_of (dict_get (fe_calibration_sample f) ''observed_success'')) of
        (Some p, Some q) \<Rightarrow> Some (p, q) | _ \<Rightarrow> None)"

definition success_pairs :: "(prediction \<times> feedback) list \<Rightarrow> (real \<times> real) list" where
  "success_pairs entries = List.map_filter (\<lambda>(p, f). calibration_pair f) entries"

definition expected_calibration_error :: "calibration_bin list \<Rightarrow> nat \<Rightarrow> real option" where
  "expected_calibration_error bins n =
     (if n = 0 then None
      else Some (sum_list (map (\<lambda>b. real (cn_samples b) * cn_absolute_gap b) bins) / real n))"

definition materialize_evaluation_report ::
  "(prediction \<times> feedback) list \<Rightarrow> int \<Rightarrow> evaluation_report res" where
  "materialize_evaluation_report entries calibration_bin_count =
     (if calibration_bin_count \<le> 0 then Inl (ValueError ''calibration_bin_count must be positive'')
      else
        let success = success_pairs entries;
            observed = sum_list (map (\<lambda>(p, f). observed_count f) entries);
            predicted = sum_list (map (\<lambda>(p, f). predicted_count p f) entries);
            fallbacks = length (filter (\<lambda>(p, f). pd_fallback p \<noteq> ''none'') entries);
            latency = recorded_errors ''latency_absolute_error'' entries;
            latency_pct = recorded_errors ''latency_absolute_percentage_error'' entries;
            cost = recorded_errors ''cost_absolute_error'' entries;
            cost_pct = recorded_errors ''cost_absolute_percentage_error'' entries
        in res_bind (calibration_bins success (nat calibration_bin_count)) (\<lambda>bins.
          Inr \<lparr>er_samples = length entries, er_observed_fields = observed, er_predicted_fields = predicted,
               er_coverage = (if observed \<noteq> 0 then real predicted / real observed else 0),
               er_latency_samples = length latency, er_latency_mae = mean latency,
               er_latency_mape_samples = length latency_pct, er_latency_mape = mean latency_pct,
               er_cost_samples = length cost, er_cost_mae = mean cost,
               er_cost_mape_samples = length cost_pct, er_cost_mape = mean cost_pct,
               er_success_samples = length success,
               er_success_brier_score = mean (map (\<lambda>(p, q). (p - q)\<^sup>2) success),
               er_success_ece = expected_calibration_error bins (length success),
               er_fallback_rate = (if entries \<noteq> [] then real fallbacks / real (length entries) else 0),
               er_calibration_bins = bins\<rparr>))"

end
