(* ===== verification/SF_Control_Journal.thy ===== *)
theory SF_Control_Journal
  imports SF_Evaluation
begin

text \<open>
  \<open>InMemoryControlJournal\<close> of \<open>stateflow/control/journal.py\<close>: decisions with their candidate
  predictions, joined later with the outcome of the selected action. Every check of an operation
  precedes its first store, so an operation that raises leaves the journal unchanged; it returns
  either the error or its result with the new journal. Records are values, so the deep copies of
  the code are identities; the lock makes every operation atomic.
\<close>

record joined_record =
  jo_decision :: decision_record
  jo_predictions :: "prediction list"
  jo_outcome :: "outcome option"
  jo_feedback :: "feedback option"

record control_journal =
  cj_decisions :: "(string, decision_record) dict"
  cj_predictions :: "(string, prediction) dict"
  cj_decision_predictions :: "(string, string list) dict"
  cj_action_decisions :: "(string, string) dict"
  cj_selected_predictions :: "(string, string) dict"
  cj_outcomes :: "(string, outcome) dict"
  cj_feedback :: "(string, feedback) dict"
  cj_order :: "string list"

definition empty_control_journal :: control_journal where
  "empty_control_journal = \<lparr>cj_decisions = [], cj_predictions = [], cj_decision_predictions = [],
     cj_action_decisions = [], cj_selected_predictions = [], cj_outcomes = [], cj_feedback = [],
     cj_order = []\<rparr>"

text \<open>\<open>d[k]\<close> for a key that may be absent.\<close>

definition dict_item :: "(string, 'v) dict \<Rightarrow> string \<Rightarrow> 'v res" where
  "dict_item d k = (case dict_get d k of Some v \<Rightarrow> Inr v | None \<Rightarrow> Inl (KeyError k))"

section \<open>The checks of a decision\<close>

definition validate_bundle :: "decision_record \<Rightarrow> prediction list \<Rightarrow> unit res" where
  "validate_bundle decision predictions =
     (if predictions = [] then Inl (ValueError ''a decision must contain at least one prediction'')
      else if de_prediction_ids decision \<noteq> map pd_prediction_id predictions
      then Inl (ValueError ''decision prediction_ids do not match predictions'')
      else if de_candidate_ids decision \<noteq> map pd_candidate_id predictions
      then Inl (ValueError ''decision candidate_ids do not match predictions'')
      else if \<exists>p \<in> set predictions. pd_snapshot_id p \<noteq> de_snapshot_id decision
      then Inl (ValueError ''all predictions must use the decision snapshot'')
      else if de_model_versions decision \<noteq> sort (remdups (map pd_model_version predictions))
      then Inl (ValueError ''decision model_versions do not match predictions'')
      else Inr ())"

text \<open>Truth of a dynamic value, \<open>bool(value)\<close>.\<close>

fun truthy :: "pyval \<Rightarrow> bool" where
  "truthy PNone = False"
| "truthy (PBool b) = b"
| "truthy (PInt i) = (i \<noteq> 0)"
| "truthy (PFloat x) = (x \<noteq> 0)"
| "truthy PNonFinite = True"
| "truthy (PStr s) = (s \<noteq> [])"
| "truthy (PTime _) = True"
| "truthy (PList xs) = (xs \<noteq> [])"
| "truthy (PDict d) = (d \<noteq> [])"

definition selected_candidate_id :: "decision_record \<Rightarrow> pyval option" where
  "selected_candidate_id decision =
     (case dict_get (ac_parameters (de_selected_action decision)) ''candidate_id'' of
        None \<Rightarrow> None | Some v \<Rightarrow> if truthy v then Some v else None)"

definition selected_prediction :: "decision_record \<Rightarrow> prediction list \<Rightarrow> prediction res" where
  "selected_prediction decision predictions =
     (case selected_candidate_id decision of
        None \<Rightarrow> (case predictions of [p] \<Rightarrow> Inr p
                 | _ \<Rightarrow> Inl (ValueError ''selected action must identify candidate_id''))
      | Some c \<Rightarrow> (case filter (\<lambda>p. PStr (pd_candidate_id p) = c) predictions of
                   [p] \<Rightarrow> Inr p
                 | _ \<Rightarrow> Inl (ValueError ''selected action candidate_id has no unique prediction'')))"

text \<open>The first prediction of the bundle whose identifier is taken by a different prediction.\<close>

fun conflicting_prediction :: "(string, prediction) dict \<Rightarrow> prediction list \<Rightarrow> prediction option" where
  "conflicting_prediction owners [] = None"
| "conflicting_prediction owners (p # ps) =
     (case dict_get owners (pd_prediction_id p) of
        Some owner \<Rightarrow> if \<not> prediction_eq owner p then Some p else conflicting_prediction owners ps
      | None \<Rightarrow> conflicting_prediction owners ps)"

section \<open>The operations\<close>

definition control_get :: "control_journal \<Rightarrow> string \<Rightarrow> joined_record res" where
  "control_get j decision_id =
     (case dict_get (cj_decisions j) decision_id of
        None \<Rightarrow> Inl (KeyError (''unknown decision: '' @ decision_id))
      | Some decision \<Rightarrow>
          (let action_id = ac_action_id (de_selected_action decision) in
           res_bind (dict_item (cj_decision_predictions j) decision_id) (\<lambda>prediction_ids.
           res_bind (res_map (dict_item (cj_predictions j)) prediction_ids) (\<lambda>predictions.
           Inr \<lparr>jo_decision = decision, jo_predictions = predictions,
                jo_outcome = dict_get (cj_outcomes j) action_id,
                jo_feedback = dict_get (cj_feedback j) action_id\<rparr>))))"

definition store_decision ::
  "control_journal \<Rightarrow> decision_record \<Rightarrow> prediction list \<Rightarrow> prediction \<Rightarrow> control_journal" where
  "store_decision j decision values selected =
     (let action_id = ac_action_id (de_selected_action decision);
          decision_id = de_decision_id decision
      in j\<lparr>cj_decisions := dict_set (cj_decisions j) decision_id decision,
           cj_decision_predictions := dict_set (cj_decision_predictions j) decision_id (de_prediction_ids decision),
           cj_action_decisions := dict_set (cj_action_decisions j) action_id decision_id,
           cj_selected_predictions := dict_set (cj_selected_predictions j) action_id (pd_prediction_id selected),
           cj_predictions := foldl (\<lambda>m p. dict_set m (pd_prediction_id p) p) (cj_predictions j) values,
           cj_order := cj_order j @ [decision_id]\<rparr>)"

definition record_decision ::
  "control_journal \<Rightarrow> decision_record \<Rightarrow> prediction list \<Rightarrow> (joined_record \<times> control_journal) res" where
  "record_decision j decision values =
     res_bind (validate_bundle decision values) (\<lambda>_.
     res_bind (selected_prediction decision values) (\<lambda>selected.
       let decision_id = de_decision_id decision;
           action_id = ac_action_id (de_selected_action decision)
       in case dict_get (cj_decisions j) decision_id of
            Some existing \<Rightarrow>
              res_bind (control_get j decision_id) (\<lambda>joined.
                if decision_eq existing decision \<and> list_all2 prediction_eq (jo_predictions joined) values
                then Inr (joined, j)
                else Inl (ValueError (''conflicting decision: '' @ decision_id)))
          | None \<Rightarrow>
              if dict_has (cj_action_decisions j) action_id
              then Inl (ValueError (''action already belongs to a decision: '' @ action_id))
              else
                (case conflicting_prediction (cj_predictions j) values of
                   Some p \<Rightarrow> Inl (ValueError (''conflicting prediction: '' @ pd_prediction_id p))
                 | None \<Rightarrow>
                     (let j' = store_decision j decision values selected in
                      res_bind (control_get j' decision_id) (\<lambda>joined. Inr (joined, j'))))))"

definition record_outcome ::
  "string \<Rightarrow> datetime \<Rightarrow> control_journal \<Rightarrow> outcome \<Rightarrow> (feedback \<times> control_journal) res" where
  "record_outcome feedback_id now j outcome =
     (if instant (oc_completed_at outcome) < instant (oc_started_at outcome)
      then Inl (ValueError ''outcome completed_at must not precede started_at'')
      else
        let action_id = oc_action_id outcome in
        case dict_get (cj_action_decisions j) action_id of
          None \<Rightarrow> Inl (KeyError (''unknown action: '' @ action_id))
        | Some decision_id \<Rightarrow>
            (case dict_get (cj_outcomes j) action_id of
               Some existing \<Rightarrow>
                 if outcome_eq existing outcome
                 then res_bind (dict_item (cj_feedback j) action_id) (\<lambda>f. Inr (f, j))
                 else Inl (ValueError (''conflicting outcome: '' @ action_id))
             | None \<Rightarrow>
                 res_bind (dict_item (cj_decisions j) decision_id) (\<lambda>decision.
                 res_bind (dict_item (cj_selected_predictions j) action_id) (\<lambda>prediction_id.
                 res_bind (dict_item (cj_predictions j) prediction_id) (\<lambda>prediction.
                 res_bind (build_feedback feedback_id now decision prediction outcome
                             (''prediction:'' @ prediction_id)) (\<lambda>feedback.
                 Inr (feedback, j\<lparr>cj_outcomes := dict_set (cj_outcomes j) action_id outcome,
                                  cj_feedback := dict_set (cj_feedback j) action_id feedback\<rparr>)))))))"

definition control_list :: "control_journal \<Rightarrow> joined_record list res" where
  "control_list j = res_map (control_get j) (cj_order j)"

definition report_samples :: "control_journal \<Rightarrow> string \<Rightarrow> (prediction \<times> feedback) list res" where
  "report_samples j model_version =
     res_bind (res_map (\<lambda>(action_id, feedback).
         res_bind (dict_item (cj_selected_predictions j) action_id) (\<lambda>prediction_id.
         res_bind (dict_item (cj_predictions j) prediction_id) (\<lambda>prediction.
         Inr (prediction, feedback)))) (cj_feedback j))
       (\<lambda>samples. Inr (filter (\<lambda>(p, f). model_version = [] \<or> pd_model_version p = model_version) samples))"

definition control_report :: "control_journal \<Rightarrow> string \<Rightarrow> int \<Rightarrow> evaluation_report res" where
  "control_report j model_version calibration_bin_count =
     res_bind (report_samples j model_version)
       (\<lambda>samples. materialize_evaluation_report samples calibration_bin_count)"

end
