(* ===== verification/SF_Journal_Lemmas.thy ===== *)
theory SF_Journal_Lemmas
  imports SF_Control_Journal
begin

text \<open>
  The invariant of the control journal and the order its operations climb: a recorded decision,
  its selected prediction, an outcome and its feedback never change again.
\<close>

section \<open>Feedback\<close>

lemma build_feedback_cong:
  assumes "prediction_eq p q"
  shows "build_feedback i now d p c r = build_feedback i now d q c r"
proof -
  note e = prediction_eq_ids [OF assms]
  have "success_error p c = success_error q c" unfolding success_error_def e(3,4,9) ..
  then show ?thesis unfolding build_feedback_def e(1,5,6) by simp
qed

lemma build_feedback_fields:
  assumes "build_feedback i now d p c r = Inr f"
  shows "fe_decision_id f = de_decision_id d" "fe_action_id f = oc_action_id c" "fe_outcome f = c"
    "fe_prediction_id f = pd_prediction_id p" "fe_feedback_id f = i" "fe_timestamp f = now"
    "oc_action_id c = ac_action_id (de_selected_action d)" "fe_replay_pointer f = r"
  using assms by (auto simp: build_feedback_def res_bind_Inr_iff split: if_splits)

section \<open>The invariant\<close>

abbreviation action_of :: "decision_record \<Rightarrow> string" where
  "action_of d \<equiv> ac_action_id (de_selected_action d)"

definition decision_stored :: "control_journal \<Rightarrow> string \<Rightarrow> decision_record \<Rightarrow> bool" where
  "decision_stored j i d \<longleftrightarrow> de_decision_id d = i \<and>
     dict_get (cj_decision_predictions j) i = Some (de_prediction_ids d) \<and>
     dict_get (cj_action_decisions j) (action_of d) = Some i \<and>
     (\<exists>s \<in> set (de_prediction_ids d). dict_get (cj_selected_predictions j) (action_of d) = Some s) \<and>
     (\<forall>p \<in> set (de_prediction_ids d). \<exists>q. dict_get (cj_predictions j) p = Some q \<and>
        pd_prediction_id q = p \<and> pd_snapshot_id q = de_snapshot_id d)"

definition feedback_stored :: "control_journal \<Rightarrow> string \<Rightarrow> feedback \<Rightarrow> bool" where
  "feedback_stored j a f \<longleftrightarrow> (\<exists>c i d s q. dict_get (cj_outcomes j) a = Some c \<and>
     dict_get (cj_action_decisions j) a = Some i \<and> dict_get (cj_decisions j) i = Some d \<and>
     dict_get (cj_selected_predictions j) a = Some s \<and> dict_get (cj_predictions j) s = Some q \<and>
     build_feedback (fe_feedback_id f) (fe_timestamp f) d q c (''prediction:'' @ s) = Inr f)"

definition outcome_stored :: "control_journal \<Rightarrow> string \<Rightarrow> outcome \<Rightarrow> bool" where
  "outcome_stored j a c \<longleftrightarrow> oc_action_id c = a \<and> instant (oc_started_at c) \<le> instant (oc_completed_at c) \<and>
     dict_has (cj_feedback j) a"

definition journal_ok :: "control_journal \<Rightarrow> bool" where
  "journal_ok j \<longleftrightarrow>
     (\<forall>i d. dict_get (cj_decisions j) i = Some d \<longrightarrow> decision_stored j i d) \<and>
     (\<forall>a i. dict_get (cj_action_decisions j) a = Some i \<longrightarrow>
        (\<exists>d. dict_get (cj_decisions j) i = Some d \<and> action_of d = a)) \<and>
     (\<forall>a f. dict_get (cj_feedback j) a = Some f \<longrightarrow> feedback_stored j a f) \<and>
     (\<forall>a c. dict_get (cj_outcomes j) a = Some c \<longrightarrow> outcome_stored j a c) \<and>
     (\<forall>i. dict_has (cj_decision_predictions j) i \<longrightarrow> dict_has (cj_decisions j) i) \<and>
     (\<forall>a. dict_has (cj_selected_predictions j) a \<longrightarrow> dict_has (cj_action_decisions j) a) \<and>
     map fst (cj_decisions j) = cj_order j \<and> distinct (cj_order j) \<and> dict_distinct (cj_feedback j)"

lemma journal_okD:
  assumes "journal_ok j"
  shows "dict_get (cj_decisions j) i = Some d \<Longrightarrow> decision_stored j i d"
    and "dict_get (cj_action_decisions j) a = Some i \<Longrightarrow>
      \<exists>d. dict_get (cj_decisions j) i = Some d \<and> action_of d = a"
    and "dict_get (cj_feedback j) a = Some f \<Longrightarrow> feedback_stored j a f"
    and "dict_get (cj_outcomes j) a = Some c \<Longrightarrow> outcome_stored j a c"
  using assms by (auto simp: journal_ok_def)

lemma journal_ok_empty: "journal_ok empty_control_journal"
  by (simp add: journal_ok_def empty_control_journal_def dict_has_def)

section \<open>The order\<close>

definition keeps :: "('k, 'v) dict \<Rightarrow> ('k, 'v) dict \<Rightarrow> bool" where
  "keeps d d' \<longleftrightarrow> (\<forall>k v. dict_get d k = Some v \<longrightarrow> dict_get d' k = Some v)"

lemma keeps_refl [simp]: "keeps d d"
  by (simp add: keeps_def)

lemma keeps_trans: "keeps d e \<Longrightarrow> keeps e f \<Longrightarrow> keeps d f"
  by (simp add: keeps_def)

lemma keeps_set: "dict_get d k = None \<Longrightarrow> keeps d (dict_set d k v)"
  by (simp add: keeps_def)

definition keeps_predictions :: "(string, prediction) dict \<Rightarrow> (string, prediction) dict \<Rightarrow> bool" where
  "keeps_predictions d d' \<longleftrightarrow>
     (\<forall>k p. dict_get d k = Some p \<longrightarrow> (\<exists>q. dict_get d' k = Some q \<and> prediction_eq p q))"

lemma keeps_predictions_refl [simp]: "keeps_predictions d d"
  by (auto simp: keeps_predictions_def)

lemma keeps_predictions_trans: "keeps_predictions d e \<Longrightarrow> keeps_predictions e f \<Longrightarrow> keeps_predictions d f"
  unfolding keeps_predictions_def by (meson prediction_eq_trans)

definition extends_journal :: "control_journal \<Rightarrow> control_journal \<Rightarrow> bool" where
  "extends_journal j j' \<longleftrightarrow> keeps (cj_decisions j) (cj_decisions j') \<and>
     keeps (cj_decision_predictions j) (cj_decision_predictions j') \<and>
     keeps (cj_action_decisions j) (cj_action_decisions j') \<and>
     keeps (cj_selected_predictions j) (cj_selected_predictions j') \<and>
     keeps (cj_outcomes j) (cj_outcomes j') \<and> keeps (cj_feedback j) (cj_feedback j') \<and>
     keeps_predictions (cj_predictions j) (cj_predictions j')"

lemma extends_journal_refl [simp]: "extends_journal j j"
  by (simp add: extends_journal_def)

lemma extends_journal_trans: "extends_journal j k \<Longrightarrow> extends_journal k l \<Longrightarrow> extends_journal j l"
  unfolding extends_journal_def by (elim conjE, intro conjI) (erule (1) keeps_trans keeps_predictions_trans)+

lemma extends_journalD:
  assumes "extends_journal j j'"
  shows "dict_get (cj_decisions j) i = Some d \<Longrightarrow> dict_get (cj_decisions j') i = Some d"
    and "dict_get (cj_decision_predictions j) i = Some ps \<Longrightarrow> dict_get (cj_decision_predictions j') i = Some ps"
    and "dict_get (cj_action_decisions j) a = Some i \<Longrightarrow> dict_get (cj_action_decisions j') a = Some i"
    and "dict_get (cj_selected_predictions j) a = Some i \<Longrightarrow> dict_get (cj_selected_predictions j') a = Some i"
    and "dict_get (cj_outcomes j) a = Some c \<Longrightarrow> dict_get (cj_outcomes j') a = Some c"
    and "dict_get (cj_feedback j) a = Some f \<Longrightarrow> dict_get (cj_feedback j') a = Some f"
    and "dict_get (cj_predictions j) i = Some p \<Longrightarrow> \<exists>q. dict_get (cj_predictions j') i = Some q \<and> prediction_eq p q"
  using assms by (simp_all add: extends_journal_def keeps_def keeps_predictions_def)

lemma decision_stored_mono:
  assumes d: "decision_stored j i d" and e: "extends_journal j j'"
  shows "decision_stored j' i d"
proof -
  have "\<exists>q. dict_get (cj_predictions j') p = Some q \<and> pd_prediction_id q = p \<and> pd_snapshot_id q = de_snapshot_id d"
    if "p \<in> set (de_prediction_ids d)" for p
  proof -
    obtain q where "dict_get (cj_predictions j) p = Some q" "pd_prediction_id q = p" "pd_snapshot_id q = de_snapshot_id d"
      using d \<open>p \<in> _\<close> by (auto simp: decision_stored_def)
    moreover from this(1) obtain q' where "dict_get (cj_predictions j') p = Some q'" "prediction_eq q q'"
      using extends_journalD(7) [OF e] by blast
    ultimately show ?thesis using prediction_eq_ids(1,8) by metis
  qed
  then show ?thesis using d extends_journalD(2,3,4) [OF e] unfolding decision_stored_def by blast
qed

lemma feedback_stored_mono:
  assumes "feedback_stored j a f" "extends_journal j j'"
  shows "feedback_stored j' a f"
proof -
  obtain c i d s q where f: "dict_get (cj_outcomes j) a = Some c"
     "dict_get (cj_action_decisions j) a = Some i" "dict_get (cj_decisions j) i = Some d"
     "dict_get (cj_selected_predictions j) a = Some s" "dict_get (cj_predictions j) s = Some q"
     "build_feedback (fe_feedback_id f) (fe_timestamp f) d q c (''prediction:'' @ s) = Inr f"
    using assms(1) by (auto simp: feedback_stored_def)
  obtain q' where q': "dict_get (cj_predictions j') s = Some q'" "prediction_eq q q'"
    using extends_journalD(7) [OF assms(2) f(5)] by blast
  have "build_feedback (fe_feedback_id f) (fe_timestamp f) d q' c (''prediction:'' @ s) = Inr f"
    using f(6) build_feedback_cong [OF q'(2)] by simp
  with q'(1) extends_journalD(1,3,4,5) [OF assms(2)] f(1-4) show ?thesis
    unfolding feedback_stored_def by (intro exI conjI) assumption+
qed

section \<open>Recording a decision\<close>

lemma validate_bundle_Inr:
  assumes "validate_bundle d ps = Inr u"
  shows "ps \<noteq> []" "de_prediction_ids d = map pd_prediction_id ps" "de_candidate_ids d = map pd_candidate_id ps"
    "\<forall>p \<in> set ps. pd_snapshot_id p = de_snapshot_id d"
    "de_model_versions d = sort (remdups (map pd_model_version ps))"
  using assms by (auto simp: validate_bundle_def split: if_splits)

lemma selected_prediction_in: "selected_prediction d ps = Inr p \<Longrightarrow> p \<in> set ps"
proof (cases "selected_candidate_id d")
  case (Some c)
  assume "selected_prediction d ps = Inr p"
  then have "filter (\<lambda>p. PStr (pd_candidate_id p) = c) ps = [p]"
    using Some by (auto simp: selected_prediction_def split: list.splits)
  then have "p \<in> set (filter (\<lambda>p. PStr (pd_candidate_id p) = c) ps)" by simp
  then show ?thesis by simp
qed (auto simp: selected_prediction_def split: list.splits)

lemma conflicting_prediction_None:
  "conflicting_prediction owners ps = None \<longleftrightarrow>
     (\<forall>p \<in> set ps. \<forall>q. dict_get owners (pd_prediction_id p) = Some q \<longrightarrow> prediction_eq q p)"
  by (induction ps) (auto split: option.splits)

lemma record_decision_Inr:
  assumes "record_decision j d ps = Inr (r, j')"
  obtains (again) e where "dict_get (cj_decisions j) (de_decision_id d) = Some e" "decision_eq e d"
      "control_get j (de_decision_id d) = Inr r" "list_all2 prediction_eq (jo_predictions r) ps" "j' = j"
  | (new) s where "validate_bundle d ps = Inr ()" "selected_prediction d ps = Inr s"
      "dict_get (cj_decisions j) (de_decision_id d) = None"
      "dict_get (cj_action_decisions j) (action_of d) = None"
      "conflicting_prediction (cj_predictions j) ps = None" "j' = store_decision j d ps s"
      "control_get j' (de_decision_id d) = Inr r"
proof -
  obtain s where v: "validate_bundle d ps = Inr ()" "selected_prediction d ps = Inr s"
    using assms by (auto simp: record_decision_def res_bind_Inr_iff)
  show ?thesis
  proof (cases "dict_get (cj_decisions j) (de_decision_id d)")
    case None
    then show ?thesis using assms v
      by (intro new [of s]) (auto simp: record_decision_def res_bind_Inr_iff Let_def dict_has_def
          split: if_splits option.splits)
  next
    case (Some e)
    then show ?thesis using assms v
      by (intro again [of e]) (auto simp: record_decision_def res_bind_Inr_iff Let_def split: if_splits)
  qed
qed

lemma stored_predictions:
  assumes "p \<in> set ps"
  obtains q where "q \<in> set ps" "pd_prediction_id q = pd_prediction_id p"
    "dict_get (foldl (\<lambda>m p. dict_set m (pd_prediction_id p) p) d ps) (pd_prediction_id p) = Some q"
  using pydict.get_foldl_put_in [of "pd_prediction_id p" pd_prediction_id ps "\<lambda>p. p" d] assms by auto

lemma store_decision_extends:
  assumes "dict_get (cj_decisions j) (de_decision_id d) = None"
    and "dict_get (cj_action_decisions j) (action_of d) = None"
    and "conflicting_prediction (cj_predictions j) ps = None" and "journal_ok j"
  shows "extends_journal j (store_decision j d ps s)"
proof -
  have none: "dict_get (cj_decision_predictions j) (de_decision_id d) = None"
    "dict_get (cj_selected_predictions j) (action_of d) = None"
    using assms(1,2,4) by (auto simp: journal_ok_def dict_has_def)
  have "\<exists>q. dict_get (foldl (\<lambda>m p. dict_set m (pd_prediction_id p) p) (cj_predictions j) ps) k = Some q \<and> prediction_eq p q"
    if p: "dict_get (cj_predictions j) k = Some p" for k p
  proof (cases "k \<in> pd_prediction_id ` set ps")
    case True
    then obtain x where x: "x \<in> set ps" "k = pd_prediction_id x" by auto
    obtain q where q: "q \<in> set ps" "pd_prediction_id q = pd_prediction_id x"
      "dict_get (foldl (\<lambda>m p. dict_set m (pd_prediction_id p) p) (cj_predictions j) ps) (pd_prediction_id x) = Some q"
      by (rule stored_predictions [OF x(1)])
    have "prediction_eq p q" using assms(3) p q(1,2) x(2) by (simp add: conflicting_prediction_None)
    then show ?thesis using q(3) x(2) by simp
  qed (use p in \<open>simp add: pydict.get_foldl_put_notin\<close>)
  then have "keeps_predictions (cj_predictions j) (foldl (\<lambda>m p. dict_set m (pd_prediction_id p) p) (cj_predictions j) ps)"
    by (simp add: keeps_predictions_def)
  then show ?thesis
    using assms(1,2) none by (simp add: extends_journal_def store_decision_def Let_def keeps_set)
qed

lemma new_decision_stored:
  assumes "validate_bundle d ps = Inr ()" "selected_prediction d ps = Inr s"
  shows "decision_stored (store_decision j d ps s) (de_decision_id d) d"
proof -
  note v = validate_bundle_Inr [OF assms(1)]
  have "pd_prediction_id s \<in> set (de_prediction_ids d)"
    using selected_prediction_in [OF assms(2)] v(2) by simp
  moreover have "\<exists>q. dict_get (cj_predictions (store_decision j d ps s)) i = Some q \<and> pd_prediction_id q = i \<and>
      pd_snapshot_id q = de_snapshot_id d" if "i \<in> set (de_prediction_ids d)" for i
  proof -
    obtain p where p: "p \<in> set ps" "i = pd_prediction_id p" using \<open>i \<in> _\<close> v(2) by auto
    obtain q where "q \<in> set ps" "pd_prediction_id q = pd_prediction_id p"
      "dict_get (foldl (\<lambda>m p. dict_set m (pd_prediction_id p) p) (cj_predictions j) ps) (pd_prediction_id p) = Some q"
      by (rule stored_predictions [OF p(1)])
    then show ?thesis using v(4) p(2) by (simp add: store_decision_def Let_def)
  qed
  ultimately show ?thesis by (simp add: decision_stored_def store_decision_def Let_def)
qed

lemma store_decision_ok:
  assumes "journal_ok j" "validate_bundle d ps = Inr ()" "selected_prediction d ps = Inr s"
    and "dict_get (cj_decisions j) (de_decision_id d) = None"
    and "dict_get (cj_action_decisions j) (action_of d) = None"
    and "conflicting_prediction (cj_predictions j) ps = None"
  shows "journal_ok (store_decision j d ps s)"
proof -
  let ?j = "store_decision j d ps s"
  note ext = store_decision_extends [OF assms(4,5,6,1), of s]
  note new = new_decision_stored [OF assms(2,3), of j]
  have get: "dict_get (cj_decisions ?j) i = (if i = de_decision_id d then Some d else dict_get (cj_decisions j) i)"
    "dict_get (cj_action_decisions ?j) a = (if a = action_of d then Some (de_decision_id d) else dict_get (cj_action_decisions j) a)"
    "cj_feedback ?j = cj_feedback j" "cj_outcomes ?j = cj_outcomes j" "cj_order ?j = cj_order j @ [de_decision_id d]"
    "cj_decisions ?j = dict_set (cj_decisions j) (de_decision_id d) d" for i a
    by (simp_all add: store_decision_def Let_def)
  have app: "dict_set m k v = m @ [(k, v)]" if "dict_get m k = None" for m :: "(string, decision_record) dict" and k v
    using that by (induction m) (auto split: if_splits)
  have fresh: "de_decision_id d \<notin> fst ` set (cj_decisions j)" using assms(4) by (simp add: dict_get_None_iff)
  show ?thesis unfolding journal_ok_def
  proof (intro conjI allI impI)
    fix i e assume "dict_get (cj_decisions ?j) i = Some e"
    then show "decision_stored ?j i e"
      using new assms(1) decision_stored_mono [OF _ ext] by (auto simp: get journal_ok_def split: if_splits)
  next
    fix a i assume "dict_get (cj_action_decisions ?j) a = Some i"
    then show "\<exists>e. dict_get (cj_decisions ?j) i = Some e \<and> action_of e = a"
      using journal_okD(2) [OF assms(1), of a i] assms(4) by (auto simp: get split: if_splits)
  next
    fix a f assume "dict_get (cj_feedback ?j) a = Some f"
    then show "feedback_stored ?j a f"
      using assms(1) feedback_stored_mono [OF _ ext] by (auto simp: get journal_ok_def)
  next
    fix a c assume "dict_get (cj_outcomes ?j) a = Some c"
    then show "outcome_stored ?j a c" using assms(1) by (auto simp: get journal_ok_def outcome_stored_def)
  next
    fix i assume "dict_has (cj_decision_predictions ?j) i"
    then show "dict_has (cj_decisions ?j) i" using assms(1) by (auto simp: store_decision_def Let_def journal_ok_def)
  next
    fix a assume "dict_has (cj_selected_predictions ?j) a"
    then show "dict_has (cj_action_decisions ?j) a" using assms(1) by (auto simp: store_decision_def Let_def journal_ok_def)
  next
    show "map fst (cj_decisions ?j) = cj_order ?j" using assms(1) by (simp add: get(5,6) app [OF assms(4)] journal_ok_def)
    have "map fst (cj_decisions j) = cj_order j" "distinct (cj_order j)" using assms(1) by (simp_all add: journal_ok_def)
    then show "distinct (cj_order ?j)" using fresh by (metis distinct_append distinct_singleton disjoint_insert(1) get(5) inf_bot_right list.set(1) list.simps(15) list.set_map)
    show "dict_distinct (cj_feedback ?j)" using assms(1) by (simp add: get journal_ok_def)
  qed
qed

section \<open>Recording an outcome\<close>

lemma record_outcome_Inr:
  assumes "record_outcome i now j c = Inr (f, j')"
  obtains (again) e where "dict_get (cj_outcomes j) (oc_action_id c) = Some e" "outcome_eq e c"
      "dict_get (cj_feedback j) (oc_action_id c) = Some f" "j' = j"
  | (new) k d s q where "dict_get (cj_outcomes j) (oc_action_id c) = None"
      "instant (oc_started_at c) \<le> instant (oc_completed_at c)"
      "dict_get (cj_action_decisions j) (oc_action_id c) = Some k" "dict_get (cj_decisions j) k = Some d"
      "dict_get (cj_selected_predictions j) (oc_action_id c) = Some s" "dict_get (cj_predictions j) s = Some q"
      "build_feedback i now d q c (''prediction:'' @ s) = Inr f"
      "j' = j\<lparr>cj_outcomes := dict_set (cj_outcomes j) (oc_action_id c) c,
              cj_feedback := dict_set (cj_feedback j) (oc_action_id c) f\<rparr>"
proof (cases "dict_get (cj_outcomes j) (oc_action_id c)")
  case None
  then show ?thesis using assms
    by (auto simp: record_outcome_def Let_def dict_item_def res_bind_Inr_iff intro: new
        split: if_splits option.splits)
next
  case (Some e)
  then show ?thesis using assms
    by (intro again [of e]) (auto simp: record_outcome_def Let_def dict_item_def res_bind_Inr_iff
        split: if_splits option.splits)
qed

lemma control_outcome_ok:
  assumes "journal_ok j" "record_outcome i now j c = Inr (f, j')"
  shows "journal_ok j' \<and> extends_journal j j'"
  using assms(2)
proof (cases rule: record_outcome_Inr)
  case (new k d s q)
  have nf: "dict_get (cj_feedback j) (oc_action_id c) = None"
    using new(1) journal_okD(3) [OF assms(1), of "oc_action_id c"]
    by (cases "dict_get (cj_feedback j) (oc_action_id c)") (auto simp: feedback_stored_def)
  have ext: "extends_journal j j'" using new(1) nf by (simp add: new(8) extends_journal_def keeps_set)
  note id = build_feedback_fields [OF new(7)]
  have "feedback_stored j' (oc_action_id c) f" unfolding feedback_stored_def
    using new(3-7) id(5,6) by (intro exI [of _ c] exI [of _ k] exI [of _ d] exI [of _ s] exI [of _ q]) (simp add: new(8))
  then have "feedback_stored j' a g" if "dict_get (cj_feedback j') a = Some g" for a g
    using that assms(1) feedback_stored_mono [OF _ ext, of a g] by (auto simp: new(8) journal_ok_def split: if_splits)
  moreover have "outcome_stored j' a e" if "dict_get (cj_outcomes j') a = Some e" for a e
    using that assms(1) new(2) by (auto simp: new(8) journal_ok_def outcome_stored_def split: if_splits)
  moreover have "decision_stored j' k e" if "dict_get (cj_decisions j') k = Some e" for k e
    using that assms(1) decision_stored_mono [OF _ ext, of k e] by (auto simp: new(8) journal_ok_def)
  ultimately have "journal_ok j'" using assms(1) unfolding journal_ok_def by (auto simp: new(8))
  then show ?thesis using ext by simp
qed (use assms(1) in simp)

section \<open>Runs\<close>

inductive control_step :: "control_journal \<Rightarrow> control_journal \<Rightarrow> bool" where
  deciding: "record_decision j d ps = Inr (r, j') \<Longrightarrow> control_step j j'"
| observing: "record_outcome i now j c = Inr (f, j') \<Longrightarrow> control_step j j'"

lemma control_step_ok:
  assumes "journal_ok j" "control_step j j'"
  shows "journal_ok j' \<and> extends_journal j j'"
  using assms(2)
proof (cases rule: control_step.cases)
  case (deciding d ps r)
  from this show ?thesis
  proof (cases rule: record_decision_Inr)
    case (new s)
    then show ?thesis using store_decision_ok [OF assms(1)] store_decision_extends assms(1) by blast
  qed (use assms(1) in simp)
next
  case (observing i now c f)
  then show ?thesis using control_outcome_ok [OF assms(1)] by blast
qed

interpretation control: monotone_system control_step journal_ok extends_journal
  by unfold_locales (use control_step_ok extends_journal_trans in \<open>auto\<close>)

text \<open>Joining a stored decision never fails.\<close>

lemma control_get_stored:
  assumes "journal_ok j" "dict_get (cj_decisions j) i = Some d"
  obtains r where "control_get j i = Inr r" "jo_decision r = d"
    "map pd_prediction_id (jo_predictions r) = de_prediction_ids d"
    "list_all2 (\<lambda>k q. dict_get (cj_predictions j) k = Some q) (de_prediction_ids d) (jo_predictions r)"
    "jo_outcome r = dict_get (cj_outcomes j) (action_of d)" "jo_feedback r = dict_get (cj_feedback j) (action_of d)"
proof -
  have ok: "decision_stored j i d" using assms by (simp add: journal_ok_def)
  then have "\<exists>qs. res_map (dict_item (cj_predictions j)) (de_prediction_ids d) = Inr qs"
    by (intro res_map_returns) (auto simp: decision_stored_def dict_item_def)
  then obtain qs where qs: "res_map (dict_item (cj_predictions j)) (de_prediction_ids d) = Inr qs" by blast
  then have all: "list_all2 (\<lambda>k q. dict_get (cj_predictions j) k = Some q) (de_prediction_ids d) qs"
    using res_map_Inr_list_all2 [OF qs] by (auto simp: dict_item_def list_all2_conv_all_nth split: option.splits)
  have "map pd_prediction_id qs = de_prediction_ids d"
  proof (rule nth_equalityI)
    show "length (map pd_prediction_id qs) = length (de_prediction_ids d)" using all by (simp add: list_all2_lengthD)
    fix n assume n: "n < length (map pd_prediction_id qs)"
    then have n': "n < length (de_prediction_ids d)" using all by (simp add: list_all2_lengthD)
    then have "dict_get (cj_predictions j) (de_prediction_ids d ! n) = Some (qs ! n)" by (rule list_all2_nthD [OF all])
    moreover have "de_prediction_ids d ! n \<in> set (de_prediction_ids d)" using n' by simp
    ultimately show "map pd_prediction_id qs ! n = de_prediction_ids d ! n"
      using ok n by (fastforce simp: decision_stored_def)
  qed
  moreover have "control_get j i = Inr \<lparr>jo_decision = d, jo_predictions = qs,
      jo_outcome = dict_get (cj_outcomes j) (action_of d), jo_feedback = dict_get (cj_feedback j) (action_of d)\<rparr>"
    using ok assms(2) qs by (simp add: control_get_def dict_item_def decision_stored_def Let_def)
  ultimately show ?thesis using that all by force
qed

text \<open>What a planner that hands over a fresh, complete bundle can rely on.\<close>

lemma selected_prediction_unique:
  assumes "distinct (map pd_candidate_id ps)" "p \<in> set ps"
    and "selected_candidate_id d = Some (PStr (pd_candidate_id p))"
  shows "selected_prediction d ps = Inr p"
  using filter_unique [OF assms(1,2)] assms(3) by (simp add: selected_prediction_def)

lemma record_decision_fresh:
  assumes "journal_ok j" "validate_bundle d ps = Inr ()" "selected_prediction d ps = Inr s"
    and "dict_get (cj_decisions j) (de_decision_id d) = None"
    and "dict_get (cj_action_decisions j) (action_of d) = None"
    and "conflicting_prediction (cj_predictions j) ps = None"
  obtains r where "record_decision j d ps = Inr (r, store_decision j d ps s)" "jo_decision r = d"
proof -
  let ?k = "store_decision j d ps s"
  have "dict_get (cj_decisions ?k) (de_decision_id d) = Some d" by (simp add: store_decision_def Let_def)
  then obtain r where r: "control_get ?k (de_decision_id d) = Inr r" "jo_decision r = d"
    by (rule control_get_stored [OF store_decision_ok [OF assms]])
  then have "record_decision j d ps = Inr (r, ?k)"
    using assms(2-6) by (simp add: record_decision_def Let_def dict_has_def)
  then show ?thesis using r(2) by (rule that)
qed

end
