(* ===== verification/SF_Evaluation_Lemmas.thy ===== *)
theory SF_Evaluation_Lemmas
  imports SF_Evaluation
begin

text \<open>
  The calibration bins: the imperative grouping of the samples is the partition by bin index, so no
  sample is lost, the mean confidence of a bin lies within its bounds and the expected calibration
  error lies between zero and one.
\<close>

section \<open>Grouping\<close>

definition bin_samples :: "nat \<Rightarrow> nat \<Rightarrow> (real \<times> real) list \<Rightarrow> (real \<times> real) list" where
  "bin_samples count index samples = filter (\<lambda>(p, q). bin_index count p = index) samples"

lemma bin_index_less: "0 < count \<Longrightarrow> bin_index count p < count"
  by (simp add: bin_index_def)

lemma group_samples_partition:
  assumes "0 < count" "length grouped = count" "\<And>p q. (p, q) \<in> set samples \<Longrightarrow> 0 \<le> p \<and> p \<le> 1"
  shows "group_samples count samples grouped
    = Inr (map (\<lambda>i. grouped ! i @ bin_samples count i samples) [0..<count])"
  using assms(2,3)
proof (induction samples arbitrary: grouped)
  case Nil
  then show ?case by (simp add: bin_samples_def) (metis map_nth)
next
  case (Cons x samples)
  obtain p q where x: "x = (p, q)" by (cases x)
  let ?i = "bin_index count p"
  let ?g = "grouped[?i := grouped ! ?i @ [(p, q)]]"
  have "group_samples count samples ?g = Inr (map (\<lambda>i. ?g ! i @ bin_samples count i samples) [0..<count])"
    by (rule Cons.IH) (use Cons.prems in auto)
  moreover have "?g ! i @ bin_samples count i samples = grouped ! i @ bin_samples count i (x # samples)"
    if "i < count" for i
    using that Cons.prems(1) by (cases "i = ?i") (auto simp: bin_samples_def x)
  ultimately show ?case using Cons.prems(2) [of p q] by (simp add: x Let_def)
qed

lemma group_samples_error:
  "group_samples count samples grouped = Inr g \<Longrightarrow> (p, q) \<in> set samples \<Longrightarrow> 0 \<le> p \<and> p \<le> 1"
  by (induction count samples grouped rule: group_samples.induct) (auto simp: Let_def split: if_splits)

definition nonempty_bins :: "nat \<Rightarrow> (real \<times> real) list \<Rightarrow> nat list" where
  "nonempty_bins count samples = filter (\<lambda>i. bin_samples count i samples \<noteq> []) [0..<count]"

lemma calibration_bins_eq:
  assumes "0 < count" "\<And>p q. (p, q) \<in> set samples \<Longrightarrow> 0 \<le> p \<and> p \<le> 1"
  shows "calibration_bins samples count
    = Inr (map (\<lambda>i. calibration_bin_of count i (bin_samples count i samples)) (nonempty_bins count samples))"
proof -
  have "enumerate 0 (map f [0..<count]) = map (\<lambda>i. (i, f i)) [0..<count]" for f :: "nat \<Rightarrow> (real \<times> real) list"
    by (rule nth_equalityI) (simp_all add: nth_enumerate_eq)
  moreover have "group_samples count samples (replicate count []) = Inr (map (\<lambda>i. bin_samples count i samples) [0..<count])"
    using group_samples_partition [of count "replicate count []" samples] assms by (simp cong: map_cong)
  ultimately show ?thesis by (simp add: calibration_bins_def nonempty_bins_def filter_map comp_def)
qed

section \<open>What a bin says\<close>

text \<open>A probability lies between the bounds of its bin, the last bin included.\<close>

lemma bin_index_bounds:
  assumes "0 < count" "0 \<le> p" "p \<le> 1"
  shows "real (bin_index count p) / real count \<le> p" "p \<le> real (bin_index count p + 1) / real count"
proof -
  let ?n = "nat \<lfloor>p * real count\<rfloor>"
  have n: "real ?n \<le> p * real count" "p * real count < real ?n + 1"
    using assms by (simp_all add: of_nat_nat)
  have c: "p * real count \<le> real count" using assms by (simp add: mult_left_le_one_le)
  have "real (bin_index count p) \<le> p * real count" using n(1) by (simp add: bin_index_def)
  then show "real (bin_index count p) / real count \<le> p" using assms(1) by (simp add: pos_divide_le_eq)
  have "p * real count \<le> real (bin_index count p + 1)"
    using n(2) c assms(1) by (auto simp: bin_index_def min_def of_nat_diff)
  then show "p \<le> real (bin_index count p + 1) / real count" using assms(1) by (simp add: pos_le_divide_eq)
qed

lemma mean_bounds:
  fixes xs :: "real list"
  assumes "xs \<noteq> []" "\<And>x. x \<in> set xs \<Longrightarrow> a \<le> x \<and> x \<le> b"
  shows "a \<le> sum_list xs / real (length xs)" "sum_list xs / real (length xs) \<le> b"
proof -
  have "real (length xs) * a \<le> sum_list xs" "sum_list xs \<le> real (length xs) * b"
    using assms(2) by (induction xs) (auto simp: algebra_simps intro: add_mono)
  then show "a \<le> sum_list xs / real (length xs)" "sum_list xs / real (length xs) \<le> b"
    using assms(1) by (simp_all add: pos_le_divide_eq pos_divide_le_eq mult.commute)
qed

definition bin_ok :: "calibration_bin \<Rightarrow> bool" where
  "bin_ok b \<longleftrightarrow> cn_samples b > 0 \<and> cn_lower_bound b \<le> cn_mean_confidence b \<and>
     cn_mean_confidence b \<le> cn_upper_bound b \<and> 0 \<le> cn_observed_success_rate b \<and>
     cn_observed_success_rate b \<le> 1 \<and> 0 \<le> cn_absolute_gap b \<and> cn_absolute_gap b \<le> 1"

definition valid_samples :: "(real \<times> real) list \<Rightarrow> bool" where
  "valid_samples samples \<longleftrightarrow> (\<forall>(p, q) \<in> set samples. 0 \<le> p \<and> p \<le> 1 \<and> 0 \<le> q \<and> q \<le> 1)"

lemma calibration_bin_of_ok:
  assumes "0 < count" "valid_samples samples" "bin_samples count i samples \<noteq> []"
  shows "bin_ok (calibration_bin_of count i (bin_samples count i samples))"
proof -
  let ?xs = "bin_samples count i samples"
  have v: "0 \<le> p \<and> p \<le> 1 \<and> 0 \<le> q \<and> q \<le> 1 \<and> bin_index count p = i" if "(p, q) \<in> set ?xs" for p q
    using that assms(2) by (auto simp: bin_samples_def valid_samples_def)
  have conf: "real i / real count \<le> p \<and> p \<le> real (i + 1) / real count \<and> 0 \<le> p \<and> p \<le> 1" if "p \<in> set (map fst ?xs)" for p
    using that v bin_index_bounds [OF assms(1)] by fastforce
  have obs: "0 \<le> q \<and> q \<le> 1" if "q \<in> set (map snd ?xs)" for q using that v by fastforce
  have ne: "map fst ?xs \<noteq> []" "map snd ?xs \<noteq> []" using assms(3) by simp_all
  have c: "real i / real count \<le> sum_list (map fst ?xs) / real (length ?xs)"
    "sum_list (map fst ?xs) / real (length ?xs) \<le> real (i + 1) / real count"
    "0 \<le> sum_list (map fst ?xs) / real (length ?xs)" "sum_list (map fst ?xs) / real (length ?xs) \<le> 1"
    using mean_bounds [OF ne(1)] conf unfolding length_map by blast+
  have o: "0 \<le> sum_list (map snd ?xs) / real (length ?xs)" "sum_list (map snd ?xs) / real (length ?xs) \<le> 1"
    using mean_bounds [OF ne(2)] obs unfolding length_map by blast+
  have "\<bar>sum_list (map fst ?xs) / real (length ?xs) - sum_list (map snd ?xs) / real (length ?xs)\<bar> \<le> 1"
    using c(3,4) o by linarith
  with c o assms(3) show ?thesis by (simp add: bin_ok_def calibration_bin_of_def Let_def)
qed

lemma bin_samples_total:
  assumes "0 < count"
  shows "sum_list (map (\<lambda>i. length (bin_samples count i samples)) [0..<count]) = length samples"
proof (induction samples)
  case (Cons x samples)
  obtain p q where x: "x = (p, q)" by (cases x)
  have "length (bin_samples count i (x # samples)) = length (bin_samples count i samples) + (if i = bin_index count p then 1 else 0)" for i
    by (simp add: bin_samples_def x)
  then have "sum_list (map (\<lambda>i. length (bin_samples count i (x # samples))) [0..<count])
    = sum_list (map (\<lambda>i. length (bin_samples count i samples)) [0..<count])
      + sum_list (map (\<lambda>i. if i = bin_index count p then 1 else 0) [0..<count])"
    by (simp add: sum_list_addf)
  moreover have "sum_list (map (\<lambda>i. if i = bin_index count p then 1 else (0::nat)) [0..<count]) = 1"
    using bin_index_less [OF assms, of p] by (simp add: interv_sum_list_conv_sum_set_nat)
  ultimately show ?case using Cons.IH by simp
qed (simp add: bin_samples_def)

lemma nonempty_bins_sum:
  assumes "\<And>i. bin_samples count i samples = [] \<Longrightarrow> f i = (0::'a::comm_monoid_add)"
  shows "sum_list (map f (nonempty_bins count samples)) = sum_list (map f [0..<count])"
proof -
  have "sum_list (map f (filter (\<lambda>i. bin_samples count i samples \<noteq> []) xs)) = sum_list (map f xs)" for xs
    using assms by (induction xs) auto
  then show ?thesis by (simp add: nonempty_bins_def)
qed

section \<open>The errors of a feedback\<close>

definition observed_error :: "real option \<Rightarrow> real option \<Rightarrow> real option" where
  "observed_error predicted actual =
     (case (predicted, actual) of (Some p, Some a) \<Rightarrow> Some \<bar>p - a\<bar> | _ \<Rightarrow> None)"

definition relative_error :: "real option \<Rightarrow> real option \<Rightarrow> real option" where
  "relative_error predicted actual =
     (case (predicted, actual) of (Some p, Some a) \<Rightarrow> if a > 0 then Some (\<bar>p - a\<bar> / a) else None | _ \<Rightarrow> None)"

definition truth_value :: "bool \<Rightarrow> real" where
  "truth_value b = (if b then 1 else 0)"

lemma continuous_error_get:
  assumes "continuous_error n p a (e, k) = Inr (e', k')"
  shows "dict_get e' (n @ ''_absolute_error'') =
      (if observed_error p a \<noteq> None then observed_error p a else dict_get e (n @ ''_absolute_error''))"
    and "dict_get e' (n @ ''_absolute_percentage_error'') =
      (if relative_error p a \<noteq> None then relative_error p a else dict_get e (n @ ''_absolute_percentage_error''))"
    and "x \<noteq> n @ ''_absolute_error'' \<Longrightarrow> x \<noteq> n @ ''_absolute_percentage_error'' \<Longrightarrow> dict_get e' x = dict_get e x"
    and "nonneg a" "a \<noteq> None \<Longrightarrow> nonneg p"
  using assms
  by (cases a; cases p; auto simp: continuous_error_def observed_error_def relative_error_def Let_def split: if_splits)+

lemma success_error_get:
  assumes "success_error p c (e, k) = Inr ((e', k'), cal)"
  shows "x \<noteq> ''success_absolute_error'' \<Longrightarrow> x \<noteq> ''success_brier'' \<Longrightarrow> dict_get e' x = dict_get e x"
    and "dict_get e ''success_brier'' = None \<Longrightarrow> dict_get e' ''success_brier'' =
      (case (rp_success_probability (pd_reliability p), oc_actual_success c) of
         (Some q, Some b) \<Rightarrow> Some ((q - truth_value b)\<^sup>2) | _ \<Rightarrow> None)"
    and "number_of (dict_get cal ''predicted_probability'') =
      (if oc_actual_success c \<noteq> None then rp_success_probability (pd_reliability p) else None)"
    and "number_of (dict_get cal ''observed_success'') =
      (if rp_success_probability (pd_reliability p) \<noteq> None then map_option truth_value (oc_actual_success c) else None)"
    and "oc_actual_success c \<noteq> None \<Longrightarrow> is_probability (rp_success_probability (pd_reliability p))"
  using assms
  by (cases "oc_actual_success c"; cases "rp_success_probability (pd_reliability p)";
      auto simp: success_error_def truth_value_def Let_def split: if_splits)+

lemma build_feedback_errors:
  assumes "build_feedback i now d p c r = Inr f"
  shows "dict_get (fe_prediction_error f) ''latency_absolute_error''
      = observed_error (pp_e2e_seconds (pd_performance p)) (oc_actual_latency_seconds c)"
    and "dict_get (fe_prediction_error f) ''latency_absolute_percentage_error''
      = relative_error (pp_e2e_seconds (pd_performance p)) (oc_actual_latency_seconds c)"
    and "dict_get (fe_prediction_error f) ''cost_absolute_error''
      = observed_error (cp_monetary_cost (pd_cost p)) (oc_actual_cost c)"
    and "dict_get (fe_prediction_error f) ''cost_absolute_percentage_error''
      = relative_error (cp_monetary_cost (pd_cost p)) (oc_actual_cost c)"
    and "dict_get (fe_prediction_error f) ''success_brier'' =
      (case (rp_success_probability (pd_reliability p), oc_actual_success c) of
         (Some q, Some b) \<Rightarrow> Some ((q - truth_value b)\<^sup>2) | _ \<Rightarrow> None)"
    and "calibration_pair f = (case (rp_success_probability (pd_reliability p), oc_actual_success c) of
         (Some q, Some b) \<Rightarrow> Some (q, truth_value b) | _ \<Rightarrow> None)"
    and "oc_actual_success c \<noteq> None \<Longrightarrow> is_probability (rp_success_probability (pd_reliability p))"
proof -
  obtain e1 k1 e2 k2 e3 k3 cal where
    l: "continuous_error ''latency'' (pp_e2e_seconds (pd_performance p)) (oc_actual_latency_seconds c) ([], []) = Inr (e1, k1)"
    and co: "continuous_error ''cost'' (cp_monetary_cost (pd_cost p)) (oc_actual_cost c) (e1, k1) = Inr (e2, k2)"
    and su: "success_error p c (e2, k2) = Inr ((e3, k3), cal)"
    and f: "fe_prediction_error f = e3" "fe_calibration_sample f = cal"
    using assms by (auto simp: build_feedback_def res_bind_Inr_iff split: if_splits)
  note L = continuous_error_get [OF l, simplified] and C = continuous_error_get [OF co, simplified]
    and S = success_error_get [OF su]
  show "dict_get (fe_prediction_error f) ''latency_absolute_error''
      = observed_error (pp_e2e_seconds (pd_performance p)) (oc_actual_latency_seconds c)"
    by (simp add: f S(1) C(3) L(1))
  show "dict_get (fe_prediction_error f) ''latency_absolute_percentage_error''
      = relative_error (pp_e2e_seconds (pd_performance p)) (oc_actual_latency_seconds c)"
    by (simp add: f S(1) C(3) L(2))
  show "dict_get (fe_prediction_error f) ''cost_absolute_error''
      = observed_error (cp_monetary_cost (pd_cost p)) (oc_actual_cost c)"
    by (simp add: f S(1) C(1) L(3))
  show "dict_get (fe_prediction_error f) ''cost_absolute_percentage_error''
      = relative_error (cp_monetary_cost (pd_cost p)) (oc_actual_cost c)"
    by (simp add: f S(1) C(2) L(3))
  show "dict_get (fe_prediction_error f) ''success_brier'' =
      (case (rp_success_probability (pd_reliability p), oc_actual_success c) of
         (Some q, Some b) \<Rightarrow> Some ((q - truth_value b)\<^sup>2) | _ \<Rightarrow> None)"
    unfolding f by (rule S(2)) (simp add: C(3) L(3))
  show "calibration_pair f = (case (rp_success_probability (pd_reliability p), oc_actual_success c) of
         (Some q, Some b) \<Rightarrow> Some (q, truth_value b) | _ \<Rightarrow> None)"
    using S(3,4) by (auto simp: calibration_pair_def f split: option.splits)
  show "oc_actual_success c \<noteq> None \<Longrightarrow> is_probability (rp_success_probability (pd_reliability p))" by (rule S(5))
qed

end
