(* ===== verification/SF_Journal_Properties.thy ===== *)
theory SF_Journal_Properties
  imports SF_Journal_Lemmas SF_Evaluation_Lemmas
begin

text \<open>
  The properties of the control journal: what its histories keep, what a feedback says, and when
  the evaluation report exists and how large its figures can be.
\<close>

section \<open>An example\<close>

definition ex_action :: action where
  "ex_action = \<lparr>ac_target_component = ''e'', ac_action_type = ''route'',
     ac_parameters = [(''candidate_id'', PStr ''c'')], ac_preconditions = [], ac_idempotency_key = ''k'',
     ac_reservations = [], ac_timeout_seconds = 30, ac_rollback_action = [], ac_dry_run = False,
     ac_action_id = ''a''\<rparr>"

definition ex_forecast :: prediction where
  "ex_forecast = (Prediction ''p'' ''s'' ''c'' ''v'')
     \<lparr>pd_performance := PerformancePrediction\<lparr>pp_e2e_seconds := Some 3\<rparr>,
      pd_reliability := ReliabilityPrediction\<lparr>rp_success_probability := Some (4 / 5)\<rparr>\<rparr>"

definition ex_decision :: decision_record where
  "ex_decision = \<lparr>de_snapshot_id = ''s'', de_policy_version = ''1'', de_candidate_ids = [''c''],
     de_prediction_ids = [''p''], de_model_versions = [''v''], de_selected_action = ex_action,
     de_reason = ''r'', de_constraints = [], de_decision_id = ''d'', de_timestamp = utc 0\<rparr>"

definition ex_outcome :: outcome where
  "ex_outcome = \<lparr>oc_action_id = ''a'', oc_status = COMMITTED, oc_started_at = utc 0,
     oc_completed_at = utc 4, oc_actual_latency_seconds = Some 4, oc_actual_cost = None,
     oc_actual_success = Some True, oc_resource_delta = [], oc_error = []\<rparr>"

lemmas ex_journal_defs = ex_action_def ex_forecast_def ex_decision_def ex_outcome_def Prediction_def
  prediction_post_init_def PerformancePrediction_def ReliabilityPrediction_def CostPrediction_def
  FutureStatePrediction_def

lemma ex_forecast_ids: "pd_prediction_id ex_forecast = ''p''" "pd_candidate_id ex_forecast = ''c''"
  "pd_snapshot_id ex_forecast = ''s''" "pd_model_version ex_forecast = ''v''"
  by (simp_all add: ex_journal_defs)

definition ex_journal :: control_journal where
  "ex_journal = store_decision empty_control_journal ex_decision [ex_forecast] ex_forecast"

lemma ex_records: "\<exists>r. record_decision empty_control_journal ex_decision [ex_forecast] = Inr (r, ex_journal)"
proof -
  have "validate_bundle ex_decision [ex_forecast] = Inr ()"
    by (simp add: validate_bundle_def ex_forecast_ids ex_decision_def)
  moreover have "selected_prediction ex_decision [ex_forecast] = Inr ex_forecast"
    by (simp add: selected_prediction_def selected_candidate_id_def ex_forecast_ids ex_decision_def ex_action_def)
  moreover have "\<exists>r. control_get ex_journal ''d'' = Inr r"
    by (simp add: control_get_def ex_journal_def store_decision_def ex_decision_def ex_action_def Let_def
        ex_forecast_ids dict_item_def empty_control_journal_def)
  ultimately show ?thesis
    by (auto simp: record_decision_def ex_journal_def Let_def empty_control_journal_def dict_has_def ex_decision_def)
qed

lemma ex_observes:
  obtains f k where "record_outcome ''f'' (utc 5) ex_journal ex_outcome = Inr (f, k)"
proof -
  have j: "dict_get (cj_action_decisions ex_journal) ''a'' = Some ''d''" "dict_get (cj_outcomes ex_journal) ''a'' = None"
    "dict_get (cj_decisions ex_journal) ''d'' = Some ex_decision" "dict_get (cj_selected_predictions ex_journal) ''a'' = Some ''p''"
    "dict_get (cj_predictions ex_journal) ''p'' = Some ex_forecast"
    by (simp_all add: ex_journal_def store_decision_def Let_def empty_control_journal_def ex_forecast_ids
        ex_decision_def ex_action_def)
  have "\<exists>f. build_feedback ''f'' (utc 5) ex_decision ex_forecast ex_outcome ''prediction:p'' = Inr f"
    by (simp add: build_feedback_def continuous_error_def success_error_def ex_journal_defs Let_def)
  then obtain f where "build_feedback ''f'' (utc 5) ex_decision ex_forecast ex_outcome ''prediction:p'' = Inr f" ..
  moreover have "oc_action_id ex_outcome = ''a''" "oc_started_at ex_outcome = utc 0" "oc_completed_at ex_outcome = utc 4"
    by (simp_all add: ex_outcome_def)
  ultimately show ?thesis using that by (simp add: record_outcome_def Let_def dict_item_def j)
qed

lemma ex_run: "control_step\<^sup>*\<^sup>* empty_control_journal ex_journal"
  using ex_records deciding by blast

section \<open>Histories\<close>

text \<open>C28: In every journal reached from the empty one by recording decisions and outcomes, the seven
  dictionaries agree: a decision has its action, its prediction list and one selected prediction
  among it, every listed prediction is stored under its identifier and is about the snapshot of the
  decision, an action belongs to one decision, and an action has a feedback exactly when it has an
  outcome, namely the feedback computed from that decision, prediction and outcome.\<close>
theorem control_journal_reachable_inv:
  assumes "control_step\<^sup>*\<^sup>* empty_control_journal j"
  shows "journal_ok j"
  using control.run_inv [OF assms journal_ok_empty] .

theorem control_journal_reachable_inv_witness: "journal_ok ex_journal"
  using control_journal_reachable_inv [OF ex_run] .

text \<open>C24: History is append-only: whatever is recorded afterwards, looking up a decision again returns
  the same decision and equal predictions, and an outcome or a feedback that was there is still
  there unchanged.\<close>
theorem control_history_immutable:
  assumes "control_step\<^sup>*\<^sup>* empty_control_journal j" "control_step\<^sup>*\<^sup>* j k" "control_get j i = Inr r"
  shows "\<exists>r'. control_get k i = Inr r' \<and> jo_decision r' = jo_decision r \<and>
     list_all2 prediction_eq (jo_predictions r) (jo_predictions r') \<and>
     (jo_outcome r \<noteq> None \<longrightarrow> jo_outcome r' = jo_outcome r) \<and>
     (jo_feedback r \<noteq> None \<longrightarrow> jo_feedback r' = jo_feedback r)"
proof -
  have j: "journal_ok j" using control.run_inv [OF assms(1) journal_ok_empty] .
  have k: "journal_ok k" "extends_journal j k"
    using control.run_inv [OF assms(2) j] control.run_above [OF assms(2) j] .
  obtain d where d: "dict_get (cj_decisions j) i = Some d"
    using assms(3) by (auto simp: control_get_def split: option.splits)
  obtain r0 where r0: "control_get j i = Inr r0" "jo_decision r0 = d"
    "list_all2 (\<lambda>x q. dict_get (cj_predictions j) x = Some q) (de_prediction_ids d) (jo_predictions r0)"
    "jo_outcome r0 = dict_get (cj_outcomes j) (action_of d)" "jo_feedback r0 = dict_get (cj_feedback j) (action_of d)"
    using control_get_stored [OF j d] by metis
  obtain r' where r': "control_get k i = Inr r'" "jo_decision r' = d"
    "list_all2 (\<lambda>x q. dict_get (cj_predictions k) x = Some q) (de_prediction_ids d) (jo_predictions r')"
    "jo_outcome r' = dict_get (cj_outcomes k) (action_of d)" "jo_feedback r' = dict_get (cj_feedback k) (action_of d)"
    using control_get_stored [OF k(1) extends_journalD(1) [OF k(2) d]] by metis
  have "list_all2 prediction_eq (jo_predictions r0) (jo_predictions r')"
  proof (rule list_all2_all_nthI)
    show "length (jo_predictions r0) = length (jo_predictions r')"
      using r0(3) r'(3) by (simp add: list_all2_lengthD [symmetric])
    fix n assume "n < length (jo_predictions r0)"
    then have n: "n < length (de_prediction_ids d)" using r0(3) by (simp add: list_all2_lengthD)
    show "prediction_eq (jo_predictions r0 ! n) (jo_predictions r' ! n)"
      using extends_journalD(7) [OF k(2) list_all2_nthD [OF r0(3) n]] list_all2_nthD [OF r'(3) n] by auto
  qed
  moreover have "r0 = r" using r0(1) assms(3) by simp
  moreover have "jo_outcome r0 \<noteq> None \<longrightarrow> jo_outcome r' = jo_outcome r0"
    "jo_feedback r0 \<noteq> None \<longrightarrow> jo_feedback r' = jo_feedback r0"
    using extends_journalD(5,6) [OF k(2)] r0(4,5) r'(4,5) by auto
  ultimately show ?thesis using r' r0(2) by auto
qed

theorem control_history_immutable_witness:
  "\<exists>f k r r'. record_outcome ''f'' (utc 5) ex_journal ex_outcome = Inr (f, k) \<and>
     control_get ex_journal ''d'' = Inr r \<and> control_get k ''d'' = Inr r' \<and> jo_decision r' = jo_decision r"
proof -
  obtain f k where k: "record_outcome ''f'' (utc 5) ex_journal ex_outcome = Inr (f, k)" by (rule ex_observes)
  obtain r where r: "control_get ex_journal ''d'' = Inr r"
    by (simp add: control_get_def ex_journal_def store_decision_def ex_decision_def ex_action_def Let_def
        ex_forecast_ids dict_item_def empty_control_journal_def)
  have "control_step\<^sup>*\<^sup>* ex_journal k" using k observing by blast
  from control_history_immutable [OF ex_run this r] k r show ?thesis by blast
qed

lemma newly_recorded:
  assumes "control_step\<^sup>*\<^sup>* empty_control_journal j" "record_decision j d ps = Inr (r, j')"
    and "dict_get (cj_decisions j) (de_decision_id d) = None"
  obtains s where "validate_bundle d ps = Inr ()" "selected_prediction d ps = Inr s"
    "j' = store_decision j d ps s" "journal_ok j'"
proof -
  have j: "journal_ok j" using control.run_inv [OF assms(1) journal_ok_empty] .
  from assms(2) show thesis
  proof (cases rule: record_decision_Inr)
    case (again e)
    with assms(3) show thesis by simp
  next
    case (new s)
    with store_decision_ok [OF j new(1,2) assms(3) new(4,5)] that show thesis by simp
  qed
qed

lemma stored_prediction:
  assumes "p \<in> set ps" "distinct (map pd_prediction_id ps)"
  shows "dict_get (cj_predictions (store_decision j d ps s)) (pd_prediction_id p) = Some p"
proof -
  obtain q where q: "q \<in> set ps" "pd_prediction_id q = pd_prediction_id p"
    "dict_get (foldl (\<lambda>m p. dict_set m (pd_prediction_id p) p) (cj_predictions j) ps) (pd_prediction_id p) = Some q"
    by (rule stored_predictions [OF assms(1)])
  moreover have "q = p" using assms q(1,2) by (simp add: distinct_map inj_on_def)
  ultimately show ?thesis by (simp add: store_decision_def Let_def)
qed

text \<open>C25: Recording a decision is idempotent: however the history went on since it was accepted, submitting
  it again returns the joined record and changes nothing, provided the predictions of the decision
  have distinct identifiers.\<close>
theorem decision_resubmission:
  assumes "control_step\<^sup>*\<^sup>* empty_control_journal j" "record_decision j d ps = Inr (r, j')"
    and "distinct (map pd_prediction_id ps)" "control_step\<^sup>*\<^sup>* j' k"
    and "dict_get (cj_decisions j) (de_decision_id d) = None"
  shows "\<exists>r'. record_decision k d ps = Inr (r', k) \<and> jo_decision r' = d"
proof -
  obtain s where new: "validate_bundle d ps = Inr ()" "selected_prediction d ps = Inr s"
    and stored: "j' = store_decision j d ps s" and j': "journal_ok j'"
    by (rule newly_recorded [OF assms(1,2,5)])
  have k: "journal_ok k" "extends_journal j' k"
    using control.run_inv [OF assms(4) j'] control.run_above [OF assms(4) j'] .
  have d: "dict_get (cj_decisions k) (de_decision_id d) = Some d"
    using extends_journalD(1) [OF k(2)] by (simp add: stored store_decision_def Let_def)
  obtain r' where r': "control_get k (de_decision_id d) = Inr r'" "jo_decision r' = d"
    "list_all2 (\<lambda>x q. dict_get (cj_predictions k) x = Some q) (de_prediction_ids d) (jo_predictions r')"
    using control_get_stored [OF k(1) d] by metis
  have ids: "de_prediction_ids d = map pd_prediction_id ps" using validate_bundle_Inr(2) [OF new(1)] .
  have "list_all2 prediction_eq (jo_predictions r') ps"
  proof (rule list_all2_all_nthI)
    show len: "length (jo_predictions r') = length ps"
      using r'(3) ids by (simp add: list_all2_lengthD [symmetric])
    fix n assume "n < length (jo_predictions r')"
    then have n: "n < length ps" using len by simp
    have kn: "dict_get (cj_predictions k) (pd_prediction_id (ps ! n)) = Some (jo_predictions r' ! n)"
      using list_all2_nthD [OF r'(3), of n] n by (simp add: ids)
    have "dict_get (cj_predictions j') (pd_prediction_id (ps ! n)) = Some (ps ! n)"
      unfolding stored by (rule stored_prediction [OF nth_mem [OF n] assms(3)])
    then show "prediction_eq (jo_predictions r' ! n) (ps ! n)"
      using extends_journalD(7) [OF k(2)] kn prediction_eq_sym by fastforce
  qed
  then show ?thesis using r'(1,2) d new(1,2) by (simp add: record_decision_def Let_def)
qed

theorem decision_resubmission_witness:
  "\<exists>f k r'. record_outcome ''f'' (utc 5) ex_journal ex_outcome = Inr (f, k) \<and>
     record_decision k ex_decision [ex_forecast] = Inr (r', k) \<and> jo_decision r' = ex_decision"
proof -
  obtain f k where k: "record_outcome ''f'' (utc 5) ex_journal ex_outcome = Inr (f, k)" by (rule ex_observes)
  obtain r where r: "record_decision empty_control_journal ex_decision [ex_forecast] = Inr (r, ex_journal)"
    using ex_records by blast
  have "control_step\<^sup>*\<^sup>* ex_journal k" using k observing by blast
  from decision_resubmission [OF _ r _ this] k show ?thesis by (auto simp: empty_control_journal_def)
qed

text \<open>
  The proviso is needed. Two different predictions under one identifier pass the checks of the
  bundle, but only the second one is stored, so submitting the same decision again is refused as
  conflicting.
\<close>

definition twin_decision :: decision_record where
  "twin_decision = ex_decision\<lparr>de_candidate_ids := [''c'', ''c2''], de_prediction_ids := [''p'', ''p'']\<rparr>"

definition twin_forecasts :: "prediction list" where
  "twin_forecasts = [ex_forecast, ex_forecast\<lparr>pd_candidate_id := ''c2''\<rparr>]"

lemma twin_predictions_not_idempotent:
  "\<exists>r j. record_decision empty_control_journal twin_decision twin_forecasts = Inr (r, j) \<and>
     record_decision j twin_decision twin_forecasts = Inl (ValueError ''conflicting decision: d'')"
proof -
  let ?q = "ex_forecast\<lparr>pd_candidate_id := ''c2''\<rparr>"
  let ?j = "store_decision empty_control_journal twin_decision twin_forecasts ex_forecast"
  have v: "validate_bundle twin_decision twin_forecasts = Inr ()"
    by (simp add: validate_bundle_def twin_decision_def twin_forecasts_def ex_forecast_ids ex_decision_def)
  have s: "selected_prediction twin_decision twin_forecasts = Inr ex_forecast"
    by (simp add: selected_prediction_def selected_candidate_id_def twin_decision_def twin_forecasts_def
        ex_forecast_ids ex_decision_def ex_action_def)
  have d: "de_decision_id twin_decision = ''d''" "de_prediction_ids twin_decision = [''p'', ''p'']"
    by (simp_all add: twin_decision_def ex_decision_def)
  have p: "dict_get (cj_predictions ?j) ''p'' = Some ?q"
    by (simp add: store_decision_def Let_def twin_forecasts_def empty_control_journal_def ex_forecast_ids)
  have dd: "dict_get (cj_decisions ?j) ''d'' = Some twin_decision"
    "dict_get (cj_decision_predictions ?j) ''d'' = Some [''p'', ''p'']"
    by (simp_all add: store_decision_def Let_def d empty_control_journal_def)
  obtain r where r: "control_get ?j ''d'' = Inr r" "jo_predictions r = [?q, ?q]"
    by (simp add: control_get_def dd dict_item_def p Let_def)
  have "record_decision empty_control_journal twin_decision twin_forecasts = Inr (r, ?j)"
    using v s r(1) by (simp add: record_decision_def Let_def d empty_control_journal_def dict_has_def twin_forecasts_def)
  moreover have "\<not> prediction_eq ?q ex_forecast"
    using prediction_eq_ids(2) [of ?q ex_forecast] by (auto simp: ex_forecast_ids)
  then have "\<not> list_all2 prediction_eq [?q, ?q] twin_forecasts" by (simp add: twin_forecasts_def)
  then have "record_decision ?j twin_decision twin_forecasts = Inl (ValueError ''conflicting decision: d'')"
    using v s r by (simp add: record_decision_def Let_def d dd)
  ultimately show ?thesis by blast
qed

section \<open>Feedback and reports\<close>

text \<open>A selected prediction is the one the action names, or the only one when it names none.\<close>

definition selects :: "decision_record \<Rightarrow> prediction list \<Rightarrow> prediction \<Rightarrow> bool" where
  "selects d ps p \<longleftrightarrow> p \<in> set ps \<and>
     (case dict_get (ac_parameters (de_selected_action d)) ''candidate_id'' of
        Some v \<Rightarrow> if truthy v then v = PStr (pd_candidate_id p) \<and>
                       (\<forall>q \<in> set ps. pd_candidate_id q = pd_candidate_id p \<longrightarrow> q = p)
                  else ps = [p]
      | None \<Rightarrow> ps = [p])"

lemma selected_prediction_selects:
  assumes "selected_prediction d ps = Inr p"
  shows "selects d ps p"
proof (cases "selected_candidate_id d")
  case None
  then have "ps = [p]" using assms by (auto simp: selected_prediction_def split: list.splits)
  with None show ?thesis by (auto simp: selects_def selected_candidate_id_def split: option.splits if_splits)
next
  case (Some c)
  then have ps: "filter (\<lambda>q. PStr (pd_candidate_id q) = c) ps = [p]"
    using assms by (auto simp: selected_prediction_def split: list.splits)
  then have only: "{q \<in> set ps. PStr (pd_candidate_id q) = c} = {p}" by (metis set_filter list.set(1,2))
  then have "p \<in> {q \<in> set ps. PStr (pd_candidate_id q) = c}" by simp
  then have "p \<in> set ps" "c = PStr (pd_candidate_id p)" by auto
  moreover from this only have "\<forall>q \<in> set ps. pd_candidate_id q = pd_candidate_id p \<longrightarrow> q = p" by auto
  ultimately show ?thesis
    using Some by (auto simp: selects_def selected_candidate_id_def split: option.splits if_splits)
qed

text \<open>C29: The feedback of an outcome measures the prediction that was selected, and nothing else.
  When a decision was accepted for the first time, in a history that began with the empty journal and
  with a list of predictions of distinct identifiers, and later, however the history went on, the
  first outcome of its action is recorded, the feedback carries that decision,
  action and outcome, and the prediction of the list that the action's candidate_id names (its only
  prediction when the action names none or an empty one). Its absolute errors of latency and cost are the distances
  between that prediction's value and the actual one, present exactly when both are known; the
  percentage errors divide them by the actual value and are present when moreover it is positive; the
  Brier term is the squared distance between the predicted success probability and the observed
  success.\<close>
theorem feedback_measures_selected_prediction:
  assumes "control_step\<^sup>*\<^sup>* empty_control_journal j0" "record_decision j0 d ps = Inr (r, j1)"
    and "dict_get (cj_decisions j0) (de_decision_id d) = None" "distinct (map pd_prediction_id ps)"
    and "control_step\<^sup>*\<^sup>* j1 j" "oc_action_id c = ac_action_id (de_selected_action d)"
    and "dict_get (cj_outcomes j) (oc_action_id c) = None" "record_outcome i now j c = Inr (f, k)"
  shows "\<exists>p. selects d ps p \<and> fe_decision_id f = de_decision_id d \<and> fe_prediction_id f = pd_prediction_id p \<and>
     fe_outcome f = c \<and> fe_action_id f = oc_action_id c \<and>
     dict_get (fe_prediction_error f) ''latency_absolute_error''
       = observed_error (pp_e2e_seconds (pd_performance p)) (oc_actual_latency_seconds c) \<and>
     dict_get (fe_prediction_error f) ''latency_absolute_percentage_error''
       = relative_error (pp_e2e_seconds (pd_performance p)) (oc_actual_latency_seconds c) \<and>
     dict_get (fe_prediction_error f) ''cost_absolute_error''
       = observed_error (cp_monetary_cost (pd_cost p)) (oc_actual_cost c) \<and>
     dict_get (fe_prediction_error f) ''cost_absolute_percentage_error''
       = relative_error (cp_monetary_cost (pd_cost p)) (oc_actual_cost c) \<and>
     dict_get (fe_prediction_error f) ''success_brier'' =
       (case (rp_success_probability (pd_reliability p), oc_actual_success c) of
          (Some q, Some b) \<Rightarrow> Some ((q - truth_value b)\<^sup>2) | _ \<Rightarrow> None)"
proof -
  obtain p where new: "selected_prediction d ps = Inr p" "j1 = store_decision j0 d ps p" "journal_ok j1"
    by (rule newly_recorded [OF assms(1,2,3)])
  have ext: "extends_journal j1 j" using control.run_above [OF assms(5) new(3)] .
  have "dict_get (cj_predictions j1) (pd_prediction_id p) = Some p"
    unfolding new(2) by (rule stored_prediction [OF selected_prediction_in [OF new(1)] assms(4)])
  then obtain q where q: "dict_get (cj_predictions j) (pd_prediction_id p) = Some q" "prediction_eq p q"
    using extends_journalD(7) [OF ext] by blast
  have j: "dict_get (cj_action_decisions j) (oc_action_id c) = Some (de_decision_id d)"
    "dict_get (cj_selected_predictions j) (oc_action_id c) = Some (pd_prediction_id p)"
    "dict_get (cj_decisions j) (de_decision_id d) = Some d"
    using extends_journalD(1,3,4) [OF ext] assms(6) by (simp_all add: new(2) store_decision_def Let_def)
  from assms(8) have "build_feedback i now d q c (''prediction:'' @ pd_prediction_id p) = Inr f"
    by (cases rule: record_outcome_Inr) (use assms(7) j q(1) in auto)
  then have f: "build_feedback i now d p c (''prediction:'' @ pd_prediction_id p) = Inr f"
    using build_feedback_cong [OF q(2)] by simp
  show ?thesis
    using selected_prediction_selects [OF new(1)] build_feedback_fields [OF f] build_feedback_errors(1-5) [OF f]
    by (intro exI [of _ p]) simp
qed

theorem feedback_measures_selected_prediction_witness:
  "\<exists>f k. record_outcome ''f'' (utc 5) ex_journal ex_outcome = Inr (f, k) \<and> fe_outcome f = ex_outcome \<and>
     fe_prediction_id f = ''p'' \<and> dict_get (fe_prediction_error f) ''latency_absolute_error'' = Some 1"
proof -
  obtain f k where k: "record_outcome ''f'' (utc 5) ex_journal ex_outcome = Inr (f, k)" by (rule ex_observes)
  obtain r where r: "record_decision empty_control_journal ex_decision [ex_forecast] = Inr (r, ex_journal)"
    using ex_records by blast
  have new: "dict_get (cj_decisions empty_control_journal) (de_decision_id ex_decision) = None"
    "distinct (map pd_prediction_id [ex_forecast])" "dict_get (cj_outcomes ex_journal) (oc_action_id ex_outcome) = None"
    "oc_action_id ex_outcome = ac_action_id (de_selected_action ex_decision)"
    by (simp_all add: ex_journal_def store_decision_def Let_def empty_control_journal_def ex_outcome_def
        ex_decision_def ex_action_def)
  from feedback_measures_selected_prediction [OF rtranclp.rtrancl_refl r new(1,2) rtranclp.rtrancl_refl new(4,3) k]
  obtain p where p: "selects ex_decision [ex_forecast] p" "fe_outcome f = ex_outcome" "fe_prediction_id f = pd_prediction_id p"
      "dict_get (fe_prediction_error f) ''latency_absolute_error''
         = observed_error (pp_e2e_seconds (pd_performance p)) (oc_actual_latency_seconds ex_outcome)"
    by blast
  have "p = ex_forecast" using p(1) by (simp add: selects_def)
  then have "fe_prediction_id f = ''p''" "dict_get (fe_prediction_error f) ''latency_absolute_error'' = Some 1"
    using p(3,4) by (simp_all add: ex_forecast_ids(1)) (simp add: observed_error_def ex_forecast_def ex_outcome_def)
  with k p(2) show ?thesis by blast
qed

definition unit_interval :: "real \<Rightarrow> bool" where
  "unit_interval x \<longleftrightarrow> 0 \<le> x \<and> x \<le> 1"

definition report_ok :: "evaluation_report \<Rightarrow> bool" where
  "report_ok r \<longleftrightarrow> unit_interval (er_coverage r) \<and> unit_interval (er_fallback_rate r) \<and>
     known unit_interval (er_success_brier_score r) \<and> known unit_interval (er_success_ece r) \<and>
     nonneg (er_latency_mae r) \<and> nonneg (er_cost_mae r) \<and>
     sum_list (map cn_samples (er_calibration_bins r)) = er_success_samples r \<and>
     er_success_samples r \<le> er_samples r \<and> er_latency_samples r \<le> er_samples r \<and>
     er_cost_samples r \<le> er_samples r \<and> er_predicted_fields r \<le> er_observed_fields r \<and>
     (\<forall>b \<in> set (er_calibration_bins r). bin_ok b)"

text \<open>The entries of a report: feedback with the prediction it was computed from.\<close>

definition entry_ok :: "prediction \<times> feedback \<Rightarrow> bool" where
  "entry_ok e \<longleftrightarrow> (\<exists>i now d c r. build_feedback i now d (fst e) c r = Inr (snd e))"

lemma report_samples_ok:
  assumes "journal_ok j"
  obtains es where "report_samples j v = Inr es" "\<forall>e \<in> set es. entry_ok e"
proof -
  let ?f = "\<lambda>(a, f). res_bind (dict_item (cj_selected_predictions j) a) (\<lambda>s.
         res_bind (dict_item (cj_predictions j) s) (\<lambda>p. Inr (p, f)))"
  have each: "\<exists>e. ?f x = Inr e \<and> entry_ok e" if "x \<in> set (cj_feedback j)" for x
  proof -
    obtain a f where x: "x = (a, f)" by (cases x)
    have "dict_get (cj_feedback j) a = Some f"
      using that assms by (simp add: x dict_get_eq_Some_iff journal_ok_def)
    then have "feedback_stored j a f" by (rule journal_okD(3) [OF assms])
    then obtain i d s q c where "dict_get (cj_selected_predictions j) a = Some s" "dict_get (cj_predictions j) s = Some q"
      "build_feedback (fe_feedback_id f) (fe_timestamp f) d q c (''prediction:'' @ s) = Inr f"
      unfolding feedback_stored_def by blast
    then show ?thesis unfolding entry_ok_def by (intro exI [of _ "(q, f)"] conjI exI) (simp_all add: x dict_item_def)
  qed
  then obtain es where es: "res_map ?f (cj_feedback j) = Inr es" using res_map_returns [of "cj_feedback j" ?f] by blast
  have "entry_ok e" if e: "e \<in> set es" for e
  proof -
    obtain x where "x \<in> set (cj_feedback j)" "?f x = Inr e" using res_map_Inr_in [OF es e] by blast
    with each show ?thesis by fastforce
  qed
  then show ?thesis using es by (intro that) (auto simp: report_samples_def)
qed

lemma recorded_errors_length: "length (recorded_errors k es) \<le> length es"
  by (simp add: recorded_errors_def List.map_filter_def)

lemma mean_nonneg: "(\<And>x. x \<in> set xs \<Longrightarrow> 0 \<le> x) \<Longrightarrow> nonneg (mean xs)"
  by (auto simp: mean_def intro!: divide_nonneg_nonneg sum_list_nonneg)

lemma entry_errors_nonneg:
  assumes "\<forall>e \<in> set es. entry_ok e" "k = ''latency_absolute_error'' \<or> k = ''cost_absolute_error''"
    and "x \<in> set (recorded_errors k es)"
  shows "0 \<le> x"
proof -
  obtain p f where pf: "(p, f) \<in> set es" "dict_get (fe_prediction_error f) k = Some x"
    using assms(3) by (auto simp: recorded_errors_def List.map_filter_def)
  then obtain i now d c r where "build_feedback i now d p c r = Inr f"
    using assms(1) by (auto simp: entry_ok_def)
  from build_feedback_errors(1,3) [OF this] pf(2) assms(2) show ?thesis
    by (auto simp: observed_error_def split: option.splits)
qed

lemma success_pairs_valid:
  assumes "\<forall>e \<in> set es. entry_ok e"
  shows "valid_samples (success_pairs es)"
proof -
  have "0 \<le> p \<and> p \<le> 1 \<and> 0 \<le> q \<and> q \<le> 1" if pq: "(p, q) \<in> set (success_pairs es)" for p q
  proof -
    obtain x f where e: "(x, f) \<in> set es" "calibration_pair f = Some (p, q)"
      using pq by (auto simp: success_pairs_def List.map_filter_def)
    then obtain i now d c r where "build_feedback i now d x c r = Inr f"
      using assms by (auto simp: entry_ok_def)
    from build_feedback_errors(6,7) [OF this] e(2) show ?thesis
      by (auto simp: truth_value_def split: option.splits)
  qed
  then show ?thesis by (auto simp: valid_samples_def)
qed

lemma ratio_unit: "a \<le> b \<Longrightarrow> unit_interval (real a / real b)"
  by (auto simp: unit_interval_def divide_le_eq_1)

lemma ece_unit:
  assumes "0 < count" "valid_samples samples" "calibration_bins samples count = Inr bins"
  shows "known unit_interval (expected_calibration_error bins (length samples))"
    and "sum_list (map cn_samples bins) = length samples" and "\<forall>b \<in> set bins. bin_ok b"
proof -
  let ?b = "\<lambda>i. calibration_bin_of count i (bin_samples count i samples)"
  have bins: "bins = map ?b (nonempty_bins count samples)"
    using calibration_bins_eq [of count samples] assms by (auto simp: valid_samples_def)
  have n: "cn_samples (?b i) = length (bin_samples count i samples)" for i
    by (simp add: calibration_bin_of_def Let_def)
  show total: "sum_list (map cn_samples bins) = length samples"
    using nonempty_bins_sum [of count samples "\<lambda>i. length (bin_samples count i samples)"] bin_samples_total [OF assms(1), of samples]
    by (simp add: bins comp_def n)
  show ok: "\<forall>b \<in> set bins. bin_ok b"
    using calibration_bin_of_ok [OF assms(1,2)] by (auto simp: bins nonempty_bins_def)
  let ?s = "sum_list (map (\<lambda>b. real (cn_samples b) * cn_absolute_gap b) bins)"
  have "0 \<le> ?s" using ok by (auto simp: bin_ok_def intro!: sum_list_nonneg)
  moreover have "?s \<le> sum_list (map (\<lambda>b. real (cn_samples b)) bins)"
    using ok by (intro sum_list_mono) (auto simp: bin_ok_def intro: mult_left_le)
  moreover have "sum_list (map (\<lambda>b. real (cn_samples b)) bins) = real (length samples)"
    unfolding total [symmetric] by (induction bins) auto
  ultimately show "known unit_interval (expected_calibration_error bins (length samples))"
    by (auto simp: expected_calibration_error_def unit_interval_def divide_le_eq_1)
qed

lemma report_exists:
  assumes "\<forall>e \<in> set es. entry_ok e" "0 < n"
  obtains r where "materialize_evaluation_report es n = Inr r" "report_ok r"
proof -
  let ?sp = "success_pairs es"
  note valid = success_pairs_valid [OF assms(1)]
  obtain bins where bins: "calibration_bins ?sp (nat n) = Inr bins"
    using calibration_bins_eq [of "nat n" ?sp] assms(2) valid by (auto simp: valid_samples_def)
  have c: "0 < nat n" using assms(2) by simp
  note ece = ece_unit [OF c valid bins]
  have brier: "known unit_interval (mean (map (\<lambda>(p, q). (p - q)\<^sup>2) ?sp))"
  proof (cases "?sp = []")
    case False
    have "0 \<le> x \<and> x \<le> 1" if "x \<in> set (map (\<lambda>(p, q). (p - q)\<^sup>2) ?sp)" for x
    proof -
      from that obtain y where y: "y \<in> set ?sp" "x = (\<lambda>(p, q). (p - q)\<^sup>2) y" by (metis (no_types) image_iff list.set_map)
      obtain p q where "y = (p, q)" by (cases y)
      with y have "(p, q) \<in> set ?sp" "x = (p - q)\<^sup>2" by simp_all
      moreover from this valid have "\<bar>p - q\<bar> \<le> 1" by (auto simp: valid_samples_def)
      ultimately show ?thesis by (simp add: abs_square_le_1)
    qed
    note b = mean_bounds [OF _ this]
    have ne: "map (\<lambda>(p, q). (p - q)\<^sup>2) ?sp \<noteq> []" using False by simp
    show ?thesis using b [OF ne] ne unfolding mean_def unit_interval_def by simp
  qed (simp add: mean_def)
  have fields: "sum_list (map (\<lambda>(p, f). predicted_count p f) es) \<le> sum_list (map (\<lambda>(p, f). observed_count f) es)"
    by (intro sum_list_mono) (auto simp: predicted_count_def observed_count_def count_true_def)
  have sp: "length ?sp \<le> length es"
    by (simp add: success_pairs_def List.map_filter_def)
  obtain r where r: "materialize_evaluation_report es n = Inr r"
    using bins assms(2) by (simp add: materialize_evaluation_report_def Let_def)
  have mae: "nonneg (mean (recorded_errors ''latency_absolute_error'' es))"
    "nonneg (mean (recorded_errors ''cost_absolute_error'' es))"
    by (rule mean_nonneg, erule entry_errors_nonneg [OF assms(1), rotated], simp)+
  have zero: "unit_interval 0" by (simp add: unit_interval_def)
  have "report_ok r"
    using r bins assms(2) ece brier fields sp recorded_errors_length ratio_unit [OF fields] mae zero
      ratio_unit [OF length_filter_le, of "\<lambda>(p, f). pd_fallback p \<noteq> ''none''" es]
    by (simp add: materialize_evaluation_report_def Let_def) (auto simp: report_ok_def)
  with r show ?thesis by (rule that)
qed

text \<open>C30: The evaluation report of a journal always exists for a positive number of bins, and its figures
  make sense: coverage, fallback rate, Brier score and expected calibration error lie between zero
  and one, mean absolute errors are not negative, every success sample falls into exactly one
  calibration bin, and the mean confidence of a bin lies within the bounds of the bin.\<close>
theorem control_report_sound:
  assumes "control_step\<^sup>*\<^sup>* empty_control_journal j" "0 < n"
  shows "\<exists>r. control_report j version n = Inr r \<and> report_ok r"
proof -
  have "journal_ok j" using control.run_inv [OF assms(1) journal_ok_empty] .
  then obtain es where es: "report_samples j version = Inr es" "\<forall>e \<in> set es. entry_ok e"
    by (rule report_samples_ok)
  obtain r where "materialize_evaluation_report es n = Inr r" "report_ok r"
    using report_exists [OF es(2) assms(2)] .
  then show ?thesis by (simp add: control_report_def es(1))
qed

theorem control_report_sound_witness:
  "\<exists>r. control_report ex_journal ''v'' 10 = Inr r \<and> report_ok r"
  using control_report_sound [OF ex_run] by simp

end
