(* ===== verification/SF_Routing_Bridge.thy ===== *)
theory SF_Routing_Bridge
  imports SF_Scheduler_Runs SF_Journal_Lemmas
begin

text \<open>
  \<open>stateflow/scheduler/contract_bridge.py\<close>: a routing decision as a control decision with one
  prediction per candidate. The identifiers that \<open>CandidateAction\<close> and \<open>Prediction\<close> draw from
  \<open>uuid4()\<close> are two arguments, indexed by the position of the candidate.
\<close>

record routing_bundle =
  rb_decision :: decision_record
  rb_predictions :: "prediction list"

definition route_candidate :: "string \<Rightarrow> candidate_evaluation \<Rightarrow> candidate_action" where
  "route_candidate candidate_id e =
     \<lparr>ca_action_type = ''route'', ca_target_component = ce_endpoint_id e,
      ca_parameters = [(''model_id'', PStr (ce_model_id e)), (''endpoint_id'', PStr (ce_endpoint_id e)),
        (''replica_id'', PStr (ce_replica_id e)), (''tier'', PStr (ce_tier e))],
      ca_candidate_id = candidate_id\<rparr>"

definition route_action :: "routing_decision \<Rightarrow> candidate_action \<Rightarrow> candidate_evaluation \<Rightarrow> action" where
  "route_action routing candidate e =
     \<lparr>ac_target_component = ce_endpoint_id e, ac_action_type = ''route'',
      ac_parameters = dict_set (ca_parameters candidate) ''candidate_id'' (PStr (ca_candidate_id candidate)),
      ac_preconditions = [(''candidate_eligible'', PBool (ce_eligible e))],
      ac_idempotency_key = ''route:'' @ rd_decision_id routing, ac_reservations = [],
      ac_timeout_seconds = 30, ac_rollback_action = [], ac_dry_run = False,
      ac_action_id = ''action:'' @ rd_decision_id routing\<rparr>"

text \<open>The loop over the candidates: the last selected one determines the action.\<close>

definition bundle_action ::
  "routing_decision \<Rightarrow> (candidate_action \<times> candidate_evaluation) list \<Rightarrow> action option" where
  "bundle_action routing pairs =
     foldl (\<lambda>a (c, e). if ce_selected e then Some (route_action routing c e) else a) None pairs"

definition bundle_snapshot_id :: "routing_decision \<Rightarrow> string \<Rightarrow> string" where
  "bundle_snapshot_id routing snapshot_id =
     (if snapshot_id \<noteq> [] then snapshot_id
      else ''agent-state:'' @ rd_state_id routing @ '':'' @ show_int (rd_state_version routing))"

definition bundle_pairs ::
  "(nat \<Rightarrow> string) \<Rightarrow> routing_decision \<Rightarrow> (candidate_action \<times> candidate_evaluation) list" where
  "bundle_pairs candidate_ids routing =
     map (\<lambda>(n, e). (route_candidate (candidate_ids n) e, e)) (enumerate 0 (rd_candidates routing))"

definition bundle_predictions ::
  "(nat \<Rightarrow> string) \<Rightarrow> string \<Rightarrow> routing_decision \<Rightarrow> (candidate_action \<times> candidate_evaluation) list \<Rightarrow> prediction list" where
  "bundle_predictions prediction_ids snapshot_id routing pairs =
     map (\<lambda>(n, (c, e)). from_routing_evaluation (prediction_ids n) snapshot_id c e (rd_scheduler_version routing))
       (enumerate 0 pairs)"

definition routing_control_bundle ::
  "(nat \<Rightarrow> string) \<Rightarrow> (nat \<Rightarrow> string) \<Rightarrow> routing_decision \<Rightarrow> string \<Rightarrow> string \<Rightarrow> routing_bundle res" where
  "routing_control_bundle candidate_ids prediction_ids routing snapshot_id policy_version =
     (let sid = bundle_snapshot_id routing snapshot_id;
          pairs = bundle_pairs candidate_ids routing;
          predictions = bundle_predictions prediction_ids sid routing pairs
      in case bundle_action routing pairs of
           None \<Rightarrow> Inl (ValueError ''routing decision has no selected candidate'')
         | Some selected_action \<Rightarrow>
             Inr \<lparr>rb_decision =
                    \<lparr>de_snapshot_id = sid, de_policy_version = policy_version,
                     de_candidate_ids = map (\<lambda>(c, e). ca_candidate_id c) pairs,
                     de_prediction_ids = map pd_prediction_id predictions,
                     de_model_versions = sort (remdups (map pd_model_version predictions)),
                     de_selected_action = selected_action,
                     de_reason = decision_reason_value (rd_decision_reason routing),
                     de_constraints = map CText
                       (sort (remdups (concat (map ce_rejection_reasons (rd_candidates routing))))),
                     de_decision_id = rd_decision_id routing, de_timestamp = utc (rd_timestamp routing)\<rparr>,
                  rb_predictions = predictions\<rparr>)"

section \<open>The selected candidate of the trace\<close>

lemma distinct_targets:
  assumes "choose_policy predict config view (filter P ts) = Inr po" "distinct (map target_key ts)"
  shows "distinct (map target_key (po_targets po))"
proof -
  have f: "distinct (map target_key (filter Q xs))" if "distinct (map target_key xs)" for Q and xs :: "target_candidate list"
    using that by (rule distinct_map_filter)
  consider "po_targets po = filter P ts" | "capable_only (filter P ts) = Inr (po_targets po)"
    using choose_policy_cases(2) [OF assms(1)] by blast
  then show ?thesis
  proof cases
    case 2
    then have "po_targets po = filter (\<lambda>t. is_capable t = Inr True) (filter P ts) \<or> po_targets po = filter P ts"
      using capable_only_cases [OF 2] by auto
    then show ?thesis using f assms(2) by (metis (no_types))
  qed (use f assms(2) in simp)
qed

text \<open>
  With distinct target keys the trace has one entry per target, in their order, and exactly the
  entry of the selected target carries the selected flag.
\<close>

lemma schedule_trace:
  assumes "schedule predict config sink decision_id now view targets = Inr d"
    and "distinct (map target_key (schedule_targets view targets))"
  shows "map evaluation_key (rd_candidates d) = map target_key (schedule_targets view targets)"
    and "\<forall>e \<in> set (rd_candidates d). ce_selected e \<longleftrightarrow> evaluation_key e = decision_key d"
    and "decision_key d \<in> set (map target_key (schedule_targets view targets))"
    and "\<forall>e \<in> set (rd_candidates d). ce_selected e \<longrightarrow>
      ce_predicted_success e = rd_predicted_success d \<and> ce_effective_cost e = rd_predicted_cost d"
proof -
  let ?ts = "schedule_targets view targets"
  obtain eligible po items g x y reason and sl :: selection where r:
    "eligible = filter (\<lambda>t. target_reasons view t = []) (schedule_targets view targets)" "eligible \<noteq> []"
    "choose_policy predict config view eligible = Inr po"
    "evaluate_targets config (po_estimates po) (po_targets po) = Inr items"
    "g = success_gate (map et_evaluation items) (cf_s_min config) (cf_epsilon_success config)"
    "list_all2 (\<lambda>i j. et_target j = et_target i \<and> staged view config (sg_model_ids g) i (et_evaluation j))
       items (sl_evaluated sl)"
    "\<forall>z \<in> set (sl_cost_pairs sl). offered view config (sg_model_ids g) items z"
    "y \<in> set (sl_cost_pairs sl)"
    "\<not> (\<not> co_active (po_override po) \<and> should_hold_tier config view (snd x) (sl_cost_pairs sl)) \<Longrightarrow>
       y = x \<and> reason = routing_reason (sl_success_items sl) (map snd (sl_cost_pairs sl))
         (pr_reason (projr (choose_placement view (sl_cost_pairs sl)))) (co_active (po_override po)) (sg_fallback g)"
    "d = build_routing_decision view (snd y)
       (candidate_trace (sl_evaluated sl) (fr_rejected (hard_filter view (schedule_targets view targets)))
          (schedule_targets view targets))
       reason config (co_reasons (po_override po)) (sg_fallback g) decision_id now"
    by (rule schedule_Inr [OF assms(1)]) blast
  have "offered view config (sg_model_ids g) items y" using r(7,8) by blast
  then obtain i where i: "i \<in> set items" "staged view config (sg_model_ids g) i (snd y)"
      "tc_model_id (et_target i) \<in> sg_model_ids g"
    unfolding offered_def by blast
  then obtain m where m: "m < length items" "i = items ! m" by (auto simp: in_set_conv_nth)
  have dk: "decision_key d = target_key (et_target i)" "ce_ref (snd y) = item_ref i"
    using i(2) by (simp_all add: r(10) staged_def)
  note it = evaluate_targets_Inr(1,2) [OF r(4)]
  have len: "length items = length (po_targets po)" using it(1) by (metis length_map)
  have ref: "item_ref (items ! n) = n" if "n < length items" for n
    using arg_cong [OF it(2), of "\<lambda>xs. xs ! n"] that len by simp
  have "distinct (map target_key (map et_target items))"
    unfolding it(1) using distinct_targets [OF r(3) [unfolded r(1)] assms(2)] .
  then have inj: "n = k" if "n < length items" "k < length items"
      "target_key (et_target (items ! n)) = target_key (et_target (items ! k))" for n k
    using that by (auto simp: distinct_conv_nth)
  have st: "et_target (sl_evaluated sl ! n) = et_target (items ! n)"
    "staged view config (sg_model_ids g) (items ! n) (et_evaluation (sl_evaluated sl ! n))"
    if "n < length items" for n
    using r(6) that by (auto simp: list_all2_conv_all_nth)
  have len': "length (sl_evaluated sl) = length items" using r(6) by (simp add: list_all2_lengthD)
  let ?tr = "candidate_trace (sl_evaluated sl) (fr_rejected (hard_filter view ?ts)) ?ts"
  let ?mark = "\<lambda>e. if ce_ref e = ce_ref (snd y) then e\<lparr>ce_selected := True\<rparr> else e"
  have keys: "map evaluation_key ?tr = map target_key ?ts"
  proof (rule candidate_trace_keys)
    fix j assume "j \<in> set (sl_evaluated sl)"
    then obtain n where "n < length items" "j = sl_evaluated sl ! n" using len' by (auto simp: in_set_conv_nth)
    with st [of n] show "evaluation_key (et_evaluation j) = target_key (et_target j)" by (simp add: staged_def)
  qed
  have mk: "evaluation_key (e\<lparr>ce_selected := b\<rparr>) = evaluation_key e" for e :: candidate_evaluation and b
    by (simp add: evaluation_key_def)
  have "map evaluation_key (map ?mark ?tr) = map evaluation_key ?tr" by (simp add: mk if_distrib [of evaluation_key])
  with keys show "map evaluation_key (rd_candidates d) = map target_key ?ts" by (simp add: r(10))
  have flag: "(ce_selected (?mark e) \<longleftrightarrow> evaluation_key (?mark e) = decision_key d) \<and>
      (ce_selected (?mark e) \<longrightarrow> ce_predicted_success (?mark e) = rd_predicted_success d \<and>
         ce_effective_cost (?mark e) = rd_predicted_cost d)" if e: "e \<in> set ?tr" for e
    using e
  proof (cases rule: candidate_trace_in)
    case (evaluated j)
    then obtain n where n: "n < length items" "e = et_evaluation (sl_evaluated sl ! n)"
      using len' by (auto simp: in_set_conv_nth)
    with st [of n] have s: "ce_ref e = n" "evaluation_key e = target_key (et_target (items ! n))" "\<not> ce_selected e"
      using ref [of n] by (simp_all add: staged_def)
    have "ce_ref e = ce_ref (snd y) \<longleftrightarrow> n = m" using s(1) dk(2) m ref by simp
    moreover have "evaluation_key e = decision_key d \<longleftrightarrow> n = m" using s(2) dk(1) m n(1) inj by auto
    moreover have "ce_predicted_success e = rd_predicted_success d \<and> ce_effective_cost e = rd_predicted_cost d" if "n = m"
      using that st(2) [OF n(1)] i(2,3) n(2) m(2) by (simp add: r(10) staged_def)
    ultimately show ?thesis using s(3) by (simp add: mk)
  next
    case (fresh n t rs)
    have "ce_ref (snd y) < length (sl_evaluated sl)" using dk(2) m ref len' by simp
    then have "ce_ref e \<noteq> ce_ref (snd y)" using fresh by simp
    moreover have "target_key t \<noteq> decision_key d"
    proof
      assume "target_key t = decision_key d"
      then have "target_key t = target_key (et_target (sl_evaluated sl ! m))" using dk(1) st(1) m by simp
      moreover have "sl_evaluated sl ! m \<in> set (sl_evaluated sl)" using m(1) len' by simp
      ultimately show False using evaluated_index_covers fresh(3) by fastforce
    qed
    ultimately show ?thesis using fresh(4) by (simp add: mk)
  qed
  show "\<forall>e \<in> set (rd_candidates d). ce_selected e \<longleftrightarrow> evaluation_key e = decision_key d"
  proof
    fix e assume "e \<in> set (rd_candidates d)"
    then obtain e' where e': "e' \<in> set ?tr" "e = ?mark e'"
      unfolding r(10) build_routing_decision_fields set_map by (rule imageE)
    show "ce_selected e \<longleftrightarrow> evaluation_key e = decision_key d"
      unfolding e'(2) using flag [OF e'(1)] by (rule conjunct1)
  qed
  show "\<forall>e \<in> set (rd_candidates d). ce_selected e \<longrightarrow>
      ce_predicted_success e = rd_predicted_success d \<and> ce_effective_cost e = rd_predicted_cost d"
  proof
    fix e assume "e \<in> set (rd_candidates d)"
    then obtain e' where e': "e' \<in> set ?tr" "e = ?mark e'"
      unfolding r(10) build_routing_decision_fields set_map by (rule imageE)
    show "ce_selected e \<longrightarrow>
      ce_predicted_success e = rd_predicted_success d \<and> ce_effective_cost e = rd_predicted_cost d"
      unfolding e'(2) using flag [OF e'(1)] by (rule conjunct2)
  qed
  have "et_target i \<in> set (po_targets po)" using i(1) it(1) by (metis image_eqI list.set_map)
  then show "decision_key d \<in> set (map target_key ?ts)"
    using choose_policy_targets(1) [OF r(3,2)] r(1) dk(1) by auto
qed

end
