(* ===== verification/SF_Bridge_Properties.thy ===== *)
theory SF_Bridge_Properties
  imports SF_Routing_Bridge SF_Scheduler_Properties
begin

text \<open>
  The scheduler, the bridge and the control journal together: the trace of a routing decision
  accounts for every target, and every routing decision can be journaled.
\<close>

section \<open>The trace of a decision\<close>

lemma schedule_trace_flag:
  assumes "schedule predict config sink decision_id now view targets = Inr d"
    and "distinct (map target_key (schedule_targets view targets))"
  shows "\<exists>!n. n < length (rd_candidates d) \<and> ce_selected (rd_candidates d ! n)"
proof -
  note t = schedule_trace [OF assms]
  let ?es = "rd_candidates d"
  have d: "distinct (map evaluation_key ?es)" using t(1) assms(2) by simp
  have "decision_key d \<in> set (map evaluation_key ?es)" using t(1,3) by simp
  then obtain n where n: "n < length ?es" "evaluation_key (?es ! n) = decision_key d"
    by (auto simp: in_set_conv_nth)
  have sel: "ce_selected (?es ! k) \<longleftrightarrow> evaluation_key (?es ! k) = decision_key d" if "k < length ?es" for k
    using t(2) that by simp
  show ?thesis
  proof (rule ex1I [of _ n])
    show "n < length ?es \<and> ce_selected (?es ! n)" using n sel by simp
    show "k = n" if "k < length ?es \<and> ce_selected (?es ! k)" for k
      using that sel [of k] n nth_eq_iff_index_eq [OF d, of k n] by simp
  qed
qed

text \<open>The trace of a decision accounts for every target: when no two targets share model, endpoint
  and replica, it has exactly one entry per target, in the order of the targets, evaluated or
  rejected, and exactly one entry is flagged as selected: the one the decision names, with the
  success and the cost the decision announces.\<close>
theorem schedule_trace_complete:
  assumes "schedule predict config sink decision_id now view targets = Inr d"
    and "distinct (map target_key (schedule_targets view targets))"
  shows "map evaluation_key (rd_candidates d) = map target_key (schedule_targets view targets) \<and>
     (\<exists>!n. n < length (rd_candidates d) \<and> ce_selected (rd_candidates d ! n)) \<and>
     (\<forall>e \<in> set (rd_candidates d). ce_selected e \<longrightarrow> evaluation_key e = decision_key d \<and>
        ce_predicted_success e = rd_predicted_success d \<and> ce_effective_cost e = rd_predicted_cost d)"
  using schedule_trace [OF assms] schedule_trace_flag [OF assms] by blast

theorem schedule_trace_complete_witness:
  "\<exists>d. ex_schedule ex_view = Inr d \<and> length (rd_candidates d) = 2 \<and>
     (\<exists>!n. n < length (rd_candidates d) \<and> ce_selected (rd_candidates d ! n))"
proof -
  obtain d where d: "ex_schedule ex_view = Inr d" using ex_runs ex_targets_pass(1,3) by blast
  have k: "distinct (map target_key [ex_small, ex_large])"
    by (simp add: target_key_def ex_small_def ex_large_def TargetCandidate_def)
  have t: "map evaluation_key (rd_candidates d) = map target_key [ex_small, ex_large]"
    "\<exists>!n. n < length (rd_candidates d) \<and> ce_selected (rd_candidates d ! n)"
    using schedule_trace_complete [OF d] k by simp_all
  have "length (rd_candidates d) = 2" using arg_cong [OF t(1), of length] by simp
  with d t(2) show ?thesis by blast
qed

section \<open>The bundle\<close>

lemma bundle_action_selected:
  assumes "bundle_action d pairs = Some a"
  obtains c e where "(c, e) \<in> set pairs" "ce_selected e" "a = route_action d c e"
proof -
  have "bundle_action d pairs = Some a \<Longrightarrow> \<exists>(c, e) \<in> set pairs. ce_selected e \<and> a = route_action d c e"
    unfolding bundle_action_def by (induction pairs rule: rev_induct) (auto split: if_splits prod.splits)
  then show ?thesis using assms that by blast
qed

lemma bundle_action_exists:
  "(c, e) \<in> set pairs \<Longrightarrow> ce_selected e \<Longrightarrow> bundle_action d pairs \<noteq> None"
  unfolding bundle_action_def by (induction pairs rule: rev_induct) (auto split: if_splits prod.splits)

lemma length_bundle [simp]:
  "length (bundle_pairs cid d) = length (rd_candidates d)"
  "length (bundle_predictions pid s d pairs) = length pairs"
  by (simp_all add: bundle_pairs_def bundle_predictions_def)

lemma bundle_nth:
  assumes "n < length (rd_candidates d)"
  shows "bundle_pairs cid d ! n = (route_candidate (cid n) (rd_candidates d ! n), rd_candidates d ! n)"
    and "bundle_predictions pid s d (bundle_pairs cid d) ! n
      = from_routing_evaluation (pid n) s (route_candidate (cid n) (rd_candidates d ! n)) (rd_candidates d ! n)
          (rd_scheduler_version d)"
  using assms by (simp_all add: bundle_pairs_def bundle_predictions_def nth_enumerate_eq)

lemma routing_prediction_fields [simp]:
  "pd_prediction_id (from_routing_evaluation i s c e v) = i"
  "pd_snapshot_id (from_routing_evaluation i s c e v) = s"
  "pd_candidate_id (from_routing_evaluation i s c e v) = ca_candidate_id c"
  "pd_model_version (from_routing_evaluation i s c e v) = v"
  "rp_success_probability (pd_reliability (from_routing_evaluation i s c e v)) = Some (ce_predicted_success e)"
  "cp_monetary_cost (pd_cost (from_routing_evaluation i s c e v)) = Some (ce_effective_cost e)"
  by (simp_all add: from_routing_evaluation_def prediction_post_init_def ReliabilityPrediction_def CostPrediction_def)

lemma bundle_ids:
  "map (\<lambda>(c, e). ca_candidate_id c) (bundle_pairs cid d) = map cid [0..<length (rd_candidates d)]"
  "map pd_candidate_id (bundle_predictions pid s d (bundle_pairs cid d)) = map cid [0..<length (rd_candidates d)]"
  "map pd_prediction_id (bundle_predictions pid s d (bundle_pairs cid d)) = map pid [0..<length (rd_candidates d)]"
  by (rule nth_equalityI; simp add: bundle_nth route_candidate_def)+

lemma bundle_selected_prediction:
  assumes "ce_selected (rd_candidates d ! n)" "n < length (rd_candidates d)"
    and "\<And>k. k < length (rd_candidates d) \<Longrightarrow> ce_selected (rd_candidates d ! k) \<Longrightarrow> k = n"
    and "inj cid" "\<And>k. cid k \<noteq> []"
  obtains b where "routing_control_bundle cid pid d snapshot_id policy = Inr b"
    "validate_bundle (rb_decision b) (rb_predictions b) = Inr ()"
    "selected_prediction (rb_decision b) (rb_predictions b) = Inr (rb_predictions b ! n)"
    "rb_predictions b = bundle_predictions pid (bundle_snapshot_id d snapshot_id) d (bundle_pairs cid d)"
    "de_decision_id (rb_decision b) = rd_decision_id d" "action_of (rb_decision b) = ''action:'' @ rd_decision_id d"
proof -
  let ?s = "bundle_snapshot_id d snapshot_id"
  let ?pairs = "bundle_pairs cid d"
  let ?ps = "bundle_predictions pid ?s d ?pairs"
  have "?pairs ! n \<in> set ?pairs" using assms(2) by simp
  then obtain a where a: "bundle_action d ?pairs = Some a"
    using bundle_action_exists [of _ _ ?pairs d] assms(1,2) by (fastforce simp: bundle_nth)
  then obtain c e where ce: "(c, e) \<in> set ?pairs" "ce_selected e" "a = route_action d c e"
    by (rule bundle_action_selected)
  then obtain k where "k < length (rd_candidates d)" "?pairs ! k = (c, e)" by (auto simp: in_set_conv_nth)
  moreover from this have "k = n" using assms(3) ce(2) by (simp add: bundle_nth)
  ultimately have c: "c = route_candidate (cid n) (rd_candidates d ! n)" by (auto simp: bundle_nth)
  obtain b where b: "routing_control_bundle cid pid d snapshot_id policy = Inr b" "rb_predictions b = ?ps"
    "de_snapshot_id (rb_decision b) = ?s" "de_candidate_ids (rb_decision b) = map (\<lambda>(c, e). ca_candidate_id c) ?pairs"
    "de_prediction_ids (rb_decision b) = map pd_prediction_id ?ps"
    "de_model_versions (rb_decision b) = sort (remdups (map pd_model_version ?ps))"
    "de_selected_action (rb_decision b) = a" "de_decision_id (rb_decision b) = rd_decision_id d"
    by (simp add: routing_control_bundle_def Let_def a)
  have snap: "\<forall>p \<in> set ?ps. pd_snapshot_id p = ?s"
    by (auto simp: bundle_predictions_def)
  have "?ps \<noteq> []" using assms(2) length_bundle by (metis length_greater_0_conv less_nat_zero_code neq0_conv)
  then have "validate_bundle (rb_decision b) (rb_predictions b) = Inr ()"
    using snap by (simp add: validate_bundle_def b bundle_ids)
  moreover have "selected_candidate_id (rb_decision b) = Some (PStr (cid n))"
    using assms(5) by (simp add: selected_candidate_id_def b(7) ce(3) route_action_def c route_candidate_def)
  moreover have "distinct (map pd_candidate_id ?ps)"
    unfolding bundle_ids using assms(4) by (simp add: distinct_map inj_on_def inj_def)
  moreover have "?ps ! n \<in> set ?ps" using assms(2) by (intro nth_mem) simp
  moreover have "pd_candidate_id (?ps ! n) = cid n" using assms(2) by (simp add: bundle_nth route_candidate_def)
  ultimately have "selected_prediction (rb_decision b) (rb_predictions b) = Inr (rb_predictions b ! n)"
    using selected_prediction_unique b(2) by metis
  moreover have "action_of (rb_decision b) = ''action:'' @ rd_decision_id d" by (simp add: b(7) ce(3) route_action_def)
  ultimately show ?thesis using b \<open>validate_bundle _ _ = _\<close> by (intro that)
qed

text \<open>C31: Every routing decision can be journaled: with distinct targets, distinct non-empty candidate
  identifiers and prediction identifiers the journal has not seen, the bundle of a decision exists
  and the journal records it, whatever it held before, unless the decision or its action is already
  there; and the prediction the journal will hold against the outcome is the one of the selected
  target, with the success probability and the cost the decision announced.\<close>
theorem routed_decision_journaled:
  assumes "schedule predict config sink decision_id now view targets = Inr d"
    and "distinct (map target_key (schedule_targets view targets))"
    and "inj candidate_ids" "\<And>k. candidate_ids k \<noteq> []"
    and "control_step\<^sup>*\<^sup>* empty_control_journal j" "\<And>k. dict_get (cj_predictions j) (prediction_ids k) = None"
    and "dict_get (cj_decisions j) (rd_decision_id d) = None"
    and "dict_get (cj_action_decisions j) (''action:'' @ rd_decision_id d) = None"
  shows "\<exists>b r k p. routing_control_bundle candidate_ids prediction_ids d snapshot_id policy = Inr b \<and>
     record_decision j (rb_decision b) (rb_predictions b) = Inr (r, k) \<and> p \<in> set (rb_predictions b) \<and>
     dict_get (cj_selected_predictions k) (''action:'' @ rd_decision_id d) = Some (pd_prediction_id p) \<and>
     rp_success_probability (pd_reliability p) = Some (rd_predicted_success d) \<and>
     cp_monetary_cost (pd_cost p) = Some (rd_predicted_cost d)"
proof -
  note t = schedule_trace [OF assms(1,2)]
  from schedule_trace_flag [OF assms(1,2)] obtain n where n: "n < length (rd_candidates d)" "ce_selected (rd_candidates d ! n)"
    "\<And>k. k < length (rd_candidates d) \<Longrightarrow> ce_selected (rd_candidates d ! k) \<Longrightarrow> k = n" by blast
  let ?ps = "bundle_predictions prediction_ids (bundle_snapshot_id d snapshot_id) d (bundle_pairs candidate_ids d)"
  obtain b where b: "routing_control_bundle candidate_ids prediction_ids d snapshot_id policy = Inr b"
    "validate_bundle (rb_decision b) (rb_predictions b) = Inr ()"
    "selected_prediction (rb_decision b) (rb_predictions b) = Inr (rb_predictions b ! n)" "rb_predictions b = ?ps"
    "de_decision_id (rb_decision b) = rd_decision_id d" "action_of (rb_decision b) = ''action:'' @ rd_decision_id d"
    using bundle_selected_prediction [OF n(2,1,3) assms(3,4)] by blast
  have j: "journal_ok j" using control.run_inv [OF assms(5) journal_ok_empty] .
  have fresh: "conflicting_prediction (cj_predictions j) (rb_predictions b) = None"
    using assms(6) by (auto simp: conflicting_prediction_None b(4) bundle_predictions_def)
  let ?k = "store_decision j (rb_decision b) (rb_predictions b) (rb_predictions b ! n)"
  obtain r where "record_decision j (rb_decision b) (rb_predictions b) = Inr (r, ?k)"
    by (rule record_decision_fresh [OF j b(2,3) _ _ fresh]) (use assms(7,8) in \<open>simp_all add: b(5,6)\<close>)
  moreover have "dict_get (cj_selected_predictions ?k) (''action:'' @ rd_decision_id d) = Some (pd_prediction_id (rb_predictions b ! n))"
    by (simp add: store_decision_def Let_def b(6))
  moreover have "rb_predictions b ! n \<in> set (rb_predictions b)" using n(1) by (simp add: b(4))
  moreover have "rp_success_probability (pd_reliability (rb_predictions b ! n)) = Some (rd_predicted_success d)"
    "cp_monetary_cost (pd_cost (rb_predictions b ! n)) = Some (rd_predicted_cost d)"
    using t(4) n(1,2) by (simp_all add: b(4) bundle_nth)
  ultimately show ?thesis using b(1) by blast
qed

theorem routed_decision_journaled_witness:
  "\<exists>d b r k. ex_schedule ex_view = Inr d \<and>
     routing_control_bundle (\<lambda>n. ''c'' @ replicate n CHR ''0'') (\<lambda>n. ''p'' @ replicate n CHR ''0'') d [] ''1'' = Inr b \<and>
     record_decision empty_control_journal (rb_decision b) (rb_predictions b) = Inr (r, k)"
proof -
  obtain d where d: "ex_schedule ex_view = Inr d" using ex_runs ex_targets_pass(1,3) by blast
  have k: "distinct (map target_key (schedule_targets ex_view (Some [ex_small, ex_large])))"
    by (simp add: target_key_def ex_small_def ex_large_def TargetCandidate_def)
  have i: "inj (\<lambda>n. ''c'' @ replicate n CHR ''0'')"
    by (rule injI) (metis append_same_eq length_replicate same_append_eq)
  have e: "control_step\<^sup>*\<^sup>* empty_control_journal empty_control_journal" by simp
  from routed_decision_journaled [OF d k i _ e, of "\<lambda>n. ''p'' @ replicate n CHR ''0''" "[]" "''1''"] d
  show ?thesis by (simp add: empty_control_journal_def) blast
qed

end
