(* ===== verification/SF_Iso_Time.thy ===== *)
theory SF_Iso_Time
  imports SF_Contracts
begin

text \<open>
  \<open>datetime.fromisoformat\<close> of the standard library, for the format documented for Python 3.10, the
  oldest version the package supports: \<open>YYYY-MM-DD[*HH[:MM[:SS[.fff[fff]]]][+HH:MM[:SS[.ffffff]]]]\<close>,
  where \<open>*\<close> is any one character. Later versions accept more strings; a string accepted here means
  the same there.
\<close>

definition iso_error :: "'a res" where
  "iso_error = Inl (ValueError ''Invalid isoformat string'')"

definition digits_field :: "nat \<Rightarrow> nat \<Rightarrow> string \<Rightarrow> int res" where
  "digits_field from len s =
     (let f = take len (drop from s) in
      if length f = len \<and> list_all is_digit_char f then Inr (digits_value f) else iso_error)"

definition is_leap :: "int \<Rightarrow> bool" where
  "is_leap y \<longleftrightarrow> y mod 4 = 0 \<and> (y mod 100 \<noteq> 0 \<or> y mod 400 = 0)"

definition days_in_month :: "int \<Rightarrow> int \<Rightarrow> int" where
  "days_in_month y m = (if m = 2 then (if is_leap y then 29 else 28)
     else if m \<in> {4, 6, 9, 11} then 30 else 31)"

definition days_before_year :: "int \<Rightarrow> int" where
  "days_before_year y = (let k = y - 1 in k * 365 + k div 4 - k div 100 + k div 400)"

definition days_before_month :: "int \<Rightarrow> int \<Rightarrow> int" where
  "days_before_month y m = sum_list (map (days_in_month y) [1..m - 1])"

text \<open>The proleptic Gregorian ordinal, counted from the Unix epoch.\<close>

definition epoch_day :: "int \<Rightarrow> int \<Rightarrow> int \<Rightarrow> int" where
  "epoch_day y m d = days_before_year y + days_before_month y m + d - 719163"

definition parse_date :: "string \<Rightarrow> int res" where
  "parse_date s =
     res_bind (digits_field 0 4 s) (\<lambda>y.
     res_bind (digits_field 5 2 s) (\<lambda>m.
     res_bind (digits_field 8 2 s) (\<lambda>d.
       if length s \<noteq> 10 \<or> s ! 4 \<noteq> CHR ''-'' \<or> s ! 7 \<noteq> CHR ''-'' then iso_error
       else if y < 1 \<or> m < 1 \<or> m > 12 \<or> d < 1 \<or> d > days_in_month y m then iso_error
       else Inr (epoch_day y m d))))"

text \<open>\<open>HH[:MM[:SS[.fff[fff]]]]\<close> as microseconds; the fields present are decided by the length.\<close>

definition parse_clock :: "nat list \<Rightarrow> string \<Rightarrow> (int \<times> int \<times> int \<times> int) res" where
  "parse_clock lengths s =
     (let n = length s in
      if n \<notin> set lengths then iso_error
      else if (n \<ge> 5 \<and> s ! 2 \<noteq> CHR '':'') \<or> (n \<ge> 8 \<and> s ! 5 \<noteq> CHR '':'') \<or> (n \<ge> 12 \<and> s ! 8 \<noteq> CHR ''.'')
      then iso_error
      else
        res_bind (digits_field 0 2 s) (\<lambda>hh.
        res_bind (if n \<ge> 5 then digits_field 3 2 s else Inr 0) (\<lambda>mm.
        res_bind (if n \<ge> 8 then digits_field 6 2 s else Inr 0) (\<lambda>ss.
        res_bind (if n = 15 then digits_field 9 6 s
                  else if n = 12 then res_bind (digits_field 9 3 s) (\<lambda>ms. Inr (1000 * ms)) else Inr 0) (\<lambda>us.
        Inr (hh, mm, ss, us))))))"

definition clock_micros :: "int \<times> int \<times> int \<times> int \<Rightarrow> int" where
  "clock_micros = (\<lambda>(hh, mm, ss, us). ((hh * 60 + mm) * 60 + ss) * 1000000 + us)"

definition parse_time :: "string \<Rightarrow> int res" where
  "parse_time s =
     res_bind (parse_clock [2, 5, 8, 12, 15] s) (\<lambda>(hh, mm, ss, us).
       if hh > 23 \<or> mm > 59 \<or> ss > 59 then iso_error else Inr (clock_micros (hh, mm, ss, us)))"

text \<open>The offset is a \<open>timedelta\<close> built from the fields, and must be less than a day.\<close>

definition parse_offset :: "char \<Rightarrow> string \<Rightarrow> int res" where
  "parse_offset sign s =
     res_bind (parse_clock [5, 8, 15] s) (\<lambda>c.
       if clock_micros c \<ge> 86400 * 1000000 then iso_error
       else Inr (if sign = CHR ''-'' then - clock_micros c else clock_micros c))"

definition split_at_char :: "char \<Rightarrow> string \<Rightarrow> (string \<times> string) option" where
  "split_at_char c s = (if c \<in> set s then Some (takeWhile (\<lambda>x. x \<noteq> c) s, tl (dropWhile (\<lambda>x. x \<noteq> c) s)) else None)"

definition parse_time_zone :: "string \<Rightarrow> (int \<times> int option) res" where
  "parse_time_zone s =
     (case split_at_char (CHR ''-'') s of
        Some (t, z) \<Rightarrow> res_bind (parse_time t) (\<lambda>t. res_bind (parse_offset (CHR ''-'') z) (\<lambda>z. Inr (t, Some z)))
      | None \<Rightarrow>
          (case split_at_char (CHR ''+'') s of
             Some (t, z) \<Rightarrow> res_bind (parse_time t) (\<lambda>t. res_bind (parse_offset (CHR ''+'') z) (\<lambda>z. Inr (t, Some z)))
           | None \<Rightarrow> res_bind (parse_time s) (\<lambda>t. Inr (t, None))))"

definition fromisoformat :: "string \<Rightarrow> datetime res" where
  "fromisoformat s =
     res_bind (parse_date (take 10 s)) (\<lambda>day.
       if length s \<le> 10 then Inr \<lparr>dt_wall = day * 86400 * 1000000, dt_offset = None\<rparr>
       else res_bind (parse_time_zone (drop 11 s)) (\<lambda>(t, z).
         Inr \<lparr>dt_wall = day * 86400 * 1000000 + t, dt_offset = z\<rparr>))"

text \<open>\<open>value.replace("Z", "+00:00")\<close>, as the program writes it before every call.\<close>

definition replace_zulu :: "string \<Rightarrow> string" where
  "replace_zulu s = concat (map (\<lambda>c. if c = CHR ''Z'' then ''+00:00'' else [c]) s)"

lemma fromisoformat_examples:
  "fromisoformat ''1970-01-02'' = Inr \<lparr>dt_wall = 86400 * 1000000, dt_offset = None\<rparr>"
  "fromisoformat (replace_zulu ''2024-02-29T12:30:00Z'') = Inr \<lparr>dt_wall = 1709209800000000, dt_offset = Some 0\<rparr>"
  "fromisoformat ''2023-02-29'' = iso_error"
  "fromisoformat ''2000-01-01T01:00+02:00'' = Inr \<lparr>dt_wall = 946688400000000, dt_offset = Some 7200000000\<rparr>"
  by code_simp+

end
