(* ===== verification/SF_KV_Control.thy ===== *)
theory SF_KV_Control
  imports SF_Prediction_Service SF_Control_Journal SF_Iso_Time
begin

text \<open>
  \<open>stateflow/control/kv.py\<close>: the agent-aware KV controller. \<open>plan\<close> generates one candidate action
  per KV target, has the prediction service predict them, selects one under its guards and
  journals the decision; it dispatches nothing. The controller owns a prediction service and a
  control journal, which \<open>plan\<close> changes; the identifiers and times that come from \<open>uuid4()\<close> and
  \<open>utcnow()\<close> are a record of arguments.
\<close>

section \<open>Targets, owner, request and configuration\<close>

datatype kv_action_type = KEEP | OFFLOAD | PREFETCH | MIGRATE

fun kv_action_value :: "kv_action_type \<Rightarrow> string" where
  "kv_action_value KEEP = ''keep''"
| "kv_action_value OFFLOAD = ''offload''"
| "kv_action_value PREFETCH = ''prefetch''"
| "kv_action_value MIGRATE = ''migrate''"

record kv_target =
  kt_location_ref :: string
  kt_tier :: string
  kt_effective_bw :: real
  kt_transfer_setup_seconds :: real
  kt_hbm_capacity_bytes :: int
  kt_network_byte_cost :: real
  kt_storage_io_byte_cost :: real
  kt_available :: bool
  kt_healthy :: bool

definition kv_target_post_init :: "kv_target \<Rightarrow> kv_target res" where
  "kv_target_post_init t =
     (if kt_location_ref t = [] then Inl (ValueError ''KV target location_ref is required'')
      else if kt_tier t = [] then Inl (ValueError ''KV target tier is required'')
      else
        (case find (\<lambda>(name, v). v < 0)
           [(''effective_bw_bytes_per_second'', kt_effective_bw t),
            (''transfer_setup_seconds'', kt_transfer_setup_seconds t),
            (''hbm_capacity_bytes'', real_of_int (kt_hbm_capacity_bytes t)),
            (''network_byte_cost'', kt_network_byte_cost t),
            (''storage_io_byte_cost'', kt_storage_io_byte_cost t)] of
           Some (name, v) \<Rightarrow> Inl (ValueError (name @ '' must be finite and non-negative''))
         | None \<Rightarrow> Inr t))"

definition is_hbm :: "kv_target \<Rightarrow> bool" where
  "is_hbm t \<longleftrightarrow> str_lower (kt_tier t) \<in> {''hbm'', ''gpu'', ''gpu_hbm''}"

record kv_owner =
  ko_component_ref :: string
  ko_managed_kv_prefixes :: "string list"
  ko_allowed_actions :: "kv_action_type list"

definition kv_owner_post_init :: "kv_owner \<Rightarrow> kv_owner res" where
  "kv_owner_post_init ow =
     (if ko_component_ref ow = [] then Inl (ValueError ''KV action owner component_ref is required'')
      else if ko_managed_kv_prefixes ow = [] \<or> [] \<in> set (ko_managed_kv_prefixes ow)
      then Inl (ValueError ''KV action owner requires managed_kv_prefixes'')
      else if KEEP \<notin> set (ko_allowed_actions ow)
      then Inl (ValueError ''KV action owner must allow the keep baseline'')
      else Inr ow)"

definition manages :: "kv_owner \<Rightarrow> string \<Rightarrow> bool" where
  "manages ow kv_ref \<longleftrightarrow> (\<exists>prefix \<in> set (ko_managed_kv_prefixes ow). str_startswith kv_ref prefix)"

record kv_request =
  kq_snapshot_id :: string
  kq_kv_ref :: string
  kq_targets :: "kv_target list"
  kq_agent_ref :: string
  kq_expected_state_owner :: string
  kq_policy_version :: string

definition kv_request_post_init :: "kv_request \<Rightarrow> kv_request res" where
  "kv_request_post_init q =
     (if kq_snapshot_id q = [] \<or> kq_kv_ref q = []
      then Inl (ValueError ''KV control snapshot_id and kv_ref are required'')
      else if kq_policy_version q = [] then Inl (ValueError ''KV control policy_version is required'')
      else Inr q)"

record kv_config =
  kc_min_snapshot_completeness :: real
  kc_min_prediction_confidence :: real
  kc_offload_hbm_pressure :: real
  kc_offload_max_reuse_probability :: real
  kc_prefetch_min_reuse_probability :: real
  kc_prefetch_horizon_seconds :: real
  kc_max_prefetch_hbm_pressure :: real
  kc_reservation_ttl_seconds :: real
  kc_offload_phases :: "string list"
  kc_stable_transfer_states :: "string list"

definition default_kv_config :: kv_config where
  "default_kv_config = \<lparr>kc_min_snapshot_completeness = 1 / 2, kc_min_prediction_confidence = 1 / 2,
     kc_offload_hbm_pressure = 9 / 10, kc_offload_max_reuse_probability = 3 / 10,
     kc_prefetch_min_reuse_probability = 6 / 10, kc_prefetch_horizon_seconds = 5,
     kc_max_prefetch_hbm_pressure = 98 / 100, kc_reservation_ttl_seconds = 5,
     kc_offload_phases = [''TOOL_WAITING'', ''BLOCKED'', ''PAUSED''],
     kc_stable_transfer_states = [''idle'', ''resident'', ''ready'']\<rparr>"

definition kv_config_post_init :: "kv_config \<Rightarrow> kv_config res" where
  "kv_config_post_init c =
     (case find (\<lambda>(name, v). \<not> (0 \<le> v \<and> v \<le> 1))
        [(''min_snapshot_completeness'', kc_min_snapshot_completeness c),
         (''min_prediction_confidence'', kc_min_prediction_confidence c),
         (''offload_hbm_pressure'', kc_offload_hbm_pressure c),
         (''offload_max_reuse_probability'', kc_offload_max_reuse_probability c),
         (''prefetch_min_reuse_probability'', kc_prefetch_min_reuse_probability c),
         (''max_prefetch_hbm_pressure'', kc_max_prefetch_hbm_pressure c)] of
        Some (name, v) \<Rightarrow> Inl (ValueError (name @ '' must be between zero and one''))
      | None \<Rightarrow>
          if kc_prefetch_horizon_seconds c < 0 \<or> kc_reservation_ttl_seconds c \<le> 0
          then Inl (ValueError ''KV timing configuration is invalid'')
          else if kc_stable_transfer_states c = [] \<or> [] \<in> set (kc_stable_transfer_states c)
          then Inl (ValueError ''KV control requires stable transfer states'')
          else Inr c)"

section \<open>Reading the snapshot\<close>

definition kv_state_value :: "snapshot \<Rightarrow> string \<Rightarrow> string \<Rightarrow> state_value option res" where
  "kv_state_value sn entity_ref key =
     (case filter (\<lambda>v. sv_entity_ref v = entity_ref \<and> sv_key v = key) (sn_values sn) of
        [] \<Rightarrow> Inr None
      | [v] \<Rightarrow> Inr (Some v)
      | _ \<Rightarrow> Inl (ValueError (''snapshot contains duplicate state value: '' @ entity_ref @ '':'' @ key)))"

definition kv_float :: "string \<Rightarrow> pyval \<Rightarrow> real res" where
  "kv_float label value =
     (if \<not> is_number value then Inl (ValueError (''KV control state must be numeric: '' @ label))
      else
        (case value of
           PInt i \<Rightarrow> if i < 0 then Inl (ValueError (''KV control state must be finite and non-negative: '' @ label))
                     else Inr (real_of_int i)
         | PFloat x \<Rightarrow> if x < 0 then Inl (ValueError (''KV control state must be finite and non-negative: '' @ label))
                       else Inr x
         | _ \<Rightarrow> Inl (ValueError (''KV control state must be finite and non-negative: '' @ label))))"

definition optional_number :: "snapshot \<Rightarrow> string \<Rightarrow> string \<Rightarrow> real option res" where
  "optional_number sn entity_ref key =
     res_bind (kv_state_value sn entity_ref key) (\<lambda>state.
       case state of None \<Rightarrow> Inr None
       | Some v \<Rightarrow> res_bind (kv_float (entity_ref @ '':'' @ key) (sv_value v)) (\<lambda>x. Inr (Some x)))"

definition required_number :: "snapshot \<Rightarrow> string \<Rightarrow> string \<Rightarrow> real res" where
  "required_number sn entity_ref key =
     res_bind (optional_number sn entity_ref key) (\<lambda>v.
       case v of None \<Rightarrow> Inl (NoKVControlCandidate (''missing required KV state: '' @ entity_ref @ '':'' @ key))
       | Some x \<Rightarrow> Inr x)"

definition optional_string :: "snapshot \<Rightarrow> string \<Rightarrow> string \<Rightarrow> string option res" where
  "optional_string sn entity_ref key =
     res_bind (kv_state_value sn entity_ref key) (\<lambda>state.
       case state of None \<Rightarrow> Inr None
       | Some v \<Rightarrow>
           (case sv_value v of PStr s \<Rightarrow> Inr (Some s)
            | _ \<Rightarrow> Inl (ValueError (''KV control state must be a string: '' @ entity_ref @ '':'' @ key))))"

definition required_string :: "snapshot \<Rightarrow> string \<Rightarrow> string \<Rightarrow> string res" where
  "required_string sn entity_ref key =
     res_bind (optional_string sn entity_ref key) (\<lambda>v.
       case v of
         Some (c # cs) \<Rightarrow> Inr (c # cs)
       | _ \<Rightarrow> Inl (NoKVControlCandidate (''missing required KV state: '' @ entity_ref @ '':'' @ key)))"

definition optional_datetime :: "snapshot \<Rightarrow> string \<Rightarrow> string \<Rightarrow> datetime option res" where
  "optional_datetime sn entity_ref key =
     res_bind (kv_state_value sn entity_ref key) (\<lambda>state.
       case state of None \<Rightarrow> Inr None
       | Some v \<Rightarrow>
           res_bind
             (case sv_value v of
                PTime t \<Rightarrow> Inr t
              | PStr s \<Rightarrow> fromisoformat (replace_zulu s)
              | _ \<Rightarrow> Inl (ValueError (''KV control state must be a timestamp: '' @ entity_ref @ '':'' @ key)))
             (\<lambda>t. Inr (Some (datetime_aware t))))"

definition current_hbm_pressure :: "snapshot \<Rightarrow> kv_target \<Rightarrow> real option res" where
  "current_hbm_pressure sn t =
     (if \<not> is_hbm t \<or> kt_hbm_capacity_bytes t \<le> 0 then Inr None
      else
        res_bind (optional_number sn (kt_location_ref t) ''resource.hbm.used'') (\<lambda>used.
        res_bind (optional_number sn (kt_location_ref t) ''resource.hbm.reserved'') (\<lambda>reserved.
        case (used, reserved) of
          (Some u, Some r) \<Rightarrow> Inr (Some ((u + r) / real_of_int (kt_hbm_capacity_bytes t)))
        | _ \<Rightarrow> Inr None)))"

section \<open>Candidates\<close>

definition action_type_of :: "kv_target \<Rightarrow> kv_target \<Rightarrow> kv_action_type" where
  "action_type_of current target =
     (if kt_location_ref current = kt_location_ref target then KEEP
      else if is_hbm current \<and> \<not> is_hbm target then OFFLOAD
      else if \<not> is_hbm current \<and> is_hbm target then PREFETCH
      else MIGRATE)"

definition kv_candidate_id :: "snapshot \<Rightarrow> string \<Rightarrow> kv_action_type \<Rightarrow> string \<Rightarrow> string" where
  "kv_candidate_id sn kv_ref a location =
     ''candidate:kv:'' @ show_int (sn_logical_time sn) @ '':'' @ kv_ref @ '':'' @ kv_action_value a @ '':'' @ location"

definition hbm_resource :: "kv_target \<Rightarrow> kv_target \<Rightarrow> kv_target option" where
  "hbm_resource current target =
     (if is_hbm target then Some target else if is_hbm current then Some current else None)"

definition optional_entry :: "string \<Rightarrow> pyval option \<Rightarrow> (string, pyval) dict" where
  "optional_entry key v = (case v of None \<Rightarrow> [] | Some x \<Rightarrow> [(key, x)])"

definition kv_parameters ::
  "kv_request \<Rightarrow> kv_target \<Rightarrow> kv_target \<Rightarrow> int \<Rightarrow> real option \<Rightarrow> real option \<Rightarrow> (string, pyval) dict" where
  "kv_parameters q current target kv_size hbm_used hbm_reserved =
     (let moved = kt_location_ref target \<noteq> kt_location_ref current;
          transfer_bytes = (if moved then kv_size else 0)
      in [(''kv_ref'', PStr (kq_kv_ref q)),
          (''source_location'', PStr (kt_location_ref current)),
          (''target_location'', PStr (kt_location_ref target)),
          (''target_kv_location'', PStr (kt_location_ref target)),
          (''transfer_bytes'', PInt transfer_bytes),
          (''transfer_setup_seconds'', PFloat (kt_transfer_setup_seconds target)),
          (''network_byte_cost'', PFloat (kt_network_byte_cost target)),
          (''storage_io_bytes'', PInt (if \<not> is_hbm target then transfer_bytes else 0)),
          (''storage_io_byte_cost'', PFloat (kt_storage_io_byte_cost target)),
          (''predicted_kv_growth_bytes'', PInt (if is_hbm target \<and> moved then kv_size else 0)),
          (''hbm_release_bytes'', PInt (if is_hbm current \<and> \<not> is_hbm target then kv_size else 0)),
          (''base_success_probability'', PFloat 1)]
         @ optional_entry ''effective_bw_bytes_per_second''
             (if transfer_bytes = 0 \<or> kt_effective_bw target > 0 then Some (PFloat (kt_effective_bw target)) else None)
         @ optional_entry ''hbm_capacity_bytes''
             (case hbm_resource current target of
                Some r \<Rightarrow> if kt_hbm_capacity_bytes r > 0 then Some (PInt (kt_hbm_capacity_bytes r)) else None
              | None \<Rightarrow> None)
         @ optional_entry ''hbm_used_bytes'' (map_option PFloat hbm_used)
         @ optional_entry ''hbm_reserved_bytes'' (map_option PFloat hbm_reserved))"

text \<open>The body of the loop over the targets: \<open>None\<close> is \<open>continue\<close>.\<close>

definition kv_candidate ::
  "kv_owner \<Rightarrow> snapshot \<Rightarrow> kv_request \<Rightarrow> kv_target \<Rightarrow> int \<Rightarrow> kv_target \<Rightarrow> candidate_action option res" where
  "kv_candidate ow sn q current kv_size target =
     (let a = action_type_of current target in
      if a \<notin> set (ko_allowed_actions ow) then Inr None
      else if kt_location_ref target \<noteq> kt_location_ref current \<and> (\<not> kt_available target \<or> \<not> kt_healthy target)
      then Inr None
      else
        let observe = (\<lambda>key. case hbm_resource current target of
              Some r \<Rightarrow> optional_number sn (kt_location_ref r) key | None \<Rightarrow> Inr None)
        in res_bind (observe ''resource.hbm.used'') (\<lambda>hbm_used.
           res_bind (observe ''resource.hbm.reserved'') (\<lambda>hbm_reserved.
           Inr (Some \<lparr>ca_action_type = kv_action_value a,
                      ca_target_component = ko_component_ref ow,
                      ca_parameters = kv_parameters q current target kv_size hbm_used hbm_reserved,
                      ca_candidate_id = kv_candidate_id sn (kq_kv_ref q) a (kt_location_ref target)\<rparr>))))"

definition kv_candidates ::
  "kv_owner \<Rightarrow> snapshot \<Rightarrow> kv_request \<Rightarrow> kv_target \<Rightarrow> int \<Rightarrow> candidate_action list res" where
  "kv_candidates ow sn q current kv_size =
     res_bind (res_map (kv_candidate ow sn q current kv_size) (kq_targets q)) (\<lambda>found.
       let result = List.map_filter (\<lambda>c. c) found in
       if \<exists>c \<in> set result. ca_action_type c = ''keep'' then Inr result
       else Inl (NoKVControlCandidate ''no owner-authorized keep baseline''))"

section \<open>Selection\<close>

type_synonym kv_pair = "candidate_action \<times> prediction"

definition target_location :: "candidate_action \<Rightarrow> string" where
  "target_location c =
     (case dict_get (ca_parameters c) ''target_location'' of Some (PStr s) \<Rightarrow> s | _ \<Rightarrow> [])"

text \<open>The desired movement, and why; \<open>None\<close> keeps the state where it is.\<close>

definition desired_action ::
  "kv_config \<Rightarrow> kv_target \<Rightarrow> string option \<Rightarrow> real option \<Rightarrow> real option \<Rightarrow> real option
     \<Rightarrow> kv_action_type option \<times> string" where
  "desired_action cfg current phase reuse resume_seconds hbm_pressure =
     (if is_hbm current \<and> (\<exists>ph. phase = Some ph \<and> ph \<in> set (kc_offload_phases cfg)) \<and>
         (\<exists>h. hbm_pressure = Some h \<and> h \<ge> kc_offload_hbm_pressure cfg) \<and>
         (\<exists>r. reuse = Some r \<and> r \<le> kc_offload_max_reuse_probability cfg)
      then (Some OFFLOAD, ''hbm_pressure_offload'')
      else if \<not> is_hbm current \<and> (\<exists>s. resume_seconds = Some s \<and> s \<le> kc_prefetch_horizon_seconds cfg) \<and>
         (\<exists>r. reuse = Some r \<and> r \<ge> kc_prefetch_min_reuse_probability cfg)
      then (Some PREFETCH, ''expected_resume_prefetch'')
      else (None, ''baseline_keep''))"

definition eligible_pair :: "kv_config \<Rightarrow> kv_action_type \<Rightarrow> kv_pair \<Rightarrow> bool" where
  "eligible_pair cfg a x \<longleftrightarrow> ca_action_type (fst x) = kv_action_value a \<and>
     pd_confidence (snd x) \<ge> kc_min_prediction_confidence cfg \<and> pd_fallback (snd x) = ''none'' \<and>
     pp_transfer_eta_seconds (pd_performance (snd x)) \<noteq> None"

definition resource_safe :: "kv_config \<Rightarrow> kv_pair \<Rightarrow> bool" where
  "resource_safe cfg x \<longleftrightarrow>
     (case fp_hbm_pressure (pd_future_state (snd x)) of
        None \<Rightarrow> False | Some h \<Rightarrow> h \<le> kc_max_prefetch_hbm_pressure cfg)"

text \<open>The sort key; an unknown cost is infinite, written as a first component.\<close>

definition selection_key :: "kv_pair \<Rightarrow> real \<times> (int \<times> real) \<times> string" where
  "selection_key x =
     (case pp_transfer_eta_seconds (pd_performance (snd x)) of None \<Rightarrow> 0 | Some t \<Rightarrow> t,
      case cp_monetary_cost (pd_cost (snd x)) of None \<Rightarrow> (1, 0) | Some c \<Rightarrow> (0, c),
      target_location (fst x))"

definition kv_select ::
  "kv_config \<Rightarrow> snapshot \<Rightarrow> kv_pair list \<Rightarrow> kv_target \<Rightarrow> string option \<Rightarrow> real option \<Rightarrow> real option
     \<Rightarrow> real option \<Rightarrow> string option \<Rightarrow> (kv_pair \<times> string) res" where
  "kv_select cfg sn pairs current phase reuse resume_seconds hbm_pressure transfer_state =
     (case find (\<lambda>x. ca_action_type (fst x) = ''keep'') pairs of
        None \<Rightarrow> Inl (OtherException ''StopIteration'')
      | Some keep \<Rightarrow>
          if sn_completeness sn < kc_min_snapshot_completeness cfg then Inr (keep, ''snapshot_incomplete_keep'')
          else
            (case desired_action cfg current phase reuse resume_seconds hbm_pressure of
               (None, reason) \<Rightarrow> Inr (keep, reason)
             | (Some desired, reason) \<Rightarrow>
                 if \<not> (\<exists>s. transfer_state = Some s \<and> s \<in> set (kc_stable_transfer_states cfg))
                 then Inr (keep, ''transfer_state_unsafe_keep'')
                 else
                   let eligible = filter (eligible_pair cfg desired) pairs;
                       safe = (if desired = PREFETCH then filter (resource_safe cfg) eligible else eligible)
                   in if eligible = [] then Inr (keep, ''prediction_fallback_keep'')
                      else
                        (case safe of
                           [] \<Rightarrow> Inr (keep, ''resource_guard_keep'')
                         | x # xs \<Rightarrow> Inr (min_from selection_key x xs, reason))))"

section \<open>The plan\<close>

record kv_ids =
  ki_prediction_ids :: "nat \<Rightarrow> string"
  ki_prediction_times :: "nat \<Rightarrow> datetime"
  ki_action_id :: string
  ki_decision_id :: string
  ki_now :: datetime

record kv_plan =
  kp_decision :: decision_record
  kp_predictions :: "prediction list"
  kp_current_location :: string
  kp_selected_target :: string
  kp_phase :: "string option"
  kp_reuse_probability :: "real option"
  kp_resume_seconds :: "real option"
  kp_hbm_pressure :: "real option"

record kv_controller =
  kv_owner :: kv_owner
  kv_service :: prediction_service
  kv_journal :: control_journal
  kv_config :: kv_config

definition validate_ownership ::
  "plane \<Rightarrow> kv_owner \<Rightarrow> kv_request \<Rightarrow> (graph_entity \<times> graph_entity) res" where
  "validate_ownership p ow q =
     (if \<not> manages ow (kq_kv_ref q)
      then Inl (PermissionError (''KV action owner does not manage '' @ kq_kv_ref q))
      else
        (case get_entity p (kq_kv_ref q) of
           None \<Rightarrow> Inl (KeyError (''unknown KV entity: '' @ kq_kv_ref q))
         | Some kv_entity \<Rightarrow>
             if ge_entity_type kv_entity \<noteq> ''stateful_object''
             then Inl (KeyError (''unknown KV entity: '' @ kq_kv_ref q))
             else if ge_owner_component_ref kv_entity = []
             then Inl (PermissionError ''KV state has no authoritative owner'')
             else if kq_expected_state_owner q \<noteq> [] \<and>
                     ge_owner_component_ref kv_entity \<noteq> kq_expected_state_owner q
             then Inl (PermissionError ''KV state owner changed'')
             else
               (case get_entity p (ko_component_ref ow) of
                  None \<Rightarrow> Inl (KeyError (''unknown KV action owner: '' @ ko_component_ref ow))
                | Some owner_entity \<Rightarrow>
                    if ge_entity_type owner_entity \<noteq> ''component''
                    then Inl (KeyError (''unknown KV action owner: '' @ ko_component_ref ow))
                    else Inr (kv_entity, owner_entity))))"

definition kv_reservations ::
  "kv_owner \<Rightarrow> kv_config \<Rightarrow> snapshot \<Rightarrow> kv_target \<Rightarrow> kv_target \<Rightarrow> int \<Rightarrow> reservation list" where
  "kv_reservations ow cfg sn current target kv_size =
     (if is_hbm target \<and> kt_location_ref target \<noteq> kt_location_ref current
      then [\<lparr>rv_resource_ref = kt_location_ref target, rv_owner = ko_component_ref ow,
             rv_amount = [(''hbm_bytes'', real_of_int kv_size)],
             rv_expires_at = (sn_created_at sn)
               \<lparr>dt_wall := dt_wall (sn_created_at sn) + timedelta_seconds (kc_reservation_ttl_seconds cfg)\<rparr>,
             rv_status = ''proposed''\<rparr>]
      else [])"

definition kv_action ::
  "string \<Rightarrow> kv_owner \<Rightarrow> kv_config \<Rightarrow> snapshot \<Rightarrow> kv_request \<Rightarrow> graph_entity \<Rightarrow> graph_entity \<Rightarrow> kv_target
     \<Rightarrow> kv_target \<Rightarrow> candidate_action \<Rightarrow> prediction \<Rightarrow> int \<Rightarrow> string option \<Rightarrow> action" where
  "kv_action action_id ow cfg sn q kv_entity owner_entity current target c p kv_size transfer_state =
     \<lparr>ac_target_component = ge_ref owner_entity, ac_action_type = ca_action_type c,
      ac_parameters = dict_set (dict_set (ca_parameters c) ''candidate_id'' (PStr (ca_candidate_id c)))
        ''size_bytes'' (PInt kv_size),
      ac_preconditions =
        [(''snapshot_id'', PStr (sn_token sn)), (''snapshot_logical_time'', PInt (sn_logical_time sn)),
         (''kv_ref'', PStr (kq_kv_ref q)), (''expected_location'', PStr (kt_location_ref current)),
         (''expected_state_owner'', PStr (ge_owner_component_ref kv_entity)),
         (''action_owner'', PStr (ko_component_ref ow)),
         (''expected_transfer_state'', case transfer_state of None \<Rightarrow> PNone | Some s \<Rightarrow> PStr s)],
      ac_idempotency_key = ''kv:'' @ sn_token sn @ '':'' @ ca_candidate_id c,
      ac_reservations = kv_reservations ow cfg sn current target kv_size,
      ac_timeout_seconds =
        max 1 ((case pp_transfer_eta_seconds (pd_performance p) of None \<Rightarrow> 0 | Some t \<Rightarrow> t) * 2),
      ac_rollback_action =
        (if ca_action_type c \<noteq> ''keep''
         then [(''action_type'', PStr ''migrate''), (''kv_ref'', PStr (kq_kv_ref q)),
               (''target_location'', PStr (kt_location_ref current))]
         else []),
      ac_dry_run = True, ac_action_id = action_id\<rparr>"

definition kv_decision ::
  "kv_ids \<Rightarrow> kv_owner \<Rightarrow> snapshot \<Rightarrow> kv_request \<Rightarrow> candidate_action list \<Rightarrow> prediction list \<Rightarrow> action
     \<Rightarrow> prediction \<Rightarrow> string \<Rightarrow> decision_record" where
  "kv_decision ids ow sn q candidates predictions a selected reason =
     \<lparr>de_snapshot_id = sn_token sn, de_policy_version = kq_policy_version q,
      de_candidate_ids = map ca_candidate_id candidates, de_prediction_ids = map pd_prediction_id predictions,
      de_model_versions = sort (remdups (map pd_model_version predictions)),
      de_selected_action = a, de_reason = reason,
      de_constraints = [CNumber ''snapshot_completeness='' (sn_completeness sn),
        CNumber ''prediction_confidence='' (pd_confidence selected), CText (''owner='' @ ko_component_ref ow)],
      de_decision_id = ki_decision_id ids, de_timestamp = ki_now ids\<rparr>"

text \<open>What \<open>plan\<close> has read when it starts to predict.\<close>

record kv_planning_view =
  kx_snapshot :: snapshot
  kx_kv_entity :: graph_entity
  kx_owner_entity :: graph_entity
  kx_size :: int
  kx_current :: kv_target
  kx_reuse :: "real option"
  kx_transfer_state :: "string option"
  kx_phase :: "string option"
  kx_resume_seconds :: "real option"
  kx_hbm_pressure :: "real option"
  kx_candidates :: "candidate_action list"

definition targets_by_location :: "kv_target list \<Rightarrow> (string, kv_target) dict" where
  "targets_by_location ts = foldl (\<lambda>d t. dict_set d (kt_location_ref t) t) [] ts"

definition kv_observe :: "plane \<Rightarrow> kv_owner \<Rightarrow> kv_request \<Rightarrow> kv_planning_view res" where
  "kv_observe p ow q =
     res_bind (read_snapshot p (kq_snapshot_id q)) (\<lambda>sn.
     res_bind (validate_ownership p ow q) (\<lambda>(kv_entity, owner_entity).
     if kq_targets q = [] then Inl (NoKVControlCandidate ''at least one KV target is required'')
     else if length (targets_by_location (kq_targets q)) \<noteq> length (kq_targets q)
     then Inl (ValueError ''KV target location_ref values must be unique'')
     else
       res_bind (required_number sn (kq_kv_ref q) ''kv.size'') (\<lambda>bytes.
       res_bind (required_string sn (kq_kv_ref q) ''kv.location'') (\<lambda>current_location.
       case dict_get (targets_by_location (kq_targets q)) current_location of
         None \<Rightarrow> Inl (NoKVControlCandidate ''current KV location must be present in targets'')
       | Some current \<Rightarrow>
           res_bind (optional_number sn (kq_kv_ref q) ''kv.reuse_probability'') (\<lambda>reuse.
           res_bind (optional_string sn (kq_kv_ref q) ''kv.transfer_state'') (\<lambda>transfer_state.
           res_bind (if kq_agent_ref q \<noteq> [] then optional_string sn (kq_agent_ref q) ''agent.phase'' else Inr None)
             (\<lambda>phase.
           res_bind (if kq_agent_ref q \<noteq> [] then optional_datetime sn (kq_agent_ref q) ''agent.expected_resume_time''
                     else Inr None) (\<lambda>expected_resume.
           res_bind (current_hbm_pressure sn current) (\<lambda>hbm_pressure.
           res_bind (kv_candidates ow sn q current \<lfloor>bytes\<rfloor>) (\<lambda>candidates.
           Inr \<lparr>kx_snapshot = sn, kx_kv_entity = kv_entity, kx_owner_entity = owner_entity,
                kx_size = \<lfloor>bytes\<rfloor>, kx_current = current, kx_reuse = reuse,
                kx_transfer_state = transfer_state, kx_phase = phase,
                kx_resume_seconds = map_option
                  (\<lambda>t. max 0 (real_of_int (instant t - instant (sn_created_at sn)) / 1000000)) expected_resume,
                kx_hbm_pressure = hbm_pressure, kx_candidates = candidates\<rparr>))))))))))"

definition kv_requests :: "kv_ids \<Rightarrow> kv_planning_view \<Rightarrow> (string \<times> datetime \<times> prediction_request) list" where
  "kv_requests ids ob =
     map (\<lambda>(n, c). (ki_prediction_ids ids n, ki_prediction_times ids n,
                    \<lparr>pq_snapshot_id = sn_token (kx_snapshot ob), pq_candidate_action = c\<rparr>))
       (enumerate 0 (kx_candidates ob))"

definition kv_conclude ::
  "kv_ids \<Rightarrow> kv_controller \<Rightarrow> kv_request \<Rightarrow> kv_planning_view \<Rightarrow> prediction list \<Rightarrow> (kv_plan \<times> control_journal) res" where
  "kv_conclude ids k q ob predictions =
     res_bind (kv_select (kv_config k) (kx_snapshot ob) (zip (kx_candidates ob) predictions) (kx_current ob)
                 (kx_phase ob) (kx_reuse ob) (kx_resume_seconds ob) (kx_hbm_pressure ob) (kx_transfer_state ob))
       (\<lambda>((c, p), reason).
     case dict_get (targets_by_location (kq_targets q)) (target_location c) of
       None \<Rightarrow> Inl (KeyError (target_location c))
     | Some target \<Rightarrow>
         let a = kv_action (ki_action_id ids) (kv_owner k) (kv_config k) (kx_snapshot ob) q (kx_kv_entity ob)
                   (kx_owner_entity ob) (kx_current ob) target c p (kx_size ob) (kx_transfer_state ob);
             d = kv_decision ids (kv_owner k) (kx_snapshot ob) q (kx_candidates ob) predictions a p reason
         in res_bind (record_decision (kv_journal k) d predictions) (\<lambda>(joined, j).
            Inr (\<lparr>kp_decision = d, kp_predictions = predictions,
                  kp_current_location = kt_location_ref (kx_current ob),
                  kp_selected_target = kt_location_ref target, kp_phase = kx_phase ob,
                  kp_reuse_probability = kx_reuse ob, kp_resume_seconds = kx_resume_seconds ob,
                  kp_hbm_pressure = kx_hbm_pressure ob\<rparr>, j)))"

definition kv_plan_step ::
  "plane \<Rightarrow> kv_ids \<Rightarrow> kv_controller \<Rightarrow> kv_request \<Rightarrow> kv_plan res \<times> kv_controller" where
  "kv_plan_step p ids k q =
     (case kv_observe p (kv_owner k) q of
        Inl e \<Rightarrow> (Inl e, k)
      | Inr ob \<Rightarrow>
          (case service_predict_many p (kv_service k) (kv_requests ids ob) of
             (Inl e, s) \<Rightarrow> (Inl e, k\<lparr>kv_service := s\<rparr>)
           | (Inr predictions, s) \<Rightarrow>
               (case kv_conclude ids (k\<lparr>kv_service := s\<rparr>) q ob predictions of
                  Inl e \<Rightarrow> (Inl e, k\<lparr>kv_service := s\<rparr>)
                | Inr (plan, j) \<Rightarrow> (Inr plan, k\<lparr>kv_service := s, kv_journal := j\<rparr>))))"

end
