(* ===== verification/SF_KV_Lemmas.thy ===== *)
theory SF_KV_Lemmas
  imports SF_KV_Control SF_Journal_Lemmas
begin

text \<open>
  What the stages of the KV planner guarantee each other: the observation hands over the request's
  targets under distinct locations and one candidate per admissible target, the selection hands
  over one of the pairs and the guards it passed, and the bundle is one the journal accepts.
\<close>

section \<open>Action types and candidate identifiers\<close>

lemma kv_action_value_eq [simp]: "kv_action_value a = kv_action_value b \<longleftrightarrow> a = b"
  by (cases a; cases b) simp_all

lemma kv_action_value_keep [simp]: "kv_action_value a = ''keep'' \<longleftrightarrow> a = KEEP"
  by (cases a) simp_all

lemma action_type_of_iff [simp]:
  "action_type_of current t = KEEP \<longleftrightarrow> kt_location_ref current = kt_location_ref t"
  "action_type_of current t = OFFLOAD \<longleftrightarrow>
     kt_location_ref current \<noteq> kt_location_ref t \<and> is_hbm current \<and> \<not> is_hbm t"
  "action_type_of current t = PREFETCH \<longleftrightarrow>
     kt_location_ref current \<noteq> kt_location_ref t \<and> \<not> is_hbm current \<and> is_hbm t"
  by (auto simp: action_type_of_def)

lemma kv_candidate_id_inj: "kv_candidate_id sn r a l = kv_candidate_id sn r b m \<longleftrightarrow> a = b \<and> l = m"
  by (cases a; cases b) (simp_all add: kv_candidate_id_def)

lemma kv_candidate_id_Cons: "kv_candidate_id sn r a l \<noteq> []"
  by (simp add: kv_candidate_id_def)

section \<open>Candidates\<close>

lemma in_map_filter_id: "c \<in> set (List.map_filter (\<lambda>c. c) xs) \<longleftrightarrow> Some c \<in> set xs"
  by (induction xs) (auto simp: List.map_filter_simps split: option.splits)

lemma kv_candidate_Inr:
  assumes "kv_candidate ow sn q current bytes t = Inr (Some c)"
  shows "action_type_of current t \<in> set (ko_allowed_actions ow)"
    and "kt_location_ref t \<noteq> kt_location_ref current \<Longrightarrow> kt_available t \<and> kt_healthy t"
    and "ca_action_type c = kv_action_value (action_type_of current t)"
    and "ca_candidate_id c = kv_candidate_id sn (kq_kv_ref q) (action_type_of current t) (kt_location_ref t)"
    and "target_location c = kt_location_ref t"
    and "dict_get (ca_parameters c) ''transfer_bytes''
      = Some (PInt (if kt_location_ref t \<noteq> kt_location_ref current then bytes else 0))"
  using assms by (auto simp: kv_candidate_def Let_def res_bind_Inr_iff target_location_def kv_parameters_def
      split: if_splits)

lemma kv_candidates_Inr:
  assumes "kv_candidates ow sn q current bytes = Inr cs"
  obtains found where "res_map (kv_candidate ow sn q current bytes) (kq_targets q) = Inr found"
    "cs = List.map_filter (\<lambda>c. c) found" "\<exists>c \<in> set cs. ca_action_type c = ''keep''"
  using assms by (auto simp: kv_candidates_def res_bind_Inr_iff Let_def split: if_splits)

lemma kv_candidates_from_target:
  assumes "kv_candidates ow sn q current bytes = Inr cs" "c \<in> set cs"
  obtains t where "t \<in> set (kq_targets q)" "kv_candidate ow sn q current bytes t = Inr (Some c)"
proof -
  obtain found where f: "res_map (kv_candidate ow sn q current bytes) (kq_targets q) = Inr found"
    "cs = List.map_filter (\<lambda>c. c) found" by (rule kv_candidates_Inr [OF assms(1)])
  have "Some c \<in> set found" using assms(2) by (simp add: f(2) in_map_filter_id)
  then show ?thesis using res_map_Inr_in [OF f(1)] that by blast
qed

text \<open>Every admissible target has its candidate.\<close>

lemma kv_candidates_cover:
  assumes "kv_candidates ow sn q current bytes = Inr cs" "t \<in> set (kq_targets q)"
    and "action_type_of current t \<in> set (ko_allowed_actions ow)"
    and "kt_location_ref t = kt_location_ref current \<or> kt_available t \<and> kt_healthy t"
  obtains c where "c \<in> set cs" "kv_candidate ow sn q current bytes t = Inr (Some c)"
proof -
  obtain found where f: "res_map (kv_candidate ow sn q current bytes) (kq_targets q) = Inr found"
    "cs = List.map_filter (\<lambda>c. c) found" by (rule kv_candidates_Inr [OF assms(1)])
  obtain n where "n < length (kq_targets q)" "t = kq_targets q ! n" using assms(2) by (auto simp: in_set_conv_nth)
  then have n: "kv_candidate ow sn q current bytes t = Inr (found ! n)" "n < length found"
    using res_map_Inr_list_all2 [OF f(1)] by (auto simp: list_all2_conv_all_nth)
  then obtain c where c: "found ! n = Some c"
    using assms(3,4) by (cases "found ! n") (auto simp: kv_candidate_def Let_def res_bind_Inr_iff split: if_splits)
  then have "c \<in> set cs" using nth_mem [OF n(2)] by (simp add: f(2) in_map_filter_id)
  with n(1) c show ?thesis by (intro that) simp_all
qed

lemma distinct_candidate_ids:
  assumes "kv_candidates ow sn q current bytes = Inr cs" "distinct (map kt_location_ref (kq_targets q))"
  shows "distinct (map ca_candidate_id cs)"
proof -
  have "distinct (map ca_candidate_id (List.map_filter (\<lambda>c. c) found)) \<and>
      ca_candidate_id ` set (List.map_filter (\<lambda>c. c) found)
        \<subseteq> (\<lambda>t. kv_candidate_id sn (kq_kv_ref q) (action_type_of current t) (kt_location_ref t)) ` set ts"
    if "res_map (kv_candidate ow sn q current bytes) ts = Inr found" "distinct (map kt_location_ref ts)" for ts found
    using that
  proof (induction ts arbitrary: found)
    case Nil
    then show ?case by (simp add: List.map_filter_def)
  next
    case (Cons t ts)
    then obtain x xs where x: "kv_candidate ow sn q current bytes t = Inr x"
      "res_map (kv_candidate ow sn q current bytes) ts = Inr xs" "found = x # xs"
      by (auto simp: res_bind_Inr_iff)
    note ih = Cons.IH [OF x(2)]
    show ?case
    proof (cases x)
      case None
      then show ?thesis using ih Cons.prems(2) by (simp add: x(3) List.map_filter_simps subset_insertI2)
    next
      case (Some c)
      note id = kv_candidate_Inr(4) [OF x(1) [unfolded Some]]
      have "ca_candidate_id c \<notin> ca_candidate_id ` set (List.map_filter (\<lambda>c. c) xs)"
        using ih Cons.prems(2) by (auto simp: id kv_candidate_id_inj)
      then show ?thesis using ih Cons.prems(2) id by (simp add: x(3) Some List.map_filter_simps subset_insertI2)
    qed
  qed
  with assms show ?thesis by (auto elim: kv_candidates_Inr)
qed

section \<open>The observation\<close>

lemma dict_get_targets_total:
  assumes "t \<in> set ts"
  obtains u where "u \<in> set ts" "kt_location_ref u = kt_location_ref t"
    "dict_get (targets_by_location ts) (kt_location_ref t) = Some u"
  using pydict.get_foldl_put_in [of "kt_location_ref t" kt_location_ref ts "\<lambda>t. t" "[]"] assms
  by (auto simp: targets_by_location_def)

lemma dict_get_targets:
  assumes "dict_get (targets_by_location ts) l = Some t"
  shows "t \<in> set ts \<and> kt_location_ref t = l"
proof (cases "l \<in> kt_location_ref ` set ts")
  case True
  then show ?thesis using assms by (auto elim: dict_get_targets_total)
next
  case False
  then show ?thesis using assms pydict.get_foldl_put_notin [OF False, of "\<lambda>t. t" "[]"]
    by (simp add: targets_by_location_def)
qed

text \<open>As many locations as targets means that no two targets share one.\<close>

lemma length_targets_by_location:
  "length (targets_by_location ts) = length ts \<longleftrightarrow> distinct (map kt_location_ref ts)"
proof -
  let ?step = "\<lambda>d t. dict_set d (kt_location_ref t) t"
  have le: "length (foldl ?step d xs) \<le> length d + length xs" for d xs
  proof (induction xs arbitrary: d)
    case (Cons t xs)
    show ?case using Cons.IH [of "?step d t"] by (simp add: length_dict_set split: if_splits)
  qed simp
  have "length (foldl ?step d ts) = length d + length ts \<longleftrightarrow>
      distinct (map kt_location_ref ts) \<and> kt_location_ref ` set ts \<inter> fst ` set d = {}" for d
  proof (induction ts arbitrary: d)
    case (Cons t ts)
    show ?case
    proof (cases "kt_location_ref t \<in> fst ` set d")
      case True
      then show ?thesis using le [of "?step d t" ts] by (auto simp: length_dict_set dict_has_iff)
    next
      case False
      then show ?thesis using Cons.IH [of "?step d t"] by (auto simp: length_dict_set dict_has_iff)
    qed
  qed simp
  from this [of "[]"] show ?thesis by (simp add: targets_by_location_def)
qed

lemma kv_observe_Inr:
  assumes "kv_observe p ow q = Inr ob"
  shows "read_snapshot p (kq_snapshot_id q) = Inr (kx_snapshot ob)"
    and "validate_ownership p ow q = Inr (kx_kv_entity ob, kx_owner_entity ob)"
    and "distinct (map kt_location_ref (kq_targets q))" and "kx_current ob \<in> set (kq_targets q)"
    and "required_string (kx_snapshot ob) (kq_kv_ref q) ''kv.location'' = Inr (kt_location_ref (kx_current ob))"
    and "optional_string (kx_snapshot ob) (kq_kv_ref q) ''kv.transfer_state'' = Inr (kx_transfer_state ob)"
    and "optional_number (kx_snapshot ob) (kq_kv_ref q) ''kv.reuse_probability'' = Inr (kx_reuse ob)"
    and "current_hbm_pressure (kx_snapshot ob) (kx_current ob) = Inr (kx_hbm_pressure ob)"
    and "\<exists>bytes. required_number (kx_snapshot ob) (kq_kv_ref q) ''kv.size'' = Inr bytes \<and> kx_size ob = \<lfloor>bytes\<rfloor>"
    and "kv_candidates ow (kx_snapshot ob) q (kx_current ob) (kx_size ob) = Inr (kx_candidates ob)"
  using assms dict_get_targets
  by (auto simp: kv_observe_def res_bind_Inr_iff length_targets_by_location split: if_splits option.splits)

lemma validate_ownership_Inr:
  assumes "validate_ownership p ow q = Inr (kv, owner)"
  shows "manages ow (kq_kv_ref q)" and "get_entity p (kq_kv_ref q) = Some kv"
    and "ge_entity_type kv = ''stateful_object''" and "ge_owner_component_ref kv \<noteq> []"
    and "kq_expected_state_owner q \<noteq> [] \<Longrightarrow> ge_owner_component_ref kv = kq_expected_state_owner q"
    and "get_entity p (ko_component_ref ow) = Some owner" and "ge_entity_type owner = ''component''"
  using assms by (auto simp: validate_ownership_def split: if_splits option.splits)

section \<open>The selection\<close>

definition admissible :: "kv_config \<Rightarrow> kv_action_type \<Rightarrow> kv_pair \<Rightarrow> bool" where
  "admissible cfg a x \<longleftrightarrow> eligible_pair cfg a x \<and> (a = PREFETCH \<longrightarrow> resource_safe cfg x)"

text \<open>Either the keep baseline is selected, or the best admissible pair of the desired movement.\<close>

lemma kv_select_Inr:
  assumes "kv_select cfg sn pairs current phase reuse resume hbm state = Inr (x, reason)"
  obtains (keep) "find (\<lambda>x. ca_action_type (fst x) = ''keep'') pairs = Some x"
      "x \<in> set pairs" "ca_action_type (fst x) = ''keep''"
      "sn_completeness sn < kc_min_snapshot_completeness cfg \<or>
       (\<forall>s. state = Some s \<longrightarrow> s \<notin> set (kc_stable_transfer_states cfg)) \<or>
       (\<forall>a. fst (desired_action cfg current phase reuse resume hbm) = Some a \<longrightarrow>
          (\<forall>y \<in> set pairs. \<not> admissible cfg a y))"
  | (move) a s where "sn_completeness sn \<ge> kc_min_snapshot_completeness cfg"
      "desired_action cfg current phase reuse resume hbm = (Some a, reason)"
      "state = Some s" "s \<in> set (kc_stable_transfer_states cfg)"
      "x \<in> set pairs" "admissible cfg a x"
      "\<forall>y \<in> set pairs. admissible cfg a y \<longrightarrow> selection_key x \<le> selection_key y"
proof -
  obtain k where k: "find (\<lambda>x. ca_action_type (fst x) = ''keep'') pairs = Some k"
    using assms by (auto simp: kv_select_def split: option.splits)
  then have kin: "k \<in> set pairs" "ca_action_type (fst k) = ''keep''"
    by (auto simp: find_Some_iff)
  obtain d r where d: "desired_action cfg current phase reuse resume hbm = (d, r)" by fastforce
  show ?thesis
  proof (cases "sn_completeness sn < kc_min_snapshot_completeness cfg")
    case True
    then show ?thesis using assms k kin by (intro keep) (auto simp: kv_select_def)
  next
    case complete: False
    show ?thesis
    proof (cases d)
      case None
      then show ?thesis using assms k kin complete by (intro keep) (auto simp: kv_select_def d)
    next
      case (Some a)
      show ?thesis
      proof (cases "\<exists>s. state = Some s \<and> s \<in> set (kc_stable_transfer_states cfg)")
        case False
        then show ?thesis using assms k kin complete by (intro keep) (auto simp: kv_select_def d Some)
      next
        case stable: True
        define safe where "safe = filter (admissible cfg a) pairs"
        have safe_eq: "(if a = PREFETCH then filter (resource_safe cfg) (filter (eligible_pair cfg a) pairs)
            else filter (eligible_pair cfg a) pairs) = safe"
          by (auto simp: safe_def admissible_def intro: filter_cong)
        show ?thesis
        proof (cases safe)
          case Nil
          then have "\<forall>y \<in> set pairs. \<not> admissible cfg a y" by (simp add: safe_def filter_empty_conv)
          then show ?thesis using assms k kin complete stable
            by (intro keep) (auto simp: kv_select_def d Some safe_eq Nil Let_def split: if_splits)
        next
          case (Cons y ys)
          have "y \<in> set safe" by (simp add: Cons)
          then have "filter (eligible_pair cfg a) pairs \<noteq> []" by (auto simp: safe_def admissible_def filter_empty_conv)
          then have x: "x = min_from selection_key y ys" "reason = r"
            using assms k complete stable by (auto simp: kv_select_def d Some safe_eq Cons Let_def)
          have "x \<in> set safe" "\<forall>z \<in> set safe. selection_key x \<le> selection_key z"
            using min_from_in [of selection_key y ys] min_from_le [of _ y ys selection_key]
            by (simp_all add: x Cons)
          moreover obtain s where "state = Some s" "s \<in> set (kc_stable_transfer_states cfg)" using stable by blast
          ultimately show ?thesis using complete by (intro move [of a s]) (auto simp: d Some x safe_def)
        qed
      qed
    qed
  qed
qed

lemma kv_select_total:
  assumes "find (\<lambda>x. ca_action_type (fst x) = ''keep'') pairs = Some k"
  shows "\<exists>x reason. kv_select cfg sn pairs current phase reuse resume hbm state = Inr (x, reason)"
proof -
  obtain d r where "desired_action cfg current phase reuse resume hbm = (d, r)" by fastforce
  then show ?thesis using assms by (auto simp: kv_select_def Let_def split: option.splits list.splits)
qed

section \<open>The plan\<close>

lemma kv_conclude_Inr:
  assumes "kv_conclude ids k q ob ps = Inr (plan, j)"
  obtains c p reason target r where
    "kv_select (kv_config k) (kx_snapshot ob) (zip (kx_candidates ob) ps) (kx_current ob) (kx_phase ob)
       (kx_reuse ob) (kx_resume_seconds ob) (kx_hbm_pressure ob) (kx_transfer_state ob) = Inr ((c, p), reason)"
    "dict_get (targets_by_location (kq_targets q)) (target_location c) = Some target"
    "kp_decision plan = kv_decision ids (kv_owner k) (kx_snapshot ob) q (kx_candidates ob) ps
       (kv_action (ki_action_id ids) (kv_owner k) (kv_config k) (kx_snapshot ob) q (kx_kv_entity ob)
          (kx_owner_entity ob) (kx_current ob) target c p (kx_size ob) (kx_transfer_state ob)) p reason"
    "kp_predictions plan = ps" "kp_current_location plan = kt_location_ref (kx_current ob)"
    "kp_selected_target plan = kt_location_ref target"
    "record_decision (kv_journal k) (kp_decision plan) ps = Inr (r, j)"
  using assms
  by (auto simp: kv_conclude_def res_bind_Inr_iff Let_def split: option.splits)

lemma kv_plan_step_Inr:
  assumes "kv_plan_step p ids k q = (Inr plan, k')"
  obtains ob ps s j where "kv_observe p (kv_owner k) q = Inr ob"
    "service_predict_many p (kv_service k) (kv_requests ids ob) = (Inr ps, s)"
    "kv_conclude ids (k\<lparr>kv_service := s\<rparr>) q ob ps = Inr (plan, j)"
    "k' = k\<lparr>kv_service := s, kv_journal := j\<rparr>"
  using assms by (auto simp: kv_plan_step_def split: sum.splits prod.splits)

lemma service_predict_many_length:
  "service_predict_many p s reqs = (Inr ps, t) \<Longrightarrow> length ps = length reqs"
  by (induction p s reqs arbitrary: ps t rule: service_predict_many.induct) (auto split: prod.splits sum.splits)

text \<open>The target of a candidate is the one its location names.\<close>

lemma candidate_target:
  assumes "kv_observe p ow q = Inr ob" "c \<in> set (kx_candidates ob)"
  obtains t where "t \<in> set (kq_targets q)"
    "kv_candidate ow (kx_snapshot ob) q (kx_current ob) (kx_size ob) t = Inr (Some c)"
    "dict_get (targets_by_location (kq_targets q)) (target_location c) = Some t"
proof -
  note ob = kv_observe_Inr [OF assms(1)]
  obtain t where t: "t \<in> set (kq_targets q)"
    "kv_candidate ow (kx_snapshot ob) q (kx_current ob) (kx_size ob) t = Inr (Some c)"
    by (rule kv_candidates_from_target [OF ob(10) assms(2)])
  obtain u where u: "u \<in> set (kq_targets q)" "kt_location_ref u = kt_location_ref t"
    "dict_get (targets_by_location (kq_targets q)) (kt_location_ref t) = Some u"
    by (rule dict_get_targets_total [OF t(1)])
  then have "u = t" using ob(3) t(1) by (meson distinct_map inj_onD)
  then show ?thesis using t u(3) kv_candidate_Inr(5) [OF t(2)] by (intro that [of t]) simp_all
qed

section \<open>Predictions of a sound model\<close>

context sound_model
begin

lemma predict_fresh:
  assumes "ps_model s = m" "read_snapshot p (pq_snapshot_id r) = Inr sn"
    and "\<not> dict_has (pj_records (ps_journal s)) i"
  obtains j where "service_predict p i now s r = (Inr (service_evaluate s i sn r m), s\<lparr>ps_journal := j\<rparr>)"
    "\<And>k. dict_has (pj_records j) k \<longleftrightarrow> k = i \<or> dict_has (pj_records (ps_journal s)) k"
proof -
  let ?r = "\<lparr>jr_request = r, jr_snapshot = sn, jr_prediction = service_evaluate s i sn r m, jr_created_at = now\<rparr>"
  let ?j = "(ps_journal s)\<lparr>pj_records := dict_set (pj_records (ps_journal s)) i ?r,
      pj_order := pj_order (ps_journal s) @ [i]\<rparr>"
  have "journal_append (ps_journal s) ?r = Inr ?j"
    using assms(3) by (simp add: journal_append_def Let_def evaluate_id)
  then show ?thesis by (intro that [of ?j]) (simp_all add: service_predict_def assms(1,2) Let_def)
qed

text \<open>Requests about one snapshot, under fresh identifiers, are all answered.\<close>

lemma predict_many_total:
  assumes "ps_model s = m" "\<forall>(i, now, r) \<in> set reqs. read_snapshot p (pq_snapshot_id r) = Inr sn"
    and "distinct (map fst reqs)" "\<forall>i \<in> fst ` set reqs. \<not> dict_has (pj_records (ps_journal s)) i"
  shows "\<exists>t. service_predict_many p s reqs =
     (Inr (map (\<lambda>(i, now, r). service_evaluate s i sn r m) reqs), t)"
  using assms
proof (induction reqs arbitrary: s)
  case (Cons req reqs)
  obtain i now r where req: "req = (i, now, r)" by (cases req)
  obtain j where j: "service_predict p i now s r = (Inr (service_evaluate s i sn r m), s\<lparr>ps_journal := j\<rparr>)"
    "\<And>k. dict_has (pj_records j) k \<longleftrightarrow> k = i \<or> dict_has (pj_records (ps_journal s)) k"
    by (rule predict_fresh [of s p r sn i now]) (use Cons.prems in \<open>auto simp: req\<close>)
  have "\<exists>t. service_predict_many p (s\<lparr>ps_journal := j\<rparr>) reqs =
      (Inr (map (\<lambda>(i, now, r). service_evaluate (s\<lparr>ps_journal := j\<rparr>) i sn r m) reqs), t)"
    by (rule Cons.IH) (use Cons.prems in \<open>auto simp: req j(2)\<close>)
  moreover have "service_evaluate (s\<lparr>ps_journal := j\<rparr>) k sn x m = service_evaluate s k sn x m" for k x
    by (cases "pm_predict m k sn (pq_candidate_action x)") (simp_all add: service_evaluate_def unavailable_prediction_def)
  ultimately show ?case using j(1) by (auto simp: req)
qed simp

end

section \<open>The bundle of a plan\<close>

lemma kv_bundle_valid:
  assumes ob: "kv_observe p ow q = Inr ob" and cp: "(c, x) \<in> set (zip (kx_candidates ob) ps)"
    and ids: "map pd_candidate_id ps = map ca_candidate_id (kx_candidates ob)"
    and sn: "\<forall>y \<in> set ps. pd_snapshot_id y = sn_token (kx_snapshot ob)"
    and d: "d = kv_decision ids ow (kx_snapshot ob) q (kx_candidates ob) ps
       (kv_action i ow cfg (kx_snapshot ob) q kv own (kx_current ob) target c x bytes st) x reason"
  shows "validate_bundle d ps = Inr ()" and "selected_prediction d ps = Inr x"
proof -
  note o = kv_observe_Inr [OF ob]
  have ne: "ps \<noteq> []" using cp by auto
  show "validate_bundle d ps = Inr ()"
    using ne ids sn by (simp add: d validate_bundle_def kv_decision_def)
  obtain n where n: "n < length (kx_candidates ob)" "n < length ps" "c = kx_candidates ob ! n" "x = ps ! n"
    using cp by (auto simp: set_zip)
  have cid: "pd_candidate_id x = ca_candidate_id c" using arg_cong [OF ids, of "\<lambda>l. l ! n"] n by simp
  have "c \<in> set (kx_candidates ob)" using n by simp
  then obtain t where "kv_candidate ow (kx_snapshot ob) q (kx_current ob) (kx_size ob) t = Inr (Some c)"
    by (rule candidate_target [OF ob])
  from kv_candidate_Inr(4) [OF this] have nonempty: "ca_candidate_id c \<noteq> []" by (simp add: kv_candidate_id_Cons)
  show "selected_prediction d ps = Inr x"
  proof (rule selected_prediction_unique)
    show "distinct (map pd_candidate_id ps)" unfolding ids by (rule distinct_candidate_ids [OF o(10,3)])
    show "x \<in> set ps" using n by simp
    show "selected_candidate_id d = Some (PStr (pd_candidate_id x))"
      using nonempty by (simp add: d selected_candidate_id_def kv_decision_def kv_action_def cid)
  qed
qed

end
