(* ===== verification/SF_KV_Examples.thy ===== *)
theory SF_KV_Examples
  imports SF_KV_Lemmas SF_Plane_Safety
begin

text \<open>
  A KV object of 50 bytes in the HBM of a GPU of 100 bytes that is almost full, an agent that waits
  for a tool, and a host memory to offload to. The witnesses of the KV planner use it.
\<close>

definition exk_value :: "string \<Rightarrow> string \<Rightarrow> pyval \<Rightarrow> state_value" where
  "exk_value e key v = \<lparr>sv_entity_ref = e, sv_key = key, sv_value = v, sv_producer = ''p'', sv_timestamp = utc 0,
     sv_ttl = None, sv_authority = STRUCTURED_LIFECYCLE, sv_version = 1, sv_semantic = SEM_OBSERVED,
     sv_confidence = 1, sv_source_ref = None,
     sv_correlation = \<lparr>ci_trace_id = [], ci_span_id = [], ci_agent_id = [], ci_session_id = [],
       ci_request_id = [], ci_action_id = [], ci_component_id = [], ci_instance_id = []\<rparr>\<rparr>"

definition exk_kv :: string where "exk_kv = ''component/stateful_object/a''"
definition exk_owner :: string where "exk_owner = ''component/component/o''"

definition exk_snapshot :: snapshot where
  "exk_snapshot = \<lparr>sn_token = ''t'', sn_logical_time = 0, sn_created_at = utc 0, sn_completeness = 1,
     sn_values = [exk_value ''agent'' ''agent.phase'' (PStr ''PAUSED''), exk_value exk_kv ''kv.location'' (PStr ''gpu''),
       exk_value exk_kv ''kv.reuse_probability'' (PFloat 0), exk_value exk_kv ''kv.size'' (PInt 50),
       exk_value exk_kv ''kv.transfer_state'' (PStr ''idle''), exk_value ''gpu'' ''resource.hbm.reserved'' (PInt 5),
       exk_value ''gpu'' ''resource.hbm.used'' (PInt 90)],
     sn_relations = [], sn_missing = [], sn_stale = []\<rparr>"

definition exk_entity :: "string \<Rightarrow> string \<Rightarrow> string \<Rightarrow> graph_entity" where
  "exk_entity r t ow = \<lparr>ge_ref = r, ge_graph = COMPONENT, ge_entity_type = t, ge_lifecycle = [],
     ge_owner_component_ref = ow, ge_parent_ref = [], ge_labels = [], ge_schema_version = ''1.1''\<rparr>"

definition exk_plane :: plane where
  "exk_plane = (projr (plane_init empty_registry 8 8 8 8))
     \<lparr>pl_entities := [(exk_kv, exk_entity exk_kv ''stateful_object'' exk_owner),
                      (exk_owner, exk_entity exk_owner ''component'' [])],
      pl_snapshots := [(''t'', exk_snapshot)]\<rparr>"

definition exk_target :: "string \<Rightarrow> string \<Rightarrow> real \<Rightarrow> int \<Rightarrow> kv_target" where
  "exk_target l tier bw cap = \<lparr>kt_location_ref = l, kt_tier = tier, kt_effective_bw = bw,
     kt_transfer_setup_seconds = 0, kt_hbm_capacity_bytes = cap, kt_network_byte_cost = 0,
     kt_storage_io_byte_cost = 0, kt_available = True, kt_healthy = True\<rparr>"

definition exk_request :: kv_request where
  "exk_request = \<lparr>kq_snapshot_id = ''t'', kq_kv_ref = exk_kv,
     kq_targets = [exk_target ''gpu'' ''hbm'' 0 100, exk_target ''host'' ''dram'' 25 0],
     kq_agent_ref = ''agent'', kq_expected_state_owner = exk_owner, kq_policy_version = ''1''\<rparr>"

definition exk_component_owner :: kv_owner where
  "exk_component_owner = \<lparr>ko_component_ref = exk_owner, ko_managed_kv_prefixes = [''component/stateful_object/''],
     ko_allowed_actions = [KEEP, OFFLOAD, PREFETCH, MIGRATE]\<rparr>"

definition exk_controller :: kv_controller where
  "exk_controller = \<lparr>kv_owner = exk_component_owner,
     kv_service = \<lparr>ps_model = AnalyticalPredictionModel ''v'', ps_min_confidence = 1 / 2, ps_fallback = ''heuristic'',
       ps_journal = empty_prediction_journal, ps_models = [(''v'', AnalyticalPredictionModel ''v'')]\<rparr>,
     kv_journal = empty_control_journal, kv_config = default_kv_config\<rparr>"

definition exk_ids :: kv_ids where
  "exk_ids = \<lparr>ki_prediction_ids = (\<lambda>n. ''p'' @ replicate n CHR ''0''), ki_prediction_times = (\<lambda>_. utc 1),
     ki_action_id = ''a'', ki_decision_id = ''d'', ki_now = utc 1\<rparr>"

lemma exk_value_sel [simp]:
  "sv_entity_ref (exk_value e k v) = e" "sv_key (exk_value e k v) = k" "sv_value (exk_value e k v) = v"
  by (simp_all add: exk_value_def)

lemma exk_snapshot_wf: "snapshot_wf exk_snapshot"
  by (simp add: exk_snapshot_def snapshot_wf_def value_id_def exk_kv_def)

lemma exk_plane_inv: "plane_inv exk_plane"
proof -
  have "wf_entity (exk_entity exk_kv ''stateful_object'' exk_owner)" "wf_entity (exk_entity exk_owner ''component'' [])"
    by (simp_all add: wf_entity_iff exk_entity_def exk_kv_def exk_owner_def allowed_entity_types_def
        COMPONENT_ENTITY_TYPES_def entity_ref_prefix_def graph_value.simps)
  moreover have "exk_kv \<noteq> exk_owner" "ge_ref (exk_entity r t ow) = r" for r t ow
    by (simp_all add: exk_kv_def exk_owner_def exk_entity_def)
  ultimately show ?thesis using exk_snapshot_wf
    by (simp add: exk_plane_def plane_inv_def entities_inv_def state_inv_def relations_inv_def
        indexes_inv_def log_inv_def bounds_inv_def snapshots_inv_def plane_init_def dict_distinct_def exk_snapshot_def)
qed

section \<open>The observation\<close>

abbreviation exk_gpu :: kv_target where "exk_gpu \<equiv> exk_target ''gpu'' ''hbm'' 0 100"
abbreviation exk_host :: kv_target where "exk_host \<equiv> exk_target ''host'' ''dram'' 25 0"

lemma exk_hbm [simp]: "is_hbm exk_gpu" "\<not> is_hbm exk_host"
  by (simp_all add: is_hbm_def exk_target_def str_lower_def lower_char_def Let_def)

lemma exk_location [simp]: "kt_location_ref (exk_target l t b c) = l"
  by (simp add: exk_target_def)

lemma exk_numbers:
  "optional_number exk_snapshot ''gpu'' ''resource.hbm.used'' = Inr (Some 90)"
  "optional_number exk_snapshot ''gpu'' ''resource.hbm.reserved'' = Inr (Some 5)"
  "optional_number exk_snapshot exk_kv ''kv.reuse_probability'' = Inr (Some 0)"
  "required_number exk_snapshot exk_kv ''kv.size'' = Inr 50"
  by (simp_all add: required_number_def optional_number_def kv_state_value_def kv_float_def exk_snapshot_def exk_kv_def)

lemma exk_strings:
  "required_string exk_snapshot exk_kv ''kv.location'' = Inr ''gpu''"
  "optional_string exk_snapshot exk_kv ''kv.transfer_state'' = Inr (Some ''idle'')"
  "optional_string exk_snapshot ''agent'' ''agent.phase'' = Inr (Some ''PAUSED'')"
  "optional_datetime exk_snapshot ''agent'' ''agent.expected_resume_time'' = Inr None"
  by (simp_all add: required_string_def optional_string_def optional_datetime_def kv_state_value_def
      exk_snapshot_def exk_kv_def)

lemma exk_pressure: "current_hbm_pressure exk_snapshot exk_gpu = Inr (Some (19 / 20))"
  using exk_hbm(1) by (simp add: current_hbm_pressure_def exk_numbers) (simp add: exk_target_def)

definition exk_candidate :: "kv_target \<Rightarrow> candidate_action" where
  "exk_candidate t = \<lparr>ca_action_type = kv_action_value (action_type_of exk_gpu t), ca_target_component = exk_owner,
     ca_parameters = kv_parameters exk_request exk_gpu t 50 (Some 90) (Some 5),
     ca_candidate_id = kv_candidate_id exk_snapshot exk_kv (action_type_of exk_gpu t) (kt_location_ref t)\<rparr>"

lemma exk_candidate_of:
  "kv_candidate exk_component_owner exk_snapshot exk_request exk_gpu 50 exk_gpu = Inr (Some (exk_candidate exk_gpu))"
  "kv_candidate exk_component_owner exk_snapshot exk_request exk_gpu 50 exk_host = Inr (Some (exk_candidate exk_host))"
  by (simp_all add: kv_candidate_def action_type_of_def hbm_resource_def exk_component_owner_def exk_numbers
      exk_candidate_def exk_request_def Let_def) (simp_all add: exk_target_def)

lemma exk_candidates:
  "kv_candidates exk_component_owner exk_snapshot exk_request exk_gpu 50
     = Inr [exk_candidate exk_gpu, exk_candidate exk_host]"
proof -
  have t: "kq_targets exk_request = [exk_gpu, exk_host]" by (simp add: exk_request_def)
  have "ca_action_type (exk_candidate exk_gpu) = ''keep''" by (simp add: exk_candidate_def)
  then show ?thesis by (simp add: kv_candidates_def t exk_candidate_of List.map_filter_simps)
qed

lemma exk_observe:
  obtains ob where "kv_observe exk_plane (kv_owner exk_controller) exk_request = Inr ob"
    "kx_snapshot ob = exk_snapshot" "kx_current ob = exk_gpu" "kx_candidates ob = [exk_candidate exk_gpu, exk_candidate exk_host]"
    "kx_reuse ob = Some 0" "kx_hbm_pressure ob = Some (19 / 20)" "kx_phase ob = Some ''PAUSED''"
    "kx_transfer_state ob = Some ''idle''"
proof -
  have own: "kv_owner exk_controller = exk_component_owner" by (simp add: exk_controller_def)
  have q: "kq_targets exk_request = [exk_gpu, exk_host]" "kq_kv_ref exk_request = exk_kv" "kq_snapshot_id exk_request = ''t''"
    "kq_agent_ref exk_request = ''agent''" by (simp_all add: exk_request_def)
  have r: "read_snapshot exk_plane ''t'' = Inr exk_snapshot" by (simp add: read_snapshot_def exk_plane_def)
  have "\<exists>e. validate_ownership exk_plane exk_component_owner exk_request = Inr e"
    by (simp add: validate_ownership_def manages_def exk_component_owner_def exk_request_def get_entity_def
        exk_plane_def exk_entity_def exk_kv_def exk_owner_def str_startswith_iff)
  then obtain kv ow where e: "validate_ownership exk_plane exk_component_owner exk_request = Inr (kv, ow)" by auto
  have d: "targets_by_location [exk_gpu, exk_host] = [(''gpu'', exk_gpu), (''host'', exk_host)]"
    by (simp add: targets_by_location_def)
  obtain ob where "kv_observe exk_plane exk_component_owner exk_request = Inr ob"
    "ob = \<lparr>kx_snapshot = exk_snapshot, kx_kv_entity = kv, kx_owner_entity = ow, kx_size = 50, kx_current = exk_gpu,
       kx_reuse = Some 0, kx_transfer_state = Some ''idle'', kx_phase = Some ''PAUSED'', kx_resume_seconds = None,
       kx_hbm_pressure = Some (19 / 20), kx_candidates = [exk_candidate exk_gpu, exk_candidate exk_host]\<rparr>"
    by (simp add: kv_observe_def q r e d exk_numbers exk_strings exk_pressure exk_candidates)
  then show ?thesis by (intro that [of ob]) (simp_all add: own)
qed

section \<open>The prediction of the offload\<close>

lemma exk_parameter:
  "ca_parameters (exk_candidate exk_host) =
     [(''kv_ref'', PStr exk_kv), (''source_location'', PStr ''gpu''), (''target_location'', PStr ''host''),
      (''target_kv_location'', PStr ''host''), (''transfer_bytes'', PInt 50), (''transfer_setup_seconds'', PFloat 0),
      (''network_byte_cost'', PFloat 0), (''storage_io_bytes'', PInt 50), (''storage_io_byte_cost'', PFloat 0),
      (''predicted_kv_growth_bytes'', PInt 0), (''hbm_release_bytes'', PInt 50), (''base_success_probability'', PFloat 1),
      (''effective_bw_bytes_per_second'', PFloat 25), (''hbm_capacity_bytes'', PInt 100),
      (''hbm_used_bytes'', PFloat 90), (''hbm_reserved_bytes'', PFloat 5)]"
  using exk_hbm
  by (simp add: exk_candidate_def kv_parameters_def hbm_resource_def optional_entry_def exk_request_def Let_def)
    (simp add: exk_target_def)

lemma exk_no_values:
  assumes "k = [] \<or> (\<forall>v \<in> set (sn_values exk_snapshot). sv_key v \<noteq> k)"
    and "dict_get (ca_parameters (exk_candidate exk_host)) p = None"
  shows "feature_resolve exk_snapshot (exk_candidate exk_host) p k s = (PNone, s)"
  using assms by (auto simp: feature_resolve_def selected_value_def matching_values_def filter_False)

lemma exk_supplied:
  assumes "dict_get (ca_parameters (exk_candidate exk_host)) p = Some v"
  shows "feature_resolve exk_snapshot (exk_candidate exk_host) p k s = (v, s)"
  using assms by (simp add: feature_resolve_def)

lemma exk_keys: "(\<forall>v \<in> set (sn_values exk_snapshot). sv_key v \<noteq> k) \<longleftrightarrow>
    k \<notin> {''agent.phase'', ''kv.location'', ''kv.reuse_probability'', ''kv.size'', ''kv.transfer_state'',
      ''resource.hbm.reserved'', ''resource.hbm.used''}"
  by (auto simp: exk_snapshot_def)

lemmas exk_reads = exk_no_values exk_supplied exk_parameter exk_keys feature_number_def feature_number_or_def
  feature_string_def feature_float_def feat_bind_def feat_return_def Let_def

abbreviation (input) exk_off :: candidate_action where "exk_off \<equiv> exk_candidate exk_host"

lemma exk_transfer: "transfer_stage exk_snapshot exk_off s = Inr ((0, 50, Some 2),
    s\<lparr>fs_required := Suc (fs_required s), fs_available := Suc (fs_available s)\<rparr>)"
  by (simp add: transfer_stage_def exk_reads rate_duration_def)

lemma exk_prefill: "prefill_stage exk_snapshot exk_off s = Inr (Some 0, s)"
  by (simp add: prefill_stage_def exk_reads rate_duration_def)

lemma exk_decode: "decode_stage exk_snapshot exk_off s = Inr ((None, Some 0), s)"
  by (simp add: decode_stage_def exk_reads rate_duration_def)

lemma exk_memory: "memory_stage exk_snapshot exk_off s = Inr ((45, Some (9 / 20)),
    s\<lparr>fs_required := Suc (fs_required s), fs_available := Suc (fs_available s)\<rparr>)"
  by (simp add: memory_stage_def exk_reads)

lemma exk_prediction:
  obtains x where "analytical_predict ''v'' i exk_snapshot exk_off = Inr x" "pd_fallback x = ''none''"
    "pp_transfer_eta_seconds (pd_performance x) = Some 2" "pd_confidence x = 1"
proof -
  let ?pf = "performance_of 0 (Some 2) (Some 0) None (Some 0)"
  obtain rl where rl: "\<And>s. reliability_stage exk_snapshot exk_off (pp_e2e_seconds ?pf) (Some (9 / 20)) s = Inr (rl, s)"
    by (simp add: reliability_stage_def exk_reads)
  obtain co where co: "\<And>s. cost_stage exk_snapshot exk_off (pp_e2e_seconds ?pf) 45 50 s = Inr (co, s)"
    by (simp add: cost_stage_def exk_reads)
  obtain fu where fu: "\<And>s. future_stage exk_snapshot exk_off 45 (Some (9 / 20)) s = Inr (fu, s)"
    by (simp add: future_stage_def exk_reads)
  obtain s where s: "predict_parts exk_snapshot exk_off feature_start = Inr ((?pf, rl, co, fu), s)"
    "fs_required s = 2" "fs_available s = 2"
    by (simp add: predict_parts_def exk_transfer exk_prefill exk_decode exk_memory rl co fu
        feat_bind_def feat_return_def Let_def feature_start_def)
  have c: "feature_confidence exk_snapshot s = 1"
    using s(2,3) by (simp add: feature_confidence_def exk_snapshot_def clamp01_id)
  have "pp_transfer_eta_seconds ?pf = Some 2" by (simp add: performance_of_def)
  with s c that show ?thesis
    by (simp add: analytical_predict_def prediction_post_init_def clamp01_id required_features_complete_def)
qed

end
