(* ===== verification/SF_KV_Properties.thy ===== *)
theory SF_KV_Properties
  imports SF_KV_Examples
begin

text \<open>
  The properties of the KV planner: what a plan that moves state has been checked against, what the
  proposed action promises, which candidate is selected, and that planning succeeds.
\<close>

section \<open>What a plan is made of\<close>

lemma kv_plan_cases:
  assumes "kv_plan_step p ids k q = (Inr plan, k')"
  obtains ob c x target reason where
    "kv_observe p (kv_owner k) q = Inr ob"
    "kv_select (kv_config k) (kx_snapshot ob) (zip (kx_candidates ob) (kp_predictions plan)) (kx_current ob)
       (kx_phase ob) (kx_reuse ob) (kx_resume_seconds ob) (kx_hbm_pressure ob) (kx_transfer_state ob)
     = Inr ((c, x), reason)"
    "target \<in> set (kq_targets q)" "x \<in> set (kp_predictions plan)"
    "kv_candidate (kv_owner k) (kx_snapshot ob) q (kx_current ob) (kx_size ob) target = Inr (Some c)"
    "kp_current_location plan = kt_location_ref (kx_current ob)" "kp_selected_target plan = kt_location_ref target"
    "kp_phase plan = kx_phase ob" "kp_reuse_probability plan = kx_reuse ob"
    "kp_resume_seconds plan = kx_resume_seconds ob" "kp_hbm_pressure plan = kx_hbm_pressure ob"
    "de_selected_action (kp_decision plan) =
       kv_action (ki_action_id ids) (kv_owner k) (kv_config k) (kx_snapshot ob) q (kx_kv_entity ob)
         (kx_owner_entity ob) (kx_current ob) target c x (kx_size ob) (kx_transfer_state ob)"
    "selected_prediction (kp_decision plan) (kp_predictions plan) = Inr x"
proof -
  obtain ob ps s j where st: "kv_observe p (kv_owner k) q = Inr ob"
    "kv_conclude ids (k\<lparr>kv_service := s\<rparr>) q ob ps = Inr (plan, j)"
    by (rule kv_plan_step_Inr [OF assms])
  obtain c x reason target r where co:
    "kv_select (kv_config k) (kx_snapshot ob) (zip (kx_candidates ob) ps) (kx_current ob) (kx_phase ob)
       (kx_reuse ob) (kx_resume_seconds ob) (kx_hbm_pressure ob) (kx_transfer_state ob) = Inr ((c, x), reason)"
    "dict_get (targets_by_location (kq_targets q)) (target_location c) = Some target"
    "kp_decision plan = kv_decision ids (kv_owner k) (kx_snapshot ob) q (kx_candidates ob) ps
       (kv_action (ki_action_id ids) (kv_owner k) (kv_config k) (kx_snapshot ob) q (kx_kv_entity ob)
          (kx_owner_entity ob) (kx_current ob) target c x (kx_size ob) (kx_transfer_state ob)) x reason"
    "kp_predictions plan = ps" "record_decision (kv_journal k) (kp_decision plan) ps = Inr (r, j)"
    "kp_current_location plan = kt_location_ref (kx_current ob)" "kp_selected_target plan = kt_location_ref target"
    by (rule kv_conclude_Inr [OF st(2)]) simp
  have fields: "kp_phase plan = kx_phase ob" "kp_reuse_probability plan = kx_reuse ob"
    "kp_resume_seconds plan = kx_resume_seconds ob" "kp_hbm_pressure plan = kx_hbm_pressure ob"
    using st(2) by (auto simp: kv_conclude_def res_bind_Inr_iff Let_def split: option.splits)
  have pair: "(c, x) \<in> set (zip (kx_candidates ob) ps)"
    by (rule kv_select_Inr [OF co(1)]) simp_all
  then have "c \<in> set (kx_candidates ob)" "x \<in> set ps" by (auto dest: set_zip_leftD set_zip_rightD)
  then obtain t where t: "t \<in> set (kq_targets q)"
    "kv_candidate (kv_owner k) (kx_snapshot ob) q (kx_current ob) (kx_size ob) t = Inr (Some c)"
    "dict_get (targets_by_location (kq_targets q)) (target_location c) = Some t"
    by (auto intro: candidate_target [OF st(1)])
  have v: "validate_bundle (kp_decision plan) ps = Inr ()"
    using co(5) by (auto simp: record_decision_def res_bind_Inr_iff)
  note valid = validate_bundle_Inr [OF v]
  have "map pd_candidate_id ps = map ca_candidate_id (kx_candidates ob)"
    "\<forall>y \<in> set ps. pd_snapshot_id y = sn_token (kx_snapshot ob)"
    using valid(3,4) by (simp_all add: co(3) kv_decision_def)
  then have "selected_prediction (kp_decision plan) ps = Inr x"
    by (rule kv_bundle_valid(2) [OF st(1) pair _ _ co(3)])
  then show ?thesis
    using st(1) co t fields \<open>x \<in> set ps\<close>
    by (intro that [of ob c x reason t]) (simp_all add: kv_decision_def)
qed

section \<open>Movements\<close>

lemma desired_action_Some:
  assumes "desired_action cfg current phase reuse resume hbm = (Some a, reason)"
  shows "a = OFFLOAD \<and> is_hbm current \<and> (\<exists>ph. phase = Some ph \<and> ph \<in> set (kc_offload_phases cfg)) \<and>
      (\<exists>h. hbm = Some h \<and> kc_offload_hbm_pressure cfg \<le> h) \<and>
      (\<exists>r. reuse = Some r \<and> r \<le> kc_offload_max_reuse_probability cfg) \<or>
    a = PREFETCH \<and> \<not> is_hbm current \<and> (\<exists>s. resume = Some s \<and> s \<le> kc_prefetch_horizon_seconds cfg) \<and>
      (\<exists>r. reuse = Some r \<and> kc_prefetch_min_reuse_probability cfg \<le> r)"
  using assms by (auto simp: desired_action_def split: if_splits)

text \<open>C18: A plan that moves KV state has passed every guard: the snapshot is complete enough and shows a
  stable transfer state, the owner allows the action, the target is another one of the request's
  targets, available and healthy, and the prediction the decision rests on is confident, not a
  fallback and knows the transfer time. The movement is either an offload out of HBM, for an agent in
  an offload phase, under HBM pressure and with a low reuse probability, or a prefetch into HBM,
  shortly before an expected resume, with a high reuse probability and a predicted HBM pressure
  below the limit; a planner never migrates between tiers of the same kind.\<close>
theorem kv_movement_guarded:
  assumes "kv_plan_step p ids k q = (Inr plan, k')"
    and "ac_action_type (de_selected_action (kp_decision plan)) \<noteq> ''keep''"
  shows "\<exists>sn s current target x a cfg. cfg = kv_config k \<and> read_snapshot p (kq_snapshot_id q) = Inr sn \<and>
     kc_min_snapshot_completeness cfg \<le> sn_completeness sn \<and>
     optional_string sn (kq_kv_ref q) ''kv.transfer_state'' = Inr (Some s) \<and> s \<in> set (kc_stable_transfer_states cfg) \<and>
     current \<in> set (kq_targets q) \<and> kp_current_location plan = kt_location_ref current \<and>
     target \<in> set (kq_targets q) \<and> kp_selected_target plan = kt_location_ref target \<and>
     kp_selected_target plan \<noteq> kp_current_location plan \<and> kt_available target \<and> kt_healthy target \<and>
     a \<in> set (ko_allowed_actions (kv_owner k)) \<and>
     ac_action_type (de_selected_action (kp_decision plan)) = kv_action_value a \<and>
     selected_prediction (kp_decision plan) (kp_predictions plan) = Inr x \<and>
     kc_min_prediction_confidence cfg \<le> pd_confidence x \<and> pd_fallback x = ''none'' \<and>
     pp_transfer_eta_seconds (pd_performance x) \<noteq> None \<and>
     (a = OFFLOAD \<and> is_hbm current \<and> \<not> is_hbm target \<and>
        (\<exists>ph h r. kp_phase plan = Some ph \<and> ph \<in> set (kc_offload_phases cfg) \<and>
           kp_hbm_pressure plan = Some h \<and> kc_offload_hbm_pressure cfg \<le> h \<and>
           kp_reuse_probability plan = Some r \<and> r \<le> kc_offload_max_reuse_probability cfg) \<or>
      a = PREFETCH \<and> \<not> is_hbm current \<and> is_hbm target \<and>
        (\<exists>t h r. kp_resume_seconds plan = Some t \<and> t \<le> kc_prefetch_horizon_seconds cfg \<and>
           kp_reuse_probability plan = Some r \<and> kc_prefetch_min_reuse_probability cfg \<le> r \<and>
           fp_hbm_pressure (pd_future_state x) = Some h \<and> h \<le> kc_max_prefetch_hbm_pressure cfg))"
  using assms(1)
proof (cases rule: kv_plan_cases)
  case (1 ob c x target reason)
  note ob = kv_observe_Inr [OF 1(1)]
  note cand = kv_candidate_Inr [OF 1(5)]
  have act: "ac_action_type (de_selected_action (kp_decision plan)) = ca_action_type c"
    by (simp add: 1(12) kv_action_def)
  from 1(2) show ?thesis
  proof (cases rule: kv_select_Inr)
    case keep
    then show ?thesis using assms(2) act by simp
  next
    case (move a s)
    then have adm: "ca_action_type c = kv_action_value a" "kc_min_prediction_confidence (kv_config k) \<le> pd_confidence x"
      "pd_fallback x = ''none''" "pp_transfer_eta_seconds (pd_performance x) \<noteq> None"
      "a = PREFETCH \<longrightarrow> (\<exists>h. fp_hbm_pressure (pd_future_state x) = Some h \<and> h \<le> kc_max_prefetch_hbm_pressure (kv_config k))"
      by (auto simp: admissible_def eligible_pair_def resource_safe_def split: option.splits)
    have a: "action_type_of (kx_current ob) target = a" using adm(1) cand(3) by simp
    note why = desired_action_Some [OF move(2)]
    have moved: "kt_location_ref target \<noteq> kt_location_ref (kx_current ob)" using a why by auto
    show ?thesis
      using 1 ob(1,4,6) cand(1) cand(2) [OF moved] move(1,3,4) adm a why moved act
      by (intro exI [of _ "kx_snapshot ob"] exI [of _ s] exI [of _ "kx_current ob"] exI [of _ target]
          exI [of _ x] exI [of _ a] exI [of _ "kv_config k"]) (auto split: if_splits)
  qed
qed

section \<open>The selection\<close>

text \<open>C33: The selection is exactly the policy: with a complete snapshot, a stable transfer state, a
  desired movement and at least one admissible candidate for it, the first candidate with the least
  transfer time, then the least known cost, then the least location is selected, for the reason that
  triggered the movement; in every other case the keep baseline is.\<close>
theorem kv_select_exact:
  assumes "kv_select cfg sn pairs current phase reuse resume hbm state = Inr (x, reason)"
  shows "x \<in> set pairs \<and>
    (if kc_min_snapshot_completeness cfg \<le> sn_completeness sn \<and>
        (\<exists>s. state = Some s \<and> s \<in> set (kc_stable_transfer_states cfg)) \<and>
        (\<exists>a. fst (desired_action cfg current phase reuse resume hbm) = Some a \<and> (\<exists>y \<in> set pairs. admissible cfg a y))
     then (\<exists>a. desired_action cfg current phase reuse resume hbm = (Some a, reason) \<and> admissible cfg a x \<and>
        (\<forall>y \<in> set pairs. admissible cfg a y \<longrightarrow> selection_key x \<le> selection_key y))
     else find (\<lambda>y. ca_action_type (fst y) = ''keep'') pairs = Some x)"
  using assms
proof (cases rule: kv_select_Inr)
  case keep
  then show ?thesis by auto
next
  case (move a s)
  then show ?thesis by auto
qed

section \<open>The proposed action\<close>

lemma read_snapshot_token: "plane_inv p \<Longrightarrow> read_snapshot p i = Inr sn \<Longrightarrow> sn_token sn = i"
  by (auto simp: read_snapshot_def plane_inv_def snapshots_inv_def dest!: dict_get_Some_in split: option.splits)

text \<open>C32: A plan proposes and dispatches nothing: its action is a dry run addressed to the component that
  manages the KV object, conditional on the snapshot, on the location the object was seen at and on the
  state owner it was seen with (the one the request expected, if it named one). Rolling back returns
  the object to that location, and there is something to roll back exactly when the object moves. The
  action reserves the size of the object on the target exactly when it moves it into HBM, and it
  waits at least a second and twice the predicted transfer time.\<close>
theorem kv_plan_proposal:
  assumes "kv_plan_step p ids k q = (Inr plan, k')" and "plane_inv p"
  shows "\<exists>sn bytes current target x obj own a. a = de_selected_action (kp_decision plan) \<and>
     read_snapshot p (kq_snapshot_id q) = Inr sn \<and> required_number sn (kq_kv_ref q) ''kv.size'' = Inr bytes \<and>
     required_string sn (kq_kv_ref q) ''kv.location'' = Inr (kp_current_location plan) \<and>
     current \<in> set (kq_targets q) \<and> kp_current_location plan = kt_location_ref current \<and>
     target \<in> set (kq_targets q) \<and> kp_selected_target plan = kt_location_ref target \<and>
     selected_prediction (kp_decision plan) (kp_predictions plan) = Inr x \<and>
     manages (kv_owner k) (kq_kv_ref q) \<and> get_entity p (kq_kv_ref q) = Some obj \<and>
     get_entity p (ko_component_ref (kv_owner k)) = Some own \<and> ac_target_component a = ge_ref own \<and>
     (kq_expected_state_owner q = [] \<or> ge_owner_component_ref obj = kq_expected_state_owner q) \<and>
     ac_dry_run a \<and>
     dict_get (ac_preconditions a) ''snapshot_id'' = Some (PStr (kq_snapshot_id q)) \<and>
     dict_get (ac_preconditions a) ''expected_location'' = Some (PStr (kp_current_location plan)) \<and>
     dict_get (ac_preconditions a) ''expected_state_owner'' = Some (PStr (ge_owner_component_ref obj)) \<and>
     (ac_rollback_action a = [] \<longleftrightarrow> kp_selected_target plan = kp_current_location plan) \<and>
     (kp_selected_target plan \<noteq> kp_current_location plan \<longrightarrow>
        dict_get (ac_rollback_action a) ''target_location'' = Some (PStr (kp_current_location plan))) \<and>
     (ac_reservations a = [] \<longleftrightarrow> \<not> (is_hbm target \<and> kp_selected_target plan \<noteq> kp_current_location plan)) \<and>
     (\<forall>r \<in> set (ac_reservations a). rv_resource_ref r = kp_selected_target plan \<and>
        rv_amount r = [(''hbm_bytes'', real_of_int \<lfloor>bytes\<rfloor>)] \<and> rv_status r = ''proposed'' \<and>
        rv_owner r = ko_component_ref (kv_owner k)) \<and>
     1 \<le> ac_timeout_seconds a \<and>
     (\<forall>eta. pp_transfer_eta_seconds (pd_performance x) = Some eta \<longrightarrow> 2 * eta \<le> ac_timeout_seconds a)"
  using assms(1)
proof (cases rule: kv_plan_cases)
  case (1 ob c x target reason)
  note ob = kv_observe_Inr [OF 1(1)]
  note own = validate_ownership_Inr [OF ob(2)]
  note cand = kv_candidate_Inr [OF 1(5)]
  obtain bytes where bytes: "required_number (kx_snapshot ob) (kq_kv_ref q) ''kv.size'' = Inr bytes"
    "kx_size ob = \<lfloor>bytes\<rfloor>" using ob(9) by blast
  have tok: "sn_token (kx_snapshot ob) = kq_snapshot_id q" by (rule read_snapshot_token [OF assms(2) ob(1)])
  have keep: "ca_action_type c = ''keep'' \<longleftrightarrow> kp_selected_target plan = kp_current_location plan"
    using cand(3) by (auto simp: 1(6,7))
  show ?thesis
    by (rule exI [of _ "kx_snapshot ob"], rule exI [of _ bytes], rule exI [of _ "kx_current ob"],
        rule exI [of _ target], rule exI [of _ x], rule exI [of _ "kx_kv_entity ob"],
        rule exI [of _ "kx_owner_entity ob"], rule exI [of _ "de_selected_action (kp_decision plan)"])
      (use ob(1,4,5) own(1,2,5,6) bytes tok keep 1(3,6,7,13) in
        \<open>auto simp: 1(12) kv_action_def kv_reservations_def\<close>)
qed

section \<open>Planning succeeds\<close>

text \<open>The hypotheses of a successful run: what planning needs once the state is observed.\<close>

definition kv_ready :: "plane \<Rightarrow> kv_ids \<Rightarrow> kv_controller \<Rightarrow> string \<Rightarrow> bool" where
  "kv_ready p ids k v \<longleftrightarrow> plane_inv p \<and> ps_model (kv_service k) = AnalyticalPredictionModel v \<and>
     inj (ki_prediction_ids ids) \<and>
     (\<forall>n. \<not> dict_has (pj_records (ps_journal (kv_service k))) (ki_prediction_ids ids n)) \<and>
     (\<forall>n. dict_get (cj_predictions (kv_journal k)) (ki_prediction_ids ids n) = None) \<and>
     control_step\<^sup>*\<^sup>* empty_control_journal (kv_journal k) \<and>
     dict_get (cj_decisions (kv_journal k)) (ki_decision_id ids) = None \<and>
     dict_get (cj_action_decisions (kv_journal k)) (ki_action_id ids) = None"

lemma kv_plan_runs:
  assumes "kv_observe p (kv_owner k) q = Inr ob" "kv_ready p ids k v"
  obtains plan k' r where "kv_plan_step p ids k q = (Inr plan, k')"
    "control_get (kv_journal k') (ki_decision_id ids) = Inr r" "jo_decision r = kp_decision plan"
    "kp_predictions plan = map (\<lambda>(i, now, r). service_evaluate (kv_service k) i (kx_snapshot ob) r
       (AnalyticalPredictionModel v)) (kv_requests ids ob)"
proof -
  note o = kv_observe_Inr [OF assms(1)]
  from assms(2) have rdy: "plane_inv p" "ps_model (kv_service k) = AnalyticalPredictionModel v"
    "inj (ki_prediction_ids ids)"
    "\<And>n. \<not> dict_has (pj_records (ps_journal (kv_service k))) (ki_prediction_ids ids n)"
    "\<And>n. dict_get (cj_predictions (kv_journal k)) (ki_prediction_ids ids n) = None"
    "control_step\<^sup>*\<^sup>* empty_control_journal (kv_journal k)"
    "dict_get (cj_decisions (kv_journal k)) (ki_decision_id ids) = None"
    "dict_get (cj_action_decisions (kv_journal k)) (ki_action_id ids) = None"
    unfolding kv_ready_def by blast+
  let ?sn = "kx_snapshot ob" and ?cs = "kx_candidates ob" and ?m = "AnalyticalPredictionModel v"
  let ?reqs = "kv_requests ids ob"
  let ?ps = "map (\<lambda>(i, now, r). service_evaluate (kv_service k) i ?sn r ?m) ?reqs"
  have tok: "read_snapshot p (sn_token ?sn) = Inr ?sn" using read_snapshot_token [OF rdy(1) o(1)] o(1) by simp
  have fst: "map fst ?reqs = map (ki_prediction_ids ids) [0..<length ?cs]"
    by (rule nth_equalityI) (simp_all add: kv_requests_def nth_enumerate_eq)
  have "\<exists>t. service_predict_many p (kv_service k) ?reqs = (Inr ?ps, t)"
  proof (rule analytical.predict_many_total [OF rdy(2)])
    show "\<forall>(i, now, r) \<in> set ?reqs. read_snapshot p (pq_snapshot_id r) = Inr ?sn"
      using tok by (auto simp: kv_requests_def)
    show "distinct (map fst ?reqs)" unfolding fst using rdy(3) by (simp add: distinct_map inj_on_def inj_def)
    show "\<forall>i \<in> fst ` set ?reqs. \<not> dict_has (pj_records (ps_journal (kv_service k))) i"
      using rdy(4) by (auto simp: kv_requests_def)
  qed
  then obtain s where s: "service_predict_many p (kv_service k) ?reqs = (Inr ?ps, s)" by blast
  have len: "length ?ps = length ?cs" by (simp add: kv_requests_def)
  have ids: "map pd_candidate_id ?ps = map ca_candidate_id ?cs" "\<forall>y \<in> set ?ps. pd_snapshot_id y = sn_token ?sn"
    "pd_prediction_id ` set ?ps \<subseteq> range (ki_prediction_ids ids)"
    by (rule nth_equalityI)
      (auto simp: kv_requests_def nth_enumerate_eq analytical.evaluate_candidate analytical.evaluate_snapshot
        analytical.evaluate_id)
  obtain c where "c \<in> set ?cs" "ca_action_type c = ''keep''" by (rule kv_candidates_Inr [OF o(10)]) blast
  then obtain n where "n < length ?cs" "ca_action_type (?cs ! n) = ''keep''" by (auto simp: in_set_conv_nth)
  then have "(?cs ! n, ?ps ! n) \<in> set (zip ?cs ?ps)" "ca_action_type (fst (?cs ! n, ?ps ! n)) = ''keep''"
    using len by (auto simp: set_zip)
  then have "find (\<lambda>x. ca_action_type (fst x) = ''keep'') (zip ?cs ?ps) \<noteq> None"
    unfolding find_None_iff by blast
  then obtain y where y: "find (\<lambda>x. ca_action_type (fst x) = ''keep'') (zip ?cs ?ps) = Some y" by blast
  obtain c x reason where sel: "kv_select (kv_config k) ?sn (zip ?cs ?ps) (kx_current ob) (kx_phase ob)
       (kx_reuse ob) (kx_resume_seconds ob) (kx_hbm_pressure ob) (kx_transfer_state ob) = Inr ((c, x), reason)"
    using kv_select_total [OF y] by (metis surj_pair)
  then have cx: "(c, x) \<in> set (zip ?cs ?ps)" by (cases rule: kv_select_Inr) simp_all
  then obtain t where t: "dict_get (targets_by_location (kq_targets q)) (target_location c) = Some t"
    by (auto dest: set_zip_leftD elim: candidate_target [OF assms(1)])
  define d where "d = kv_decision ids (kv_owner k) ?sn q ?cs ?ps
     (kv_action (ki_action_id ids) (kv_owner k) (kv_config k) ?sn q (kx_kv_entity ob) (kx_owner_entity ob)
        (kx_current ob) t c x (kx_size ob) (kx_transfer_state ob)) x reason"
  note valid = kv_bundle_valid [OF assms(1) cx ids(1,2) d_def]
  have dd: "de_decision_id d = ki_decision_id ids" "action_of d = ki_action_id ids"
    by (simp_all add: d_def kv_decision_def kv_action_def)
  have fresh: "dict_get (cj_predictions (kv_journal k)) (pd_prediction_id y) = None" if y: "y \<in> set ?ps" for y
  proof -
    from ids(3) imageI [OF y] have "pd_prediction_id y \<in> range (ki_prediction_ids ids)" by (rule subsetD)
    then obtain n where "pd_prediction_id y = ki_prediction_ids ids n" by (rule rangeE)
    then show ?thesis by (simp only: rdy(5))
  qed
  have conf: "conflicting_prediction (cj_predictions (kv_journal k)) ?ps = None"
    unfolding conflicting_prediction_None by (intro ballI allI impI) (drule fresh, simp)
  obtain r where r: "record_decision (kv_journal k) d ?ps = Inr (r, store_decision (kv_journal k) d ?ps x)"
      "jo_decision r = d"
    by (rule record_decision_fresh [OF control.run_inv [OF rdy(6) journal_ok_empty] valid _ _ conf])
      (use rdy(7,8) in \<open>simp_all add: dd\<close>)
  have "control_get (store_decision (kv_journal k) d ?ps x) (ki_decision_id ids) = Inr r"
    using r(1) by (cases rule: record_decision_Inr) (use rdy(7) in \<open>auto simp: dd\<close>)
  moreover obtain plan where "kv_conclude ids (k\<lparr>kv_service := s\<rparr>) q ob ?ps
      = Inr (plan, store_decision (kv_journal k) d ?ps x)" "kp_decision plan = d" "kp_predictions plan = ?ps"
    using r(1) by (simp add: kv_conclude_def sel t Let_def flip: d_def)
  ultimately show ?thesis using r(2) assms(1) s
    by (intro that [of plan "k\<lparr>kv_service := s, kv_journal := store_decision (kv_journal k) d ?ps x\<rparr>" r])
      (simp_all add: kv_plan_step_def)
qed

text \<open>C19: Once the state is observed, planning succeeds: with the analytical model, prediction
  identifiers neither journal knows and a new decision and action, the planner answers, it never
  fails between predicting and journaling, and the control journal then holds the decision of the
  plan.\<close>
theorem kv_plan_total:
  assumes "plane_inv p" "kv_observe p (kv_owner k) q = Inr ob"
    and "ps_model (kv_service k) = AnalyticalPredictionModel v" "inj (ki_prediction_ids ids)"
    and "\<And>n. \<not> dict_has (pj_records (ps_journal (kv_service k))) (ki_prediction_ids ids n)"
    and "\<And>n. dict_get (cj_predictions (kv_journal k)) (ki_prediction_ids ids n) = None"
    and "control_step\<^sup>*\<^sup>* empty_control_journal (kv_journal k)"
    and "dict_get (cj_decisions (kv_journal k)) (ki_decision_id ids) = None"
    and "dict_get (cj_action_decisions (kv_journal k)) (ki_action_id ids) = None"
  shows "\<exists>plan k' r. kv_plan_step p ids k q = (Inr plan, k') \<and>
     control_get (kv_journal k') (ki_decision_id ids) = Inr r \<and> jo_decision r = kp_decision plan"
proof -
  have "kv_ready p ids k v" using assms(1,3-9) by (simp add: kv_ready_def)
  then show ?thesis by (rule kv_plan_runs [OF assms(2)]) blast
qed

section \<open>The example runs\<close>

lemma exk_ids_fresh:
  "inj (ki_prediction_ids exk_ids)" "ps_model (kv_service exk_controller) = AnalyticalPredictionModel ''v''"
  "kv_journal exk_controller = empty_control_journal" "ps_journal (kv_service exk_controller) = empty_prediction_journal"
  by (simp_all add: exk_ids_def exk_controller_def inj_def) (metis append_same_eq length_replicate same_append_eq)?

lemma exk_ready: "kv_ready exk_plane exk_ids exk_controller ''v''"
  by (simp add: kv_ready_def exk_plane_inv exk_ids_fresh empty_control_journal_def empty_prediction_journal_def dict_has_def)

lemma exk_plan:
  obtains plan k' where "kv_plan_step exk_plane exk_ids exk_controller exk_request = (Inr plan, k')"
    "ac_action_type (de_selected_action (kp_decision plan)) = ''offload''"
proof -
  obtain ob where ob: "kv_observe exk_plane (kv_owner exk_controller) exk_request = Inr ob"
    "kx_snapshot ob = exk_snapshot" "kx_current ob = exk_gpu" "kx_candidates ob = [exk_candidate exk_gpu, exk_candidate exk_host]"
    "kx_reuse ob = Some 0" "kx_hbm_pressure ob = Some (19 / 20)" "kx_phase ob = Some ''PAUSED''"
    "kx_transfer_state ob = Some ''idle''"
    by (rule exk_observe)
  obtain plan k' where plan: "kv_plan_step exk_plane exk_ids exk_controller exk_request = (Inr plan, k')"
    "kp_predictions plan = map (\<lambda>(i, now, r). service_evaluate (kv_service exk_controller) i (kx_snapshot ob) r
       (AnalyticalPredictionModel ''v'')) (kv_requests exk_ids ob)"
    by (rule kv_plan_runs [OF ob(1) exk_ready])
  let ?r = "\<lparr>pq_snapshot_id = ''t'', pq_candidate_action = exk_off\<rparr>"
  let ?x = "service_evaluate (kv_service exk_controller) (ki_prediction_ids exk_ids 1) exk_snapshot ?r (AnalyticalPredictionModel ''v'')"
  have x: "kp_predictions plan ! 1 = ?x" "length (kp_predictions plan) = 2"
    by (simp_all add: plan(2) ob(2,4) kv_requests_def exk_snapshot_def)
  obtain y where y: "analytical_predict ''v'' (ki_prediction_ids exk_ids 1) exk_snapshot exk_off = Inr y"
    "pd_fallback y = ''none''" "pp_transfer_eta_seconds (pd_performance y) = Some 2" "pd_confidence y = 1"
    by (rule exk_prediction)
  have "?x = y" using y by (simp add: service_evaluate_def AnalyticalPredictionModel_def exk_controller_def)
  moreover have "ca_action_type exk_off = kv_action_value OFFLOAD" by (simp add: exk_candidate_def action_type_of_def)
  ultimately have adm: "admissible default_kv_config OFFLOAD (exk_off, kp_predictions plan ! 1)"
    using y x(1) by (simp add: admissible_def eligible_pair_def default_kv_config_def)
  have mem: "(exk_off, kp_predictions plan ! 1) \<in> set (zip [exk_candidate exk_gpu, exk_off] (kp_predictions plan))"
    using x(2) by (auto simp: set_zip intro!: exI [of _ 1])
  have cfg: "kv_config exk_controller = default_kv_config" by (simp add: exk_controller_def)
  have "(\<exists>h. Some (19 / 20) = Some h \<and> h \<ge> kc_offload_hbm_pressure default_kv_config)"
    by (rule exI [of _ "19 / 20"]) (simp add: default_kv_config_def)
  then have want: "desired_action default_kv_config exk_gpu (Some ''PAUSED'') (Some 0) r (Some (19 / 20)) = (Some OFFLOAD, ''hbm_pressure_offload'')" for r
    unfolding desired_action_def by (subst if_P) (auto simp: default_kv_config_def)
  have guards: "\<not> sn_completeness exk_snapshot < kc_min_snapshot_completeness default_kv_config"
    "''idle'' \<in> set (kc_stable_transfer_states default_kv_config)"
    by (simp_all add: exk_snapshot_def default_kv_config_def)
  from plan(1) have "ac_action_type (de_selected_action (kp_decision plan)) = ''offload''"
  proof (cases rule: kv_plan_cases)
    case (1 ob' c x target reason)
    then have o: "ob' = ob" using ob(1) by simp
    from 1(2) show ?thesis unfolding o ob cfg
    proof (cases rule: kv_select_Inr)
      case keep
      then show ?thesis using adm mem guards by (simp add: want)
    next
      case (move a s)
      then have "ca_action_type c = ''offload''" by (simp add: want admissible_def eligible_pair_def)
      then show ?thesis by (simp add: 1(12) kv_action_def)
    qed
  qed
  with plan(1) show ?thesis by (rule that)
qed

theorem kv_movement_guarded_witness:
  "\<exists>plan k' s. kv_plan_step exk_plane exk_ids exk_controller exk_request = (Inr plan, k') \<and>
     optional_string exk_snapshot exk_kv ''kv.transfer_state'' = Inr (Some s) \<and> s \<in> set (kc_stable_transfer_states default_kv_config)"
proof -
  obtain plan k' where plan: "kv_plan_step exk_plane exk_ids exk_controller exk_request = (Inr plan, k')"
    "ac_action_type (de_selected_action (kp_decision plan)) = ''offload''" by (rule exk_plan)
  have "read_snapshot exk_plane (kq_snapshot_id exk_request) = Inr exk_snapshot" "kq_kv_ref exk_request = exk_kv"
    "kv_config exk_controller = default_kv_config"
    by (simp_all add: read_snapshot_def exk_plane_def exk_request_def exk_controller_def)
  with kv_movement_guarded [OF plan(1)] plan show ?thesis by auto
qed

theorem kv_plan_proposal_witness:
  "\<exists>plan k'. kv_plan_step exk_plane exk_ids exk_controller exk_request = (Inr plan, k') \<and>
     ac_dry_run (de_selected_action (kp_decision plan))"
proof -
  obtain plan k' where plan: "kv_plan_step exk_plane exk_ids exk_controller exk_request = (Inr plan, k')" by (rule exk_plan)
  from kv_plan_proposal [OF plan exk_plane_inv] have "ac_dry_run (de_selected_action (kp_decision plan))"
    by (elim exE conjE) (hypsubst, assumption)
  with plan show ?thesis by blast
qed

theorem kv_plan_total_witness:
  "\<exists>plan k' r. kv_plan_step exk_plane exk_ids exk_controller exk_request = (Inr plan, k') \<and>
     control_get (kv_journal k') ''d'' = Inr r \<and> jo_decision r = kp_decision plan"
proof -
  obtain ob where ob: "kv_observe exk_plane (kv_owner exk_controller) exk_request = Inr ob" by (rule exk_observe)
  have d: "ki_decision_id exk_ids = ''d''" by (simp add: exk_ids_def)
  show ?thesis
    by (rule kv_plan_total [OF exk_plane_inv ob exk_ids_fresh(2,1), unfolded d])
      (simp_all add: exk_ids_fresh empty_control_journal_def empty_prediction_journal_def dict_has_def)
qed

theorem kv_select_exact_witness:
  "\<exists>x reason. kv_select default_kv_config exk_snapshot
       [(exk_candidate exk_gpu, Prediction ''p'' ''t'' ''c'' ''v'')] exk_gpu None None None None None = Inr (x, reason) \<and>
     ca_action_type (fst x) = ''keep''"
proof -
  let ?pairs = "[(exk_candidate exk_gpu, Prediction ''p'' ''t'' ''c'' ''v'')]"
  have keep: "ca_action_type (exk_candidate exk_gpu) = ''keep''" by (simp add: exk_candidate_def)
  then have f: "find (\<lambda>y. ca_action_type (fst y) = ''keep'') ?pairs = Some (hd ?pairs)" by simp
  obtain x reason where x: "kv_select default_kv_config exk_snapshot ?pairs exk_gpu None None None None None = Inr (x, reason)"
    using kv_select_total [OF f] by metis
  have "fst (desired_action default_kv_config exk_gpu None None None None) = None" by (simp add: desired_action_def)
  with kv_select_exact [OF x] have "x = hd ?pairs" using f by (simp only: simp_thms option.simps if_False)
  with x keep show ?thesis by auto
qed

end
