(* ===== verification/SF_Replay.thy ===== *)
theory SF_Replay
  imports SF_Control_Journal
begin

text \<open>
  \<open>stateflow/control/replay.py\<close>: another policy applied to the recorded predictions of a decision,
  without an action. The mutable \<open>rejections\<close> and \<open>trace\<close> are passed along; a trace entry keeps the
  best value as a number where the code formats it.
\<close>

section \<open>Constraints, configuration and result\<close>

record replay_constraints =
  rc_min_confidence :: real
  rc_min_success_probability :: "real option"
  rc_max_latency_seconds :: "real option"
  rc_max_monetary_cost :: "real option"
  rc_model_version :: string
  rc_allow_fallback :: bool

definition default_replay_constraints :: replay_constraints where
  "default_replay_constraints = \<lparr>rc_min_confidence = 0, rc_min_success_probability = None,
     rc_max_latency_seconds = None, rc_max_monetary_cost = None, rc_model_version = [], rc_allow_fallback = True\<rparr>"

definition replay_constraints_post_init :: "replay_constraints \<Rightarrow> replay_constraints res" where
  "replay_constraints_post_init c =
     (if \<not> (0 \<le> rc_min_confidence c \<and> rc_min_confidence c \<le> 1)
      then Inl (ValueError ''min_confidence must be between zero and one'')
      else if \<exists>v \<in> set_option (rc_min_success_probability c). \<not> (0 \<le> v \<and> v \<le> 1)
      then Inl (ValueError ''min_success_probability must be between zero and one'')
      else
        (case find (\<lambda>(name, v). \<exists>x \<in> set_option v. x < 0)
           [(''max_latency_seconds'', rc_max_latency_seconds c), (''max_monetary_cost'', rc_max_monetary_cost c)] of
           Some (name, v) \<Rightarrow> Inl (ValueError (name @ '' must be non-negative''))
         | None \<Rightarrow> Inr c))"

record replay_config =
  ry_success_absolute_tolerance :: real
  ry_latency_relative_tolerance :: real
  ry_cost_relative_tolerance :: real
  ry_throughput_relative_tolerance :: real

definition default_replay_config :: replay_config where
  "default_replay_config = \<lparr>ry_success_absolute_tolerance = 3 / 100, ry_latency_relative_tolerance = 0,
     ry_cost_relative_tolerance = 0, ry_throughput_relative_tolerance = 0\<rparr>"

definition replay_config_post_init :: "replay_config \<Rightarrow> replay_config res" where
  "replay_config_post_init c =
     (case find (\<lambda>(name, v). \<not> (0 \<le> v \<and> v \<le> 1))
        [(''success_absolute_tolerance'', ry_success_absolute_tolerance c),
         (''latency_relative_tolerance'', ry_latency_relative_tolerance c),
         (''cost_relative_tolerance'', ry_cost_relative_tolerance c),
         (''throughput_relative_tolerance'', ry_throughput_relative_tolerance c)] of
        Some (name, v) \<Rightarrow> Inl (ValueError (name @ '' must be between zero and one''))
      | None \<Rightarrow> Inr c)"

record trace_step =
  ts_objective :: objective
  ts_best :: real
  ts_survivors :: "string list"

record replay_decision =
  ry_source_decision_id :: string
  ry_snapshot_id :: string
  ry_policy_name :: string
  ry_policy_version :: string
  ry_baseline_candidate_id :: string
  ry_selected_candidate_id :: string
  ry_selected_prediction_id :: string
  ry_candidate_ids :: "string list"
  ry_eligible_candidate_ids :: "string list"
  ry_objective_values :: "(string, real) dict"
  ry_potential_gain :: "(string, real) dict"
  ry_rejections :: "(string, string list) dict"
  ry_selection_trace :: "trace_step list"
  ry_changed :: bool
  ry_dry_run :: bool

section \<open>Hard constraints\<close>

text \<open>The reasons a check appends, or the error it raises.\<close>

definition maximum_constraint :: "real option \<Rightarrow> real option \<Rightarrow> string \<Rightarrow> string list res" where
  "maximum_constraint value maximum name =
     (case maximum of
        None \<Rightarrow> Inr []
      | Some m \<Rightarrow>
          (case value of
             None \<Rightarrow> Inr [''missing_constraint:'' @ name]
           | Some v \<Rightarrow>
               if v < 0 then Inl (ValueError (''predicted '' @ name @ '' must be finite and non-negative''))
               else if v > m then Inr [name @ ''_above_maximum''] else Inr []))"

definition minimum_success :: "real option \<Rightarrow> real option \<Rightarrow> string list res" where
  "minimum_success value minimum =
     (case minimum of
        None \<Rightarrow> Inr []
      | Some m \<Rightarrow>
          (case value of
             None \<Rightarrow> Inr [''missing_constraint:success'']
           | Some v \<Rightarrow>
               if \<not> (0 \<le> v \<and> v \<le> 1) then Inl (ValueError ''success probability must be between zero and one'')
               else if v < m then Inr [''success_below_minimum''] else Inr []))"

definition constraint_reasons :: "replay_constraints \<Rightarrow> prediction \<Rightarrow> string list res" where
  "constraint_reasons c p =
     res_bind (maximum_constraint (pp_e2e_seconds (pd_performance p)) (rc_max_latency_seconds c) ''latency'') (\<lambda>latency.
     res_bind (maximum_constraint (cp_monetary_cost (pd_cost p)) (rc_max_monetary_cost c) ''cost'') (\<lambda>cost.
     res_bind (minimum_success (rp_success_probability (pd_reliability p)) (rc_min_success_probability c)) (\<lambda>success.
     Inr ((if pd_confidence p < rc_min_confidence c then [''confidence_below_minimum''] else [])
        @ (if rc_model_version c \<noteq> [] \<and> pd_model_version p \<noteq> rc_model_version c
           then [''model_version_mismatch''] else [])
        @ (if \<not> rc_allow_fallback c \<and> pd_fallback p \<noteq> ''none'' then [''fallback_prediction''] else [])
        @ latency @ cost @ success))))"

section \<open>Objectives\<close>

definition maximized :: "objective \<Rightarrow> bool" where
  "maximized ob \<longleftrightarrow> ob = SUCCESS \<or> ob = THROUGHPUT"

definition recorded_objective :: "prediction \<Rightarrow> objective \<Rightarrow> real option" where
  "recorded_objective p ob =
     (case ob of
        SUCCESS \<Rightarrow> rp_success_probability (pd_reliability p)
      | LATENCY \<Rightarrow> pp_e2e_seconds (pd_performance p)
      | COST \<Rightarrow> cp_monetary_cost (pd_cost p)
      | THROUGHPUT \<Rightarrow> pp_throughput (pd_performance p)
      | ENERGY \<Rightarrow> None)"

definition objective_value :: "prediction \<Rightarrow> objective \<Rightarrow> real option res" where
  "objective_value p ob =
     (case recorded_objective p ob of
        None \<Rightarrow> Inr None
      | Some v \<Rightarrow>
          if ob = SUCCESS then
            (if \<not> (0 \<le> v \<and> v \<le> 1) then Inl (ValueError ''success probability must be between zero and one'')
             else Inr (Some v))
          else if v < 0
          then Inl (ValueError (''objective '' @ objective_value_str ob @ '' must be non-negative''))
          else Inr (Some v))"

fun best_value :: "objective \<Rightarrow> real list \<Rightarrow> real" where
  "best_value ob (v # vs) = (if maximized ob then max_from (\<lambda>x. x) v vs else min_from (\<lambda>x. x) v vs)"
| "best_value ob [] = 0"

definition objective_tolerance :: "replay_config \<Rightarrow> objective \<Rightarrow> real \<Rightarrow> real" where
  "objective_tolerance cfg ob best =
     (case ob of
        SUCCESS \<Rightarrow> ry_success_absolute_tolerance cfg
      | LATENCY \<Rightarrow> \<bar>best\<bar> * ry_latency_relative_tolerance cfg
      | COST \<Rightarrow> \<bar>best\<bar> * ry_cost_relative_tolerance cfg
      | THROUGHPUT \<Rightarrow> \<bar>best\<bar> * ry_throughput_relative_tolerance cfg
      | ENERGY \<Rightarrow> 0)"

definition survives :: "replay_config \<Rightarrow> objective \<Rightarrow> real \<Rightarrow> real \<Rightarrow> bool" where
  "survives cfg ob best v \<longleftrightarrow>
     (if maximized ob then v \<ge> best - objective_tolerance cfg ob best
      else v \<le> best + objective_tolerance cfg ob best)"

definition objective_survivors ::
  "(prediction \<times> real) list \<Rightarrow> objective \<Rightarrow> replay_config \<Rightarrow> prediction list" where
  "objective_survivors available ob cfg =
     map fst (filter (\<lambda>(p, v). survives cfg ob (best_value ob (map snd available)) v) available)"

section \<open>The loop over the objectives\<close>

record replay_state =
  rs_rejections :: "(string, string list) dict"
  rs_eligible :: "prediction list"
  rs_trace :: "trace_step list"

definition add_reason :: "string \<Rightarrow> (string, string list) dict \<Rightarrow> prediction \<Rightarrow> (string, string list) dict" where
  "add_reason reason d p = dict_set d (pd_candidate_id p) (dict_get_or d (pd_candidate_id p) [] @ [reason])"

definition known_values :: "prediction list \<Rightarrow> objective \<Rightarrow> (prediction \<times> real option) list res" where
  "known_values ps ob = res_map (\<lambda>p. res_bind (objective_value p ob) (\<lambda>v. Inr (p, v))) ps"

definition available_values :: "(prediction \<times> real option) list \<Rightarrow> (prediction \<times> real) list" where
  "available_values known_vals = List.map_filter (\<lambda>(p, v). map_option (Pair p) v) known_vals"

definition replay_objective :: "replay_config \<Rightarrow> objective \<Rightarrow> replay_state \<Rightarrow> replay_state res" where
  "replay_objective cfg ob s =
     res_bind (known_values (rs_eligible s) ob) (\<lambda>known_vals.
     let available = available_values known_vals in
     if available = []
     then Inl (NoReplayCandidate (''objective '' @ objective_value_str ob @ '' is unavailable for every candidate''))
     else
       let missing = map fst (filter (\<lambda>(p, v). v = None) known_vals);
           rejections = foldl (add_reason (''missing_objective:'' @ objective_value_str ob)) (rs_rejections s) missing;
           survivors = objective_survivors available ob cfg;
           dropped = filter (\<lambda>p. pd_candidate_id p \<notin> pd_candidate_id ` set survivors) (map fst available)
       in Inr \<lparr>rs_rejections = foldl (add_reason (''objective_gate:'' @ objective_value_str ob)) rejections dropped,
               rs_eligible = survivors,
               rs_trace = rs_trace s @ [\<lparr>ts_objective = ob, ts_best = best_value ob (map snd available),
                                          ts_survivors = map pd_candidate_id survivors\<rparr>]\<rparr>)"

fun replay_objectives :: "replay_config \<Rightarrow> objective list \<Rightarrow> replay_state \<Rightarrow> replay_state res" where
  "replay_objectives cfg [] s = Inr s"
| "replay_objectives cfg (ob # obs) s =
     res_bind (replay_objective cfg ob s) (\<lambda>t.
       if length (rs_eligible t) = 1 then Inr t else replay_objectives cfg obs t)"

section \<open>The replay\<close>

definition baseline_prediction :: "joined_record \<Rightarrow> prediction res" where
  "baseline_prediction r =
     (let candidate = dict_get (ac_parameters (de_selected_action (jo_decision r))) ''candidate_id'' in
      if (candidate = None \<or> (\<exists>v \<in> set_option candidate. \<not> truthy v)) \<and> length (jo_predictions r) = 1
      then Inr (hd (jo_predictions r))
      else
        (case filter (\<lambda>p. Some (PStr (pd_candidate_id p)) = candidate) (jo_predictions r) of
           [p] \<Rightarrow> Inr p
         | _ \<Rightarrow> Inl (ValueError ''record has no unique baseline candidate prediction'')))"

definition gain_entry :: "string \<Rightarrow> real option \<Rightarrow> real option \<Rightarrow> (string, real) dict" where
  "gain_entry key x y = (case (x, y) of (Some a, Some b) \<Rightarrow> [(key, a - b)] | _ \<Rightarrow> [])"

definition potential_gain :: "prediction \<Rightarrow> prediction \<Rightarrow> (string, real) dict" where
  "potential_gain selected baseline =
     gain_entry ''success_delta'' (rp_success_probability (pd_reliability selected))
       (rp_success_probability (pd_reliability baseline))
     @ gain_entry ''latency_reduction_seconds'' (pp_e2e_seconds (pd_performance baseline))
       (pp_e2e_seconds (pd_performance selected))
     @ gain_entry ''monetary_cost_reduction'' (cp_monetary_cost (pd_cost baseline))
       (cp_monetary_cost (pd_cost selected))
     @ gain_entry ''throughput_delta'' (pp_throughput (pd_performance selected))
       (pp_throughput (pd_performance baseline))"

text \<open>\<open>eligible[0]\<close>.\<close>

fun first_item :: "'a list \<Rightarrow> 'a res" where
  "first_item [] = Inl (OtherException ''IndexError'')"
| "first_item (x # xs) = Inr x"

definition objective_values :: "prediction \<Rightarrow> objective list \<Rightarrow> (string, real) dict res" where
  "objective_values p obs =
     res_bind (res_map (\<lambda>ob. res_bind (objective_value p ob) (\<lambda>v. Inr (ob, v))) obs) (\<lambda>vs.
       Inr (foldl (\<lambda>d (ob, v). case v of None \<Rightarrow> d | Some x \<Rightarrow> dict_set d (objective_value_str ob) x) [] vs))"

text \<open>\<open>constraints or ReplayConstraints()\<close> and \<open>config or ReplayPolicyConfig()\<close>.\<close>

definition given_constraints :: "replay_constraints option \<Rightarrow> replay_constraints" where
  "given_constraints constraints = (case constraints of None \<Rightarrow> default_replay_constraints | Some c \<Rightarrow> c)"

definition given_config :: "replay_config option \<Rightarrow> replay_config" where
  "given_config config = (case config of None \<Rightarrow> default_replay_config | Some f \<Rightarrow> f)"

definition controlled_replay ::
  "joined_record \<Rightarrow> policy_intent \<Rightarrow> replay_constraints option \<Rightarrow> replay_config option \<Rightarrow> replay_decision res" where
  "controlled_replay r policy constraints config =
     (let c = given_constraints constraints;
          cfg = given_config config;
          predictions = jo_predictions r
      in if pi_objectives policy = []
         then Inl (ValueError ''replay policy must contain at least one objective'')
         else if predictions = [] then Inl (NoReplayCandidate ''record contains no predictions'')
         else if \<not> distinct (map pd_candidate_id predictions)
         then Inl (ValueError ''replay requires one prediction per candidate_id'')
         else
           res_bind (res_map (constraint_reasons c) predictions) (\<lambda>reasons.
           let eligible = map fst (filter (\<lambda>(p, rs). rs = []) (zip predictions reasons)) in
           if eligible = [] then Inl (NoReplayCandidate ''hard constraints rejected every prediction'')
           else
             res_bind (replay_objectives cfg (pi_objectives policy)
                 \<lparr>rs_rejections = zip (map pd_candidate_id predictions) reasons,
                  rs_eligible = eligible, rs_trace = []\<rparr>) (\<lambda>s.
             res_bind (first_item (rs_eligible s)) (\<lambda>selected.
             res_bind (baseline_prediction r) (\<lambda>baseline.
             res_bind (objective_values selected (pi_objectives policy)) (\<lambda>values.
             Inr \<lparr>ry_source_decision_id = de_decision_id (jo_decision r),
                  ry_snapshot_id = de_snapshot_id (jo_decision r),
                  ry_policy_name = pi_name policy, ry_policy_version = pi_version policy,
                  ry_baseline_candidate_id = pd_candidate_id baseline,
                  ry_selected_candidate_id = pd_candidate_id selected,
                  ry_selected_prediction_id = pd_prediction_id selected,
                  ry_candidate_ids = map pd_candidate_id predictions,
                  ry_eligible_candidate_ids = map pd_candidate_id eligible,
                  ry_objective_values = values,
                  ry_potential_gain = potential_gain selected baseline,
                  ry_rejections = filter (\<lambda>(k, v). v \<noteq> []) (rs_rejections s),
                  ry_selection_trace = rs_trace s,
                  ry_changed = (pd_candidate_id selected \<noteq> pd_candidate_id baseline),
                  ry_dry_run = True\<rparr>))))))"

end
