(* ===== verification/SF_Replay_Lemmas.thy ===== *)
theory SF_Replay_Lemmas
  imports SF_Replay
begin

text \<open>
  What one objective of a replay does to the eligible candidates and to the rejections, and what a
  run over several objectives makes of it.
\<close>

section \<open>Hard constraints\<close>

definition within_maximum :: "real option \<Rightarrow> real option \<Rightarrow> bool" where
  "within_maximum value maximum \<longleftrightarrow> (\<forall>m. maximum = Some m \<longrightarrow> (\<exists>v. value = Some v \<and> 0 \<le> v \<and> v \<le> m))"

definition meets_constraints :: "replay_constraints \<Rightarrow> prediction \<Rightarrow> bool" where
  "meets_constraints c p \<longleftrightarrow> rc_min_confidence c \<le> pd_confidence p \<and>
     (rc_model_version c = [] \<or> pd_model_version p = rc_model_version c) \<and>
     (rc_allow_fallback c \<or> pd_fallback p = ''none'') \<and>
     within_maximum (pp_e2e_seconds (pd_performance p)) (rc_max_latency_seconds c) \<and>
     within_maximum (cp_monetary_cost (pd_cost p)) (rc_max_monetary_cost c) \<and>
     (\<forall>m. rc_min_success_probability c = Some m \<longrightarrow>
        (\<exists>v. rp_success_probability (pd_reliability p) = Some v \<and> m \<le> v \<and> 0 \<le> v \<and> v \<le> 1))"

lemma maximum_constraint_Nil: "maximum_constraint v m n = Inr [] \<longleftrightarrow> within_maximum v m"
  by (auto simp: maximum_constraint_def within_maximum_def split: option.splits)

lemma minimum_success_Nil: "minimum_success v m = Inr [] \<longleftrightarrow>
    (\<forall>b. m = Some b \<longrightarrow> (\<exists>x. v = Some x \<and> b \<le> x \<and> 0 \<le> x \<and> x \<le> 1))"
  by (auto simp: minimum_success_def split: option.splits)

lemma constraint_reasons_Nil: "constraint_reasons c p = Inr [] \<longleftrightarrow> meets_constraints c p"
proof -
  have "constraint_reasons c p = Inr [] \<longleftrightarrow>
      maximum_constraint (pp_e2e_seconds (pd_performance p)) (rc_max_latency_seconds c) ''latency'' = Inr [] \<and>
      maximum_constraint (cp_monetary_cost (pd_cost p)) (rc_max_monetary_cost c) ''cost'' = Inr [] \<and>
      minimum_success (rp_success_probability (pd_reliability p)) (rc_min_success_probability c) = Inr [] \<and>
      rc_min_confidence c \<le> pd_confidence p \<and>
      (rc_model_version c = [] \<or> pd_model_version p = rc_model_version c) \<and>
      (rc_allow_fallback c \<or> pd_fallback p = ''none'')"
    by (auto simp: constraint_reasons_def res_bind_Inr_iff)
  then show ?thesis unfolding maximum_constraint_Nil minimum_success_Nil meets_constraints_def by blast
qed

section \<open>One objective\<close>

lemma objective_value_Inr:
  "objective_value p ob = Inr v \<Longrightarrow> recorded_objective p ob = v"
  by (cases "recorded_objective p ob") (auto simp: objective_value_def split: if_splits)

lemma best_value_optimal:
  assumes "vs \<noteq> []"
  shows "best_value ob vs \<in> set vs"
    and "v \<in> set vs \<Longrightarrow> if maximized ob then v \<le> best_value ob vs else best_value ob vs \<le> v"
proof -
  obtain x xs where vs: "vs = x # xs" using assms by (cases vs) auto
  show "best_value ob vs \<in> set vs"
    using min_from_in [of "\<lambda>x. x" x xs] max_from_in [of "\<lambda>x. x" x xs] by (simp add: vs)
  assume "v \<in> set vs"
  then have "v \<in> insert x (set xs)" by (simp add: vs)
  from min_from_le [OF this, of "\<lambda>x. x"] max_from_ge [OF this, of "\<lambda>x. x"]
  show "if maximized ob then v \<le> best_value ob vs else best_value ob vs \<le> v" by (simp add: vs)
qed

definition tolerant :: "replay_config \<Rightarrow> bool" where
  "tolerant cfg \<longleftrightarrow> 0 \<le> ry_success_absolute_tolerance cfg \<and> 0 \<le> ry_latency_relative_tolerance cfg \<and>
     0 \<le> ry_cost_relative_tolerance cfg \<and> 0 \<le> ry_throughput_relative_tolerance cfg"

lemma config_tolerant: "replay_config_post_init cfg = Inr cfg' \<Longrightarrow> tolerant cfg"
  by (auto simp: replay_config_post_init_def tolerant_def split: if_splits)

lemma survives_best: "tolerant cfg \<Longrightarrow> survives cfg ob b b"
  by (cases ob) (auto simp: survives_def objective_tolerance_def tolerant_def)

lemma known_values_Inr:
  "known_values ps ob = Inr k \<Longrightarrow> k = map (\<lambda>p. (p, recorded_objective p ob)) ps"
  by (induction ps arbitrary: k)
    (auto simp: known_values_def res_bind_Inr_iff dest: objective_value_Inr)

lemma available_values_map:
  "available_values (map (\<lambda>p. (p, recorded_objective p ob)) ps)
     = map (\<lambda>p. (p, the (recorded_objective p ob))) (filter (\<lambda>p. recorded_objective p ob \<noteq> None) ps)"
  by (induction ps) (auto simp: available_values_def List.map_filter_simps split: option.splits)

text \<open>The candidates with a value, the best value, and the candidates that stay.\<close>

definition measured :: "objective \<Rightarrow> prediction list \<Rightarrow> prediction list" where
  "measured ob ps = filter (\<lambda>p. recorded_objective p ob \<noteq> None) ps"

definition best_of :: "objective \<Rightarrow> prediction list \<Rightarrow> real" where
  "best_of ob ps = best_value ob (map (\<lambda>p. the (recorded_objective p ob)) (measured ob ps))"

definition staying :: "replay_config \<Rightarrow> objective \<Rightarrow> prediction list \<Rightarrow> prediction list" where
  "staying cfg ob ps = filter (\<lambda>p. survives cfg ob (best_of ob ps) (the (recorded_objective p ob))) (measured ob ps)"

lemma replay_objective_Inr:
  assumes "replay_objective cfg ob s = Inr t"
  shows "measured ob (rs_eligible s) \<noteq> []"
    and "rs_eligible t = staying cfg ob (rs_eligible s)"
    and "rs_trace t = rs_trace s @ [\<lparr>ts_objective = ob, ts_best = best_of ob (rs_eligible s),
           ts_survivors = map pd_candidate_id (rs_eligible t)\<rparr>]"
    and "rs_rejections t =
      foldl (add_reason (''objective_gate:'' @ objective_value_str ob))
        (foldl (add_reason (''missing_objective:'' @ objective_value_str ob)) (rs_rejections s)
           (filter (\<lambda>p. recorded_objective p ob = None) (rs_eligible s)))
        (filter (\<lambda>p. pd_candidate_id p \<notin> pd_candidate_id ` set (rs_eligible t)) (measured ob (rs_eligible s)))"
proof -
  obtain k where k: "known_values (rs_eligible s) ob = Inr k"
    using assms by (auto simp: replay_objective_def res_bind_Inr_iff)
  have "available_values k = map (\<lambda>p. (p, the (recorded_objective p ob))) (measured ob (rs_eligible s))"
    by (simp add: known_values_Inr [OF k] available_values_map measured_def)
  moreover have "map fst (filter (\<lambda>(p, v). v = None) k) = filter (\<lambda>p. recorded_objective p ob = None) (rs_eligible s)"
    by (simp add: known_values_Inr [OF k] filter_map o_def)
  ultimately show "measured ob (rs_eligible s) \<noteq> []"
    and "rs_eligible t = staying cfg ob (rs_eligible s)"
    and "rs_trace t = rs_trace s @ [\<lparr>ts_objective = ob, ts_best = best_of ob (rs_eligible s),
           ts_survivors = map pd_candidate_id (rs_eligible t)\<rparr>]"
    and "rs_rejections t =
      foldl (add_reason (''objective_gate:'' @ objective_value_str ob))
        (foldl (add_reason (''missing_objective:'' @ objective_value_str ob)) (rs_rejections s)
           (filter (\<lambda>p. recorded_objective p ob = None) (rs_eligible s)))
        (filter (\<lambda>p. pd_candidate_id p \<notin> pd_candidate_id ` set (rs_eligible t)) (measured ob (rs_eligible s)))"
    using assms
    by (auto simp: replay_objective_def k Let_def objective_survivors_def staying_def best_of_def
        filter_map o_def split: if_splits)
qed

lemma best_of_optimal:
  assumes "measured ob ps \<noteq> []"
  shows "\<exists>p \<in> set (measured ob ps). recorded_objective p ob = Some (best_of ob ps)"
    and "p \<in> set ps \<Longrightarrow> recorded_objective p ob = Some v \<Longrightarrow>
      if maximized ob then v \<le> best_of ob ps else best_of ob ps \<le> v"
proof -
  let ?vs = "map (\<lambda>p. the (recorded_objective p ob)) (measured ob ps)"
  have ne: "?vs \<noteq> []" using assms by simp
  from best_value_optimal(1) [OF ne, of ob] show "\<exists>p \<in> set (measured ob ps). recorded_objective p ob = Some (best_of ob ps)"
    by (auto simp: best_of_def measured_def)
  assume "p \<in> set ps" "recorded_objective p ob = Some v"
  then have "v \<in> set ?vs" by (force simp: measured_def)
  from best_value_optimal(2) [OF ne this, of ob] show "if maximized ob then v \<le> best_of ob ps else best_of ob ps \<le> v"
    by (simp add: best_of_def)
qed

lemma staying_nonempty: "tolerant cfg \<Longrightarrow> measured ob ps \<noteq> [] \<Longrightarrow> staying cfg ob ps \<noteq> []"
  using best_of_optimal(1) [of ob ps] survives_best [of cfg ob]
  by (fastforce simp: staying_def filter_empty_conv)

lemma staying_in: "p \<in> set (staying cfg ob ps) \<longleftrightarrow>
    p \<in> set ps \<and> (\<exists>v. recorded_objective p ob = Some v \<and> survives cfg ob (best_of ob ps) v)"
  by (auto simp: staying_def measured_def)

section \<open>A run over the objectives\<close>

lemma replay_objectives_Cons:
  assumes "replay_objectives cfg (ob # obs) s = Inr t"
  obtains u where "replay_objective cfg ob s = Inr u" "length (rs_eligible u) = 1" "t = u"
  | u where "replay_objective cfg ob s = Inr u" "length (rs_eligible u) \<noteq> 1" "replay_objectives cfg obs u = Inr t"
  using assms by (auto simp: res_bind_Inr_iff split: if_splits)

lemma replay_objectives_subset:
  "replay_objectives cfg obs s = Inr t \<Longrightarrow> set (rs_eligible t) \<subseteq> set (rs_eligible s)"
proof (induction obs arbitrary: s)
  case (Cons ob obs)
  from Cons.prems show ?case
  proof (cases rule: replay_objectives_Cons)
    case (1 u)
    then show ?thesis using replay_objective_Inr(2) [OF 1(1)] by (auto simp: staying_in)
  next
    case (2 u)
    then show ?thesis using replay_objective_Inr(2) [OF 2(1)] Cons.IH [OF 2(3)] by (auto simp: staying_in)
  qed
qed simp

lemma replay_objectives_nonempty:
  "tolerant cfg \<Longrightarrow> replay_objectives cfg obs s = Inr t \<Longrightarrow> rs_eligible s \<noteq> [] \<Longrightarrow> rs_eligible t \<noteq> []"
proof (induction obs arbitrary: s)
  case (Cons ob obs)
  from Cons.prems(2) show ?case
  proof (cases rule: replay_objectives_Cons)
    case (2 u)
    then show ?thesis using replay_objective_Inr(1,2) [OF 2(1)] staying_nonempty [OF Cons.prems(1)] Cons.IH [OF Cons.prems(1) 2(3)]
      by simp
  qed (use replay_objective_Inr(2) in auto)
qed simp

text \<open>Every step of the trace bounds the candidates that are left.\<close>

definition step_sound :: "replay_config \<Rightarrow> prediction list \<Rightarrow> prediction list \<Rightarrow> trace_step \<Rightarrow> bool" where
  "step_sound cfg ps left st \<longleftrightarrow>
     (\<exists>p \<in> set ps. recorded_objective p (ts_objective st) = Some (ts_best st)) \<and>
     (\<forall>p \<in> set left. pd_candidate_id p \<in> set (ts_survivors st) \<and>
        (\<exists>v. recorded_objective p (ts_objective st) = Some v \<and> survives cfg (ts_objective st) (ts_best st) v \<and>
          (if maximized (ts_objective st) then v \<le> ts_best st else ts_best st \<le> v)))"

lemma replay_objective_sound:
  assumes "replay_objective cfg ob s = Inr t" "\<forall>st \<in> set (rs_trace s). step_sound cfg ps (rs_eligible s) st"
    and "set (rs_eligible s) \<subseteq> set ps"
  shows "\<forall>st \<in> set (rs_trace t). step_sound cfg ps (rs_eligible t) st"
proof -
  note r = replay_objective_Inr [OF assms(1)]
  note best = best_of_optimal [OF r(1)]
  have sub: "set (rs_eligible t) \<subseteq> set (rs_eligible s)" by (auto simp: r(2) staying_in)
  let ?st = "\<lparr>ts_objective = ob, ts_best = best_of ob (rs_eligible s), ts_survivors = map pd_candidate_id (rs_eligible t)\<rparr>"
  have "step_sound cfg ps (rs_eligible t) ?st"
    unfolding step_sound_def
  proof (intro conjI ballI)
    show "\<exists>p \<in> set ps. recorded_objective p (ts_objective ?st) = Some (ts_best ?st)"
      using best(1) assms(3) by (auto simp: measured_def)
    fix p assume p: "p \<in> set (rs_eligible t)"
    then show "pd_candidate_id p \<in> set (ts_survivors ?st)" by simp
    obtain v where v: "p \<in> set (rs_eligible s)" "recorded_objective p ob = Some v" "survives cfg ob (best_of ob (rs_eligible s)) v"
      using p by (auto simp: r(2) staying_in)
    with best(2) [OF v(1,2)]
    show "\<exists>v. recorded_objective p (ts_objective ?st) = Some v \<and> survives cfg (ts_objective ?st) (ts_best ?st) v \<and>
        (if maximized (ts_objective ?st) then v \<le> ts_best ?st else ts_best ?st \<le> v)"
      by (intro exI [of _ v]) simp
  qed
  moreover have "step_sound cfg ps (rs_eligible t) st" if "st \<in> set (rs_trace s)" for st
    using assms(2) that sub unfolding step_sound_def by blast
  ultimately show ?thesis by (auto simp: r(3))
qed

lemma replay_objectives_sound:
  assumes "replay_objectives cfg obs s = Inr t" "\<forall>st \<in> set (rs_trace s). step_sound cfg ps (rs_eligible s) st"
    and "set (rs_eligible s) \<subseteq> set ps"
  shows "\<forall>st \<in> set (rs_trace t). step_sound cfg ps (rs_eligible t) st"
  using assms
proof (induction obs arbitrary: s)
  case (Cons ob obs)
  from Cons.prems(1) show ?case
  proof (cases rule: replay_objectives_Cons)
    case (1 u)
    then show ?thesis using replay_objective_sound [OF 1(1) Cons.prems(2,3)] by simp
  next
    case (2 u)
    have "set (rs_eligible u) \<subseteq> set ps"
      using Cons.prems(3) replay_objective_Inr(2) [OF 2(1)] by (auto simp: staying_in)
    then show ?thesis using Cons.IH [OF 2(3) replay_objective_sound [OF 2(1) Cons.prems(2,3)]] by simp
  qed
qed simp

section \<open>Without tolerance the selection is lexicographically optimal\<close>

definition exact_config :: "replay_config \<Rightarrow> bool" where
  "exact_config cfg \<longleftrightarrow> ry_success_absolute_tolerance cfg = 0 \<and> ry_latency_relative_tolerance cfg = 0 \<and>
     ry_cost_relative_tolerance cfg = 0 \<and> ry_throughput_relative_tolerance cfg = 0"

text \<open>The rank of a prediction under an objective: smaller is better.\<close>

definition objective_rank :: "prediction \<Rightarrow> objective \<Rightarrow> real" where
  "objective_rank p ob = (if maximized ob then - the (recorded_objective p ob) else the (recorded_objective p ob))"

lemma exact_staying:
  assumes "exact_config cfg" "measured ob ps \<noteq> []" "\<forall>p \<in> set ps. recorded_objective p ob \<noteq> None"
    and "x \<in> set (staying cfg ob ps)" "y \<in> set ps"
  shows "objective_rank x ob \<le> objective_rank y ob"
    and "objective_rank x ob = objective_rank y ob \<Longrightarrow> y \<in> set (staying cfg ob ps)"
proof -
  have tol: "objective_tolerance cfg ob b = 0" for b
    using assms(1) by (cases ob) (simp_all add: objective_tolerance_def exact_config_def)
  obtain v w where vw: "recorded_objective x ob = Some v" "recorded_objective y ob = Some w"
    using assms(3-5) by (auto simp: staying_in)
  have x: "x \<in> set ps" "survives cfg ob (best_of ob ps) v" using assms(4) vw by (auto simp: staying_in)
  note bx = best_of_optimal(2) [OF assms(2) x(1) vw(1)] and by_ = best_of_optimal(2) [OF assms(2,5) vw(2)]
  show "objective_rank x ob \<le> objective_rank y ob"
    using x(2) by_ by (auto simp: objective_rank_def vw survives_def tol split: if_splits)
  assume "objective_rank x ob = objective_rank y ob"
  then show "y \<in> set (staying cfg ob ps)"
    using assms(5) x(2) bx by (auto simp: staying_in vw objective_rank_def survives_def tol split: if_splits)
qed

lemma replay_objectives_optimal:
  assumes "replay_objectives cfg obs s = Inr t" "exact_config cfg"
    and "\<forall>p \<in> set (rs_eligible s). \<forall>ob \<in> set obs. recorded_objective p ob \<noteq> None"
    and "x \<in> set (rs_eligible t)" "y \<in> set (rs_eligible s)"
  shows "map (objective_rank x) obs \<le> map (objective_rank y) obs"
  using assms(1,3,4,5)
proof (induction obs arbitrary: s)
  case (Cons ob obs)
  have known_ob: "\<forall>p \<in> set (rs_eligible s). recorded_objective p ob \<noteq> None" using Cons.prems(2) by simp
  from Cons.prems(1) show ?case
  proof (cases rule: replay_objectives_Cons)
    case (1 u)
    note r = replay_objective_Inr(1,2) [OF 1(1)]
    have xs: "x \<in> set (staying cfg ob (rs_eligible s))" using Cons.prems(3) r(2) 1(3) by simp
    note e = exact_staying [OF assms(2) r(1) known_ob xs Cons.prems(4)]
    obtain z where "staying cfg ob (rs_eligible s) = [z]"
      using 1(2) r(2) by (metis One_nat_def length_0_conv length_Suc_conv)
    then have "objective_rank x ob = objective_rank y ob \<longrightarrow> y = x" using e(2) xs by auto
    then show ?thesis using e(1) by auto
  next
    case (2 u)
    note r = replay_objective_Inr(1,2) [OF 2(1)]
    have sub: "set (rs_eligible u) \<subseteq> set (rs_eligible s)" by (auto simp: r(2) staying_in)
    have xs: "x \<in> set (staying cfg ob (rs_eligible s))"
      using replay_objectives_subset [OF 2(3)] Cons.prems(3) r(2) by auto
    note e = exact_staying [OF assms(2) r(1) known_ob xs Cons.prems(4)]
    have "map (objective_rank x) obs \<le> map (objective_rank y) obs" if "objective_rank x ob = objective_rank y ob"
      by (rule Cons.IH [OF 2(3)]) (use Cons.prems(2,3) sub e(2) that r(2) in auto)
    then show ?thesis using e(1) by auto
  qed
qed simp

section \<open>Rejections\<close>

lemma dict_get_add_reasons:
  "dict_get (foldl (add_reason m) d ps) k =
     (if k \<in> pd_candidate_id ` set ps
      then Some (dict_get_or d k [] @ replicate (length (filter (\<lambda>p. pd_candidate_id p = k) ps)) m) else dict_get d k)"
proof (induction ps arbitrary: d)
  case (Cons p ps)
  show ?case
    by (simp add: Cons.IH) (auto simp: add_reason_def dict_get_or_def filter_empty_conv image_iff)
qed simp

lemma dict_distinct_add_reasons: "dict_distinct d \<Longrightarrow> dict_distinct (foldl (add_reason m) d ps)"
  by (induction ps arbitrary: d) (simp_all add: add_reason_def)

text \<open>A candidate is still in the race exactly when nothing was recorded against it.\<close>

definition rejections_exact :: "prediction list \<Rightarrow> replay_state \<Rightarrow> bool" where
  "rejections_exact ps s \<longleftrightarrow> dict_distinct (rs_rejections s) \<and> set (rs_eligible s) \<subseteq> set ps \<and>
     (\<forall>p \<in> set ps. \<exists>l. dict_get (rs_rejections s) (pd_candidate_id p) = Some l \<and> (l = [] \<longleftrightarrow> p \<in> set (rs_eligible s)))"

lemma replay_objective_rejections:
  assumes "replay_objective cfg ob s = Inr t" "rejections_exact ps s" "distinct (map pd_candidate_id ps)"
  shows "rejections_exact ps t"
proof -
  note r = replay_objective_Inr [OF assms(1)]
  have inj: "p = p'" if "p \<in> set ps" "p' \<in> set ps" "pd_candidate_id p = pd_candidate_id p'" for p p'
    using assms(3) that by (meson distinct_map inj_onD)
  have sub: "set (rs_eligible s) \<subseteq> set ps" "set (rs_eligible t) \<subseteq> set (rs_eligible s)"
    using assms(2) by (auto simp: rejections_exact_def r(2) staying_in)
  let ?missing = "filter (\<lambda>p. recorded_objective p ob = None) (rs_eligible s)"
  let ?dropped = "filter (\<lambda>p. pd_candidate_id p \<notin> pd_candidate_id ` set (rs_eligible t)) (measured ob (rs_eligible s))"
  have image: "pd_candidate_id p \<in> pd_candidate_id ` set qs \<longleftrightarrow> p \<in> set qs" if "p \<in> set ps" "set qs \<subseteq> set ps" for p qs
    using inj [OF that(1)] that(2) by (auto simp: image_iff subset_iff) 
  have part: "set ?missing \<subseteq> set ps" "set ?dropped \<subseteq> set ps" "set (rs_eligible t) \<subseteq> set ps"
    using sub by (auto simp: measured_def)
  have "\<exists>l. dict_get (rs_rejections t) (pd_candidate_id p) = Some l \<and> (l = [] \<longleftrightarrow> p \<in> set (rs_eligible t))"
    if p: "p \<in> set ps" for p
  proof -
    obtain l where l: "dict_get (rs_rejections s) (pd_candidate_id p) = Some l" "l = [] \<longleftrightarrow> p \<in> set (rs_eligible s)"
      using assms(2) p by (auto simp: rejections_exact_def)
    have some: "filter (\<lambda>x. pd_candidate_id x = pd_candidate_id p) qs \<noteq> []" if "p \<in> set qs" for qs
      using that by (auto simp: filter_empty_conv)
    have d: "p \<in> set ?dropped \<longleftrightarrow> p \<in> set (measured ob (rs_eligible s)) \<and> p \<notin> set (rs_eligible t)"
      using image [OF p part(3)] by simp
    consider "p \<in> set (rs_eligible t)" "p \<in> set (rs_eligible s)" "p \<notin> set ?missing" "p \<notin> set ?dropped"
      | "p \<notin> set (rs_eligible t)" "p \<in> set ?missing \<or> p \<in> set ?dropped"
      | "p \<notin> set (rs_eligible t)" "p \<notin> set (rs_eligible s)" "p \<notin> set ?missing" "p \<notin> set ?dropped"
    proof -
      have "p \<in> set (rs_eligible t) \<Longrightarrow> p \<in> set (rs_eligible s) \<and> p \<notin> set ?missing \<and> p \<notin> set ?dropped"
        using d by (auto simp: r(2) staying_in)
      moreover have "p \<in> set (rs_eligible s) \<Longrightarrow> p \<notin> set (rs_eligible t) \<Longrightarrow> p \<in> set ?missing \<or> p \<in> set ?dropped"
        using d by (auto simp: measured_def)
      moreover have "p \<in> set ?missing \<or> p \<in> set ?dropped \<Longrightarrow> p \<in> set (rs_eligible s)"
        by (auto simp: measured_def)
      ultimately show ?thesis using that by blast
    qed
    then show ?thesis
      using l some [of ?missing] some [of ?dropped]
      unfolding r(4) dict_get_add_reasons dict_get_or_def image [OF p part(1)] image [OF p part(2)]
      by cases (auto simp del: set_filter)
  qed
  then show ?thesis
    using assms(2) part(3) by (auto simp: rejections_exact_def r(4) dict_distinct_add_reasons)
qed

lemma replay_objectives_rejections:
  "replay_objectives cfg obs s = Inr t \<Longrightarrow> rejections_exact ps s \<Longrightarrow> distinct (map pd_candidate_id ps) \<Longrightarrow>
     rejections_exact ps t"
proof (induction obs arbitrary: s)
  case (Cons ob obs)
  from Cons.prems(1) show ?case
  proof (cases rule: replay_objectives_Cons)
    case (1 u)
    then show ?thesis using replay_objective_rejections Cons.prems(2,3) by blast
  next
    case (2 u)
    then show ?thesis using replay_objective_rejections Cons.prems(2,3) Cons.IH by blast
  qed
qed simp

lemma replay_objectives_last:
  "replay_objectives cfg obs s = Inr t \<Longrightarrow> obs \<noteq> [] \<Longrightarrow>
     rs_trace t \<noteq> [] \<and> ts_survivors (last (rs_trace t)) = map pd_candidate_id (rs_eligible t)"
proof (induction obs arbitrary: s)
  case (Cons ob obs)
  from Cons.prems(1) show ?case
  proof (cases rule: replay_objectives_Cons)
    case (1 u)
    then show ?thesis using replay_objective_Inr(3) [OF 1(1)] by simp
  next
    case (2 u)
    then show ?thesis using replay_objective_Inr(3) [OF 2(1)] Cons.IH [OF 2(3)] by (cases obs) auto
  qed
qed simp

end
