(* ===== verification/SF_Replay_Properties.thy ===== *)
theory SF_Replay_Properties
  imports SF_Replay_Lemmas SF_Journal_Properties
begin

text \<open>
  The properties of a replay: which candidate it selects and why the others lost, and that a
  recorded decision can be replayed against its own baseline.
\<close>

section \<open>What a replay is made of\<close>

lemma controlled_replay_Inr:
  assumes "controlled_replay r policy cs cf = Inr d"
  obtains reasons s selected rest baseline where
    "pi_objectives policy \<noteq> []" "distinct (map pd_candidate_id (jo_predictions r))"
    "list_all2 (\<lambda>p rs. constraint_reasons (given_constraints cs) p = Inr rs) (jo_predictions r) reasons"
    "replay_objectives (given_config cf) (pi_objectives policy)
       \<lparr>rs_rejections = zip (map pd_candidate_id (jo_predictions r)) reasons,
        rs_eligible = filter (meets_constraints (given_constraints cs)) (jo_predictions r), rs_trace = []\<rparr> = Inr s"
    "rs_eligible s = selected # rest" "baseline_prediction r = Inr baseline"
    "ry_selected_candidate_id d = pd_candidate_id selected" "ry_selected_prediction_id d = pd_prediction_id selected"
    "ry_baseline_candidate_id d = pd_candidate_id baseline"
    "ry_eligible_candidate_ids d = map pd_candidate_id (filter (meets_constraints (given_constraints cs)) (jo_predictions r))"
    "ry_potential_gain d = potential_gain selected baseline"
    "ry_rejections d = filter (\<lambda>(k, v). v \<noteq> []) (rs_rejections s)" "ry_selection_trace d = rs_trace s"
    "ry_changed d \<longleftrightarrow> pd_candidate_id selected \<noteq> pd_candidate_id baseline" "ry_dry_run d"
proof -
  obtain reasons where reasons: "res_map (constraint_reasons (given_constraints cs)) (jo_predictions r) = Inr reasons"
    using assms by (auto simp: controlled_replay_def Let_def res_bind_Inr_iff split: if_splits)
  have all: "list_all2 (\<lambda>p rs. constraint_reasons (given_constraints cs) p = Inr rs) (jo_predictions r) reasons"
    by (rule res_map_Inr_list_all2 [OF reasons])
  have "map fst (filter (\<lambda>(p, rs). rs = []) (zip ps rss)) = filter (meets_constraints c) ps"
    if "list_all2 (\<lambda>p rs. constraint_reasons c p = Inr rs) ps rss" for c ps rss
    using that by (induction ps rss rule: list_all2_induct) (auto simp flip: constraint_reasons_Nil)
  note eligible = this [OF all]
  obtain s where s: "replay_objectives (given_config cf) (pi_objectives policy)
       \<lparr>rs_rejections = zip (map pd_candidate_id (jo_predictions r)) reasons,
        rs_eligible = filter (meets_constraints (given_constraints cs)) (jo_predictions r), rs_trace = []\<rparr> = Inr s"
    using assms by (auto simp: controlled_replay_def Let_def reasons eligible res_bind_Inr_iff split: if_splits)
  obtain selected rest where sel: "rs_eligible s = selected # rest"
    using assms by (cases "rs_eligible s") (auto simp: controlled_replay_def Let_def reasons eligible s split: if_splits)
  obtain baseline where "baseline_prediction r = Inr baseline"
    using assms by (auto simp: controlled_replay_def Let_def reasons eligible s sel res_bind_Inr_iff split: if_splits)
  then show ?thesis
    using assms all s sel
    by (intro that [of reasons s selected rest baseline])
      (auto simp: controlled_replay_def Let_def reasons eligible res_bind_Inr_iff split: if_splits)
qed

section \<open>The selected candidate\<close>

text \<open>C27: A replay proposes, it never acts, and only what the constraints allow: the selected candidate is
  one of the recorded predictions, it meets every hard constraint (confidence, model version,
  fallback, latency, cost and success, none of them unknown), the candidates reported as eligible
  are exactly those that meet them, and the replay reports a change exactly when another candidate
  than the baseline is selected.\<close>
theorem replay_respects_constraints:
  assumes "controlled_replay r policy constraints config = Inr d"
  shows "ry_dry_run d \<and>
     (\<exists>p \<in> set (jo_predictions r). meets_constraints (given_constraints constraints) p \<and>
        ry_selected_candidate_id d = pd_candidate_id p \<and> ry_selected_prediction_id d = pd_prediction_id p) \<and>
     ry_eligible_candidate_ids d
       = map pd_candidate_id (filter (meets_constraints (given_constraints constraints)) (jo_predictions r)) \<and>
     (\<exists>b. baseline_prediction r = Inr b \<and> ry_baseline_candidate_id d = pd_candidate_id b) \<and>
     (ry_changed d \<longleftrightarrow> ry_selected_candidate_id d \<noteq> ry_baseline_candidate_id d)"
proof -
  obtain reasons s selected rest baseline where r:
    "replay_objectives (given_config config) (pi_objectives policy)
       \<lparr>rs_rejections = zip (map pd_candidate_id (jo_predictions r)) reasons,
        rs_eligible = filter (meets_constraints (given_constraints constraints)) (jo_predictions r), rs_trace = []\<rparr> = Inr s"
    "rs_eligible s = selected # rest" "baseline_prediction r = Inr baseline"
    "ry_selected_candidate_id d = pd_candidate_id selected" "ry_selected_prediction_id d = pd_prediction_id selected"
    "ry_baseline_candidate_id d = pd_candidate_id baseline"
    "ry_eligible_candidate_ids d = map pd_candidate_id (filter (meets_constraints (given_constraints constraints)) (jo_predictions r))"
    "ry_changed d \<longleftrightarrow> pd_candidate_id selected \<noteq> pd_candidate_id baseline" "ry_dry_run d"
    by (rule controlled_replay_Inr [OF assms]) blast
  have "selected \<in> set (filter (meets_constraints (given_constraints constraints)) (jo_predictions r))"
    using replay_objectives_subset [OF r(1)] by (simp add: r(2))
  then show ?thesis using r(3-9) by auto
qed

text \<open>C26: Without tolerances the replay is lexicographically optimal: if every candidate that meets the
  constraints has a recorded value for every objective of the policy, then no such candidate is
  better than the selected one under the objectives in their order, success and throughput being
  maximised, latency and cost minimised.\<close>
theorem replay_lexicographic_optimum:
  assumes "controlled_replay r policy constraints config = Inr d" "exact_config (given_config config)"
    and "\<forall>p \<in> set (jo_predictions r). meets_constraints (given_constraints constraints) p \<longrightarrow>
       (\<forall>ob \<in> set (pi_objectives policy). recorded_objective p ob \<noteq> None)"
    and "y \<in> set (jo_predictions r)" "meets_constraints (given_constraints constraints) y"
  shows "\<exists>x \<in> set (jo_predictions r). pd_candidate_id x = ry_selected_candidate_id d \<and>
     map (objective_rank x) (pi_objectives policy) \<le> map (objective_rank y) (pi_objectives policy)"
proof -
  obtain reasons s selected rest where r:
    "replay_objectives (given_config config) (pi_objectives policy)
       \<lparr>rs_rejections = zip (map pd_candidate_id (jo_predictions r)) reasons,
        rs_eligible = filter (meets_constraints (given_constraints constraints)) (jo_predictions r), rs_trace = []\<rparr> = Inr s"
    "rs_eligible s = selected # rest" "ry_selected_candidate_id d = pd_candidate_id selected"
    by (rule controlled_replay_Inr [OF assms(1)]) blast
  have "map (objective_rank selected) (pi_objectives policy) \<le> map (objective_rank y) (pi_objectives policy)"
    by (rule replay_objectives_optimal [OF r(1) assms(2)]) (use assms(3-5) r(2) in auto)
  moreover have "selected \<in> set (jo_predictions r)"
    using replay_objectives_subset [OF r(1)] by (auto simp: r(2))
  ultimately show ?thesis using r(3) by auto
qed

text \<open>C34: With tolerances the trace bounds what the selection gives up: for every objective the replay
  looked at, the best value it names is that of a candidate that meets the constraints, the selected
  candidate has a recorded value within the tolerance of it, and the selected candidate is among the
  survivors the step names.\<close>
theorem replay_trace_bounds_selection:
  assumes "controlled_replay r policy constraints config = Inr d" "step \<in> set (ry_selection_trace d)"
  shows "\<exists>x v b. x \<in> set (jo_predictions r) \<and> pd_candidate_id x = ry_selected_candidate_id d \<and>
     recorded_objective x (ts_objective step) = Some v \<and>
     survives (given_config config) (ts_objective step) (ts_best step) v \<and>
     b \<in> set (jo_predictions r) \<and> meets_constraints (given_constraints constraints) b \<and>
     recorded_objective b (ts_objective step) = Some (ts_best step) \<and>
     (if maximized (ts_objective step) then v \<le> ts_best step else ts_best step \<le> v) \<and>
     ry_selected_candidate_id d \<in> set (ts_survivors step)"
proof -
  obtain reasons s selected rest where r:
    "replay_objectives (given_config config) (pi_objectives policy)
       \<lparr>rs_rejections = zip (map pd_candidate_id (jo_predictions r)) reasons,
        rs_eligible = filter (meets_constraints (given_constraints constraints)) (jo_predictions r), rs_trace = []\<rparr> = Inr s"
    "rs_eligible s = selected # rest" "ry_selected_candidate_id d = pd_candidate_id selected" "ry_selection_trace d = rs_trace s"
    by (rule controlled_replay_Inr [OF assms(1)]) blast
  let ?ps = "filter (meets_constraints (given_constraints constraints)) (jo_predictions r)"
  have "step_sound (given_config config) ?ps (rs_eligible s) step"
    using replay_objectives_sound [OF r(1), of ?ps] assms(2) r(4) by auto
  moreover have "selected \<in> set (rs_eligible s)" by (simp add: r(2))
  ultimately obtain v b where "recorded_objective selected (ts_objective step) = Some v"
    "survives (given_config config) (ts_objective step) (ts_best step) v" "b \<in> set ?ps"
    "recorded_objective b (ts_objective step) = Some (ts_best step)"
    "if maximized (ts_objective step) then v \<le> ts_best step else ts_best step \<le> v"
    "pd_candidate_id selected \<in> set (ts_survivors step)"
    unfolding step_sound_def by blast
  moreover have "selected \<in> set (jo_predictions r)"
    using replay_objectives_subset [OF r(1)] by (auto simp: r(2))
  ultimately show ?thesis using r(3) by (intro exI [of _ selected] exI [of _ v] exI [of _ b]) auto
qed

section \<open>Rejections\<close>

lemma dict_get_filter_nonempty:
  "dict_distinct d \<Longrightarrow> dict_get (filter (\<lambda>(k, v). v \<noteq> []) d) k
     = (case dict_get d k of None \<Rightarrow> None | Some l \<Rightarrow> if l = [] then None else Some l)"
proof (induction d)
  case (Cons kv d)
  obtain a b where kv: "kv = (a, b)" by (cases kv)
  have "dict_get d a = None" using Cons.prems by (simp add: kv dict_distinct_def dict_get_None_iff)
  moreover have "dict_get (filter (\<lambda>(k, v). v \<noteq> []) d) k
      = (case dict_get d k of None \<Rightarrow> None | Some l \<Rightarrow> if l = [] then None else Some l)"
    using Cons.IH Cons.prems by (simp add: dict_distinct_def)
  ultimately show ?case by (cases "a = k") (auto simp: kv)
qed simp

lemma dict_get_zip_keys:
  assumes "distinct (map f xs)" "length ys = length xs" "n < length xs"
  shows "dict_get (zip (map f xs) ys) (f (xs ! n)) = Some (ys ! n)"
proof -
  have "(f (xs ! n), ys ! n) \<in> set (zip (map f xs) ys)" using assms(2,3) by (force simp: set_zip)
  moreover have "dict_distinct (zip (map f xs) ys)" using assms(1,2) by (simp add: dict_distinct_def)
  ultimately show ?thesis by (simp add: dict_get_eq_Some_iff)
qed

text \<open>The replay accounts for every candidate: the record holds rejection reasons for a candidate
  exactly when it is not among the survivors of the last objective, so no candidate is dropped
  without a reason, and the selected one has none.\<close>
theorem replay_accounts_for_candidates:
  assumes "controlled_replay r policy constraints config = Inr d" "p \<in> set (jo_predictions r)"
  shows "ry_selection_trace d \<noteq> [] \<and>
     (dict_has (ry_rejections d) (pd_candidate_id p) \<longleftrightarrow>
        pd_candidate_id p \<notin> set (ts_survivors (last (ry_selection_trace d)))) \<and>
     \<not> dict_has (ry_rejections d) (ry_selected_candidate_id d)"
proof -
  let ?ps = "jo_predictions r" and ?c = "given_constraints constraints"
  obtain reasons s selected rest where r:
    "pi_objectives policy \<noteq> []" "distinct (map pd_candidate_id ?ps)"
    "list_all2 (\<lambda>p rs. constraint_reasons ?c p = Inr rs) ?ps reasons"
    "replay_objectives (given_config config) (pi_objectives policy)
       \<lparr>rs_rejections = zip (map pd_candidate_id ?ps) reasons,
        rs_eligible = filter (meets_constraints ?c) ?ps, rs_trace = []\<rparr> = Inr s"
    "rs_eligible s = selected # rest" "ry_selected_candidate_id d = pd_candidate_id selected"
    "ry_rejections d = filter (\<lambda>(k, v). v \<noteq> []) (rs_rejections s)" "ry_selection_trace d = rs_trace s"
    by (rule controlled_replay_Inr [OF assms(1)]) blast
  have len: "length reasons = length ?ps" using r(3) by (simp add: list_all2_lengthD)
  have "rejections_exact ?ps \<lparr>rs_rejections = zip (map pd_candidate_id ?ps) reasons,
      rs_eligible = filter (meets_constraints ?c) ?ps, rs_trace = []\<rparr>"
    unfolding rejections_exact_def
  proof (intro conjI ballI)
    fix q assume "q \<in> set ?ps"
    then obtain n where n: "n < length ?ps" "q = ?ps ! n" by (auto simp: in_set_conv_nth)
    have "constraint_reasons ?c q = Inr (reasons ! n)" using r(3) n by (simp add: list_all2_conv_all_nth)
    then have "reasons ! n = [] \<longleftrightarrow> meets_constraints ?c q" by (simp flip: constraint_reasons_Nil)
    then show "\<exists>l. dict_get (rs_rejections \<lparr>rs_rejections = zip (map pd_candidate_id ?ps) reasons,
        rs_eligible = filter (meets_constraints ?c) ?ps, rs_trace = []\<rparr>) (pd_candidate_id q) = Some l \<and>
      (l = []) = (q \<in> set (rs_eligible \<lparr>rs_rejections = zip (map pd_candidate_id ?ps) reasons,
        rs_eligible = filter (meets_constraints ?c) ?ps, rs_trace = []\<rparr>))"
      using dict_get_zip_keys [OF r(2) len n(1)] n by simp
  qed (use r(2) len in \<open>auto simp: dict_distinct_def\<close>)
  then have ex: "rejections_exact ?ps s" by (rule replay_objectives_rejections [OF r(4) _ r(2)])
  have inj: "inj_on pd_candidate_id (set ?ps)" using r(2) by (simp add: distinct_map)
  have has: "dict_has (ry_rejections d) (pd_candidate_id q) \<longleftrightarrow> q \<notin> set (rs_eligible s)" if "q \<in> set ?ps" for q
    using ex that by (auto simp: rejections_exact_def r(7) dict_has_def dict_get_filter_nonempty split: option.splits)
  have sub: "set (rs_eligible s) \<subseteq> set ?ps" using ex by (simp add: rejections_exact_def)
  note last = replay_objectives_last [OF r(4,1)]
  have "pd_candidate_id p \<in> pd_candidate_id ` set (rs_eligible s) \<longleftrightarrow> p \<in> set (rs_eligible s)"
    using inj assms(2) sub by (auto dest: inj_onD)
  then show ?thesis using last has [OF assms(2)] has [of selected] sub by (auto simp: r(5,6,8))
qed

section \<open>Replaying recorded decisions\<close>

lemma baseline_of_selected:
  assumes "list_all2 (\<lambda>q p. pd_candidate_id q = pd_candidate_id p) (jo_predictions r) ps"
    and "selected_prediction (jo_decision r) ps = Inr s"
  obtains b where "baseline_prediction r = Inr b" "pd_candidate_id b = pd_candidate_id s" "b \<in> set (jo_predictions r)"
proof (cases "selected_candidate_id (jo_decision r)")
  case None
  then obtain "ps = [s]" using assms(2) by (auto simp: selected_prediction_def split: list.splits)
  then obtain q where "jo_predictions r = [q]" "pd_candidate_id q = pd_candidate_id s"
    using assms(1) by (auto simp: list_all2_Cons2)
  moreover have "dict_get (ac_parameters (de_selected_action (jo_decision r))) ''candidate_id'' = None \<or>
      (\<exists>v. dict_get (ac_parameters (de_selected_action (jo_decision r))) ''candidate_id'' = Some v \<and> \<not> truthy v)"
    using None by (auto simp: selected_candidate_id_def split: option.splits if_splits)
  ultimately show ?thesis using that by (auto simp: baseline_prediction_def Let_def)
next
  case (Some c)
  have f: "list_all2 (\<lambda>q p. pd_candidate_id q = pd_candidate_id p)
      (filter (\<lambda>q. PStr (pd_candidate_id q) = c) qs) (filter (\<lambda>p. PStr (pd_candidate_id p) = c) ps)"
    if "list_all2 (\<lambda>q p. pd_candidate_id q = pd_candidate_id p) qs ps" for qs ps
    using that by (induction qs ps rule: list_all2_induct) auto
  have "filter (\<lambda>p. PStr (pd_candidate_id p) = c) ps = [s]"
    using assms(2) Some by (auto simp: selected_prediction_def split: list.splits)
  with f [OF assms(1)] obtain b where b: "filter (\<lambda>q. PStr (pd_candidate_id q) = c) (jo_predictions r) = [b]"
    "pd_candidate_id b = pd_candidate_id s"
    by (auto simp: list_all2_Cons2)
  have c: "dict_get (ac_parameters (de_selected_action (jo_decision r))) ''candidate_id'' = Some c" "truthy c"
    using Some by (auto simp: selected_candidate_id_def split: option.splits if_splits)
  have "b \<in> set (filter (\<lambda>q. PStr (pd_candidate_id q) = c) (jo_predictions r))" unfolding b(1) by simp
  then have "b \<in> set (jo_predictions r)" by simp
  then show ?thesis using b c by (intro that [of b]) (simp_all add: baseline_prediction_def)
qed

lemma stored_prediction_itself:
  assumes "distinct (map pd_prediction_id ps)" "p \<in> set ps"
  shows "dict_get (foldl (\<lambda>m p. dict_set m (pd_prediction_id p) p) d ps) (pd_prediction_id p) = Some p"
proof -
  obtain q where q: "q \<in> set ps" "pd_prediction_id q = pd_prediction_id p"
    "dict_get (foldl (\<lambda>m p. dict_set m (pd_prediction_id p) p) d ps) (pd_prediction_id p) = Some q"
    by (rule stored_predictions [OF assms(2)])
  have "q = p" using assms q(1,2) by (auto simp: distinct_map dest: inj_onD)
  with q(3) show ?thesis by simp
qed

text \<open>A recorded decision can be replayed against what was decided: a new decision with distinct
  prediction identifiers keeps its baseline whatever is journaled afterwards, so a later replay of
  its record compares with the candidate the decision selected.\<close>
theorem recorded_baseline_stable:
  assumes "control_step\<^sup>*\<^sup>* empty_control_journal j" "record_decision j d ps = Inr (r, j')"
    and "dict_get (cj_decisions j) (de_decision_id d) = None" "distinct (map pd_prediction_id ps)"
    and "control_step\<^sup>*\<^sup>* j' k" "control_get k (de_decision_id d) = Inr r'"
  shows "\<exists>b s. baseline_prediction r' = Inr b \<and> selected_prediction d ps = Inr s \<and>
     pd_candidate_id b = pd_candidate_id s \<and> map pd_candidate_id (jo_predictions r') = map pd_candidate_id ps"
  using assms(2)
proof (cases rule: record_decision_Inr)
  case (again e)
  then show ?thesis using assms(3) by simp
next
  case (new s)
  have "control_step j j'" by (rule deciding [OF assms(2)])
  with assms(1) have reach: "control_step\<^sup>*\<^sup>* empty_control_journal j'" by (rule rtranclp.rtrancl_into_rtrancl)
  note ok = control.run_inv [OF reach journal_ok_empty]
  note ext = control.run_above [OF assms(5) ok] and okk = control.run_inv [OF assms(5) ok]
  have "dict_get (cj_decisions j') (de_decision_id d) = Some d" by (simp add: new(6) store_decision_def Let_def)
  then have d: "dict_get (cj_decisions k) (de_decision_id d) = Some d" by (rule extends_journalD(1) [OF ext])
  obtain q where q: "control_get k (de_decision_id d) = Inr q" "jo_decision q = d"
    "list_all2 (\<lambda>i p. dict_get (cj_predictions k) i = Some p) (de_prediction_ids d) (jo_predictions q)"
    by (rule control_get_stored [OF okk d])
  have ids: "de_prediction_ids d = map pd_prediction_id ps" by (rule validate_bundle_Inr(2) [OF new(1)])
  have all: "list_all2 (\<lambda>q p. pd_candidate_id q = pd_candidate_id p) (jo_predictions q) ps"
    unfolding list_all2_conv_all_nth
  proof (intro conjI allI impI)
    show "length (jo_predictions q) = length ps" using q(3) by (simp add: ids list_all2_lengthD [symmetric])
    fix n assume "n < length (jo_predictions q)"
    then have n: "n < length ps" using q(3) by (simp add: ids list_all2_lengthD [symmetric])
    have "dict_get (cj_predictions j') (pd_prediction_id (ps ! n)) = Some (ps ! n)"
      using stored_prediction_itself [OF assms(4), of "ps ! n"] n by (simp add: new(6) store_decision_def Let_def)
    then obtain x where "dict_get (cj_predictions k) (pd_prediction_id (ps ! n)) = Some x" "prediction_eq (ps ! n) x"
      using extends_journalD(7) [OF ext] by blast
    moreover have "dict_get (cj_predictions k) (pd_prediction_id (ps ! n)) = Some (jo_predictions q ! n)"
      using q(3) n by (simp add: ids list_all2_conv_all_nth)
    ultimately show "pd_candidate_id (jo_predictions q ! n) = pd_candidate_id (ps ! n)"
      using prediction_eq_ids by (metis option.inject)
  qed
  have "r' = q" using q(1) assms(6) by simp
  moreover have "map pd_candidate_id (jo_predictions q) = map pd_candidate_id ps"
    using all by (auto simp: list_all2_conv_all_nth intro: nth_equalityI)
  moreover obtain b where "baseline_prediction q = Inr b" "pd_candidate_id b = pd_candidate_id s"
    using all new(2) q(2) by (auto elim: baseline_of_selected)
  ultimately show ?thesis using new(2) by auto
qed

section \<open>An example\<close>

text \<open>Two routes of the same success; the decision took the slower one.\<close>

definition exr_prediction :: "string \<Rightarrow> real \<Rightarrow> prediction" where
  "exr_prediction c latency = (Prediction (''p'' @ c) ''s'' c ''v'')
     \<lparr>pd_performance := PerformancePrediction\<lparr>pp_e2e_seconds := Some latency\<rparr>,
      pd_reliability := ReliabilityPrediction\<lparr>rp_success_probability := Some (4 / 5)\<rparr>\<rparr>"

definition exr_record :: joined_record where
  "exr_record = \<lparr>jo_decision = ex_decision, jo_predictions = [exr_prediction ''c'' 3, exr_prediction ''d'' 2],
     jo_outcome = None, jo_feedback = None\<rparr>"

definition exr_policy :: policy_intent where "exr_policy = PolicyIntent ''p'' [SUCCESS, LATENCY]"

definition exr_config :: replay_config where
  "exr_config = \<lparr>ry_success_absolute_tolerance = 0, ry_latency_relative_tolerance = 0,
     ry_cost_relative_tolerance = 0, ry_throughput_relative_tolerance = 0\<rparr>"

lemma exr_prediction_sel:
  "pd_candidate_id (exr_prediction c l) = c" "pd_prediction_id (exr_prediction c l) = ''p'' @ c"
  "recorded_objective (exr_prediction c l) SUCCESS = Some (4 / 5)" "recorded_objective (exr_prediction c l) LATENCY = Some l"
  "meets_constraints default_replay_constraints (exr_prediction c l)"
  "constraint_reasons default_replay_constraints (exr_prediction c l) = Inr []"
  by (simp_all add: constraint_reasons_Nil)
    (simp_all add: exr_prediction_def Prediction_def prediction_post_init_def recorded_objective_def
      PerformancePrediction_def ReliabilityPrediction_def meets_constraints_def within_maximum_def
      default_replay_constraints_def)

lemma exr_runs:
  obtains d where "controlled_replay exr_record exr_policy None (Some exr_config) = Inr d"
    "ry_selected_candidate_id d = ''d''" "length (ry_selection_trace d) = 2"
proof -
  let ?c = "exr_prediction ''c'' 3" and ?d = "exr_prediction ''d'' 2"
  have base: "baseline_prediction exr_record = Inr ?c"
    by (simp add: baseline_prediction_def exr_record_def ex_decision_def ex_action_def exr_prediction_sel)
  have val: "objective_value (exr_prediction c l) SUCCESS = Inr (Some (4 / 5))"
    "0 \<le> l \<Longrightarrow> objective_value (exr_prediction c l) LATENCY = Inr (Some l)" for c l
    by (simp_all add: objective_value_def exr_prediction_sel)
  have obs: "pi_objectives exr_policy = [SUCCESS, LATENCY]" by (simp add: exr_policy_def PolicyIntent_def)
  have "\<exists>t. replay_objective exr_config SUCCESS \<lparr>rs_rejections = [(''c'', []), (''d'', [])], rs_eligible = [?c, ?d], rs_trace = []\<rparr>
      = Inr t \<and> rs_eligible t = [?c, ?d] \<and> length (rs_trace t) = 1"
    by (simp add: replay_objective_def known_values_def val available_values_def List.map_filter_simps Let_def
        objective_survivors_def survives_def maximized_def objective_tolerance_def exr_config_def)
  then obtain t where t: "replay_objective exr_config SUCCESS
      \<lparr>rs_rejections = [(''c'', []), (''d'', [])], rs_eligible = [?c, ?d], rs_trace = []\<rparr> = Inr t"
    "rs_eligible t = [?c, ?d]" "length (rs_trace t) = 1" by blast
  have "\<exists>u. replay_objective exr_config LATENCY t = Inr u \<and> rs_eligible u = [?d] \<and> length (rs_trace u) = 2"
    using t(2,3) by (simp add: replay_objective_def known_values_def val available_values_def List.map_filter_simps Let_def
        objective_survivors_def survives_def maximized_def objective_tolerance_def exr_config_def)
  then obtain u where u: "replay_objective exr_config LATENCY t = Inr u" "rs_eligible u = [?d]" "length (rs_trace u) = 2" by blast
  have ps: "jo_predictions exr_record = [?c, ?d]" by (simp add: exr_record_def)
  have "\<exists>d. controlled_replay exr_record exr_policy None (Some exr_config) = Inr d \<and>
      ry_selected_candidate_id d = ''d'' \<and> length (ry_selection_trace d) = 2"
    by (simp add: controlled_replay_def Let_def given_constraints_def given_config_def obs ps t(1,2) u base
        exr_prediction_sel objective_values_def val)
  with that show ?thesis by blast
qed

theorem replay_respects_constraints_witness:
  "\<exists>d. controlled_replay exr_record exr_policy None (Some exr_config) = Inr d \<and> ry_changed d"
proof -
  obtain d where d: "controlled_replay exr_record exr_policy None (Some exr_config) = Inr d"
    "ry_selected_candidate_id d = ''d''" by (rule exr_runs)
  have "baseline_prediction exr_record = Inr (exr_prediction ''c'' 3)"
    by (simp add: baseline_prediction_def exr_record_def ex_decision_def ex_action_def exr_prediction_sel)
  with replay_respects_constraints [OF d(1)] d show ?thesis by (auto simp: exr_prediction_sel)
qed

lemma exr_members:
  "jo_predictions exr_record = [exr_prediction ''c'' 3, exr_prediction ''d'' 2]" "pi_objectives exr_policy = [SUCCESS, LATENCY]"
  "given_config (Some exr_config) = exr_config" "given_constraints None = default_replay_constraints" "exact_config exr_config"
  by (simp_all add: exr_record_def exr_policy_def PolicyIntent_def given_config_def given_constraints_def
      exact_config_def exr_config_def)

theorem replay_lexicographic_optimum_witness:
  "\<exists>d x. controlled_replay exr_record exr_policy None (Some exr_config) = Inr d \<and> pd_candidate_id x = ''d'' \<and>
     map (objective_rank x) [SUCCESS, LATENCY] \<le> map (objective_rank (exr_prediction ''c'' 3)) [SUCCESS, LATENCY]"
proof -
  obtain d where d: "controlled_replay exr_record exr_policy None (Some exr_config) = Inr d"
    "ry_selected_candidate_id d = ''d''" by (rule exr_runs)
  have "\<exists>x \<in> set (jo_predictions exr_record). pd_candidate_id x = ry_selected_candidate_id d \<and>
     map (objective_rank x) (pi_objectives exr_policy) \<le> map (objective_rank (exr_prediction ''c'' 3)) (pi_objectives exr_policy)"
    by (rule replay_lexicographic_optimum [OF d(1)]) (auto simp: exr_members exr_prediction_sel simp del: not_None_eq)
  with d show ?thesis unfolding exr_members(2) by metis
qed

theorem replay_trace_bounds_selection_witness:
  "\<exists>d x v. controlled_replay exr_record exr_policy None (Some exr_config) = Inr d \<and>
     pd_candidate_id x = ''d'' \<and> recorded_objective x (ts_objective (hd (ry_selection_trace d))) = Some v"
proof -
  obtain d where d: "controlled_replay exr_record exr_policy None (Some exr_config) = Inr d"
    "ry_selected_candidate_id d = ''d''" "length (ry_selection_trace d) = 2" by (rule exr_runs)
  then have "hd (ry_selection_trace d) \<in> set (ry_selection_trace d)" by (cases "ry_selection_trace d") auto
  from replay_trace_bounds_selection [OF d(1) this] d(1,2) show ?thesis by metis
qed

theorem replay_accounts_for_candidates_witness:
  "\<exists>d. controlled_replay exr_record exr_policy None (Some exr_config) = Inr d \<and> \<not> dict_has (ry_rejections d) ''d''"
proof -
  obtain d where d: "controlled_replay exr_record exr_policy None (Some exr_config) = Inr d"
    "ry_selected_candidate_id d = ''d''" by (rule exr_runs)
  have "exr_prediction ''c'' 3 \<in> set (jo_predictions exr_record)" by (simp add: exr_members)
  from replay_accounts_for_candidates [OF d(1) this] d show ?thesis by auto
qed

theorem recorded_baseline_stable_witness:
  "\<exists>r b. control_get ex_journal ''d'' = Inr r \<and> baseline_prediction r = Inr b \<and> pd_candidate_id b = ''c''"
proof -
  obtain r where r: "record_decision empty_control_journal ex_decision [ex_forecast] = Inr (r, ex_journal)"
    using ex_records by blast
  have i: "de_decision_id ex_decision = ''d''" by (simp add: ex_decision_def)
  have g: "control_get ex_journal (de_decision_id ex_decision) = Inr r"
    using r by (cases rule: record_decision_Inr) (auto simp: empty_control_journal_def)
  have s: "selected_prediction ex_decision [ex_forecast] = Inr ex_forecast"
    by (simp add: selected_prediction_def selected_candidate_id_def ex_forecast_ids ex_decision_def ex_action_def)
  have "dict_get (cj_decisions empty_control_journal) (de_decision_id ex_decision) = None"
    by (simp add: empty_control_journal_def)
  from recorded_baseline_stable [OF rtranclp.rtrancl_refl r this _ rtranclp.rtrancl_refl g]
  show ?thesis using g s by (auto simp: i ex_forecast_ids)
qed

end
