(* ===== verification/SF_Entity_Refs.thy ===== *)
theory SF_Entity_Refs
  imports SF_Contracts
begin

text \<open>
  Entity references of the adapters: \<open>stateflow/adapters/base.py\<close> (\<open>entity_ref\<close>, \<open>component_ref\<close>)
  and the reference constructors of \<open>CorrelationResolver\<close> in \<open>stateflow/adapters/identity.py\<close>.
  An identifier is stripped and percent-encoded with an empty safe set
  (\<open>urllib.parse.quote(value, safe='')\<close>), so that it cannot contain the path delimiter. The
  lemmas show that a reference is well formed and determines the graph, the type and the stripped
  identifier.
\<close>

section \<open>Stripping and percent-encoding\<close>

text \<open>The white space \<open>str.strip\<close> removes, within the code points below 256.\<close>

definition py_space :: "char \<Rightarrow> bool" where
  "py_space c \<longleftrightarrow> (let n = (of_char c :: nat) in
     (9 \<le> n \<and> n \<le> 13) \<or> (28 \<le> n \<and> n \<le> 32) \<or> n = 133 \<or> n = 160)"

definition str_strip :: "string \<Rightarrow> string" where
  "str_strip s = rev (dropWhile py_space (rev (dropWhile py_space s)))"

definition quote_safe :: "char \<Rightarrow> bool" where
  "quote_safe c \<longleftrightarrow> (let n = (of_char c :: nat) in
     (48 \<le> n \<and> n \<le> 57) \<or> (65 \<le> n \<and> n \<le> 90) \<or> (97 \<le> n \<and> n \<le> 122) \<or>
     c = CHR ''_'' \<or> c = CHR ''.'' \<or> c = CHR ''-'' \<or> c = CHR ''~'')"

text \<open>The UTF-8 encoding of a code point below 256.\<close>

definition utf8_bytes :: "char \<Rightarrow> nat list" where
  "utf8_bytes c = (let n = of_char c in if n < 128 then [n] else [192 + n div 64, 128 + n mod 64])"

definition hex_digit :: "nat \<Rightarrow> char" where
  "hex_digit n = (if n < 10 then char_of (48 + n) else char_of (55 + n))"

definition percent_byte :: "nat \<Rightarrow> string" where
  "percent_byte b = [CHR ''%'', hex_digit (b div 16), hex_digit (b mod 16)]"

definition quote_char :: "char \<Rightarrow> string" where
  "quote_char c = (if quote_safe c then [c] else concat (map percent_byte (utf8_bytes c)))"

definition url_quote :: "string \<Rightarrow> string" where
  "url_quote s = concat (map quote_char s)"

section \<open>References\<close>

definition entity_ref :: "graph_kind \<Rightarrow> string \<Rightarrow> string \<Rightarrow> string res" where
  "entity_ref graph entity_type identifier =
     (let v = str_strip identifier in
      if v = [] then Inl (ValueError ''entity identifier must not be empty'')
      else Inr (entity_ref_prefix graph entity_type @ url_quote v))"

definition component_ref :: "string \<Rightarrow> string res" where
  "component_ref component_id = entity_ref COMPONENT ''component'' component_id"

definition request_ref :: "string \<Rightarrow> string res" where
  "request_ref request_id = entity_ref COMPONENT ''request'' request_id"

definition runtime_ref :: "string \<Rightarrow> string res" where
  "runtime_ref runtime_id = entity_ref COMPONENT ''component'' runtime_id"

definition kv_ref :: "string \<Rightarrow> string res" where
  "kv_ref kv_id = entity_ref COMPONENT ''stateful_object'' kv_id"

definition cluster_ref :: "string \<Rightarrow> string res" where
  "cluster_ref cluster_id = entity_ref DEPLOYMENT ''cluster'' cluster_id"

definition node_ref :: "string \<Rightarrow> string res" where
  "node_ref node_id = entity_ref DEPLOYMENT ''node'' node_id"

definition instance_ref :: "string \<Rightarrow> string res" where
  "instance_ref instance_id = entity_ref DEPLOYMENT ''instance'' instance_id"

definition resource_ref :: "string \<Rightarrow> string res" where
  "resource_ref resource_id = entity_ref DEPLOYMENT ''resource'' resource_id"

definition link_ref :: "string \<Rightarrow> string res" where
  "link_ref link_id = entity_ref DEPLOYMENT ''link'' link_id"

lemmas ref_defs = component_ref_def request_ref_def runtime_ref_def kv_ref_def cluster_ref_def
  node_ref_def instance_ref_def resource_ref_def link_ref_def

section \<open>Percent-encoding is injective and hides the delimiter\<close>

lemma char_code_less: "(of_char (c :: char) :: nat) < 256"
  using nat_of_char_less_256 by blast

lemma utf8_bytes_range: "b \<in> set (utf8_bytes c) \<Longrightarrow> b < 256"
proof -
  have "(of_char c :: nat) div 64 < 4" by (rule less_mult_imp_div_less) simp
  then show "b \<in> set (utf8_bytes c) \<Longrightarrow> b < 256"
    by (auto simp: utf8_bytes_def Let_def split: if_splits)
qed

lemma hex_digit_code: "n < 16 \<Longrightarrow> (of_char (hex_digit n) :: nat) = (if n < 10 then 48 + n else 55 + n)"
  by (simp add: hex_digit_def of_char_of)

lemma hex_digit_inj: "m < 16 \<Longrightarrow> n < 16 \<Longrightarrow> hex_digit m = hex_digit n \<longleftrightarrow> m = n"
proof
  assume *: "m < 16" "n < 16" "hex_digit m = hex_digit n"
  then have "(of_char (hex_digit m) :: nat) = of_char (hex_digit n)" by (simp only:)
  then show "m = n" unfolding hex_digit_code [OF *(1)] hex_digit_code [OF *(2)]
    by (simp split: if_splits)
qed simp

lemma percent_byte_inj: "a < 256 \<Longrightarrow> b < 256 \<Longrightarrow> percent_byte a = percent_byte b \<longleftrightarrow> a = b"
proof
  assume *: "a < 256" "b < 256" "percent_byte a = percent_byte b"
  then have "a div 16 = b div 16" "a mod 16 = b mod 16"
    by (auto simp: percent_byte_def hex_digit_inj less_mult_imp_div_less)
  then show "a = b" by (metis div_mult_mod_eq)
qed simp

lemma length_percent_byte: "length (percent_byte b) = 3"
  by (simp add: percent_byte_def)

lemma percent_byte_append:
  "a < 256 \<Longrightarrow> b < 256 \<Longrightarrow> percent_byte a @ x = percent_byte b @ y \<longleftrightarrow> a = b \<and> x = y"
  by (subst append_eq_append_conv) (auto simp: percent_byte_inj length_percent_byte)

lemma percent_byte_Cons: "percent_byte b @ x = d # y \<Longrightarrow> d = CHR ''%''"
  by (simp add: percent_byte_def)

lemma quote_safe_not_percent: "quote_safe c \<Longrightarrow> c \<noteq> CHR ''%''"
  by (auto simp: quote_safe_def Let_def)

lemma quote_char_cases:
  obtains (safe) "quote_safe c" "quote_char c = [c]"
  | (one) "\<not> quote_safe c" "of_char c < (128 :: nat)" "quote_char c = percent_byte (of_char c)"
  | (two) "\<not> quote_safe c" "128 \<le> (of_char c :: nat)"
      "quote_char c = percent_byte (192 + of_char c div 64) @ percent_byte (128 + of_char c mod 64)"
  by (cases "quote_safe c"; cases "of_char c < (128 :: nat)")
    (auto simp: quote_char_def utf8_bytes_def Let_def)

lemma quote_char_hidden:
  assumes "x \<in> set (quote_char c)"
  shows "quote_safe x \<or> x = CHR ''%''"
proof -
  have "quote_safe (hex_digit n)" if "n < 16" for n
    using that by (auto simp: quote_safe_def hex_digit_code Let_def)
  then have "x \<in> set (percent_byte b) \<Longrightarrow> b < 256 \<Longrightarrow> quote_safe x \<or> x = CHR ''%''" for b
    by (auto simp: percent_byte_def less_mult_imp_div_less)
  then show ?thesis
    using assms utf8_bytes_range by (auto simp: quote_char_def split: if_splits)
qed

lemma url_quote_no_slash: "CHR ''/'' \<notin> set (url_quote s)"
  using quote_char_hidden by (fastforce simp: url_quote_def quote_safe_def Let_def)

lemma url_quote_Nil_iff [simp]: "url_quote s = [] \<longleftrightarrow> s = []"
proof -
  have "quote_char c \<noteq> []" for c
    by (cases c rule: quote_char_cases) (auto simp: percent_byte_def)
  then show ?thesis by (cases s) (auto simp: url_quote_def)
qed

text \<open>An encoded string is read back character by character: the code is prefix-free.\<close>

lemma two_byte_code:
  "(of_char c :: nat) div 64 = of_char d div 64 \<Longrightarrow> (of_char c :: nat) mod 64 = of_char d mod 64 \<Longrightarrow> c = d"
  by (metis char_of_char div_mult_mod_eq)

lemma quote_char_prefix:
  assumes "quote_char c @ x = quote_char d @ y"
  shows "c = d \<and> x = y"
proof -
  have code: "(of_char c :: nat) = of_char d \<Longrightarrow> c = d" by (metis char_of_char)
  have lead: "192 + (of_char e :: nat) div 64 < 256" "128 + (of_char e :: nat) mod 64 < 256" for e
    using less_mult_imp_div_less [of "of_char e" 64 4] by auto
  have one_two: "of_char e < (128 :: nat) \<Longrightarrow> of_char e \<noteq> (192 + of_char f div 64 :: nat)" for e f :: char
    by simp
  note byte = percent_byte_append [OF char_code_less char_code_less]
    percent_byte_append [OF char_code_less lead(1)] percent_byte_append [OF lead(1) char_code_less]
    percent_byte_append [OF lead(1) lead(1)] percent_byte_append [OF lead(2) lead(2)]
  show ?thesis
  proof (cases c rule: quote_char_cases)
    case c: safe
    then show ?thesis
      using assms quote_safe_not_percent [of c]
      by (cases d rule: quote_char_cases) (auto simp: percent_byte_def)
  next
    case c: one
    then show ?thesis
      using assms code quote_safe_not_percent [of d]
      by (cases d rule: quote_char_cases) (auto simp: byte dest: percent_byte_Cons)
  next
    case c: two
    show ?thesis
    proof (cases d rule: quote_char_cases)
      case safe
      then show ?thesis using assms c quote_safe_not_percent [of d] by (auto dest: percent_byte_Cons)
    next
      case one
      then show ?thesis using assms c by (auto simp: byte)
    next
      case two
      then show ?thesis using assms c by (auto simp: byte intro: two_byte_code)
    qed
  qed
qed

lemma url_quote_inj: "url_quote s = url_quote t \<longleftrightarrow> s = t"
proof
  show "url_quote s = url_quote t \<Longrightarrow> s = t"
  proof (induction s arbitrary: t)
    case Nil
    then show ?case by (metis url_quote_Nil_iff)
  next
    case (Cons c s)
    then obtain d t' where t: "t = d # t'" by (metis list.exhaust url_quote_Nil_iff list.distinct(1))
    with Cons.prems have "quote_char c @ url_quote s = quote_char d @ url_quote t'"
      by (simp add: url_quote_def)
    with Cons.IH t quote_char_prefix show ?case by blast
  qed
qed simp

section \<open>What a reference determines\<close>

lemma str_strip_idem [simp]: "str_strip (str_strip s) = str_strip s"
proof -
  define a where "a = dropWhile py_space s"
  define c where "c = dropWhile py_space (rev a)"
  have strip: "str_strip s = rev c" by (simp add: str_strip_def a_def c_def)
  have "a = rev c @ rev (takeWhile py_space (rev a))"
    unfolding c_def by (metis rev_append rev_rev_ident takeWhile_dropWhile_id)
  then have "c \<noteq> [] \<Longrightarrow> hd (rev c) = hd a" by (metis hd_append2 rev_is_Nil_conv)
  moreover have "a \<noteq> [] \<Longrightarrow> \<not> py_space (hd a)" unfolding a_def using hd_dropWhile by blast
  moreover have "c \<noteq> [] \<Longrightarrow> a \<noteq> []" by (auto simp: c_def)
  ultimately have "dropWhile py_space (rev c) = rev c"
    unfolding dropWhile_eq_self_iff by (metis rev_is_Nil_conv)
  moreover have "dropWhile py_space c = c" unfolding c_def by (rule dropWhile_idem)
  ultimately have "str_strip (rev c) = rev c" by (simp add: str_strip_def)
  then show ?thesis by (simp add: strip)
qed

lemma entity_ref_strip [simp]: "entity_ref g t (str_strip i) = entity_ref g t i"
  by (simp add: entity_ref_def)

lemma entity_ref_Inr_iff:
  "entity_ref g ty i = Inr r \<longleftrightarrow> str_strip i \<noteq> [] \<and> r = entity_ref_prefix g ty @ url_quote (str_strip i)"
  by (auto simp: entity_ref_def Let_def)

lemma entity_ref_total: "str_strip i \<noteq> [] \<Longrightarrow> entity_ref g ty i = Inr (entity_ref_prefix g ty @ url_quote (str_strip i))"
  by (simp add: entity_ref_Inr_iff)

lemma prefix_unique:
  assumes "entity_ref_prefix g t @ x = entity_ref_prefix h u @ y"
    and "CHR ''/'' \<notin> set t" and "CHR ''/'' \<notin> set u"
  shows "g = h \<and> t = u \<and> x = y"
proof -
  have gs: "CHR ''/'' \<notin> set (graph_value k)" for k by (cases k) auto
  have "graph_value g = graph_value h \<and> t @ CHR ''/'' # x = u @ CHR ''/'' # y"
    using assms(1) by (intro append_slash_unique) (auto simp: entity_ref_prefix_def gs)
  moreover from this have "t = u \<and> x = y" using append_slash_unique assms(2,3) by blast
  moreover have "graph_value g = graph_value h \<Longrightarrow> g = h" by (cases g; cases h) auto
  ultimately show ?thesis by blast
qed

lemma entity_ref_inj:
  assumes "entity_ref g t i = Inr r" and "entity_ref h u j = Inr r"
    and "CHR ''/'' \<notin> set t" and "CHR ''/'' \<notin> set u"
  shows "g = h \<and> t = u \<and> str_strip i = str_strip j"
  using assms prefix_unique [of g t "url_quote (str_strip i)" h u "url_quote (str_strip j)"]
  by (auto simp: entity_ref_Inr_iff url_quote_inj)

end
