(* ===== verification/SF_Identity.thy ===== *)
theory SF_Identity
  imports SF_Entity_Refs
begin

text \<open>
  The correlation resolver of \<open>stateflow/adapters/identity.py\<close>: external identities bound to
  canonical entities. The bindings are a dictionary from (namespace, value) to the set of bound
  entities; the code only reads that set sorted, so the model keeps it as a list without
  duplicates. Every method runs under the resolver's lock. A conflicting \<open>bind\<close> raises after the
  identities before the conflicting one have been bound, so the operation returns the result and
  the new state side by side.
\<close>

section \<open>State and operations\<close>

record identity_binding =
  ib_namespace :: string
  ib_value :: string
  ib_entity_ref :: string

type_synonym resolver = "(string \<times> string, string list) dict"

definition new_resolver :: resolver where
  "new_resolver = []"

definition unique_namespaces :: "string list" where
  "unique_namespaces =
     [''request_id'', ''action_id'', ''component_id'', ''instance_id'', ''kv_id'', ''node_id'']"

abbreviation identity_conflict :: exc where
  "identity_conflict \<equiv> OtherException ''IdentityConflict''"

definition bound_to :: "resolver \<Rightarrow> string \<times> string \<Rightarrow> string list" where
  "bound_to r key = dict_get_or r key []"

text \<open>\<open>self._bindings.setdefault(key, set()).add(entity)\<close>.\<close>

definition bind_add :: "resolver \<Rightarrow> string \<times> string \<Rightarrow> string \<Rightarrow> resolver" where
  "bind_add r key entity = dict_set r key (List.insert entity (bound_to r key))"

fun bind_identities ::
  "resolver \<Rightarrow> string \<Rightarrow> (string \<times> string) list \<Rightarrow> identity_binding list res \<times> resolver" where
  "bind_identities r entity [] = (Inr [], r)"
| "bind_identities r entity ((namespace, raw_value) # identities) =
     (let v = str_strip raw_value in
      if v = [] then bind_identities r entity identities
      else
        let existing = bound_to r (namespace, v) in
        if namespace \<in> set unique_namespaces \<and> existing \<noteq> [] \<and> entity \<notin> set existing
        then (Inl identity_conflict, r)
        else
          let (created, r') = bind_identities (bind_add r (namespace, v) entity) entity identities in
          (res_bind created (\<lambda>bs. Inr (\<lparr>ib_namespace = namespace, ib_value = v,
                                          ib_entity_ref = entity\<rparr> # bs)), r'))"

definition resolver_bind ::
  "resolver \<Rightarrow> string \<Rightarrow> (string \<times> string) list \<Rightarrow> identity_binding list res \<times> resolver" where
  "resolver_bind r entity identities =
     (if entity = [] then (Inl (ValueError ''entity ref must not be empty''), r)
      else bind_identities r entity identities)"

definition resolve_all :: "resolver \<Rightarrow> string \<Rightarrow> string \<Rightarrow> string list" where
  "resolve_all r namespace v = sort (bound_to r (namespace, v))"

definition resolver_resolve :: "resolver \<Rightarrow> string \<Rightarrow> string \<Rightarrow> string option" where
  "resolver_resolve r namespace v =
     (case resolve_all r namespace v of [m] \<Rightarrow> Some m | _ \<Rightarrow> None)"

definition resolver_require :: "resolver \<Rightarrow> string \<Rightarrow> string \<Rightarrow> string res" where
  "resolver_require r namespace v =
     (case resolver_resolve r namespace v of
        Some m \<Rightarrow> Inr m
      | None \<Rightarrow>
          let reason = (if resolve_all r namespace v \<noteq> [] then ''ambiguous'' else ''unresolved'') in
          Inl (KeyError (reason @ '' correlation identity: '' @ namespace @ ''='' @ v)))"

definition resolver_bindings :: "resolver \<Rightarrow> identity_binding list" where
  "resolver_bindings r =
     concat (map (\<lambda>((namespace, v), refs).
       map (\<lambda>ref. \<lparr>ib_namespace = namespace, ib_value = v, ib_entity_ref = ref\<rparr>) (sort refs))
       (sort_key fst r))"

text \<open>\<open>correlation\<close>: the known, non-empty entries; every field defaults to the empty string.\<close>

definition correlation_of :: "(string, string) dict \<Rightarrow> correlation_identity" where
  "correlation_of values =
     (let field = (\<lambda>name. dict_get_or values name []) in
      \<lparr>ci_trace_id = field ''trace_id'', ci_span_id = field ''span_id'',
       ci_agent_id = field ''agent_id'', ci_session_id = field ''session_id'',
       ci_request_id = field ''request_id'', ci_action_id = field ''action_id'',
       ci_component_id = field ''component_id'', ci_instance_id = field ''instance_id''\<rparr>)"

section \<open>The contract of a binding store\<close>

text \<open>
  What \<open>bind\<close> relies on: a lookup of the bound entities and an addition that inserts one entity
  under one key and leaves the others alone.
\<close>

locale binding_store =
  fixes refs :: "'r \<Rightarrow> 'k \<Rightarrow> 'e list"
    and add :: "'r \<Rightarrow> 'k \<Rightarrow> 'e \<Rightarrow> 'r"
  assumes refs_add: "set (refs (add r k e) k') = (if k' = k then insert e (set (refs r k)) else set (refs r k'))"
    and distinct_add: "(\<And>k. distinct (refs r k)) \<Longrightarrow> distinct (refs (add r k e) k')"
begin

definition grows :: "'r \<Rightarrow> 'r \<Rightarrow> bool" where
  "grows r r' \<longleftrightarrow> (\<forall>k. set (refs r k) \<subseteq> set (refs r' k))"

lemma grows_refl: "grows r r"
  by (simp add: grows_def)

lemma grows_trans: "grows r s \<Longrightarrow> grows s t \<Longrightarrow> grows r t"
  by (auto simp: grows_def)

lemma grows_add: "grows r (add r k e)"
  by (auto simp: grows_def refs_add)

text \<open>A relation between keys and entities that holds of the new binding is kept.\<close>

lemma add_within:
  "\<forall>k. \<forall>x \<in> set (refs r k). P k x \<Longrightarrow> P k e \<Longrightarrow> \<forall>k'. \<forall>x \<in> set (refs (add r k e) k'). P k' x"
  by (auto simp: refs_add split: if_splits)

end

lemma bound_to_add:
  "bound_to (bind_add r k e) k' = (if k' = k then List.insert e (bound_to r k) else bound_to r k')"
  by (simp add: bound_to_def bind_add_def dict_get_or_def)

lemma bound_to_new [simp]: "bound_to new_resolver k = []"
  by (simp add: bound_to_def new_resolver_def dict_get_or_def)

interpretation bindings: binding_store bound_to bind_add
  by unfold_locales (auto simp: bound_to_add)

section \<open>The invariant of the resolver\<close>

text \<open>
  The bound entities are sets, no bound entity is the empty string, no bound value is blank, and an
  identity of a unique namespace is bound to at most one entity.
\<close>

definition resolver_inv :: "resolver \<Rightarrow> bool" where
  "resolver_inv r \<longleftrightarrow> dict_distinct r \<and>
     (\<forall>k. distinct (bound_to r k)) \<and>
     (\<forall>ns v. ns \<in> set unique_namespaces \<longrightarrow> length (bound_to r (ns, v)) \<le> 1) \<and>
     (\<forall>ns v. bound_to r (ns, v) \<noteq> [] \<longrightarrow> v \<noteq> [])"

lemma resolver_inv_new: "resolver_inv new_resolver"
  by (simp add: resolver_inv_def) (simp add: new_resolver_def)

lemma bind_add_inv:
  assumes "resolver_inv r" "v \<noteq> []"
    and "\<not> (ns \<in> set unique_namespaces \<and> bound_to r (ns, v) \<noteq> [] \<and> e \<notin> set (bound_to r (ns, v)))"
  shows "resolver_inv (bind_add r (ns, v) e)"
proof -
  have "dict_distinct (bind_add r (ns, v) e)"
    using assms(1) by (simp add: resolver_inv_def bind_add_def)
  moreover have "\<forall>k. distinct (bound_to (bind_add r (ns, v) e) k)"
    using assms(1) by (simp add: resolver_inv_def bound_to_add)
  moreover have "length (bound_to (bind_add r (ns, v) e) (ns', v')) \<le> 1" if "ns' \<in> set unique_namespaces" for ns' v'
    using assms that by (auto simp: resolver_inv_def bound_to_add List.insert_def)
  ultimately show ?thesis
    using assms(1,2) by (auto simp: resolver_inv_def bound_to_add split: if_splits)
qed

text \<open>What every admitted addition keeps, a whole \<open>bind\<close> keeps, whether it raises or not.\<close>

definition bind_admitted :: "resolver \<Rightarrow> string \<Rightarrow> string \<Rightarrow> string \<Rightarrow> bool" where
  "bind_admitted r e ns v \<longleftrightarrow> v \<noteq> [] \<and>
     \<not> (ns \<in> set unique_namespaces \<and> bound_to r (ns, v) \<noteq> [] \<and> e \<notin> set (bound_to r (ns, v)))"

lemma bind_identities_keeps:
  assumes "P r"
    and "\<And>r ns raw. (ns, raw) \<in> set ids \<Longrightarrow> P r \<Longrightarrow> bind_admitted r e ns (str_strip raw) \<Longrightarrow>
      P (bind_add r (ns, str_strip raw) e)"
  shows "P (snd (bind_identities r e ids))"
  using assms
proof (induction ids arbitrary: r)
  case (Cons id ids)
  obtain ns raw where id: "id = (ns, raw)" by fastforce
  show ?case
  proof (cases "bind_admitted r e ns (str_strip raw)")
    case True
    then have "P (bind_add r (ns, str_strip raw) e)" using Cons.prems id by simp
    then have "P (snd (bind_identities (bind_add r (ns, str_strip raw) e) e ids))"
      using Cons.prems(2) by (intro Cons.IH) auto
    then show ?thesis using True id by (auto simp: bind_admitted_def Let_def split_beta)
  next
    case False
    have "P (snd (bind_identities r e ids))" using Cons.prems by (intro Cons.IH) auto
    then show ?thesis using False id Cons.prems(1) by (auto simp: bind_admitted_def Let_def)
  qed
qed simp

lemma resolver_bind_keeps:
  assumes "P r"
    and "\<And>r ns raw. (ns, raw) \<in> set ids \<Longrightarrow> P r \<Longrightarrow> bind_admitted r e ns (str_strip raw) \<Longrightarrow>
      P (bind_add r (ns, str_strip raw) e)"
  shows "P (snd (resolver_bind r e ids))"
  using assms bind_identities_keeps [of P r ids e] by (simp add: resolver_bind_def)

lemma resolver_bind_inv: "resolver_inv r \<Longrightarrow> resolver_inv (snd (resolver_bind r e ids))"
  by (rule resolver_bind_keeps) (auto simp: bind_admitted_def intro!: bind_add_inv)

lemma resolver_bind_grows: "bindings.grows r (snd (resolver_bind r e ids))"
  by (rule resolver_bind_keeps)
    (auto intro: bindings.grows_refl bindings.grows_trans bindings.grows_add)

text \<open>\<open>bind\<close> raises exactly on a conflict, and otherwise binds every non-blank identity.\<close>

lemma bind_identities_Inr_bound:
  assumes "fst (bind_identities r e ids) = Inr bs" "(ns, raw) \<in> set ids" "str_strip raw \<noteq> []"
  shows "e \<in> set (bound_to (snd (bind_identities r e ids)) (ns, str_strip raw))"
  using assms
proof (induction ids arbitrary: r bs)
  case (Cons id ids)
  obtain ns' raw' where id: "id = (ns', raw')" by fastforce
  show ?case
  proof (cases "bind_admitted r e ns' (str_strip raw')")
    case True
    let ?r = "bind_add r (ns', str_strip raw') e"
    obtain bs' where ok: "fst (bind_identities ?r e ids) = Inr bs'"
      using Cons.prems(1) True id
      by (auto simp: bind_admitted_def Let_def split_beta res_bind_Inr_iff)
    have step: "snd (bind_identities r e (id # ids)) = snd (bind_identities ?r e ids)"
      using True id by (auto simp: bind_admitted_def Let_def split_beta)
    show ?thesis
    proof (cases "(ns, raw) \<in> set ids")
      case True
      then show ?thesis using Cons.IH [OF ok] Cons.prems(3) step by simp
    next
      case False
      then have "e \<in> set (bound_to ?r (ns, str_strip raw))"
        using Cons.prems(2) id by (simp add: bindings.refs_add)
      moreover have "bindings.grows ?r (snd (bind_identities ?r e ids))"
        by (rule bind_identities_keeps)
          (auto intro: bindings.grows_refl bindings.grows_trans bindings.grows_add)
      ultimately show ?thesis using step by (auto simp: bindings.grows_def)
    qed
  next
    case False
    then have "str_strip raw' = []" "fst (bind_identities r e ids) = Inr bs"
      using Cons.prems(1) id by (auto simp: bind_admitted_def Let_def split: if_splits)
    then show ?thesis using Cons.IH [of r bs] Cons.prems id by auto
  qed
qed simp

text \<open>Binding what is already bound changes nothing.\<close>

lemma bind_identities_again:
  assumes "\<And>ns raw. (ns, raw) \<in> set ids \<Longrightarrow> str_strip raw \<noteq> [] \<Longrightarrow>
      e \<in> set (bound_to r (ns, str_strip raw))"
  shows "\<exists>bs. bind_identities r e ids = (Inr bs, r)"
  using assms
proof (induction ids)
  case (Cons id ids)
  obtain ns raw where id: "id = (ns, raw)" by fastforce
  obtain bs where IH: "bind_identities r e ids = (Inr bs, r)"
    using Cons.IH Cons.prems by auto
  show ?case
  proof (cases "str_strip raw = []")
    case True
    then show ?thesis using IH id by simp
  next
    case False
    then have bound: "e \<in> set (bound_to r (ns, str_strip raw))" using Cons.prems(1) id by auto
    then obtain es where es: "dict_get r (ns, str_strip raw) = Some es"
      by (cases "dict_get r (ns, str_strip raw)") (auto simp: bound_to_def dict_get_or_def)
    then have "bind_add r (ns, str_strip raw) e = r"
      using bound by (simp add: bind_add_def bound_to_def dict_get_or_def dict_set_same)
    then show ?thesis using IH id False bound by (auto simp: Let_def)
  qed
qed simp

end
