(* ===== verification/SF_Adapter_Base.thy ===== *)
theory SF_Adapter_Base
  imports SF_Identity SF_Plane
begin

text \<open>
  The shared part of the adapters, \<open>stateflow/adapters/base.py\<close>. An adapter works on two shared
  objects, the State Plane and the correlation resolver; both may be changed before a later call of
  the same method raises. A method is an action: a function from the two objects to a result (or an
  exception) and the two objects afterwards. Sequencing stops at the first exception and keeps the
  changes made so far, as the Python code does.

  The plane reads the clock when it records a change. The clock is the argument \<open>clock\<close>: the
  reading of \<open>utcnow()\<close> at the write that follows revision \<open>n\<close> is \<open>clock n\<close>.
\<close>

section \<open>Actions\<close>

record adapter_world =
  aw_plane :: plane
  aw_resolver :: resolver

type_synonym 'a adapter_action = "adapter_world \<Rightarrow> 'a res \<times> adapter_world"

definition act_return :: "'a \<Rightarrow> 'a adapter_action" where
  "act_return x w = (Inr x, w)"

definition act_lift :: "'a res \<Rightarrow> 'a adapter_action" where
  "act_lift x w = (x, w)"

definition act_bind :: "'a adapter_action \<Rightarrow> ('a \<Rightarrow> 'b adapter_action) \<Rightarrow> 'b adapter_action" where
  "act_bind m f w = (case m w of (Inl e, w') \<Rightarrow> (Inl e, w') | (Inr x, w') \<Rightarrow> f x w')"

definition act_then :: "'a adapter_action \<Rightarrow> 'b adapter_action \<Rightarrow> 'b adapter_action" where
  "act_then m n = act_bind m (\<lambda>_. n)"

text \<open>A \<open>for\<close> loop that collects one result per element.\<close>

fun act_map :: "('a \<Rightarrow> 'b adapter_action) \<Rightarrow> 'a list \<Rightarrow> 'b list adapter_action" where
  "act_map f [] = act_return []"
| "act_map f (x # xs) = act_bind (f x) (\<lambda>y. act_bind (act_map f xs) (\<lambda>ys. act_return (y # ys)))"

section \<open>Calls of the plane and of the resolver\<close>

text \<open>\<open>GraphEntity(\<dots>)\<close> validates before the plane is called.\<close>

definition do_upsert_entity :: "(int \<Rightarrow> datetime) \<Rightarrow> graph_entity \<Rightarrow> unit adapter_action" where
  "do_upsert_entity clock entity w =
     (case res_bind (graph_entity_post_init entity)
             (upsert_entity (clock (pl_revision (aw_plane w))) (aw_plane w)) of
        Inl e \<Rightarrow> (Inl e, w)
      | Inr (p, _) \<Rightarrow> (Inr (), w\<lparr>aw_plane := p\<rparr>))"

definition do_register_component :: "component_descriptor \<Rightarrow> unit adapter_action" where
  "do_register_component d w =
     (case register_component (aw_plane w) d of
        Inl e \<Rightarrow> (Inl e, w)
      | Inr p \<Rightarrow> (Inr (), w\<lparr>aw_plane := p\<rparr>))"

definition do_publish_state :: "state_update list \<Rightarrow> write_result list adapter_action" where
  "do_publish_state us w =
     (let (p, rs, _) = publish_state (aw_plane w) us in (Inr rs, w\<lparr>aw_plane := p\<rparr>))"

definition do_upsert_relations :: "relation_update list \<Rightarrow> write_result list adapter_action" where
  "do_upsert_relations us w =
     (let (p, rs, _) = upsert_relations (aw_plane w) us in (Inr rs, w\<lparr>aw_plane := p\<rparr>))"

definition do_heartbeat :: "heartbeat \<Rightarrow> unit adapter_action" where
  "do_heartbeat hb w =
     (case plane_heartbeat (aw_plane w) hb of
        Inl e \<Rightarrow> (Inl e, w)
      | Inr p \<Rightarrow> (Inr (), w\<lparr>aw_plane := p\<rparr>))"

definition do_bind :: "string \<Rightarrow> (string \<times> string) list \<Rightarrow> identity_binding list adapter_action" where
  "do_bind entity identities w =
     (let (result, r) = resolver_bind (aw_resolver w) entity identities
      in (result, w\<lparr>aw_resolver := r\<rparr>))"

section \<open>Contract values with their defaults\<close>

definition default_correlation :: correlation_identity where
  "default_correlation = \<lparr>ci_trace_id = [], ci_span_id = [], ci_agent_id = [], ci_session_id = [],
     ci_request_id = [], ci_action_id = [], ci_component_id = [], ci_instance_id = []\<rparr>"

definition new_source_ref :: "string \<Rightarrow> string \<Rightarrow> source_ref" where
  "new_source_ref backend reference =
     \<lparr>sr_backend = backend, sr_reference = reference, sr_trace_id = [], sr_span_id = []\<rparr>"

definition new_descriptor :: "string \<Rightarrow> string \<Rightarrow> component_descriptor" where
  "new_descriptor component_id kind =
     \<lparr>cd_component_id = component_id, cd_kind = kind, cd_implementation = [], cd_version = [],
      cd_schema_versions = [''1.1''], cd_produces_state = [], cd_consumes_state = [],
      cd_produces_metrics = [], cd_consumes_metrics = [], cd_manages_types = [],
      cd_relation_capabilities = [], cd_update_mode = ''event'', cd_endpoint = []\<rparr>"

definition new_entity :: "string \<Rightarrow> graph_kind \<Rightarrow> string \<Rightarrow> graph_entity" where
  "new_entity ref graph entity_type =
     \<lparr>ge_ref = ref, ge_graph = graph, ge_entity_type = entity_type, ge_lifecycle = [],
      ge_owner_component_ref = [], ge_parent_ref = [], ge_labels = [], ge_schema_version = ''1.1''\<rparr>"

definition new_relation_update ::
  "string \<Rightarrow> string \<Rightarrow> string \<Rightarrow> string \<Rightarrow> datetime \<Rightarrow> source_authority \<Rightarrow> relation_update" where
  "new_relation_update source relation_type target producer timestamp authority =
     \<lparr>ru_source_ref = source, ru_relation_type = relation_type, ru_target_ref = target,
      ru_producer = producer, ru_timestamp = timestamp, ru_authority = authority,
      ru_attributes = [], ru_ttl = None, ru_version = 0, ru_expected_version = None,
      ru_idempotency_key = []\<rparr>"

definition new_state_update ::
  "string \<Rightarrow> string \<Rightarrow> pyval \<Rightarrow> string \<Rightarrow> datetime \<Rightarrow> source_authority \<Rightarrow> state_update" where
  "new_state_update entity key v producer timestamp authority =
     \<lparr>su_entity_ref = entity, su_key = key, su_value = v, su_producer = producer,
      su_timestamp = timestamp, su_ttl = None, su_authority = authority, su_version = 0,
      su_semantic = SEM_OBSERVED, su_confidence = 1, su_source_ref = None,
      su_correlation = default_correlation, su_expected_version = None, su_idempotency_key = []\<rparr>"

definition source_attributes :: "source_ref \<Rightarrow> (string, pyval) dict" where
  "source_attributes source =
     (let base = [(''source_backend'', PStr (sr_backend source)),
                  (''source_reference'', PStr (sr_reference source))];
          traced = (if sr_trace_id source \<noteq> []
                    then dict_set base ''trace_id'' (PStr (sr_trace_id source)) else base)
      in if sr_span_id source \<noteq> []
         then dict_set traced ''span_id'' (PStr (sr_span_id source)) else traced)"

section \<open>Reports\<close>

record publish_report =
  pr_state_results :: "write_result list"
  pr_relation_results :: "write_result list"

definition report_results :: "publish_report \<Rightarrow> write_result list" where
  "report_results r = pr_state_results r @ pr_relation_results r"

definition report_accepted :: "publish_report \<Rightarrow> int" where
  "report_accepted r = sum_list (map (\<lambda>x. if wr_accepted x then 1 else 0) (report_results r))"

definition report_rejected :: "publish_report \<Rightarrow> int" where
  "report_rejected r = int (length (report_results r)) - report_accepted r"

section \<open>\<open>StatePlaneAdapter\<close>\<close>

definition adapter_descriptor ::
  "string \<Rightarrow> string \<Rightarrow> string list \<Rightarrow> string list \<Rightarrow> string list \<Rightarrow> string \<Rightarrow> component_descriptor" where
  "adapter_descriptor component_id kind produces manages relations implementation =
     (new_descriptor component_id kind)\<lparr>cd_implementation := implementation, cd_version := ''0.3'',
       cd_schema_versions := [''1.1''], cd_produces_state := produces, cd_manages_types := manages,
       cd_relation_capabilities := relations, cd_update_mode := ''event''\<rparr>"

definition adapter_entity :: "string \<Rightarrow> string \<Rightarrow> graph_entity" where
  "adapter_entity ref kind =
     (new_entity ref COMPONENT ''component'')\<lparr>ge_lifecycle := ''ready'',
       ge_labels := [(''kind'', kind), (''adapter'', ''true'')]\<rparr>"

text \<open>
  The constructor. The dictionary it builds from \<open>list_components\<close> keeps, for an identifier, the
  last descriptor listed.
\<close>

definition adapter_init :: "(int \<Rightarrow> datetime) \<Rightarrow> component_descriptor \<Rightarrow> unit adapter_action" where
  "adapter_init clock descriptor w =
     (let components = foldl (\<lambda>m d. dict_set m (cd_component_id d) d) []
            (list_components (aw_plane w))
      in act_then
           (case dict_get components (cd_component_id descriptor) of
              None \<Rightarrow> do_register_component descriptor
            | Some existing \<Rightarrow>
                if existing \<noteq> descriptor
                then act_lift (Inl (ValueError (''adapter component already registered differently: ''
                       @ cd_component_id descriptor)))
                else act_return ())
           (act_bind (act_lift (component_ref (cd_component_id descriptor))) (\<lambda>ref.
              do_upsert_entity clock (adapter_entity ref (cd_kind descriptor)))) w)"

definition adapter_heartbeat :: "string \<Rightarrow> string \<Rightarrow> datetime \<Rightarrow> timedelta \<Rightarrow> unit adapter_action" where
  "adapter_heartbeat component_id watermark timestamp ttl =
     do_heartbeat \<lparr>hb_subject_ref = component_id, hb_producer = component_id,
       hb_source_watermark = watermark, hb_schema_version = ''1.1'', hb_timestamp = timestamp,
       hb_ttl = ttl\<rparr>"

definition adapter_ttl :: timedelta where
  "adapter_ttl = 10000000"

definition ensure_entity :: "(int \<Rightarrow> datetime) \<Rightarrow> graph_entity \<Rightarrow> unit adapter_action" where
  "ensure_entity clock entity w =
     (if get_entity (aw_plane w) (ge_ref entity) = None then do_upsert_entity clock entity w
      else (case graph_entity_post_init entity of Inl e \<Rightarrow> (Inl e, w) | Inr _ \<Rightarrow> (Inr (), w)))"

text \<open>The common tail of the adapters: publish, relate, heartbeat, report.\<close>

definition finish_publish ::
  "string \<Rightarrow> state_update list \<Rightarrow> relation_update list \<Rightarrow> string \<Rightarrow> datetime \<Rightarrow> publish_report adapter_action" where
  "finish_publish component_id updates relations watermark observed_at =
     act_bind (do_publish_state updates) (\<lambda>state_results.
     act_bind (do_upsert_relations relations) (\<lambda>relation_results.
     act_then (adapter_heartbeat component_id watermark observed_at adapter_ttl)
       (act_return \<lparr>pr_state_results = state_results, pr_relation_results = relation_results\<rparr>)))"

text \<open>An idempotency key: \<open>f"{prefix}:{observation_id}:{suffix}" if observation_id else ""\<close>.\<close>

definition observation_key :: "string \<Rightarrow> string \<Rightarrow> string \<Rightarrow> string" where
  "observation_key prefix observation_id suffix =
     (if observation_id \<noteq> [] then prefix @ '':'' @ observation_id @ '':'' @ suffix else [])"

text \<open>The updates of a table of optional values: the entries that are not \<open>None\<close>, in order.\<close>

definition present_values :: "(string, pyval option) dict \<Rightarrow> (string \<times> pyval) list" where
  "present_values d = concat (map (\<lambda>(k, v). case v of None \<Rightarrow> [] | Some x \<Rightarrow> [(k, x)]) d)"

end
