(* ===== verification/SF_Adapter_Lemmas.thy ===== *)
theory SF_Adapter_Lemmas
  imports SF_Adapter_Base SF_Plane_Runs
begin

text \<open>
  How adapters are reasoned about: rules for actions and the calls an adapter makes under them.
\<close>

chapter \<open>Rules for actions\<close>

text \<open>
  Rules for actions. Three views of an action are used by the adapter proofs, each closed under the
  sequencing of actions: what an action may do to the world, whatever it returns (a reflexive and
  transitive relation it obeys); when it returns and what it keeps (a total correctness triple); and
  when running it again changes nothing.
\<close>

named_theorems act_rules
  \<comment> \<open>composition rules of the total correctness triples\<close>

section \<open>Sequencing\<close>

lemma act_bind_Inr_iff:
  "act_bind m f w = (Inr y, w'') \<longleftrightarrow> (\<exists>x w'. m w = (Inr x, w') \<and> f x w' = (Inr y, w''))"
  by (auto simp: act_bind_def split: prod.splits sum.splits)

lemma act_then_Inr_iff:
  "act_then m n w = (Inr y, w'') \<longleftrightarrow> (\<exists>x w'. m w = (Inr x, w') \<and> n w' = (Inr y, w''))"
  by (simp add: act_then_def act_bind_Inr_iff)

lemma act_return_iff [simp]: "act_return x w = (Inr y, w') \<longleftrightarrow> y = x \<and> w' = w"
  by (auto simp: act_return_def)

lemma act_lift_iff [simp]: "act_lift r w = (Inr y, w') \<longleftrightarrow> r = Inr y \<and> w' = w"
  by (auto simp: act_lift_def)

section \<open>Relations an action obeys\<close>

locale action_relation =
  fixes R :: "adapter_world \<Rightarrow> adapter_world \<Rightarrow> bool"
  assumes R_refl: "R w w"
    and R_trans: "R w w' \<Longrightarrow> R w' w'' \<Longrightarrow> R w w''"
begin

definition obeys :: "'a adapter_action \<Rightarrow> bool" where
  "obeys m \<longleftrightarrow> (\<forall>w. R w (snd (m w)))"

lemma obeysD: "obeys m \<Longrightarrow> m w = (x, w') \<Longrightarrow> R w w'"
  by (metis obeys_def snd_conv)

lemma obeys_return: "obeys (act_return x)"
  by (simp add: obeys_def act_return_def R_refl)

lemma obeys_lift: "obeys (act_lift r)"
  by (simp add: obeys_def act_lift_def R_refl)

lemma obeys_bind: "obeys m \<Longrightarrow> (\<And>x. obeys (f x)) \<Longrightarrow> obeys (act_bind m f)"
  by (auto simp: obeys_def act_bind_def split: prod.splits sum.splits) (metis R_trans snd_conv)+

lemma obeys_lift_bind: "(\<And>x. r = Inr x \<Longrightarrow> obeys (f x)) \<Longrightarrow> obeys (act_bind (act_lift r) f)"
  by (cases r) (auto simp: obeys_def act_bind_def act_lift_def R_refl)

lemma obeys_then: "obeys m \<Longrightarrow> obeys n \<Longrightarrow> obeys (act_then m n)"
  by (simp add: act_then_def obeys_bind)

lemma obeys_map: "(\<And>x. x \<in> set xs \<Longrightarrow> obeys (f x)) \<Longrightarrow> obeys (act_map f xs)"
  by (induction xs) (auto intro!: obeys_bind obeys_return)

text \<open>An action chosen by a reading of the world it runs in.\<close>

lemma obeys_read: "(\<And>v. obeys (f v)) \<Longrightarrow> (\<And>w. m w = f w w) \<Longrightarrow> obeys m"
  by (simp add: obeys_def)

lemma obeys_if: "obeys m \<Longrightarrow> obeys n \<Longrightarrow> obeys (if b then m else n)"
  by simp

lemma obeys_option: "obeys m \<Longrightarrow> (\<And>x. obeys (f x)) \<Longrightarrow> obeys (case o' of None \<Rightarrow> m | Some x \<Rightarrow> f x)"
  by (cases o') simp_all

lemma obeys_prod: "(\<And>x y. obeys (f x y)) \<Longrightarrow> obeys (case p of (x, y) \<Rightarrow> f x y)"
  by (cases p) simp

lemmas obeys_rules = obeys_return obeys_lift_bind obeys_lift obeys_then obeys_bind obeys_map
  obeys_if obeys_option obeys_prod

end

section \<open>Total correctness\<close>

text \<open>
  From every world that satisfies \<open>Q\<close> the action returns, the result satisfies \<open>S\<close>, and the world
  satisfies \<open>Q\<close> again.
\<close>

definition act_ok :: "(adapter_world \<Rightarrow> bool) \<Rightarrow> 'a adapter_action \<Rightarrow> ('a \<Rightarrow> bool) \<Rightarrow> bool" where
  "act_ok Q m S \<longleftrightarrow> (\<forall>w. Q w \<longrightarrow> (\<exists>x w'. m w = (Inr x, w') \<and> Q w' \<and> S x))"

lemma act_okD: "act_ok Q m S \<Longrightarrow> Q w \<Longrightarrow> \<exists>x w'. m w = (Inr x, w') \<and> Q w' \<and> S x"
  by (simp add: act_ok_def)

lemma act_ok_return [act_rules]: "S x \<Longrightarrow> act_ok Q (act_return x) S"
  by (simp add: act_ok_def act_return_def)

lemma act_ok_lift [act_rules]: "r = Inr x \<Longrightarrow> S x \<Longrightarrow> act_ok Q (act_lift r) S"
  by (simp add: act_ok_def act_lift_def)

lemma act_ok_bind [act_rules]:
  assumes "act_ok Q m S" and "\<And>x. S x \<Longrightarrow> act_ok Q (f x) T"
  shows "act_ok Q (act_bind m f) T"
  unfolding act_ok_def
proof (intro allI impI)
  fix w assume "Q w"
  with assms(1) obtain x w1 where 1: "m w = (Inr x, w1)" "Q w1" "S x" by (meson act_okD)
  with assms(2) obtain y w2 where "f x w1 = (Inr y, w2)" "Q w2" "T y" by (meson act_okD)
  with 1 show "\<exists>y w2. act_bind m f w = (Inr y, w2) \<and> Q w2 \<and> T y"
    by (auto simp: act_bind_def)
qed

lemma act_ok_lift_bind:
  "r = Inr x \<Longrightarrow> act_ok Q (f x) T \<Longrightarrow> act_ok Q (act_bind (act_lift r) f) T"
  by (simp add: act_ok_def act_bind_def act_lift_def)

lemma act_ok_then [act_rules]:
  "act_ok Q m (\<lambda>_. True) \<Longrightarrow> act_ok Q n T \<Longrightarrow> act_ok Q (act_then m n) T"
  unfolding act_then_def by (rule act_ok_bind)

lemma act_ok_weaken: "act_ok Q m S \<Longrightarrow> (\<And>x. S x \<Longrightarrow> T x) \<Longrightarrow> act_ok Q m T"
  unfolding act_ok_def by blast

lemma act_ok_map [act_rules]:
  "(\<And>x. x \<in> set xs \<Longrightarrow> act_ok Q (f x) S) \<Longrightarrow>
   act_ok Q (act_map f xs) (\<lambda>ys. length ys = length xs \<and> (\<forall>y \<in> set ys. S y))"
proof (induction xs)
  case Nil
  then show ?case by (auto intro!: act_rules)
next
  case (Cons x xs)
  have "act_ok Q (act_map f xs) (\<lambda>ys. length ys = length xs \<and> (\<forall>y \<in> set ys. S y))"
    using Cons by simp
  moreover have "act_ok Q (f x) S" using Cons.prems by simp
  ultimately show ?case
    by (auto intro!: act_ok_bind [of Q "f x" S] act_ok_bind [of Q "act_map f xs"] act_ok_return)
qed

section \<open>Running again\<close>

text \<open>
  An action is settled for an order \<open>R\<close> on worlds when, once it has returned, running it in any
  later world returns the same and changes nothing.
\<close>

context action_relation
begin

definition settled :: "'a adapter_action \<Rightarrow> bool" where
  "settled m \<longleftrightarrow> (\<forall>w x w1 w2. m w = (Inr x, w1) \<longrightarrow> R w1 w2 \<longrightarrow> m w2 = (Inr x, w2))"

lemma settledD: "settled m \<Longrightarrow> m w = (Inr x, w1) \<Longrightarrow> R w1 w2 \<Longrightarrow> m w2 = (Inr x, w2)"
  by (simp add: settled_def)

lemma settled_return: "settled (act_return x)"
  by (auto simp: settled_def act_return_def)

lemma settled_lift: "settled (act_lift r)"
  by (auto simp: settled_def act_lift_def)

lemma settled_bind:
  assumes "settled m" and "\<And>x. settled (f x)" and "\<And>x. obeys (f x)"
  shows "settled (act_bind m f)"
  unfolding settled_def
proof (intro allI impI)
  fix w y w2 w3
  assume "act_bind m f w = (Inr y, w2)" and later: "R w2 w3"
  then obtain x w1 where m: "m w = (Inr x, w1)" and f: "f x w1 = (Inr y, w2)"
    by (auto simp: act_bind_Inr_iff)
  have "R w1 w3" using obeysD [OF assms(3) f] later by (rule R_trans)
  then have "m w3 = (Inr x, w3)" using assms(1) m by (blast intro: settledD)
  moreover have "f x w3 = (Inr y, w3)" using assms(2) f later by (blast intro: settledD)
  ultimately show "act_bind m f w3 = (Inr y, w3)" by (auto simp: act_bind_Inr_iff)
qed

lemma settled_then: "settled m \<Longrightarrow> settled n \<Longrightarrow> obeys n \<Longrightarrow> settled (act_then m n)"
  unfolding act_then_def by (rule settled_bind)

lemma settled_map:
  "(\<And>x. settled (f x)) \<Longrightarrow> (\<And>x. obeys (f x)) \<Longrightarrow> settled (act_map f xs)"
  by (induction xs) (auto intro!: settled_bind settled_return obeys_bind obeys_return obeys_map)

end

chapter \<open>Calls of an adapter\<close>

text \<open>
  The calls an adapter makes, under the rules of \<open>SF_Adapter_Rules\<close>: each is a run of State Plane
  operations and keeps the resolver's invariant; each returns when the identifiers are not blank,
  the resolver is canonical and the adapter is registered; and each but the publishing ones is
  settled once it has returned.
\<close>

section \<open>Every call is a run of plane operations\<close>

definition world_run :: "adapter_world \<Rightarrow> adapter_world \<Rightarrow> bool" where
  "world_run w w' \<longleftrightarrow> plane_step\<^sup>*\<^sup>* (aw_plane w) (aw_plane w') \<and>
     (resolver_inv (aw_resolver w) \<longrightarrow> resolver_inv (aw_resolver w')) \<and>
     bindings.grows (aw_resolver w) (aw_resolver w')"

interpretation runs: action_relation world_run
  by unfold_locales (auto simp: world_run_def bindings.grows_refl intro: bindings.grows_trans)

lemma world_run_plane:
  "plane_step (aw_plane w) p \<Longrightarrow> world_run w (w\<lparr>aw_plane := p\<rparr>)"
  by (simp add: world_run_def bindings.grows_refl)

lemma graph_entity_post_init_Inr: "graph_entity_post_init e = Inr e' \<Longrightarrow> e' = e \<and> wf_entity e"
  by (auto simp: wf_entity_def graph_entity_post_init_def Let_def split: if_splits)

lemma runs_upsert_entity: "runs.obeys (do_upsert_entity clock e)"
  unfolding runs.obeys_def do_upsert_entity_def
  by (auto simp: runs.R_refl res_bind_Inr_iff split: sum.splits
      dest!: graph_entity_post_init_Inr intro!: world_run_plane plane_step.upsert_entity)

lemma runs_register_component: "runs.obeys (do_register_component d)"
  unfolding runs.obeys_def do_register_component_def
  by (auto simp: runs.R_refl split: sum.splits intro!: world_run_plane plane_step.register_component)

lemma runs_publish_state: "runs.obeys (do_publish_state us)"
  unfolding runs.obeys_def do_publish_state_def
  by (auto split: prod.splits intro!: world_run_plane intro: plane_step.publish_state)

lemma runs_upsert_relations: "runs.obeys (do_upsert_relations us)"
  unfolding runs.obeys_def do_upsert_relations_def
  by (auto split: prod.splits intro!: world_run_plane intro: plane_step.upsert_relations)

lemma runs_heartbeat: "runs.obeys (do_heartbeat hb)"
  unfolding runs.obeys_def do_heartbeat_def
  by (auto simp: runs.R_refl split: sum.splits intro!: world_run_plane plane_step.heartbeat)

lemma runs_bind: "runs.obeys (do_bind e ids)"
  unfolding runs.obeys_def do_bind_def world_run_def
  by (auto simp: Let_def split_beta resolver_bind_inv resolver_bind_grows)

lemma runs_ensure_entity: "runs.obeys (ensure_entity clock e)"
  using runs_upsert_entity [of clock e]
  by (auto simp: runs.obeys_def ensure_entity_def runs.R_refl split: sum.splits)

lemma runs_finish: "runs.obeys (finish_publish c us rs wm t)"
  unfolding finish_publish_def adapter_heartbeat_def
  by (intro runs.obeys_rules runs_publish_state runs_upsert_relations runs_heartbeat)

lemmas call_runs = runs_upsert_entity runs_register_component runs_publish_state
  runs_upsert_relations runs_heartbeat runs_bind runs_ensure_entity runs_finish

lemma world_run_keeps:
  assumes "world_run w w'" "plane_inv (aw_plane w)"
  shows "plane_inv (aw_plane w')" "plane_above (aw_plane w) (aw_plane w')"
  using assms by (auto simp: world_run_def intro: plane_runs.run_inv plane_runs.run_above)

section \<open>When a call returns\<close>

text \<open>
  The resolver is canonical when an identity of the kinds below is bound only to the entity its value
  names. All adapters bind this way, so they never conflict over one resolver.
\<close>

definition canonical_binding :: "string \<Rightarrow> string \<Rightarrow> string \<Rightarrow> bool" where
  "canonical_binding ns v e \<longleftrightarrow>
     (ns = ''request_id'' \<longrightarrow> request_ref v = Inr e) \<and>
     (ns = ''component_id'' \<longrightarrow> runtime_ref v = Inr e) \<and>
     (ns = ''instance_id'' \<longrightarrow> instance_ref v = Inr e) \<and>
     (ns = ''kv_id'' \<longrightarrow> kv_ref v = Inr e) \<and>
     (ns = ''node_id'' \<longrightarrow> node_ref v = Inr e)"

definition canonical_resolver :: "resolver \<Rightarrow> bool" where
  "canonical_resolver r \<longleftrightarrow> (\<forall>ns v. \<forall>e \<in> set (bound_to r (ns, v)). canonical_binding ns v e)"

text \<open>Descriptors are stored under their own identifier.\<close>

definition components_keyed :: "plane \<Rightarrow> bool" where
  "components_keyed p \<longleftrightarrow> (\<forall>(k, d) \<in> set (pl_components p). cd_component_id d = k)"

definition adapter_ready :: "string \<Rightarrow> adapter_world \<Rightarrow> bool" where
  "adapter_ready c w \<longleftrightarrow> plane_inv (aw_plane w) \<and> resolver_inv (aw_resolver w) \<and>
     canonical_resolver (aw_resolver w) \<and> components_keyed (aw_plane w) \<and>
     dict_has (pl_components (aw_plane w)) c"

lemma canonical_new: "canonical_resolver new_resolver"
  by (simp add: canonical_resolver_def)

lemma canonical_binding_unique:
  assumes "canonical_binding ns v e" "canonical_binding ns v e'"
    and "ns \<in> set unique_namespaces" "ns \<noteq> ''action_id''"
  shows "e = e'"
  using assms by (auto simp: canonical_binding_def unique_namespaces_def)

lemma canonical_bind_add:
  assumes "canonical_resolver r" "canonical_binding ns v e"
  shows "canonical_resolver (bind_add r (ns, v) e)"
  using assms bindings.add_within [of r "\<lambda>(ns, v) e. canonical_binding ns v e" "(ns, v)" e]
  by (auto simp: canonical_resolver_def)

lemma canonical_bind_returns:
  assumes "canonical_resolver r"
    and "\<And>ns raw. (ns, raw) \<in> set ids \<Longrightarrow> ns \<noteq> ''action_id'' \<and>
      (str_strip raw \<noteq> [] \<longrightarrow> canonical_binding ns (str_strip raw) e)"
  shows "\<exists>bs r'. bind_identities r e ids = (Inr bs, r') \<and> canonical_resolver r'"
  using assms
proof (induction ids arbitrary: r)
  case (Cons id ids)
  obtain ns raw where id: "id = (ns, raw)" by fastforce
  show ?case
  proof (cases "str_strip raw = []")
    case True
    have "\<exists>bs r'. bind_identities r e ids = (Inr bs, r') \<and> canonical_resolver r'"
      using Cons.prems by (intro Cons.IH) auto
    then show ?thesis using id True by simp
  next
    case False
    then have can: "canonical_binding ns (str_strip raw) e" "ns \<noteq> ''action_id''"
      using Cons.prems(2) id by auto
    have "e \<in> set (bound_to r (ns, str_strip raw))"
      if "ns \<in> set unique_namespaces" "bound_to r (ns, str_strip raw) \<noteq> []"
    proof -
      from that(2) obtain e' where e': "e' \<in> set (bound_to r (ns, str_strip raw))"
        by (meson last_in_set)
      then have "canonical_binding ns (str_strip raw) e'"
        using Cons.prems(1) by (simp add: canonical_resolver_def)
      then have "e' = e" using can that(1) by (blast intro: canonical_binding_unique)
      with e' show ?thesis by simp
    qed
    moreover obtain bs r' where "bind_identities (bind_add r (ns, str_strip raw) e) e ids = (Inr bs, r')"
        "canonical_resolver r'"
      using Cons.IH [OF canonical_bind_add [OF Cons.prems(1) can(1)]] Cons.prems(2) by auto
    ultimately show ?thesis using id False by (auto simp: Let_def)
  qed
qed simp

lemma wf_new_entity:
  assumes "entity_ref g t i = Inr (ge_ref e)" "ge_graph e = g" "ge_entity_type e = t"
    and "t \<in> set (allowed_entity_types g)"
  shows "wf_entity e"
  using assms by (auto simp: wf_entity_iff entity_ref_Inr_iff)

text \<open>The types the adapters create entities of.\<close>

lemma adapter_entity_types:
  "''component'' \<in> set (allowed_entity_types COMPONENT)"
  "''request'' \<in> set (allowed_entity_types COMPONENT)"
  "''stateful_object'' \<in> set (allowed_entity_types COMPONENT)"
  "''cluster'' \<in> set (allowed_entity_types DEPLOYMENT)"
  "''node'' \<in> set (allowed_entity_types DEPLOYMENT)"
  "''instance'' \<in> set (allowed_entity_types DEPLOYMENT)"
  "''resource'' \<in> set (allowed_entity_types DEPLOYMENT)"
  "''link'' \<in> set (allowed_entity_types DEPLOYMENT)"
  by (simp_all add: allowed_entity_types_def COMPONENT_ENTITY_TYPES_def DEPLOYMENT_ENTITY_TYPES_def)

lemma plane_write_components:
  "plane_write p q \<Longrightarrow> dict_has (pl_components p) c \<Longrightarrow> dict_has (pl_components q) c"
  "plane_write p q \<Longrightarrow> components_keyed p \<Longrightarrow> components_keyed q"
  by (induction rule: plane_write.induct) (auto simp: store_snapshot_def components_keyed_def dest!: in_dict_set)

lemma plane_writes_components:
  "plane_write\<^sup>*\<^sup>* p q \<Longrightarrow> dict_has (pl_components p) c \<Longrightarrow> dict_has (pl_components q) c"
  "plane_write\<^sup>*\<^sup>* p q \<Longrightarrow> components_keyed p \<Longrightarrow> components_keyed q"
  by (induction rule: rtranclp_induct) (auto dest: plane_write_components)

lemmas plane_step_components =
  plane_writes_components(1) [OF plane_step_writes] plane_writes_components(2) [OF plane_step_writes]

lemma plane_run_components:
  "plane_step\<^sup>*\<^sup>* p q \<Longrightarrow> dict_has (pl_components p) c \<Longrightarrow> dict_has (pl_components q) c"
  by (induction rule: rtranclp_induct) (auto dest: plane_step_components(1))

text \<open>A call on the plane that returns keeps the adapter ready.\<close>

lemma ready_after_plane:
  "adapter_ready c w \<Longrightarrow> plane_step (aw_plane w) p \<Longrightarrow> adapter_ready c (w\<lparr>aw_plane := p\<rparr>)"
  by (auto simp: adapter_ready_def intro: plane_runs.step_inv plane_step_components)

lemma ok_upsert_entity:
  assumes "wf_entity e"
  shows "act_ok (adapter_ready c) (do_upsert_entity clock e) (\<lambda>_. True)"
  unfolding act_ok_def
proof (intro allI impI)
  fix w assume w: "adapter_ready c w"
  let ?now = "clock (pl_revision (aw_plane w))"
  have "ge_graph e0 = ge_graph e" if "dict_get (pl_entities (aw_plane w)) (ge_ref e) = Some e0" for e0
    using w that assms wf_entity_ref_unique [of e0 e]
    by (auto simp: adapter_ready_def plane_inv_def entities_inv_def)
  then obtain p cs where up: "upsert_entity ?now (aw_plane w) e = Inr (p, cs)"
    by (cases "upsert_entity ?now (aw_plane w) e")
      (auto simp: upsert_entity_def Let_def split: option.splits if_splits prod.splits)
  then have "adapter_ready c (w\<lparr>aw_plane := p\<rparr>)"
    using w assms by (blast intro: ready_after_plane plane_step.upsert_entity)
  then show "\<exists>x w'. do_upsert_entity clock e w = (Inr x, w') \<and> adapter_ready c w' \<and> True"
    using assms up by (simp add: do_upsert_entity_def wf_entity_def)
qed

lemma ok_ensure_entity:
  assumes "wf_entity e"
  shows "act_ok (adapter_ready c) (ensure_entity clock e) (\<lambda>_. True)"
  using ok_upsert_entity [OF assms, of c clock] assms
  by (simp add: act_ok_def ensure_entity_def wf_entity_def)

lemma ok_bind:
  assumes "e \<noteq> []"
    and "\<And>ns raw. (ns, raw) \<in> set ids \<Longrightarrow> ns \<noteq> ''action_id'' \<and>
      (str_strip raw \<noteq> [] \<longrightarrow> canonical_binding ns (str_strip raw) e)"
  shows "act_ok (adapter_ready c) (do_bind e ids) (\<lambda>_. True)"
  unfolding act_ok_def
proof (intro allI impI)
  fix w assume w: "adapter_ready c w"
  then obtain bs r' where b: "bind_identities (aw_resolver w) e ids = (Inr bs, r')" "canonical_resolver r'"
    using canonical_bind_returns [of "aw_resolver w" ids e] assms(2) by (auto simp: adapter_ready_def)
  then have "resolver_bind (aw_resolver w) e ids = (Inr bs, r')"
    using assms(1) by (simp add: resolver_bind_def)
  moreover from this have "resolver_inv r'"
    using w resolver_bind_inv [of "aw_resolver w" e ids] by (simp add: adapter_ready_def)
  ultimately show "\<exists>x w'. do_bind e ids w = (Inr x, w') \<and> adapter_ready c w' \<and> True"
    using w b by (simp add: do_bind_def adapter_ready_def)
qed

lemma publish_state_length: "publish_state p us = (p', rs, cs) \<Longrightarrow> length rs = length us"
  by (induction us arbitrary: p p' rs cs) (auto simp: Let_def split: prod.splits)

lemma upsert_relations_length: "upsert_relations p us = (p', rs, cs) \<Longrightarrow> length rs = length us"
  by (induction us arbitrary: p p' rs cs) (auto simp: Let_def split: prod.splits)

lemma ok_publish_state: "act_ok (adapter_ready c) (do_publish_state us) (\<lambda>rs. length rs = length us)"
  unfolding act_ok_def do_publish_state_def
  by (auto split: prod.splits intro: publish_state_length ready_after_plane plane_step.publish_state)

lemma ok_upsert_relations:
  "act_ok (adapter_ready c) (do_upsert_relations us) (\<lambda>rs. length rs = length us)"
  unfolding act_ok_def do_upsert_relations_def
  by (auto split: prod.splits intro: upsert_relations_length ready_after_plane plane_step.upsert_relations)

lemma ok_heartbeat: "act_ok (adapter_ready c) (adapter_heartbeat c watermark t ttl) (\<lambda>_. True)"
  unfolding act_ok_def
proof (intro allI impI)
  fix w assume w: "adapter_ready c w"
  then obtain p where p: "plane_heartbeat (aw_plane w)
      \<lparr>hb_subject_ref = c, hb_producer = c, hb_source_watermark = watermark,
       hb_schema_version = ''1.1'', hb_timestamp = t, hb_ttl = ttl\<rparr> = Inr p"
    by (simp add: plane_heartbeat_def adapter_ready_def)
  then have "adapter_ready c (w\<lparr>aw_plane := p\<rparr>)"
    using w by (blast intro: ready_after_plane plane_step.heartbeat)
  with p show "\<exists>x w'. adapter_heartbeat c watermark t ttl w = (Inr x, w') \<and> adapter_ready c w' \<and> True"
    by (simp add: adapter_heartbeat_def do_heartbeat_def)
qed

lemma ok_finish:
  "act_ok (adapter_ready c) (finish_publish c us rs watermark t)
     (\<lambda>r. length (pr_state_results r) = length us \<and> length (pr_relation_results r) = length rs)"
  unfolding finish_publish_def
  by (rule act_ok_bind [OF ok_publish_state] act_ok_bind [OF ok_upsert_relations]
      act_ok_then [OF ok_heartbeat] act_ok_return)+ simp

section \<open>Calls that are settled once they have returned\<close>

text \<open>
  Later worlds, for the calls that never replace an entity: runs that keep every entity as it is.
\<close>

definition later_world :: "adapter_world \<Rightarrow> adapter_world \<Rightarrow> bool" where
  "later_world w w' \<longleftrightarrow> world_run w w' \<and>
     (\<forall>r e. dict_get (pl_entities (aw_plane w)) r = Some e \<longrightarrow>
        dict_get (pl_entities (aw_plane w')) r = Some e)"

interpretation later: action_relation later_world
  by unfold_locales (auto simp: later_world_def intro: runs.R_refl runs.R_trans)

lemma later_obeysI:
  assumes "runs.obeys m"
    and "\<And>w r e. dict_get (pl_entities (aw_plane w)) r = Some e \<Longrightarrow>
      dict_get (pl_entities (aw_plane (snd (m w)))) r = Some e"
  shows "later.obeys m"
  using assms by (simp add: later.obeys_def runs.obeys_def later_world_def)

lemma publish_state_entities: "publish_state p us = (p', rs, cs) \<Longrightarrow> pl_entities p' = pl_entities p"
proof (induction us arbitrary: p p' rs cs)
  case (Cons u us)
  obtain p1 r c where 1: "publish_one p u = (p1, r, c)" by (metis prod_cases3)
  have "pl_entities (fst (publish_one p u)) = pl_entities p"
    by (cases rule: publish_one_cases [of p u]) auto
  with Cons 1 show ?case by (auto simp: Let_def split: prod.splits)
qed simp

lemma upsert_relations_entities: "upsert_relations p us = (p', rs, cs) \<Longrightarrow> pl_entities p' = pl_entities p"
proof (induction us arbitrary: p p' rs cs)
  case (Cons u us)
  obtain p1 r c where 1: "upsert_relation p u = (p1, r, c)" by (metis prod_cases3)
  have "pl_entities (fst (upsert_relation p u)) = pl_entities p"
    by (cases rule: upsert_relation_cases [of p u]) auto
  with Cons 1 show ?case by (auto simp: Let_def split: prod.splits)
qed simp

lemma later_publish_state: "later.obeys (do_publish_state us)"
  by (rule later_obeysI [OF runs_publish_state])
    (auto simp: do_publish_state_def split: prod.splits dest: publish_state_entities)

lemma later_upsert_relations: "later.obeys (do_upsert_relations us)"
  by (rule later_obeysI [OF runs_upsert_relations])
    (auto simp: do_upsert_relations_def split: prod.splits dest: upsert_relations_entities)

lemma later_heartbeat: "later.obeys (do_heartbeat hb)"
  by (rule later_obeysI [OF runs_heartbeat])
    (auto simp: do_heartbeat_def plane_heartbeat_def split: sum.splits if_splits)

lemma later_bind: "later.obeys (do_bind e ids)"
  by (rule later_obeysI [OF runs_bind]) (simp add: do_bind_def Let_def split_beta)

lemma upsert_entity_entities:
  assumes "upsert_entity now p e = Inr (p', cs)"
  shows "r \<noteq> ge_ref e \<Longrightarrow> dict_get (pl_entities p') r = dict_get (pl_entities p) r"
    and "\<exists>e'. dict_get (pl_entities p') (ge_ref e) = Some e' \<and> ge_graph e' = ge_graph e \<and> entity_eq e' e"
  using assms by (auto simp: upsert_entity_def Let_def case_prod_beta split: option.splits if_splits)

lemma do_upsert_entity_Inr:
  "do_upsert_entity clock e w = (Inr x, w') \<Longrightarrow>
   \<exists>p cs. upsert_entity (clock (pl_revision (aw_plane w))) (aw_plane w) e = Inr (p, cs) \<and>
     w' = w\<lparr>aw_plane := p\<rparr> \<and> graph_entity_post_init e = Inr e"
  by (auto simp: do_upsert_entity_def res_bind_Inr_iff split: sum.splits dest!: graph_entity_post_init_Inr)
    (simp_all add: wf_entity_def)

lemma later_ensure_entity: "later.obeys (ensure_entity clock e)"
proof (rule later_obeysI [OF runs_ensure_entity])
  fix w :: adapter_world and r e'
  assume r: "dict_get (pl_entities (aw_plane w)) r = Some e'"
  show "dict_get (pl_entities (aw_plane (snd (ensure_entity clock e w)))) r = Some e'"
  proof (cases "dict_get (pl_entities (aw_plane w)) (ge_ref e) = None")
    case True
    then have same: "ensure_entity clock e w = do_upsert_entity clock e w"
      by (simp add: ensure_entity_def get_entity_def)
    obtain x w' where up: "do_upsert_entity clock e w = (x, w')" by fastforce
    show ?thesis
    proof (cases x)
      case Inl
      then have "w' = w" using up by (auto simp: do_upsert_entity_def split: sum.splits)
      then show ?thesis using r same up by simp
    next
      case Inr
      then obtain p cs where "upsert_entity (clock (pl_revision (aw_plane w))) (aw_plane w) e = Inr (p, cs)"
          "w' = w\<lparr>aw_plane := p\<rparr>"
        using up by (auto dest: do_upsert_entity_Inr)
      moreover have "r \<noteq> ge_ref e" using r True by auto
      ultimately show ?thesis using r same up by (simp add: upsert_entity_entities(1))
    qed
  next
    case False
    then show ?thesis using r by (auto simp: ensure_entity_def get_entity_def split: sum.splits)
  qed
qed

lemma later_finish: "later.obeys (finish_publish c us rs wm t)"
  unfolding finish_publish_def adapter_heartbeat_def
  by (intro later.obeys_rules later_publish_state later_upsert_relations later_heartbeat)

lemmas call_later = later_publish_state later_upsert_relations later_heartbeat later_bind
  later_ensure_entity later_finish

text \<open>An upsert that finds the entity stored, an \<open>ensure\<close> that finds one, a \<open>bind\<close> of bound identities.\<close>

lemma settled_upsert_entity: "later.settled (do_upsert_entity clock e)"
  unfolding later.settled_def
proof (intro allI impI)
  fix w x w1 w2
  assume "do_upsert_entity clock e w = (Inr x, w1)" and l: "later_world w1 w2"
  then obtain p cs where up: "upsert_entity (clock (pl_revision (aw_plane w))) (aw_plane w) e = Inr (p, cs)"
      and w1: "w1 = w\<lparr>aw_plane := p\<rparr>" and wf: "graph_entity_post_init e = Inr e"
    by (auto dest: do_upsert_entity_Inr)
  from upsert_entity_entities(2) [OF up] obtain e' where
    "dict_get (pl_entities p) (ge_ref e) = Some e'" and e': "ge_graph e' = ge_graph e" "entity_eq e' e" by blast
  then have "dict_get (pl_entities (aw_plane w2)) (ge_ref e) = Some e'"
    using l w1 by (simp add: later_world_def)
  then show "do_upsert_entity clock e w2 = (Inr x, w2)"
    using wf e' by (simp add: do_upsert_entity_def upsert_entity_def Let_def)
qed

lemma settled_ensure_entity: "later.settled (ensure_entity clock e)"
  unfolding later.settled_def
proof (intro allI impI)
  fix w x w1 w2
  assume e: "ensure_entity clock e w = (Inr x, w1)" and l: "later_world w1 w2"
  have "\<exists>e'. dict_get (pl_entities (aw_plane w1)) (ge_ref e) = Some e'" and wf: "graph_entity_post_init e = Inr e"
  proof -
    show "\<exists>e'. dict_get (pl_entities (aw_plane w1)) (ge_ref e) = Some e'"
      using e by (auto simp: ensure_entity_def get_entity_def split: if_splits sum.splits
          dest!: do_upsert_entity_Inr upsert_entity_entities(2))
    show "graph_entity_post_init e = Inr e"
      using e by (auto simp: ensure_entity_def wf_entity_def split: if_splits sum.splits
          dest!: do_upsert_entity_Inr dest: graph_entity_post_init_Inr)
  qed
  then show "ensure_entity clock e w2 = (Inr x, w2)"
    using l wf by (auto simp: ensure_entity_def get_entity_def later_world_def)
qed

lemma bind_identities_result:
  "fst (bind_identities r e ids) = Inr bs \<Longrightarrow>
   bs = concat (map (\<lambda>(ns, raw). if str_strip raw = [] then []
     else [\<lparr>ib_namespace = ns, ib_value = str_strip raw, ib_entity_ref = e\<rparr>]) ids)"
proof (induction ids arbitrary: r bs)
  case (Cons id ids)
  obtain ns raw where "id = (ns, raw)" by fastforce
  with Cons show ?case
    by (auto simp: Let_def split_beta res_bind_Inr_iff split: if_splits)
qed simp

lemma settled_do_bind: "later.settled (do_bind e ids)"
  unfolding later.settled_def
proof (intro allI impI)
  fix w x w1 w2
  assume d: "do_bind e ids w = (Inr x, w1)" and l: "later_world w1 w2"
  then have e: "e \<noteq> []" and b: "fst (bind_identities (aw_resolver w) e ids) = Inr x"
      and r: "aw_resolver w1 = snd (bind_identities (aw_resolver w) e ids)"
    by (auto simp: do_bind_def Let_def split_beta resolver_bind_def split: if_splits)
  have "bindings.grows (aw_resolver w1) (aw_resolver w2)"
    using l by (simp add: later_world_def world_run_def)
  then have "e \<in> set (bound_to (aw_resolver w2) (ns, str_strip raw))"
    if "(ns, raw) \<in> set ids" "str_strip raw \<noteq> []" for ns raw
    using bind_identities_Inr_bound [OF b that] r unfolding bindings.grows_def by (metis subsetD)
  then obtain bs where again: "bind_identities (aw_resolver w2) e ids = (Inr bs, aw_resolver w2)"
    using bind_identities_again by blast
  then have "bs = x"
    using bind_identities_result [OF b] bind_identities_result [of "aw_resolver w2" e ids bs] by simp
  then show "do_bind e ids w2 = (Inr x, w2)"
    using e again by (simp add: do_bind_def resolver_bind_def)
qed

lemmas call_settled = settled_upsert_entity settled_ensure_entity settled_do_bind

end
