(* ===== verification/SF_Serving_Adapters.thy ===== *)
theory SF_Serving_Adapters
  imports SF_Adapter_Base
begin

text \<open>
  The adapters of the serving software: KV objects and inference runtimes.
\<close>

chapter \<open>KV adapter\<close>

text \<open>
  The KV adapter of \<open>stateflow/adapters/kv.py\<close>: it projects the metadata of one KV object into the
  plane: the object itself, where it is located, the requests that use it, and its state.
\<close>

record kv_location =
  kl_identifier :: string
  kl_entity_type :: string
  kl_tier :: string
  kl_primary :: bool

definition kv_location_post_init :: "kv_location \<Rightarrow> kv_location res" where
  "kv_location_post_init l =
     (if kl_entity_type l \<notin> {''resource'', ''node''}
      then Inl (ValueError ''KV location entity_type must be resource or node'')
      else Inr l)"

record kv_observation =
  ko_kv_id :: string
  ko_observed_at :: datetime
  ko_request_ids :: "string list"
  ko_locations :: "kv_location list"
  ko_size_bytes :: "int option"
  ko_replica_count :: "int option"
  ko_cache_hit :: "bool option"
  ko_transfer_state :: "string option"
  ko_soft_pin :: "bool option"
  ko_lifecycle :: string
  ko_trace_id :: string
  ko_watermark :: string
  ko_observation_id :: string
  ko_source_ref :: "source_ref option"

definition kv_adapter_descriptor :: "string \<Rightarrow> component_descriptor" where
  "kv_adapter_descriptor component_id =
     adapter_descriptor component_id ''kv_adapter''
       [''kv.location'', ''kv.size'', ''kv.replica_count'', ''kv.cache_hit'', ''kv.transfer_state'',
        ''kv.soft_pin'']
       [''stateful_object''] [''located_on'', ''uses''] ''kv-manager''"

definition kv_key :: "kv_observation \<Rightarrow> string \<Rightarrow> string" where
  "kv_key obs suffix = observation_key ''kv'' (ko_observation_id obs) suffix"

definition kv_source :: "kv_observation \<Rightarrow> source_ref" where
  "kv_source obs = (case ko_source_ref obs of Some s \<Rightarrow> s | None \<Rightarrow> new_source_ref ''kv'' (ko_kv_id obs))"

definition kv_entity :: "string \<Rightarrow> string \<Rightarrow> kv_observation \<Rightarrow> graph_entity" where
  "kv_entity ref owner obs =
     (new_entity ref COMPONENT ''stateful_object'')\<lparr>ge_lifecycle := ko_lifecycle obs,
       ge_owner_component_ref := owner, ge_labels := [(''kind'', ''kv_cache'')]\<rparr>"

text \<open>One pass of the loop over the locations: its reference and its relation.\<close>

definition kv_location_step ::
  "(int \<Rightarrow> datetime) \<Rightarrow> string \<Rightarrow> kv_observation \<Rightarrow> string \<Rightarrow> kv_location
     \<Rightarrow> (string \<times> relation_update) adapter_action" where
  "kv_location_step clock component_id obs kv location =
     act_bind
       (if kl_entity_type location = ''resource''
        then act_lift (resource_ref (kl_identifier location))
        else act_bind (act_lift (node_ref (kl_identifier location))) (\<lambda>r.
               act_then (do_bind r [(''node_id'', kl_identifier location)]) (act_return r)))
       (\<lambda>location_ref.
          act_then
            (ensure_entity clock ((new_entity location_ref DEPLOYMENT (kl_entity_type location))
               \<lparr>ge_labels := (if kl_tier location \<noteq> [] then [(''tier'', kl_tier location)] else [])\<rparr>))
            (let base = source_attributes (kv_source obs);
                 tiered = (if kl_tier location \<noteq> []
                           then dict_set base ''tier'' (PStr (kl_tier location)) else base);
                 attributes = dict_set tiered ''primary''
                   (PStr (if kl_primary location then ''true'' else ''false''))
             in act_return (location_ref,
                  (new_relation_update kv ''located_on'' location_ref component_id
                     (ko_observed_at obs) AUTHORITATIVE_DOMAIN)
                  \<lparr>ru_attributes := attributes,
                   ru_idempotency_key := kv_key obs (''located_on:'' @ location_ref)\<rparr>)))"

definition kv_request_step ::
  "(int \<Rightarrow> datetime) \<Rightarrow> string \<Rightarrow> kv_observation \<Rightarrow> string \<Rightarrow> string \<Rightarrow> relation_update adapter_action" where
  "kv_request_step clock component_id obs kv request_id =
     act_bind (act_lift (request_ref request_id)) (\<lambda>r.
     act_then (ensure_entity clock ((new_entity r COMPONENT ''request'')\<lparr>ge_lifecycle := ''active''\<rparr>))
    (act_then (do_bind r [(''request_id'', request_id), (''trace_id'', ko_trace_id obs)])
    (act_return
       ((new_relation_update r ''uses'' kv component_id (ko_observed_at obs) AUTHORITATIVE_DOMAIN)
        \<lparr>ru_attributes := source_attributes (kv_source obs),
         ru_idempotency_key := kv_key obs (''request_uses:'' @ request_id)\<rparr>))))"

definition kv_primary_location :: "string list \<Rightarrow> kv_location list \<Rightarrow> string option" where
  "kv_primary_location refs locations =
     (case filter (\<lambda>(_, l). kl_primary l) (zip refs locations) of
        (r, _) # _ \<Rightarrow> Some r
      | [] \<Rightarrow> (case refs of r # _ \<Rightarrow> Some r | [] \<Rightarrow> None))"

definition kv_state_values :: "kv_observation \<Rightarrow> string list \<Rightarrow> (string, pyval option) dict" where
  "kv_state_values obs refs =
     [(''kv.location'', map_option PStr (kv_primary_location refs (ko_locations obs))),
      (''kv.size'', map_option PInt (ko_size_bytes obs)),
      (''kv.replica_count'', map_option PInt
         (case ko_replica_count obs of
            Some n \<Rightarrow> Some n
          | None \<Rightarrow> if refs \<noteq> [] then Some (int (length refs)) else None)),
      (''kv.transfer_state'', map_option PStr (ko_transfer_state obs)),
      (''kv.soft_pin'', map_option PBool (ko_soft_pin obs))]"

definition kv_updates :: "string \<Rightarrow> kv_observation \<Rightarrow> string \<Rightarrow> string list \<Rightarrow> state_update list" where
  "kv_updates component_id obs kv refs =
     (let correlation = default_correlation
            \<lparr>ci_trace_id := ko_trace_id obs,
             ci_request_id := (case ko_request_ids obs of [r] \<Rightarrow> r | _ \<Rightarrow> []),
             ci_component_id := component_id\<rparr>
      in map (\<lambda>(key, v).
           (new_state_update kv key v component_id (ko_observed_at obs) AUTHORITATIVE_DOMAIN)
           \<lparr>su_source_ref := Some (kv_source obs), su_correlation := correlation,
            su_idempotency_key := kv_key obs key\<rparr>)
           (present_values (kv_state_values obs refs)))"

definition kv_hit_updates :: "string \<Rightarrow> kv_observation \<Rightarrow> state_update list res" where
  "kv_hit_updates component_id obs =
     (case ko_cache_hit obs of
        None \<Rightarrow> Inr []
      | Some hit \<Rightarrow> res_map (\<lambda>request_id. res_bind (request_ref request_id) (\<lambda>r. Inr
          ((new_state_update r ''kv.cache_hit'' (PBool hit) component_id (ko_observed_at obs)
              AUTHORITATIVE_DOMAIN)
           \<lparr>su_source_ref := Some (kv_source obs),
            su_correlation := default_correlation\<lparr>ci_trace_id := ko_trace_id obs,
              ci_request_id := request_id, ci_component_id := component_id\<rparr>,
            su_idempotency_key := kv_key obs (''cache_hit:'' @ request_id)\<rparr>)))
          (ko_request_ids obs))"

definition kv_publish ::
  "(int \<Rightarrow> datetime) \<Rightarrow> string \<Rightarrow> kv_observation \<Rightarrow> publish_report adapter_action" where
  "kv_publish clock component_id obs =
     act_bind (act_lift (kv_ref (ko_kv_id obs))) (\<lambda>kv.
     act_bind (act_lift (component_ref component_id)) (\<lambda>owner.
     act_then (do_upsert_entity clock (kv_entity kv owner obs))
    (act_then (do_bind kv [(''kv_id'', ko_kv_id obs), (''trace_id'', ko_trace_id obs)])
    (act_bind (act_map (kv_location_step clock component_id obs kv) (ko_locations obs)) (\<lambda>located.
     act_bind (act_map (kv_request_step clock component_id obs kv) (ko_request_ids obs)) (\<lambda>uses.
     act_bind (act_lift (kv_hit_updates component_id obs)) (\<lambda>hits.
     finish_publish component_id (kv_updates component_id obs kv (map fst located) @ hits)
       (map snd located @ uses) (ko_watermark obs) (ko_observed_at obs))))))))"

chapter \<open>Runtime adapter\<close>

text \<open>
  The runtime adapter of \<open>stateflow/adapters/runtime.py\<close>: it projects one observation of an
  inference runtime: the runtime component, the instance it is deployed on, the node and the request
  if the observation names them, and the runtime's state.
\<close>

record runtime_observation =
  ro_runtime_id :: string
  ro_instance_id :: string
  ro_observed_at :: datetime
  ro_node_id :: string
  ro_request_id :: string
  ro_trace_id :: string
  ro_queue_depth :: "int option"
  ro_running :: "int option"
  ro_ttft_p95_seconds :: "pyval option"
  ro_tpot_p95_seconds :: "pyval option"
  ro_prefill_tokens_per_second :: "pyval option"
  ro_decode_tokens_per_second :: "pyval option"
  ro_kv_usage_ratio :: "pyval option"
  ro_health :: "string option"
  ro_ready :: "bool option"
  ro_implementation :: string
  ro_version :: string
  ro_watermark :: string
  ro_observation_id :: string
  ro_source_ref :: "source_ref option"

definition runtime_adapter_descriptor :: "string \<Rightarrow> component_descriptor" where
  "runtime_adapter_descriptor component_id =
     adapter_descriptor component_id ''runtime_adapter''
       [''runtime.queue_depth'', ''runtime.running'', ''runtime.ttft_p95'', ''runtime.tpot_p95'',
        ''runtime.prefill_tps'', ''runtime.decode_tps'', ''runtime.kv_usage'', ''runtime.health'',
        ''instance.ready'']
       [''component''] [''deployed_on'', ''executing_on''] ''runtime-observability''"

definition runtime_key :: "runtime_observation \<Rightarrow> string \<Rightarrow> string" where
  "runtime_key obs suffix = observation_key ''runtime'' (ro_observation_id obs) suffix"

definition runtime_source :: "runtime_observation \<Rightarrow> source_ref" where
  "runtime_source obs =
     (case ro_source_ref obs of
        Some s \<Rightarrow> s
      | None \<Rightarrow> new_source_ref ''runtime'' (ro_runtime_id obs @ ''/'' @ ro_instance_id obs))"

definition observed_descriptor :: "runtime_observation \<Rightarrow> component_descriptor" where
  "observed_descriptor obs =
     (new_descriptor (ro_runtime_id obs) ''inference_runtime'')
     \<lparr>cd_implementation := ro_implementation obs, cd_version := ro_version obs,
      cd_schema_versions := [''1.1''],
      cd_produces_state := [''runtime.queue_depth'', ''runtime.running'', ''runtime.ttft_p95'',
        ''runtime.tpot_p95'', ''runtime.prefill_tps'', ''runtime.decode_tps'', ''runtime.kv_usage'',
        ''runtime.health''],
      cd_manages_types := [''runtime_object''],
      cd_relation_capabilities := [''deployed_on'', ''executes''],
      cd_update_mode := ''metric_and_event''\<rparr>"

definition register_runtime :: "runtime_observation \<Rightarrow> unit adapter_action" where
  "register_runtime obs w =
     (if \<exists>d \<in> set (list_components (aw_plane w)). cd_component_id d = ro_runtime_id obs
      then (Inr (), w)
      else do_register_component (observed_descriptor obs) w)"

definition runtime_entity :: "string \<Rightarrow> runtime_observation \<Rightarrow> graph_entity" where
  "runtime_entity ref obs =
     (new_entity ref COMPONENT ''component'')
     \<lparr>ge_lifecycle := (if ro_health obs \<in> {None, Some ''healthy''} then ''ready'' else ''degraded''),
      ge_labels := [(''kind'', ''inference_runtime'')]\<rparr>"

definition runtime_instance_entity :: "string \<Rightarrow> string \<Rightarrow> runtime_observation \<Rightarrow> graph_entity" where
  "runtime_instance_entity ref owner obs =
     (new_entity ref DEPLOYMENT ''instance'')
     \<lparr>ge_lifecycle := (if ro_ready obs \<noteq> Some False then ''ready'' else ''unavailable''),
      ge_owner_component_ref := owner, ge_labels := [(''runtime_id'', ro_runtime_id obs)]\<rparr>"

definition runtime_relation ::
  "string \<Rightarrow> runtime_observation \<Rightarrow> source_authority \<Rightarrow> string \<Rightarrow> string \<Rightarrow> string \<Rightarrow> string
     \<Rightarrow> relation_update" where
  "runtime_relation component_id obs authority source relation_type target suffix =
     (new_relation_update source relation_type target component_id (ro_observed_at obs) authority)
     \<lparr>ru_attributes := source_attributes (runtime_source obs),
      ru_idempotency_key := runtime_key obs suffix\<rparr>"

definition runtime_node_step ::
  "(int \<Rightarrow> datetime) \<Rightarrow> string \<Rightarrow> runtime_observation \<Rightarrow> string \<Rightarrow> relation_update list adapter_action" where
  "runtime_node_step clock component_id obs inst =
     (if ro_node_id obs = [] then act_return []
      else act_bind (act_lift (node_ref (ro_node_id obs))) (\<lambda>node.
        act_then (ensure_entity clock ((new_entity node DEPLOYMENT ''node'')
                    \<lparr>ge_labels := [(''node_id'', ro_node_id obs)]\<rparr>))
       (act_then (do_bind node [(''node_id'', ro_node_id obs)])
       (act_return [runtime_relation component_id obs STRUCTURED_LIFECYCLE node ''contains'' inst
                      ''node_contains_instance'']))))"

definition runtime_request_step ::
  "(int \<Rightarrow> datetime) \<Rightarrow> string \<Rightarrow> runtime_observation \<Rightarrow> string \<Rightarrow> string \<Rightarrow> relation_update list adapter_action" where
  "runtime_request_step clock component_id obs runtime inst =
     (if ro_request_id obs = [] then act_return []
      else act_bind (act_lift (request_ref (ro_request_id obs))) (\<lambda>request.
        act_then (ensure_entity clock ((new_entity request COMPONENT ''request'')
                    \<lparr>ge_lifecycle := ''running''\<rparr>))
       (act_then (do_bind request [(''request_id'', ro_request_id obs), (''trace_id'', ro_trace_id obs)])
       (act_return
          [runtime_relation component_id obs AUTHORITATIVE_DOMAIN request ''executing_on'' runtime
             ''request_exec_runtime'',
           runtime_relation component_id obs AUTHORITATIVE_DOMAIN request ''executing_on'' inst
             ''request_exec_instance'']))))"

definition runtime_state_values :: "runtime_observation \<Rightarrow> (string, pyval option) dict" where
  "runtime_state_values obs =
     [(''runtime.queue_depth'', map_option PInt (ro_queue_depth obs)),
      (''runtime.running'', map_option PInt (ro_running obs)),
      (''runtime.ttft_p95'', ro_ttft_p95_seconds obs),
      (''runtime.tpot_p95'', ro_tpot_p95_seconds obs),
      (''runtime.prefill_tps'', ro_prefill_tokens_per_second obs),
      (''runtime.decode_tps'', ro_decode_tokens_per_second obs),
      (''runtime.kv_usage'', ro_kv_usage_ratio obs),
      (''runtime.health'', map_option PStr (ro_health obs))]"

definition runtime_updates ::
  "string \<Rightarrow> runtime_observation \<Rightarrow> string \<Rightarrow> string \<Rightarrow> state_update list" where
  "runtime_updates component_id obs runtime inst =
     (let correlation = default_correlation
            \<lparr>ci_trace_id := ro_trace_id obs, ci_request_id := ro_request_id obs,
             ci_component_id := ro_runtime_id obs, ci_instance_id := ro_instance_id obs\<rparr>;
          update = (\<lambda>entity key v authority.
            (new_state_update entity key v component_id (ro_observed_at obs) authority)
            \<lparr>su_source_ref := Some (runtime_source obs), su_correlation := correlation,
             su_idempotency_key := runtime_key obs key\<rparr>)
      in map (\<lambda>(key, v). update runtime key v DIRECT_TELEMETRY)
           (present_values (runtime_state_values obs))
         @ (case ro_ready obs of
              None \<Rightarrow> []
            | Some b \<Rightarrow> [update inst ''instance.ready'' (PBool b) STRUCTURED_LIFECYCLE]))"

definition runtime_publish ::
  "(int \<Rightarrow> datetime) \<Rightarrow> string \<Rightarrow> runtime_observation \<Rightarrow> publish_report adapter_action" where
  "runtime_publish clock component_id obs =
     act_bind (act_lift (runtime_ref (ro_runtime_id obs))) (\<lambda>runtime.
     act_bind (act_lift (instance_ref (ro_instance_id obs))) (\<lambda>inst.
     act_then (register_runtime obs)
    (act_then (do_upsert_entity clock (runtime_entity runtime obs))
    (act_then (do_upsert_entity clock (runtime_instance_entity inst runtime obs))
    (act_then (do_bind runtime [(''component_id'', ro_runtime_id obs)])
    (act_then (do_bind inst [(''instance_id'', ro_instance_id obs)])
    (act_bind (runtime_node_step clock component_id obs inst) (\<lambda>contains.
     act_bind (runtime_request_step clock component_id obs runtime inst) (\<lambda>executing.
     finish_publish component_id (runtime_updates component_id obs runtime inst)
       ([runtime_relation component_id obs STRUCTURED_LIFECYCLE runtime ''deployed_on'' inst
           ''deployed_on''] @ contains @ executing)
       (ro_watermark obs) (ro_observed_at obs))))))))))"

end
