(* ===== verification/SF_Cluster_Adapters.thy ===== *)
theory SF_Cluster_Adapters
  imports SF_Adapter_Base
begin

text \<open>
  The adapters of the cluster: hardware counters and deployments.
\<close>

chapter \<open>Hardware adapter\<close>

text \<open>
  The hardware adapter of \<open>stateflow/adapters/dcgm.py\<close>: it projects one window of hardware counters:
  the GPU as a resource of its node, the node's health and the link to a peer node.
\<close>

record hardware_observation =
  ho_node_id :: string
  ho_gpu_id :: string
  ho_observed_at :: datetime
  ho_hbm_used_bytes :: "int option"
  ho_hbm_reserved_bytes :: "int option"
  ho_gpu_util_ratio :: "pyval option"
  ho_node_health :: "string option"
  ho_peer_node_id :: string
  ho_effective_bandwidth :: "pyval option"
  ho_watermark :: string
  ho_observation_id :: string
  ho_source_ref :: "source_ref option"

definition hardware_adapter_descriptor :: "string \<Rightarrow> component_descriptor" where
  "hardware_adapter_descriptor component_id =
     adapter_descriptor component_id ''hardware_adapter''
       [''resource.hbm.used'', ''resource.hbm.reserved'', ''resource.gpu.util'', ''node.health'',
        ''link.effective_bw'']
       [''resource'', ''link''] [''contains'', ''connected_to''] ''dcgm-nvml-nic''"

definition hardware_key :: "hardware_observation \<Rightarrow> string \<Rightarrow> string" where
  "hardware_key obs suffix = observation_key ''dcgm'' (ho_observation_id obs) suffix"

definition hardware_resource_id :: "hardware_observation \<Rightarrow> string" where
  "hardware_resource_id obs = ho_node_id obs @ ''/gpu/'' @ ho_gpu_id obs"

definition hardware_source :: "hardware_observation \<Rightarrow> source_ref" where
  "hardware_source obs =
     (case ho_source_ref obs of
        Some s \<Rightarrow> s
      | None \<Rightarrow> new_source_ref ''dcgm'' (hardware_resource_id obs))"

definition hardware_entity :: "string \<Rightarrow> string \<Rightarrow> hardware_observation \<Rightarrow> graph_entity" where
  "hardware_entity ref node obs =
     (new_entity ref DEPLOYMENT ''resource'')
     \<lparr>ge_lifecycle := (if ho_node_health obs \<noteq> Some ''unhealthy'' then ''healthy'' else ''degraded''),
      ge_parent_ref := node,
      ge_labels := [(''kind'', ''gpu''), (''gpu_id'', ho_gpu_id obs)]\<rparr>"

definition hardware_relation ::
  "string \<Rightarrow> hardware_observation \<Rightarrow> string \<Rightarrow> string \<Rightarrow> string \<Rightarrow> (string, pyval) dict \<Rightarrow> string
     \<Rightarrow> relation_update" where
  "hardware_relation component_id obs source relation_type target attributes suffix =
     (new_relation_update source relation_type target component_id (ho_observed_at obs)
        DIRECT_TELEMETRY)
     \<lparr>ru_attributes := attributes, ru_idempotency_key := hardware_key obs suffix\<rparr>"

definition hardware_update ::
  "string \<Rightarrow> hardware_observation \<Rightarrow> string \<Rightarrow> string \<Rightarrow> pyval \<Rightarrow> state_update" where
  "hardware_update component_id obs entity key v =
     (new_state_update entity key v component_id (ho_observed_at obs) DIRECT_TELEMETRY)
     \<lparr>su_source_ref := Some (hardware_source obs), su_idempotency_key := hardware_key obs key\<rparr>"

definition hardware_state_values :: "hardware_observation \<Rightarrow> (string, pyval option) dict" where
  "hardware_state_values obs =
     [(''resource.hbm.used'', map_option PInt (ho_hbm_used_bytes obs)),
      (''resource.hbm.reserved'', map_option PInt (ho_hbm_reserved_bytes obs)),
      (''resource.gpu.util'', ho_gpu_util_ratio obs)]"

definition hardware_updates ::
  "string \<Rightarrow> hardware_observation \<Rightarrow> string \<Rightarrow> string \<Rightarrow> state_update list" where
  "hardware_updates component_id obs node resource =
     map (\<lambda>(key, v). hardware_update component_id obs resource key v)
       (present_values (hardware_state_values obs))
     @ (case ho_node_health obs of
          None \<Rightarrow> []
        | Some h \<Rightarrow> [hardware_update component_id obs node ''node.health'' (PStr h)])"

text \<open>The link to the peer: its entities, its relation and its state, when both are observed.\<close>

definition hardware_link_step ::
  "(int \<Rightarrow> datetime) \<Rightarrow> string \<Rightarrow> hardware_observation \<Rightarrow> string
     \<Rightarrow> (relation_update list \<times> state_update list) adapter_action" where
  "hardware_link_step clock component_id obs node =
     (case ho_effective_bandwidth obs of
        None \<Rightarrow> act_return ([], [])
      | Some bandwidth \<Rightarrow>
          if ho_peer_node_id obs = [] then act_return ([], [])
          else
            act_bind (act_lift (node_ref (ho_peer_node_id obs))) (\<lambda>peer.
            let link_id = ho_node_id obs @ ''->'' @ ho_peer_node_id obs in
            act_bind (act_lift (link_ref link_id)) (\<lambda>link.
            act_then (ensure_entity clock ((new_entity peer DEPLOYMENT ''node'')
                        \<lparr>ge_labels := [(''node_id'', ho_peer_node_id obs)]\<rparr>))
           (act_then (do_upsert_entity clock ((new_entity link DEPLOYMENT ''link'')
                        \<lparr>ge_lifecycle := ''active'',
                         ge_labels := [(''source'', node), (''target'', peer)]\<rparr>))
           (act_then (do_bind peer [(''node_id'', ho_peer_node_id obs)])
           (act_then (do_bind link [(''link_id'', link_id)])
           (act_return
             ([hardware_relation component_id obs node ''connected_to'' peer
                 (dict_set (source_attributes (hardware_source obs)) ''link_ref'' (PStr link))
                 ''node_connected_to_peer''],
              [(hardware_update component_id obs link ''link.effective_bw'' bandwidth)
                 \<lparr>su_authority := DERIVED, su_semantic := SEM_DERIVED\<rparr>]))))))))"

definition hardware_publish ::
  "(int \<Rightarrow> datetime) \<Rightarrow> string \<Rightarrow> hardware_observation \<Rightarrow> publish_report adapter_action" where
  "hardware_publish clock component_id obs =
     act_bind (act_lift (node_ref (ho_node_id obs))) (\<lambda>node.
     act_bind (act_lift (resource_ref (hardware_resource_id obs))) (\<lambda>resource.
     act_then (ensure_entity clock ((new_entity node DEPLOYMENT ''node'')
                 \<lparr>ge_labels := [(''node_id'', ho_node_id obs)]\<rparr>))
    (act_then (do_upsert_entity clock (hardware_entity resource node obs))
    (act_then (do_bind node [(''node_id'', ho_node_id obs)])
    (act_then (do_bind resource
       [(''resource_id'', hardware_resource_id obs), (''gpu_id'', ho_gpu_id obs)])
    (act_bind (hardware_link_step clock component_id obs node) (\<lambda>(link_relations, link_updates).
     finish_publish component_id
       (hardware_updates component_id obs node resource @ link_updates)
       (hardware_relation component_id obs node ''contains'' resource
          (source_attributes (hardware_source obs)) ''node_contains_gpu'' # link_relations)
       (ho_watermark obs) (ho_observed_at obs))))))))"

chapter \<open>Deployment adapter\<close>

text \<open>
  The deployment adapter of \<open>stateflow/adapters/kubernetes.py\<close>: it projects the cluster topology, the
  node and the instance of an observation, and the binding of an instance to its runtime.
\<close>

record deployment_observation =
  dep_cluster_id :: string
  dep_node_id :: string
  dep_observed_at :: datetime
  dep_instance_id :: string
  dep_runtime_id :: string
  dep_namespace :: string
  dep_pod_uid :: string
  dep_node_health :: "string option"
  dep_node_allocatable :: "(string, pyval) dict option"
  dep_instance_ready :: "bool option"
  dep_allocated_gpu :: "pyval option"
  dep_labels :: "(string, string) dict"
  dep_watermark :: string
  dep_observation_id :: string
  dep_source_ref :: "source_ref option"
  dep_deleted :: bool

definition deployment_adapter_descriptor :: "string \<Rightarrow> component_descriptor" where
  "deployment_adapter_descriptor component_id =
     adapter_descriptor component_id ''deployment_adapter''
       [''node.allocatable'', ''node.health'', ''instance.ready'', ''instance.allocated_gpu'']
       [''cluster'', ''node'', ''instance''] [''contains'', ''deployed_on''] ''kubernetes''"

definition deployment_key :: "deployment_observation \<Rightarrow> string \<Rightarrow> string" where
  "deployment_key obs suffix = observation_key ''k8s'' (dep_observation_id obs) suffix"

definition deployment_source :: "deployment_observation \<Rightarrow> source_ref" where
  "deployment_source obs =
     (case dep_source_ref obs of
        Some s \<Rightarrow> s
      | None \<Rightarrow> new_source_ref ''kubernetes''
          (if dep_pod_uid obs \<noteq> [] then dep_pod_uid obs
           else dep_cluster_id obs @ ''/'' @ dep_node_id obs))"

text \<open>\<open>{**base, **labels}\<close>.\<close>

definition with_labels :: "(string, string) dict \<Rightarrow> (string, string) dict \<Rightarrow> (string, string) dict" where
  "with_labels base labels = foldl (\<lambda>d (k, v). dict_set d k v) base labels"

definition deployment_cluster_entity :: "string \<Rightarrow> deployment_observation \<Rightarrow> graph_entity" where
  "deployment_cluster_entity ref obs =
     (new_entity ref DEPLOYMENT ''cluster'')
     \<lparr>ge_lifecycle := ''active'', ge_labels := [(''cluster_id'', dep_cluster_id obs)]\<rparr>"

definition deployment_node_entity :: "string \<Rightarrow> string \<Rightarrow> deployment_observation \<Rightarrow> graph_entity" where
  "deployment_node_entity ref cluster obs =
     (new_entity ref DEPLOYMENT ''node'')
     \<lparr>ge_lifecycle :=
        (if dep_deleted obs then ''deleted''
         else if dep_node_health obs \<in> {None, Some ''healthy'', Some ''ready''} then ''ready''
         else ''degraded''),
      ge_parent_ref := cluster,
      ge_labels := with_labels [(''node_id'', dep_node_id obs)] (dep_labels obs)\<rparr>"

definition deployment_instance_entity ::
  "string \<Rightarrow> string \<Rightarrow> string \<Rightarrow> deployment_observation \<Rightarrow> graph_entity" where
  "deployment_instance_entity ref runtime node obs =
     (new_entity ref DEPLOYMENT ''instance'')
     \<lparr>ge_lifecycle :=
        (if dep_deleted obs then ''deleted''
         else if dep_instance_ready obs \<noteq> Some False then ''ready''
         else ''unavailable''),
      ge_owner_component_ref := runtime, ge_parent_ref := node,
      ge_labels := with_labels [(''namespace'', dep_namespace obs), (''pod_uid'', dep_pod_uid obs)]
        (dep_labels obs)\<rparr>"

definition deployment_relation ::
  "string \<Rightarrow> deployment_observation \<Rightarrow> string \<Rightarrow> string \<Rightarrow> string \<Rightarrow> string \<Rightarrow> relation_update" where
  "deployment_relation component_id obs source relation_type target suffix =
     (new_relation_update source relation_type target component_id (dep_observed_at obs)
        AUTHORITATIVE_DOMAIN)
     \<lparr>ru_attributes := source_attributes (deployment_source obs),
      ru_idempotency_key := deployment_key obs suffix\<rparr>"

text \<open>The part of \<open>publish\<close> under \<open>if observation.instance_id\<close>.\<close>

definition deployment_runtime_step ::
  "(int \<Rightarrow> datetime) \<Rightarrow> string \<Rightarrow> deployment_observation \<Rightarrow> string \<Rightarrow> string \<Rightarrow> relation_update list adapter_action" where
  "deployment_runtime_step clock component_id obs runtime inst =
     (if runtime = [] then act_return []
      else
        act_then (ensure_entity clock ((new_entity runtime COMPONENT ''component'')
                    \<lparr>ge_labels := [(''kind'', ''inference_runtime'')]\<rparr>))
       (act_then (do_bind runtime [(''component_id'', dep_runtime_id obs)])
       (act_return [deployment_relation component_id obs runtime ''deployed_on'' inst
                      ''runtime_deployed_on_instance''])))"

definition deployment_instance_step ::
  "(int \<Rightarrow> datetime) \<Rightarrow> string \<Rightarrow> deployment_observation \<Rightarrow> string
     \<Rightarrow> (string \<times> relation_update list) adapter_action" where
  "deployment_instance_step clock component_id obs node =
     (if dep_instance_id obs = [] then act_return ([], [])
      else
        act_bind (act_lift (instance_ref (dep_instance_id obs))) (\<lambda>inst.
        act_bind (act_lift (if dep_runtime_id obs \<noteq> [] then runtime_ref (dep_runtime_id obs) else Inr []))
          (\<lambda>runtime.
        act_then (do_upsert_entity clock (deployment_instance_entity inst runtime node obs))
       (act_then (do_bind inst
          [(''instance_id'', dep_instance_id obs), (''pod_uid'', dep_pod_uid obs)])
       (act_bind (deployment_runtime_step clock component_id obs runtime inst) (\<lambda>deployed.
        act_return (inst,
          deployment_relation component_id obs node ''contains'' inst ''node_contains_instance''
          # deployed)))))))"

definition deployment_update ::
  "string \<Rightarrow> deployment_observation \<Rightarrow> string \<Rightarrow> string \<Rightarrow> pyval \<Rightarrow> state_update" where
  "deployment_update component_id obs entity key v =
     (new_state_update entity key v component_id (dep_observed_at obs) AUTHORITATIVE_DOMAIN)
     \<lparr>su_source_ref := Some (deployment_source obs), su_idempotency_key := deployment_key obs key\<rparr>"

definition deployment_updates ::
  "string \<Rightarrow> deployment_observation \<Rightarrow> string \<Rightarrow> string \<Rightarrow> state_update list" where
  "deployment_updates component_id obs node inst =
     map (\<lambda>(key, v). deployment_update component_id obs node key v)
       (present_values
          [(''node.allocatable'', map_option PDict (dep_node_allocatable obs)),
           (''node.health'', map_option PStr (dep_node_health obs))])
     @ (if inst = [] then []
        else map (\<lambda>(key, v). deployment_update component_id obs inst key v)
          (present_values
             [(''instance.ready'', map_option PBool (dep_instance_ready obs)),
              (''instance.allocated_gpu'', dep_allocated_gpu obs)]))"

definition deployment_publish ::
  "(int \<Rightarrow> datetime) \<Rightarrow> string \<Rightarrow> deployment_observation \<Rightarrow> publish_report adapter_action" where
  "deployment_publish clock component_id obs =
     act_bind (act_lift (cluster_ref (dep_cluster_id obs))) (\<lambda>cluster.
     act_bind (act_lift (node_ref (dep_node_id obs))) (\<lambda>node.
     act_then (do_upsert_entity clock (deployment_cluster_entity cluster obs))
    (act_then (do_upsert_entity clock (deployment_node_entity node cluster obs))
    (act_then (do_bind cluster [(''cluster_id'', dep_cluster_id obs)])
    (act_then (do_bind node [(''node_id'', dep_node_id obs)])
    (act_bind (deployment_instance_step clock component_id obs node) (\<lambda>(inst, instance_relations).
     finish_publish component_id (deployment_updates component_id obs node inst)
       (deployment_relation component_id obs cluster ''contains'' node ''cluster_contains_node''
        # instance_relations)
       (dep_watermark obs) (dep_observed_at obs))))))))"

end
