(* ===== verification/SF_Adapter_Publishing.thy ===== *)
theory SF_Adapter_Publishing
  imports SF_Adapter_Lemmas SF_Serving_Adapters SF_Cluster_Adapters
begin

text \<open>
  The four \<open>publish\<close> methods under the rules of the adapter calls: each is a run of plane operations
  and returns a report when the identifiers are not blank; publishing a KV observation again changes
  nothing.
\<close>

section \<open>Runs\<close>

lemma runs_register_runtime: "runs.obeys (register_runtime obs)"
  using runs_register_component [of "observed_descriptor obs"]
  by (simp add: runs.obeys_def register_runtime_def runs.R_refl)

lemma runs_adapter_init: "runs.obeys (adapter_init clock d)"
  by (rule runs.obeys_read [OF _ adapter_init_def])
    (unfold Let_def, intro runs.obeys_rules call_runs)

lemma runs_kv_publish: "runs.obeys (kv_publish clock c obs)"
  unfolding kv_publish_def kv_location_step_def kv_request_step_def Let_def
  by (intro runs.obeys_rules call_runs)

lemma runs_runtime_publish: "runs.obeys (runtime_publish clock c obs)"
  unfolding runtime_publish_def runtime_node_step_def runtime_request_step_def
  by (intro runs.obeys_rules call_runs runs_register_runtime)

lemma runs_hardware_publish: "runs.obeys (hardware_publish clock c obs)"
  unfolding hardware_publish_def hardware_link_step_def Let_def
  by (intro runs.obeys_rules call_runs)

lemma runs_deployment_publish: "runs.obeys (deployment_publish clock c obs)"
  unfolding deployment_publish_def deployment_instance_step_def deployment_runtime_step_def
  by (intro runs.obeys_rules call_runs)

section \<open>Returning\<close>

text \<open>Binding an entity under the identifier its reference is built from.\<close>

lemma canonical_refs:
  "request_ref i = Inr r \<Longrightarrow> canonical_binding ''request_id'' (str_strip i) r"
  "runtime_ref i = Inr r \<Longrightarrow> canonical_binding ''component_id'' (str_strip i) r"
  "instance_ref i = Inr r \<Longrightarrow> canonical_binding ''instance_id'' (str_strip i) r"
  "kv_ref i = Inr r \<Longrightarrow> canonical_binding ''kv_id'' (str_strip i) r"
  "node_ref i = Inr r \<Longrightarrow> canonical_binding ''node_id'' (str_strip i) r"
  by (simp_all add: canonical_binding_def ref_defs)

lemma canonical_free:
  "ns \<notin> {''request_id'', ''component_id'', ''instance_id'', ''kv_id'', ''node_id''} \<Longrightarrow> canonical_binding ns v e"
  by (simp add: canonical_binding_def)

lemma entity_ref_not_Nil: "entity_ref g t i = Inr r \<Longrightarrow> r \<noteq> []"
  by (auto simp: entity_ref_Inr_iff entity_ref_prefix_def)

lemma ok_bind_ref:
  assumes "entity_ref g t i = Inr e"
    and "list_all (\<lambda>(ns, raw). ns \<noteq> ''action_id'' \<and> canonical_binding ns (str_strip raw) e) ids"
  shows "act_ok (adapter_ready c) (do_bind e ids) (\<lambda>_. True)"
  using assms by (intro ok_bind) (auto simp: list_all_iff dest: entity_ref_not_Nil)

lemma ok_kv_location_step:
  assumes "kv_location_post_init l = Inr l" and "str_strip (kl_identifier l) \<noteq> []"
  shows "act_ok (adapter_ready c) (kv_location_step clock cid obs kv l) (\<lambda>_. True)"
proof -
  obtain r where r: "resource_ref (kl_identifier l) = Inr r"
    using assms(2) by (auto simp: resource_ref_def entity_ref_total)
  obtain n where n: "node_ref (kl_identifier l) = Inr n"
    using assms(2) by (auto simp: node_ref_def entity_ref_total)
  let ?ref = "if kl_entity_type l = ''resource'' then r else n"
  have type: "kl_entity_type l = ''resource'' \<or> kl_entity_type l = ''node''"
    using assms(1) by (auto simp: kv_location_post_init_def split: if_splits)
  have wf: "wf_entity ((new_entity ?ref DEPLOYMENT (kl_entity_type l))\<lparr>ge_labels := ls\<rparr>)" for ls
    using type r n assms(2) adapter_entity_types
    by (auto intro!: wf_new_entity simp: new_entity_def ref_defs)
  have bind: "act_ok (adapter_ready c) (do_bind n [(''node_id'', kl_identifier l)]) (\<lambda>_. True)"
    using n by (intro ok_bind_ref) (auto simp: node_ref_def canonical_binding_def)
  have "act_ok (adapter_ready c)
      (if kl_entity_type l = ''resource'' then act_lift (resource_ref (kl_identifier l))
       else act_bind (act_lift (node_ref (kl_identifier l))) (\<lambda>r.
              act_then (do_bind r [(''node_id'', kl_identifier l)]) (act_return r))) (\<lambda>x. x = ?ref)"
    using r n by (auto intro: act_ok_lift act_ok_lift_bind act_ok_then [OF bind] act_ok_return)
  then show ?thesis
    unfolding kv_location_step_def Let_def
    by (rule act_ok_bind) (simp only: act_ok_then [OF ok_ensure_entity [OF wf]] act_ok_return)
qed


lemma ok_kv_request_step:
  assumes "str_strip i \<noteq> []"
  shows "act_ok (adapter_ready c) (kv_request_step clock cid obs kv i) (\<lambda>_. True)"
proof -
  obtain r where r: "request_ref i = Inr r"
    using assms by (auto simp: request_ref_def entity_ref_total)
  have wf: "wf_entity ((new_entity r COMPONENT ''request'')\<lparr>ge_lifecycle := s\<rparr>)" for s
    using r adapter_entity_types by (auto intro!: wf_new_entity simp: new_entity_def ref_defs)
  have bind: "act_ok (adapter_ready c)
      (do_bind r [(''request_id'', i), (''trace_id'', ko_trace_id obs)]) (\<lambda>_. True)"
    using r by (intro ok_bind_ref) (auto simp: request_ref_def canonical_binding_def)
  show ?thesis
    unfolding kv_request_step_def
    by (rule act_ok_lift_bind [OF r])
      (simp only: act_ok_then [OF ok_ensure_entity [OF wf]] act_ok_then [OF bind] act_ok_return)
qed

lemma kv_hit_updates_total:
  assumes "\<And>i. i \<in> set (ko_request_ids obs) \<Longrightarrow> str_strip i \<noteq> []"
  shows "\<exists>us. kv_hit_updates c obs = Inr us"
  using assms by (auto simp: kv_hit_updates_def request_ref_def entity_ref_total
      intro!: res_map_returns split: option.splits)

definition kv_observation_valid :: "kv_observation \<Rightarrow> bool" where
  "kv_observation_valid obs \<longleftrightarrow> str_strip (ko_kv_id obs) \<noteq> [] \<and>
     list_all (\<lambda>l. kv_location_post_init l = Inr l \<and> str_strip (kl_identifier l) \<noteq> []) (ko_locations obs) \<and>
     list_all (\<lambda>i. str_strip i \<noteq> []) (ko_request_ids obs)"

lemma ok_kv_publish:
  assumes valid: "kv_observation_valid obs" and c: "str_strip c \<noteq> []"
  shows "act_ok (adapter_ready c) (kv_publish clock c obs)
    (\<lambda>r. length (pr_relation_results r) = length (ko_locations obs) + length (ko_request_ids obs))"
proof -
  obtain kv where kv: "kv_ref (ko_kv_id obs) = Inr kv"
    using valid by (auto simp: kv_observation_valid_def kv_ref_def entity_ref_total)
  obtain owner where owner: "component_ref c = Inr owner"
    using c by (auto simp: component_ref_def entity_ref_total)
  obtain hits where hits: "kv_hit_updates c obs = Inr hits"
    using valid kv_hit_updates_total [of obs c] by (auto simp: kv_observation_valid_def list_all_iff)
  have wf: "wf_entity (kv_entity kv owner obs)"
    using kv adapter_entity_types by (auto intro!: wf_new_entity simp: kv_entity_def new_entity_def kv_ref_def)
  have bind: "act_ok (adapter_ready c)
      (do_bind kv [(''kv_id'', ko_kv_id obs), (''trace_id'', ko_trace_id obs)]) (\<lambda>_. True)"
    using kv by (intro ok_bind_ref) (auto simp: kv_ref_def canonical_binding_def)
  have locations: "act_ok (adapter_ready c) (act_map (kv_location_step clock c obs kv) (ko_locations obs))
      (\<lambda>ys. length ys = length (ko_locations obs) \<and> (\<forall>y \<in> set ys. True))"
    using valid by (intro act_ok_map ok_kv_location_step) (auto simp: kv_observation_valid_def list_all_iff)
  have requests: "act_ok (adapter_ready c) (act_map (kv_request_step clock c obs kv) (ko_request_ids obs))
      (\<lambda>ys. length ys = length (ko_request_ids obs) \<and> (\<forall>y \<in> set ys. True))"
    using valid by (intro act_ok_map ok_kv_request_step) (auto simp: kv_observation_valid_def list_all_iff)
  show ?thesis
    unfolding kv_publish_def
    by (rule act_ok_lift_bind [OF kv] act_ok_lift_bind [OF owner] act_ok_then [OF ok_upsert_entity [OF wf]]
        act_ok_then [OF bind] act_ok_bind [OF locations] act_ok_bind [OF requests]
        act_ok_lift_bind [OF hits] act_ok_weaken [OF ok_finish])+ simp
qed

lemma ok_register_runtime: "act_ok (adapter_ready c) (register_runtime obs) (\<lambda>_. True)"
  unfolding act_ok_def
proof (intro allI impI)
  fix w assume w: "adapter_ready c w"
  let ?p = "aw_plane w" and ?d = "observed_descriptor obs"
  show "\<exists>x w'. register_runtime obs w = (Inr x, w') \<and> adapter_ready c w' \<and> True"
  proof (cases "\<exists>d \<in> set (list_components ?p). cd_component_id d = ro_runtime_id obs")
    case True
    then show ?thesis using w by (simp add: register_runtime_def)
  next
    case False
    have "dict_get (pl_components ?p) (ro_runtime_id obs) \<noteq> Some d" for d
    proof
      assume d: "dict_get (pl_components ?p) (ro_runtime_id obs) = Some d"
      then have "d \<in> set (list_components ?p)"
        by (force simp: list_components_def dest: dict_get_Some_in)
      moreover have "cd_component_id d = ro_runtime_id obs"
        using w dict_get_Some_in [OF d] by (auto simp: adapter_ready_def components_keyed_def)
      ultimately show False using False by blast
    qed
    then have "dict_get (pl_components ?p) (ro_runtime_id obs) = None" by fastforce
    then obtain p where p: "register_component ?p ?d = Inr p"
      by (simp add: register_component_def observed_descriptor_def new_descriptor_def)
    then have "adapter_ready c (w\<lparr>aw_plane := p\<rparr>)"
      using w by (blast intro: ready_after_plane plane_step.register_component)
    then show ?thesis using False p by (simp add: register_runtime_def do_register_component_def)
  qed
qed

lemma ok_runtime_node_step:
  assumes "ro_node_id obs \<noteq> [] \<Longrightarrow> str_strip (ro_node_id obs) \<noteq> []"
  shows "act_ok (adapter_ready c) (runtime_node_step clock c obs inst)
    (\<lambda>rs. length rs = (if ro_node_id obs = [] then 0 else 1))"
proof (cases "ro_node_id obs = []")
  case True
  then show ?thesis by (simp add: runtime_node_step_def act_ok_return)
next
  case False
  then obtain r where r: "node_ref (ro_node_id obs) = Inr r"
    using assms by (auto simp: node_ref_def entity_ref_total)
  have wf: "wf_entity ((new_entity r DEPLOYMENT ''node'')\<lparr>ge_labels := s\<rparr>)" for s
    using r adapter_entity_types by (auto intro!: wf_new_entity simp: new_entity_def ref_defs)
  have bind: "act_ok (adapter_ready c) (do_bind r [(''node_id'', ro_node_id obs)]) (\<lambda>_. True)"
    using r by (intro ok_bind_ref) (auto simp: ref_defs canonical_binding_def)
  show ?thesis
    unfolding runtime_node_step_def using False
    by (auto intro!: act_ok_lift_bind [OF r] act_ok_then [OF ok_ensure_entity [OF wf]]
        act_ok_then [OF bind] act_ok_return)
qed

lemma ok_runtime_request_step:
  assumes "ro_request_id obs \<noteq> [] \<Longrightarrow> str_strip (ro_request_id obs) \<noteq> []"
  shows "act_ok (adapter_ready c) (runtime_request_step clock c obs rt inst)
    (\<lambda>rs. length rs = (if ro_request_id obs = [] then 0 else 2))"
proof (cases "ro_request_id obs = []")
  case True
  then show ?thesis by (simp add: runtime_request_step_def act_ok_return)
next
  case False
  then obtain r where r: "request_ref (ro_request_id obs) = Inr r"
    using assms by (auto simp: ref_defs entity_ref_total)
  have wf: "wf_entity ((new_entity r COMPONENT ''request'')\<lparr>ge_lifecycle := s\<rparr>)" for s
    using r adapter_entity_types by (auto intro!: wf_new_entity simp: new_entity_def ref_defs)
  have bind: "act_ok (adapter_ready c)
      (do_bind r [(''request_id'', ro_request_id obs), (''trace_id'', ro_trace_id obs)]) (\<lambda>_. True)"
    using r by (intro ok_bind_ref) (auto simp: ref_defs canonical_binding_def)
  show ?thesis
    unfolding runtime_request_step_def using False
    by (auto intro!: act_ok_lift_bind [OF r] act_ok_then [OF ok_ensure_entity [OF wf]]
        act_ok_then [OF bind] act_ok_return)
qed

definition runtime_observation_valid :: "runtime_observation \<Rightarrow> bool" where
  "runtime_observation_valid obs \<longleftrightarrow>
     str_strip (ro_runtime_id obs) \<noteq> [] \<and> str_strip (ro_instance_id obs) \<noteq> [] \<and>
     (ro_node_id obs = [] \<or> str_strip (ro_node_id obs) \<noteq> []) \<and>
     (ro_request_id obs = [] \<or> str_strip (ro_request_id obs) \<noteq> [])"

lemma ok_runtime_publish:
  assumes valid: "runtime_observation_valid obs"
  shows "act_ok (adapter_ready c) (runtime_publish clock c obs)
    (\<lambda>r. length (pr_relation_results r)
       = 1 + (if ro_node_id obs = [] then 0 else 1) + (if ro_request_id obs = [] then 0 else 2))"
proof -
  obtain rt inst where rt: "runtime_ref (ro_runtime_id obs) = Inr rt"
      and inst: "instance_ref (ro_instance_id obs) = Inr inst"
    using valid by (auto simp: runtime_observation_valid_def ref_defs entity_ref_total)
  have wf: "wf_entity (runtime_entity rt obs)" "wf_entity (runtime_instance_entity inst rt obs)"
    using rt inst adapter_entity_types
    by (auto intro!: wf_new_entity simp: runtime_entity_def runtime_instance_entity_def new_entity_def ref_defs)
  have bind: "act_ok (adapter_ready c) (do_bind rt [(''component_id'', ro_runtime_id obs)]) (\<lambda>_. True)"
      "act_ok (adapter_ready c) (do_bind inst [(''instance_id'', ro_instance_id obs)]) (\<lambda>_. True)"
    using rt inst by (auto intro!: ok_bind_ref simp: ref_defs canonical_binding_def)
  have steps: "act_ok (adapter_ready c) (runtime_node_step clock c obs inst)
        (\<lambda>rs. length rs = (if ro_node_id obs = [] then 0 else 1))"
      "act_ok (adapter_ready c) (runtime_request_step clock c obs rt inst)
        (\<lambda>rs. length rs = (if ro_request_id obs = [] then 0 else 2))"
    using valid unfolding runtime_observation_valid_def
    by (blast intro: ok_runtime_node_step ok_runtime_request_step)+
  show ?thesis
    unfolding runtime_publish_def
    by (rule act_ok_lift_bind [OF rt] act_ok_lift_bind [OF inst] act_ok_then [OF ok_register_runtime]
        act_ok_then [OF ok_upsert_entity [OF wf(1)]] act_ok_then [OF ok_upsert_entity [OF wf(2)]]
        act_ok_then [OF bind(1)] act_ok_then [OF bind(2)] act_ok_bind [OF steps(1)]
        act_ok_bind [OF steps(2)] act_ok_weaken [OF ok_finish])+ simp
qed

section \<open>Publishing again\<close>

lemma settled_kv_location_step: "later.settled (kv_location_step clock c obs kv l)"
  unfolding kv_location_step_def Let_def
  by (cases "kl_entity_type l = ''resource''"; simp only: if_True if_False refl)
    (intro later.settled_bind later.settled_then later.settled_return later.settled_lift call_settled
      later.obeys_rules call_later)+

lemma later_kv_location_step: "later.obeys (kv_location_step clock c obs kv l)"
  unfolding kv_location_step_def Let_def by (intro later.obeys_rules call_later)

lemma settled_kv_request_step: "later.settled (kv_request_step clock c obs kv i)"
  unfolding kv_request_step_def
  by (intro later.settled_bind later.settled_then later.settled_return later.settled_lift call_settled
      later.obeys_rules call_later)

lemma later_kv_request_step: "later.obeys (kv_request_step clock c obs kv i)"
  unfolding kv_request_step_def by (intro later.obeys_rules call_later)

text \<open>A write whose result is accepted or a duplicate leaves its key remembered; then it replays.\<close>

definition write_settled :: "write_result \<Rightarrow> bool" where
  "write_settled r \<longleftrightarrow> wr_accepted r \<or> wr_duplicate r"

definition replayed :: "write_result \<Rightarrow> bool" where
  "replayed r \<longleftrightarrow> wr_duplicate r \<and> \<not> wr_accepted r"

lemma idempotent_replay_has:
  "k \<noteq> [] \<Longrightarrow> dict_has (pl_idempotency p) k \<longleftrightarrow> (\<exists>r. idempotent_replay p k = Some r \<and> replayed r)"
  by (auto simp: idempotent_replay_def dict_has_def replayed_def duplicate_of_def)

lemma publish_one_remembers:
  assumes "su_idempotency_key u \<noteq> []" "publish_one p u = (p', r, c)" "write_settled r"
  shows "dict_has (pl_idempotency p') (su_idempotency_key u)"
proof (cases "\<exists>e d. publish_admitted p u e d")
  case True
  then obtain e d where "publish_admitted p u e d" by blast
  then have "publish_one p u = publish_accept p u d (dict_get (pl_state p) (su_entity_ref u, ck_key d))"
    by (auto simp: publish_one_def publish_admitted_def Let_def split: option.splits)
  then have "p' = fst (publish_accept p u d (dict_get (pl_state p) (su_entity_ref u, ck_key d)))"
    using assms(2) by (metis fst_conv)
  then show ?thesis using assms(1) by (simp add: publish_accept_idempotency)
next
  case False
  then show ?thesis
    using assms
    by (auto simp: publish_one_def publish_admitted_def Let_def write_settled_def idempotent_replay_def
        state_rejected_def dict_has_def split: option.splits sum.splits if_splits)
qed

lemma upsert_relation_remembers:
  assumes "ru_idempotency_key u \<noteq> []" "upsert_relation p u = (p', r, c)" "write_settled r"
  shows "dict_has (pl_idempotency p') (ru_idempotency_key u)"
proof (cases "\<exists>s t. relation_admitted p u s t")
  case True
  then obtain s t where "relation_admitted p u s t" by blast
  then have "upsert_relation p u = relation_accept p u
      (dict_get (pl_relations p) (ru_source_ref u, ru_relation_type u, ru_target_ref u))"
    by (auto simp: upsert_relation_def relation_admitted_def Let_def split: option.splits)
  then have "p' = fst (relation_accept p u
      (dict_get (pl_relations p) (ru_source_ref u, ru_relation_type u, ru_target_ref u)))"
    using assms(2) by (metis fst_conv)
  then show ?thesis using assms(1) by (simp add: relation_accept_idempotency)
next
  case False
  then show ?thesis
    using assms
    by (auto simp: upsert_relation_def relation_admitted_def Let_def write_settled_def idempotent_replay_def
        relation_rejected_def dict_has_def split: option.splits if_splits)
qed

lemma above_remembers: "plane_above p q \<Longrightarrow> dict_has (pl_idempotency p) k \<Longrightarrow> dict_has (pl_idempotency q) k"
  by (auto simp: plane_above_def dict_has_def)

lemma publish_state_remembers:
  assumes "publish_state p us = (p', rs, cs)" "plane_inv p" "\<forall>r \<in> set rs. write_settled r"
    and "u \<in> set us" "su_idempotency_key u \<noteq> []"
  shows "dict_has (pl_idempotency p') (su_idempotency_key u)"
  using assms
proof (induction us arbitrary: p p' rs cs)
  case (Cons v us)
  obtain p1 r c where 1: "publish_one p v = (p1, r, c)" by (metis prod_cases3)
  obtain rs2 cs2 where 2: "publish_state p1 us = (p', rs2, cs2)" "rs = r # rs2"
    using Cons.prems(1) 1 by (auto simp: Let_def split: prod.splits)
  have inv: "plane_inv p1"
    using 1 Cons.prems(2) by (blast intro: plane_writes.run_inv publish_one_write)
  show ?case
  proof (cases "u \<in> set us")
    case True
    then show ?thesis using Cons.IH [OF 2(1) inv] Cons.prems 2(2) by simp
  next
    case False
    then have "dict_has (pl_idempotency p1) (su_idempotency_key u)"
      using Cons.prems 1 2 publish_one_remembers [of v p p1 r c] by simp
    moreover have "plane_above p1 p'"
      using 2(1) inv by (blast intro: plane_writes.run_above publish_state_write)
    ultimately show ?thesis by (rule above_remembers [rotated])
  qed
qed simp

lemma upsert_relations_remembers:
  assumes "upsert_relations p us = (p', rs, cs)" "plane_inv p" "\<forall>r \<in> set rs. write_settled r"
    and "u \<in> set us" "ru_idempotency_key u \<noteq> []"
  shows "dict_has (pl_idempotency p') (ru_idempotency_key u)"
  using assms
proof (induction us arbitrary: p p' rs cs)
  case (Cons v us)
  obtain p1 r c where 1: "upsert_relation p v = (p1, r, c)" by (metis prod_cases3)
  obtain rs2 cs2 where 2: "upsert_relations p1 us = (p', rs2, cs2)" "rs = r # rs2"
    using Cons.prems(1) 1 by (auto simp: Let_def split: prod.splits)
  have inv: "plane_inv p1"
    using 1 Cons.prems(2) by (blast intro: plane_writes.run_inv upsert_relation_write)
  show ?case
  proof (cases "u \<in> set us")
    case True
    then show ?thesis using Cons.IH [OF 2(1) inv] Cons.prems 2(2) by simp
  next
    case False
    then have "dict_has (pl_idempotency p1) (ru_idempotency_key u)"
      using Cons.prems 1 2 upsert_relation_remembers [of v p p1 r c] by simp
    moreover have "plane_above p1 p'"
      using 2(1) inv by (blast intro: plane_writes.run_above upsert_relations_write)
    ultimately show ?thesis by (rule above_remembers [rotated])
  qed
qed simp

lemma publish_state_replays:
  assumes "\<And>u. u \<in> set us \<Longrightarrow> su_idempotency_key u \<noteq> [] \<and> dict_has (pl_idempotency p) (su_idempotency_key u)"
  shows "\<exists>rs. publish_state p us = (p, rs, []) \<and> (\<forall>r \<in> set rs. replayed r)"
  using assms
proof (induction us)
  case (Cons u us)
  obtain r where "idempotent_replay p (su_idempotency_key u) = Some r" "replayed r"
    using Cons.prems [of u] idempotent_replay_has [of "su_idempotency_key u" p] by auto
  then show ?case using Cons by (auto simp: publish_one_def)
qed simp

lemma upsert_relations_replays:
  assumes "\<And>u. u \<in> set us \<Longrightarrow> ru_idempotency_key u \<noteq> [] \<and> dict_has (pl_idempotency p) (ru_idempotency_key u)"
  shows "\<exists>rs. upsert_relations p us = (p, rs, []) \<and> (\<forall>r \<in> set rs. replayed r)"
  using assms
proof (induction us)
  case (Cons u us)
  obtain r where "idempotent_replay p (ru_idempotency_key u) = Some r" "replayed r"
    using Cons.prems [of u] idempotent_replay_has [of "ru_idempotency_key u" p] by auto
  then show ?case using Cons by (auto simp: upsert_relation_def)
qed simp

lemma finish_publish_again:
  assumes run: "finish_publish c us rs wm t w = (Inr report, w1)" and inv: "plane_inv (aw_plane w)"
    and ok: "\<forall>r \<in> set (report_results report). write_settled r"
    and keys: "\<forall>u \<in> set us. su_idempotency_key u \<noteq> []" "\<forall>u \<in> set rs. ru_idempotency_key u \<noteq> []"
  shows "\<exists>report2. finish_publish c us rs wm t w1 = (Inr report2, w1) \<and>
    (\<forall>r \<in> set (report_results report2). replayed r)"
proof -
  let ?hb = "\<lparr>hb_subject_ref = c, hb_producer = c, hb_source_watermark = wm,
       hb_schema_version = ''1.1'', hb_timestamp = t, hb_ttl = adapter_ttl\<rparr>"
  obtain p1 srs cs1 p2 rrs cs2 p3 where
      s: "publish_state (aw_plane w) us = (p1, srs, cs1)" and
      r: "upsert_relations p1 rs = (p2, rrs, cs2)" and
      h: "plane_heartbeat p2 ?hb = Inr p3" and
      w1: "w1 = w\<lparr>aw_plane := p3\<rparr>" and report: "report_results report = srs @ rrs"
    using run
    by (auto simp: finish_publish_def act_bind_Inr_iff act_then_Inr_iff do_publish_state_def
        do_upsert_relations_def adapter_heartbeat_def do_heartbeat_def report_results_def
        split: prod.splits sum.splits)
  have p1: "plane_inv p1" using s inv by (blast intro: plane_writes.run_inv publish_state_write)
  have p2: "plane_inv p2" using r p1 by (blast intro: plane_writes.run_inv upsert_relations_write)
  have "plane_above p1 p2" using r p1 by (blast intro: plane_writes.run_above upsert_relations_write)
  moreover have idem: "pl_idempotency p3 = pl_idempotency p2"
    using h by (auto simp: plane_heartbeat_def split: if_splits)
  ultimately have "dict_has (pl_idempotency p3) (su_idempotency_key u)" if "u \<in> set us" for u
    using publish_state_remembers [OF s inv _ that] ok report keys(1) that above_remembers by simp
  then obtain srs2 where s2: "publish_state p3 us = (p3, srs2, [])" "\<forall>r \<in> set srs2. replayed r"
    using publish_state_replays [of us p3] keys(1) by blast
  have "dict_has (pl_idempotency p3) (ru_idempotency_key u)" if "u \<in> set rs" for u
    using upsert_relations_remembers [OF r p1 _ that] ok report keys(2) that idem by simp
  then obtain rrs2 where r2: "upsert_relations p3 rs = (p3, rrs2, [])" "\<forall>r \<in> set rrs2. replayed r"
    using upsert_relations_replays [of rs p3] keys(2) by blast
  have "plane_heartbeat p3 ?hb = Inr p3"
    using h by (auto simp: plane_heartbeat_def dict_set_same split: if_splits)
  then have "finish_publish c us rs wm t w1
      = (Inr \<lparr>pr_state_results = srs2, pr_relation_results = rrs2\<rparr>, w1)"
    using s2(1) r2(1) w1
    by (simp add: finish_publish_def act_bind_def act_then_def act_return_def do_publish_state_def
        do_upsert_relations_def adapter_heartbeat_def do_heartbeat_def)
  then show ?thesis using s2(2) r2(2) by (auto simp: report_results_def)
qed

text \<open>With an observation identifier every write of a KV observation carries a key.\<close>

lemma kv_key_not_Nil: "ko_observation_id obs \<noteq> [] \<Longrightarrow> kv_key obs s \<noteq> []"
  by (simp add: kv_key_def observation_key_def)

lemma kv_location_step_key:
  "kv_location_step clock c obs kv l w = (Inr x, w') \<Longrightarrow> ko_observation_id obs \<noteq> [] \<Longrightarrow>
   ru_idempotency_key (snd x) \<noteq> []"
  by (auto simp: kv_location_step_def act_bind_Inr_iff act_then_Inr_iff Let_def kv_key_not_Nil)

lemma kv_request_step_key:
  "kv_request_step clock c obs kv i w = (Inr x, w') \<Longrightarrow> ko_observation_id obs \<noteq> [] \<Longrightarrow>
   ru_idempotency_key x \<noteq> []"
  by (auto simp: kv_request_step_def act_bind_Inr_iff act_then_Inr_iff kv_key_not_Nil)

lemma act_map_Inr_in:
  "act_map f xs w = (Inr ys, w') \<Longrightarrow> y \<in> set ys \<Longrightarrow> \<exists>x w1 w2. x \<in> set xs \<and> f x w1 = (Inr y, w2)"
  by (induction xs arbitrary: w ys) (fastforce simp: act_bind_Inr_iff)+

lemma kv_updates_keys:
  "ko_observation_id obs \<noteq> [] \<Longrightarrow> u \<in> set (kv_updates c obs kv refs) \<Longrightarrow> su_idempotency_key u \<noteq> []"
  by (auto simp: kv_updates_def Let_def kv_key_not_Nil)

lemma kv_hit_updates_keys:
  "kv_hit_updates c obs = Inr us \<Longrightarrow> ko_observation_id obs \<noteq> [] \<Longrightarrow> u \<in> set us \<Longrightarrow> su_idempotency_key u \<noteq> []"
  by (auto simp: kv_hit_updates_def res_bind_Inr_iff kv_key_not_Nil split: option.splits dest!: res_map_Inr_in)

lemma kv_publish_twice:
  assumes run: "kv_publish clock c obs w = (Inr report, w1)" and ready: "adapter_ready c w"
    and id: "ko_observation_id obs \<noteq> []"
    and ok: "\<forall>r \<in> set (report_results report). write_settled r"
  shows "\<exists>report2. kv_publish clock c obs w1 = (Inr report2, w1) \<and>
    (\<forall>r \<in> set (report_results report2). replayed r)"
proof -
  let ?loc = "\<lambda>kv. act_map (kv_location_step clock c obs kv) (ko_locations obs)"
  let ?req = "\<lambda>kv. act_map (kv_request_step clock c obs kv) (ko_request_ids obs)"
  obtain kv owner bs hits located uses wa wb wc wd where
      kv: "kv_ref (ko_kv_id obs) = Inr kv" and owner: "component_ref c = Inr owner" and
      hits: "kv_hit_updates c obs = Inr hits" and
      a: "do_upsert_entity clock (kv_entity kv owner obs) w = (Inr (), wa)" and
      b: "do_bind kv [(''kv_id'', ko_kv_id obs), (''trace_id'', ko_trace_id obs)] wa = (Inr bs, wb)" and
      l: "?loc kv wb = (Inr located, wc)" and q: "?req kv wc = (Inr uses, wd)" and
      fin: "finish_publish c (kv_updates c obs kv (map fst located) @ hits) (map snd located @ uses)
        (ko_watermark obs) (ko_observed_at obs) wd = (Inr report, w1)"
    using run by (auto simp: kv_publish_def act_bind_Inr_iff act_then_Inr_iff)
  have ll: "later.obeys (?loc kv)" "later.settled (?loc kv)"
    by (intro later.obeys_map later.settled_map later_kv_location_step settled_kv_location_step)+
  have lq: "later.obeys (?req kv)" "later.settled (?req kv)"
    by (intro later.obeys_map later.settled_map later_kv_request_step settled_kv_request_step)+
  have d1: "later_world wd w1" using later_finish fin by (rule later.obeysD)
  have c1: "later_world wc w1"
    using later.obeysD [OF lq(1) q] d1 by (rule later.R_trans)
  have b1: "later_world wb w1"
    using later.obeysD [OF ll(1) l] c1 by (rule later.R_trans)
  have a1: "later_world wa w1" using later.obeysD [OF later_bind b] b1 by (rule later.R_trans)
  have "world_run w wa" using runs_upsert_entity a by (rule runs.obeysD)
  moreover have "world_run wa wd"
    using runs.obeysD [OF runs_bind b] later.obeysD [OF ll(1) l] later.obeysD [OF lq(1) q]
    by (meson later_world_def runs.R_trans)
  ultimately have "plane_inv (aw_plane wd)"
    using ready world_run_keeps(1) runs.R_trans by (metis adapter_ready_def)
  moreover have "\<forall>u \<in> set (kv_updates c obs kv (map fst located) @ hits). su_idempotency_key u \<noteq> []"
    using id kv_updates_keys kv_hit_updates_keys [OF hits] by auto
  moreover have "\<forall>u \<in> set (map snd located @ uses). ru_idempotency_key u \<noteq> []"
    using act_map_Inr_in [OF l] act_map_Inr_in [OF q] id kv_location_step_key kv_request_step_key
    by fastforce
  ultimately obtain report2 where "finish_publish c (kv_updates c obs kv (map fst located) @ hits)
        (map snd located @ uses) (ko_watermark obs) (ko_observed_at obs) w1 = (Inr report2, w1)"
      "\<forall>r \<in> set (report_results report2). replayed r"
    using finish_publish_again [OF fin _ ok] by blast
  moreover have "?loc kv w1 = (Inr located, w1)"
    using ll(2) l c1 by (rule later.settledD)
  moreover have "?req kv w1 = (Inr uses, w1)"
    using lq(2) q d1 by (rule later.settledD)
  ultimately show ?thesis
    using kv owner hits later.settledD [OF settled_upsert_entity a a1] later.settledD [OF settled_do_bind b b1]
    by (auto simp: kv_publish_def act_bind_Inr_iff act_then_Inr_iff)
qed

end
