(* ===== verification/SF_Observability_Bridge.thy ===== *)
theory SF_Observability_Bridge
  imports SF_Graph SF_Serving_Adapters SF_Cluster_Adapters
begin

text \<open>
  The composition root of \<open>stateflow/adapters/bridge.py\<close>: the four adapters over one plane and one
  resolver, and the materialized view of a request.
\<close>

section \<open>Construction\<close>

definition runtime_adapter_id :: string where
  "runtime_adapter_id = ''stateflow-runtime-adapter''"

definition kv_adapter_id :: string where
  "kv_adapter_id = ''stateflow-kv-adapter''"

definition deployment_adapter_id :: string where
  "deployment_adapter_id = ''stateflow-kubernetes-adapter''"

definition hardware_adapter_id :: string where
  "hardware_adapter_id = ''stateflow-dcgm-adapter''"

definition bridge_init :: "(int \<Rightarrow> datetime) \<Rightarrow> unit adapter_action" where
  "bridge_init clock =
     act_then (adapter_init clock (runtime_adapter_descriptor runtime_adapter_id))
    (act_then (adapter_init clock (kv_adapter_descriptor kv_adapter_id))
    (act_then (adapter_init clock (deployment_adapter_descriptor deployment_adapter_id))
       (adapter_init clock (hardware_adapter_descriptor hardware_adapter_id))))"

text \<open>A client of the bridge publishes an observation with the adapter it is meant for.\<close>

datatype adapter_observation =
    RuntimeObservation runtime_observation
  | KVObservation kv_observation
  | DeploymentObservation deployment_observation
  | HardwareObservation hardware_observation

fun bridge_publish :: "(int \<Rightarrow> datetime) \<Rightarrow> adapter_observation \<Rightarrow> publish_report adapter_action" where
  "bridge_publish clock (RuntimeObservation obs) = runtime_publish clock runtime_adapter_id obs"
| "bridge_publish clock (KVObservation obs) = kv_publish clock kv_adapter_id obs"
| "bridge_publish clock (DeploymentObservation obs) = deployment_publish clock deployment_adapter_id obs"
| "bridge_publish clock (HardwareObservation obs) = hardware_publish clock hardware_adapter_id obs"

section \<open>The materialized view of a request\<close>

record materialized_view =
  mv_request_ref :: string
  mv_graph :: graph_query_result
  mv_snapshot :: snapshot

definition bridge_default_keys :: "string list" where
  "bridge_default_keys =
     [''request.*'', ''runtime.*'', ''kv.*'', ''node.*'', ''instance.*'', ''resource.*'', ''link.*'']"

definition materialize_request ::
  "datetime \<Rightarrow> string \<Rightarrow> string \<Rightarrow> string list \<Rightarrow> int \<Rightarrow> source_authority \<Rightarrow> materialized_view adapter_action" where
  "materialize_request now uuid12 request_id keys depth min_authority w =
     (case (case resolver_resolve (aw_resolver w) ''request_id'' request_id of
              Some ref \<Rightarrow> Inr ref
            | None \<Rightarrow> request_ref request_id) of
        Inl e \<Rightarrow> (Inl e, w)
      | Inr ref \<Rightarrow>
     (case query_graph (aw_plane w) [ref] [] depth [] of
        Inl e \<Rightarrow> (Inl e, w)
      | Inr graph \<Rightarrow>
          let entities = map ge_ref (gq_entities graph) in
          if entities = [] then (Inl (KeyError (''request is not materialized: '' @ request_id)), w)
          else
            let (p, snapshot) = get_snapshot now uuid12 (aw_plane w)
                  \<lparr>sq_entities = entities, sq_keys = keys, sq_max_age_ms = [],
                   sq_min_authority = min_authority, sq_include_relations = True\<rparr>
            in (res_bind (query_graph p [ref] [] depth (sn_token snapshot)) (\<lambda>frozen. Inr
                  \<lparr>mv_request_ref = ref, mv_graph = frozen, mv_snapshot = snapshot\<rparr>),
                w\<lparr>aw_plane := p\<rparr>)))"

end
