(* ===== verification/SF_Bridge_Lemmas.thy ===== *)
theory SF_Bridge_Lemmas
  imports SF_Adapter_Publishing SF_Observability_Bridge
begin

text \<open>
  When the hardware and deployment adapters return, and the adapters together.
\<close>

chapter \<open>Topology adapters\<close>

text \<open>
  When the hardware and the deployment adapter return: like the KV and the runtime adapter, whenever
  the identifiers they are given are not blank.
\<close>

section \<open>The hardware adapter\<close>

definition hardware_observation_valid :: "hardware_observation \<Rightarrow> bool" where
  "hardware_observation_valid obs \<longleftrightarrow> str_strip (ho_node_id obs) \<noteq> [] \<and>
     (ho_peer_node_id obs = [] \<or> str_strip (ho_peer_node_id obs) \<noteq> [])"

text \<open>An identifier with a visible character in its middle is not blank.\<close>

lemma str_strip_Nil_iff: "str_strip s = [] \<longleftrightarrow> (\<forall>c \<in> set s. py_space c)"
proof (cases "dropWhile py_space s = []")
  case True
  then have "\<forall>c \<in> set s. py_space c" by (simp only: dropWhile_eq_Nil_conv)
  moreover have "str_strip s = []" unfolding str_strip_def True by simp
  ultimately show ?thesis by blast
next
  case False
  then have "hd (dropWhile py_space s) \<in> set (dropWhile py_space s)" "\<not> py_space (hd (dropWhile py_space s))"
    using hd_dropWhile [of py_space s] by auto
  moreover from this have "hd (dropWhile py_space s) \<in> set s" using set_dropWhileD by metis
  ultimately show ?thesis unfolding str_strip_def by (simp only: rev_is_Nil_conv dropWhile_eq_Nil_conv) force
qed

lemma composite_not_blank: "\<not> py_space c \<Longrightarrow> c \<in> set s \<Longrightarrow> str_strip s \<noteq> []"
  by (auto simp: str_strip_Nil_iff)

lemma ok_hardware_link_step:
  assumes "ho_peer_node_id obs \<noteq> [] \<Longrightarrow> str_strip (ho_peer_node_id obs) \<noteq> []"
    and node: "wf_entity (new_entity node DEPLOYMENT ''node'')"
  shows "act_ok (adapter_ready c) (hardware_link_step clock c obs node)
    (\<lambda>(rs, us). length rs = (if ho_peer_node_id obs = [] \<or> ho_effective_bandwidth obs = None then 0 else 1))"
proof (cases "ho_peer_node_id obs = [] \<or> ho_effective_bandwidth obs = None")
  case True
  then show ?thesis
    by (cases "ho_effective_bandwidth obs") (auto simp: hardware_link_step_def intro!: act_ok_return)
next
  case False
  then obtain bw where bw: "ho_effective_bandwidth obs = Some bw" and peer: "ho_peer_node_id obs \<noteq> []"
    by auto
  let ?link = "ho_node_id obs @ ''->'' @ ho_peer_node_id obs"
  obtain p where p: "node_ref (ho_peer_node_id obs) = Inr p"
    using assms(1) peer by (auto simp: ref_defs entity_ref_total)
  have "\<not> py_space (CHR ''>'')" by (simp add: py_space_def Let_def)
  then have "str_strip ?link \<noteq> []" by (rule composite_not_blank) simp
  then obtain l where l: "link_ref ?link = Inr l" by (auto simp: ref_defs entity_ref_total)
  have wfp: "wf_entity ((new_entity p DEPLOYMENT ''node'')\<lparr>ge_labels := s\<rparr>)" for s
    using p adapter_entity_types by (auto intro!: wf_new_entity simp: new_entity_def ref_defs)
  have wfl: "wf_entity ((new_entity l DEPLOYMENT ''link'')\<lparr>ge_lifecycle := s', ge_labels := s\<rparr>)" for s s'
    using l adapter_entity_types by (auto intro!: wf_new_entity simp: new_entity_def ref_defs)
  have bind: "act_ok (adapter_ready c) (do_bind p [(''node_id'', ho_peer_node_id obs)]) (\<lambda>_. True)"
      "act_ok (adapter_ready c) (do_bind l [(''link_id'', ?link)]) (\<lambda>_. True)"
    using p l by (auto intro!: ok_bind_ref simp: ref_defs canonical_binding_def)
  show ?thesis
    unfolding hardware_link_step_def Let_def bw option.case if_not_P [OF peer]
    by (rule act_ok_lift_bind [OF p] act_ok_lift_bind [OF l] act_ok_then [OF ok_ensure_entity [OF wfp]]
        act_ok_then [OF ok_upsert_entity [OF wfl]] act_ok_then [OF bind(1)] act_ok_then [OF bind(2)]
        act_ok_return)+ (simp add: peer)
qed

lemma ok_hardware_publish:
  assumes valid: "hardware_observation_valid obs"
  shows "act_ok (adapter_ready c) (hardware_publish clock c obs)
    (\<lambda>r. length (pr_relation_results r)
       = 1 + (if ho_peer_node_id obs = [] \<or> ho_effective_bandwidth obs = None then 0 else 1))"
proof -
  obtain n where n: "node_ref (ho_node_id obs) = Inr n"
    using valid by (auto simp: hardware_observation_valid_def ref_defs entity_ref_total)
  have "\<not> py_space (CHR ''g'')" by (simp add: py_space_def Let_def)
  then have "str_strip (hardware_resource_id obs) \<noteq> []"
    by (rule composite_not_blank) (simp add: hardware_resource_id_def)
  then obtain r where r: "resource_ref (hardware_resource_id obs) = Inr r"
    by (auto simp: ref_defs entity_ref_total)
  have wfn: "wf_entity ((new_entity n DEPLOYMENT ''node'')\<lparr>ge_labels := s\<rparr>)"
      "wf_entity (new_entity n DEPLOYMENT ''node'')" for s
    using n adapter_entity_types by (auto intro!: wf_new_entity simp: new_entity_def ref_defs)
  have wfr: "wf_entity (hardware_entity r n obs)"
    using r adapter_entity_types
    by (auto intro!: wf_new_entity simp: hardware_entity_def new_entity_def ref_defs)
  have bind: "act_ok (adapter_ready c) (do_bind n [(''node_id'', ho_node_id obs)]) (\<lambda>_. True)"
      "act_ok (adapter_ready c) (do_bind r
         [(''resource_id'', hardware_resource_id obs), (''gpu_id'', ho_gpu_id obs)]) (\<lambda>_. True)"
    using n r by (auto intro!: ok_bind_ref simp: ref_defs canonical_binding_def)
  have link: "act_ok (adapter_ready c) (hardware_link_step clock c obs n)
      (\<lambda>(rs, us). length rs = (if ho_peer_node_id obs = [] \<or> ho_effective_bandwidth obs = None then 0 else 1))"
    using valid wfn(2) unfolding hardware_observation_valid_def by (blast intro: ok_hardware_link_step)
  show ?thesis
    unfolding hardware_publish_def
    by (rule act_ok_lift_bind [OF n] act_ok_lift_bind [OF r] act_ok_then [OF ok_ensure_entity [OF wfn(1)]]
        act_ok_then [OF ok_upsert_entity [OF wfr]] act_ok_then [OF bind(1)] act_ok_then [OF bind(2)]
        act_ok_bind [OF link])+ (auto intro!: act_ok_weaken [OF ok_finish])
qed

section \<open>The deployment adapter\<close>

definition deployment_observation_valid :: "deployment_observation \<Rightarrow> bool" where
  "deployment_observation_valid obs \<longleftrightarrow>
     str_strip (dep_cluster_id obs) \<noteq> [] \<and> str_strip (dep_node_id obs) \<noteq> [] \<and>
     (dep_instance_id obs = [] \<or> str_strip (dep_instance_id obs) \<noteq> []) \<and>
     (dep_runtime_id obs = [] \<or> str_strip (dep_runtime_id obs) \<noteq> [])"

definition deployment_relation_count :: "deployment_observation \<Rightarrow> nat" where
  "deployment_relation_count obs =
     (if dep_instance_id obs = [] then 0 else if dep_runtime_id obs = [] then 1 else 2)"

lemma ok_deployment_runtime_step:
  assumes "rt = [] \<or> runtime_ref (dep_runtime_id obs) = Inr rt"
  shows "act_ok (adapter_ready c) (deployment_runtime_step clock c obs rt inst)
    (\<lambda>rs. length rs = (if rt = [] then 0 else 1))"
proof (cases "rt = []")
  case False
  then have rt: "runtime_ref (dep_runtime_id obs) = Inr rt" using assms by simp
  have wf: "wf_entity ((new_entity rt COMPONENT ''component'')\<lparr>ge_labels := s\<rparr>)" for s
    using rt adapter_entity_types by (auto intro!: wf_new_entity simp: new_entity_def ref_defs)
  have bind: "act_ok (adapter_ready c) (do_bind rt [(''component_id'', dep_runtime_id obs)]) (\<lambda>_. True)"
    using rt by (intro ok_bind_ref) (auto simp: ref_defs canonical_binding_def)
  show ?thesis
    unfolding deployment_runtime_step_def using False
    by (auto intro!: act_ok_then [OF ok_ensure_entity [OF wf]] act_ok_then [OF bind] act_ok_return)
qed (auto simp: deployment_runtime_step_def intro!: act_ok_return)

lemma ok_deployment_instance_step:
  assumes valid: "deployment_observation_valid obs"
  shows "act_ok (adapter_ready c) (deployment_instance_step clock c obs node)
    (\<lambda>(inst, rs). length rs = deployment_relation_count obs)"
proof (cases "dep_instance_id obs = []")
  case True
  then show ?thesis
    by (auto simp: deployment_instance_step_def deployment_relation_count_def intro!: act_ok_return)
next
  case False
  then obtain i where i: "instance_ref (dep_instance_id obs) = Inr i"
    using valid by (auto simp: deployment_observation_valid_def ref_defs entity_ref_total)
  obtain rt where rt: "(if dep_runtime_id obs \<noteq> [] then runtime_ref (dep_runtime_id obs) else Inr []) = Inr rt"
    using valid by (cases "dep_runtime_id obs = []")
      (auto simp: deployment_observation_valid_def ref_defs entity_ref_total)
  have wf: "wf_entity (deployment_instance_entity i rt node obs)"
    using i adapter_entity_types
    by (auto intro!: wf_new_entity simp: deployment_instance_entity_def new_entity_def ref_defs)
  have bind: "act_ok (adapter_ready c) (do_bind i
      [(''instance_id'', dep_instance_id obs), (''pod_uid'', dep_pod_uid obs)]) (\<lambda>_. True)"
    using i by (intro ok_bind_ref) (auto simp: ref_defs canonical_binding_def)
  have step: "act_ok (adapter_ready c) (deployment_runtime_step clock c obs rt i)
      (\<lambda>rs. length rs = (if rt = [] then 0 else 1))"
    using rt by (intro ok_deployment_runtime_step) (auto split: if_splits)
  have count: "deployment_relation_count obs = (if rt = [] then 1 else 2)"
    using False rt entity_ref_not_Nil
    by (auto simp: deployment_relation_count_def runtime_ref_def split: if_splits)
  show ?thesis
    unfolding deployment_instance_step_def if_not_P [OF False]
    by (rule act_ok_lift_bind [OF i] act_ok_lift_bind [OF rt] act_ok_then [OF ok_upsert_entity [OF wf]]
        act_ok_then [OF bind] act_ok_bind [OF step] act_ok_return)+ (simp add: count)
qed

lemma ok_deployment_publish:
  assumes valid: "deployment_observation_valid obs"
  shows "act_ok (adapter_ready c) (deployment_publish clock c obs)
    (\<lambda>r. length (pr_relation_results r) = 1 + deployment_relation_count obs)"
proof -
  obtain k n where k: "cluster_ref (dep_cluster_id obs) = Inr k" and n: "node_ref (dep_node_id obs) = Inr n"
    using valid by (auto simp: deployment_observation_valid_def ref_defs entity_ref_total)
  have wf: "wf_entity (deployment_cluster_entity k obs)" "wf_entity (deployment_node_entity n k obs)"
    using k n adapter_entity_types
    by (auto intro!: wf_new_entity simp: deployment_cluster_entity_def deployment_node_entity_def
        new_entity_def ref_defs)
  have bind: "act_ok (adapter_ready c) (do_bind k [(''cluster_id'', dep_cluster_id obs)]) (\<lambda>_. True)"
      "act_ok (adapter_ready c) (do_bind n [(''node_id'', dep_node_id obs)]) (\<lambda>_. True)"
    using k n by (auto intro!: ok_bind_ref simp: ref_defs canonical_binding_def)
  show ?thesis
    unfolding deployment_publish_def
    by (rule act_ok_lift_bind [OF k] act_ok_lift_bind [OF n] act_ok_then [OF ok_upsert_entity [OF wf(1)]]
        act_ok_then [OF ok_upsert_entity [OF wf(2)]] act_ok_then [OF bind(1)] act_ok_then [OF bind(2)]
        act_ok_bind [OF ok_deployment_instance_step [OF valid]])+
      (auto intro!: act_ok_weaken [OF ok_finish])
qed

chapter \<open>The adapters together\<close>

text \<open>
  The adapters together over one plane and one resolver: constructing them on a fresh plane returns
  and registers each, and an observation published by one of them leaves all of them ready.
\<close>

section \<open>Construction\<close>

text \<open>A world the adapters work in, whatever is registered.\<close>

definition world_inv :: "adapter_world \<Rightarrow> bool" where
  "world_inv w \<longleftrightarrow> plane_inv (aw_plane w) \<and> resolver_inv (aw_resolver w) \<and>
     canonical_resolver (aw_resolver w) \<and> components_keyed (aw_plane w)"

lemma adapter_ready_iff: "adapter_ready c w \<longleftrightarrow> world_inv w \<and> dict_has (pl_components (aw_plane w)) c"
  by (auto simp: adapter_ready_def world_inv_def)

lemma list_components_dict:
  assumes "dict_get (pl_components p) c = None" "components_keyed p"
  shows "dict_get (foldl (\<lambda>m d. dict_set m (cd_component_id d) d) [] (list_components p)) c = None"
proof -
  have "c \<notin> fst ` set (pl_components p)" using assms(1) by (simp add: dict_get_None_iff)
  then have "c \<notin> cd_component_id ` set (list_components p)"
    using assms(2) by (force simp: list_components_def components_keyed_def)
  then show ?thesis by (simp add: pydict.get_foldl_put_notin)
qed

lemma adapter_init_returns:
  assumes inv: "world_inv w" and new: "dict_get (pl_components (aw_plane w)) (cd_component_id d) = None"
    and id: "str_strip (cd_component_id d) \<noteq> []"
  shows "\<exists>w'. adapter_init clock d w = (Inr (), w') \<and> world_inv w' \<and>
    (\<forall>c. dict_has (pl_components (aw_plane w')) c \<longleftrightarrow> c = cd_component_id d \<or> dict_has (pl_components (aw_plane w)) c)"
proof -
  let ?p1 = "(aw_plane w)\<lparr>pl_components := dict_set (pl_components (aw_plane w)) (cd_component_id d) d\<rparr>"
  obtain ref where ref: "component_ref (cd_component_id d) = Inr ref"
    using id by (auto simp: ref_defs entity_ref_total)
  have reg: "register_component (aw_plane w) d = Inr ?p1"
    using new by (simp add: register_component_def)
  then have "world_inv (w\<lparr>aw_plane := ?p1\<rparr>)"
    using inv by (auto simp: world_inv_def intro: plane_runs.step_inv plane_step_components(2)
        plane_step.register_component)
  then have ready1: "adapter_ready (cd_component_id d) (w\<lparr>aw_plane := ?p1\<rparr>)"
    by (simp add: adapter_ready_iff)
  have wf: "wf_entity (adapter_entity ref (cd_kind d))"
    using ref adapter_entity_types by (auto intro!: wf_new_entity simp: adapter_entity_def new_entity_def ref_defs)
  obtain w' where up: "do_upsert_entity clock (adapter_entity ref (cd_kind d)) (w\<lparr>aw_plane := ?p1\<rparr>) = (Inr (), w')"
      and ready: "adapter_ready (cd_component_id d) w'"
    using act_okD [OF ok_upsert_entity [OF wf, of _ clock] ready1] by auto
  have "pl_components (aw_plane w') = pl_components ?p1"
    using do_upsert_entity_Inr [OF up]
    by (auto simp: upsert_entity_def Let_def case_prod_beta split: option.splits if_splits)
  moreover have "adapter_init clock d w = (Inr (), w')"
    using reg ref up list_components_dict [OF new] inv
    by (simp add: adapter_init_def act_then_def act_bind_def act_lift_def do_register_component_def
        world_inv_def Let_def)
  ultimately show ?thesis using ready by (auto simp: adapter_ready_iff)
qed

definition bridge_ids :: "string list" where
  "bridge_ids = [runtime_adapter_id, kv_adapter_id, deployment_adapter_id, hardware_adapter_id]"

definition bridge_ready :: "adapter_world \<Rightarrow> bool" where
  "bridge_ready w \<longleftrightarrow> (\<forall>c \<in> set bridge_ids. adapter_ready c w)"

lemmas bridge_id_defs = bridge_ids_def runtime_adapter_id_def kv_adapter_id_def
  deployment_adapter_id_def hardware_adapter_id_def

lemma bridge_ids_distinct: "distinct bridge_ids" "list_all (\<lambda>c. str_strip c \<noteq> []) bridge_ids"
  by code_simp+

lemma descriptor_ids:
  "cd_component_id (runtime_adapter_descriptor c) = c" "cd_component_id (kv_adapter_descriptor c) = c"
  "cd_component_id (deployment_adapter_descriptor c) = c" "cd_component_id (hardware_adapter_descriptor c) = c"
  by (simp_all add: runtime_adapter_descriptor_def kv_adapter_descriptor_def
      deployment_adapter_descriptor_def hardware_adapter_descriptor_def adapter_descriptor_def new_descriptor_def)

lemma bridge_init_returns:
  assumes "world_inv w" "pl_components (aw_plane w) = []"
  shows "\<exists>w'. bridge_init clock w = (Inr (), w') \<and> bridge_ready w'"
proof -
  note init = adapter_init_returns [where clock = clock]
  have ids: "str_strip runtime_adapter_id \<noteq> []" "str_strip kv_adapter_id \<noteq> []"
      "str_strip deployment_adapter_id \<noteq> []" "str_strip hardware_adapter_id \<noteq> []"
    using bridge_ids_distinct(2) by (simp_all add: bridge_ids_def)
  have none: "dict_get (pl_components p) c = None \<longleftrightarrow> \<not> dict_has (pl_components p) c" for p c
    by (simp add: dict_has_def)
  have ne: "kv_adapter_id \<noteq> runtime_adapter_id" "deployment_adapter_id \<noteq> runtime_adapter_id"
      "deployment_adapter_id \<noteq> kv_adapter_id" "hardware_adapter_id \<noteq> runtime_adapter_id"
      "hardware_adapter_id \<noteq> kv_adapter_id" "hardware_adapter_id \<noteq> deployment_adapter_id"
    using bridge_ids_distinct(1) by (auto simp: bridge_ids_def)
  obtain w1 where 1: "adapter_init clock (runtime_adapter_descriptor runtime_adapter_id) w = (Inr (), w1)"
      "world_inv w1" "\<And>c. dict_has (pl_components (aw_plane w1)) c \<longleftrightarrow> c = runtime_adapter_id"
    using init [of w "runtime_adapter_descriptor runtime_adapter_id"] assms ids
    by (auto simp: descriptor_ids dict_has_def)
  obtain w2 where 2: "adapter_init clock (kv_adapter_descriptor kv_adapter_id) w1 = (Inr (), w2)"
      "world_inv w2" "\<And>c. dict_has (pl_components (aw_plane w2)) c \<longleftrightarrow>
         c \<in> {runtime_adapter_id, kv_adapter_id}"
    using init [of w1 "kv_adapter_descriptor kv_adapter_id"] 1(2,3) ids ne
    by (auto simp: descriptor_ids none)
  obtain w3 where 3: "adapter_init clock (deployment_adapter_descriptor deployment_adapter_id) w2 = (Inr (), w3)"
      "world_inv w3" "\<And>c. dict_has (pl_components (aw_plane w3)) c \<longleftrightarrow>
         c \<in> {runtime_adapter_id, kv_adapter_id, deployment_adapter_id}"
    using init [of w2 "deployment_adapter_descriptor deployment_adapter_id"] 2(2,3) ids ne
    by (auto simp: descriptor_ids none)
  obtain w4 where 4: "adapter_init clock (hardware_adapter_descriptor hardware_adapter_id) w3 = (Inr (), w4)"
      "world_inv w4" "\<And>c. dict_has (pl_components (aw_plane w4)) c \<longleftrightarrow> c \<in> set bridge_ids"
    using init [of w3 "hardware_adapter_descriptor hardware_adapter_id"] 3(2,3) ids ne
    by (auto simp: descriptor_ids none bridge_ids_def)
  have "bridge_init clock w = (Inr (), w4)"
    using 1(1) 2(1) 3(1) 4(1) by (simp add: bridge_init_def act_then_def act_bind_def)
  then show ?thesis using 4(2,3) by (auto simp: bridge_ready_def adapter_ready_iff)
qed

section \<open>Publishing through the bridge\<close>

fun observation_valid :: "adapter_observation \<Rightarrow> bool" where
  "observation_valid (RuntimeObservation obs) = runtime_observation_valid obs"
| "observation_valid (KVObservation obs) = kv_observation_valid obs"
| "observation_valid (DeploymentObservation obs) = deployment_observation_valid obs"
| "observation_valid (HardwareObservation obs) = hardware_observation_valid obs"

fun observation_adapter :: "adapter_observation \<Rightarrow> string" where
  "observation_adapter (RuntimeObservation _) = runtime_adapter_id"
| "observation_adapter (KVObservation _) = kv_adapter_id"
| "observation_adapter (DeploymentObservation _) = deployment_adapter_id"
| "observation_adapter (HardwareObservation _) = hardware_adapter_id"

fun observation_relations :: "adapter_observation \<Rightarrow> nat" where
  "observation_relations (RuntimeObservation obs) =
     1 + (if ro_node_id obs = [] then 0 else 1) + (if ro_request_id obs = [] then 0 else 2)"
| "observation_relations (KVObservation obs) = length (ko_locations obs) + length (ko_request_ids obs)"
| "observation_relations (DeploymentObservation obs) = 1 + deployment_relation_count obs"
| "observation_relations (HardwareObservation obs) =
     1 + (if ho_peer_node_id obs = [] \<or> ho_effective_bandwidth obs = None then 0 else 1)"

lemma runs_bridge_publish: "runs.obeys (bridge_publish clock obs)"
  by (cases obs) (simp_all add: runs_kv_publish runs_runtime_publish runs_hardware_publish
      runs_deployment_publish)

lemma ok_bridge_publish:
  assumes "observation_valid obs"
  shows "act_ok (adapter_ready (observation_adapter obs)) (bridge_publish clock obs)
    (\<lambda>r. length (pr_relation_results r) = observation_relations obs)"
  using assms ok_runtime_publish ok_hardware_publish ok_deployment_publish ok_kv_publish bridge_ids_distinct(2)
  by (cases obs) (simp_all add: bridge_ids_def)

lemma bridge_publish_ready:
  assumes "observation_valid obs"
  shows "act_ok bridge_ready (bridge_publish clock obs)
    (\<lambda>r. length (pr_relation_results r) = observation_relations obs)"
  unfolding act_ok_def
proof (intro allI impI)
  fix w assume w: "bridge_ready w"
  have "observation_adapter obs \<in> set bridge_ids" by (cases obs) (simp_all add: bridge_ids_def)
  then have "adapter_ready (observation_adapter obs) w" using w by (simp add: bridge_ready_def)
  then obtain r w' where r: "bridge_publish clock obs w = (Inr r, w')" "world_inv w'"
      "length (pr_relation_results r) = observation_relations obs"
    using act_okD [OF ok_bridge_publish [OF assms]] by (meson adapter_ready_iff)
  have "world_run w w'" using runs_bridge_publish r(1) by (rule runs.obeysD)
  then have "dict_has (pl_components (aw_plane w)) c \<Longrightarrow> dict_has (pl_components (aw_plane w')) c" for c
    unfolding world_run_def using plane_run_components by blast
  then have "bridge_ready w'" using w r(2) by (auto simp: bridge_ready_def adapter_ready_iff)
  with r show "\<exists>x w'. bridge_publish clock obs w = (Inr x, w') \<and> bridge_ready w' \<and>
      length (pr_relation_results x) = observation_relations obs" by blast
qed

end
