(* ===== verification/SF_Adapter_Properties.thy ===== *)
theory SF_Adapter_Properties
  imports SF_Bridge_Lemmas SF_Snapshot_Properties SF_Graph_Properties
begin

text \<open>
  The properties of the adapters: what an entity reference identifies, what the correlation resolver
  guarantees, and what publishing observations does to the State Plane.
\<close>

section \<open>Two observations\<close>

definition ex_kv_observation :: kv_observation where
  "ex_kv_observation =
     \<lparr>ko_kv_id = ''k'', ko_observed_at = utc 5, ko_request_ids = [''q''],
      ko_locations =
        [\<lparr>kl_identifier = ''n/gpu/0'', kl_entity_type = ''resource'', kl_tier = ''GPU_HBM'', kl_primary = False\<rparr>,
         \<lparr>kl_identifier = ''n'', kl_entity_type = ''node'', kl_tier = [], kl_primary = True\<rparr>],
      ko_size_bytes = Some 64, ko_replica_count = None, ko_cache_hit = None, ko_transfer_state = None,
      ko_soft_pin = None, ko_lifecycle = ''active'', ko_trace_id = ''t'', ko_watermark = [],
      ko_observation_id = ''o1'', ko_source_ref = None\<rparr>"

definition ex_runtime_observation :: runtime_observation where
  "ex_runtime_observation =
     \<lparr>ro_runtime_id = ''vllm'', ro_instance_id = ''i'', ro_observed_at = utc 6, ro_node_id = ''n'',
      ro_request_id = ''q'', ro_trace_id = ''t'', ro_queue_depth = Some 2, ro_running = None,
      ro_ttft_p95_seconds = None, ro_tpot_p95_seconds = None, ro_prefill_tokens_per_second = None,
      ro_decode_tokens_per_second = None, ro_kv_usage_ratio = None, ro_health = Some ''healthy'',
      ro_ready = None, ro_implementation = ''vllm'', ro_version = [], ro_watermark = [],
      ro_observation_id = [], ro_source_ref = None\<rparr>"

section \<open>References and identities\<close>

text \<open>C23: the reference an adapter builds for an entity type of a graph makes a well-formed graph
  entity, and it identifies the entity: no other graph, entity type or (stripped) identifier, whatever
  characters it contains, has the same reference.\<close>

theorem entity_reference_identifies:
  assumes "entity_ref g t i = Inr r" and "t \<in> set (allowed_entity_types g)"
  shows "graph_entity_post_init (new_entity r g t) = Inr (new_entity r g t) \<and>
    {(h, u, str_strip j) |h u j. u \<in> set (allowed_entity_types h) \<and> entity_ref h u j = Inr r}
      = {(g, t, str_strip i)}"
proof
  have "wf_entity (new_entity r g t)"
    using assms by (intro wf_new_entity [of g t i]) (simp_all add: new_entity_def)
  then show "graph_entity_post_init (new_entity r g t) = Inr (new_entity r g t)"
    by (simp add: wf_entity_def)
  have "x = (g, t, str_strip i)"
    if "u \<in> set (allowed_entity_types h)" "entity_ref h u j = Inr r" "x = (h, u, str_strip j)" for h u j x
    using entity_ref_inj [OF that(2) assms(1)] that(1,3) assms(2) entity_types_no_slash by blast
  then show "{(h, u, str_strip j) |h u j. u \<in> set (allowed_entity_types h) \<and> entity_ref h u j = Inr r}
      = {(g, t, str_strip i)}"
    using assms by blast
qed

theorem entity_reference_identifies_witness:
  "entity_ref COMPONENT ''request'' '' a/b '' = Inr ''component/request/a%2Fb'' \<and>
   graph_entity_post_init (new_entity ''component/request/a%2Fb'' COMPONENT ''request'')
     = Inr (new_entity ''component/request/a%2Fb'' COMPONENT ''request'')"
proof -
  have ref: "entity_ref COMPONENT ''request'' '' a/b '' = Inr ''component/request/a%2Fb''" by code_simp
  then show ?thesis
    using entity_reference_identifies [OF ref adapter_entity_types(2)] by blast
qed

text \<open>an identity of a unique namespace keeps its entity: binding it to another entity raises
  \<open>IdentityConflict\<close> and binds nothing, and whatever is bound afterwards, whether or not that call
  raises, the identity resolves to the entity it was bound to first.\<close>

theorem unique_identity_keeps_entity:
  assumes "resolver_inv r" and "ns \<in> set unique_namespaces" and "resolver_resolve r ns v = Some e"
    and "str_strip raw = v" and "e' \<notin> {[], e}"
  shows "resolver_bind r e' [(ns, raw)] = (Inl identity_conflict, r) \<and>
    (\<forall>e'' ids. resolver_resolve (snd (resolver_bind r e'' ids)) ns v = Some e)"
proof
  have "sort (bound_to r (ns, v)) = [e]"
    using assms(3) by (auto simp: resolver_resolve_def resolve_all_def split: list.splits)
  then have "length (bound_to r (ns, v)) = 1" "set (bound_to r (ns, v)) = {e}"
    by (metis length_sort One_nat_def length_Cons list.size(3), metis set_sort list.set(1,2))
  then have bound: "bound_to r (ns, v) = [e]" by (cases "bound_to r (ns, v)") auto
  then have "v \<noteq> []" using assms(1) unfolding resolver_inv_def by (metis list.distinct(1))
  then show "resolver_bind r e' [(ns, raw)] = (Inl identity_conflict, r)"
    using bound assms(2,4,5) by (auto simp: resolver_bind_def Let_def)
  show "\<forall>e'' ids. resolver_resolve (snd (resolver_bind r e'' ids)) ns v = Some e"
  proof (intro allI)
    fix e'' ids
    let ?r = "snd (resolver_bind r e'' ids)"
    have "set (bound_to r (ns, v)) \<subseteq> set (bound_to ?r (ns, v))"
      using resolver_bind_grows [of r e'' ids] unfolding bindings.grows_def by blast
    moreover have "length (bound_to ?r (ns, v)) \<le> 1"
      using resolver_bind_inv [OF assms(1), of e'' ids] assms(2) by (simp add: resolver_inv_def)
    ultimately have "bound_to ?r (ns, v) = [e]"
      using bound by (cases "bound_to ?r (ns, v)") auto
    then show "resolver_resolve ?r ns v = Some e"
      by (simp add: resolver_resolve_def resolve_all_def)
  qed
qed

theorem unique_identity_keeps_entity_witness:
  "resolver_bind [((''kv_id'', ''k''), [''component/stateful_object/k''])] ''component/request/k''
     [(''kv_id'', '' k '')]
   = (Inl identity_conflict, [((''kv_id'', ''k''), [''component/stateful_object/k''])])"
proof -
  let ?r = "[((''kv_id'', ''k''), [''component/stateful_object/k''])] :: resolver"
  have "resolver_inv ?r"
    by (auto simp: resolver_inv_def bound_to_def dict_get_or_def dict_distinct_def)
  moreover have "''kv_id'' \<in> set unique_namespaces" by (simp add: unique_namespaces_def)
  moreover have "resolver_resolve ?r ''kv_id'' ''k'' = Some ''component/stateful_object/k''"
    by (simp add: resolver_resolve_def resolve_all_def bound_to_def dict_get_or_def)
  moreover have "str_strip '' k '' = ''k''" by code_simp
  ultimately show ?thesis
    using unique_identity_keeps_entity [of ?r "''kv_id''" "''k''" "''component/stateful_object/k''"
        "'' k ''" "''component/request/k''"]
    by simp
qed

section \<open>Publishing\<close>

text \<open>C21: whatever a client publishes through the bridge, and whether or not the call raises, the plane
  moves by a run of its own operations, so that everything proved of such runs holds, and the resolver
  keeps its invariant and its bindings. The same holds of constructing the bridge.\<close>

theorem adapters_refine_plane:
  "world_run w (snd (bridge_publish clock obs w)) \<and> world_run w (snd (bridge_init clock w))"
proof
  show "world_run w (snd (bridge_publish clock obs w))"
    using runs_bridge_publish by (simp add: runs.obeys_def)
  have "runs.obeys (bridge_init clock)"
    unfolding bridge_init_def by (intro runs.obeys_then runs_adapter_init)
  then show "world_run w (snd (bridge_init clock w))" by (simp add: runs.obeys_def)
qed

text \<open>C20: over a fresh plane and a fresh resolver, constructing the bridge and publishing any
  sequence of observations whose identifiers are not blank always returns: no identity conflict and no
  other exception can occur between the adapters, each report accounts for every relation of its
  observation, and all invariants hold at the end.\<close>

theorem bridge_always_publishes:
  assumes "plane_init reg a b c d = Inr p" and "list_all observation_valid obs"
  shows "\<exists>w0 reports w. bridge_init clock \<lparr>aw_plane = p, aw_resolver = new_resolver\<rparr> = (Inr (), w0) \<and>
    act_map (bridge_publish clock) obs w0 = (Inr reports, w) \<and>
    map (length \<circ> pr_relation_results) reports = map observation_relations obs \<and>
    plane_inv (aw_plane w) \<and> resolver_inv (aw_resolver w)"
proof -
  have "world_inv \<lparr>aw_plane = p, aw_resolver = new_resolver\<rparr>" "pl_components p = []"
    using assms(1) plane_init_inv [OF assms(1)] canonical_new resolver_inv_new
    by (auto simp: world_inv_def plane_init_def components_keyed_def split: if_splits)
  then obtain w0 where w0: "bridge_init clock \<lparr>aw_plane = p, aw_resolver = new_resolver\<rparr> = (Inr (), w0)"
      "bridge_ready w0"
    using bridge_init_returns [of "\<lparr>aw_plane = p, aw_resolver = new_resolver\<rparr>" clock] by auto
  have "act_ok bridge_ready (act_map (bridge_publish clock) obs)
      (\<lambda>rs. map (length \<circ> pr_relation_results) rs = map observation_relations obs)"
    using assms(2)
  proof (induction obs)
    case (Cons x xs)
    then show ?case
      by (auto intro!: act_ok_bind [OF bridge_publish_ready] act_ok_bind [OF Cons.IH] act_ok_return)
  qed (simp add: act_ok_return)
  then obtain rs w where "act_map (bridge_publish clock) obs w0 = (Inr rs, w)" "bridge_ready w"
      "map (length \<circ> pr_relation_results) rs = map observation_relations obs"
    using w0(2) by (meson act_okD)
  then show ?thesis
    using w0(1) by (auto simp: bridge_ready_def bridge_ids_def adapter_ready_def)
qed

theorem bridge_always_publishes_witness:
  "\<exists>w0 reports w. bridge_init (\<lambda>_. utc 0) \<lparr>aw_plane = ex_plane0, aw_resolver = new_resolver\<rparr> = (Inr (), w0) \<and>
    act_map (bridge_publish (\<lambda>_. utc 0)) [KVObservation ex_kv_observation, RuntimeObservation ex_runtime_observation] w0
      = (Inr reports, w) \<and>
    map (length \<circ> pr_relation_results) reports = [3, 4] \<and>
    plane_inv (aw_plane w) \<and> resolver_inv (aw_resolver w)"
proof -
  have "list_all observation_valid
      [KVObservation ex_kv_observation, RuntimeObservation ex_runtime_observation]"
    by code_simp
  note run = bridge_always_publishes [OF ex_plane0_init this, of "\<lambda>_. utc 0"]
  have "map observation_relations
      [KVObservation ex_kv_observation, RuntimeObservation ex_runtime_observation] = [3, 4]"
    by (simp add: ex_kv_observation_def ex_runtime_observation_def)
  with run show ?thesis by simp
qed

text \<open>C22: publishing a KV observation that carries an identifier is idempotent: once it has been
  published and every write was accepted or already known, publishing it again returns a report of
  duplicates only and leaves the plane and the resolver exactly as they are, the change log and the
  revision included.\<close>

theorem kv_republish_changes_nothing:
  assumes "kv_publish clock c obs w = (Inr report, w1)" and "adapter_ready c w"
    and "ko_observation_id obs \<noteq> []"
    and "\<forall>r \<in> set (report_results report). wr_accepted r \<or> wr_duplicate r"
  shows "\<exists>again. kv_publish clock c obs w1 = (Inr again, w1) \<and> report_accepted again = 0 \<and>
    (\<forall>r \<in> set (report_results again). wr_duplicate r)"
proof -
  obtain again where again: "kv_publish clock c obs w1 = (Inr again, w1)"
      "\<forall>r \<in> set (report_results again). replayed r"
    using kv_publish_twice [OF assms(1-3)] assms(4) by (auto simp: write_settled_def)
  have "sum_list (map (\<lambda>x. if wr_accepted x then 1 else 0) rs) = (0 :: int)"
    if "\<forall>r \<in> set rs. replayed r" for rs
    using that by (induction rs) (auto simp: replayed_def)
  with again show ?thesis by (auto simp: report_accepted_def replayed_def)
qed

definition ex_kv_descriptor :: component_descriptor where
  "ex_kv_descriptor = kv_adapter_descriptor ''kv''"

definition ex_kv_world :: adapter_world where
  "ex_kv_world = \<lparr>aw_plane = ex_plane0\<lparr>pl_components := [(''kv'', ex_kv_descriptor)]\<rparr>,
     aw_resolver = new_resolver\<rparr>"

lemma ex_kv_world_ready: "adapter_ready ''kv'' ex_kv_world"
proof -
  have "register_component ex_plane0 ex_kv_descriptor = Inr (aw_plane ex_kv_world)"
    by (simp add: register_component_def ex_kv_world_def ex_plane0_def ex_kv_descriptor_def descriptor_ids)
  then have "plane_inv (aw_plane ex_kv_world)"
    using ex_invs(1) by (blast intro: plane_runs.step_inv plane_step.register_component)
  then show ?thesis
    by (simp add: adapter_ready_def ex_kv_world_def resolver_inv_new canonical_new components_keyed_def
        ex_kv_descriptor_def descriptor_ids dict_has_def)
qed

lemma ex_kv_first_publish:
  "map_option (\<lambda>r. map wr_accepted (report_results r))
     (case fst (kv_publish (\<lambda>_. utc 0) ''kv'' (ex_kv_observation\<lparr>ko_locations := []\<rparr>) ex_kv_world) of
        Inr r \<Rightarrow> Some r | Inl _ \<Rightarrow> None) = Some [True, True]"
  by code_simp

theorem kv_republish_changes_nothing_witness:
  "\<exists>report w1 again.
     kv_publish (\<lambda>_. utc 0) ''kv'' (ex_kv_observation\<lparr>ko_locations := []\<rparr>) ex_kv_world = (Inr report, w1) \<and>
     map wr_accepted (report_results report) = [True, True] \<and>
     kv_publish (\<lambda>_. utc 0) ''kv'' (ex_kv_observation\<lparr>ko_locations := []\<rparr>) w1 = (Inr again, w1) \<and>
     report_accepted again = 0"
proof -
  let ?obs = "ex_kv_observation\<lparr>ko_locations := []\<rparr>"
  obtain report w1 where run: "kv_publish (\<lambda>_. utc 0) ''kv'' ?obs ex_kv_world = (Inr report, w1)"
      "map wr_accepted (report_results report) = [True, True]"
    using ex_kv_first_publish
    by (cases "kv_publish (\<lambda>_. utc 0) ''kv'' ?obs ex_kv_world") (auto split: sum.splits)
  have "\<forall>r \<in> set (report_results report). wr_accepted r"
    using run(2) by (metis (no_types, lifting) list.set_map image_eqI list.simps(15) empty_iff insert_iff
        list.set(1))
  then have "\<forall>r \<in> set (report_results report). wr_accepted r \<or> wr_duplicate r" by blast
  moreover have "ko_observation_id ?obs \<noteq> []" by (simp add: ex_kv_observation_def)
  ultimately obtain again where "kv_publish (\<lambda>_. utc 0) ''kv'' ?obs w1 = (Inr again, w1)"
      "report_accepted again = 0"
    using kv_republish_changes_nothing [OF run(1) ex_kv_world_ready] by blast
  with run show ?thesis
    by (intro exI [of _ report] exI [of _ w1] exI [of _ again]) simp
qed

section \<open>The materialized view\<close>

lemma include_relations_subset:
  "snd ` set (include_relations rels allowed frontier included) \<subseteq> snd ` set included \<union> set rels"
proof -
  have "snd ` set (foldl (\<lambda>m r. dict_set m (relation_key r) r) d rs) \<subseteq> snd ` set d \<union> set rs" for d rs
  proof (induction rs arbitrary: d)
    case (Cons r rs)
    have "snd ` set (foldl (\<lambda>m r. dict_set m (relation_key r) r) (dict_set d (relation_key r) r) rs)
        \<subseteq> snd ` set (dict_set d (relation_key r) r) \<union> set rs" by (rule Cons.IH)
    moreover have "snd ` set (dict_set d (relation_key r) r) \<subseteq> insert r (snd ` set d)"
      by (rule snd_dict_set)
    ultimately show ?case by auto
  qed simp
  then show ?thesis unfolding include_relations_def by (rule order_trans) auto
qed

lemma graph_search_visits: "visited \<subseteq> fst (graph_search rels allowed n visited frontier included)"
proof (induction n arbitrary: visited frontier included)
  case (Suc n)
  let ?nxt = "next_frontier rels allowed frontier - visited"
  have "visited \<union> ?nxt \<subseteq> fst (graph_search rels allowed n (visited \<union> ?nxt) ?nxt
      (include_relations rels allowed frontier included))" by (rule Suc.IH)
  then show ?case by (simp add: Let_def)
qed simp

lemma graph_search_relations:
  "snd ` set (snd (graph_search rels allowed n visited frontier included)) \<subseteq> snd ` set included \<union> set rels"
proof (induction n arbitrary: visited frontier included)
  case (Suc n)
  let ?inc = "include_relations rels allowed frontier included"
  let ?nxt = "next_frontier rels allowed frontier - visited"
  have "snd ` set (snd (graph_search rels allowed n (visited \<union> ?nxt) ?nxt ?inc)) \<subseteq> snd ` set ?inc \<union> set rels"
    by (rule Suc.IH)
  moreover note include_relations_subset [of rels allowed frontier included]
  ultimately show ?case by (simp only: graph_search.simps Let_def snd_conv split: if_split) blast
qed simp

text \<open>materializing a request that the plane knows returns a view frozen in one snapshot: the
  snapshot is stored and readable by its token, the view's graph was read from it, holds the request's
  own entity, and every relation in it was fresh when the snapshot was taken.\<close>

theorem materialized_view_frozen:
  assumes "plane_inv (aw_plane w)" and "dict_has (pl_entities (aw_plane w)) ref"
    and "resolver_resolve (aw_resolver w) ''request_id'' i = Some ref \<or>
      resolver_resolve (aw_resolver w) ''request_id'' i = None \<and> request_ref i = Inr ref"
  shows "\<exists>view w'. materialize_request now uuid12 i keys depth authority w = (Inr view, w') \<and>
    read_snapshot (aw_plane w') (sn_token (mv_snapshot view)) = Inr (mv_snapshot view) \<and>
    gq_snapshot_token (mv_graph view) = sn_token (mv_snapshot view) \<and>
    ref \<in> ge_ref ` set (gq_entities (mv_graph view)) \<and>
    (\<forall>r \<in> set (gq_relations (mv_graph view)).
       r \<in> set (sn_relations (mv_snapshot view)) \<and> relation_is_fresh r now)"
proof -
  let ?p = "aw_plane w"
  obtain e where e: "dict_get (pl_entities ?p) ref = Some e"
    using assms(2) by (auto simp: dict_has_def)
  have root: "ref \<in> ge_ref ` set (gq_entities g)"
    if "query_graph q [ref] [] depth t = Inr g" "pl_entities q = pl_entities ?p" for q t g
  proof -
    have "(ref, e) \<in> set (pl_entities ?p)" using e by (rule dict_get_Some_in)
    moreover have "ref \<in> fst (graph_search rels {} n {ref} {ref} [])" for rels n
      using graph_search_visits [of "{ref}"] by auto
    moreover have "ge_ref e = ref" using assms(1) e by (auto simp: plane_inv_def entities_inv_def)
    ultimately show ?thesis using that by (force simp: query_graph_def res_bind_Inr_iff case_prod_beta)
  qed
  obtain g where g: "query_graph ?p [ref] [] depth [] = Inr g"
    by (auto simp: query_graph_def case_prod_beta)
  let ?req = "\<lparr>sq_entities = map ge_ref (gq_entities g), sq_keys = keys, sq_max_age_ms = [],
     sq_min_authority = authority, sq_include_relations = True\<rparr>"
  let ?s = "build_snapshot now uuid12 ?p ?req" and ?q = "store_snapshot ?p (build_snapshot now uuid12 ?p ?req)"
  have read: "read_snapshot ?q (sn_token ?s) = Inr ?s"
    using assms(1) by (simp add: read_snapshot_def store_snapshot_def plane_inv_def bounds_inv_def
        dict_get_trim_last)
  have token: "sn_token ?s \<noteq> []" by (simp add: build_snapshot_def Let_def snapshot_token_def)
  obtain f where f: "query_graph ?q [ref] [] depth (sn_token ?s) = Inr f"
      "gq_snapshot_token f = sn_token ?s"
    using read token by (auto simp: query_graph_def case_prod_beta)
  have "set (gq_relations f) \<subseteq> set (sn_relations ?s)"
    using f(1) read token graph_search_relations [of "sn_relations ?s" "{}" "nat (max 0 depth)" "{ref}" "{ref}" "[]"]
    by (auto simp: query_graph_def case_prod_beta)
  moreover have "set (sn_relations ?s) \<subseteq> {r. relation_is_fresh r now}"
    by (auto simp: build_snapshot_def Let_def snap_relations_def)
  moreover have "ref \<in> ge_ref ` set (gq_entities f)"
    by (rule root [OF f(1)]) (simp add: store_snapshot_def)
  moreover have "gq_entities g \<noteq> []" using root [OF g refl] by auto
  ultimately show ?thesis
    using assms(3) g f read
    by (intro exI [of _ "\<lparr>mv_request_ref = ref, mv_graph = f, mv_snapshot = ?s\<rparr>"] exI [of _ "w\<lparr>aw_plane := ?q\<rparr>"])
      (auto simp: materialize_request_def get_snapshot_def Let_def)
qed

theorem materialized_view_frozen_witness:
  "\<exists>view w'. materialize_request (utc 20) ''u'' ''a'' [''size''] 1 LOG_HINT
      \<lparr>aw_plane = ex_plane3, aw_resolver = [((''request_id'', ''a''), [ex_kv])]\<rparr> = (Inr view, w') \<and>
    ex_kv \<in> ge_ref ` set (gq_entities (mv_graph view))"
proof -
  let ?w = "\<lparr>aw_plane = ex_plane3, aw_resolver = [((''request_id'', ''a''), [ex_kv])]\<rparr>"
  have "dict_has (pl_entities ex_plane3) ex_kv" by code_simp
  moreover have "resolver_resolve (aw_resolver ?w) ''request_id'' ''a'' = Some ex_kv"
    by (simp add: resolver_resolve_def resolve_all_def bound_to_def dict_get_or_def)
  ultimately show ?thesis
    using materialized_view_frozen [of ?w ex_kv "''a''" "utc 20" "''u''" "[''size'']" 1 LOG_HINT] ex_invs(4)
    by auto
qed

end
