(* ===== verification/SF_Py_Float.thy ===== *)
theory SF_Py_Float
  imports SF_Entity_Refs
begin

text \<open>
  Python floats that need not be finite, and the conversions between dynamic values.
\<close>

chapter \<open>Floats\<close>

text \<open>
  Python floats where the code meets values that are not finite: the parser of \<open>float(s)\<close>, the
  arithmetic and the comparisons used on parsed numbers, and \<open>str.replace\<close>, \<open>str.splitlines\<close>. A
  finite float is a real, so rounding is not modelled; infinities and NaN follow IEEE 754.
\<close>

section \<open>Values\<close>

datatype pyfloat = NegInf | Finite real | PosInf | NaN

text \<open>The order of \<open>sorted\<close>; a NaN, which Python does not order, is placed last.\<close>

fun float_rank :: "pyfloat \<Rightarrow> nat" where
  "float_rank NegInf = 0"
| "float_rank (Finite _) = 1"
| "float_rank PosInf = 2"
| "float_rank NaN = 3"

fun float_magnitude :: "pyfloat \<Rightarrow> real" where
  "float_magnitude (Finite x) = x"
| "float_magnitude _ = 0"

instantiation pyfloat :: linorder
begin

definition less_eq_pyfloat :: "pyfloat \<Rightarrow> pyfloat \<Rightarrow> bool" where
  "less_eq_pyfloat a b \<longleftrightarrow> float_rank a < float_rank b \<or>
     float_rank a = float_rank b \<and> float_magnitude a \<le> float_magnitude b"

definition less_pyfloat :: "pyfloat \<Rightarrow> pyfloat \<Rightarrow> bool" where
  "less_pyfloat a b \<longleftrightarrow> float_rank a < float_rank b \<or>
     float_rank a = float_rank b \<and> float_magnitude a < float_magnitude b"

instance
proof
  fix a b :: pyfloat
  show "a \<le> b \<Longrightarrow> b \<le> a \<Longrightarrow> a = b"
    by (cases a; cases b) (auto simp: less_eq_pyfloat_def)
qed (auto simp: less_eq_pyfloat_def less_pyfloat_def)

end

lemmas float_order = less_eq_pyfloat_def less_pyfloat_def

lemma Finite_le_iff [simp]: "Finite x \<le> Finite y \<longleftrightarrow> x \<le> y" "Finite x < Finite y \<longleftrightarrow> x < y"
  by (simp_all add: float_order)

text \<open>Comparisons: every comparison with a NaN is false.\<close>

definition float_lt :: "pyfloat \<Rightarrow> pyfloat \<Rightarrow> bool" where
  "float_lt a b \<longleftrightarrow> a \<noteq> NaN \<and> b \<noteq> NaN \<and> a < b"

definition float_le :: "pyfloat \<Rightarrow> pyfloat \<Rightarrow> bool" where
  "float_le a b \<longleftrightarrow> a \<noteq> NaN \<and> b \<noteq> NaN \<and> a \<le> b"

fun is_finite :: "pyfloat \<Rightarrow> bool" where
  "is_finite (Finite _) = True"
| "is_finite _ = False"

fun float_neg :: "pyfloat \<Rightarrow> pyfloat" where
  "float_neg NegInf = PosInf"
| "float_neg PosInf = NegInf"
| "float_neg NaN = NaN"
| "float_neg (Finite x) = Finite (- x)"

fun float_add :: "pyfloat \<Rightarrow> pyfloat \<Rightarrow> pyfloat" where
  "float_add (Finite x) (Finite y) = Finite (x + y)"
| "float_add NaN _ = NaN"
| "float_add _ NaN = NaN"
| "float_add PosInf NegInf = NaN"
| "float_add NegInf PosInf = NaN"
| "float_add PosInf _ = PosInf"
| "float_add _ PosInf = PosInf"
| "float_add NegInf _ = NegInf"
| "float_add _ NegInf = NegInf"

definition float_sub :: "pyfloat \<Rightarrow> pyfloat \<Rightarrow> pyfloat" where
  "float_sub a b = float_add a (float_neg b)"

definition signed_inf :: "bool \<Rightarrow> pyfloat" where
  "signed_inf positive = (if positive then PosInf else NegInf)"

fun float_mul :: "pyfloat \<Rightarrow> pyfloat \<Rightarrow> pyfloat" where
  "float_mul (Finite x) (Finite y) = Finite (x * y)"
| "float_mul NaN _ = NaN"
| "float_mul _ NaN = NaN"
| "float_mul PosInf PosInf = PosInf"
| "float_mul NegInf NegInf = PosInf"
| "float_mul PosInf NegInf = NegInf"
| "float_mul NegInf PosInf = NegInf"
| "float_mul PosInf (Finite y) = (if y = 0 then NaN else signed_inf (0 < y))"
| "float_mul (Finite y) PosInf = (if y = 0 then NaN else signed_inf (0 < y))"
| "float_mul NegInf (Finite y) = (if y = 0 then NaN else signed_inf (y < 0))"
| "float_mul (Finite y) NegInf = (if y = 0 then NaN else signed_inf (y < 0))"

text \<open>Division by a divisor that is not zero, as the code only divides.\<close>

fun float_div :: "pyfloat \<Rightarrow> pyfloat \<Rightarrow> pyfloat" where
  "float_div (Finite x) (Finite y) = Finite (x / y)"
| "float_div NaN _ = NaN"
| "float_div _ NaN = NaN"
| "float_div (Finite _) _ = Finite 0"
| "float_div PosInf (Finite y) = signed_inf (0 < y)"
| "float_div NegInf (Finite y) = signed_inf (y < 0)"
| "float_div _ _ = NaN"

definition float_sum :: "pyfloat list \<Rightarrow> pyfloat" where
  "float_sum vs = foldl float_add (Finite 0) vs"

text \<open>\<open>max(values)\<close>: a later value replaces the maximum only when it compares greater.\<close>

definition float_max :: "pyfloat \<Rightarrow> pyfloat list \<Rightarrow> pyfloat" where
  "float_max v vs = foldl (\<lambda>m x. if float_lt m x then x else m) v vs"

section \<open>\<open>float(s)\<close>\<close>

text \<open>A run of digits in which single underscores may separate digits: the digits and the rest.\<close>

fun digit_run :: "string \<Rightarrow> string \<times> string" where
  "digit_run [] = ([], [])"
| "digit_run (c # s) =
     (if is_digit_char c then
        (case s of
           u # d # s' \<Rightarrow>
             if u = CHR ''_'' \<and> is_digit_char d
             then (let (ds, r) = digit_run (d # s') in (c # ds, r))
             else (let (ds, r) = digit_run s in (c # ds, r))
         | _ \<Rightarrow> (let (ds, r) = digit_run s in (c # ds, r)))
      else ([], c # s))"

definition take_sign :: "string \<Rightarrow> bool \<times> string" where
  "take_sign s =
     (case s of
        c # r \<Rightarrow> if c = CHR ''-'' then (True, r) else if c = CHR ''+'' then (False, r) else (False, s)
      | [] \<Rightarrow> (False, s))"

text \<open>The exponent part: its value and the rest; no exponent when the syntax does not fit.\<close>

definition take_exponent :: "string \<Rightarrow> int \<times> string" where
  "take_exponent s =
     (case s of
        c # r \<Rightarrow>
          if c = CHR ''e'' \<or> c = CHR ''E'' then
            (let (negative, r1) = take_sign r; (ds, r2) = digit_run r1 in
             if ds = [] then (0, s)
             else (if negative then - digits_value ds else digits_value ds, r2))
          else (0, s)
      | [] \<Rightarrow> (0, s))"

definition power10 :: "int \<Rightarrow> real" where
  "power10 e = (if 0 \<le> e then 10 ^ nat e else 1 / 10 ^ nat (- e))"

definition parse_unsigned :: "string \<Rightarrow> pyfloat option" where
  "parse_unsigned s =
     (if str_lower s \<in> {''inf'', ''infinity''} then Some PosInf
      else if str_lower s = ''nan'' then Some NaN
      else
        let (whole, r1) = digit_run s;
            (fraction, r2) = (case r1 of
                c # r \<Rightarrow> if c = CHR ''.'' then digit_run r else ([], r1)
              | [] \<Rightarrow> ([], r1));
            (exponent, rest) = take_exponent r2
        in if (whole = [] \<and> fraction = []) \<or> rest \<noteq> [] then None
           else Some (Finite (real_of_int (digits_value (whole @ fraction))
                  * power10 (exponent - int (length fraction)))))"

definition parse_float :: "string \<Rightarrow> pyfloat res" where
  "parse_float s =
     (let (negative, r) = take_sign (str_strip s) in
      case parse_unsigned r of
        None \<Rightarrow> Inl (ValueError (''could not convert string to float: '' @ s))
      | Some v \<Rightarrow> Inr (if negative then float_neg v else v))"

section \<open>String operations\<close>

text \<open>\<open>s.replace(old, new)\<close> for a non-empty \<open>old\<close>: left to right, without overlap.\<close>

function str_replace :: "string \<Rightarrow> string \<Rightarrow> string \<Rightarrow> string" where
  "str_replace old new [] = []"
| "str_replace old new (c # s) =
     (if old \<noteq> [] \<and> str_startswith (c # s) old
      then new @ str_replace old new (drop (length old) (c # s))
      else c # str_replace old new s)"
  by pat_completeness auto
termination
  by (relation "measure (\<lambda>(old, new, s). length s)") auto

text \<open>The line boundaries of \<open>str.splitlines\<close>, within the code points below 256.\<close>

definition line_break :: "char \<Rightarrow> bool" where
  "line_break c \<longleftrightarrow> (let n = (of_char c :: nat) in
     (10 \<le> n \<and> n \<le> 13) \<or> (28 \<le> n \<and> n \<le> 30) \<or> n = 133)"

function str_splitlines :: "string \<Rightarrow> string list" where
  "str_splitlines s =
     (if s = [] then []
      else
        let line = takeWhile (\<lambda>c. \<not> line_break c) s;
            rest = dropWhile (\<lambda>c. \<not> line_break c) s
        in line # (case rest of
              [] \<Rightarrow> []
            | [c] \<Rightarrow> []
            | c # d # r \<Rightarrow>
                if of_char c = (13 :: nat) \<and> of_char d = (10 :: nat) then str_splitlines r
                else str_splitlines (d # r)))"
  by pat_completeness auto
termination
proof (relation "measure length"; (simp; fail)?)
  fix s line rest :: string and c d r and e :: string
  assume "rest = dropWhile (\<lambda>c. \<not> line_break c) s" "rest = c # e" "e = d # r"
  then have "length (c # d # r) \<le> length s"
    using length_dropWhile_le [of "\<lambda>c. \<not> line_break c" s] by simp
  then show "(r, s) \<in> measure length" "(d # r, s) \<in> measure length" by simp_all
qed

declare str_splitlines.simps [simp del]

chapter \<open>Conversions\<close>

text \<open>
  Conversions of dynamic values: truth, iteration, \<open>str\<close>, \<open>int\<close> and \<open>float\<close> of a value decoded from
  JSON. The text of a float, a list or a mapping is CPython's \<open>repr\<close> and is left to the argument
  \<open>text\<close>; the other texts are written out.
\<close>

fun py_truthy :: "pyval \<Rightarrow> bool" where
  "py_truthy PNone = False"
| "py_truthy (PBool b) = b"
| "py_truthy (PInt i) = (i \<noteq> 0)"
| "py_truthy (PFloat x) = (x \<noteq> 0)"
| "py_truthy PNonFinite = True"
| "py_truthy (PStr s) = (s \<noteq> [])"
| "py_truthy (PTime _) = True"
| "py_truthy (PList xs) = (xs \<noteq> [])"
| "py_truthy (PDict d) = (d \<noteq> [])"

definition py_or :: "pyval \<Rightarrow> pyval \<Rightarrow> pyval" where
  "py_or a b = (if py_truthy a then a else b)"

fun py_iter :: "pyval \<Rightarrow> pyval list res" where
  "py_iter (PList xs) = Inr xs"
| "py_iter (PDict d) = Inr (map (\<lambda>(k, _). PStr k) d)"
| "py_iter (PStr s) = Inr (map (\<lambda>c. PStr [c]) s)"
| "py_iter _ = Inl (TypeError ''object is not iterable'')"

fun py_str :: "(pyval \<Rightarrow> string) \<Rightarrow> pyval \<Rightarrow> string" where
  "py_str text (PStr s) = s"
| "py_str text (PInt i) = show_int i"
| "py_str text (PBool b) = (if b then ''True'' else ''False'')"
| "py_str text PNone = ''None''"
| "py_str text v = text v"

text \<open>\<open>d.get(key, default)\<close> on a decoded mapping.\<close>

definition item_get :: "(string, pyval) dict \<Rightarrow> string \<Rightarrow> pyval \<Rightarrow> pyval" where
  "item_get d key fallback = dict_get_or d key fallback"

definition overflow_error :: exc where
  "overflow_error = OtherException ''OverflowError''"

text \<open>\<open>int(x)\<close> of a float: towards zero.\<close>

definition truncate :: "real \<Rightarrow> int" where
  "truncate x = (if 0 \<le> x then \<lfloor>x\<rfloor> else \<lceil>x\<rceil>)"

fun int_of_float :: "pyfloat \<Rightarrow> int res" where
  "int_of_float (Finite x) = Inr (truncate x)"
| "int_of_float NaN = Inl (ValueError ''cannot convert float NaN to integer'')"
| "int_of_float _ = Inl overflow_error"

definition parse_int :: "string \<Rightarrow> int res" where
  "parse_int s =
     (let (negative, r) = take_sign (str_strip s); (ds, rest) = digit_run r in
      if ds = [] \<or> rest \<noteq> [] then Inl (ValueError ''invalid literal for int()'')
      else Inr (if negative then - digits_value ds else digits_value ds))"

text \<open>The constructor \<open>PNonFinite\<close> does not tell NaN from an infinity; both conversions fail.\<close>

fun py_int :: "pyval \<Rightarrow> int res" where
  "py_int (PInt i) = Inr i"
| "py_int (PBool b) = Inr (if b then 1 else 0)"
| "py_int (PFloat x) = Inr (truncate x)"
| "py_int PNonFinite = Inl (ValueError ''cannot convert float to integer'')"
| "py_int (PStr s) = parse_int s"
| "py_int _ = Inl (TypeError ''int() argument must be a string or a number'')"

fun float_value :: "pyfloat \<Rightarrow> pyval" where
  "float_value (Finite x) = PFloat x"
| "float_value _ = PNonFinite"

fun py_float :: "pyval \<Rightarrow> pyfloat res" where
  "py_float (PInt i) = Inr (Finite (real_of_int i))"
| "py_float (PBool b) = Inr (Finite (if b then 1 else 0))"
| "py_float (PFloat x) = Inr (Finite x)"
| "py_float PNonFinite = Inr NaN"
| "py_float (PStr s) = parse_float s"
| "py_float _ = Inl (TypeError ''float() argument must be a string or a number'')"

definition str_rstrip :: "char \<Rightarrow> string \<Rightarrow> string" where
  "str_rstrip c s = rev (dropWhile (\<lambda>x. x = c) (rev s))"

definition str_endswith :: "string \<Rightarrow> string \<Rightarrow> bool" where
  "str_endswith s suffix \<longleftrightarrow> length suffix \<le> length s \<and> drop (length s - length suffix) s = suffix"

definition removesuffix :: "string \<Rightarrow> string \<Rightarrow> string" where
  "removesuffix suffix s = take (length s - length suffix) s"

end
