(* ===== verification/SF_Prometheus.thy ===== *)
theory SF_Prometheus
  imports SF_Py_Float
begin

text \<open>
  Reading observation sources: Prometheus text and the declarative source profiles.
\<close>

chapter \<open>Prometheus text\<close>

text \<open>
  Prometheus text: the parser, the aggregations and the histogram quantile of
  \<open>stateflow/adapters/source.py\<close>. The two regular expressions match deterministically but for the
  greedy \<open>\{(.*)\}\<close>, whose closing brace is the last one that leaves a well-formed rest. The HTTP
  functions of the file are I/O and are not modelled.
\<close>

record prometheus_sample =
  ps_name :: string
  ps_labels :: "(string, string) dict"
  ps_value :: pyfloat

type_synonym prometheus_snapshot = "prometheus_sample list"

abbreviation source_client_error :: exc where
  "source_client_error \<equiv> OtherException ''SourceClientError''"

section \<open>Parsing\<close>

definition name_start :: "char \<Rightarrow> bool" where
  "name_start c \<longleftrightarrow> (let n = (of_char c :: nat) in
     (65 \<le> n \<and> n \<le> 90) \<or> (97 \<le> n \<and> n \<le> 122) \<or> c = CHR ''_'' \<or> c = CHR '':'')"

definition name_char :: "char \<Rightarrow> bool" where
  "name_char c \<longleftrightarrow> name_start c \<or> is_digit_char c"

text \<open>\<open>\w\<close>, within the code points below 256.\<close>

definition word_char :: "char \<Rightarrow> bool" where
  "word_char c \<longleftrightarrow> (let n = (of_char c :: nat) in
     is_digit_char c \<or> (65 \<le> n \<and> n \<le> 90) \<or> (97 \<le> n \<and> n \<le> 122) \<or> n = 95 \<or>
     n \<in> {170, 178, 179, 181, 185, 186, 188, 189, 190} \<or>
     (192 \<le> n \<and> n \<noteq> 215 \<and> n \<noteq> 247))"

text \<open>\<open>\s+([^\s]+)(?:\s+\d+)?$\<close>: the value token.\<close>

definition match_value :: "string \<Rightarrow> string option" where
  "match_value s =
     (let r1 = dropWhile py_space s;
          token = takeWhile (\<lambda>c. \<not> py_space c) r1;
          r2 = dropWhile (\<lambda>c. \<not> py_space c) r1;
          stamp = dropWhile py_space r2
      in if s = r1 \<or> token = [] then None
         else if r2 = [] then Some token
         else if stamp \<noteq> [] \<and> list_all is_digit_char stamp then Some token
         else None)"

text \<open>\<open>\{(.*)\}\<close> and the value: the split at the last closing brace that fits.\<close>

definition match_braces :: "string \<Rightarrow> (string \<times> string) option" where
  "match_braces s =
     (case filter (\<lambda>i. s ! i = CHR ''}'' \<and> match_value (drop (Suc i) s) \<noteq> None) (rev [0..<length s]) of
        [] \<Rightarrow> None
      | i # _ \<Rightarrow> map_option (\<lambda>v. (take i s, v)) (match_value (drop (Suc i) s)))"

definition match_sample :: "string \<Rightarrow> (string \<times> string \<times> string) option" where
  "match_sample line =
     (case line of
        [] \<Rightarrow> None
      | c # _ \<Rightarrow>
          if \<not> name_start c then None
          else
            let name = takeWhile name_char line; r = dropWhile name_char line in
            (case r of
               [] \<Rightarrow> None
             | b # r' \<Rightarrow>
                 if b = CHR ''{'' then map_option (\<lambda>(raw, v). (name, raw, v)) (match_braces r')
                 else map_option (\<lambda>v. (name, [], v)) (match_value r)))"

text \<open>\<open>((?:\\.|[^"\\])*)"\<close>: the raw label value up to its closing quote, and the rest.\<close>

fun match_quoted :: "string \<Rightarrow> (string \<times> string) option" where
  "match_quoted [] = None"
| "match_quoted (c # s) =
     (if c = CHR 0x22 then Some ([], s)
      else if c = CHR 0x5C then
        (case s of
           [] \<Rightarrow> None
         | d # s' \<Rightarrow> if d = CHR 0x0A then None
                     else map_option (\<lambda>(v, r). (c # d # v, r)) (match_quoted s'))
      else map_option (\<lambda>(v, r). (c # v, r)) (match_quoted s))"

definition match_label :: "string \<Rightarrow> (string \<times> string \<times> string) option" where
  "match_label s =
     (let key = takeWhile word_char s;
          r1 = dropWhile py_space (dropWhile word_char s)
      in if key = [] then None
         else case r1 of
           [] \<Rightarrow> None
         | e # r2 \<Rightarrow>
             if e \<noteq> CHR ''='' then None
             else case dropWhile py_space r2 of
               [] \<Rightarrow> None
             | q # r3 \<Rightarrow>
                 if q \<noteq> CHR 0x22 then None
                 else case match_quoted r3 of
                   None \<Rightarrow> None
                 | Some (v, r4) \<Rightarrow>
                     (case dropWhile py_space r4 of
                        c # r5 \<Rightarrow> if c = CHR '','' then Some (key, v, dropWhile py_space r5) else None
                      | [] \<Rightarrow> if r4 = [] then Some (key, v, []) else None))"

text \<open>\<open>value.replace(r"\n", "\n").replace(r'\"', '"').replace(r"\\", "\\")\<close>\<close>

definition unescape_label :: "string \<Rightarrow> string" where
  "unescape_label v =
     str_replace [CHR 0x5C, CHR 0x5C] [CHR 0x5C]
       (str_replace [CHR 0x5C, CHR 0x22] [CHR 0x22]
          (str_replace [CHR 0x5C, CHR ''n''] [CHR 0x0A] v))"

lemma match_quoted_shorter: "match_quoted s = Some (v, r) \<Longrightarrow> length r < length s"
  by (induction s arbitrary: v r rule: match_quoted.induct) (fastforce split: if_splits list.splits)+

lemma match_label_shorter: "match_label s = Some (k, v, r) \<Longrightarrow> length r < length s"
proof -
  have le: "length (dropWhile P xs) \<le> length xs" for P :: "char \<Rightarrow> bool" and xs by (rule length_dropWhile_le)
  assume "match_label s = Some (k, v, r)"
  then obtain e r2 q r3 v' r4 where
      1: "dropWhile py_space (dropWhile word_char s) = e # r2" and 2: "dropWhile py_space r2 = q # r3" and
      3: "match_quoted r3 = Some (v', r4)" and
      4: "r = [] \<or> (\<exists>c r5. dropWhile py_space r4 = c # r5 \<and> r = dropWhile py_space r5)"
    by (auto simp: match_label_def Let_def split: list.splits if_splits option.splits)
  have "length (e # r2) \<le> length s" using le [of py_space "dropWhile word_char s"] le [of word_char s] 1 by simp
  moreover have "length (q # r3) \<le> length r2" using le [of py_space r2] 2 by simp
  moreover have "length r4 < length r3" using 3 by (rule match_quoted_shorter)
  moreover have "length r \<le> length r4" using 4 le [of py_space r4] le by (metis Suc_leD le_zero_eq length_Cons list.size(3) order_trans zero_le)
  ultimately show ?thesis by simp
qed

text \<open>The loop of \<open>_parse_labels\<close>, on what is left of the raw text.\<close>

function parse_labels_from :: "string \<Rightarrow> (string, string) dict \<Rightarrow> (string, string) dict res" where
  "parse_labels_from s labels =
     (if s = [] then Inr labels
      else case match_label s of
        None \<Rightarrow> Inl source_client_error
      | Some (key, v, rest) \<Rightarrow> parse_labels_from rest (dict_set labels key (unescape_label v)))"
  by pat_completeness auto
termination
  by (relation "measure (\<lambda>(s, d). length s)") (auto dest: match_label_shorter)

declare parse_labels_from.simps [simp del]

definition parse_labels :: "string \<Rightarrow> (string, string) dict res" where
  "parse_labels raw = parse_labels_from raw []"

definition parse_sample :: "string \<Rightarrow> prometheus_sample res" where
  "parse_sample line =
     (case match_sample line of
        None \<Rightarrow> Inl source_client_error
      | Some (name, raw_labels, raw_value) \<Rightarrow>
          (case parse_float raw_value of
             Inl _ \<Rightarrow> Inl source_client_error
           | Inr v \<Rightarrow> res_bind (parse_labels raw_labels) (\<lambda>labels.
               Inr \<lparr>ps_name = name, ps_labels = labels, ps_value = v\<rparr>)))"

definition parse_prometheus :: "string \<Rightarrow> prometheus_snapshot res" where
  "parse_prometheus text =
     res_map parse_sample
       (filter (\<lambda>line. line \<noteq> [] \<and> \<not> str_startswith line ''#'') (map str_strip (str_splitlines text)))"

section \<open>Reading a snapshot\<close>

definition labels_match :: "prometheus_sample \<Rightarrow> (string, string) dict \<Rightarrow> bool" where
  "labels_match sample required = list_all (\<lambda>(k, v). dict_get (ps_labels sample) k = Some v) required"

definition sample_values :: "prometheus_snapshot \<Rightarrow> string \<Rightarrow> (string, string) dict \<Rightarrow> pyfloat list" where
  "sample_values snapshot name required =
     map ps_value (filter (\<lambda>s. ps_name s = name \<and> labels_match s required) snapshot)"

definition aggregate :: "prometheus_snapshot \<Rightarrow> string \<Rightarrow> (string, string) dict \<Rightarrow> string \<Rightarrow> pyfloat option res" where
  "aggregate snapshot name required mode =
     (case sample_values snapshot name required of
        [] \<Rightarrow> Inr None
      | v # vs \<Rightarrow>
          if mode = ''sum'' then Inr (Some (float_sum (v # vs)))
          else if mode = ''max'' then Inr (Some (float_max v vs))
          else if mode = ''avg''
            then Inr (Some (float_div (float_sum (v # vs)) (Finite (real (length (v # vs))))))
          else Inl (ValueError (''unsupported aggregation mode: '' @ mode)))"

definition bucket_bound :: "string \<Rightarrow> pyfloat res" where
  "bucket_bound raw = (if raw \<in> {''+Inf'', ''Inf''} then Inr PosInf else parse_float raw)"

text \<open>One pass of the loop that collects the buckets.\<close>

definition add_bucket ::
  "string \<Rightarrow> (string, string) dict \<Rightarrow> (pyfloat, pyfloat) dict \<Rightarrow> prometheus_sample
     \<Rightarrow> (pyfloat, pyfloat) dict res" where
  "add_bucket base_name required buckets sample =
     (if ps_name sample \<noteq> base_name @ ''_bucket'' \<or> \<not> labels_match sample required then Inr buckets
      else case dict_get (ps_labels sample) ''le'' of
        None \<Rightarrow> Inr buckets
      | Some raw \<Rightarrow> res_bind (bucket_bound raw) (\<lambda>bound.
          Inr (dict_set buckets bound
                (float_add (dict_get_or buckets bound (Finite 0)) (ps_value sample)))))"

definition collect_buckets ::
  "string \<Rightarrow> (string, string) dict \<Rightarrow> prometheus_snapshot \<Rightarrow> (pyfloat, pyfloat) dict res" where
  "collect_buckets base_name required samples =
     foldl (\<lambda>acc s. res_bind acc (\<lambda>b. add_bucket base_name required b s)) (Inr []) samples"

text \<open>The walk over the ordered buckets.\<close>

fun quantile_walk :: "pyfloat \<Rightarrow> pyfloat \<Rightarrow> pyfloat \<Rightarrow> (pyfloat \<times> pyfloat) list \<Rightarrow> pyfloat" where
  "quantile_walk target previous_bound previous_count [] = previous_bound"
| "quantile_walk target previous_bound previous_count ((bound, count) # rest) =
     (if float_lt count target
      then quantile_walk target (if is_finite bound then bound else previous_bound) count rest
      else if \<not> is_finite bound then previous_bound
      else
        let bucket_count = float_sub count previous_count in
        if float_le bucket_count (Finite 0) then bound
        else
          let fraction = float_div (float_sub target previous_count) bucket_count
          in float_add previous_bound (float_mul (float_sub bound previous_bound) fraction))"

definition histogram_quantile ::
  "prometheus_snapshot \<Rightarrow> string \<Rightarrow> real \<Rightarrow> (string, string) dict \<Rightarrow> pyfloat option res" where
  "histogram_quantile snapshot base_name quantile required =
     (if \<not> (0 \<le> quantile \<and> quantile \<le> 1) then Inl (ValueError ''quantile must be in [0, 1]'')
      else res_bind (collect_buckets base_name required snapshot) (\<lambda>buckets.
        if buckets = [] then Inr None
        else
          let ordered = sort_key fst buckets; total = snd (last ordered) in
          if float_le total (Finite 0) then Inr (Some (Finite 0))
          else Inr (Some (quantile_walk (float_mul total (Finite quantile)) (Finite 0) (Finite 0) ordered))))"

chapter \<open>Source profiles\<close>

text \<open>
  The declarative source profiles of \<open>stateflow/adapters/profiles.py\<close>: which Prometheus metrics stand
  for which runtime value, and where a KV metadata snapshot keeps its items and fields.
\<close>

section \<open>Runtime metrics\<close>

record metric_rule =
  mr_names :: "string list"
  mr_mode :: string
  mr_quantile :: "real option"
  mr_scale :: real

definition new_metric_rule :: "string list \<Rightarrow> metric_rule" where
  "new_metric_rule names = \<lparr>mr_names = names, mr_mode = ''sum'', mr_quantile = None, mr_scale = 1\<rparr>"

definition rule_value ::
  "metric_rule \<Rightarrow> prometheus_snapshot \<Rightarrow> (string, string) dict \<Rightarrow> string \<Rightarrow> pyfloat option res" where
  "rule_value rule snapshot labels name =
     (case mr_quantile rule of
        Some q \<Rightarrow> histogram_quantile snapshot name q labels
      | None \<Rightarrow> aggregate snapshot name labels (mr_mode rule))"

fun rule_read_names ::
  "metric_rule \<Rightarrow> prometheus_snapshot \<Rightarrow> (string, string) dict \<Rightarrow> string list \<Rightarrow> pyfloat option res" where
  "rule_read_names rule snapshot labels [] = Inr None"
| "rule_read_names rule snapshot labels (name # names) =
     res_bind (rule_value rule snapshot labels name) (\<lambda>v.
       case v of
         Some x \<Rightarrow> Inr (Some (float_mul x (Finite (mr_scale rule))))
       | None \<Rightarrow> rule_read_names rule snapshot labels names)"

definition rule_read ::
  "metric_rule \<Rightarrow> prometheus_snapshot \<Rightarrow> (string, string) dict \<Rightarrow> pyfloat option res" where
  "rule_read rule snapshot labels = rule_read_names rule snapshot labels (mr_names rule)"

record runtime_profile =
  rp_name :: string
  rp_source_backend :: string
  rp_queue_depth :: "metric_rule option"
  rp_running :: "metric_rule option"
  rp_ttft_p95_seconds :: "metric_rule option"
  rp_tpot_p95_seconds :: "metric_rule option"
  rp_prefill_tokens_per_second :: "metric_rule option"
  rp_decode_tokens_per_second :: "metric_rule option"
  rp_kv_usage_ratio :: "metric_rule option"

definition profile_rules :: "runtime_profile \<Rightarrow> (string, metric_rule option) dict" where
  "profile_rules p =
     [(''queue_depth'', rp_queue_depth p), (''running'', rp_running p),
      (''ttft_p95_seconds'', rp_ttft_p95_seconds p), (''tpot_p95_seconds'', rp_tpot_p95_seconds p),
      (''prefill_tokens_per_second'', rp_prefill_tokens_per_second p),
      (''decode_tokens_per_second'', rp_decode_tokens_per_second p),
      (''kv_usage_ratio'', rp_kv_usage_ratio p)]"

definition profile_project ::
  "runtime_profile \<Rightarrow> prometheus_snapshot \<Rightarrow> (string, string) dict \<Rightarrow> (string, pyfloat option) dict res" where
  "profile_project p snapshot labels =
     res_map (\<lambda>(field, rule).
         case rule of
           None \<Rightarrow> Inr (field, None)
         | Some r \<Rightarrow> res_bind (rule_read r snapshot labels) (\<lambda>v. Inr (field, v)))
       (profile_rules p)"

definition new_runtime_profile :: "string \<Rightarrow> string \<Rightarrow> runtime_profile" where
  "new_runtime_profile name backend =
     \<lparr>rp_name = name, rp_source_backend = backend, rp_queue_depth = None, rp_running = None,
      rp_ttft_p95_seconds = None, rp_tpot_p95_seconds = None, rp_prefill_tokens_per_second = None,
      rp_decode_tokens_per_second = None, rp_kv_usage_ratio = None\<rparr>"

definition p95_rule :: "string list \<Rightarrow> metric_rule" where
  "p95_rule names = (new_metric_rule names)\<lparr>mr_quantile := Some (19 / 20)\<rparr>"

definition max_rule :: "string list \<Rightarrow> metric_rule" where
  "max_rule names = (new_metric_rule names)\<lparr>mr_mode := ''max''\<rparr>"

definition VLLM_RUNTIME_PROFILE :: runtime_profile where
  "VLLM_RUNTIME_PROFILE = (new_runtime_profile ''vllm'' ''vllm-prometheus'')
     \<lparr>rp_queue_depth := Some (new_metric_rule [''vllm:num_requests_waiting'']),
      rp_running := Some (new_metric_rule [''vllm:num_requests_running'']),
      rp_ttft_p95_seconds := Some (p95_rule [''vllm:time_to_first_token_seconds'']),
      rp_tpot_p95_seconds := Some (p95_rule [''vllm:inter_token_latency_seconds'']),
      rp_kv_usage_ratio := Some (max_rule [''vllm:kv_cache_usage_perc''])\<rparr>"

definition SGLANG_RUNTIME_PROFILE :: runtime_profile where
  "SGLANG_RUNTIME_PROFILE = (new_runtime_profile ''sglang'' ''sglang-prometheus'')
     \<lparr>rp_queue_depth := Some (new_metric_rule [''sglang:num_queue_reqs'', ''sglang:num_requests_waiting'']),
      rp_running := Some (new_metric_rule [''sglang:num_running_reqs'', ''sglang:num_requests_running'']),
      rp_ttft_p95_seconds := Some (p95_rule [''sglang:time_to_first_token_seconds'']),
      rp_tpot_p95_seconds := Some (p95_rule
        [''sglang:time_per_output_token_seconds'', ''sglang:inter_token_latency_seconds'']),
      rp_decode_tokens_per_second := Some (new_metric_rule
        [''sglang:gen_throughput'', ''sglang:generation_throughput'']),
      rp_kv_usage_ratio := Some (max_rule [''sglang:token_usage'', ''sglang:kv_cache_usage_perc''])\<rparr>"

definition RAY_SERVE_RUNTIME_PROFILE :: runtime_profile where
  "RAY_SERVE_RUNTIME_PROFILE = (new_runtime_profile ''ray-serve'' ''ray-serve-prometheus'')
     \<lparr>rp_queue_depth := Some (new_metric_rule
        [''ray_serve_deployment_queued_queries'', ''ray_serve_num_queued_queries'']),
      rp_running := Some (new_metric_rule [''ray_serve_replica_processing_queries''])\<rparr>"

section \<open>KV metadata\<close>

record kv_profile =
  kp_name :: string
  kp_item_paths :: "string list list"
  kp_fields :: "(string, string list) dict"

text \<open>Following one path into nested mappings; \<open>None\<close> where it leaves them.\<close>

fun follow_path :: "pyval \<Rightarrow> string list \<Rightarrow> pyval" where
  "follow_path v [] = v"
| "follow_path v (part # path) =
     (case v of
        PDict d \<Rightarrow> (case dict_get d part of Some w \<Rightarrow> follow_path w path | None \<Rightarrow> PNone)
      | _ \<Rightarrow> PNone)"

fun first_list :: "pyval list \<Rightarrow> pyval list" where
  "first_list [] = []"
| "first_list (v # vs) = (case v of PList xs \<Rightarrow> xs | _ \<Rightarrow> first_list vs)"

definition profile_items :: "kv_profile \<Rightarrow> pyval \<Rightarrow> pyval list" where
  "profile_items p payload =
     (case payload of
        PList xs \<Rightarrow> xs
      | _ \<Rightarrow> first_list (map (follow_path payload) (kp_item_paths p)))"

fun first_alias :: "(string, pyval) dict \<Rightarrow> string list \<Rightarrow> pyval \<Rightarrow> pyval" where
  "first_alias item [] fallback = fallback"
| "first_alias item (alias # aliases) fallback =
     (case dict_get item alias of
        Some v \<Rightarrow> if v \<noteq> PNone then v else first_alias item aliases fallback
      | None \<Rightarrow> first_alias item aliases fallback)"

definition profile_value :: "kv_profile \<Rightarrow> (string, pyval) dict \<Rightarrow> string \<Rightarrow> pyval \<Rightarrow> pyval" where
  "profile_value p item field_name fallback =
     first_alias item (dict_get_or (kp_fields p) field_name [field_name]) fallback"

definition COMMON_KV_FIELDS :: "(string, string list) dict" where
  "COMMON_KV_FIELDS =
     [(''kv_id'', [''kv_id'', ''id'', ''key'']), (''request_ids'', [''request_ids'']),
      (''locations'', [''locations'']), (''size_bytes'', [''size_bytes'', ''size'']),
      (''replica_count'', [''replica_count'']), (''cache_hit'', [''cache_hit'']),
      (''transfer_state'', [''transfer_state'']), (''soft_pin'', [''soft_pin'']),
      (''lifecycle'', [''lifecycle'']), (''trace_id'', [''trace_id'']),
      (''watermark'', [''version'', ''watermark''])]"

definition NORMALIZED_KV_PROFILE :: kv_profile where
  "NORMALIZED_KV_PROFILE =
     \<lparr>kp_name = ''kv-metadata'', kp_item_paths = [[''items'']], kp_fields = COMMON_KV_FIELDS\<rparr>"

definition override_fields :: "(string, string list) dict \<Rightarrow> (string, string list) dict" where
  "override_fields own = foldl (\<lambda>d (k, v). dict_set d k v) COMMON_KV_FIELDS own"

definition MOONCAKE_KV_PROFILE :: kv_profile where
  "MOONCAKE_KV_PROFILE =
     \<lparr>kp_name = ''mooncake'',
      kp_item_paths = [[''objects''], [''data'', ''objects''], [''items'']],
      kp_fields = override_fields
        [(''kv_id'', [''object_id'', ''kv_id'', ''id'', ''key'']),
         (''request_ids'', [''request_ids'', ''requests'']),
         (''locations'', [''locations'', ''replicas'']),
         (''replica_count'', [''replica_count'', ''num_replicas'']),
         (''watermark'', [''version'', ''revision'', ''watermark''])]\<rparr>"

definition LMCACHE_KV_PROFILE :: kv_profile where
  "LMCACHE_KV_PROFILE =
     \<lparr>kp_name = ''lmcache'',
      kp_item_paths = [[''chunks''], [''entries''], [''data'', ''entries''], [''items'']],
      kp_fields = override_fields
        [(''kv_id'', [''chunk_id'', ''kv_id'', ''key'', ''id'']),
         (''request_ids'', [''request_ids'', ''requests'']),
         (''locations'', [''locations'', ''location'']),
         (''size_bytes'', [''size_bytes'', ''chunk_size'', ''size'']),
         (''replica_count'', [''replica_count'', ''num_locations'']),
         (''watermark'', [''version'', ''revision'', ''watermark''])]\<rparr>"

end
