(* ===== verification/SF_Source_Properties.thy ===== *)
theory SF_Source_Properties
  imports SF_Prometheus
begin

text \<open>
  Properties of the Prometheus reader: the quantile estimate of a cumulative histogram is well
  placed and monotone; and what the parser does with escaped label values.
\<close>

section \<open>The histogram quantile\<close>

text \<open>
  Ordered cumulative buckets after a bound and a count: the finite bounds and the counts do not
  decrease. Prometheus guarantees this of the buckets of one series.
\<close>

fun cumulative :: "real \<Rightarrow> real \<Rightarrow> (pyfloat \<times> pyfloat) list \<Rightarrow> bool" where
  "cumulative pb pc [] = True"
| "cumulative pb pc ((b, c) # rest) =
     (case (b, c) of
        (Finite x, Finite y) \<Rightarrow> pb \<le> x \<and> pc \<le> y \<and> cumulative x y rest
      | (PosInf, Finite y) \<Rightarrow> pc \<le> y \<and> cumulative pb y rest
      | _ \<Rightarrow> False)"

fun cumulative_top :: "real \<Rightarrow> (pyfloat \<times> pyfloat) list \<Rightarrow> real" where
  "cumulative_top pb [] = pb"
| "cumulative_top pb ((b, c) # rest) =
     cumulative_top (case b of Finite x \<Rightarrow> x | _ \<Rightarrow> pb) rest"

lemma cumulative_Cons_cases:
  assumes "cumulative pb pc ((b, c) # rest)"
  obtains (fin) x y where "b = Finite x" "c = Finite y" "pb \<le> x" "pc \<le> y" "cumulative x y rest"
  | (inf) y where "b = PosInf" "c = Finite y" "pc \<le> y" "cumulative pb y rest"
  using assms by (cases b; cases c) auto

lemma cumulative_top_ge: "cumulative pb pc bs \<Longrightarrow> pb \<le> cumulative_top pb bs"
proof (induction bs arbitrary: pb pc)
  case (Cons e bs)
  obtain b c where e: "e = (b, c)" by fastforce
  from Cons.prems show ?case
    unfolding e by (cases rule: cumulative_Cons_cases) (use Cons.IH in force)+
qed simp

text \<open>The estimate inside one bucket.\<close>

lemma interpolation_bounds:
  fixes pb :: real
  assumes "pb \<le> x" "pc \<le> t" "t \<le> y" "pc < y"
  shows "pb \<le> pb + (x - pb) * ((t - pc) / (y - pc))" "pb + (x - pb) * ((t - pc) / (y - pc)) \<le> x"
proof -
  let ?f = "(t - pc) / (y - pc)"
  have f: "0 \<le> ?f" "?f \<le> 1" using assms by (auto simp: divide_le_eq_1)
  show "pb \<le> pb + (x - pb) * ?f" using f assms by simp
  have "(x - pb) * ?f \<le> (x - pb) * 1" using f assms by (intro mult_left_mono) auto
  then show "pb + (x - pb) * ?f \<le> x" by simp
qed

lemma quantile_step:
  assumes "pc \<le> t" "t \<le> y"
  shows "quantile_walk (Finite t) (Finite pb) (Finite pc) ((Finite x, Finite y) # rest)
    = Finite (if y \<le> pc then x else pb + (x - pb) * ((t - pc) / (y - pc)))"
  using assms by (auto simp: float_lt_def float_le_def float_sub_def Let_def)

lemma quantile_skip:
  assumes "y < t"
  shows "quantile_walk (Finite t) (Finite pb) (Finite pc) ((b, Finite y) # rest)
    = quantile_walk (Finite t) (if is_finite b then b else Finite pb) (Finite y) rest"
  using assms by (simp add: float_lt_def)

lemma quantile_inf:
  assumes "t \<le> y"
  shows "quantile_walk (Finite t) (Finite pb) (Finite pc) ((PosInf, Finite y) # rest) = Finite pb"
  using assms by (simp add: float_lt_def)

declare quantile_walk.simps(2) [simp del]

lemma quantile_walk_within:
  assumes "cumulative pb pc bs" "pc \<le> t"
  shows "\<exists>v. quantile_walk (Finite t) (Finite pb) (Finite pc) bs = Finite v \<and>
    pb \<le> v \<and> v \<le> cumulative_top pb bs"
  using assms
proof (induction bs arbitrary: pb pc)
  case (Cons e bs)
  obtain b c where e: "e = (b, c)" by fastforce
  from Cons.prems(1) [unfolded e] show ?case
  proof (cases rule: cumulative_Cons_cases)
    case (fin x y)
    show ?thesis
    proof (cases "y < t")
      case True
      then show ?thesis
        using Cons.IH [of x y] fin unfolding e by (auto simp: quantile_skip)
    next
      case False
      then show ?thesis
        using interpolation_bounds [of pb x pc t y] fin Cons.prems(2) cumulative_top_ge [OF fin(5)]
        unfolding e by (auto simp: quantile_step intro: order_trans)
    qed
  next
    case (inf y)
    then show ?thesis
      using Cons.IH [of pb y] Cons.prems(2) cumulative_top_ge [OF inf(4)]
      unfolding e by (cases "y < t") (auto simp: quantile_skip quantile_inf)
  qed
qed simp

lemma quantile_walk_mono:
  assumes "cumulative pb pc bs" "pc \<le> t" "t \<le> t'"
    and "quantile_walk (Finite t) (Finite pb) (Finite pc) bs = Finite v"
    and "quantile_walk (Finite t') (Finite pb) (Finite pc) bs = Finite v'"
  shows "v \<le> v'"
  using assms
proof (induction bs arbitrary: pb pc)
  case (Cons e bs)
  obtain b c where e: "e = (b, c)" by fastforce
  from Cons.prems(1) [unfolded e] show ?case
  proof (cases rule: cumulative_Cons_cases)
    case (fin x y)
    consider "y < t" | "t \<le> y" "y < t'" | "t' \<le> y" using Cons.prems(3) by linarith
    then show ?thesis
    proof cases
      case 1
      then show ?thesis using Cons.IH [of x y] Cons.prems fin unfolding e by (simp add: quantile_skip)
    next
      case 2
      have "v \<le> x"
        using 2 Cons.prems(2,4) interpolation_bounds [of pb x pc t y] fin
        unfolding e by (auto simp: quantile_step split: if_splits)
      moreover have "x \<le> v'"
        using 2 Cons.prems(5) quantile_walk_within [OF fin(5), of t'] fin
        unfolding e by (auto simp: quantile_skip)
      ultimately show ?thesis by simp
    next
      case 3
      have "(x - pb) * ((t - pc) / (y - pc)) \<le> (x - pb) * ((t' - pc) / (y - pc))" if "pc < y"
        using that fin Cons.prems(3) by (intro mult_left_mono divide_right_mono) auto
      then show ?thesis
        using 3 Cons.prems(2-5) fin unfolding e by (auto simp: quantile_step split: if_splits)
    qed
  next
    case (inf y)
    consider "y < t" | "t \<le> y" "y < t'" | "t' \<le> y" using Cons.prems(3) by linarith
    then show ?thesis
    proof cases
      case 1
      then show ?thesis using Cons.IH [of pb y] Cons.prems inf unfolding e by (simp add: quantile_skip)
    next
      case 2
      then show ?thesis
        using Cons.prems(4,5) quantile_walk_within [OF inf(4), of t'] inf
        unfolding e by (auto simp: quantile_skip quantile_inf)
    next
      case 3
      then show ?thesis using Cons.prems(3-5) inf unfolding e by (simp add: quantile_inf)
    qed
  qed
qed simp

lemma cumulative_last: "cumulative pb pc bs \<Longrightarrow> bs \<noteq> [] \<Longrightarrow> \<exists>y. snd (last bs) = Finite y \<and> pc \<le> y"
proof (induction bs arbitrary: pb pc)
  case (Cons e bs)
  obtain b c where e: "e = (b, c)" by fastforce
  from Cons.prems(1) [unfolded e] show ?case
  proof (cases rule: cumulative_Cons_cases)
    case (fin x y)
    then show ?thesis using Cons.IH [of x y] e by (cases "bs = []") auto
  next
    case (inf y)
    then show ?thesis using Cons.IH [of pb y] e by (cases "bs = []") auto
  qed
qed simp

text \<open>C39: Over the buckets of a series whose bounds are not negative and whose counts are finite, not
  negative and cumulative (they do not decrease with the bound), the estimate of a quantile always
  exists, lies between zero and the largest finite bucket bound, and does not decrease with the
  quantile. The bounds have to be non-negative: the search starts at zero.\<close>

theorem histogram_quantile_monotone:
  assumes "collect_buckets base labels snapshot = Inr buckets" and "buckets \<noteq> []"
    and "cumulative 0 0 (sort_key fst buckets)" and "0 \<le> q" and "q \<le> q'" and "q' \<le> 1"
  shows "\<exists>v v'. histogram_quantile snapshot base q labels = Inr (Some (Finite v)) \<and>
    histogram_quantile snapshot base q' labels = Inr (Some (Finite v')) \<and>
    0 \<le> v \<and> v \<le> v' \<and> v' \<le> cumulative_top 0 (sort_key fst buckets)"
proof -
  let ?bs = "sort_key fst buckets"
  have ne: "?bs \<noteq> []" using assms(2) by (metis length_0_conv length_sort)
  obtain total where total: "snd (last ?bs) = Finite total" "0 \<le> total"
    using cumulative_last [OF assms(3) ne] by auto
  have top: "0 \<le> cumulative_top 0 ?bs" using assms(3) by (rule cumulative_top_ge)
  have est: "histogram_quantile snapshot base x labels =
      Inr (Some (if total \<le> 0 then Finite 0 else quantile_walk (Finite (total * x)) (Finite 0) (Finite 0) ?bs))"
    if "0 \<le> x" "x \<le> 1" for x
    using that assms(1,2) total by (simp add: histogram_quantile_def Let_def float_le_def)
  show ?thesis
  proof (cases "total \<le> 0")
    case True
    then show ?thesis using est assms(4-6) top by auto
  next
    case False
    have "total * q \<le> total * q'" using total(2) assms(5) by (rule mult_left_mono [rotated])
    moreover obtain v v' where "quantile_walk (Finite (total * q)) (Finite 0) (Finite 0) ?bs = Finite v" "0 \<le> v"
        "quantile_walk (Finite (total * q')) (Finite 0) (Finite 0) ?bs = Finite v'" "v' \<le> cumulative_top 0 ?bs"
      using quantile_walk_within [OF assms(3), of "total * q"] quantile_walk_within [OF assms(3), of "total * q'"]
        total(2) assms(4,5) by auto
    ultimately show ?thesis
      using False est assms(4-6) quantile_walk_mono [OF assms(3), of "total * q" "total * q'" v v'] total(2)
      by auto
  qed
qed

definition ex_histogram :: prometheus_snapshot where
  "ex_histogram =
     [\<lparr>ps_name = ''h_bucket'', ps_labels = [(''le'', ''+Inf'')], ps_value = Finite 4\<rparr>,
      \<lparr>ps_name = ''h_bucket'', ps_labels = [(''le'', ''0.5'')], ps_value = Finite 1\<rparr>,
      \<lparr>ps_name = ''h_bucket'', ps_labels = [(''le'', ''2'')], ps_value = Finite 3\<rparr>]"

lemma ex_histogram_buckets:
  "collect_buckets ''h'' [] ex_histogram = Inr [(PosInf, Finite 4), (Finite (1 / 2), Finite 1), (Finite 2, Finite 3)]"
  by code_simp

theorem histogram_quantile_monotone_witness:
  "\<exists>v v'. histogram_quantile ex_histogram ''h'' (1 / 2) [] = Inr (Some (Finite v)) \<and>
    histogram_quantile ex_histogram ''h'' (9 / 10) [] = Inr (Some (Finite v')) \<and> v \<le> v' \<and> v' \<le> 2"
proof -
  let ?bs = "[(PosInf, Finite 4), (Finite (1 / 2), Finite 1), (Finite 2, Finite 3)]"
  have sorted: "sort_key fst ?bs = [(Finite (1 / 2), Finite 1), (Finite 2, Finite 3), (PosInf, Finite 4)]"
    by (simp add: float_order)
  then have "cumulative 0 0 (sort_key fst ?bs)" by simp
  then show ?thesis
    using histogram_quantile_monotone [OF ex_histogram_buckets, of "1 / 2" "9 / 10"] sorted by auto
qed

text \<open>
  With a negative bound the estimate can decrease: the first bucket is taken to begin at zero, so over
  five observations at most \<open>-1\<close> the quantile 0 is estimated as 0 and the quantile 1 as \<open>-1\<close>.
\<close>

definition negative_histogram :: prometheus_snapshot where
  "negative_histogram =
     [\<lparr>ps_name = ''h_bucket'', ps_labels = [(''le'', ''-1'')], ps_value = Finite 5\<rparr>,
      \<lparr>ps_name = ''h_bucket'', ps_labels = [(''le'', ''+Inf'')], ps_value = Finite 5\<rparr>]"

lemma negative_bound_not_monotone:
  "histogram_quantile negative_histogram ''h'' 0 [] = Inr (Some (Finite 0))"
  "histogram_quantile negative_histogram ''h'' 1 [] = Inr (Some (Finite (- 1)))"
proof -
  have buckets: "collect_buckets ''h'' [] negative_histogram = Inr [(Finite (- 1), Finite 5), (PosInf, Finite 5)]"
    by code_simp
  have sorted: "sort_key fst [(Finite (- 1), Finite 5), (PosInf, Finite 5)] = [(Finite (- 1), Finite 5), (PosInf, Finite 5)]"
    by (simp add: float_order)
  show "histogram_quantile negative_histogram ''h'' 0 [] = Inr (Some (Finite 0))"
    "histogram_quantile negative_histogram ''h'' 1 [] = Inr (Some (Finite (- 1)))"
    by (simp_all add: histogram_quantile_def buckets sorted Let_def del: sort_key_simps) (code_simp+)
qed

section \<open>Escapes\<close>

text \<open>
  The replacements of \<open>_parse_labels\<close> run one after the other, so an escaped backslash followed by
  an \<open>n\<close> is read as a line break: the label value \<open>C:\new\<close>, written \<open>C:\\new\<close> in the text, comes out
  with a line break in place of its second backslash and the \<open>n\<close>.
\<close>

lemma escaped_backslash_misread:
  "map_option (\<lambda>s. dict_get (ps_labels s) ''path'')
     (case parse_sample (''m{path='' @ [CHR 0x22] @ ''C:'' @ [CHR 0x5C, CHR 0x5C] @ ''new'' @ [CHR 0x22] @ ''} 1'') of
        Inr s \<Rightarrow> Some s | Inl _ \<Rightarrow> None)
   = Some (Some (''C:'' @ [CHR 0x5C, CHR 0x0A] @ ''ew''))"
  by code_simp

end
