(* ===== verification/SF_Source_Clients.thy ===== *)
theory SF_Source_Clients
  imports SF_Prometheus SF_Py_Float SF_Observability_Bridge
begin

text \<open>
  The source clients of \<open>stateflow/adapters/clients.py\<close>: decoding a Prometheus text, a Kubernetes
  list or a KV metadata snapshot into observations, and publishing them. The HTTP fetch is I/O: its
  result, the text or the decoded JSON value, is an argument. The watermark of a text is its SHA-256
  prefix, the argument \<open>digest\<close>; \<open>utcnow()\<close> is the argument \<open>now\<close>.
\<close>

record collection_report =
  cr_source :: string
  cr_observations :: int
  cr_accepted :: int
  cr_rejected :: int
  cr_watermark :: string

definition source_endpoint :: "string \<Rightarrow> string \<Rightarrow> string" where
  "source_endpoint endpoint default_path =
     (let v = str_rstrip (CHR ''/'') endpoint in
      if str_endswith v default_path then v else v @ default_path)"

section \<open>Prometheus runtimes\<close>

record runtime_client =
  rc_endpoint :: string
  rc_runtime_id :: string
  rc_instance_id :: string
  rc_profile :: runtime_profile
  rc_metric_labels :: "(string, string) dict"
  rc_node_id :: string

definition new_runtime_client ::
  "string \<Rightarrow> string \<Rightarrow> string \<Rightarrow> runtime_profile \<Rightarrow> (string, string) dict \<Rightarrow> string \<Rightarrow> runtime_client" where
  "new_runtime_client endpoint runtime_id instance_id profile metric_labels node_id =
     \<lparr>rc_endpoint = source_endpoint endpoint ''/metrics'', rc_runtime_id = runtime_id,
      rc_instance_id = instance_id, rc_profile = profile, rc_metric_labels = metric_labels,
      rc_node_id = node_id\<rparr>"

text \<open>\<open>int(round(value))\<close>: rounding to the nearest, ties to even.\<close>

fun rounded_integer :: "pyfloat option \<Rightarrow> int option res" where
  "rounded_integer None = Inr None"
| "rounded_integer (Some (Finite x)) = Inr (Some (round_half_even x))"
| "rounded_integer (Some v) = res_bind (int_of_float v) (\<lambda>i. Inr (Some i))"

definition projected :: "(string, pyfloat option) dict \<Rightarrow> string \<Rightarrow> pyfloat option" where
  "projected values field = dict_get_or values field None"

definition runtime_collect ::
  "(string \<Rightarrow> string) \<Rightarrow> runtime_client \<Rightarrow> string \<Rightarrow> string \<Rightarrow> string \<Rightarrow> datetime \<Rightarrow> runtime_observation res" where
  "runtime_collect digest client payload request_id trace_id observed_at =
     res_bind (parse_prometheus payload) (\<lambda>metrics.
     let watermark = digest payload in
     res_bind (profile_project (rc_profile client) metrics (rc_metric_labels client)) (\<lambda>values.
     res_bind (rounded_integer (projected values ''queue_depth'')) (\<lambda>queue_depth.
     res_bind (rounded_integer (projected values ''running'')) (\<lambda>running.
     let number = (\<lambda>field. map_option float_value (projected values field)) in
     Inr \<lparr>ro_runtime_id = rc_runtime_id client, ro_instance_id = rc_instance_id client,
          ro_observed_at = observed_at, ro_node_id = rc_node_id client,
          ro_request_id = request_id, ro_trace_id = trace_id, ro_queue_depth = queue_depth,
          ro_running = running, ro_ttft_p95_seconds = number ''ttft_p95_seconds'',
          ro_tpot_p95_seconds = number ''tpot_p95_seconds'',
          ro_prefill_tokens_per_second = number ''prefill_tokens_per_second'',
          ro_decode_tokens_per_second = number ''decode_tokens_per_second'',
          ro_kv_usage_ratio = number ''kv_usage_ratio'', ro_health = Some ''healthy'',
          ro_ready = Some True, ro_implementation = rp_name (rc_profile client), ro_version = [],
          ro_watermark = watermark, ro_observation_id = watermark,
          ro_source_ref = Some \<lparr>sr_backend = rp_source_backend (rc_profile client),
            sr_reference = rc_endpoint client, sr_trace_id = trace_id, sr_span_id = []\<rparr>\<rparr>))))"

definition runtime_collect_and_publish ::
  "(int \<Rightarrow> datetime) \<Rightarrow> (string \<Rightarrow> string) \<Rightarrow> runtime_client \<Rightarrow> string \<Rightarrow> string \<Rightarrow> string \<Rightarrow> string \<Rightarrow> datetime
     \<Rightarrow> collection_report adapter_action" where
  "runtime_collect_and_publish clock digest client component_id payload request_id trace_id now =
     act_bind (act_lift (runtime_collect digest client payload request_id trace_id now)) (\<lambda>observation.
     act_bind (runtime_publish clock component_id observation) (\<lambda>report.
     act_return \<lparr>cr_source = rp_name (rc_profile client), cr_observations = 1,
       cr_accepted = report_accepted report, cr_rejected = report_rejected report,
       cr_watermark = ro_watermark observation\<rparr>))"

section \<open>Publishing a batch\<close>

text \<open>The loop the batch clients share: publish each observation, add up the reports.\<close>

definition publish_batch ::
  "('o \<Rightarrow> publish_report adapter_action) \<Rightarrow> string \<Rightarrow> string \<Rightarrow> 'o list \<Rightarrow> collection_report adapter_action" where
  "publish_batch publish source watermark observations =
     act_bind (act_map publish observations) (\<lambda>reports. act_return
       \<lparr>cr_source = source, cr_observations = int (length observations),
        cr_accepted = sum_list (map report_accepted reports),
        cr_rejected = sum_list (map report_rejected reports), cr_watermark = watermark\<rparr>)"

definition max_watermark :: "string list \<Rightarrow> string" where
  "max_watermark ws = (case ws of [] \<Rightarrow> [] | w # vs \<Rightarrow> max_from id w vs)"

section \<open>DCGM\<close>

record dcgm_client =
  dc_endpoint :: string
  dc_default_node_id :: string

definition label_or :: "string option \<Rightarrow> string \<Rightarrow> string" where
  "label_or v fallback = (case v of Some s \<Rightarrow> if s \<noteq> [] then s else fallback | None \<Rightarrow> fallback)"

definition dcgm_supported :: "string list" where
  "dcgm_supported = [''DCGM_FI_DEV_FB_USED'', ''DCGM_FI_DEV_GPU_UTIL'', ''DCGM_FI_DEV_XID_ERRORS'']"

definition dcgm_key :: "dcgm_client \<Rightarrow> prometheus_sample \<Rightarrow> string \<times> string" where
  "dcgm_key client sample =
     (let label = dict_get (ps_labels sample) in
      (label_or (label ''Hostname'') (label_or (label ''hostname'')
         (label_or (label ''node'') (dc_default_node_id client))),
       label_or (label ''gpu'') (dict_get_or (ps_labels sample) ''UUID'' [])))"

type_synonym dcgm_grouping = "(string \<times> string, (string, pyfloat) dict) dict"

definition dcgm_group_step :: "dcgm_client \<Rightarrow> dcgm_grouping \<Rightarrow> prometheus_sample \<Rightarrow> dcgm_grouping" where
  "dcgm_group_step client grouped sample =
     (if ps_name sample \<notin> set dcgm_supported then grouped
      else
        let key = dcgm_key client sample in
        if fst key = [] \<or> snd key = [] then grouped
        else dict_set grouped key (dict_set (dict_get_or grouped key []) (ps_name sample) (ps_value sample)))"

definition dcgm_groups :: "dcgm_client \<Rightarrow> prometheus_snapshot \<Rightarrow> dcgm_grouping" where
  "dcgm_groups client snapshot = foldl (dcgm_group_step client) [] snapshot"

definition xid_error :: "(string, pyfloat) dict \<Rightarrow> bool" where
  "xid_error values = float_lt (Finite 0) (dict_get_or values ''DCGM_FI_DEV_XID_ERRORS'' (Finite 0))"

definition dcgm_node_health :: "dcgm_grouping \<Rightarrow> string \<Rightarrow> string" where
  "dcgm_node_health grouped node_id =
     (if \<exists>((node, _), values) \<in> set grouped. node = node_id \<and> xid_error values
      then ''unhealthy'' else ''healthy'')"

fun mib_to_bytes :: "pyfloat option \<Rightarrow> int option res" where
  "mib_to_bytes None = Inr None"
| "mib_to_bytes (Some v) =
     res_bind (int_of_float (float_mul (float_mul v (Finite 1024)) (Finite 1024))) (\<lambda>i. Inr (Some i))"

text \<open>\<open>max(0.0, min(1.0, value / 100.0))\<close>, whose first argument is kept unless the other compares better.\<close>

definition percent_to_ratio :: "pyfloat \<Rightarrow> pyfloat" where
  "percent_to_ratio v =
     (let r = float_div v (Finite 100);
          m = (if float_lt r (Finite 1) then r else Finite 1)
      in if float_lt (Finite 0) m then m else Finite 0)"

definition reference_suffix :: "string \<Rightarrow> string \<Rightarrow> string" where
  "reference_suffix node_id gpu_id = node_id @ ''/gpu/'' @ gpu_id"

definition dcgm_observation ::
  "dcgm_client \<Rightarrow> dcgm_grouping \<Rightarrow> string \<Rightarrow> datetime \<Rightarrow> (string \<times> string) \<times> (string, pyfloat) dict
     \<Rightarrow> hardware_observation res" where
  "dcgm_observation client grouped watermark timestamp = (\<lambda>((node_id, gpu_id), values).
     res_bind (mib_to_bytes (dict_get values ''DCGM_FI_DEV_FB_USED'')) (\<lambda>used. Inr
       \<lparr>ho_node_id = node_id, ho_gpu_id = gpu_id, ho_observed_at = timestamp,
        ho_hbm_used_bytes = used, ho_hbm_reserved_bytes = None,
        ho_gpu_util_ratio = map_option (float_value \<circ> percent_to_ratio)
          (dict_get values ''DCGM_FI_DEV_GPU_UTIL''),
        ho_node_health = Some (dcgm_node_health grouped node_id), ho_peer_node_id = [],
        ho_effective_bandwidth = None, ho_watermark = watermark,
        ho_observation_id = watermark @ '':'' @ node_id @ '':'' @ gpu_id,
        ho_source_ref = Some (new_source_ref ''dcgm-exporter''
          (dc_endpoint client @ ''#'' @ reference_suffix node_id gpu_id))\<rparr>))"

definition dcgm_collect ::
  "(string \<Rightarrow> string) \<Rightarrow> dcgm_client \<Rightarrow> string \<Rightarrow> datetime \<Rightarrow> hardware_observation list res" where
  "dcgm_collect digest client payload timestamp =
     res_bind (parse_prometheus payload) (\<lambda>snapshot.
     let grouped = dcgm_groups client snapshot in
     res_map (dcgm_observation client grouped (digest payload) timestamp) (sort_key fst grouped))"

definition dcgm_collect_and_publish ::
  "(int \<Rightarrow> datetime) \<Rightarrow> (string \<Rightarrow> string) \<Rightarrow> dcgm_client \<Rightarrow> string \<Rightarrow> string \<Rightarrow> datetime \<Rightarrow> collection_report adapter_action" where
  "dcgm_collect_and_publish clock digest client component_id payload now =
     act_bind (act_lift (dcgm_collect digest client payload now)) (\<lambda>observations.
     publish_batch (hardware_publish clock component_id) ''dcgm''
       (case observations of o' # _ \<Rightarrow> ho_watermark o' | [] \<Rightarrow> []) observations)"

end
