(* ===== verification/SF_Metadata_Clients.thy ===== *)
theory SF_Metadata_Clients
  imports SF_Source_Clients
begin

text \<open>
  The Kubernetes and the KV metadata client of \<open>stateflow/adapters/clients.py\<close>: decoding the JSON
  lists of nodes and pods, quantities included, and the items of a KV metadata snapshot. \<open>text\<close> is the
  text of a float, a list or a mapping (\<open>SF_Py_Float\<close>).
\<close>

section \<open>Shared decoding\<close>

fun as_mapping :: "pyval \<Rightarrow> (string, pyval) dict res" where
  "as_mapping (PDict d) = Inr d"
| "as_mapping _ = Inl source_client_error"

definition payload_items :: "pyval \<Rightarrow> (string, pyval) dict list res" where
  "payload_items payload =
     (case payload of
        PDict d \<Rightarrow>
          (case dict_get d ''items'' of
             Some (PList xs) \<Rightarrow> res_map as_mapping xs
           | _ \<Rightarrow> Inl source_client_error)
      | _ \<Rightarrow> Inl source_client_error)"

definition string_mapping :: "(pyval \<Rightarrow> string) \<Rightarrow> pyval \<Rightarrow> (string, string) dict" where
  "string_mapping text v =
     (case v of PDict d \<Rightarrow> foldl (\<lambda>m (k, x). dict_set m k (py_str text x)) [] d | _ \<Rightarrow> [])"

section \<open>Kubernetes\<close>

record kubernetes_client =
  kc_api_server :: string
  kc_cluster_id :: string
  kc_namespace :: string
  kc_timeout :: real
  kc_headers :: "(string, string) dict"

definition new_kubernetes_client :: "string \<Rightarrow> string \<Rightarrow> string \<Rightarrow> string \<Rightarrow> real \<Rightarrow> kubernetes_client" where
  "new_kubernetes_client api_server cluster_id namespace bearer_token timeout =
     \<lparr>kc_api_server = str_rstrip (CHR ''/'') api_server, kc_cluster_id = cluster_id,
      kc_namespace = namespace, kc_timeout = timeout,
      kc_headers = (if bearer_token \<noteq> [] then [(''Authorization'', ''Bearer '' @ bearer_token)] else [])\<rparr>"

definition resource_path :: "kubernetes_client \<Rightarrow> string \<Rightarrow> string res" where
  "resource_path client resource =
     (if resource = ''nodes'' then Inr ''/api/v1/nodes''
      else if resource = ''pods'' then
        Inr (if kc_namespace client \<noteq> [] then ''/api/v1/namespaces/'' @ kc_namespace client @ ''/pods''
             else ''/api/v1/pods'')
      else Inl (ValueError (''unsupported Kubernetes resource: '' @ resource)))"

fun first_ready_condition :: "(pyval \<Rightarrow> string) \<Rightarrow> pyval list \<Rightarrow> bool option" where
  "first_ready_condition text [] = None"
| "first_ready_condition text (c # cs) =
     (case c of
        PDict d \<Rightarrow>
          if dict_get d ''type'' = Some (PStr ''Ready'')
          then Some (str_lower (py_str text (item_get d ''status'' (PStr []))) = ''true'')
          else first_ready_condition text cs
      | _ \<Rightarrow> first_ready_condition text cs)"

definition status_ready :: "(pyval \<Rightarrow> string) \<Rightarrow> (string, pyval) dict \<Rightarrow> bool res" where
  "status_ready text status =
     res_bind (py_iter (py_or (item_get status ''conditions'' (PList [])) (PList []))) (\<lambda>conditions. Inr
       (case first_ready_condition text conditions of
          Some b \<Rightarrow> b
        | None \<Rightarrow> str_lower (py_str text (item_get status ''phase'' (PStr []))) = ''running''))"

definition cpu_quantity :: "string \<Rightarrow> pyfloat res" where
  "cpu_quantity s =
     (if str_endswith s ''m''
      then res_bind (parse_float (removesuffix ''m'' s)) (\<lambda>v. Inr (float_div v (Finite 1000)))
      else parse_float s)"

definition byte_suffixes :: "(string, int) dict" where
  "byte_suffixes =
     [(''Ki'', 1024), (''Mi'', 1024 ^ 2), (''Gi'', 1024 ^ 3), (''Ti'', 1024 ^ 4),
      (''K'', 1000), (''M'', 1000 ^ 2), (''G'', 1000 ^ 3), (''T'', 1000 ^ 4)]"

fun byte_quantity_from :: "string \<Rightarrow> (string \<times> int) list \<Rightarrow> int res" where
  "byte_quantity_from s [] = res_bind (parse_float s) int_of_float"
| "byte_quantity_from s ((suffix, multiplier) # suffixes) =
     (if str_endswith s suffix
      then res_bind (parse_float (removesuffix suffix s)) (\<lambda>v.
             int_of_float (float_mul v (Finite (real_of_int multiplier))))
      else byte_quantity_from s suffixes)"

definition byte_quantity :: "string \<Rightarrow> int res" where
  "byte_quantity s = byte_quantity_from s byte_suffixes"

text \<open>One optional conversion of \<open>_allocatable\<close>: \<open>if key in raw: result[out] = convert(raw[key])\<close>.\<close>

definition convert_entry ::
  "(string, string) dict \<Rightarrow> string \<Rightarrow> string \<Rightarrow> (string \<Rightarrow> pyval res) \<Rightarrow> (string, pyval) dict
     \<Rightarrow> (string, pyval) dict res" where
  "convert_entry raw key out convert result =
     (case dict_get raw key of
        None \<Rightarrow> Inr result
      | Some s \<Rightarrow> res_bind (convert s) (\<lambda>v. Inr (dict_set result out v)))"

definition node_allocatable :: "(pyval \<Rightarrow> string) \<Rightarrow> pyval \<Rightarrow> (string, pyval) dict res" where
  "node_allocatable text v =
     (let raw = string_mapping text v;
          number = (\<lambda>r. res_bind r (\<lambda>x. Inr (float_value x)))
      in res_bind (convert_entry raw ''cpu'' ''cpu_cores'' (\<lambda>s. number (cpu_quantity s))
                     (map (\<lambda>(k, s). (k, PStr s)) raw)) (\<lambda>r1.
         res_bind (convert_entry raw ''memory'' ''memory_bytes''
                     (\<lambda>s. res_bind (byte_quantity s) (\<lambda>i. Inr (PInt i))) r1) (\<lambda>r2.
         convert_entry raw ''nvidia.com/gpu'' ''gpu'' (\<lambda>s. number (parse_float s)) r2)))"

text \<open>One container of \<open>_pod_gpu\<close>; the accumulator is \<open>None\<close> until a GPU entry is found.\<close>

definition container_gpu :: "pyfloat option \<Rightarrow> pyval \<Rightarrow> pyfloat option res" where
  "container_gpu so_far container =
     (case container of
        PDict c \<Rightarrow>
          (case item_get c ''resources'' (PDict []) of
             PDict r \<Rightarrow>
               (case py_or (py_or (item_get r ''limits'' PNone) (item_get r ''requests'' PNone)) (PDict []) of
                  PDict values \<Rightarrow>
                    (case dict_get values ''nvidia.com/gpu'' of
                       None \<Rightarrow> Inr so_far
                     | Some v \<Rightarrow> res_bind (py_float v) (\<lambda>x. Inr (Some (float_add
                         (case so_far of Some t \<Rightarrow> t | None \<Rightarrow> Finite 0) x))))
                | _ \<Rightarrow> Inr so_far)
           | _ \<Rightarrow> Inr so_far)
      | _ \<Rightarrow> Inr so_far)"

definition pod_gpu :: "(string, pyval) dict \<Rightarrow> pyfloat option res" where
  "pod_gpu spec =
     res_bind (py_iter (py_or (item_get spec ''containers'' (PList [])) (PList []))) (\<lambda>containers.
       foldl (\<lambda>acc c. res_bind acc (\<lambda>t. container_gpu t c)) (Inr None) containers)"

definition decode_node ::
  "(pyval \<Rightarrow> string) \<Rightarrow> kubernetes_client \<Rightarrow> datetime \<Rightarrow> bool \<Rightarrow> (string, pyval) dict
     \<Rightarrow> deployment_observation list res" where
  "decode_node text client timestamp deleted node =
     res_bind (as_mapping (item_get node ''metadata'' PNone)) (\<lambda>metadata.
     res_bind (as_mapping (item_get node ''status'' PNone)) (\<lambda>status.
     let node_id = py_str text (item_get metadata ''name'' (PStr [])) in
     if node_id = [] then Inr []
     else
       res_bind (if deleted then Inr ''deleted''
                 else res_bind (status_ready text status) (\<lambda>b.
                   Inr (if b then ''healthy'' else ''unhealthy''))) (\<lambda>health.
       res_bind (node_allocatable text (item_get status ''allocatable'' PNone)) (\<lambda>allocatable.
       let version = py_str text (item_get metadata ''resourceVersion'' (PStr [])) in
       Inr [\<lparr>dep_cluster_id = kc_cluster_id client, dep_node_id = node_id,
             dep_observed_at = timestamp, dep_instance_id = [], dep_runtime_id = [],
             dep_namespace = [], dep_pod_uid = [], dep_node_health = Some health,
             dep_node_allocatable = Some allocatable, dep_instance_ready = None,
             dep_allocated_gpu = None,
             dep_labels = string_mapping text (item_get metadata ''labels'' PNone),
             dep_watermark = version,
             dep_observation_id = ''node:'' @ py_str text (item_get metadata ''uid'' (PStr node_id))
               @ '':'' @ version,
             dep_source_ref = Some (new_source_ref ''kubernetes'' (''nodes/'' @ node_id @ ''@'' @ version)),
             dep_deleted = deleted\<rparr>]))))"

definition first_nonempty :: "string list \<Rightarrow> string" where
  "first_nonempty ss = (case filter (\<lambda>s. s \<noteq> []) ss of s # _ \<Rightarrow> s | [] \<Rightarrow> [])"

definition decode_pod ::
  "(pyval \<Rightarrow> string) \<Rightarrow> kubernetes_client \<Rightarrow> datetime \<Rightarrow> bool \<Rightarrow> (string, pyval) dict
     \<Rightarrow> deployment_observation list res" where
  "decode_pod text client timestamp deleted pod =
     res_bind (as_mapping (item_get pod ''metadata'' PNone)) (\<lambda>metadata.
     res_bind (as_mapping (item_get pod ''spec'' PNone)) (\<lambda>spec.
     res_bind (as_mapping (item_get pod ''status'' PNone)) (\<lambda>status.
     let node_id = py_str text (item_get spec ''nodeName'' (PStr [])) in
     if node_id = [] then Inr []
     else
       let labels = string_mapping text (item_get metadata ''labels'' PNone);
           annotations = string_mapping text (item_get metadata ''annotations'' PNone);
           field = (\<lambda>name. py_str text (item_get metadata name (PStr [])));
           instance_id = first_nonempty
             [dict_get_or labels ''stateflow.io/instance-id'' [], field ''uid'', field ''name''];
           runtime_id = first_nonempty
             [dict_get_or labels ''stateflow.io/runtime-id'' [],
              dict_get_or annotations ''stateflow.io/runtime-id'' [],
              dict_get_or labels ''app.kubernetes.io/name'' []];
           version = field ''resourceVersion''
       in res_bind (if deleted then Inr False else status_ready text status) (\<lambda>ready.
          res_bind (pod_gpu spec) (\<lambda>gpu.
          Inr [\<lparr>dep_cluster_id = kc_cluster_id client, dep_node_id = node_id,
                dep_observed_at = timestamp, dep_instance_id = instance_id,
                dep_runtime_id = runtime_id,
                dep_namespace = py_str text (item_get metadata ''namespace'' (PStr (kc_namespace client))),
                dep_pod_uid = field ''uid'', dep_node_health = None, dep_node_allocatable = None,
                dep_instance_ready = Some ready, dep_allocated_gpu = map_option float_value gpu,
                dep_labels = labels, dep_watermark = version,
                dep_observation_id = ''pod:'' @ instance_id @ '':'' @ version,
                dep_source_ref = Some (new_source_ref ''kubernetes''
                  (''pods/'' @ field ''namespace'' @ ''/'' @ field ''name'' @ ''@'' @ version)),
                dep_deleted = deleted\<rparr>])))))"

definition kubernetes_decode ::
  "(pyval \<Rightarrow> string) \<Rightarrow> kubernetes_client \<Rightarrow> pyval \<Rightarrow> pyval \<Rightarrow> datetime \<Rightarrow> bool
     \<Rightarrow> deployment_observation list res" where
  "kubernetes_decode text client node_payload pod_payload timestamp deleted =
     res_bind (payload_items node_payload) (\<lambda>nodes.
     res_bind (payload_items pod_payload) (\<lambda>pods.
     res_bind (res_map (decode_node text client timestamp deleted) nodes) (\<lambda>node_observations.
     res_bind (res_map (decode_pod text client timestamp deleted) pods) (\<lambda>pod_observations.
     Inr (concat node_observations @ concat pod_observations)))))"

definition resource_list :: "string \<Rightarrow> pyval list \<Rightarrow> pyval" where
  "resource_list kind xs = PDict [(''kind'', PStr kind), (''items'', PList xs)]"

definition decode_resource ::
  "(pyval \<Rightarrow> string) \<Rightarrow> kubernetes_client \<Rightarrow> string \<Rightarrow> (string, pyval) dict \<Rightarrow> datetime \<Rightarrow> bool
     \<Rightarrow> deployment_observation list res" where
  "decode_resource text client resource item observed_at deleted =
     (if resource = ''nodes''
      then kubernetes_decode text client (resource_list ''NodeList'' [PDict item])
             (resource_list ''PodList'' []) observed_at deleted
      else if resource = ''pods''
      then kubernetes_decode text client (resource_list ''NodeList'' [])
             (resource_list ''PodList'' [PDict item]) observed_at deleted
      else Inl (ValueError (''unsupported Kubernetes resource: '' @ resource)))"

definition kubernetes_collect_and_publish ::
  "(int \<Rightarrow> datetime) \<Rightarrow> (pyval \<Rightarrow> string) \<Rightarrow> kubernetes_client \<Rightarrow> string \<Rightarrow> pyval \<Rightarrow> pyval \<Rightarrow> datetime
     \<Rightarrow> collection_report adapter_action" where
  "kubernetes_collect_and_publish clock text client component_id node_payload pod_payload now =
     act_bind (act_lift (kubernetes_decode text client node_payload pod_payload now False)) (\<lambda>observations.
     publish_batch (deployment_publish clock component_id) ''kubernetes''
       (max_watermark (map dep_watermark observations)) observations)"

section \<open>KV metadata\<close>

record kv_client =
  kvc_endpoint :: string
  kvc_profile :: kv_profile
  kvc_backend :: string

definition new_kv_client :: "string \<Rightarrow> string \<Rightarrow> kv_profile \<Rightarrow> kv_client" where
  "new_kv_client endpoint backend profile =
     \<lparr>kvc_endpoint = endpoint, kvc_profile = profile,
      kvc_backend = (if backend \<noteq> [] then backend else kp_name profile)\<rparr>"

definition decode_kv_location :: "(pyval \<Rightarrow> string) \<Rightarrow> pyval \<Rightarrow> kv_location res" where
  "decode_kv_location text v =
     (case v of
        PStr s \<Rightarrow> Inr \<lparr>kl_identifier = s, kl_entity_type = ''resource'', kl_tier = [], kl_primary = False\<rparr>
      | _ \<Rightarrow> res_bind (as_mapping v) (\<lambda>item.
          let get = (\<lambda>name. item_get item name PNone);
              identifier = py_str text (py_or (get ''identifier'') (py_or (get ''id'') (py_or (get ''ref'')
                (py_or (get ''worker_id'') (py_or (get ''node_id'') (PStr []))))))
          in if identifier = [] then Inl source_client_error
             else kv_location_post_init
               \<lparr>kl_identifier = identifier,
                kl_entity_type = py_str text (item_get item ''entity_type'' (PStr ''resource'')),
                kl_tier = py_str text (item_get item ''tier'' (PStr [])),
                kl_primary = py_truthy (item_get item ''primary'' (PBool False))\<rparr>))"

definition optional_int :: "pyval \<Rightarrow> int option res" where
  "optional_int v = (if v = PNone then Inr None else res_bind (py_int v) (\<lambda>i. Inr (Some i)))"

definition optional_bool :: "pyval \<Rightarrow> bool option res" where
  "optional_bool v =
     (case v of
        PNone \<Rightarrow> Inr None
      | PBool b \<Rightarrow> Inr (Some b)
      | PStr s \<Rightarrow>
          let normalized = str_lower (str_strip s) in
          if normalized \<in> {''true'', ''1'', ''yes''} then Inr (Some True)
          else if normalized \<in> {''false'', ''0'', ''no''} then Inr (Some False)
          else Inl source_client_error
      | _ \<Rightarrow> Inl source_client_error)"

definition optional_text :: "(pyval \<Rightarrow> string) \<Rightarrow> pyval \<Rightarrow> string option" where
  "optional_text text v = (if v = PNone then None else Some (py_str text v))"

text \<open>
  \<open>_empty_kv_payload\<close>: whether the first item path that exists holds an empty list. \<open>None\<close> is a path
  that leaves the payload.
\<close>

fun path_value :: "pyval \<Rightarrow> string list \<Rightarrow> pyval option" where
  "path_value v [] = Some v"
| "path_value v (part # path) =
     (case v of
        PDict d \<Rightarrow> (case dict_get d part of Some w \<Rightarrow> path_value w path | None \<Rightarrow> None)
      | _ \<Rightarrow> None)"

fun first_path_empty :: "pyval \<Rightarrow> string list list \<Rightarrow> bool" where
  "first_path_empty payload [] = False"
| "first_path_empty payload (path # paths) =
     (case path_value payload path of
        Some v \<Rightarrow> v = PList []
      | None \<Rightarrow> first_path_empty payload paths)"

definition empty_kv_payload :: "pyval \<Rightarrow> kv_profile \<Rightarrow> bool" where
  "empty_kv_payload payload profile =
     (case payload of
        PList xs \<Rightarrow> xs = []
      | PDict _ \<Rightarrow> first_path_empty payload (kp_item_paths profile)
      | _ \<Rightarrow> False)"

text \<open>A value or a collection of values: a string or a mapping counts as one element.\<close>

definition kv_locations_of :: "pyval \<Rightarrow> pyval list res" where
  "kv_locations_of v =
     (case v of PStr _ \<Rightarrow> Inr [v] | PDict _ \<Rightarrow> Inr [v] | _ \<Rightarrow> py_iter v)"

definition kv_request_ids_of :: "pyval \<Rightarrow> pyval list res" where
  "kv_request_ids_of v = (case v of PStr _ \<Rightarrow> Inr [v] | _ \<Rightarrow> py_iter v)"

definition decode_kv_item ::
  "(pyval \<Rightarrow> string) \<Rightarrow> kv_client \<Rightarrow> datetime \<Rightarrow> pyval \<Rightarrow> kv_observation res" where
  "decode_kv_item text client timestamp raw =
     res_bind (as_mapping raw) (\<lambda>item.
     let field = profile_value (kvc_profile client) item;
         kv_id = py_str text (field ''kv_id'' (PStr []))
     in if kv_id = [] then Inl source_client_error
        else
          res_bind (kv_locations_of (py_or (field ''locations'' (PList [])) (PList []))) (\<lambda>raw_locations.
          res_bind (res_map (decode_kv_location text) raw_locations) (\<lambda>locations.
          let watermark = py_str text (field ''watermark'' (PStr [])) in
          res_bind (kv_request_ids_of (py_or (field ''request_ids'' (PList [])) (PList []))) (\<lambda>request_ids.
          res_bind (optional_int (field ''size_bytes'' PNone)) (\<lambda>size_bytes.
          res_bind (optional_int (field ''replica_count'' PNone)) (\<lambda>replica_count.
          res_bind (optional_bool (field ''cache_hit'' PNone)) (\<lambda>cache_hit.
          res_bind (optional_bool (field ''soft_pin'' PNone)) (\<lambda>soft_pin.
          Inr \<lparr>ko_kv_id = kv_id, ko_observed_at = timestamp,
               ko_request_ids = map (py_str text) request_ids, ko_locations = locations,
               ko_size_bytes = size_bytes, ko_replica_count = replica_count, ko_cache_hit = cache_hit,
               ko_transfer_state = optional_text text (field ''transfer_state'' PNone),
               ko_soft_pin = soft_pin,
               ko_lifecycle = py_str text (field ''lifecycle'' (PStr ''active'')),
               ko_trace_id = py_str text (field ''trace_id'' (PStr [])), ko_watermark = watermark,
               ko_observation_id = (if watermark \<noteq> [] then kv_id @ '':'' @ watermark else []),
               ko_source_ref = Some (new_source_ref (kvc_backend client)
                 (kvc_endpoint client @ ''#'' @ kv_id))\<rparr>))))))))"

definition kv_collect ::
  "(pyval \<Rightarrow> string) \<Rightarrow> kv_client \<Rightarrow> pyval \<Rightarrow> datetime \<Rightarrow> kv_observation list res" where
  "kv_collect text client payload timestamp =
     (let raw_items = profile_items (kvc_profile client) payload in
      if raw_items = [] \<and> \<not> empty_kv_payload payload (kvc_profile client)
      then Inl source_client_error
      else res_map (decode_kv_item text client timestamp) raw_items)"

definition kv_collect_and_publish ::
  "(int \<Rightarrow> datetime) \<Rightarrow> (pyval \<Rightarrow> string) \<Rightarrow> kv_client \<Rightarrow> string \<Rightarrow> pyval \<Rightarrow> datetime \<Rightarrow> collection_report adapter_action" where
  "kv_collect_and_publish clock text client component_id payload now =
     act_bind (act_lift (kv_collect text client payload now)) (\<lambda>observations.
     publish_batch (kv_publish clock component_id) ''kv''
       (max_watermark (map ko_watermark observations)) observations)"

end
