(* ===== verification/SF_Kubernetes_Watch.thy ===== *)
theory SF_Kubernetes_Watch
  imports SF_Metadata_Clients
begin

text \<open>
  The Kubernetes list-watch client of \<open>stateflow/adapters/kubernetes_watch.py\<close>: finite watch windows
  with a cursor of two resource versions, recovered by a full list when the server no longer serves
  the versions. The HTTP fetch functions and \<open>json.loads\<close> are arguments. \<open>clock\<close> gives the clock
  reading of the decoding of an event from its resource and its number in the window.
\<close>

section \<open>Fetching\<close>

text \<open>A fetch fails with an HTTP status (\<open>SourceHTTPError\<close>) or with another exception.\<close>

datatype fetch_error = HTTPStatus int | FetchError exc

type_synonym 'a fetcher = "string \<Rightarrow> (string, string) dict \<Rightarrow> real \<Rightarrow> fetch_error + 'a"

fun fetch_exc :: "fetch_error \<Rightarrow> exc" where
  "fetch_exc (HTTPStatus _) = OtherException ''SourceHTTPError''"
| "fetch_exc (FetchError e) = e"

definition fetched :: "fetch_error + 'a \<Rightarrow> 'a res" where
  "fetched r = (case r of Inl e \<Rightarrow> Inl (fetch_exc e) | Inr x \<Rightarrow> Inr x)"

definition list_payloads :: "pyval fetcher \<Rightarrow> kubernetes_client \<Rightarrow> (pyval \<times> pyval) res" where
  "list_payloads fetch client =
     res_bind (fetched (fetch (kc_api_server client @ ''/api/v1/nodes'') (kc_headers client) (kc_timeout client)))
       (\<lambda>node_payload.
     res_bind (resource_path client ''pods'') (\<lambda>path.
     res_bind (fetched (fetch (kc_api_server client @ path) (kc_headers client) (kc_timeout client)))
       (\<lambda>pod_payload. Inr (node_payload, pod_payload))))"

text \<open>\<open>urlencode\<close> with \<open>quote_plus\<close>: a space is a plus sign, every other unsafe byte is escaped.\<close>

definition quote_plus :: "string \<Rightarrow> string" where
  "quote_plus s = concat (map (\<lambda>c. if c = CHR '' '' then ''+'' else quote_char c) s)"

definition urlencode :: "(string \<times> string) list \<Rightarrow> string" where
  "urlencode query = str_join ''&'' (map (\<lambda>(k, v). quote_plus k @ ''='' @ quote_plus v) query)"

section \<open>Cursor, batch and client\<close>

record watch_cursor =
  wc_node_resource_version :: string
  wc_pod_resource_version :: string

definition new_watch_cursor :: watch_cursor where
  "new_watch_cursor = \<lparr>wc_node_resource_version = [], wc_pod_resource_version = []\<rparr>"

definition cursor_initialized :: "watch_cursor \<Rightarrow> bool" where
  "cursor_initialized c \<longleftrightarrow> wc_node_resource_version c \<noteq> [] \<and> wc_pod_resource_version c \<noteq> []"

record watch_batch =
  wb_observations :: "deployment_observation list"
  wb_cursor :: watch_cursor
  wb_relisted :: bool
  wb_events :: int

record watch_client =
  wt_source :: kubernetes_client
  wt_timeout_seconds :: int

definition new_watch_client :: "kubernetes_client \<Rightarrow> int \<Rightarrow> watch_client res" where
  "new_watch_client source timeout_seconds =
     (if timeout_seconds \<le> 0 then Inl (ValueError ''watch timeout_seconds must be positive'')
      else Inr \<lparr>wt_source = source, wt_timeout_seconds = timeout_seconds\<rparr>)"

section \<open>One watch window\<close>

definition watch_events :: "(string \<Rightarrow> pyval option) \<Rightarrow> string \<Rightarrow> (string, pyval) dict list res" where
  "watch_events json_loads payload =
     res_map (\<lambda>line.
         case json_loads line of
           Some (PDict event) \<Rightarrow> Inr event
         | _ \<Rightarrow> Inl source_client_error)
       (filter (\<lambda>line. line \<noteq> []) (map str_strip (str_splitlines payload)))"

definition list_resource_version :: "(pyval \<Rightarrow> string) \<Rightarrow> pyval \<Rightarrow> string res" where
  "list_resource_version text payload =
     (case payload of
        PDict d \<Rightarrow>
          (case dict_get d ''metadata'' of
             Some (PDict metadata) \<Rightarrow>
               (let v = item_get metadata ''resourceVersion'' PNone in
                if py_truthy v then Inr (py_str text v) else Inl source_client_error)
           | _ \<Rightarrow> Inl source_client_error)
      | _ \<Rightarrow> Inl source_client_error)"

definition object_resource_version :: "(pyval \<Rightarrow> string) \<Rightarrow> (string, pyval) dict \<Rightarrow> string" where
  "object_resource_version text item =
     (case dict_get item ''metadata'' of
        Some (PDict metadata) \<Rightarrow> py_str text (item_get metadata ''resourceVersion'' (PStr []))
      | _ \<Rightarrow> [])"

text \<open>
  \<open>int(value.get("code", 0))\<close>; every failure \<open>py_int\<close> has is a \<open>TypeError\<close> or a \<open>ValueError\<close>. A
  non-finite code counts as NaN here, so it reads as 0; for an infinity, which the decoded values do
  not tell from NaN, the code would let an \<open>OverflowError\<close> through.
\<close>

definition event_status_code :: "(string, pyval) dict \<Rightarrow> int" where
  "event_status_code item =
     (case py_int (item_get item ''code'' (PInt 0)) of Inl _ \<Rightarrow> 0 | Inr i \<Rightarrow> i)"

text \<open>How a window fails: an expired version, an HTTP status, or another exception.\<close>

datatype watch_error = VersionExpired | WatchStatus int | WatchRaised exc

fun watch_exc :: "watch_error \<Rightarrow> exc" where
  "watch_exc VersionExpired = OtherException ''KubernetesResourceVersionExpired''"
| "watch_exc (WatchStatus _) = OtherException ''SourceHTTPError''"
| "watch_exc (WatchRaised e) = e"

record watch_window =
  ww_observations :: "deployment_observation list"
  ww_version :: string
  ww_events :: nat

definition event_item :: "(string, pyval) dict \<Rightarrow> (string, pyval) dict" where
  "event_item event = (case item_get event ''object'' PNone of PDict d \<Rightarrow> d | _ \<Rightarrow> [])"

definition event_type_of :: "(pyval \<Rightarrow> string) \<Rightarrow> (string, pyval) dict \<Rightarrow> string" where
  "event_type_of text event = str_upper (py_str text (item_get event ''type'' (PStr [])))"

definition watch_step ::
  "(pyval \<Rightarrow> string) \<Rightarrow> kubernetes_client \<Rightarrow> string \<Rightarrow> (nat \<Rightarrow> datetime) \<Rightarrow> watch_window
     \<Rightarrow> (string, pyval) dict \<Rightarrow> watch_error + watch_window" where
  "watch_step text client resource clock w event =
     (let events = Suc (ww_events w); event_type = event_type_of text event; item = event_item event in
      if event_type = ''ERROR''
      then Inl (if event_status_code item = 410 then VersionExpired else WatchRaised source_client_error)
      else
        let event_version = object_resource_version text item;
            w' = w\<lparr>ww_events := events,
                   ww_version := if event_version \<noteq> [] then event_version else ww_version w\<rparr>
        in if event_type = ''BOOKMARK'' then Inr w'
           else if event_type \<notin> {''ADDED'', ''MODIFIED'', ''DELETED''}
             then Inl (WatchRaised source_client_error)
           else
             (case decode_resource text client resource item (clock events) (event_type = ''DELETED'') of
                Inl e \<Rightarrow> Inl (WatchRaised e)
              | Inr new \<Rightarrow> Inr (w'\<lparr>ww_observations := ww_observations w @ new\<rparr>)))"

fun watch_loop ::
  "(pyval \<Rightarrow> string) \<Rightarrow> kubernetes_client \<Rightarrow> string \<Rightarrow> (nat \<Rightarrow> datetime) \<Rightarrow> watch_window
     \<Rightarrow> (string, pyval) dict list \<Rightarrow> watch_error + watch_window" where
  "watch_loop text client resource clock w [] = Inr w"
| "watch_loop text client resource clock w (event # events) =
     (case watch_step text client resource clock w event of
        Inl e \<Rightarrow> Inl e
      | Inr w' \<Rightarrow> watch_loop text client resource clock w' events)"

definition watch_url :: "watch_client \<Rightarrow> string \<Rightarrow> string \<Rightarrow> string \<Rightarrow> string" where
  "watch_url wt path resource resource_version =
     kc_api_server (wt_source wt) @ path @ ''?'' @ urlencode
       [(''watch'', ''true''), (''allowWatchBookmarks'', ''true''),
        (''resourceVersion'', resource_version), (''timeoutSeconds'', show_int (wt_timeout_seconds wt))]"

definition watch_resource ::
  "string fetcher \<Rightarrow> (string \<Rightarrow> pyval option) \<Rightarrow> (pyval \<Rightarrow> string) \<Rightarrow> watch_client
     \<Rightarrow> (nat \<Rightarrow> datetime) \<Rightarrow> string \<Rightarrow> string \<Rightarrow> watch_error + watch_window" where
  "watch_resource fetch json_loads text wt clock resource resource_version =
     (case resource_path (wt_source wt) resource of
        Inl e \<Rightarrow> Inl (WatchRaised e)
      | Inr path \<Rightarrow>
     (case fetch (watch_url wt path resource resource_version) (kc_headers (wt_source wt))
             (real_of_int (wt_timeout_seconds wt) + 2) of
        Inl (HTTPStatus c) \<Rightarrow> Inl (WatchStatus c)
      | Inl (FetchError e) \<Rightarrow> Inl (WatchRaised e)
      | Inr payload \<Rightarrow>
     (case watch_events json_loads payload of
        Inl e \<Rightarrow> Inl (WatchRaised e)
      | Inr events \<Rightarrow>
          watch_loop text (wt_source wt) resource clock
            \<lparr>ww_observations = [], ww_version = resource_version, ww_events = 0\<rparr> events)))"

section \<open>Collecting\<close>

text \<open>The outside of a client: what it fetches and the clock.\<close>

record source_world =
  sw_text :: "string fetcher"
  sw_json :: "pyval fetcher"
  sw_json_loads :: "string \<Rightarrow> pyval option"
  sw_repr :: "pyval \<Rightarrow> string"
  sw_digest :: "string \<Rightarrow> string"
  sw_now :: datetime
  sw_clock :: "string \<Rightarrow> nat \<Rightarrow> datetime"

definition watch_relist :: "source_world \<Rightarrow> watch_client \<Rightarrow> watch_batch res" where
  "watch_relist sw wt =
     res_bind (list_payloads (sw_json sw) (wt_source wt)) (\<lambda>(node_payload, pod_payload).
     res_bind (kubernetes_decode (sw_repr sw) (wt_source wt) node_payload pod_payload (sw_now sw) False)
       (\<lambda>observations.
     res_bind (list_resource_version (sw_repr sw) node_payload) (\<lambda>node_version.
     res_bind (list_resource_version (sw_repr sw) pod_payload) (\<lambda>pod_version. Inr
       \<lparr>wb_observations = observations,
        wb_cursor = \<lparr>wc_node_resource_version = node_version, wc_pod_resource_version = pod_version\<rparr>,
        wb_relisted = True, wb_events = 0\<rparr>))))"

definition watch_windows ::
  "source_world \<Rightarrow> watch_client \<Rightarrow> watch_cursor \<Rightarrow> watch_error + watch_window \<times> watch_window" where
  "watch_windows sw wt cursor =
     (case watch_resource (sw_text sw) (sw_json_loads sw) (sw_repr sw) wt (sw_clock sw ''nodes'')
             ''nodes'' (wc_node_resource_version cursor) of
        Inl e \<Rightarrow> Inl e
      | Inr nodes \<Rightarrow>
     (case watch_resource (sw_text sw) (sw_json_loads sw) (sw_repr sw) wt (sw_clock sw ''pods'')
             ''pods'' (wc_pod_resource_version cursor) of
        Inl e \<Rightarrow> Inl e
      | Inr pods \<Rightarrow> Inr (nodes, pods)))"

definition watch_collect :: "source_world \<Rightarrow> watch_client \<Rightarrow> watch_cursor \<Rightarrow> watch_batch res" where
  "watch_collect sw wt cursor =
     (if \<not> cursor_initialized cursor then watch_relist sw wt
      else case watch_windows sw wt cursor of
        Inl VersionExpired \<Rightarrow> watch_relist sw wt
      | Inl (WatchStatus c) \<Rightarrow> if c = 410 then watch_relist sw wt else Inl (watch_exc (WatchStatus c))
      | Inl (WatchRaised e) \<Rightarrow> Inl e
      | Inr (nodes, pods) \<Rightarrow> Inr
          \<lparr>wb_observations = ww_observations nodes @ ww_observations pods,
           wb_cursor = \<lparr>wc_node_resource_version = ww_version nodes,
                        wc_pod_resource_version = ww_version pods\<rparr>,
           wb_relisted = False, wb_events = int (ww_events nodes + ww_events pods)\<rparr>)"

end
