(* ===== verification/SF_Polling.thy ===== *)
theory SF_Polling
  imports SF_Contracts
begin

text \<open>
  The polling loop of \<open>stateflow/adapters/runner.py\<close>. The operation is any action on a world \<open>'w\<close>:
  it returns a report or an exception, and the world afterwards. The loop reads three things from
  outside: the stop event, the clock and the operation's own inputs. \<open>stop k\<close> is the stop event at
  the \<open>k\<close>-th test of the loop condition and \<open>clock k\<close> the reading of \<open>utcnow()\<close> of its \<open>k\<close>-th
  attempt. Only the loop's own thread writes the state.
\<close>

section \<open>One attempt\<close>

record 'r runner_state =
  rst_attempts :: int
  rst_successes :: int
  rst_failures :: int
  rst_consecutive_failures :: int
  rst_last_success_at :: "datetime option"
  rst_last_error :: string
  rst_last_report :: "'r option"

definition new_runner_state :: "'r runner_state" where
  "new_runner_state =
     \<lparr>rst_attempts = 0, rst_successes = 0, rst_failures = 0, rst_consecutive_failures = 0,
      rst_last_success_at = None, rst_last_error = [], rst_last_report = None\<rparr>"

record polling_runner =
  plr_interval_seconds :: real
  plr_max_backoff_seconds :: real

definition new_polling_runner :: "real \<Rightarrow> real \<Rightarrow> polling_runner res" where
  "new_polling_runner interval_seconds max_backoff_seconds =
     (if interval_seconds \<le> 0 \<or> max_backoff_seconds \<le> 0
      then Inl (ValueError ''poll intervals must be positive'')
      else Inr \<lparr>plr_interval_seconds = interval_seconds, plr_max_backoff_seconds = max_backoff_seconds\<rparr>)"

definition failed_attempt :: "'r runner_state \<Rightarrow> exc \<Rightarrow> 'r runner_state" where
  "failed_attempt s e =
     \<lparr>rst_attempts = rst_attempts s + 1, rst_successes = rst_successes s, rst_failures = rst_failures s + 1,
      rst_consecutive_failures = rst_consecutive_failures s + 1,
      rst_last_success_at = rst_last_success_at s, rst_last_error = exc_type_name e,
      rst_last_report = rst_last_report s\<rparr>"

definition successful_attempt :: "'r runner_state \<Rightarrow> datetime \<Rightarrow> 'r \<Rightarrow> 'r runner_state" where
  "successful_attempt s now report =
     \<lparr>rst_attempts = rst_attempts s + 1, rst_successes = rst_successes s + 1, rst_failures = rst_failures s,
      rst_consecutive_failures = 0, rst_last_success_at = Some now, rst_last_error = [],
      rst_last_report = Some report\<rparr>"

definition run_once ::
  "('w \<Rightarrow> 'r res \<times> 'w) \<Rightarrow> datetime \<Rightarrow> 'r runner_state \<Rightarrow> 'w \<Rightarrow> 'r option \<times> 'r runner_state \<times> 'w" where
  "run_once operation now s w =
     (case operation w of
        (Inl e, w') \<Rightarrow> (None, failed_attempt s e, w')
      | (Inr report, w') \<Rightarrow> (Some report, successful_attempt s now report, w'))"

section \<open>The loop\<close>

definition poll_delay :: "polling_runner \<Rightarrow> 'r runner_state \<Rightarrow> real" where
  "poll_delay r s =
     min (plr_max_backoff_seconds r)
       (plr_interval_seconds r * 2 ^ nat (min (rst_consecutive_failures s) 10))"

text \<open>
  \<open>serve\<close> returns the final state, the world and the delays it waited for. It need not return: a run
  whose stop event is never set is \<open>None\<close>.
\<close>

partial_function (option) serve ::
  "('w \<Rightarrow> 'r res \<times> 'w) \<Rightarrow> (nat \<Rightarrow> datetime) \<Rightarrow> (nat \<Rightarrow> bool) \<Rightarrow> polling_runner \<Rightarrow> nat
     \<Rightarrow> 'r runner_state \<Rightarrow> 'w \<Rightarrow> ('r runner_state \<times> 'w \<times> real list) option" where
  "serve operation clock stop r k s w =
     (if stop k then Some (s, w, [])
      else
        let (_, s', w') = run_once operation (clock k) s w
        in Option.bind (serve operation clock stop r (Suc k) s' w')
             (\<lambda>(s'', w'', delays). Some (s'', w'', poll_delay r s' # delays)))"

section \<open>Lemmas\<close>

text \<open>What every attempt keeps of the counters.\<close>

definition counters_ok :: "'r runner_state \<Rightarrow> bool" where
  "counters_ok s \<longleftrightarrow>
     rst_attempts s = rst_successes s + rst_failures s \<and> 0 \<le> rst_successes s \<and>
     0 \<le> rst_consecutive_failures s \<and> rst_consecutive_failures s \<le> rst_failures s \<and>
     (rst_last_report s = None \<longleftrightarrow> rst_successes s = 0) \<and>
     (rst_last_success_at s = None \<longleftrightarrow> rst_successes s = 0) \<and>
     (rst_consecutive_failures s = 0 \<longrightarrow> rst_last_error s = [])"

lemma counters_ok_new: "counters_ok new_runner_state"
  by (simp add: counters_ok_def new_runner_state_def)

lemma counters_ok_run_once:
  assumes "counters_ok s" "run_once operation now s w = (result, s', w')"
  shows "counters_ok s'" and "rst_attempts s' = rst_attempts s + 1"
  using assms
  by (auto simp: run_once_def counters_ok_def failed_attempt_def successful_attempt_def
      split: prod.splits sum.splits)

lemma poll_delay_bounds:
  assumes "new_polling_runner i m = Inr r" "counters_ok s"
  shows "0 < poll_delay r s" "poll_delay r s \<le> m" "min m i \<le> poll_delay r s"
    "rst_consecutive_failures s = 0 \<Longrightarrow> poll_delay r s = min m i"
proof -
  have r: "0 < i" "0 < m" "plr_interval_seconds r = i" "plr_max_backoff_seconds r = m"
    using assms(1) by (auto simp: new_polling_runner_def split: if_splits)
  have "min m i \<le> i" by simp
  also have "i * 1 \<le> i * 2 ^ nat (min (rst_consecutive_failures s) 10)"
    using r(1) by (intro mult_left_mono one_le_power) auto
  finally have "min m i \<le> i * 2 ^ nat (min (rst_consecutive_failures s) 10)" by simp
  then show "0 < poll_delay r s" "poll_delay r s \<le> m" "min m i \<le> poll_delay r s"
    "rst_consecutive_failures s = 0 \<Longrightarrow> poll_delay r s = min m i"
    using r(1,2) by (auto simp: poll_delay_def r(3,4))
qed

lemma serve_returns:
  "stop (k + n) \<Longrightarrow> \<exists>y. serve operation clock stop r k s w = Some y"
proof (induction n arbitrary: k s w)
  case 0
  then show ?case by (simp add: serve.simps)
next
  case (Suc n)
  obtain result s' w' where 1: "run_once operation (clock k) s w = (result, s', w')" by (metis prod_cases3)
  from Suc.prems have "stop (Suc k + n)" by simp
  from Suc.IH [OF this, of s' w'] obtain s'' w'' ds where
    "serve operation clock stop r (Suc k) s' w' = Some (s'', w'', ds)" by (metis prod_cases3)
  then show ?case by (subst serve.simps) (simp add: 1)
qed

lemma serve_run:
  assumes "serve operation clock stop r k s w = Some (s', w', ds)"
    and "new_polling_runner i m = Inr r" "counters_ok s"
  shows "counters_ok s' \<and> stop (k + length ds) \<and> (\<forall>j < length ds. \<not> stop (k + j)) \<and>
    rst_attempts s' = rst_attempts s + int (length ds) \<and> (\<forall>d \<in> set ds. min m i \<le> d \<and> d \<le> m)"
  using assms(1,3)
proof (induction ds arbitrary: k s w)
  case Nil
  then show ?case
    by (subst (asm) serve.simps) (auto split: if_splits prod.splits bind_splits)
next
  case (Cons d ds)
  obtain result s1 w1 where 1: "run_once operation (clock k) s w = (result, s1, w1)" by (metis prod_cases3)
  from Cons.prems(1) 1 have ns: "\<not> stop k" and d: "d = poll_delay r s1" and
    tl: "serve operation clock stop r (Suc k) s1 w1 = Some (s', w', ds)"
    by (subst (asm) serve.simps; auto split: if_splits prod.splits bind_splits)+
  note ok = counters_ok_run_once [OF Cons.prems(2) 1]
  have "\<forall>j < length (d # ds). \<not> stop (k + j)"
    using Cons.IH [OF tl ok(1)] ns by (auto simp: less_Suc_eq_0_disj)
  then show ?case using Cons.IH [OF tl ok(1)] ok(2) poll_delay_bounds [OF assms(2) ok(1)] d by auto
qed

section \<open>The property\<close>

text \<open>C12: Failure isolation and termination of the polling loop: whatever the operation does, whether it
  raises or reports, the loop returns exactly when the stop event is set at some test of its
  condition, and then at the first such test. Each iteration counts one attempt, a success or a
  failure; the delay between two attempts is never below the smaller of interval and bound and never
  above the bound.\<close>
theorem poll_loop_terminates:
  assumes "new_polling_runner interval_seconds max_backoff = Inr runner"
  shows "((\<exists>y. serve operation clock stop runner 0 new_runner_state w = Some y) \<longleftrightarrow> (\<exists>k. stop k)) \<and>
    (\<forall>s' w' delays. serve operation clock stop runner 0 new_runner_state w = Some (s', w', delays) \<longrightarrow>
       length delays = (LEAST k. stop k) \<and> rst_attempts s' = int (length delays) \<and>
       rst_attempts s' = rst_successes s' + rst_failures s' \<and>
       (\<forall>d \<in> set delays. min max_backoff interval_seconds \<le> d \<and> d \<le> max_backoff))"
proof (intro conjI allI impI)
  note run = serve_run [OF _ assms counters_ok_new]
  show "(\<exists>y. serve operation clock stop runner 0 new_runner_state w = Some y) \<longleftrightarrow> (\<exists>k. stop k)"
    using serve_returns [of stop 0] run by fastforce
  fix s' w' delays
  assume "serve operation clock stop runner 0 new_runner_state w = Some (s', w', delays)"
  note facts = run [OF this]
  have "(LEAST k. stop k) = length delays"
    using facts by (intro Least_equality) (auto simp: not_less [symmetric])
  then show "length delays = (LEAST k. stop k)" by simp
  show "rst_attempts s' = int (length delays)" using facts by (simp add: new_runner_state_def)
  show "rst_attempts s' = rst_successes s' + rst_failures s'" using facts by (simp add: counters_ok_def)
  show "\<forall>d \<in> set delays. min max_backoff interval_seconds \<le> d \<and> d \<le> max_backoff" using facts by simp
qed

theorem poll_loop_terminates_witness:
  "\<exists>runner s' w' delays. new_polling_runner 1 30 = Inr runner \<and>
     serve (\<lambda>n :: nat. (if n < 2 then Inl (ValueError ''down'') else Inr ''report'', Suc n)) (\<lambda>_. utc 0)
       (\<lambda>k. k = 3) runner 0 new_runner_state 0 = Some (s', w', delays) \<and>
     rst_attempts s' = 3 \<and> (\<forall>d \<in> set delays. 1 \<le> d \<and> d \<le> 30)"
proof -
  obtain runner where r: "new_polling_runner 1 30 = Inr runner" by (simp add: new_polling_runner_def)
  define operation where
    "operation = (\<lambda>n :: nat. (if n < 2 then Inl (ValueError ''down'') else Inr ''report'', Suc n))"
  note loop = poll_loop_terminates [OF r, of operation "\<lambda>_. utc 0" "\<lambda>k. k = 3" 0]
  then obtain s' w' delays where
    s: "serve operation (\<lambda>_. utc 0) (\<lambda>k. k = 3) runner 0 new_runner_state 0 = Some (s', w', delays)"
    by (metis prod_cases3)
  have "(LEAST k. k = (3 :: nat)) = 3" by (rule Least_equality) simp_all
  then have "rst_attempts s' = 3" "\<forall>d \<in> set delays. 1 \<le> d \<and> d \<le> 30" using loop s by auto
  then show ?thesis using r s unfolding operation_def by blast
qed

end
