(* ===== verification/SF_Adapter_Process.thy ===== *)
theory SF_Adapter_Process
  imports SF_Kubernetes_Watch SF_Polling
begin

text \<open>
  The adapter process of \<open>stateflow/adapters/process.py\<close>: from the parsed arguments to one source
  operation over a State Plane, and the run of that operation. What the process reads from outside
  (the fetch functions, the clock, the bearer token) is an argument. The plane is the in-memory plane.
\<close>

section \<open>Arguments\<close>

record process_args =
  pa_source :: string
  pa_source_endpoint :: string
  pa_runtime_id :: string
  pa_instance_id :: string
  pa_node_id :: string
  pa_cluster_id :: string
  pa_namespace :: string
  pa_metric_label :: "string list"
  pa_source_timeout :: real
  pa_watch_timeout :: int

text \<open>\<open>value.partition(sep)\<close> for a separator of one character: before, whether found, after.\<close>

definition str_partition :: "char \<Rightarrow> string \<Rightarrow> string \<times> bool \<times> string" where
  "str_partition c s =
     (let before = takeWhile (\<lambda>x. x \<noteq> c) s in
      case dropWhile (\<lambda>x. x \<noteq> c) s of
        [] \<Rightarrow> (before, False, [])
      | _ # after \<Rightarrow> (before, True, after))"

fun metric_labels_from :: "(string, string) dict \<Rightarrow> string list \<Rightarrow> (string, string) dict res" where
  "metric_labels_from result [] = Inr result"
| "metric_labels_from result (v # vs) =
     (let (key, separator, item) = str_partition (CHR ''='') v in
      if \<not> separator \<or> str_strip key = [] then Inl (ValueError ''--metric-label must use KEY=VALUE'')
      else metric_labels_from (dict_set result (str_strip key) item) vs)"

definition metric_labels :: "string list \<Rightarrow> (string, string) dict res" where
  "metric_labels vs = metric_labels_from [] vs"

section \<open>The operation\<close>

datatype source_operation =
    RuntimeOperation runtime_client real string
  | HardwareOperation dcgm_client real string
  | KVOperation kv_client real string
  | WatchOperation watch_client string

definition runtime_profiles :: "(string, runtime_profile) dict" where
  "runtime_profiles =
     [(''vllm'', VLLM_RUNTIME_PROFILE), (''sglang'', SGLANG_RUNTIME_PROFILE),
      (''ray-serve'', RAY_SERVE_RUNTIME_PROFILE)]"

definition named_adapter_id :: "string \<Rightarrow> string" where
  "named_adapter_id source = ''stateflow-'' @ source @ ''-adapter''"

text \<open>
  \<open>token\<close> is the result of \<open>_bearer_token\<close>: the stripped content of the file or of the environment
  variable, or the \<open>ValueError\<close> of an unreadable file.
\<close>

definition build_operation ::
  "(int \<Rightarrow> datetime) \<Rightarrow> string res \<Rightarrow> process_args \<Rightarrow> source_operation adapter_action" where
  "build_operation clock token args =
     (let source = pa_source args in
      case dict_get runtime_profiles source of
        Some profile \<Rightarrow>
          if pa_runtime_id args = [] \<or> pa_instance_id args = []
          then act_lift (Inl (ValueError ''runtime sources require --runtime-id and --instance-id''))
          else
            act_bind (act_lift (metric_labels (pa_metric_label args))) (\<lambda>labels.
            act_then (adapter_init clock (runtime_adapter_descriptor (named_adapter_id source)))
              (act_return (RuntimeOperation
                 (new_runtime_client (pa_source_endpoint args) (pa_runtime_id args)
                    (pa_instance_id args) profile labels (pa_node_id args))
                 (pa_source_timeout args) (named_adapter_id source))))
      | None \<Rightarrow>
          if source = ''dcgm'' then
            act_then (adapter_init clock (hardware_adapter_descriptor hardware_adapter_id))
              (act_return (HardwareOperation
                 \<lparr>dc_endpoint = source_endpoint (pa_source_endpoint args) ''/metrics'',
                  dc_default_node_id = pa_node_id args\<rparr>
                 (pa_source_timeout args) hardware_adapter_id))
          else if source \<in> {''mooncake'', ''lmcache''} then
            act_then (adapter_init clock (kv_adapter_descriptor (named_adapter_id source)))
              (act_return (KVOperation
                 (new_kv_client (pa_source_endpoint args) []
                    (if source = ''mooncake'' then MOONCAKE_KV_PROFILE else LMCACHE_KV_PROFILE))
                 (pa_source_timeout args) (named_adapter_id source)))
          else if pa_cluster_id args = []
            then act_lift (Inl (ValueError ''kubernetes source requires --cluster-id''))
          else
            act_bind (act_lift token) (\<lambda>bearer_token.
            act_bind (act_lift (new_watch_client
              (new_kubernetes_client (pa_source_endpoint args) (pa_cluster_id args) (pa_namespace args)
                 bearer_token (pa_source_timeout args)) (pa_watch_timeout args))) (\<lambda>watcher.
            act_then (adapter_init clock (deployment_adapter_descriptor deployment_adapter_id))
              (act_return (WatchOperation watcher deployment_adapter_id)))))"

text \<open>
  One run of the operation. Only the Kubernetes operation has a cursor; it moves after every
  observation of the batch has been published, and stays where it was when anything raises before.
\<close>

definition collect_kubernetes ::
  "(int \<Rightarrow> datetime) \<Rightarrow> source_world \<Rightarrow> watch_client \<Rightarrow> string \<Rightarrow> watch_cursor
     \<Rightarrow> (collection_report \<times> watch_cursor) adapter_action" where
  "collect_kubernetes clock sw watcher component_id cursor =
     act_bind (act_lift (watch_collect sw watcher cursor)) (\<lambda>batch.
     let cursor = wb_cursor batch in
     act_bind (publish_batch (deployment_publish clock component_id) ''kubernetes-watch''
         (''nodes='' @ wc_node_resource_version cursor @ '';pods='' @ wc_pod_resource_version cursor)
         (wb_observations batch)) (\<lambda>report.
       act_return (report, cursor)))"

definition run_operation ::
  "(int \<Rightarrow> datetime) \<Rightarrow> source_world \<Rightarrow> source_operation \<Rightarrow> adapter_world \<times> watch_cursor
     \<Rightarrow> collection_report res \<times> adapter_world \<times> watch_cursor" where
  "run_operation clock sw operation = (\<lambda>(w, cursor).
     (case operation of
        RuntimeOperation client timeout component_id \<Rightarrow>
          (case act_bind (act_lift (fetched (sw_text sw (rc_endpoint client) [] timeout))) (\<lambda>payload.
                  runtime_collect_and_publish clock (sw_digest sw) client component_id payload [] []
                    (sw_now sw)) w of
             (r, w') \<Rightarrow> (r, w', cursor))
      | HardwareOperation client timeout component_id \<Rightarrow>
          (case act_bind (act_lift (fetched (sw_text sw (dc_endpoint client) [] timeout))) (\<lambda>payload.
                  dcgm_collect_and_publish clock (sw_digest sw) client component_id payload (sw_now sw)) w of
             (r, w') \<Rightarrow> (r, w', cursor))
      | KVOperation client timeout component_id \<Rightarrow>
          (case act_bind (act_lift (fetched (sw_json sw (kvc_endpoint client) [] timeout))) (\<lambda>payload.
                  kv_collect_and_publish clock (sw_repr sw) client component_id payload (sw_now sw)) w of
             (r, w') \<Rightarrow> (r, w', cursor))
      | WatchOperation watcher component_id \<Rightarrow>
          (case collect_kubernetes clock sw watcher component_id cursor w of
             (Inl e, w') \<Rightarrow> (Inl e, w', cursor)
           | (Inr (report, moved), w') \<Rightarrow> (Inr report, w', moved))))"

end
