(* ===== verification/SF_Watch_Properties.thy ===== *)
theory SF_Watch_Properties
  imports SF_Adapter_Process SF_Plane_Runs
begin

text \<open>
  What the watch operation of the adapter process guarantees: the windows are decoded without a gap,
  and the cursor only moves past events that have been published.
\<close>

section \<open>A window against its reference\<close>

text \<open>The events of the window that follows a resource version.\<close>

definition window_events ::
  "source_world \<Rightarrow> watch_client \<Rightarrow> string \<Rightarrow> string \<Rightarrow> (string, pyval) dict list res" where
  "window_events sw wt resource version =
     res_bind (resource_path (wt_source wt) resource) (\<lambda>path.
     res_bind (fetched (sw_text sw (watch_url wt path resource version) (kc_headers (wt_source wt))
         (real_of_int (wt_timeout_seconds wt) + 2))) (\<lambda>payload.
     watch_events (sw_json_loads sw) payload))"

text \<open>The version of the last event that carries one.\<close>

definition window_version :: "(pyval \<Rightarrow> string) \<Rightarrow> string \<Rightarrow> (string, pyval) dict list \<Rightarrow> string" where
  "window_version text version events =
     last (version # filter (\<lambda>v. v \<noteq> []) (map (object_resource_version text \<circ> event_item) events))"

text \<open>What one event, the \<open>n\<close>-th of its window, adds to the batch.\<close>

definition event_observations ::
  "(pyval \<Rightarrow> string) \<Rightarrow> kubernetes_client \<Rightarrow> string \<Rightarrow> (nat \<Rightarrow> datetime) \<Rightarrow> nat \<times> (string, pyval) dict
     \<Rightarrow> deployment_observation list res" where
  "event_observations text client resource clock = (\<lambda>(n, event).
     if event_type_of text event = ''BOOKMARK'' then Inr []
     else decode_resource text client resource (event_item event) (clock n)
            (event_type_of text event = ''DELETED''))"

lemma window_version_Cons:
  "window_version text v (e # es) =
     window_version text (let x = object_resource_version text (event_item e) in if x \<noteq> [] then x else v) es"
  by (simp add: window_version_def Let_def)

lemma watch_step_Inr:
  assumes "watch_step text client resource clock w event = Inr w'"
  shows "ww_events w' = Suc (ww_events w)"
    and "ww_version w' = window_version text (ww_version w) [event]"
    and "\<exists>os. event_observations text client resource clock (Suc (ww_events w), event) = Inr os \<and>
           ww_observations w' = ww_observations w @ os"
  using assms
  by (auto simp: watch_step_def event_observations_def window_version_def Let_def
      split: if_splits sum.splits)

lemma watch_loop_exact:
  assumes "watch_loop text client resource clock w events = Inr w'"
  shows "ww_version w' = window_version text (ww_version w) events \<and>
    (\<exists>oss. res_map (event_observations text client resource clock) (enumerate (Suc (ww_events w)) events) = Inr oss \<and>
       ww_observations w' = ww_observations w @ concat oss)"
  using assms
proof (induction events arbitrary: w)
  case Nil
  then show ?case by (simp add: window_version_def)
next
  case (Cons e es)
  then obtain w1 where 1: "watch_step text client resource clock w e = Inr w1"
    and 2: "watch_loop text client resource clock w1 es = Inr w'"
    by (auto split: sum.splits)
  note step = watch_step_Inr [OF 1]
  from step(3) obtain os where os:
    "event_observations text client resource clock (Suc (ww_events w), e) = Inr os"
    "ww_observations w1 = ww_observations w @ os" by blast
  have "window_version text (ww_version w) (e # es) = window_version text (ww_version w1) es"
    unfolding step(2) window_version_Cons by (simp add: window_version_def Let_def)
  then show ?case using Cons.IH [OF 2] os step(1) by auto
qed

lemma watch_resource_exact:
  assumes "watch_resource (sw_text sw) (sw_json_loads sw) (sw_repr sw) wt clock resource version = Inr ww"
  obtains events oss where
    "window_events sw wt resource version = Inr events"
    "res_map (event_observations (sw_repr sw) (wt_source wt) resource clock) (enumerate 1 events) = Inr oss"
    "ww_observations ww = concat oss" "ww_version ww = window_version (sw_repr sw) version events"
proof -
  from assms obtain path payload events where
    p: "resource_path (wt_source wt) resource = Inr path"
      "sw_text sw (watch_url wt path resource version) (kc_headers (wt_source wt))
         (real_of_int (wt_timeout_seconds wt) + 2) = Inr payload"
      "watch_events (sw_json_loads sw) payload = Inr events" and
    loop: "watch_loop (sw_repr sw) (wt_source wt) resource clock
       \<lparr>ww_observations = [], ww_version = version, ww_events = 0\<rparr> events = Inr ww"
    unfolding watch_resource_def by (auto split: sum.splits fetch_error.splits)
  from watch_loop_exact [OF loop] obtain oss where
    "res_map (event_observations (sw_repr sw) (wt_source wt) resource clock) (enumerate 1 events) = Inr oss"
    "ww_observations ww = concat oss" "ww_version ww = window_version (sw_repr sw) version events"
    by auto
  then show thesis using p by (intro that [of events oss]) (simp_all add: window_events_def fetched_def)
qed

section \<open>The cursor\<close>

lemma py_str_nonempty:
  assumes "\<forall>v. text v \<noteq> []" "py_truthy v"
  shows "py_str text v \<noteq> []"
proof -
  have "show_nat n \<noteq> []" for n by (subst show_nat.simps) (simp add: Let_def)
  then have "show_int i \<noteq> []" for i by (simp add: show_int_def)
  then show ?thesis using assms by (cases v) auto
qed

lemma relist_initialized:
  assumes "\<forall>v. sw_repr sw v \<noteq> []" "watch_relist sw wt = Inr batch"
  shows "cursor_initialized (wb_cursor batch)" "wb_relisted batch"
proof -
  have "list_resource_version (sw_repr sw) p = Inr v \<Longrightarrow> v \<noteq> []" for p v
    using py_str_nonempty [OF assms(1)]
    by (auto simp: list_resource_version_def Let_def split: pyval.splits option.splits if_splits)
  then show "cursor_initialized (wb_cursor batch)" "wb_relisted batch"
    using assms(2) by (auto simp: watch_relist_def cursor_initialized_def res_bind_Inr_iff)
qed

lemma window_version_nonempty: "version \<noteq> [] \<Longrightarrow> window_version text version events \<noteq> []"
  by (induction events arbitrary: version) (auto simp: window_version_Cons Let_def window_version_def [of _ _ "[]"])

text \<open>A batch is a full list, or the two windows after the cursor.\<close>

lemma watch_collect_batch:
  assumes "\<forall>v. sw_repr sw v \<noteq> []" "watch_collect sw wt cursor = Inr batch"
  shows "cursor_initialized (wb_cursor batch) \<and>
    (wb_relisted batch \<or>
     (\<exists>nodes pods noss poss.
        window_events sw wt ''nodes'' (wc_node_resource_version cursor) = Inr nodes \<and>
        window_events sw wt ''pods'' (wc_pod_resource_version cursor) = Inr pods \<and>
        res_map (event_observations (sw_repr sw) (wt_source wt) ''nodes'' (sw_clock sw ''nodes''))
          (enumerate 1 nodes) = Inr noss \<and>
        res_map (event_observations (sw_repr sw) (wt_source wt) ''pods'' (sw_clock sw ''pods''))
          (enumerate 1 pods) = Inr poss \<and>
        wb_observations batch = concat noss @ concat poss \<and>
        wb_cursor batch =
          \<lparr>wc_node_resource_version = window_version (sw_repr sw) (wc_node_resource_version cursor) nodes,
           wc_pod_resource_version = window_version (sw_repr sw) (wc_pod_resource_version cursor) pods\<rparr>))"
proof (cases "watch_relist sw wt = Inr batch")
  case True
  then show ?thesis using relist_initialized [OF assms(1)] by blast
next
  case False
  then obtain nodes pods where
    init: "cursor_initialized cursor" and w: "watch_windows sw wt cursor = Inr (nodes, pods)" and
    b: "batch = \<lparr>wb_observations = ww_observations nodes @ ww_observations pods,
           wb_cursor = \<lparr>wc_node_resource_version = ww_version nodes,
                        wc_pod_resource_version = ww_version pods\<rparr>,
           wb_relisted = False, wb_events = int (ww_events nodes + ww_events pods)\<rparr>"
    using assms(2)
    by (auto simp: watch_collect_def split: if_splits sum.splits watch_error.splits prod.splits)
  from w have
    n: "watch_resource (sw_text sw) (sw_json_loads sw) (sw_repr sw) wt (sw_clock sw ''nodes'') ''nodes''
          (wc_node_resource_version cursor) = Inr nodes" and
    p: "watch_resource (sw_text sw) (sw_json_loads sw) (sw_repr sw) wt (sw_clock sw ''pods'') ''pods''
          (wc_pod_resource_version cursor) = Inr pods"
    by (auto simp: watch_windows_def split: sum.splits)
  show ?thesis
    by (rule watch_resource_exact [OF n]; rule watch_resource_exact [OF p])
      (use init in \<open>auto simp: b cursor_initialized_def window_version_nonempty\<close>)
qed

lemma action_bind_Inr_iff:
  "act_bind m f w = (Inr y, w') \<longleftrightarrow> (\<exists>x w1. m w = (Inr x, w1) \<and> f x w1 = (Inr y, w'))"
  by (auto simp: act_bind_def split: prod.splits sum.splits)

section \<open>The property\<close>

text \<open>C10: At-least-once delivery of the Kubernetes watch. An operation that raises, wherever it raises,
  leaves the cursor where it was, so that the next run reads the same events again. An operation that
  reports has published every observation of its batch and moves to an initialized cursor; its batch
  is a full list, or holds, in order, what every event of the two windows after the old cursor decodes
  to (a deletion marked as such), and the cursor is the version of the last event that carries one.\<close>
theorem watch_delivers_every_event:
  assumes "\<forall>v. sw_repr sw v \<noteq> []"
    and "run_operation clock sw (WatchOperation watcher component_id) (w, cursor) = (r, w', cursor')"
  shows "(\<forall>e. r = Inl e \<longrightarrow> cursor' = cursor) \<and>
    (\<forall>report. r = Inr report \<longrightarrow> cursor_initialized cursor' \<and>
      (\<exists>batch reports. watch_collect sw watcher cursor = Inr batch \<and> wb_cursor batch = cursor' \<and>
        act_map (deployment_publish clock component_id) (wb_observations batch) w = (Inr reports, w') \<and>
        cr_accepted report = sum_list (map report_accepted reports) \<and>
        cr_rejected report = sum_list (map report_rejected reports) \<and>
        (wb_relisted batch \<or>
         (\<exists>nodes pods noss poss.
            window_events sw watcher ''nodes'' (wc_node_resource_version cursor) = Inr nodes \<and>
            window_events sw watcher ''pods'' (wc_pod_resource_version cursor) = Inr pods \<and>
            res_map (event_observations (sw_repr sw) (wt_source watcher) ''nodes'' (sw_clock sw ''nodes''))
              (enumerate 1 nodes) = Inr noss \<and>
            res_map (event_observations (sw_repr sw) (wt_source watcher) ''pods'' (sw_clock sw ''pods''))
              (enumerate 1 pods) = Inr poss \<and>
            wb_observations batch = concat noss @ concat poss \<and>
            cursor' =
              \<lparr>wc_node_resource_version = window_version (sw_repr sw) (wc_node_resource_version cursor) nodes,
               wc_pod_resource_version = window_version (sw_repr sw) (wc_pod_resource_version cursor) pods\<rparr>))))"
proof (cases r)
  case (Inl e)
  then show ?thesis using assms(2) by (auto simp: run_operation_def split: prod.splits sum.splits)
next
  case (Inr report)
  with assms(2) have "collect_kubernetes clock sw watcher component_id cursor w = (Inr (report, cursor'), w')"
    by (auto simp: run_operation_def split: prod.splits sum.splits)
  then obtain batch reports where
    b: "watch_collect sw watcher cursor = Inr batch" "cursor' = wb_cursor batch" and
    m: "act_map (deployment_publish clock component_id) (wb_observations batch) w = (Inr reports, w')" and
    s: "cr_accepted report = sum_list (map report_accepted reports)"
      "cr_rejected report = sum_list (map report_rejected reports)"
    by (auto simp: collect_kubernetes_def publish_batch_def action_bind_Inr_iff act_lift_def act_return_def Let_def)
  show ?thesis using watch_collect_batch [OF assms(1) b(1)] b m s Inr by auto
qed

theorem watch_delivers_every_event_witness:
  "\<exists>sw report w' cursor'. (\<forall>v. sw_repr sw v \<noteq> []) \<and>
     run_operation (\<lambda>_. utc 0) sw (WatchOperation
         \<lparr>wt_source = new_kubernetes_client ''k8s'' ''c'' [] [] 5, wt_timeout_seconds = 30\<rparr> ''adapter'')
       (\<lparr>aw_plane = ex_plane0, aw_resolver = new_resolver\<rparr>,
        \<lparr>wc_node_resource_version = ''5'', wc_pod_resource_version = ''7''\<rparr>) = (Inr report, w', cursor') \<and>
     cursor_initialized cursor' \<and> wc_node_resource_version cursor' = ''9'' \<and>
     wc_pod_resource_version cursor' = ''9''"
proof -
  define bookmark where "bookmark = PDict [(''type'', PStr ''BOOKMARK''),
    (''object'', PDict [(''metadata'', PDict [(''resourceVersion'', PStr ''9'')])])]"
  define sw where "sw = \<lparr>sw_text = (\<lambda>_ _ _. Inr ''x''), sw_json = (\<lambda>_ _ _. Inr PNone),
    sw_json_loads = (\<lambda>_. Some bookmark), sw_repr = (\<lambda>_. ''r''), sw_digest = (\<lambda>_. []), sw_now = utc 0,
    sw_clock = (\<lambda>_ _. utc 0)\<rparr>"
  let ?wt = "\<lparr>wt_source = new_kubernetes_client ''k8s'' ''c'' [] [] 5, wt_timeout_seconds = 30\<rparr>"
  let ?w = "\<lparr>aw_plane = ex_plane0, aw_resolver = new_resolver\<rparr>"
  let ?c = "\<lparr>wc_node_resource_version = ''5'', wc_pod_resource_version = ''7''\<rparr>"
  have lines: "str_splitlines ''x'' = [''x'']" by code_simp
  have x: "str_strip ''x'' = ''x''" by code_simp
  have bm: "str_upper ''BOOKMARK'' = ''BOOKMARK''" by code_simp
  have window: "watch_resource (sw_text sw) (sw_json_loads sw) (sw_repr sw) ?wt clock resource v =
      Inr \<lparr>ww_observations = [], ww_version = ''9'', ww_events = 1\<rparr>"
    if "resource = ''nodes'' \<or> resource = ''pods''" for clock resource v
    using that
    by (auto simp: watch_resource_def resource_path_def sw_def watch_events_def lines x bookmark_def
        watch_step_def event_item_def event_type_of_def object_resource_version_def item_get_def
        dict_get_or_def dict_get_def bm)
  obtain r w' cursor' where run:
    "run_operation (\<lambda>_. utc 0) sw (WatchOperation ?wt ''adapter'') (?w, ?c) = (r, w', cursor')" by (metis prod_cases3)
  have batch: "watch_collect sw ?wt ?c = Inr \<lparr>wb_observations = [],
      wb_cursor = \<lparr>wc_node_resource_version = ''9'', wc_pod_resource_version = ''9''\<rparr>,
      wb_relisted = False, wb_events = 2\<rparr>"
    by (simp add: watch_collect_def watch_windows_def cursor_initialized_def window)
  with run obtain report where r: "r = Inr report"
    by (auto simp: run_operation_def collect_kubernetes_def act_bind_def act_lift_def publish_batch_def
        act_return_def Let_def)
  have repr: "\<forall>v. sw_repr sw v \<noteq> []" by (simp add: sw_def)
  from watch_delivers_every_event [OF repr run] r batch
  have "cursor_initialized cursor'" "wc_node_resource_version cursor' = ''9''"
    "wc_pod_resource_version cursor' = ''9''" by auto
  with repr run r show ?thesis by blast
qed

end
