(* ===== verification/SF_Request_Normalizer.thy ===== *)
theory SF_Request_Normalizer
  imports SF_Metadata_Clients
begin

text \<open>
  Request normalization, \<open>stateflow/gateway/normalizer/request.py\<close>: an OpenAI chat, OpenAI responses
  or Anthropic messages request as one provider-neutral request. The body is a decoded JSON mapping.
  \<open>text\<close> is the text of a float or container (\<open>SF_Py_Float\<close>) and \<open>fresh\<close> the sixteen hexadecimal
  digits of the \<open>uuid4\<close> the code draws when no request id is given.

  A set of names is the list of its elements without duplicates. The elements of a JSON list of names
  are strings; for any other element the model raises a \<open>TypeError\<close>, as the code does for
  the elements that cannot be hashed.
\<close>

section \<open>Reading headers and fields\<close>

fun first_header :: "(string, string) dict \<Rightarrow> string list \<Rightarrow> string" where
  "first_header lowered [] = []"
| "first_header lowered (name # names) =
     (case dict_get lowered (str_lower name) of Some v \<Rightarrow> v | None \<Rightarrow> first_header lowered names)"

definition header_value :: "(string, string) dict \<Rightarrow> string list \<Rightarrow> string" where
  "header_value headers names =
     first_header (foldl (\<lambda>m (k, v). dict_set m (str_lower k) v) [] headers) names"

fun str_split :: "char \<Rightarrow> string \<Rightarrow> string list" where
  "str_split c [] = [[]]"
| "str_split c (x # xs) =
     (if x = c then [] # str_split c xs
      else case str_split c xs of s # ss \<Rightarrow> (x # s) # ss | [] \<Rightarrow> [[x]])"

definition csv_values :: "string \<Rightarrow> string list" where
  "csv_values v = remdups (filter (\<lambda>s. s \<noteq> []) (map str_strip (str_split (CHR '','') v)))"

definition bool_value :: "(pyval \<Rightarrow> string) \<Rightarrow> pyval \<Rightarrow> bool \<Rightarrow> bool" where
  "bool_value text v fallback =
     (case v of
        PNone \<Rightarrow> fallback
      | PBool b \<Rightarrow> b
      | _ \<Rightarrow> str_lower (str_strip (py_str text v)) \<notin> {''0'', ''false'', ''no'', ''off''})"

definition text_tokens :: "string \<Rightarrow> int" where
  "text_tokens s = max 1 ((int (length s) + 3) div 4)"

fun estimate_tokens :: "(pyval \<Rightarrow> string) \<Rightarrow> pyval \<Rightarrow> int" where
  "estimate_tokens text PNone = 0"
| "estimate_tokens text (PStr s) = text_tokens s"
| "estimate_tokens text (PDict d) = sum_list (map (\<lambda>(k, v). text_tokens k + estimate_tokens text v) d)"
| "estimate_tokens text (PList vs) = sum_list (map (estimate_tokens text) vs)"
| "estimate_tokens text (PTime t) = text_tokens (text (PTime t))"
| "estimate_tokens text _ = 1"

text \<open>\<open>set(v or [])\<close>\<close>

definition name_set :: "pyval \<Rightarrow> string list res" where
  "name_set v =
     res_bind (py_iter (py_or v (PList []))) (\<lambda>vs.
     res_bind (res_map (\<lambda>x. case x of PStr s \<Rightarrow> Inr s | _ \<Rightarrow> Inl (TypeError ''unhashable type'')) vs) (\<lambda>ss.
     Inr (remdups ss)))"

definition set_union :: "string list \<Rightarrow> string list \<Rightarrow> string list" where
  "set_union xs ys = remdups (xs @ ys)"

text \<open>\<open>metadata.get(key, default)\<close>, where \<open>metadata\<close> need not be a mapping.\<close>

definition metadata_get :: "pyval \<Rightarrow> string \<Rightarrow> pyval \<Rightarrow> pyval res" where
  "metadata_get metadata key fallback =
     (case metadata of
        PDict d \<Rightarrow> Inr (item_get d key fallback)
      | _ \<Rightarrow> Inl (OtherException ''AttributeError''))"

section \<open>The request\<close>

record neutral_request =
  nr_protocol :: string
  nr_request_id :: string
  nr_session_id :: string
  nr_task_id :: string
  nr_turn_id :: int
  nr_step_id :: string
  nr_attempt_id :: string
  nr_trace_id :: string
  nr_model :: string
  nr_prompt_tokens :: int
  nr_predicted_output_tokens :: int
  nr_required_capabilities :: "string list"
  nr_tenant_id :: string
  nr_security_domain :: string
  nr_allowed_models :: "string list"
  nr_allowed_regions :: "string list"
  nr_allowed_cache_domains :: "string list"
  nr_remote_kv_allowed :: bool
  nr_cost_budget :: "pyfloat option"
  nr_stream :: bool
  nr_body :: "(string, pyval) dict"
  nr_headers :: "(string, string) dict"

definition backend_payload :: "neutral_request \<Rightarrow> string \<Rightarrow> (string, pyval) dict" where
  "backend_payload r target_model =
     (if target_model \<noteq> [] then dict_set (nr_body r) ''model'' (PStr target_model) else nr_body r)"

definition sorted_names :: "string list \<Rightarrow> pyval" where
  "sorted_names xs = PList (map PStr (sort xs))"

definition to_state_payload :: "neutral_request \<Rightarrow> (string, pyval) dict" where
  "to_state_payload r =
     [(''model'', PStr (nr_model r)), (''logical_model'', PStr (nr_model r)),
      (''prompt_tokens'', PInt (nr_prompt_tokens r)),
      (''predicted_output_tokens'', PInt (nr_predicted_output_tokens r)),
      (''required_capabilities'', sorted_names (nr_required_capabilities r)),
      (''request_id'', PStr (nr_request_id r)),
      (''identity'', PDict [(''tenant_id'', PStr (nr_tenant_id r))]),
      (''security'', PDict
        [(''tenant_id'', PStr (nr_tenant_id r)), (''security_domain'', PStr (nr_security_domain r)),
         (''allowed_models'', sorted_names (nr_allowed_models r)),
         (''allowed_regions'', sorted_names (nr_allowed_regions r)),
         (''allowed_cache_domains'', sorted_names (nr_allowed_cache_domains r)),
         (''remote_kv_allowed'', PBool (nr_remote_kv_allowed r))])]
     @ (case nr_cost_budget r of
          None \<Rightarrow> []
        | Some b \<Rightarrow> [(''qos'', PDict [(''task_cost_budget'', float_value b)])])"

section \<open>Normalization\<close>

text \<open>What the protocol branch reads: protocol, prompt tokens, output tokens, required capabilities.\<close>

definition protocol_reading ::
  "(pyval \<Rightarrow> string) \<Rightarrow> (string, pyval) dict \<Rightarrow> string \<Rightarrow> int \<Rightarrow> pyval
     \<Rightarrow> (string \<times> int \<times> int \<times> string list) res" where
  "protocol_reading text payload protocol estimate output =
     res_bind (py_int (py_or (item_get payload ''prompt_tokens'' PNone) (PInt estimate))) (\<lambda>prompt_tokens.
     res_bind (py_int (py_or output (PInt 256))) (\<lambda>predicted_output.
     res_bind (name_set (item_get payload ''required_capabilities'' (PList []))) (\<lambda>required.
     Inr (protocol, prompt_tokens, predicted_output,
          if py_truthy (item_get payload ''tools'' PNone) then set_union required [''tool_calling''] else required))))"

definition read_protocol ::
  "(pyval \<Rightarrow> string) \<Rightarrow> string \<Rightarrow> (string, pyval) dict \<Rightarrow> (string \<times> int \<times> int \<times> string list) res" where
  "read_protocol text path payload =
     (let get = (\<lambda>key fallback. item_get payload key fallback);
          messages = get ''messages'' (PList [])
      in if str_endswith path ''/chat/completions'' then
           protocol_reading text payload ''openai_chat'' (estimate_tokens text messages)
             (py_or (get ''max_tokens'' PNone) (get ''max_completion_tokens'' PNone))
         else if str_endswith path ''/responses'' then
           protocol_reading text payload ''openai_responses''
             (estimate_tokens text (get ''input'' messages)) (get ''max_output_tokens'' PNone)
         else if str_endswith path ''/messages'' then
           protocol_reading text payload ''anthropic_messages''
             (estimate_tokens text messages + estimate_tokens text (get ''system'' (PStr [])))
             (get ''max_tokens'' PNone)
         else Inl (ValueError (''unsupported model API path: '' @ path)))"

definition first_text :: "string \<Rightarrow> string \<Rightarrow> string" where
  "first_text s t = (if s \<noteq> [] then s else t)"

definition lazy_text :: "string \<Rightarrow> string res \<Rightarrow> string res" where
  "lazy_text s r = (if s \<noteq> [] then Inr s else r)"

definition normalize_request ::
  "(pyval \<Rightarrow> string) \<Rightarrow> string \<Rightarrow> string \<Rightarrow> (string, pyval) dict \<Rightarrow> (string, string) dict \<Rightarrow> neutral_request res" where
  "normalize_request text fresh raw_path payload headers =
     (let path = str_rstrip (CHR ''/'') raw_path;
          header = header_value headers;
          field = (\<lambda>key. py_str text (item_get payload key (PStr [])));
          metadata = py_or (item_get payload ''metadata'' PNone) (PDict []);
          meta_text = (\<lambda>key fallback. res_bind (metadata_get metadata key (PStr fallback)) (\<lambda>v. Inr (py_str text v)));
          meta_names = (\<lambda>key. res_bind (metadata_get metadata key (PList [])) name_set)
      in
      res_bind (read_protocol text path payload) (\<lambda>(protocol, prompt_tokens, predicted_output, required).
      let request_id = first_text (header [''x-request-id'', ''request-id''])
            (first_text (field ''request_id'') (''req-'' @ fresh)) in
      res_bind (lazy_text (header [''x-stateflow-session-id'', ''x-session-id'', ''session-id''])
          (lazy_text (field ''session_id'') (meta_text ''session_id'' []))) (\<lambda>session.
      let session_id = first_text session (''session-'' @ request_id) in
      res_bind (lazy_text (header [''x-stateflow-task-id'', ''x-task-id'', ''task-id''])
          (lazy_text (field ''task_id'') (meta_text ''task_id'' ''default-task''))) (\<lambda>task_id.
      let trace_id = first_text (header [''x-trace-id'', ''traceparent'']) (field ''trace_id'');
          step_id = first_text (header [''x-stateflow-step-id'', ''x-step-id'']) (field ''step_id'');
          attempt_id = first_text (header [''x-stateflow-attempt-id'']) (field ''attempt_id'');
          required' = set_union required (csv_values (header [''x-stateflow-required-capabilities''])) in
      res_bind (lazy_text (header [''x-stateflow-tenant-id'', ''x-tenant-id''])
          (meta_text ''tenant_id'' ''default'')) (\<lambda>tenant_id.
      res_bind (lazy_text (header [''x-stateflow-security-domain''])
          (meta_text ''security_domain'' ''default'')) (\<lambda>security_domain.
      res_bind (meta_names ''allowed_models'') (\<lambda>models.
      res_bind (meta_names ''allowed_regions'') (\<lambda>regions.
      res_bind (meta_names ''allowed_cache_domains'') (\<lambda>cache_domains.
      let remote_kv_raw = header [''x-stateflow-remote-kv-allowed''] in
      res_bind (if remote_kv_raw \<noteq> [] then Inr (PStr remote_kv_raw)
                else metadata_get metadata ''remote_kv_allowed'' PNone) (\<lambda>remote_kv.
      res_bind (metadata_get metadata ''cost_budget'' PNone) (\<lambda>meta_budget.
      let budget_raw = item_get payload ''cost_budget'' meta_budget in
      res_bind (if budget_raw = PNone then Inr None
                else res_bind (py_float budget_raw) (\<lambda>x. Inr (Some x))) (\<lambda>cost_budget.
      let turn_header = header [''x-stateflow-turn-id'', ''x-turn-id''];
          turn_raw = (if turn_header \<noteq> [] then PStr turn_header else item_get payload ''turn_id'' (PInt 0)) in
      res_bind (py_int (py_or turn_raw (PInt 0))) (\<lambda>turn_id.
      Inr \<lparr>nr_protocol = protocol, nr_request_id = request_id, nr_session_id = session_id,
           nr_task_id = first_text task_id ''default-task'', nr_turn_id = turn_id, nr_step_id = step_id,
           nr_attempt_id = attempt_id, nr_trace_id = trace_id, nr_model = field ''model'',
           nr_prompt_tokens = max 0 prompt_tokens, nr_predicted_output_tokens = max 0 predicted_output,
           nr_required_capabilities = required', nr_tenant_id = tenant_id,
           nr_security_domain = security_domain,
           nr_allowed_models = set_union models (csv_values (header [''x-stateflow-allowed-models''])),
           nr_allowed_regions = set_union regions (csv_values (header [''x-stateflow-allowed-regions''])),
           nr_allowed_cache_domains =
             set_union cache_domains (csv_values (header [''x-stateflow-allowed-cache-domains''])),
           nr_remote_kv_allowed = bool_value text remote_kv True, nr_cost_budget = cost_budget,
           nr_stream = py_truthy (item_get payload ''stream'' (PBool False)),
           nr_body = payload, nr_headers = headers\<rparr>)))))))))))))"

end
