(* ===== verification/SF_Backends.thy ===== *)
theory SF_Backends
  imports SF_Request_Normalizer SF_Scheduler_Types
begin

text \<open>
  The backend boundary of the gateway, \<open>stateflow/backend/base.py\<close>, with the two adapters of
  \<open>stateflow/backend/openai_compatible\<close>. An adapter is its \<open>send\<close> function. The HTTP exchange of the
  OpenAI-compatible adapter, \<open>json.dumps\<close> and \<open>json.loads\<close> are arguments; \<open>json.loads\<close> gives the
  message of its \<open>JSONDecodeError\<close> or the value.
\<close>

section \<open>Adapters and their registry\<close>

record backend_response =
  br_status_code :: int
  br_payload :: pyval
  br_headers :: "(string, string) dict"
  br_output_tokens :: int

datatype send_error = BackendError string | SendRaised exc

type_synonym backend_adapter = "neutral_request \<Rightarrow> target_candidate \<Rightarrow> send_error + backend_response"

type_synonym backend_registry = "(string, backend_adapter) dict"

definition register_backend :: "backend_registry \<Rightarrow> string \<Rightarrow> backend_adapter \<Rightarrow> backend_registry" where
  "register_backend bs key adapter = dict_set bs key adapter"

definition get_backend :: "backend_registry \<Rightarrow> string \<Rightarrow> backend_adapter option" where
  "get_backend bs key = dict_get bs key"

text \<open>\<open>quoted\<close> is the \<open>repr\<close> of a string.\<close>

definition require_backend ::
  "(string \<Rightarrow> string) \<Rightarrow> backend_registry \<Rightarrow> string \<Rightarrow> send_error + backend_adapter" where
  "require_backend quoted bs key =
     (case get_backend bs key of
        None \<Rightarrow> Inl (BackendError (''no backend adapter registered for '' @ quoted key))
      | Some adapter \<Rightarrow> Inr adapter)"

section \<open>The in-memory adapter\<close>

definition in_memory_payload :: "neutral_request \<Rightarrow> target_candidate \<Rightarrow> pyval" where
  "in_memory_payload request t =
     (let message = PStr (''StateFlow routed request to '' @ tc_model_id t @ ''@'' @ tc_replica_id t @ ''.'');
          prompt = PInt (nr_prompt_tokens request)
      in if nr_protocol request = ''anthropic_messages'' then PDict
           [(''id'', PStr (nr_request_id request)), (''type'', PStr ''message''),
            (''role'', PStr ''assistant''), (''model'', PStr (tc_model_id t)),
            (''content'', PList [PDict [(''type'', PStr ''text''), (''text'', message)]]),
            (''stop_reason'', PStr ''end_turn''),
            (''usage'', PDict [(''input_tokens'', prompt), (''output_tokens'', PInt 8)])]
         else if nr_protocol request = ''openai_responses'' then PDict
           [(''id'', PStr (nr_request_id request)), (''object'', PStr ''response''),
            (''model'', PStr (tc_model_id t)),
            (''output'', PList [PDict [(''type'', PStr ''message''), (''role'', PStr ''assistant''),
              (''content'', PList [PDict [(''type'', PStr ''output_text''), (''text'', message)]])]]),
            (''usage'', PDict [(''input_tokens'', prompt), (''output_tokens'', PInt 8)])]
         else PDict
           [(''id'', PStr (nr_request_id request)), (''object'', PStr ''chat.completion''),
            (''model'', PStr (tc_model_id t)),
            (''choices'', PList [PDict [(''index'', PInt 0),
              (''message'', PDict [(''role'', PStr ''assistant''), (''content'', message)]),
              (''finish_reason'', PStr ''stop'')]]),
            (''usage'', PDict [(''prompt_tokens'', prompt), (''completion_tokens'', PInt 8),
              (''total_tokens'', PInt (nr_prompt_tokens request + 8))])])"

definition in_memory_send :: backend_adapter where
  "in_memory_send request t =
     Inr \<lparr>br_status_code = 200, br_payload = in_memory_payload request t, br_headers = [],
          br_output_tokens = 8\<rparr>"

section \<open>The OpenAI-compatible adapter\<close>

record openai_backend =
  ob_base_url :: string
  ob_api_key :: string
  ob_timeout_seconds :: real

definition new_openai_backend :: "string \<Rightarrow> string \<Rightarrow> real \<Rightarrow> openai_backend" where
  "new_openai_backend base_url api_key timeout_seconds =
     \<lparr>ob_base_url = str_rstrip (CHR ''/'') base_url, ob_api_key = api_key,
      ob_timeout_seconds = timeout_seconds\<rparr>"

record http_request =
  hq_url :: string
  hq_body :: string
  hq_headers :: "(string, string) dict"
  hq_timeout :: real

datatype http_reply = HttpResponse int string | HttpError int string | TransportError string

definition protocol_paths :: "(string, string) dict" where
  "protocol_paths =
     [(''openai_chat'', ''/v1/chat/completions''), (''openai_responses'', ''/v1/responses''),
      (''anthropic_messages'', ''/v1/messages'')]"

fun first_count :: "(string, pyval) dict \<Rightarrow> string list \<Rightarrow> int" where
  "first_count usage [] = 0"
| "first_count usage (key # keys) =
     (case dict_get usage key of
        Some v \<Rightarrow> (case py_int v of Inr n \<Rightarrow> max 0 n | Inl _ \<Rightarrow> 0)
      | None \<Rightarrow> first_count usage keys)"

definition output_tokens_of :: "pyval \<Rightarrow> int" where
  "output_tokens_of payload =
     (case payload of
        PDict d \<Rightarrow> (case dict_get d ''usage'' of
            Some (PDict usage) \<Rightarrow> first_count usage [''output_tokens'', ''completion_tokens'']
          | _ \<Rightarrow> 0)
      | _ \<Rightarrow> 0)"

definition openai_request ::
  "(pyval \<Rightarrow> string) \<Rightarrow> openai_backend \<Rightarrow> neutral_request \<Rightarrow> target_candidate \<Rightarrow> http_request res" where
  "openai_request dumps b request t =
     res_bind (if md_path (tc_metadata t) \<noteq> [] then Inr (md_path (tc_metadata t))
               else case dict_get protocol_paths (nr_protocol request) of
                   Some path \<Rightarrow> Inr path
                 | None \<Rightarrow> Inl (KeyError (nr_protocol request))) (\<lambda>path. Inr
       \<lparr>hq_url = ob_base_url b @ path,
        hq_body = dumps (PDict (backend_payload request (tc_model_id t))),
        hq_headers = (''Content-Type'', ''application/json'') #
          (if ob_api_key b \<noteq> [] then [(''Authorization'', ''Bearer '' @ ob_api_key b)] else []),
        hq_timeout = ob_timeout_seconds b\<rparr>)"

definition openai_send ::
  "(http_request \<Rightarrow> http_reply) \<Rightarrow> (pyval \<Rightarrow> string) \<Rightarrow> (string \<Rightarrow> string + pyval) \<Rightarrow> openai_backend
     \<Rightarrow> backend_adapter" where
  "openai_send open_url dumps loads b request t =
     (case openai_request dumps b request t of
        Inl e \<Rightarrow> Inl (SendRaised e)
      | Inr req \<Rightarrow>
          (case open_url req of
             HttpResponse status raw \<Rightarrow>
               (case (if raw = [] then Inr (PDict []) else loads raw) of
                  Inl message \<Rightarrow> Inl (BackendError (''backend request failed: '' @ message))
                | Inr payload \<Rightarrow> Inr
                    \<lparr>br_status_code = status, br_payload = payload, br_headers = [],
                     br_output_tokens = output_tokens_of payload\<rparr>)
           | HttpError code detail \<Rightarrow>
               Inl (BackendError (''backend HTTP '' @ show_int code @ '': '' @ take 500 detail))
           | TransportError message \<Rightarrow> Inl (BackendError (''backend request failed: '' @ message))))"

end
