(* ===== verification/SF_Gateway_Projector.thy ===== *)
theory SF_Gateway_Projector
  imports SF_Request_Normalizer SF_Scheduler_Types
begin

text \<open>
  The gateway's state projector, \<open>stateflow/adapters/gateway.py\<close>: a request, the registered targets
  and a routing decision as entities, relations and values of the State Plane. Every method is an
  action of the adapter base; a method that raises keeps the writes made before. Each update reads the
  clock when it is built: \<open>now n\<close> is the \<open>n\<close>-th of these readings in a call.
\<close>

definition gateway_producer :: string where
  "gateway_producer = ''stateflow-gateway-adapter''"

definition gateway_component_ref :: string where
  "gateway_component_ref = ''component/component/stateflow-gateway''"

definition gateway_descriptor :: component_descriptor where
  "gateway_descriptor = (new_descriptor ''stateflow-gateway'' ''request_scheduler'')
     \<lparr>cd_implementation := ''stateflow'', cd_version := ''0.3'', cd_schema_versions := [''1.1''],
      cd_produces_state := [''request.context_tokens'', ''request.expected_output_tokens'',
                           ''request.target_instance''],
      cd_manages_types := [''request''], cd_relation_capabilities := [''executing_on''],
      cd_update_mode := ''event''\<rparr>"

definition gateway_entity :: graph_entity where
  "gateway_entity = (new_entity gateway_component_ref COMPONENT ''component'')
     \<lparr>ge_lifecycle := ''ready'', ge_labels := [(''kind'', ''request_scheduler'')]\<rparr>"

definition projector_init :: "(int \<Rightarrow> datetime) \<Rightarrow> unit adapter_action" where
  "projector_init clock =
     act_then (do_register_component gateway_descriptor) (do_upsert_entity clock gateway_entity)"

definition request_correlation :: "neutral_request \<Rightarrow> string \<Rightarrow> correlation_identity" where
  "request_correlation request action_id = default_correlation
     \<lparr>ci_trace_id := nr_trace_id request, ci_session_id := nr_session_id request,
      ci_request_id := nr_request_id request, ci_action_id := action_id,
      ci_component_id := ''stateflow-gateway''\<rparr>"

section \<open>Targets\<close>

definition target_descriptor :: "target_candidate \<Rightarrow> component_descriptor" where
  "target_descriptor t = (new_descriptor (tc_endpoint_id t) ''inference_runtime'')
     \<lparr>cd_implementation := md_engine (tc_metadata t), cd_version := md_version (tc_metadata t),
      cd_produces_state := [''runtime.queue_depth'', ''runtime.health''],
      cd_manages_types := [''runtime_object''],
      cd_relation_capabilities := [''deployed_on'', ''executes''],
      cd_update_mode := ''direct_query'', cd_endpoint := tc_endpoint_id t\<rparr>"

definition target_component_entity :: "string \<Rightarrow> target_candidate \<Rightarrow> graph_entity" where
  "target_component_entity component t = (new_entity component COMPONENT ''component'')
     \<lparr>ge_lifecycle := (if tc_available t \<and> tc_healthy t then ''ready'' else ''degraded''),
      ge_labels := [(''model_id'', tc_model_id t)]\<rparr>"

definition target_instance_entity :: "string \<Rightarrow> string \<Rightarrow> target_candidate \<Rightarrow> graph_entity" where
  "target_instance_entity inst component t = (new_entity inst DEPLOYMENT ''instance'')
     \<lparr>ge_lifecycle := (if tc_available t then ''ready'' else ''unavailable''),
      ge_owner_component_ref := component,
      ge_labels := [(''replica_id'', tc_replica_id t), (''model_id'', tc_model_id t)]\<rparr>"

definition gateway_relation ::
  "string \<Rightarrow> string \<Rightarrow> string \<Rightarrow> datetime \<Rightarrow> source_authority \<Rightarrow> string \<Rightarrow> relation_update" where
  "gateway_relation source relation_type target timestamp authority key =
     (new_relation_update source relation_type target gateway_producer timestamp authority)
     \<lparr>ru_idempotency_key := key\<rparr>"

definition derived_update :: "string \<Rightarrow> string \<Rightarrow> pyval \<Rightarrow> datetime \<Rightarrow> state_update" where
  "derived_update entity key v timestamp =
     (new_state_update entity key v gateway_producer timestamp DERIVED)
     \<lparr>su_semantic := SEM_DERIVED, su_confidence := 1 / 2\<rparr>"

text \<open>The optional node of a target: its entity, and the relation that contains the instance.\<close>

definition target_node_step ::
  "(int \<Rightarrow> datetime) \<Rightarrow> (nat \<Rightarrow> datetime) \<Rightarrow> target_candidate \<Rightarrow> string \<Rightarrow> relation_update list adapter_action" where
  "target_node_step clock now t inst =
     (let node_id = md_node_id (tc_metadata t) in
      if node_id = [] then act_return []
      else
        act_bind (act_lift (node_ref node_id)) (\<lambda>node.
        act_then (do_upsert_entity clock ((new_entity node DEPLOYMENT ''node'')\<lparr>ge_lifecycle := ''ready''\<rparr>))
          (act_return [gateway_relation node ''contains'' inst (now 1) STRUCTURED_LIFECYCLE
             (''contains:'' @ node @ '':'' @ inst)])))"

definition target_updates :: "(nat \<Rightarrow> datetime) \<Rightarrow> target_candidate \<Rightarrow> string \<Rightarrow> string \<Rightarrow> state_update list res" where
  "target_updates now t component inst =
     (let md = tc_metadata t in
      res_bind (case md_queue_depth md of
          None \<Rightarrow> Inr []
        | Some r \<Rightarrow> res_bind r (\<lambda>depth. Inr [derived_update component ''runtime.queue_depth'' (PInt depth) (now 4)]))
        (\<lambda>queue.
      res_bind (case md_allocated_gpu md of
          None \<Rightarrow> Inr []
        | Some r \<Rightarrow> res_bind r (\<lambda>gpu. Inr [derived_update inst ''instance.allocated_gpu'' (PFloat gpu) (now 5)]))
        (\<lambda>allocated. Inr
      ([derived_update component ''runtime.health''
          (PStr (if tc_healthy t then ''healthy'' else ''unhealthy'')) (now 2),
        derived_update inst ''instance.ready'' (PBool (tc_available t)) (now 3)] @ queue @ allocated))))"

definition record_target ::
  "(int \<Rightarrow> datetime) \<Rightarrow> (nat \<Rightarrow> datetime) \<Rightarrow> target_candidate \<Rightarrow> unit adapter_action" where
  "record_target clock now t =
     act_bind (act_lift (runtime_ref (tc_endpoint_id t))) (\<lambda>component.
     act_bind (act_lift (instance_ref (tc_replica_id t))) (\<lambda>inst.
     act_then (do_bind component [(''component_id'', tc_endpoint_id t)])
    (act_then (do_bind inst [(''instance_id'', tc_replica_id t)])
    (act_then (do_register_component (target_descriptor t))
    (act_then (do_upsert_entity clock (target_component_entity component t))
    (act_then (do_upsert_entity clock (target_instance_entity inst component t))
    (act_bind (target_node_step clock now t inst) (\<lambda>contains.
     act_then (do_upsert_relations
       (gateway_relation component ''deployed_on'' inst (now 0) STRUCTURED_LIFECYCLE
          (''deployed_on:'' @ component @ '':'' @ inst) # contains))
    (act_bind (act_lift (target_updates now t component inst)) (\<lambda>updates.
     act_then (do_publish_state updates) (act_return ())))))))))))"

section \<open>Requests and decisions\<close>

definition request_entity :: "string \<Rightarrow> neutral_request \<Rightarrow> graph_entity" where
  "request_entity ref request = (new_entity ref COMPONENT ''request'')
     \<lparr>ge_lifecycle := ''queued'', ge_owner_component_ref := gateway_component_ref,
      ge_labels := [(''tenant_id'', nr_tenant_id request), (''model'', nr_model request)]\<rparr>"

definition request_updates :: "(nat \<Rightarrow> datetime) \<Rightarrow> string \<Rightarrow> neutral_request \<Rightarrow> state_update list" where
  "request_updates now ref request =
     (let update = (\<lambda>n key v suffix.
            (new_state_update ref key v gateway_producer (now n) STRUCTURED_LIFECYCLE)
            \<lparr>su_correlation := request_correlation request [],
             su_idempotency_key := nr_request_id request @ suffix\<rparr>)
      in [update 0 ''request.context_tokens'' (PInt (nr_prompt_tokens request)) '':context_tokens'',
          update 1 ''request.expected_output_tokens'' (PInt (nr_predicted_output_tokens request))
            '':expected_output_tokens''])"

definition record_request ::
  "(int \<Rightarrow> datetime) \<Rightarrow> (nat \<Rightarrow> datetime) \<Rightarrow> neutral_request \<Rightarrow> target_candidate list \<Rightarrow> unit adapter_action" where
  "record_request clock now request targets =
     act_bind (act_lift (request_ref (nr_request_id request))) (\<lambda>ref.
     act_then (do_bind ref [(''request_id'', nr_request_id request),
       (''session_id'', nr_session_id request), (''trace_id'', nr_trace_id request)])
    (act_then (do_upsert_entity clock (request_entity ref request))
    (act_then (do_publish_state (request_updates now ref request))
    (act_then (act_map (\<lambda>(i, t). record_target clock (\<lambda>n. now (2 + 6 * i + n)) t) (enumerate 0 targets))
       (act_return ())))))"

text \<open>\<open>next(\<dots>)\<close> without a default raises \<open>StopIteration\<close> when nothing matches.\<close>

definition selected_evaluation :: "routing_decision \<Rightarrow> candidate_evaluation option" where
  "selected_evaluation d =
     find (\<lambda>c. ce_model_id c = rd_selected_model d \<and> ce_endpoint_id c = rd_selected_endpoint d \<and>
               ce_replica_id c = rd_selected_replica d) (rd_candidates d)"

definition decision_relation ::
  "neutral_request \<Rightarrow> routing_decision \<Rightarrow> string \<Rightarrow> string \<Rightarrow> string \<Rightarrow> datetime \<Rightarrow> relation_update" where
  "decision_relation request d ref target prefix timestamp =
     gateway_relation ref ''executing_on'' target timestamp AUTHORITATIVE_DOMAIN
       (prefix @ nr_request_id request @ '':'' @ rd_decision_id d)"

definition project_decision ::
  "(nat \<Rightarrow> datetime) \<Rightarrow> neutral_request \<Rightarrow> routing_decision \<Rightarrow> unit adapter_action" where
  "project_decision now request d =
     (case selected_evaluation d of
        None \<Rightarrow> act_lift (Inl (OtherException ''StopIteration''))
      | Some selected \<Rightarrow>
     act_bind (act_lift (request_ref (nr_request_id request))) (\<lambda>ref.
     act_bind (act_lift (runtime_ref (ce_endpoint_id selected))) (\<lambda>runtime.
     act_bind (act_lift (instance_ref (ce_replica_id selected))) (\<lambda>inst.
     act_then (do_bind ref [(''action_id'', rd_decision_id d)])
    (act_then (do_publish_state
       [(new_state_update ref ''request.target_instance'' (PStr inst) gateway_producer (now 0)
           AUTHORITATIVE_DOMAIN)
        \<lparr>su_correlation := request_correlation request (rd_decision_id d),
         su_idempotency_key := nr_request_id request @ '':target:'' @ rd_decision_id d\<rparr>])
    (act_then (do_upsert_relations
       [decision_relation request d ref runtime ''exec-runtime:'' (now 1),
        decision_relation request d ref inst ''exec-instance:'' (now 2)])
       (act_return ())))))))"

end
