(* ===== verification/SF_Agent_Values.thy ===== *)
theory SF_Agent_Values
  imports SF_Iso_Time SF_Py_Float
begin

text \<open>
  The attribute values of an Agent State (\<open>stateflow/state/schema.py\<close>,
  \<open>stateflow/state/store/in_memory.py\<close>). The store sets attributes by name with values taken from
  event payloads and never checks a type, so an attribute can hold any value: the model keeps the
  values dynamic, and each operation has the result Python gives it on the value it finds, a
  \<open>TypeError\<close>, \<open>ValueError\<close> or \<open>AttributeError\<close> included. An object is its class name with its attributes.

  Ordering is given for numbers and for strings; between two lists, two sets, two datetimes or two
  durations, which no well-typed state compares, the model raises a \<open>TypeError\<close>. \<open>repr\<close> is the text of a float,
  a container, a datetime, a duration or an object.
\<close>

datatype sval =
    SNone
  | SBool bool
  | SInt int
  | SFloat pyfloat
  | SStr string
  | STime datetime
  | SSpan timedelta
  | SEnum string string
  | SList "sval list"
  | SSet "sval list"
  | SDict "(string \<times> sval) list"
  | SObj string "(string \<times> sval) list"

text \<open>A JSON value as an attribute value; the one non-finite constructor of \<open>pyval\<close> is read as NaN.\<close>

fun of_py :: "pyval \<Rightarrow> sval" where
  "of_py PNone = SNone"
| "of_py (PBool b) = SBool b"
| "of_py (PInt i) = SInt i"
| "of_py (PFloat x) = SFloat (Finite x)"
| "of_py PNonFinite = SFloat NaN"
| "of_py (PStr s) = SStr s"
| "of_py (PTime t) = STime t"
| "of_py (PList vs) = SList (map of_py vs)"
| "of_py (PDict d) = SDict (map (\<lambda>(k, v). (k, of_py v)) d)"

abbreviation attribute_error :: exc where
  "attribute_error \<equiv> OtherException ''AttributeError''"

section \<open>Truth, text and numbers\<close>

fun s_truthy :: "sval \<Rightarrow> bool" where
  "s_truthy SNone = False"
| "s_truthy (SBool b) = b"
| "s_truthy (SInt i) = (i \<noteq> 0)"
| "s_truthy (SFloat x) = (x \<noteq> Finite 0)"
| "s_truthy (SStr s) = (s \<noteq> [])"
| "s_truthy (SSpan d) = (d \<noteq> 0)"
| "s_truthy (SList vs) = (vs \<noteq> [])"
| "s_truthy (SSet vs) = (vs \<noteq> [])"
| "s_truthy (SDict d) = (d \<noteq> [])"
| "s_truthy _ = True"

definition s_or :: "sval \<Rightarrow> sval \<Rightarrow> sval" where
  "s_or a b = (if s_truthy a then a else b)"

fun s_str :: "(sval \<Rightarrow> string) \<Rightarrow> sval \<Rightarrow> string" where
  "s_str repr (SStr s) = s"
| "s_str repr (SInt i) = show_int i"
| "s_str repr (SBool b) = (if b then ''True'' else ''False'')"
| "s_str repr SNone = ''None''"
| "s_str repr (SEnum cls member) = cls @ ''.'' @ member"
| "s_str repr v = repr v"

fun s_int :: "sval \<Rightarrow> int res" where
  "s_int (SInt i) = Inr i"
| "s_int (SBool b) = Inr (if b then 1 else 0)"
| "s_int (SFloat x) = int_of_float x"
| "s_int (SStr s) = parse_int s"
| "s_int _ = Inl (TypeError ''int() argument must be a string or a number'')"

fun s_float :: "sval \<Rightarrow> pyfloat res" where
  "s_float (SInt i) = Inr (Finite (real_of_int i))"
| "s_float (SBool b) = Inr (Finite (if b then 1 else 0))"
| "s_float (SFloat x) = Inr x"
| "s_float (SStr s) = parse_float s"
| "s_float _ = Inl (TypeError ''float() argument must be a string or a number'')"

text \<open>The number an arithmetic operand or a comparison reads; a string is not converted.\<close>

fun s_number :: "sval \<Rightarrow> pyfloat option" where
  "s_number (SInt i) = Some (Finite (real_of_int i))"
| "s_number (SBool b) = Some (Finite (if b then 1 else 0))"
| "s_number (SFloat x) = Some x"
| "s_number _ = None"

fun s_integer :: "sval \<Rightarrow> int option" where
  "s_integer (SInt i) = Some i"
| "s_integer (SBool b) = Some (if b then 1 else 0)"
| "s_integer _ = None"

definition operand_error :: "'a res" where
  "operand_error = Inl (TypeError ''unsupported operand types'')"

definition s_lt :: "sval \<Rightarrow> sval \<Rightarrow> bool res" where
  "s_lt a b =
     (case (s_number a, s_number b) of
        (Some x, Some y) \<Rightarrow> Inr (float_lt x y)
      | _ \<Rightarrow> (case (a, b) of (SStr s, SStr t) \<Rightarrow> Inr (s < t) | _ \<Rightarrow> operand_error))"

text \<open>\<open>max(a, b)\<close>: the second value only when it compares greater.\<close>

definition s_max :: "sval \<Rightarrow> sval \<Rightarrow> sval res" where
  "s_max a b = res_bind (s_lt a b) (\<lambda>less. Inr (if less then b else a))"

definition s_add :: "sval \<Rightarrow> sval \<Rightarrow> sval res" where
  "s_add a b =
     (case (s_integer a, s_integer b) of
        (Some i, Some j) \<Rightarrow> Inr (SInt (i + j))
      | _ \<Rightarrow> (case (s_number a, s_number b) of
                (Some x, Some y) \<Rightarrow> Inr (SFloat (float_add x y))
              | _ \<Rightarrow> operand_error))"

definition s_sub :: "sval \<Rightarrow> sval \<Rightarrow> sval res" where
  "s_sub a b =
     (case (s_integer a, s_integer b) of
        (Some i, Some j) \<Rightarrow> Inr (SInt (i - j))
      | _ \<Rightarrow> (case (s_number a, s_number b) of
                (Some x, Some y) \<Rightarrow> Inr (SFloat (float_sub x y))
              | _ \<Rightarrow> operand_error))"

section \<open>Containers and attributes\<close>

fun s_iter :: "sval \<Rightarrow> sval list res" where
  "s_iter (SList vs) = Inr vs"
| "s_iter (SSet vs) = Inr vs"
| "s_iter (SDict d) = Inr (map (\<lambda>(k, _). SStr k) d)"
| "s_iter (SStr s) = Inr (map (\<lambda>c. SStr [c]) s)"
| "s_iter _ = Inl (TypeError ''object is not iterable'')"

definition s_in :: "sval \<Rightarrow> sval \<Rightarrow> bool res" where
  "s_in v container =
     (case container of
        SList vs \<Rightarrow> Inr (v \<in> set vs)
      | SSet vs \<Rightarrow> Inr (v \<in> set vs)
      | SDict d \<Rightarrow> Inr (case v of SStr k \<Rightarrow> dict_has d k | _ \<Rightarrow> False)
      | SStr t \<Rightarrow> (case v of SStr s \<Rightarrow> Inr (str_contains t s) | _ \<Rightarrow> operand_error)
      | _ \<Rightarrow> Inl (TypeError ''argument is not iterable''))"

fun s_hashable :: "sval \<Rightarrow> bool" where
  "s_hashable (SList _) = False"
| "s_hashable (SSet _) = False"
| "s_hashable (SDict _) = False"
| "s_hashable (SObj _ _) = False"
| "s_hashable _ = True"

text \<open>\<open>set(value or [])\<close>\<close>

definition s_set :: "sval \<Rightarrow> sval res" where
  "s_set v =
     res_bind (s_iter (s_or v (SList []))) (\<lambda>vs.
       if list_all s_hashable vs then Inr (SSet (remdups vs)) else Inl (TypeError ''unhashable type''))"

definition s_attr :: "sval \<Rightarrow> string \<Rightarrow> sval res" where
  "s_attr v name =
     (case v of
        SObj _ attrs \<Rightarrow> (case dict_get attrs name of Some x \<Rightarrow> Inr x | None \<Rightarrow> Inl attribute_error)
      | _ \<Rightarrow> Inl attribute_error)"

definition s_set_attr :: "sval \<Rightarrow> string \<Rightarrow> sval \<Rightarrow> sval res" where
  "s_set_attr v name x =
     (case v of SObj cls attrs \<Rightarrow> Inr (SObj cls (dict_set attrs name x)) | _ \<Rightarrow> Inl attribute_error)"

text \<open>\<open>d.get(key, default)\<close> of a payload.\<close>

abbreviation s_get :: "(string, sval) dict \<Rightarrow> string \<Rightarrow> sval \<Rightarrow> sval" where
  "s_get d key fallback \<equiv> dict_get_or d key fallback"

section \<open>Enumerations\<close>

definition enum_members :: "(string, string list) dict" where
  "enum_members =
     [(''AgentPhase'',
        [''CREATED'', ''RUNNABLE'', ''CONTEXT_BUILDING'', ''MODEL_QUEUED'', ''MODEL_PREFILL'',
         ''MODEL_DECODE'', ''PLANNING'', ''REPLANNING'', ''TOOL_PREPARING'', ''TOOL_QUEUED'',
         ''TOOL_RUNNING'', ''TOOL_WAITING'', ''TOOL_RESULT_READY'', ''CONTEXT_UPDATING'',
         ''CHECKPOINTING'', ''BLOCKED'', ''PAUSED'', ''COMPLETED'', ''FAILED'', ''CANCELLED'']),
      (''ToolStatus'',
        [''PREPARING'', ''QUEUED'', ''RUNNING'', ''WAITING_IO'', ''RESULT_READY'', ''SUCCEEDED'', ''FAILED'']),
      (''KVCacheTier'',
        [''GPU_HBM'', ''CPU_DRAM'', ''LOCAL_SSD'', ''REMOTE_DRAM'', ''REMOTE_SSD'', ''OBJECT_STORAGE''])]"

definition enum_value :: "(sval \<Rightarrow> string) \<Rightarrow> string \<Rightarrow> sval \<Rightarrow> sval \<Rightarrow> sval" where
  "enum_value repr cls v fallback =
     (let member = str_upper (s_str repr v) in
      case v of
        SEnum c m \<Rightarrow> if c = cls then v
                     else if member \<in> set (dict_get_or enum_members cls []) then SEnum cls member else fallback
      | _ \<Rightarrow> if member \<in> set (dict_get_or enum_members cls []) then SEnum cls member else fallback)"

section \<open>Clamping\<close>

text \<open>\<open>max(0.0, min(1.0, v))\<close>; a NaN compares false, so that it gives one.\<close>

definition float_clamp01 :: "pyfloat \<Rightarrow> real" where
  "float_clamp01 v =
     (let m = (if float_lt v (Finite 1) then v else Finite 1) in
      if float_lt (Finite 0) m then (case m of Finite x \<Rightarrow> x | _ \<Rightarrow> 1) else 0)"

lemma float_clamp01_bounds [simp]: "0 \<le> float_clamp01 v" "float_clamp01 v \<le> 1"
  by (cases v; auto simp: float_clamp01_def float_lt_def less_pyfloat_def Let_def)+

definition s_clamp :: "sval \<Rightarrow> real res" where
  "s_clamp v = res_bind (s_float v) (\<lambda>x. Inr (float_clamp01 x))"

end
