(* ===== verification/SF_Agent_Schema.thy ===== *)
theory SF_Agent_Schema
  imports SF_Agent_Values SF_Scheduler_Types
begin

text \<open>
  The Agent State of \<open>stateflow/state/schema.py\<close>. A class is its field table: for each attribute its
  name, its declared type and its default (\<open>None\<close> for a required one). The declared types do not
  constrain the code; they are what the type invariant of the store is stated with. All clock
  readings made while one state is constructed are the reading \<open>now\<close>; \<open>fresh\<close> is the sixteen
  hexadecimal digits of its identifier.
\<close>

section \<open>Field tables\<close>

datatype ftype =
    TBool | TInt | TNum | TStr | TTime | TOptTime | TOptSpan | TOptNum | TNames | TList | TNums
  | TEnum string | TOptEnum string | TObj string | TObjs string

type_synonym field_table = "(string \<times> ftype \<times> sval option) list"

text \<open>The attributes of an object built with the defaults.\<close>

definition default_attrs :: "field_table \<Rightarrow> (string, sval) dict" where
  "default_attrs table = map (\<lambda>(n, _, d). (n, case d of Some v \<Rightarrow> v | None \<Rightarrow> SNone)) table"

definition state_header_fields :: "datetime \<Rightarrow> string \<Rightarrow> field_table" where
  "state_header_fields now fresh =
     [(''schema_version'', TStr, Some (SStr ''0.1'')),
      (''state_id'', TStr, Some (SStr (''state-'' @ fresh))), (''session_id'', TStr, Some (SStr [])),
      (''task_id'', TStr, Some (SStr ''default-task'')), (''turn_id'', TInt, Some (SInt 0)),
      (''step_id'', TStr, Some (SStr [])), (''request_id'', TStr, Some (SStr [])),
      (''attempt_id'', TStr, Some (SStr [])), (''parent_step_id'', TStr, Some (SStr [])),
      (''trace_id'', TStr, Some (SStr [])), (''epoch'', TInt, Some (SInt 0)),
      (''sequence_number'', TInt, Some (SInt 0)), (''created_at'', TTime, Some (STime now)),
      (''updated_at'', TTime, Some (STime now)), (''update_source'', TStr, Some (SStr ''stateflow'')),
      (''dirty_fields'', TNames, Some (SSet [])), (''ttl'', TOptSpan, Some SNone)]"

definition agent_identity_fields :: "field_table" where
  "agent_identity_fields =
     [(''tenant_id'', TStr, Some (SStr ''default'')), (''namespace'', TStr, Some (SStr ''default'')),
      (''harness_type'', TStr, Some (SStr ''generic-proxy'')),
      (''harness_version'', TStr, Some (SStr ''0'')), (''agent_type'', TStr, Some (SStr ''unknown'')),
      (''agent_version'', TStr, Some (SStr ''0'')), (''workflow_type'', TStr, Some (SStr ''unknown'')),
      (''workload_class'', TStr, Some (SStr ''UNKNOWN'')), (''sandbox'', TStr, Some (SStr [])),
      (''workspace_id'', TStr, Some (SStr [])), (''required_capabilities'', TNames, Some (SSet []))]"

definition lifecycle_state_fields :: "datetime \<Rightarrow> field_table" where
  "lifecycle_state_fields now =
     [(''phase'', TEnum ''AgentPhase'', Some (SEnum ''AgentPhase'' ''CREATED'')),
      (''previous_phase'', TOptEnum ''AgentPhase'', Some SNone),
      (''phase_enter_time'', TTime, Some (STime now)), (''runnable'', TBool, Some (SBool False)),
      (''blocked_on'', TStr, Some (SStr [])), (''preemptible'', TBool, Some (SBool True)),
      (''resumable'', TBool, Some (SBool True)), (''progress'', TNum, Some (SFloat (Finite 0))),
      (''current_turn'', TInt, Some (SInt 0)), (''current_step'', TStr, Some (SStr [])),
      (''active_compute_seconds'', TNum, Some (SFloat (Finite 0))),
      (''blocked_seconds'', TNum, Some (SFloat (Finite 0)))]"

definition task_state_fields :: "field_table" where
  "task_state_fields =
     [(''task_type'', TStr, Some (SStr ''unknown'')),
      (''estimated_complexity'', TNum, Some (SFloat (Finite (1 / 2)))),
      (''planning_mode'', TStr, Some (SStr ''REACTIVE'')),
      (''estimated_remaining_steps'', TInt, Some (SInt 0)),
      (''estimated_remaining_model_calls'', TInt, Some (SInt 0)),
      (''estimated_remaining_tool_calls'', TInt, Some (SInt 0)),
      (''completion_probability'', TNum, Some (SFloat (Finite 0))),
      (''requires_long_context'', TBool, Some (SBool False)),
      (''requires_reasoning'', TBool, Some (SBool False)),
      (''requires_tool_use'', TBool, Some (SBool False)),
      (''requires_multimodal'', TBool, Some (SBool False))]"

definition execution_node_fields :: "field_table" where
  "execution_node_fields =
     [(''node_id'', TStr, None), (''node_type'', TStr, Some (SStr ''MODEL'')),
      (''status'', TStr, Some (SStr ''PENDING'')),
      (''estimated_duration_seconds'', TNum, Some (SFloat (Finite 0))),
      (''critical'', TBool, Some (SBool False))]"

definition execution_state_fields :: "field_table" where
  "execution_state_fields =
     [(''nodes'', TObjs ''ExecutionNode'', Some (SList [])), (''edges'', TList, Some (SList [])),
      (''runnable_nodes'', TList, Some (SList [])), (''blocked_nodes'', TList, Some (SList [])),
      (''current_node_id'', TStr, Some (SStr [])), (''critical_path_nodes'', TList, Some (SList [])),
      (''estimated_remaining_critical_path_seconds'', TNum, Some (SFloat (Finite 0)))]"

definition context_segment_fields :: "field_table" where
  "context_segment_fields =
     [(''segment_id'', TStr, None), (''segment_type'', TStr, Some (SStr ''conversation'')),
      (''token_start'', TInt, Some (SInt 0)), (''token_end'', TInt, Some (SInt 0)),
      (''token_count'', TInt, Some (SInt 0)), (''fingerprint'', TStr, Some (SStr [])),
      (''immutable'', TBool, Some (SBool False)), (''cacheable'', TBool, Some (SBool True)),
      (''producer_step_id'', TStr, Some (SStr [])), (''sensitivity_class'', TStr, Some (SStr ''default''))]"

definition context_state_fields :: "field_table" where
  "context_state_fields =
     [(''total_tokens'', TInt, Some (SInt 0)), (''system_tokens'', TInt, Some (SInt 0)),
      (''user_tokens'', TInt, Some (SInt 0)), (''assistant_tokens'', TInt, Some (SInt 0)),
      (''tool_tokens'', TInt, Some (SInt 0)), (''memory_tokens'', TInt, Some (SInt 0)),
      (''artifact_tokens'', TInt, Some (SInt 0)), (''prompt_tokens'', TInt, Some (SInt 0)),
      (''immutable_prefix_tokens'', TInt, Some (SInt 0)), (''mutable_suffix_tokens'', TInt, Some (SInt 0)),
      (''context_fingerprint'', TStr, Some (SStr [])), (''prefix_fingerprint'', TStr, Some (SStr [])),
      (''segments'', TObjs ''ContextSegment'', Some (SList [])),
      (''context_growth_tokens_per_turn'', TNum, Some (SFloat (Finite 0))),
      (''predicted_next_context_tokens'', TInt, Some (SInt 0)),
      (''reusable_prefix_tokens'', TInt, Some (SInt 0)),
      (''reusable_prefix_ratio'', TNum, Some (SFloat (Finite 0))),
      (''compaction_needed'', TBool, Some (SBool False)),
      (''truncation_risk'', TNum, Some (SFloat (Finite 0)))]"

definition model_state_fields :: "field_table" where
  "model_state_fields =
     [(''logical_model'', TStr, Some (SStr [])), (''selected_model'', TStr, Some (SStr [])),
      (''selected_endpoint'', TStr, Some (SStr [])), (''selected_replica'', TStr, Some (SStr [])),
      (''prompt_tokens'', TInt, Some (SInt 0)), (''predicted_output_tokens'', TInt, Some (SInt 0)),
      (''adapter_id'', TStr, Some (SStr [])), (''tokenizer_id'', TStr, Some (SStr [])),
      (''model_revision'', TStr, Some (SStr [])), (''quantization'', TStr, Some (SStr [])),
      (''batch_compatibility_key'', TStr, Some (SStr []))]"

definition tool_execution_fields :: "field_table" where
  "tool_execution_fields =
     [(''tool_id'', TStr, None), (''tool_name'', TStr, None), (''tool_type'', TStr, Some (SStr ''unknown'')),
      (''status'', TEnum ''ToolStatus'', Some (SEnum ''ToolStatus'' ''PREPARING'')),
      (''side_effecting'', TBool, Some (SBool False)), (''idempotent'', TBool, Some (SBool False)),
      (''retryable'', TBool, Some (SBool False)), (''parallelizable'', TBool, Some (SBool False)),
      (''elapsed_seconds'', TNum, Some (SFloat (Finite 0))),
      (''latency_p50_seconds'', TNum, Some (SFloat (Finite 0))),
      (''latency_p95_seconds'', TNum, Some (SFloat (Finite 0))),
      (''remaining_time_seconds'', TNum, Some (SFloat (Finite 0))),
      (''predicted_output_bytes'', TInt, Some (SInt 0)), (''predicted_output_tokens'', TInt, Some (SInt 0)),
      (''result_cacheable'', TBool, Some (SBool False)), (''result_cached'', TBool, Some (SBool False)),
      (''execution_location'', TStr, Some (SStr []))]"

definition tool_state_fields :: "field_table" where
  "tool_state_fields =
     [(''active_tools'', TObjs ''ToolExecution'', Some (SList [])),
      (''predicted_time_until_next_model_call_seconds'', TNum, Some (SFloat (Finite 0))),
      (''last_tool_name'', TStr, Some (SStr []))]"

definition inference_endpoint_state_fields :: "field_table" where
  "inference_endpoint_state_fields =
     [(''endpoint_id'', TStr, None), (''replica_id'', TStr, Some (SStr [])),
      (''model_id'', TStr, Some (SStr [])), (''engine'', TStr, Some (SStr ''unknown'')),
      (''cluster'', TStr, Some (SStr [])), (''node'', TStr, Some (SStr [])),
      (''available'', TBool, Some (SBool True)), (''queue_position'', TInt, Some (SInt 0)),
      (''queue_latency_seconds'', TNum, Some (SFloat (Finite 0))), (''batch_size'', TInt, Some (SInt 0)),
      (''prefill_tokens_per_second'', TNum, Some (SFloat (Finite 0))),
      (''decode_tokens_per_second'', TNum, Some (SFloat (Finite 0))),
      (''gpu_memory_pressure'', TNum, Some (SFloat (Finite 0))),
      (''sm_pressure'', TNum, Some (SFloat (Finite 0))),
      (''bandwidth_pressure'', TNum, Some (SFloat (Finite 0)))]"

definition inference_state_fields :: "field_table" where
  "inference_state_fields =
     [(''engine'', TStr, Some (SStr [])), (''serving_mode'', TStr, Some (SStr ''co-located'')),
      (''endpoints'', TObjs ''InferenceEndpointState'', Some (SList [])),
      (''request_status'', TStr, Some (SStr [])), (''queue_position'', TInt, Some (SInt 0)),
      (''batch_id'', TStr, Some (SStr [])), (''batch_size'', TInt, Some (SInt 0)),
      (''prefilled_tokens'', TInt, Some (SInt 0)), (''decoded_tokens'', TInt, Some (SInt 0)),
      (''prefill_tokens_per_second'', TNum, Some (SFloat (Finite 0))),
      (''decode_tokens_per_second'', TNum, Some (SFloat (Finite 0))),
      (''ttft_seconds'', TNum, Some (SFloat (Finite 0))),
      (''tpot_seconds'', TNum, Some (SFloat (Finite 0)))]"

definition kv_segment_fields :: "field_table" where
  "kv_segment_fields =
     [(''token_start'', TInt, None), (''token_end'', TInt, None), (''layer_start'', TInt, Some (SInt 0)),
      (''layer_end'', TInt, Some (SInt 0)), (''fingerprint'', TStr, Some (SStr [])),
      (''bytes'', TInt, Some (SInt 0)),
      (''tier'', TEnum ''KVCacheTier'', Some (SEnum ''KVCacheTier'' ''GPU_HBM'')),
      (''replicas'', TList, Some (SList [])), (''reuse_probability'', TNum, Some (SFloat (Finite 0))),
      (''predicted_next_access'', TOptTime, Some SNone),
      (''recompute_cost'', TNum, Some (SFloat (Finite 0))),
      (''eviction_score'', TNum, Some (SFloat (Finite 0))), (''kv_dtype'', TStr, Some (SStr [])),
      (''compression_format'', TStr, Some (SStr []))]"

definition kv_cache_state_fields :: "field_table" where
  "kv_cache_state_fields =
     [(''context_fingerprint'', TStr, Some (SStr [])), (''model_id'', TStr, Some (SStr [])),
      (''segments'', TObjs ''KVSegment'', Some (SList [])), (''local_reusable_tokens'', TInt, Some (SInt 0)),
      (''remote_reusable_tokens'', TInt, Some (SInt 0)), (''hit_ratio'', TNum, Some (SFloat (Finite 0))),
      (''recompute_cost'', TNum, Some (SFloat (Finite 0))), (''fetch_cost'', TNum, Some (SFloat (Finite 0))),
      (''eviction_priority'', TNum, Some (SFloat (Finite 0))), (''pinned'', TBool, Some (SBool False)),
      (''preferred_replica'', TStr, Some (SStr []))]"

definition prediction_state_fields :: "datetime \<Rightarrow> field_table" where
  "prediction_state_fields now =
     [(''next_action_probabilities'', TNums, Some (SDict [])),
      (''continuation_probability'', TNum, Some (SFloat (Finite 0))),
      (''predicted_inter_request_gap_seconds'', TNum, Some (SFloat (Finite 0))),
      (''predicted_next_prompt_tokens'', TInt, Some (SInt 0)),
      (''predicted_next_decode_tokens'', TInt, Some (SInt 0)),
      (''predicted_context_growth'', TNum, Some (SFloat (Finite 0))),
      (''predicted_kv_reuse_ratio'', TNum, Some (SFloat (Finite 0))),
      (''predicted_tool_wait_seconds'', TNum, Some (SFloat (Finite 0))),
      (''predicted_remaining_turns'', TInt, Some (SInt 0)),
      (''predictor_version'', TStr, Some (SStr ''heuristic-0.1'')),
      (''confidence'', TNum, Some (SFloat (Finite 0))), (''observed_at'', TTime, Some (STime now)),
      (''ttl'', TOptSpan, Some (SSpan 30000000))]"

definition routing_history_fields :: "field_table" where
  "routing_history_fields =
     [(''current_tier'', TStr, Some (SStr [])), (''current_model'', TStr, Some (SStr [])),
      (''current_endpoint'', TStr, Some (SStr [])), (''current_replica'', TStr, Some (SStr [])),
      (''stable_steps'', TInt, Some (SInt 0)), (''failure_streak'', TInt, Some (SInt 0)),
      (''escalation_count'', TInt, Some (SInt 0)), (''last_tier_change'', TOptTime, Some SNone),
      (''last_change_reason'', TStr, Some (SStr []))]"

definition scheduling_state_fields :: "field_table" where
  "scheduling_state_fields =
     [(''base_priority'', TNum, Some (SFloat (Finite (1 / 2)))),
      (''dynamic_priority'', TNum, Some (SFloat (Finite (1 / 2)))),
      (''session_sticky'', TBool, Some (SBool False)), (''preferred_endpoint'', TStr, Some (SStr [])),
      (''preferred_replica'', TStr, Some (SStr [])), (''allow_migration'', TBool, Some (SBool True)),
      (''allow_speculation'', TBool, Some (SBool False)), (''allow_prefetch'', TBool, Some (SBool True)),
      (''batch_compatibility_key'', TStr, Some (SStr [])),
      (''routing_history'', TObj ''RoutingHistory'', Some (SObj ''RoutingHistory'' (default_attrs routing_history_fields))),
      (''decision_history'', TList, Some (SList []))]"

definition qos_state_fields :: "field_table" where
  "qos_state_fields =
     [(''task_deadline'', TOptTime, Some SNone), (''turn_deadline'', TOptTime, Some SNone),
      (''step_deadline'', TOptTime, Some SNone), (''ttft_target_seconds'', TOptNum, Some SNone),
      (''tpot_target_seconds'', TOptNum, Some SNone), (''task_latency_target_seconds'', TOptNum, Some SNone),
      (''cost_per_token_budget'', TOptNum, Some SNone), (''task_cost_budget'', TOptNum, Some SNone),
      (''objective'', TStr, Some (SStr ''SUCCESS_COST_LATENCY''))]"

definition affinity_state_fields :: "field_table" where
  "affinity_state_fields =
     [(''kv_affinity'', TStr, Some (SStr [])), (''model_affinity'', TStr, Some (SStr [])),
      (''tool_affinity'', TStr, Some (SStr [])), (''sandbox_affinity'', TStr, Some (SStr [])),
      (''data_affinity'', TStr, Some (SStr [])), (''preferred_region'', TStr, Some (SStr [])),
      (''preferred_zone'', TStr, Some (SStr [])), (''preferred_node'', TStr, Some (SStr [])),
      (''preferred_device'', TStr, Some (SStr [])), (''migration_penalty'', TNum, Some (SFloat (Finite 0)))]"

definition failure_state_fields :: "field_table" where
  "failure_state_fields =
     [(''retry_count'', TInt, Some (SInt 0)), (''failure_streak'', TInt, Some (SInt 0)),
      (''failed_component'', TStr, Some (SStr [])), (''error_type'', TStr, Some (SStr [])),
      (''error_severity'', TNum, Some (SFloat (Finite 0))), (''retry_safe'', TBool, Some (SBool True)),
      (''fallback_models'', TList, Some (SList [])), (''fallback_tools'', TList, Some (SList [])),
      (''side_effect_committed'', TBool, Some (SBool False)),
      (''critical_error'', TBool, Some (SBool False))]"

definition observability_state_fields :: "field_table" where
  "observability_state_fields =
     [(''queue_seconds'', TNum, Some (SFloat (Finite 0))), (''llm_seconds'', TNum, Some (SFloat (Finite 0))),
      (''tool_seconds'', TNum, Some (SFloat (Finite 0))),
      (''prefill_seconds'', TNum, Some (SFloat (Finite 0))),
      (''decode_seconds'', TNum, Some (SFloat (Finite 0))), (''kv_hit_tokens'', TInt, Some (SInt 0)),
      (''kv_fetch_tokens'', TInt, Some (SInt 0)), (''kv_miss_tokens'', TInt, Some (SInt 0)),
      (''kv_transfer_bytes'', TInt, Some (SInt 0)), (''estimated_cost'', TNum, Some (SFloat (Finite 0))),
      (''trace_id'', TStr, Some (SStr []))]"

definition security_state_fields :: "field_table" where
  "security_state_fields =
     [(''tenant_id'', TStr, Some (SStr ''default'')), (''security_domain'', TStr, Some (SStr ''default'')),
      (''allowed_models'', TNames, Some (SSet [])), (''allowed_tools'', TNames, Some (SSet [])),
      (''allowed_regions'', TNames, Some (SSet [])), (''allowed_cache_domains'', TNames, Some (SSet [])),
      (''remote_kv_allowed'', TBool, Some (SBool True)),
      (''cache_shareability'', TStr, Some (SStr ''tenant'')),
      (''security_sensitive'', TBool, Some (SBool False))]"

definition agent_progress_signals_fields :: "field_table" where
  "agent_progress_signals_fields =
     [(''exploring_score'', TNum, Some (SFloat (Finite 0))),
      (''production_score'', TNum, Some (SFloat (Finite 0))),
      (''error_severity'', TNum, Some (SFloat (Finite 0))),
      (''spinning_score'', TNum, Some (SFloat (Finite 0))),
      (''recovery_score'', TNum, Some (SFloat (Finite 0))),
      (''verification_score'', TNum, Some (SFloat (Finite 0))),
      (''plan_stability'', TNum, Some (SFloat (Finite 0))),
      (''progress_velocity'', TNum, Some (SFloat (Finite 0))),
      (''consecutive_failures'', TInt, Some (SInt 0)),
      (''consecutive_no_progress_steps'', TInt, Some (SInt 0))]"

text \<open>The tables of the classes whose objects are elements of lists, and of the nested one.\<close>

definition class_table :: "string \<Rightarrow> field_table" where
  "class_table cls =
     (if cls = ''ToolExecution'' then tool_execution_fields
      else if cls = ''InferenceEndpointState'' then inference_endpoint_state_fields
      else if cls = ''KVSegment'' then kv_segment_fields
      else if cls = ''ContextSegment'' then context_segment_fields
      else if cls = ''ExecutionNode'' then execution_node_fields
      else if cls = ''RoutingHistory'' then routing_history_fields
      else [])"

definition agent_schema :: "datetime \<Rightarrow> string \<Rightarrow> (string, field_table) dict" where
  "agent_schema now fresh =
     [(''header'', state_header_fields now fresh), (''identity'', agent_identity_fields),
      (''lifecycle'', lifecycle_state_fields now), (''task'', task_state_fields),
      (''execution'', execution_state_fields), (''context'', context_state_fields),
      (''model'', model_state_fields), (''tools'', tool_state_fields),
      (''inference'', inference_state_fields), (''kv_cache'', kv_cache_state_fields),
      (''scheduling'', scheduling_state_fields), (''prediction'', prediction_state_fields now),
      (''qos'', qos_state_fields), (''affinity'', affinity_state_fields),
      (''failure'', failure_state_fields), (''observability'', observability_state_fields),
      (''security'', security_state_fields), (''progress_signals'', agent_progress_signals_fields)]"

section \<open>Agent State\<close>

text \<open>
  \<open>StateField\<close>: a value with its provenance. \<open>observed_at\<close> and \<open>ttl\<close> come unchecked from a payload.
\<close>

record state_field =
  sf_value :: sval
  sf_observed_at :: sval
  sf_source :: string
  sf_confidence :: pyfloat
  sf_ttl :: sval
  sf_authoritative :: bool
  sf_version :: int

definition field_is_fresh :: "state_field \<Rightarrow> datetime \<Rightarrow> bool res" where
  "field_is_fresh f now =
     (if sf_ttl f = SNone then Inr True
      else case sf_observed_at f of
        STime t \<Rightarrow> (case sf_ttl f of
            SSpan d \<Rightarrow> Inr (instant (datetime_aware now) \<le> instant (datetime_aware t) + d)
          | _ \<Rightarrow> operand_error)
      | _ \<Rightarrow> Inl attribute_error)"

definition effective_confidence :: "state_field \<Rightarrow> datetime \<Rightarrow> real res" where
  "effective_confidence f now =
     res_bind (field_is_fresh f now) (\<lambda>fresh. Inr (if fresh then float_clamp01 (sf_confidence f) else 0))"

text \<open>
  The sections are the attributes of \<open>AgentState\<close> that are objects. The code sets attributes of the
  sections and never replaces a section, so that a section is the mapping of its attributes.
\<close>

record agent_state =
  as_sections :: "(string, (string, sval) dict) dict"
  as_field_meta :: "(string, state_field) dict"
  as_extensions :: "(string, sval) dict"

definition section_attrs :: "agent_state \<Rightarrow> string \<Rightarrow> (string, sval) dict" where
  "section_attrs s sec = dict_get_or (as_sections s) sec []"

definition attr :: "agent_state \<Rightarrow> string \<Rightarrow> string \<Rightarrow> sval" where
  "attr s sec name = dict_get_or (section_attrs s sec) name SNone"

definition set_attr :: "string \<Rightarrow> string \<Rightarrow> sval \<Rightarrow> agent_state \<Rightarrow> agent_state" where
  "set_attr sec name v s =
     s\<lparr>as_sections := dict_set (as_sections s) sec (dict_set (section_attrs s sec) name v)\<rparr>"

definition blank_agent_state :: "datetime \<Rightarrow> string \<Rightarrow> agent_state" where
  "blank_agent_state now fresh =
     \<lparr>as_sections = map (\<lambda>(sec, table). (sec, default_attrs table)) (agent_schema now fresh),
      as_field_meta = [], as_extensions = []\<rparr>"

definition new_agent_state ::
  "datetime \<Rightarrow> string \<Rightarrow> string \<Rightarrow> string \<Rightarrow> string \<Rightarrow> string \<Rightarrow> agent_state" where
  "new_agent_state now fresh session_id task_id tenant_id harness_type =
     set_attr ''security'' ''tenant_id'' (SStr tenant_id)
    (set_attr ''identity'' ''harness_type'' (SStr harness_type)
    (set_attr ''identity'' ''tenant_id'' (SStr tenant_id)
    (set_attr ''header'' ''task_id'' (SStr task_id)
    (set_attr ''header'' ''session_id'' (SStr session_id) (blank_agent_state now fresh)))))"

section \<open>Conformance\<close>

fun is_num :: "sval \<Rightarrow> bool" where
  "is_num (SInt _) = True"
| "is_num (SFloat (Finite _)) = True"
| "is_num _ = False"

fun is_object :: "sval \<Rightarrow> bool" where
  "is_object (SObj _ _) = True"
| "is_object _ = False"

fun is_string :: "sval \<Rightarrow> bool" where
  "is_string (SStr _) = True"
| "is_string _ = False"

text \<open>A value of a declared type that is not a class of the schema.\<close>

fun flat_conforms :: "ftype \<Rightarrow> sval \<Rightarrow> bool" where
  "flat_conforms TBool v = (case v of SBool _ \<Rightarrow> True | _ \<Rightarrow> False)"
| "flat_conforms TInt v = (case v of SInt _ \<Rightarrow> True | _ \<Rightarrow> False)"
| "flat_conforms TNum v = is_num v"
| "flat_conforms TStr v = is_string v"
| "flat_conforms TTime v = (case v of STime _ \<Rightarrow> True | _ \<Rightarrow> False)"
| "flat_conforms TOptTime v = (case v of STime _ \<Rightarrow> True | SNone \<Rightarrow> True | _ \<Rightarrow> False)"
| "flat_conforms TOptSpan v = (case v of SSpan _ \<Rightarrow> True | SNone \<Rightarrow> True | _ \<Rightarrow> False)"
| "flat_conforms TOptNum v = (is_num v \<or> v = SNone)"
| "flat_conforms TNames v = (case v of SSet vs \<Rightarrow> list_all is_string vs | _ \<Rightarrow> False)"
| "flat_conforms TList v = (case v of SList vs \<Rightarrow> \<not> list_ex is_object vs | _ \<Rightarrow> False)"
| "flat_conforms TNums v = (case v of SDict d \<Rightarrow> list_all (\<lambda>(_, x). is_num x) d | _ \<Rightarrow> False)"
| "flat_conforms (TEnum cls) v =
     (case v of SEnum c m \<Rightarrow> c = cls \<and> m \<in> set (dict_get_or enum_members cls []) | _ \<Rightarrow> False)"
| "flat_conforms (TOptEnum cls) v =
     (case v of SEnum c m \<Rightarrow> c = cls \<and> m \<in> set (dict_get_or enum_members cls []) | SNone \<Rightarrow> True | _ \<Rightarrow> False)"
| "flat_conforms _ v = False"

definition class_type :: "string \<Rightarrow> string \<Rightarrow> ftype option" where
  "class_type cls name = map_option fst (dict_get (class_table cls) name)"

definition flat_object :: "string \<Rightarrow> sval \<Rightarrow> bool" where
  "flat_object cls v \<longleftrightarrow>
     (case v of
        SObj c attrs \<Rightarrow> c = cls \<and>
          (\<forall>name t. class_type cls name = Some t \<longrightarrow>
             (\<exists>x. dict_get attrs name = Some x \<and> flat_conforms t x)) \<and>
          (\<forall>name. dict_get attrs name \<noteq> None \<longrightarrow> class_type cls name \<noteq> None)
      | _ \<Rightarrow> False)"

fun conforms :: "ftype \<Rightarrow> sval \<Rightarrow> bool" where
  "conforms (TObj cls) v = flat_object cls v"
| "conforms (TObjs cls) v = (case v of SList vs \<Rightarrow> list_all (flat_object cls) vs | _ \<Rightarrow> False)"
| "conforms t v = flat_conforms t v"

text \<open>The declared type of an attribute of a section.\<close>

definition field_type :: "string \<Rightarrow> string \<Rightarrow> ftype option" where
  "field_type sec name =
     (case dict_get (agent_schema (utc 0) []) sec of
        None \<Rightarrow> None
      | Some table \<Rightarrow> map_option fst (dict_get table name))"

definition typed_field :: "state_field \<Rightarrow> bool" where
  "typed_field f \<longleftrightarrow> (case sf_observed_at f of STime _ \<Rightarrow> True | _ \<Rightarrow> False) \<and>
     (case sf_ttl f of SSpan _ \<Rightarrow> True | SNone \<Rightarrow> True | _ \<Rightarrow> False)"

text \<open>
  A typed state has every attribute of the schema at its declared type, provenance with timestamps and
  lifetimes, and an urgency extension that is a number.
\<close>

definition typed_state :: "agent_state \<Rightarrow> bool" where
  "typed_state s \<longleftrightarrow>
     (\<forall>sec name t. field_type sec name = Some t \<longrightarrow>
        (\<exists>attrs v. dict_get (as_sections s) sec = Some attrs \<and> dict_get attrs name = Some v \<and> conforms t v)) \<and>
     (\<forall>sec attrs name. dict_get (as_sections s) sec = Some attrs \<longrightarrow> dict_get attrs name \<noteq> None \<longrightarrow>
        field_type sec name \<noteq> None) \<and>
     list_all (\<lambda>(_, f). typed_field f) (as_field_meta s) \<and>
     (\<exists>x. s_float (dict_get_or (as_extensions s) ''critical_path_urgency'' (SFloat (Finite 0))) = Inr x)"

end
