(* ===== verification/SF_Agent_View.thy ===== *)
theory SF_Agent_View
  imports SF_Agent_Schema
begin

text \<open>
  \<open>build_scheduling_view\<close> of \<open>stateflow/state/schema.py\<close>: the scheduler's view of an Agent State, with
  the derived availability and freshness. The view is typed (\<open>SF_Scheduler_Types\<close>). An attribute the
  code only passes on is read at its declared type by \<open>as_text\<close>, \<open>as_int\<close>, \<open>as_bool\<close> and \<open>as_real\<close>;
  for a value of another type, which the code would hand on as it is, the model stops with
  \<open>untyped\<close>. Everything the code computes with raises what Python raises.
\<close>

definition untyped :: "'a res" where
  "untyped = Inl (OtherException ''ill-typed attribute'')"

definition as_text :: "sval \<Rightarrow> string res" where
  "as_text v = (case v of SStr s \<Rightarrow> Inr s | _ \<Rightarrow> untyped)"

definition as_int :: "sval \<Rightarrow> int res" where
  "as_int v = (case v of SInt i \<Rightarrow> Inr i | _ \<Rightarrow> untyped)"

definition as_bool :: "sval \<Rightarrow> bool res" where
  "as_bool v = (case v of SBool b \<Rightarrow> Inr b | _ \<Rightarrow> untyped)"

definition as_real :: "sval \<Rightarrow> real res" where
  "as_real v = (case s_number v of Some (Finite x) \<Rightarrow> Inr x | _ \<Rightarrow> untyped)"

definition as_optional :: "(sval \<Rightarrow> 'a res) \<Rightarrow> sval \<Rightarrow> 'a option res" where
  "as_optional f v = (if v = SNone then Inr None else res_bind (f v) (\<lambda>x. Inr (Some x)))"

definition as_names :: "sval \<Rightarrow> string set res" where
  "as_names v = (case v of SSet vs \<Rightarrow> res_bind (res_map as_text vs) (\<lambda>ss. Inr (set ss)) | _ \<Rightarrow> untyped)"

definition as_numbers :: "sval \<Rightarrow> (string, real) dict res" where
  "as_numbers v =
     (case v of
        SDict d \<Rightarrow> res_map (\<lambda>(k, x). res_bind (as_real x) (\<lambda>r. Inr (k, r))) d
      | _ \<Rightarrow> untyped)"

text \<open>The inverse of \<open>phase_value\<close>.\<close>

definition all_phases :: "agent_phase list" where
  "all_phases =
     [CREATED, RUNNABLE, CONTEXT_BUILDING, MODEL_QUEUED, MODEL_PREFILL, MODEL_DECODE, PLANNING,
      REPLANNING, TOOL_PREPARING, TOOL_QUEUED, TOOL_RUNNING, TOOL_WAITING, TOOL_RESULT_READY,
      CONTEXT_UPDATING, CHECKPOINTING, BLOCKED, PAUSED, COMPLETED, FAILED, CANCELLED]"

definition as_phase :: "sval \<Rightarrow> agent_phase res" where
  "as_phase v =
     (case v of
        SEnum cls m \<Rightarrow> (case find (\<lambda>p. phase_value p = m) all_phases of
            Some p \<Rightarrow> if cls = ''AgentPhase'' then Inr p else untyped
          | None \<Rightarrow> untyped)
      | _ \<Rightarrow> untyped)"

section \<open>Freshness and availability\<close>

definition state_freshness :: "agent_state \<Rightarrow> datetime \<Rightarrow> real res" where
  "state_freshness s now =
     (if as_field_meta s = [] then Inr 0
      else res_bind (res_map (\<lambda>(_, f). effective_confidence f now) (as_field_meta s)) (\<lambda>cs.
        Inr (sum_list cs / real (length cs))))"

text \<open>\<open>any(\<dots>)\<close> over computations that may raise: it stops at the first true one.\<close>

fun res_any :: "('a \<Rightarrow> bool res) \<Rightarrow> 'a list \<Rightarrow> bool res" where
  "res_any f [] = Inr False"
| "res_any f (x # xs) = res_bind (f x) (\<lambda>b. if b then Inr True else res_any f xs)"

definition meta_candidates :: "agent_state \<Rightarrow> string \<Rightarrow> state_field list" where
  "meta_candidates s name =
     map snd (filter (\<lambda>(n, _). n = name \<or> str_startswith n (name @ ''.'')) (as_field_meta s))"

definition meta_available :: "agent_state \<Rightarrow> datetime \<Rightarrow> string \<Rightarrow> bool res" where
  "meta_available s now name =
     res_any (\<lambda>f. res_bind (field_is_fresh f now) (\<lambda>fresh.
         if fresh then res_bind (effective_confidence f now) (\<lambda>c. Inr (0 < c)) else Inr False))
       (meta_candidates s name)"

definition res_or :: "bool \<Rightarrow> bool res \<Rightarrow> bool res" where
  "res_or b r = (if b then Inr True else r)"

definition derive_availability :: "agent_state \<Rightarrow> datetime \<Rightarrow> state_availability res" where
  "derive_availability s now =
     (let harness = attr s ''identity'' ''harness_type'' in
      res_bind (if s_hashable harness then Inr (harness \<notin> SStr ` {[], ''unknown'', ''generic-proxy''})
                else Inl (TypeError ''unhashable type'')) (\<lambda>native.
      res_bind (res_or (s_truthy (attr s ''tools'' ''active_tools'')) (meta_available s now ''tools'')) (\<lambda>tool.
      res_bind (s_lt (SInt 0) (attr s ''lifecycle'' ''progress'')) (\<lambda>progressed.
      res_bind (res_or progressed (meta_available s now ''task.progress'')) (\<lambda>task.
      res_bind (res_or (s_truthy (attr s ''execution'' ''nodes'') \<or>
                        s_truthy (attr s ''execution'' ''critical_path_nodes''))
                 (meta_available s now ''execution'')) (\<lambda>dag.
      res_bind (res_or (s_truthy (attr s ''context'' ''prompt_tokens'') \<or>
                        s_truthy (attr s ''context'' ''total_tokens''))
                 (meta_available s now ''context'')) (\<lambda>context.
      res_bind (res_or (s_truthy (attr s ''inference'' ''endpoints''))
                 (meta_available s now ''inference'')) (\<lambda>inference.
      res_bind (res_or (s_truthy (attr s ''kv_cache'' ''segments'') \<or>
                        s_truthy (attr s ''kv_cache'' ''local_reusable_tokens''))
                 (meta_available s now ''kv_cache'')) (\<lambda>kv.
      let flags = [native, tool, task, dag, context, inference, kv];
          completeness = real (length (filter (\<lambda>b. b) flags)) / real (length flags)
      in res_bind (if as_field_meta s = [] then Inr completeness
                   else res_bind (state_freshness s now) (\<lambda>freshness.
                     Inr (completeness * (1 / 2 + 1 / 2 * freshness)))) (\<lambda>c. Inr
           \<lparr>av_harness_native_state = native, av_tool_lifecycle = tool, av_task_progress = task,
            av_execution_dag = dag, av_context_state = context, av_inference_state = inference,
            av_kv_state = kv, av_state_completeness = clamp01 c\<rparr>))))))))))"

section \<open>The view\<close>

text \<open>\<open>max(0.0, (deadline - now).total_seconds())\<close>, or \<open>None\<close> without a deadline.\<close>

definition deadline_seconds :: "agent_state \<Rightarrow> datetime \<Rightarrow> real option res" where
  "deadline_seconds s now =
     (case attr s ''qos'' ''task_deadline'' of
        SNone \<Rightarrow> Inr None
      | STime deadline \<Rightarrow>
          Inr (Some (max 0 (real_of_int (instant (datetime_aware deadline) - instant now) / 1000000)))
      | _ \<Rightarrow> Inl attribute_error)"

definition critical_step :: "agent_state \<Rightarrow> bool res" where
  "critical_step s =
     (let current = attr s ''execution'' ''current_node_id'';
          path = attr s ''execution'' ''critical_path_nodes''
      in if s_truthy current then s_in current path
         else Inr (s_truthy path \<and> s_truthy (attr s ''lifecycle'' ''runnable'')))"

text \<open>\<open>clamp(1.0 - seconds / max(target, 1e-6))\<close> with a target, when there is a deadline.\<close>

definition deadline_urgency :: "agent_state \<Rightarrow> real option \<Rightarrow> real res" where
  "deadline_urgency s remaining =
     (let target = attr s ''qos'' ''task_latency_target_seconds'' in
      case remaining of
        None \<Rightarrow> Inr 0
      | Some seconds \<Rightarrow>
          if \<not> s_truthy target then Inr 0
          else
            res_bind (s_max target (SFloat (Finite (1 / 1000000)))) (\<lambda>m.
            case s_number m of
              None \<Rightarrow> operand_error
            | Some x \<Rightarrow> Inr (float_clamp01 (float_sub (Finite 1) (float_div (Finite seconds) x)))))"

definition path_urgency :: "agent_state \<Rightarrow> real option \<Rightarrow> bool \<Rightarrow> real res" where
  "path_urgency s remaining critical =
     res_bind (deadline_urgency s remaining) (\<lambda>u.
     res_bind (s_clamp (dict_get_or (as_extensions s) ''critical_path_urgency'' (SFloat (Finite 0)))) (\<lambda>extension.
     let urgency = max u extension in Inr (if critical then max urgency (3 / 4) else urgency)))"

text \<open>\<open>max(a, b, c, \<dots>)\<close>\<close>

fun s_max_list :: "sval \<Rightarrow> sval list \<Rightarrow> sval res" where
  "s_max_list a [] = Inr a"
| "s_max_list a (b # bs) = res_bind (s_max a b) (\<lambda>m. s_max_list m bs)"

definition build_scheduling_view :: "agent_state \<Rightarrow> datetime \<Rightarrow> scheduling_view res" where
  "build_scheduling_view s now =
     (let text = (\<lambda>sec n. as_text (attr s sec n)); int = (\<lambda>sec n. as_int (attr s sec n));
          flag = (\<lambda>sec n. as_bool (attr s sec n)); score = (\<lambda>sec n. s_clamp (attr s sec n));
          history = (\<lambda>n. s_attr (attr s ''scheduling'' ''routing_history'') n);
          zero = SFloat (Finite 0)
      in
      res_bind (deadline_seconds s now) (\<lambda>remaining.
      res_bind (critical_step s) (\<lambda>critical.
      res_bind (path_urgency s remaining critical) (\<lambda>urgency.
      res_bind (derive_availability s now) (\<lambda>availability.
      res_bind (int ''kv_cache'' ''local_reusable_tokens'') (\<lambda>local_kv.
      res_bind (int ''kv_cache'' ''remote_reusable_tokens'') (\<lambda>remote_kv.
      res_bind (int ''context'' ''reusable_prefix_tokens'') (\<lambda>reusable_prefix.
      res_bind (int ''context'' ''immutable_prefix_tokens'') (\<lambda>immutable_prefix.
      res_bind (res_bind (s_max_list zero [attr s ''prediction'' ''predicted_inter_request_gap_seconds'',
                            attr s ''tools'' ''predicted_time_until_next_model_call_seconds'',
                            attr s ''prediction'' ''predicted_tool_wait_seconds'']) as_real) (\<lambda>predicted_gap.
      res_bind (text ''header'' ''session_id'') (\<lambda>session_id.
      res_bind (text ''header'' ''task_id'') (\<lambda>task_id.
      res_bind (as_text (s_or (attr s ''header'' ''step_id'') (attr s ''lifecycle'' ''current_step''))) (\<lambda>step_id.
      res_bind (text ''header'' ''state_id'') (\<lambda>state_id.
      res_bind (int ''header'' ''sequence_number'') (\<lambda>state_version.
      res_bind (text ''identity'' ''tenant_id'') (\<lambda>tenant_id.
      res_bind (text ''security'' ''security_domain'') (\<lambda>security_domain.
      res_bind (flag ''security'' ''security_sensitive'') (\<lambda>security_sensitive.
      res_bind (res_bind (s_max (attr s ''header'' ''turn_id'') (attr s ''lifecycle'' ''current_turn'')) as_int) (\<lambda>turn.
      res_bind (as_phase (attr s ''lifecycle'' ''phase'')) (\<lambda>phase.
      res_bind (flag ''lifecycle'' ''runnable'') (\<lambda>runnable.
      res_bind (text ''model'' ''logical_model'') (\<lambda>logical_model.
      res_bind (as_names (attr s ''identity'' ''required_capabilities'')) (\<lambda>required.
      res_bind (as_names (attr s ''security'' ''allowed_models'')) (\<lambda>models.
      res_bind (as_names (attr s ''security'' ''allowed_regions'')) (\<lambda>regions.
      res_bind (as_names (attr s ''security'' ''allowed_cache_domains'')) (\<lambda>cache_domains.
      res_bind (flag ''security'' ''remote_kv_allowed'') (\<lambda>remote_kv_allowed.
      res_bind (text ''task'' ''task_type'') (\<lambda>task_type.
      res_bind (score ''lifecycle'' ''progress'') (\<lambda>progress.
      res_bind (as_real (attr s ''progress_signals'' ''progress_velocity'')) (\<lambda>velocity.
      res_bind (score ''progress_signals'' ''exploring_score'') (\<lambda>exploring.
      res_bind (score ''progress_signals'' ''production_score'') (\<lambda>production.
      res_bind (res_bind (s_max (attr s ''progress_signals'' ''error_severity'')
                            (attr s ''failure'' ''error_severity'')) s_clamp) (\<lambda>severity.
      res_bind (score ''progress_signals'' ''spinning_score'') (\<lambda>spinning.
      res_bind (score ''progress_signals'' ''recovery_score'') (\<lambda>recovery.
      res_bind (score ''progress_signals'' ''verification_score'') (\<lambda>verification.
      res_bind (score ''progress_signals'' ''plan_stability'') (\<lambda>stability.
      res_bind (int ''progress_signals'' ''consecutive_failures'') (\<lambda>failures.
      res_bind (int ''progress_signals'' ''consecutive_no_progress_steps'') (\<lambda>no_progress.
      res_bind (res_bind (history ''failure_streak'') (\<lambda>h.
                  res_bind (s_max (attr s ''failure'' ''failure_streak'') h) as_int)) (\<lambda>streak.
      res_bind (flag ''failure'' ''critical_error'') (\<lambda>critical_error.
      res_bind (flag ''context'' ''compaction_needed'') (\<lambda>compaction.
      res_bind (score ''context'' ''truncation_risk'') (\<lambda>truncation.
      res_bind (res_bind (s_max_list (attr s ''context'' ''prompt_tokens'')
                  [attr s ''model'' ''prompt_tokens'', attr s ''context'' ''total_tokens'']) as_int) (\<lambda>prompt_tokens.
      res_bind (res_bind (s_max (attr s ''model'' ''predicted_output_tokens'')
                  (attr s ''prediction'' ''predicted_next_decode_tokens'')) as_int) (\<lambda>output_tokens.
      res_bind (score ''prediction'' ''continuation_probability'') (\<lambda>continuation.
      res_bind (res_bind (s_max (attr s ''prediction'' ''predicted_kv_reuse_ratio'')
                  (attr s ''context'' ''reusable_prefix_ratio'')) s_clamp) (\<lambda>kv_reuse.
      res_bind (res_bind (s_max (SInt 0) (attr s ''prediction'' ''predicted_remaining_turns'')) as_int) (\<lambda>remaining_turns.
      res_bind (as_numbers (attr s ''prediction'' ''next_action_probabilities'')) (\<lambda>probabilities.
      res_bind (as_optional as_real (attr s ''qos'' ''task_cost_budget'')) (\<lambda>budget.
      res_bind (text ''scheduling'' ''preferred_endpoint'') (\<lambda>preferred_endpoint.
      res_bind (as_text (s_or (attr s ''scheduling'' ''preferred_replica'')
                  (attr s ''kv_cache'' ''preferred_replica''))) (\<lambda>preferred_replica.
      res_bind (res_bind (history ''current_model'') (\<lambda>h.
                  as_text (s_or h (attr s ''model'' ''selected_model'')))) (\<lambda>current_model.
      res_bind (res_bind (history ''current_tier'') as_text) (\<lambda>current_tier.
      res_bind (res_bind (history ''stable_steps'') as_int) (\<lambda>stable_steps.
      res_bind (res_bind (s_max zero (attr s ''affinity'' ''migration_penalty'')) as_real) (\<lambda>penalty.
      res_bind (state_freshness s now) (\<lambda>freshness. Inr
      \<lparr>hv_session_id = session_id, hv_task_id = task_id, hv_step_id = step_id, hv_state_id = state_id,
       hv_state_version = state_version, hv_tenant_id = tenant_id, hv_security_domain = security_domain,
       hv_security_sensitive = security_sensitive, hv_session_turn = turn, hv_phase = phase,
       hv_runnable = runnable, hv_logical_model = logical_model, hv_required_capabilities = required,
       hv_allowed_models = models, hv_allowed_regions = regions,
       hv_allowed_cache_domains = cache_domains, hv_remote_kv_allowed = remote_kv_allowed,
       hv_task_type = task_type, hv_task_progress = progress, hv_progress_velocity = velocity,
       hv_exploring_score = exploring, hv_production_score = production, hv_error_severity = severity,
       hv_spinning_score = spinning, hv_recovery_score = recovery, hv_verification_score = verification,
       hv_plan_stability = stability, hv_consecutive_failures = failures,
       hv_consecutive_no_progress_steps = no_progress, hv_failure_streak = streak,
       hv_critical_error = critical_error, hv_critical_step = critical,
       hv_critical_path_urgency = urgency, hv_context_compaction_needed = compaction,
       hv_truncation_risk = truncation, hv_prompt_tokens = prompt_tokens,
       hv_predicted_output_tokens = output_tokens,
       hv_reusable_kv_tokens = max reusable_prefix (max immutable_prefix (local_kv + remote_kv)),
       hv_local_kv_tokens = local_kv, hv_remote_kv_tokens = remote_kv,
       hv_predicted_time_until_next_model_call_seconds = predicted_gap,
       hv_continuation_probability = continuation, hv_kv_reuse_probability = kv_reuse,
       hv_predicted_remaining_turns = remaining_turns, hv_next_action_probabilities = probabilities,
       hv_remaining_deadline_seconds = remaining, hv_cost_budget = budget,
       hv_preferred_endpoint = preferred_endpoint, hv_preferred_replica = preferred_replica,
       hv_current_model = current_model, hv_current_tier = current_tier,
       hv_stable_steps = stable_steps, hv_migration_penalty = penalty,
       hv_state_completeness = av_state_completeness availability, hv_state_freshness = freshness,
       hv_state_availability = availability, hv_candidates = []\<rparr>
      )))))))))))))))))))))))))))))))))))))))))))))))))))))))))"

end
