(* ===== verification/SF_State_Store.thy ===== *)
theory SF_State_Store
  imports SF_Agent_View
begin

text \<open>
  The state store of \<open>stateflow/state/store/in_memory.py\<close> with the event contract of
  \<open>stateflow/state/event.py\<close>. Applying an event changes the live state attribute by attribute; an
  operation that raises halfway leaves the changes made so far. Every operation therefore returns its
  result or exception together with the state afterwards. The lock makes every operation atomic. The
  subscribers receive copies after the fact and cannot change the store; they are left out. In the
  provenance of a whole section, the object is labelled with the name of the section.
\<close>

section \<open>State-passing operations\<close>

type_synonym ('s, 'a) st = "'s \<Rightarrow> 'a res \<times> 's"

definition st_return :: "'a \<Rightarrow> ('s, 'a) st" where
  "st_return x s = (Inr x, s)"

definition st_bind :: "('s, 'a) st \<Rightarrow> ('a \<Rightarrow> ('s, 'b) st) \<Rightarrow> ('s, 'b) st" where
  "st_bind m f s = (case m s of (Inl e, s') \<Rightarrow> (Inl e, s') | (Inr x, s') \<Rightarrow> f x s')"

definition st_then :: "('s, 'a) st \<Rightarrow> ('s, 'b) st \<Rightarrow> ('s, 'b) st" where
  "st_then m n = st_bind m (\<lambda>_. n)"

definition st_read :: "('s \<Rightarrow> 'a res) \<Rightarrow> ('s, 'a) st" where
  "st_read f s = (f s, s)"

definition st_write :: "('s \<Rightarrow> 's) \<Rightarrow> ('s, unit) st" where
  "st_write f s = (Inr (), f s)"

definition st_when :: "bool \<Rightarrow> ('s, unit) st \<Rightarrow> ('s, unit) st" where
  "st_when b m = (if b then m else st_return ())"

fun st_each :: "('x \<Rightarrow> ('s, unit) st) \<Rightarrow> 'x list \<Rightarrow> ('s, unit) st" where
  "st_each f [] = st_return ()"
| "st_each f (x # xs) = st_then (f x) (st_each f xs)"

fun st_seq :: "('s, unit) st list \<Rightarrow> ('s, unit) st" where
  "st_seq [] = st_return ()"
| "st_seq (m # ms) = st_then m (st_seq ms)"

section \<open>Events\<close>

record agent_event =
  ev_event_type :: string
  ev_session_id :: string
  ev_task_id :: string
  ev_turn_id :: int
  ev_step_id :: string
  ev_request_id :: string
  ev_attempt_id :: string
  ev_parent_step_id :: string
  ev_trace_id :: string
  ev_source :: string
  ev_observed_at :: datetime
  ev_epoch :: int
  ev_sequence :: int
  ev_payload :: "(string, sval) dict"
  ev_confidence :: pyfloat
  ev_ttl :: "timedelta option"
  ev_authoritative :: bool

definition new_agent_event :: "string \<Rightarrow> string \<Rightarrow> string \<Rightarrow> datetime \<Rightarrow> agent_event" where
  "new_agent_event event_type session_id task_id now =
     \<lparr>ev_event_type = event_type, ev_session_id = session_id, ev_task_id = task_id, ev_turn_id = 0,
      ev_step_id = [], ev_request_id = [], ev_attempt_id = [], ev_parent_step_id = [],
      ev_trace_id = [], ev_source = ''unknown'', ev_observed_at = now, ev_epoch = 0, ev_sequence = 0,
      ev_payload = [], ev_confidence = Finite 1, ev_ttl = None, ev_authoritative = False\<rparr>"

record append_result =
  ar_accepted :: bool
  ar_duplicate :: bool
  ar_stale :: bool
  ar_state_id :: sval
  ar_state_version :: sval
  ar_reason :: string

section \<open>Field provenance\<close>

fun descend :: "sval \<Rightarrow> string list \<Rightarrow> sval" where
  "descend v [] = v"
| "descend v (part # path) =
     (case s_attr v part of Inr w \<Rightarrow> descend w path | Inl _ \<Rightarrow> SNone)"

text \<open>The value at a path of attribute names that starts at the state; \<open>None\<close> where it leaves it.\<close>

definition state_path :: "agent_state \<Rightarrow> string list \<Rightarrow> sval" where
  "state_path s path =
     (case path of
        [] \<Rightarrow> SNone
      | [sec] \<Rightarrow> if sec = ''extensions'' then SDict (as_extensions s)
                 else if dict_has (as_sections s) sec then SObj sec (section_attrs s sec) else SNone
      | sec # rest \<Rightarrow>
          if dict_has (as_sections s) sec then descend (SObj sec (section_attrs s sec)) rest else SNone)"

definition event_ttl :: "agent_event \<Rightarrow> sval" where
  "event_ttl ev = (case ev_ttl ev of None \<Rightarrow> SNone | Some d \<Rightarrow> SSpan d)"

definition mark_field :: "agent_event \<Rightarrow> string list \<Rightarrow> agent_state \<Rightarrow> agent_state" where
  "mark_field ev path s = s\<lparr>as_field_meta := dict_set (as_field_meta s) (str_join ''.'' path)
     \<lparr>sf_value = state_path s path, sf_observed_at = STime (ev_observed_at ev),
      sf_source = ev_source ev, sf_confidence = ev_confidence ev, sf_ttl = event_ttl ev,
      sf_authoritative = ev_authoritative ev, sf_version = ev_sequence ev\<rparr>\<rparr>"

definition mark :: "agent_event \<Rightarrow> string list \<Rightarrow> (agent_state, unit) st" where
  "mark ev path = st_write (mark_field ev path)"

definition put :: "string \<Rightarrow> string \<Rightarrow> sval \<Rightarrow> (agent_state, unit) st" where
  "put sec name v = st_write (set_attr sec name v)"

definition look :: "string \<Rightarrow> string \<Rightarrow> (agent_state, sval) st" where
  "look sec name = st_read (\<lambda>s. Inr (attr s sec name))"

text \<open>\<open>state.sec.name = f(state.sec.name)\<close>\<close>

definition update :: "string \<Rightarrow> string \<Rightarrow> (sval \<Rightarrow> sval res) \<Rightarrow> (agent_state, unit) st" where
  "update sec name f =
     st_bind (st_read (\<lambda>s. f (attr s sec name))) (put sec name)"

section \<open>Conversion of payload values\<close>

definition item_class :: "string \<Rightarrow> string option" where
  "item_class field_name =
     dict_get
       [(''tools.active_tools'', ''ToolExecution''), (''inference.endpoints'', ''InferenceEndpointState''),
        (''kv_cache.segments'', ''KVSegment''), (''context.segments'', ''ContextSegment''),
        (''execution.nodes'', ''ExecutionNode'')] field_name"

definition item_classes :: "string list" where
  "item_classes =
     [''ToolExecution'', ''InferenceEndpointState'', ''KVSegment'', ''ContextSegment'', ''ExecutionNode'']"

text \<open>The argument of one field of \<open>cls(**kwargs)\<close>; a missing required one is a \<open>TypeError\<close>.\<close>

definition field_argument ::
  "(sval \<Rightarrow> string) \<Rightarrow> string \<Rightarrow> (string, sval) dict \<Rightarrow> string \<times> ftype \<times> sval option \<Rightarrow> (string \<times> sval) res" where
  "field_argument repr cls value = (\<lambda>(n, _, d).
     (case dict_get value n of
        Some raw \<Rightarrow> Inr (n,
          if cls = ''ToolExecution'' \<and> n = ''status''
          then enum_value repr ''ToolStatus'' raw (SEnum ''ToolStatus'' ''PREPARING'')
          else if cls = ''KVSegment'' \<and> n = ''tier''
          then enum_value repr ''KVCacheTier'' raw (SEnum ''KVCacheTier'' ''GPU_HBM'')
          else raw)
      | None \<Rightarrow> (case d of
            Some v \<Rightarrow> Inr (n, v)
          | None \<Rightarrow> Inl (TypeError ''missing required argument''))))"

definition dataclass_from_mapping ::
  "(sval \<Rightarrow> string) \<Rightarrow> string \<Rightarrow> (string, sval) dict \<Rightarrow> sval res" where
  "dataclass_from_mapping repr cls value =
     res_bind (res_map (field_argument repr cls value) (class_table cls)) (\<lambda>attrs. Inr (SObj cls attrs))"

definition convert_item :: "(sval \<Rightarrow> string) \<Rightarrow> string \<Rightarrow> sval \<Rightarrow> sval res" where
  "convert_item repr cls item =
     (case item of SDict d \<Rightarrow> dataclass_from_mapping repr cls d | _ \<Rightarrow> Inr item)"

text \<open>\<open>type(old[0]) if old else None\<close>, as far as it matters: the class of an item class, or none.\<close>

definition list_item_class :: "sval list \<Rightarrow> string \<Rightarrow> string option" where
  "list_item_class old field_name =
     (case old of
        [] \<Rightarrow> item_class field_name
      | SObj cls _ # _ \<Rightarrow> Some cls
      | _ \<Rightarrow> None)"

text \<open>\<open>timedelta(seconds=float(value))\<close>\<close>

definition span_of_seconds :: "pyfloat \<Rightarrow> timedelta res" where
  "span_of_seconds x =
     (case x of
        Finite r \<Rightarrow> Inr (timedelta_seconds r)
      | NaN \<Rightarrow> Inl (ValueError ''cannot convert float NaN to integer'')
      | _ \<Rightarrow> Inl overflow_error)"

text \<open>The tuple case of the code is left out: no attribute of the schema holds a tuple.\<close>

definition convert_for_field :: "(sval \<Rightarrow> string) \<Rightarrow> sval \<Rightarrow> sval \<Rightarrow> string \<Rightarrow> sval res" where
  "convert_for_field repr old value field_name =
     (case old of
        SEnum cls _ \<Rightarrow> Inr (enum_value repr cls value old)
      | SSet _ \<Rightarrow> s_set value
      | STime _ \<Rightarrow>
          (case value of
             SStr text \<Rightarrow> res_bind (fromisoformat (replace_zulu text)) (\<lambda>t. Inr (STime t))
           | _ \<Rightarrow> Inr value)
      | SSpan _ \<Rightarrow>
          (case s_number value of
             Some x \<Rightarrow> res_bind (span_of_seconds x) (\<lambda>d. Inr (SSpan d))
           | None \<Rightarrow> Inr value)
      | SList items \<Rightarrow>
          if \<not> s_truthy value then Inr (SList [])
          else (case list_item_class items field_name of
              Some cls \<Rightarrow>
                if cls \<in> set item_classes
                then res_bind (s_iter value) (\<lambda>vs.
                       res_bind (res_map (convert_item repr cls) vs) (\<lambda>os. Inr (SList os)))
                else Inr value
            | None \<Rightarrow> Inr value)
      | _ \<Rightarrow> Inr value)"

section \<open>Patching a section\<close>

text \<open>One entry of the patch of a section.\<close>

definition set_section_entry ::
  "(sval \<Rightarrow> string) \<Rightarrow> agent_event \<Rightarrow> string \<Rightarrow> string \<times> sval \<Rightarrow> (agent_state, unit) st" where
  "set_section_entry repr ev sec = (\<lambda>(key, value).
     st_bind (st_read (\<lambda>s. Inr (dict_get (section_attrs s sec) key))) (\<lambda>found.
       case found of
         None \<Rightarrow> st_return ()
       | Some old \<Rightarrow>
           if str_startswith key ''_'' then st_return ()
           else
             st_bind (st_read (\<lambda>_. convert_for_field repr old value (sec @ ''.'' @ key))) (\<lambda>converted.
             st_then (put sec key converted) (mark ev [sec, key]))))"

definition set_section ::
  "(sval \<Rightarrow> string) \<Rightarrow> agent_event \<Rightarrow> string \<Rightarrow> sval \<Rightarrow> (agent_state, unit) st" where
  "set_section repr ev sec payload =
     (case payload of
        SDict d \<Rightarrow>
          st_then (st_each (set_section_entry repr ev sec) d)
            (st_when (sec = ''context'')
              (st_bind (look ''context'' ''prompt_tokens'') (\<lambda>prompt.
               update ''context'' ''total_tokens'' (\<lambda>t. s_max t prompt))))
      | _ \<Rightarrow> st_return ())"

section \<open>Progress and phase\<close>

definition bounded_progress :: "pyfloat \<Rightarrow> sval" where
  "bounded_progress x = SFloat (Finite (float_clamp01 x))"

definition set_progress :: "agent_event \<Rightarrow> pyfloat \<Rightarrow> (agent_state, unit) st" where
  "set_progress ev progress =
     st_bind (look ''lifecycle'' ''progress'') (\<lambda>previous. st_seq
       [put ''lifecycle'' ''progress'' (bounded_progress progress),
        st_bind (st_read (\<lambda>_. s_sub (bounded_progress progress) previous)) (put ''progress_signals'' ''progress_velocity''),
        st_bind (st_read (\<lambda>_. s_lt previous (bounded_progress progress))) (\<lambda>advanced.
          if advanced then put ''progress_signals'' ''consecutive_no_progress_steps'' (SInt 0)
          else update ''progress_signals'' ''consecutive_no_progress_steps'' (\<lambda>n. s_add n (SInt 1))),
        mark ev [''lifecycle'', ''progress''], mark ev [''progress_signals'']])"

definition phase_member :: "string \<Rightarrow> sval" where
  "phase_member name = SEnum ''AgentPhase'' name"

definition set_phase :: "agent_event \<Rightarrow> string \<Rightarrow> (agent_state, unit) st" where
  "set_phase ev phase =
     st_bind (look ''lifecycle'' ''phase'') (\<lambda>current. st_then
       (st_when (current \<noteq> phase_member phase) (st_seq
         [put ''lifecycle'' ''previous_phase'' current,
          put ''lifecycle'' ''phase_enter_time'' (STime (ev_observed_at ev)),
          put ''lifecycle'' ''phase'' (phase_member phase)]))
       (mark ev [''lifecycle'', ''phase'']))"

definition set_runnable :: "bool \<Rightarrow> (agent_state, unit) st" where
  "set_runnable b = put ''lifecycle'' ''runnable'' (SBool b)"

section \<open>Tools\<close>

text \<open>
  A tool is found by reference in the code and by its position in \<open>active_tools\<close> here; the position
  stays valid because the tool handlers never remove or reorder tools.
\<close>

fun tool_index :: "string \<Rightarrow> string \<Rightarrow> nat \<Rightarrow> sval list \<Rightarrow> nat option res" where
  "tool_index tool_id tool_name i [] = Inr None"
| "tool_index tool_id tool_name i (tool # tools) =
     res_bind (if tool_id = [] then Inr False
               else res_bind (s_attr tool ''tool_id'') (\<lambda>v. Inr (v = SStr tool_id))) (\<lambda>by_id.
     if by_id then Inr (Some i)
     else
       res_bind (if tool_name = [] then Inr False
                 else res_bind (s_attr tool ''tool_name'') (\<lambda>v. Inr (v = SStr tool_name))) (\<lambda>by_name.
       if by_name then Inr (Some i) else tool_index tool_id tool_name (Suc i) tools))"

definition new_tool :: "string \<Rightarrow> string \<Rightarrow> sval" where
  "new_tool tool_id tool_name =
     SObj ''ToolExecution'' (dict_set (dict_set (default_attrs tool_execution_fields)
       ''tool_id'' (SStr tool_id)) ''tool_name'' (SStr tool_name))"

definition find_tool :: "string \<Rightarrow> string \<Rightarrow> (agent_state, nat) st" where
  "find_tool tool_id tool_name =
     st_bind (look ''tools'' ''active_tools'') (\<lambda>tools.
     st_bind (st_read (\<lambda>_. res_bind (s_iter tools) (tool_index tool_id tool_name 0))) (\<lambda>found.
       case found of
         Some i \<Rightarrow> st_return i
       | None \<Rightarrow>
           (case tools of
              SList vs \<Rightarrow>
                st_then (put ''tools'' ''active_tools'' (SList (vs @ [new_tool
                    (if tool_id \<noteq> [] then tool_id else ''tool-'' @ show_nat (length vs + 1))
                    (if tool_name \<noteq> [] then tool_name else ''unknown'')])))
                  (st_return (length vs))
            | _ \<Rightarrow> st_read (\<lambda>_. Inl attribute_error))))"

definition tool_at :: "agent_state \<Rightarrow> nat \<Rightarrow> sval" where
  "tool_at s i =
     (case attr s ''tools'' ''active_tools'' of SList vs \<Rightarrow> if i < length vs then vs ! i else SNone | _ \<Rightarrow> SNone)"

definition tool_attr :: "nat \<Rightarrow> string \<Rightarrow> (agent_state, sval) st" where
  "tool_attr i name = st_read (\<lambda>s. s_attr (tool_at s i) name)"

definition put_tool :: "nat \<Rightarrow> string \<Rightarrow> sval \<Rightarrow> (agent_state, unit) st" where
  "put_tool i name v =
     st_bind (st_read (\<lambda>s. res_bind (s_set_attr (tool_at s i) name v) (\<lambda>tool.
         case attr s ''tools'' ''active_tools'' of
           SList vs \<Rightarrow> Inr (SList (vs[i := tool]))
         | _ \<Rightarrow> Inl attribute_error)))
       (put ''tools'' ''active_tools'')"

text \<open>One entry of the patch of a tool; its provenance path leaves the state at the list of tools.\<close>

definition set_tool_entry ::
  "(sval \<Rightarrow> string) \<Rightarrow> agent_event \<Rightarrow> nat \<Rightarrow> string \<times> sval \<Rightarrow> (agent_state, unit) st" where
  "set_tool_entry repr ev i = (\<lambda>(key, value).
     st_bind (st_read (\<lambda>s. Inr (s_attr (tool_at s i) key))) (\<lambda>found.
       case found of
         Inl _ \<Rightarrow> st_return ()
       | Inr old \<Rightarrow>
           if str_startswith key ''_'' then st_return ()
           else
             st_bind (st_read (\<lambda>_. convert_for_field repr old value (''tools.active_tools.'' @ key))) (\<lambda>converted.
             st_then (put_tool i key converted) (mark ev [''tools'', ''active_tools'', key]))))"

end
