(* ===== verification/SF_Store_Events.thy ===== *)
theory SF_Store_Events
  imports SF_State_Store
begin

text \<open>
  How the state store applies an event: the handlers of \<open>_apply_event\<close> in
  \<open>stateflow/state/store/in_memory.py\<close>, in the order of the code. \<open>repr\<close> is the text of a value that
  is not a string or an integer.
\<close>

section \<open>Identity\<close>

definition identity_keys :: "string list" where
  "identity_keys =
     [''tenant_id'', ''namespace'', ''harness_type'', ''harness_version'', ''agent_type'',
      ''agent_version'', ''workflow_type'', ''workload_class'', ''sandbox'', ''workspace_id'',
      ''required_capabilities'']"

text \<open>The code walks a set of keys; the order only decides the order of the provenance entries.\<close>

definition identity_patch :: "(string, sval) dict \<Rightarrow> (string, sval) dict" where
  "identity_patch identity =
     concat (map (\<lambda>k. case dict_get identity k of Some v \<Rightarrow> [(k, v)] | None \<Rightarrow> []) identity_keys)"

definition apply_identity ::
  "(sval \<Rightarrow> string) \<Rightarrow> agent_event \<Rightarrow> sval \<Rightarrow> (agent_state, unit) st" where
  "apply_identity repr ev payload =
     (case payload of
        SDict d \<Rightarrow>
          let identity = (case dict_get d ''identity'' of Some (SDict inner) \<Rightarrow> inner | _ \<Rightarrow> d);
              patch = identity_patch identity
          in st_when (patch \<noteq> [])
               (st_then (set_section repr ev ''identity'' (SDict patch))
                 (case dict_get patch ''tenant_id'' of
                    Some v \<Rightarrow> put ''security'' ''tenant_id'' (SStr (s_str repr v))
                  | None \<Rightarrow> st_return ()))
      | _ \<Rightarrow> st_return ())"

section \<open>Failures\<close>

definition apply_failure ::
  "(sval \<Rightarrow> string) \<Rightarrow> agent_event \<Rightarrow> (string, sval) dict \<Rightarrow> string \<Rightarrow> (agent_state, unit) st" where
  "apply_failure repr ev payload component = st_seq
     [update ''failure'' ''retry_count'' (\<lambda>n. s_add n (SInt 1)),
      update ''failure'' ''failure_streak'' (\<lambda>n. s_add n (SInt 1)),
      put ''failure'' ''failed_component'' (SStr (s_str repr (s_get payload ''failed_component'' (SStr component)))),
      put ''failure'' ''error_type'' (SStr (s_str repr (s_get payload ''error_type''
        (s_get payload ''error'' (SStr ''unknown''))))),
      update ''failure'' ''error_severity'' (\<lambda>current.
        res_bind (s_float (s_get payload ''error_severity'' (SFloat (Finite 0)))) (\<lambda>x.
          s_max current (SFloat (if float_lt x (Finite 1) then x else Finite 1)))),
      put ''failure'' ''critical_error'' (SBool (s_truthy (s_get payload ''critical_error'' (SBool False)))),
      st_bind (look ''failure'' ''failure_streak'') (put ''progress_signals'' ''consecutive_failures''),
      set_runnable True, set_phase ev ''REPLANNING'',
      mark ev [''failure''], mark ev [''progress_signals''], mark ev [''lifecycle'']]"

section \<open>Model requests and responses\<close>

text \<open>\<open>max(0, int(payload[key]))\<close>\<close>

definition natural_of :: "sval \<Rightarrow> sval res" where
  "natural_of v = res_bind (s_int v) (\<lambda>i. Inr (SInt (max 0 i)))"

text \<open>A step for a key of the payload, when the payload has it.\<close>

definition given ::
  "(string, sval) dict \<Rightarrow> string \<Rightarrow> (sval \<Rightarrow> (agent_state, unit) st) \<Rightarrow> (agent_state, unit) st" where
  "given payload key f = (case dict_get payload key of Some v \<Rightarrow> f v | None \<Rightarrow> st_return ())"

definition raising_step :: "'a res \<Rightarrow> ('a \<Rightarrow> (agent_state, unit) st) \<Rightarrow> (agent_state, unit) st" where
  "raising_step r f = st_bind (st_read (\<lambda>_. r)) f"

definition apply_model_request ::
  "(sval \<Rightarrow> string) \<Rightarrow> agent_event \<Rightarrow> (string, sval) dict \<Rightarrow> (agent_state, unit) st" where
  "apply_model_request repr ev payload = st_seq
     [set_phase ev ''MODEL_QUEUED'', set_runnable True,
      st_when (ev_step_id ev \<noteq> []) (put ''lifecycle'' ''current_step'' (SStr (ev_step_id ev))),
      st_bind (look ''model'' ''logical_model'') (\<lambda>current.
        let model = s_or (s_or (s_get payload ''logical_model'' SNone) (s_get payload ''model'' SNone)) current in
        st_when (s_truthy model) (st_then
          (put ''model'' ''logical_model'' (SStr (s_str repr model))) (mark ev [''model'', ''logical_model'']))),
      given payload ''prompt_tokens'' (\<lambda>v. raising_step (natural_of v) (\<lambda>tokens. st_seq
        [put ''model'' ''prompt_tokens'' tokens, put ''context'' ''prompt_tokens'' tokens,
         update ''context'' ''total_tokens'' (\<lambda>t. s_max t tokens)])),
      given payload ''predicted_output_tokens'' (\<lambda>v. raising_step (natural_of v)
        (put ''model'' ''predicted_output_tokens'')),
      given payload ''context'' (set_section repr ev ''context''),
      given payload ''required_capabilities'' (\<lambda>v. raising_step (s_set v)
        (put ''identity'' ''required_capabilities'')),
      given payload ''security'' (set_section repr ev ''security''),
      given payload ''inference'' (set_section repr ev ''inference''),
      given payload ''qos'' (set_section repr ev ''qos''),
      mark ev [''model''], mark ev [''context'', ''prompt_tokens''], mark ev [''lifecycle'']]"

definition apply_model_response ::
  "(sval \<Rightarrow> string) \<Rightarrow> agent_event \<Rightarrow> (string, sval) dict \<Rightarrow> (agent_state, unit) st" where
  "apply_model_response repr ev payload =
     (let next_action = str_upper (s_str repr (s_get payload ''next_action'' (SStr []))) in st_seq
     [given payload ''output_tokens'' (\<lambda>v. raising_step (natural_of v) (\<lambda>tokens. st_seq
        [update ''context'' ''assistant_tokens'' (\<lambda>t. s_add t tokens),
         update ''context'' ''total_tokens'' (\<lambda>t. s_add t tokens)])),
      given payload ''progress'' (\<lambda>v. raising_step (s_float v) (set_progress ev)),
      given payload ''progress_signals'' (set_section repr ev ''progress_signals''),
      given payload ''prediction'' (set_section repr ev ''prediction''),
      if s_truthy (s_get payload ''task_complete'' SNone) \<or> next_action = ''TERMINATE'' then st_seq
        [put ''lifecycle'' ''progress'' (SFloat (Finite 1)), set_runnable False, set_phase ev ''COMPLETED'']
      else if next_action = ''TOOL'' then st_seq [set_runnable False, set_phase ev ''TOOL_PREPARING'']
      else st_seq [set_runnable True, set_phase ev ''PLANNING''],
      if s_truthy (s_get payload ''success'' (SBool True)) then st_seq
        [put ''failure'' ''failure_streak'' (SInt 0), put ''progress_signals'' ''consecutive_failures'' (SInt 0)]
      else apply_failure repr ev payload ''MODEL_RESPONSE'',
      mark ev [''lifecycle''], mark ev [''failure'']])"

section \<open>Tool events\<close>

definition float_max0 :: "pyfloat \<Rightarrow> sval" where
  "float_max0 x = SFloat (if float_lt (Finite 0) x then x else Finite 0)"

definition apply_tool_started ::
  "(sval \<Rightarrow> string) \<Rightarrow> agent_event \<Rightarrow> (string, sval) dict \<Rightarrow> (agent_state, unit) st" where
  "apply_tool_started repr ev payload =
     st_bind (look ''tools'' ''active_tools'') (\<lambda>tools.
     let given_id = s_get payload ''tool_id'' SNone in
     st_bind (st_read (\<lambda>_.
         if s_truthy given_id then Inr (s_str repr given_id)
         else if ev_step_id ev \<noteq> [] then Inr (ev_step_id ev)
         else res_bind (s_iter tools) (\<lambda>vs. Inr (''tool-'' @ show_nat (length vs + 1))))) (\<lambda>tool_id.
     st_bind (find_tool tool_id (s_str repr (s_get payload ''tool_name'' (SStr ''unknown'')))) (\<lambda>i.
     st_then (st_each (set_tool_entry repr ev i) payload)
    (st_then (put_tool i ''tool_id'' (SStr tool_id))
    (st_bind (tool_attr i ''tool_name'') (\<lambda>name.
     let tool_name = SStr (s_str repr (s_get payload ''tool_name'' name)) in
     st_then (put_tool i ''tool_name'' tool_name)
    (st_then (put_tool i ''status'' (enum_value repr ''ToolStatus''
        (s_get payload ''status'' (SEnum ''ToolStatus'' ''RUNNING'')) (SEnum ''ToolStatus'' ''RUNNING'')))
    (st_bind (tool_attr i ''remaining_time_seconds'') (\<lambda>old.
     raising_step (s_float (s_get payload ''remaining_time_seconds'' old)) (\<lambda>x. st_seq
       [put_tool i ''remaining_time_seconds'' (float_max0 x),
        put ''tools'' ''last_tool_name'' tool_name,
        put ''tools'' ''predicted_time_until_next_model_call_seconds'' (float_max0 x),
        set_runnable False, set_phase ev ''TOOL_RUNNING'',
        mark ev [''tools''], mark ev [''lifecycle'']]))))))))))"

text \<open>
  \<open>max(0, type(old)(value))\<close>: a value of the type of the old one. The result is the integer zero
  unless the converted value is greater.
\<close>

definition convert_like :: "sval \<Rightarrow> sval \<Rightarrow> sval res" where
  "convert_like old value =
     (case old of
        SFloat _ \<Rightarrow> res_bind (s_float value) (\<lambda>x. Inr (SFloat x))
      | SInt _ \<Rightarrow> res_bind (s_int value) (\<lambda>i. Inr (SInt i))
      | SBool _ \<Rightarrow> Inr (SBool (s_truthy value))
      | _ \<Rightarrow> operand_error)"

definition progress_value :: "sval \<Rightarrow> sval \<Rightarrow> sval res" where
  "progress_value old value = res_bind (convert_like old value) (s_max (SInt 0))"

definition tool_progress_keys :: "string list" where
  "tool_progress_keys =
     [''elapsed_seconds'', ''remaining_time_seconds'', ''predicted_output_bytes'', ''predicted_output_tokens'']"

definition apply_tool_progress ::
  "(sval \<Rightarrow> string) \<Rightarrow> agent_event \<Rightarrow> (string, sval) dict \<Rightarrow> (agent_state, unit) st" where
  "apply_tool_progress repr ev payload =
     st_bind (look ''tools'' ''last_tool_name'') (\<lambda>last_name.
     st_bind (find_tool (s_str repr (s_get payload ''tool_id'' (SStr [])))
         (s_str repr (s_get payload ''tool_name'' last_name))) (\<lambda>i.
     st_then (st_each (\<lambda>key. given payload key (\<lambda>v.
         st_bind (tool_attr i key) (\<lambda>old. raising_step (progress_value old v) (put_tool i key)))) tool_progress_keys)
    (st_then (given payload ''status'' (\<lambda>v. st_bind (tool_attr i ''status'') (\<lambda>old.
         put_tool i ''status'' (enum_value repr ''ToolStatus'' v old))))
    (st_then (given payload ''progress'' (\<lambda>v. raising_step (s_float v) (set_progress ev)))
    (st_bind (tool_attr i ''remaining_time_seconds'') (\<lambda>remaining.
     raising_step (s_max (SFloat (Finite 0)) remaining) (\<lambda>m.
     st_then (put ''tools'' ''predicted_time_until_next_model_call_seconds'' m)
    (st_then (set_runnable False)
    (st_bind (tool_attr i ''status'') (\<lambda>status.
     st_then (put ''lifecycle'' ''phase'' (phase_member
         (if status \<in> {SEnum ''ToolStatus'' ''WAITING_IO'', SStr ''WAITING_IO''}
          then ''TOOL_WAITING'' else ''TOOL_RUNNING'')))
       (mark ev [''tools''])))))))))))"

definition apply_tool_result ::
  "(sval \<Rightarrow> string) \<Rightarrow> agent_event \<Rightarrow> (string, sval) dict \<Rightarrow> (agent_state, unit) st" where
  "apply_tool_result repr ev payload =
     st_bind (look ''tools'' ''last_tool_name'') (\<lambda>last_name.
     st_bind (find_tool (s_str repr (s_get payload ''tool_id'' (SStr [])))
         (s_str repr (s_get payload ''tool_name'' last_name))) (\<lambda>i.
     st_then (put_tool i ''status'' (enum_value repr ''ToolStatus''
         (s_get payload ''status'' (SEnum ''ToolStatus'' ''RESULT_READY'')) (SEnum ''ToolStatus'' ''RESULT_READY'')))
    (st_then (put_tool i ''remaining_time_seconds'' (SFloat (Finite 0)))
    (raising_step (natural_of (s_get payload ''result_tokens'' (SInt 0))) (\<lambda>tokens. st_seq
       [update ''context'' ''tool_tokens'' (\<lambda>t. s_add t tokens),
        update ''context'' ''total_tokens'' (\<lambda>t. s_add t tokens),
        st_bind (look ''context'' ''total_tokens'') (\<lambda>t.
          update ''context'' ''prompt_tokens'' (\<lambda>p. s_max p t)),
        put ''tools'' ''predicted_time_until_next_model_call_seconds'' (SFloat (Finite 0)),
        set_runnable True, set_phase ev ''TOOL_RESULT_READY'',
        put ''prediction'' ''next_action_probabilities'' (SDict [(''MODEL'', SFloat (Finite 1))]),
        put ''prediction'' ''predicted_inter_request_gap_seconds'' (SFloat (Finite 0)),
        mark ev [''tools''], mark ev [''context''], mark ev [''prediction'']])))))"

section \<open>Patches\<close>

definition patch_sections :: "string list" where
  "patch_sections =
     [''header'', ''identity'', ''lifecycle'', ''task'', ''execution'', ''context'', ''model'', ''tools'',
      ''inference'', ''kv_cache'', ''scheduling'', ''prediction'', ''qos'', ''affinity'', ''failure'',
      ''observability'', ''security'', ''progress_signals'']"

text \<open>
  \<open>dict(v or {})\<close> of a payload value. The constructor also takes a list of pairs; here everything but a
  mapping is a \<open>TypeError\<close>.
\<close>

definition dict_of :: "sval \<Rightarrow> (string, sval) dict res" where
  "dict_of v =
     (case s_or v (SDict []) of
        SDict d \<Rightarrow> Inr d
      | _ \<Rightarrow> Inl (TypeError ''cannot convert to a mapping''))"

definition meta_time :: "agent_event \<Rightarrow> (string, sval) dict \<Rightarrow> sval res" where
  "meta_time ev payload =
     res_bind (case s_get payload ''observed_at'' (STime (ev_observed_at ev)) of
         SStr text \<Rightarrow> res_bind (fromisoformat (replace_zulu text)) (\<lambda>t. Inr (STime t))
       | v \<Rightarrow> Inr v) (\<lambda>v.
     Inr (case v of STime t \<Rightarrow> STime (datetime_aware t) | _ \<Rightarrow> v))"

definition meta_ttl :: "agent_event \<Rightarrow> (string, sval) dict \<Rightarrow> sval res" where
  "meta_ttl ev payload =
     (let v = s_get payload ''ttl'' (event_ttl ev) in
      case s_number v of
        Some x \<Rightarrow> res_bind (span_of_seconds x) (\<lambda>d. Inr (SSpan d))
      | None \<Rightarrow> Inr v)"

definition set_meta ::
  "(sval \<Rightarrow> string) \<Rightarrow> agent_event \<Rightarrow> string \<Rightarrow> (string, sval) dict \<Rightarrow> (agent_state, unit) st" where
  "set_meta repr ev name payload =
     raising_step (meta_time ev payload) (\<lambda>observed_at.
     raising_step (meta_ttl ev payload) (\<lambda>ttl.
     raising_step (s_float (s_get payload ''confidence'' (SFloat (ev_confidence ev)))) (\<lambda>confidence.
     raising_step (s_int (s_get payload ''version'' (SInt (ev_sequence ev)))) (\<lambda>version.
     st_write (\<lambda>s. s\<lparr>as_field_meta := dict_set (as_field_meta s) name
       \<lparr>sf_value = s_get payload ''value'' SNone, sf_observed_at = observed_at,
        sf_source = s_str repr (s_get payload ''source'' (SStr (ev_source ev))),
        sf_confidence = confidence, sf_ttl = ttl,
        sf_authoritative = s_truthy (s_get payload ''authoritative'' (SBool (ev_authoritative ev))),
        sf_version = version\<rparr>\<rparr>)))))"

definition state_field_entry ::
  "(sval \<Rightarrow> string) \<Rightarrow> agent_event \<Rightarrow> string \<times> sval \<Rightarrow> (agent_state, unit) st" where
  "state_field_entry repr ev = (\<lambda>(name, field_payload).
     case field_payload of
       SDict d \<Rightarrow> if dict_has d ''value'' then set_meta repr ev name d else st_return ()
     | _ \<Rightarrow> st_return ())"

definition apply_patch ::
  "(sval \<Rightarrow> string) \<Rightarrow> agent_event \<Rightarrow> (string, sval) dict \<Rightarrow> (agent_state, unit) st" where
  "apply_patch repr ev payload = st_seq
     [st_each (\<lambda>sec. given payload sec (set_section repr ev sec)) patch_sections,
      given payload ''extensions'' (\<lambda>v. raising_step (dict_of v) (\<lambda>d. st_seq
        [st_write (\<lambda>s. s\<lparr>as_extensions := foldl (\<lambda>m (k, x). dict_set m k x) (as_extensions s) d\<rparr>),
         mark ev [''extensions'']])),
      given payload ''state_fields'' (\<lambda>v. raising_step (dict_of v) (st_each (state_field_entry repr ev)))]"

section \<open>Dispatch\<close>

definition apply_event :: "(sval \<Rightarrow> string) \<Rightarrow> agent_event \<Rightarrow> (agent_state, unit) st" where
  "apply_event repr ev =
     (let event_type = str_upper (ev_event_type ev); payload = ev_payload ev;
          part = (\<lambda>key fallback. s_get payload key fallback); whole = SDict payload in
      st_then (apply_identity repr ev (part ''identity'' whole))
     (if event_type \<in> {''SESSION_STARTED'', ''TASK_STARTED''} then st_seq
        [set_section repr ev ''task'' (part ''task'' whole), set_phase ev ''RUNNABLE'', set_runnable True,
         set_section repr ev ''prediction'' (part ''prediction'' (SDict [])),
         set_section repr ev ''qos'' (part ''qos'' (SDict [])), mark ev [''lifecycle'']]
      else if event_type = ''TURN_STARTED'' then st_seq
        [put ''lifecycle'' ''current_turn'' (SInt (ev_turn_id ev)),
         put ''header'' ''turn_id'' (SInt (ev_turn_id ev)),
         st_when (ev_step_id ev \<noteq> []) (put ''lifecycle'' ''current_step'' (SStr (ev_step_id ev))),
         set_section repr ev ''context'' (part ''context'' whole),
         set_section repr ev ''prediction'' (part ''prediction'' (SDict [])),
         set_phase ev ''RUNNABLE'', set_runnable True, mark ev [''lifecycle'']]
      else if event_type \<in> {''MODEL_REQUEST'', ''MODEL_REQUESTED''} then apply_model_request repr ev payload
      else if event_type \<in> {''MODEL_STARTED'', ''MODEL_PREFILL''} then st_seq
        [set_phase ev ''MODEL_PREFILL'', set_runnable True, mark ev [''lifecycle'']]
      else if event_type \<in> {''MODEL_DECODE'', ''MODEL_STREAM_STARTED''} then st_seq
        [set_phase ev ''MODEL_DECODE'', set_runnable True, mark ev [''lifecycle'']]
      else if event_type \<in> {''MODEL_RESPONSE'', ''MODEL_RESPONSE_RECEIVED'', ''MODEL_COMPLETED''}
        then apply_model_response repr ev payload
      else if event_type \<in> {''TOOL_STARTED'', ''TOOL_START''} then apply_tool_started repr ev payload
      else if event_type \<in> {''TOOL_PROGRESS'', ''TOOL_WAITING''} then apply_tool_progress repr ev payload
      else if event_type \<in> {''TOOL_RESULT_READY'', ''TOOL_COMPLETED'', ''TOOL_RESULT''}
        then apply_tool_result repr ev payload
      else if event_type \<in> {''CONTEXT_COMPACTION'', ''CONTEXT_COMPACTED''} then st_seq
        [set_section repr ev ''context'' (part ''context'' whole),
         put ''context'' ''compaction_needed'' (SBool False), mark ev [''context'']]
      else if event_type \<in> {''TASK_FAILED'', ''MODEL_FAILED'', ''TOOL_FAILED''}
        then apply_failure repr ev payload event_type
      else if event_type \<in> {''TASK_COMPLETED'', ''TASK_COMPLETE''} then st_seq
        [put ''lifecycle'' ''progress'' (SFloat (Finite 1)), set_runnable False, set_phase ev ''COMPLETED'',
         set_section repr ev ''task'' (part ''task'' (SDict [])), mark ev [''lifecycle'']]
      else if event_type = ''INFERENCE_UPDATED'' then set_section repr ev ''inference'' (part ''inference'' whole)
      else if event_type = ''KV_UPDATED'' then set_section repr ev ''kv_cache'' (part ''kv_cache'' whole)
      else if event_type = ''TOOL_STATE_UPDATED'' then set_section repr ev ''tools'' (part ''tools'' whole)
      else apply_patch repr ev payload))"

end
