(* ===== verification/SF_Store.thy ===== *)
theory SF_Store
  imports SF_Store_Events
begin

text \<open>
  The operations of \<open>InMemoryStateStore\<close> (\<open>stateflow/state/store/in_memory.py\<close>): the states by session
  and task, the epoch and sequence of the last accepted event, and the event log. \<open>now\<close> and \<open>fresh\<close>
  are the clock reading and the identifier digits of a state the operation may create. A copy of a
  value is the value.
\<close>

section \<open>State and construction\<close>

type_synonym state_key = "string \<times> string"

record state_store =
  st_states :: "(state_key, agent_state) dict"
  st_last_order :: "(state_key, int \<times> int) dict"
  st_events :: "agent_event list"

definition empty_store :: state_store where
  "empty_store = \<lparr>st_states = [], st_last_order = [], st_events = []\<rparr>"

definition event_key :: "agent_event \<Rightarrow> state_key" where
  "event_key ev = (ev_session_id ev, ev_task_id ev)"

definition get_or_create ::
  "datetime \<Rightarrow> string \<Rightarrow> state_store \<Rightarrow> string \<Rightarrow> string \<Rightarrow> string \<Rightarrow> string \<Rightarrow> agent_state \<times> state_store" where
  "get_or_create now fresh st session_id task_id tenant_id harness_type =
     (case dict_get (st_states st) (session_id, task_id) of
        Some s \<Rightarrow> (s, st)
      | None \<Rightarrow>
          let s = new_agent_state now fresh session_id task_id tenant_id harness_type in
          (s, st\<lparr>st_states := dict_set (st_states st) (session_id, task_id) s\<rparr>))"

section \<open>Appending an event\<close>

definition order_less :: "int \<times> int \<Rightarrow> int \<times> int \<Rightarrow> bool" where
  "order_less a b \<longleftrightarrow> fst a < fst b \<or> fst a = fst b \<and> snd a < snd b"

definition last_order :: "state_store \<Rightarrow> state_key \<Rightarrow> int \<times> int" where
  "last_order st key = dict_get_or (st_last_order st) key (-1, -1)"

text \<open>An event without a sequence number takes the next one of its epoch.\<close>

definition sequenced :: "state_store \<Rightarrow> agent_event \<Rightarrow> agent_event" where
  "sequenced st ev =
     (let (epoch, sequence) = last_order st (event_key ev) in
      if ev_sequence ev \<le> 0
      then ev\<lparr>ev_sequence := (if ev_epoch ev = epoch then sequence + 1 else 1)\<rparr> else ev)"

definition refused :: "state_store \<Rightarrow> agent_event \<Rightarrow> bool \<Rightarrow> append_result" where
  "refused st ev duplicate =
     (let s = dict_get (st_states st) (event_key ev) in
      \<lparr>ar_accepted = False, ar_duplicate = duplicate, ar_stale = \<not> duplicate,
       ar_state_id = (case s of Some x \<Rightarrow> attr x ''header'' ''state_id'' | None \<Rightarrow> SStr []),
       ar_state_version = (case s of Some x \<Rightarrow> attr x ''header'' ''sequence_number'' | None \<Rightarrow> SInt 0),
       ar_reason = (if duplicate then ''duplicate epoch/sequence'' else ''stale epoch/sequence'')\<rparr>)"

definition put_when_given :: "string \<Rightarrow> string \<Rightarrow> (agent_state, unit) st" where
  "put_when_given name v = st_when (v \<noteq> []) (put ''header'' name (SStr v))"

text \<open>The header after the handlers.\<close>

definition stamp_header :: "agent_event \<Rightarrow> (agent_state, unit) st" where
  "stamp_header ev = st_seq
     [put ''header'' ''session_id'' (SStr (ev_session_id ev)),
      put ''header'' ''task_id'' (SStr (ev_task_id ev)),
      update ''header'' ''turn_id'' (\<lambda>t. s_max t (SInt (ev_turn_id ev))),
      put_when_given ''step_id'' (ev_step_id ev), put_when_given ''request_id'' (ev_request_id ev),
      put_when_given ''attempt_id'' (ev_attempt_id ev),
      put_when_given ''parent_step_id'' (ev_parent_step_id ev),
      put_when_given ''trace_id'' (ev_trace_id ev),
      put ''header'' ''epoch'' (SInt (ev_epoch ev)),
      put ''header'' ''sequence_number'' (SInt (ev_sequence ev)),
      put ''header'' ''updated_at'' (STime (ev_observed_at ev)),
      put ''header'' ''update_source'' (SStr (ev_source ev)),
      update ''header'' ''dirty_fields'' (\<lambda>v.
        case v of
          SSet vs \<Rightarrow> Inr (SSet (remdups (vs @ map (\<lambda>(k, _). SStr k) (ev_payload ev))))
        | _ \<Rightarrow> Inl attribute_error)]"

text \<open>
  The state under the lock: a new state is stored before the event is applied, and the live state
  keeps what a handler changed before it raised; the order and the log only move after it.
\<close>

definition append_event ::
  "(sval \<Rightarrow> string) \<Rightarrow> datetime \<Rightarrow> string \<Rightarrow> state_store \<Rightarrow> agent_event \<Rightarrow> append_result res \<times> state_store" where
  "append_event repr now fresh st event =
     (let ev = sequenced st event; key = event_key ev;
          order = (ev_epoch ev, ev_sequence ev); previous = last_order st key
      in if order = previous then (Inr (refused st ev True), st)
         else if order_less order previous then (Inr (refused st ev False), st)
         else
           let s = (case dict_get (st_states st) key of
                 Some x \<Rightarrow> x
               | None \<Rightarrow> new_agent_state now fresh (ev_session_id ev) (ev_task_id ev) ''default'' ''generic-proxy'')
           in case st_then (apply_event repr ev) (stamp_header ev) s of
                (Inl e, s') \<Rightarrow> (Inl e, st\<lparr>st_states := dict_set (st_states st) key s'\<rparr>)
              | (Inr _, s') \<Rightarrow>
                  (Inr \<lparr>ar_accepted = True, ar_duplicate = False, ar_stale = False,
                        ar_state_id = attr s' ''header'' ''state_id'',
                        ar_state_version = attr s' ''header'' ''sequence_number'', ar_reason = ''accepted''\<rparr>,
                   \<lparr>st_states = dict_set (st_states st) key s',
                    st_last_order = dict_set (st_last_order st) key order,
                    st_events = st_events st @ [ev]\<rparr>))"

text \<open>A list of events; the first exception ends the call.\<close>

fun append_events ::
  "(sval \<Rightarrow> string) \<Rightarrow> datetime \<Rightarrow> string \<Rightarrow> state_store \<Rightarrow> agent_event list \<Rightarrow> append_result list res \<times> state_store" where
  "append_events repr now fresh st [] = (Inr [], st)"
| "append_events repr now fresh st (ev # evs) =
     (case append_event repr now fresh st ev of
        (Inl e, st') \<Rightarrow> (Inl e, st')
      | (Inr r, st') \<Rightarrow>
          (case append_events repr now fresh st' evs of
             (Inl e, st'') \<Rightarrow> (Inl e, st'')
           | (Inr rs, st'') \<Rightarrow> (Inr (r # rs), st'')))"

section \<open>Reading\<close>

definition session_state :: "state_store \<Rightarrow> string \<Rightarrow> string \<Rightarrow> agent_state option" where
  "session_state st session_id task_id = dict_get (st_states st) (session_id, task_id)"

definition get_scheduling_view ::
  "datetime \<Rightarrow> string \<Rightarrow> state_store \<Rightarrow> string \<Rightarrow> string \<Rightarrow> scheduling_view res" where
  "get_scheduling_view now fresh st session_id task_id =
     build_scheduling_view
       (case session_state st session_id task_id of
          Some s \<Rightarrow> s
        | None \<Rightarrow> new_agent_state now fresh session_id task_id ''default'' ''generic-proxy'') now"

definition store_events :: "state_store \<Rightarrow> agent_event list" where
  "store_events st = st_events st"

definition events_for :: "state_store \<Rightarrow> string \<Rightarrow> string \<Rightarrow> agent_event list" where
  "events_for st session_id task_id = filter (\<lambda>ev. event_key ev = (session_id, task_id)) (st_events st)"

section \<open>Recording a routing decision\<close>

definition history_attr :: "string \<Rightarrow> (agent_state, sval) st" where
  "history_attr name = st_read (\<lambda>s. s_attr (attr s ''scheduling'' ''routing_history'') name)"

definition put_history :: "string \<Rightarrow> sval \<Rightarrow> (agent_state, unit) st" where
  "put_history name v = update ''scheduling'' ''routing_history'' (\<lambda>h. s_set_attr h name v)"

definition recorded_evaluation :: "routing_decision \<Rightarrow> candidate_evaluation option" where
  "recorded_evaluation d =
     find (\<lambda>c. ce_model_id c = rd_selected_model d \<and> ce_endpoint_id c = rd_selected_endpoint d \<and>
               ce_replica_id c = rd_selected_replica d) (rd_candidates d)"

definition keep_last :: "nat \<Rightarrow> 'a list \<Rightarrow> 'a list" where
  "keep_last n xs = drop (length xs - n) xs"

definition apply_decision ::
  "(routing_decision \<Rightarrow> sval) \<Rightarrow> scheduling_view \<Rightarrow> routing_decision \<Rightarrow> (agent_state, unit) st" where
  "apply_decision to_dict view d =
     (let timestamp = STime (utc (rd_timestamp d)) in st_seq
     [put ''model'' ''selected_model'' (SStr (rd_selected_model d)),
      put ''model'' ''selected_endpoint'' (SStr (rd_selected_endpoint d)),
      put ''model'' ''selected_replica'' (SStr (rd_selected_replica d)),
      put ''scheduling'' ''preferred_endpoint'' (SStr (rd_selected_endpoint d)),
      put ''scheduling'' ''preferred_replica'' (SStr (rd_selected_replica d)),
      put_history ''current_model'' (SStr (rd_selected_model d)),
      put_history ''current_endpoint'' (SStr (rd_selected_endpoint d)),
      put_history ''current_replica'' (SStr (rd_selected_replica d)),
      st_bind (history_attr ''current_tier'') (\<lambda>previous_tier.
        let selected_tier = (case recorded_evaluation d of Some c \<Rightarrow> SStr (ce_tier c) | None \<Rightarrow> previous_tier) in st_seq
        [if previous_tier = selected_tier
         then st_bind (history_attr ''stable_steps'') (\<lambda>n.
                raising_step (s_add n (SInt 1)) (put_history ''stable_steps''))
         else st_seq
           [put_history ''stable_steps'' (SInt 1), put_history ''last_tier_change'' timestamp,
            put_history ''last_change_reason'' (SStr (decision_reason_value (rd_decision_reason d))),
            st_when (s_truthy previous_tier \<and> s_truthy selected_tier)
              (st_bind (history_attr ''escalation_count'') (\<lambda>n.
                raising_step (s_add n (SInt 1)) (put_history ''escalation_count'')))],
         put_history ''current_tier'' selected_tier]),
      put_history ''failure_streak'' (SInt (hv_failure_streak view)),
      update ''scheduling'' ''decision_history'' (\<lambda>v.
        case v of
          SList ds \<Rightarrow> Inr (SList (keep_last 1000 (ds @ [to_dict d])))
        | _ \<Rightarrow> Inl attribute_error),
      update ''header'' ''sequence_number'' (\<lambda>n. s_add n (SInt 1))])"

definition stamp_decision :: "routing_decision \<Rightarrow> (agent_state, unit) st" where
  "stamp_decision d = st_seq
     [put ''header'' ''updated_at'' (STime (utc (rd_timestamp d))),
      put ''header'' ''update_source'' (SStr ''success-first-scheduler''),
      update ''header'' ''dirty_fields'' (\<lambda>v.
        case v of
          SSet vs \<Rightarrow> Inr (SSet (remdups (vs @
            [SStr ''model'', SStr ''scheduling.routing_history'', SStr ''decision_history''])))
        | _ \<Rightarrow> Inl attribute_error)]"

text \<open>
  The reserved version enters the order of the key between the two; the header's epoch and sequence
  number are integers unless a patch has replaced them, which the model reports as ill-typed.
\<close>

definition record_routing_decision ::
  "(routing_decision \<Rightarrow> sval) \<Rightarrow> datetime \<Rightarrow> string \<Rightarrow> state_store \<Rightarrow> scheduling_view \<Rightarrow> routing_decision
     \<Rightarrow> unit res \<times> state_store" where
  "record_routing_decision to_dict now fresh st view d =
     (let key = (hv_session_id view, hv_task_id view);
          s = (case dict_get (st_states st) key of
              Some x \<Rightarrow> x
            | None \<Rightarrow> new_agent_state now fresh (hv_session_id view) (hv_task_id view)
                         (hv_tenant_id view) ''generic-proxy'')
      in case apply_decision to_dict view d s of
           (Inl e, s') \<Rightarrow> (Inl e, st\<lparr>st_states := dict_set (st_states st) key s'\<rparr>)
         | (Inr _, s') \<Rightarrow>
             (case res_bind (as_int (attr s' ''header'' ''epoch'')) (\<lambda>e.
                     res_bind (as_int (attr s' ''header'' ''sequence_number'')) (\<lambda>n. Inr (e, n))) of
                Inl x \<Rightarrow> (Inl x, st\<lparr>st_states := dict_set (st_states st) key s'\<rparr>)
              | Inr order \<Rightarrow>
                  (case stamp_decision d s' of
                     (r, s'') \<Rightarrow>
                       (r, st\<lparr>st_states := dict_set (st_states st) key s'',
                             st_last_order := dict_set (st_last_order st) key order\<rparr>))))"

end
