(* ===== verification/SF_Gateway.thy ===== *)
theory SF_Gateway
  imports SF_Backends SF_Gateway_Projector SF_Store SF_Scheduler
begin

text \<open>
  The request gateway, \<open>stateflow/gateway/service.py\<close>: one request recorded, scheduled, sent and
  recorded again. The state of the gateway is the state store, the target and backend registries, the
  State Plane with the projector's resolver, and the count of failed projections. The decision sink is
  the store's \<open>record_routing_decision\<close>, as the constructor sets it; the predictor is an argument of
  the scheduler, as before.
\<close>

section \<open>State and construction\<close>

record gateway_response =
  gr_status_code :: int
  gr_payload :: pyval
  gr_decision :: "routing_decision option"
  gr_headers :: "(string, string) dict"

record gateway =
  gw_store :: state_store
  gw_targets :: "target_candidate list"
  gw_backends :: backend_registry
  gw_world :: adapter_world
  gw_projection_errors :: int
  gw_last_projection_error :: string

definition register_target :: "gateway \<Rightarrow> target_candidate \<Rightarrow> gateway" where
  "register_target gw t = gw\<lparr>gw_targets := gw_targets gw @ [t]\<rparr>"

definition new_gateway ::
  "(int \<Rightarrow> datetime) \<Rightarrow> state_store \<Rightarrow> target_candidate list \<Rightarrow> backend_registry \<Rightarrow> plane \<Rightarrow> gateway res" where
  "new_gateway clock st targets backends p =
     (case projector_init clock \<lparr>aw_plane = p, aw_resolver = new_resolver\<rparr> of
        (Inl e, _) \<Rightarrow> Inl e
      | (Inr _, w) \<Rightarrow> Inr
          \<lparr>gw_store = st, gw_targets = targets, gw_backends = backends, gw_world = w,
           gw_projection_errors = 0, gw_last_projection_error = []\<rparr>)"

text \<open>
  What one call of \<open>handle\<close> reads from outside: texts of values and strings, the clock of the plane, the
  readings of the clock for the projector's updates and for the gateway itself, the digits of a new
  state, and the id and time of the decision. \<open>hi_iso\<close> is \<open>datetime.isoformat\<close>.
\<close>

record handle_inputs =
  hi_repr :: "sval \<Rightarrow> string"
  hi_quoted :: "string \<Rightarrow> string"
  hi_iso :: "datetime \<Rightarrow> string"
  hi_clock :: "int \<Rightarrow> datetime"
  hi_projection :: "nat \<Rightarrow> datetime"
  hi_now :: "nat \<Rightarrow> datetime"
  hi_fresh :: string
  hi_decision_id :: string
  hi_decision_time :: int

section \<open>Decisions as JSON values\<close>

definition s_real :: "real \<Rightarrow> sval" where
  "s_real x = SFloat (Finite x)"

definition s_texts :: "string list \<Rightarrow> sval" where
  "s_texts xs = SList (map SStr xs)"

definition evaluation_to_dict :: "candidate_evaluation \<Rightarrow> sval" where
  "evaluation_to_dict e = SDict
     [(''model_id'', SStr (ce_model_id e)), (''endpoint_id'', SStr (ce_endpoint_id e)),
      (''replica_id'', SStr (ce_replica_id e)), (''tier'', SStr (ce_tier e)),
      (''eligible'', SBool (ce_eligible e)), (''rejection_reasons'', s_texts (ce_rejection_reasons e)),
      (''predicted_success'', s_real (ce_predicted_success e)),
      (''success_uncertainty'', s_real (ce_success_uncertainty e)),
      (''success_confidence'', s_real (ce_success_confidence e)),
      (''success_lcb'', s_real (ce_success_lcb e)), (''success_gate'', SBool (ce_success_gate e)),
      (''cost_gate'', SBool (ce_cost_gate e)), (''selected'', SBool (ce_selected e)),
      (''inference_cost'', s_real (ce_inference_cost e)), (''kv_fetch_cost'', s_real (ce_kv_fetch_cost e)),
      (''kv_recompute_cost'', s_real (ce_kv_recompute_cost e)),
      (''expected_retry_cost'', s_real (ce_expected_retry_cost e)),
      (''routing_overhead_cost'', s_real (ce_routing_overhead_cost e)),
      (''future_kv_value'', s_real (ce_future_kv_value e)), (''effective_cost'', s_real (ce_effective_cost e)),
      (''queue_latency_seconds'', s_real (ce_queue_latency_seconds e)),
      (''kv_latency_seconds'', s_real (ce_kv_latency_seconds e)),
      (''prefill_latency_seconds'', s_real (ce_prefill_latency_seconds e)),
      (''decode_latency_seconds'', s_real (ce_decode_latency_seconds e)),
      (''predicted_latency_seconds'', s_real (ce_predicted_latency_seconds e)),
      (''critical_path_latency_seconds'', s_real (ce_critical_path_latency_seconds e)),
      (''local_kv_tokens'', SInt (ce_local_kv_tokens e)), (''remote_kv_tokens'', SInt (ce_remote_kv_tokens e)),
      (''miss_tokens'', SInt (ce_miss_tokens e)),
      (''metadata'', SDict (if ce_eligible e then
        [(''predictor_version'', SStr (ce_predictor_version e)),
         (''predictor_notes'', s_texts (ce_predictor_notes e)),
         (''load_balance_score'', s_real (ce_load_balance_score e))] else []))]"

definition decision_to_dict :: "(datetime \<Rightarrow> string) \<Rightarrow> routing_decision \<Rightarrow> sval" where
  "decision_to_dict isoformat d = SDict
     [(''selected_model'', SStr (rd_selected_model d)), (''selected_endpoint'', SStr (rd_selected_endpoint d)),
      (''selected_replica'', SStr (rd_selected_replica d)),
      (''predicted_success'', s_real (rd_predicted_success d)),
      (''predicted_cost'', s_real (rd_predicted_cost d)),
      (''predicted_latency_seconds'', s_real (rd_predicted_latency_seconds d)),
      (''decision_reason'', SStr (decision_reason_value (rd_decision_reason d))),
      (''candidates'', SList (map evaluation_to_dict (rd_candidates d))),
      (''scheduler_version'', SStr (rd_scheduler_version d)), (''state_id'', SStr (rd_state_id d)),
      (''state_version'', SInt (rd_state_version d)), (''decision_id'', SStr (rd_decision_id d)),
      (''timestamp'', SStr (isoformat (utc (rd_timestamp d)))),
      (''override_reasons'', s_texts (rd_override_reasons d)), (''fallback'', SBool (rd_fallback d))]"

definition rejection_to_dict :: "filter_rejection \<Rightarrow> pyval" where
  "rejection_to_dict r = PDict
     [(''model_id'', PStr (fj_model_id r)), (''endpoint_id'', PStr (fj_endpoint_id r)),
      (''replica_id'', PStr (fj_replica_id r)), (''reasons'', PList (map PStr (fj_reasons r)))]"

section \<open>The steps of a request\<close>

text \<open>A projection that raises is counted and dropped.\<close>

definition project :: "unit adapter_action \<Rightarrow> gateway \<Rightarrow> gateway" where
  "project operation gw =
     (case operation (gw_world gw) of
        (Inl e, w) \<Rightarrow> gw\<lparr>gw_world := w, gw_projection_errors := gw_projection_errors gw + 1,
                         gw_last_projection_error := exc_type_name e\<rparr>
      | (Inr _, w) \<Rightarrow> gw\<lparr>gw_world := w\<rparr>)"

definition gateway_event ::
  "neutral_request \<Rightarrow> string \<Rightarrow> datetime \<Rightarrow> (string, sval) dict \<Rightarrow> agent_event" where
  "gateway_event request event_type now payload =
     (new_agent_event event_type (nr_session_id request) (nr_task_id request) now)
     \<lparr>ev_turn_id := nr_turn_id request, ev_step_id := nr_step_id request,
      ev_request_id := nr_request_id request, ev_attempt_id := nr_attempt_id request,
      ev_trace_id := nr_trace_id request, ev_source := ''stateflow-gateway'', ev_payload := payload,
      ev_authoritative := True\<rparr>"

definition store_event :: "handle_inputs \<Rightarrow> agent_event \<Rightarrow> state_store \<Rightarrow> unit res \<times> state_store" where
  "store_event hi ev st =
     (case append_event (hi_repr hi) (hi_now hi 1) (hi_fresh hi) st ev of
        (Inl e, st') \<Rightarrow> (Inl e, st')
      | (Inr _, st') \<Rightarrow> (Inr (), st'))"

definition record_model_request ::
  "handle_inputs \<Rightarrow> neutral_request \<Rightarrow> state_store \<Rightarrow> unit res \<times> state_store" where
  "record_model_request hi request =
     store_event hi (gateway_event request ''MODEL_REQUESTED'' (hi_now hi 0)
       (map (\<lambda>(k, v). (k, of_py v)) (to_state_payload request)))"

definition record_model_response ::
  "handle_inputs \<Rightarrow> neutral_request \<Rightarrow> int \<Rightarrow> state_store \<Rightarrow> unit res \<times> state_store" where
  "record_model_response hi request output_tokens =
     store_event hi (gateway_event request ''MODEL_RESPONSE_RECEIVED'' (hi_now hi 3)
       [(''success'', SBool True), (''output_tokens'', SInt output_tokens)])"

definition record_failure ::
  "handle_inputs \<Rightarrow> neutral_request \<Rightarrow> string \<Rightarrow> string \<Rightarrow> state_store \<Rightarrow> unit res \<times> state_store" where
  "record_failure hi request component error =
     store_event hi (gateway_event request ''MODEL_FAILED'' (hi_now hi 3)
       [(''failed_component'', SStr component), (''error'', SStr error),
        (''error_severity'', s_real (8 / 10))])"

text \<open>The request is authoritative for its sizes and its model.\<close>

definition request_view :: "neutral_request \<Rightarrow> scheduling_view \<Rightarrow> scheduling_view" where
  "request_view request view = view
     \<lparr>hv_prompt_tokens := nr_prompt_tokens request,
      hv_predicted_output_tokens := nr_predicted_output_tokens request,
      hv_logical_model := (if nr_model request \<noteq> [] then nr_model request else hv_logical_model view),
      hv_required_capabilities := hv_required_capabilities view \<union> set (nr_required_capabilities request)\<rparr>"

text \<open>What the scheduler does: a decision, and the write of the sink, whose exception it drops.\<close>

definition schedule_request ::
  "predictor \<Rightarrow> scheduler_config \<Rightarrow> handle_inputs \<Rightarrow> scheduling_view \<Rightarrow> target_candidate list \<Rightarrow> state_store
     \<Rightarrow> (schedule_error + routing_decision) \<times> state_store" where
  "schedule_request predict config hi view targets st =
     (case schedule predict config None (hi_decision_id hi) (hi_decision_time hi) view (Some targets) of
        Inl e \<Rightarrow> (Inl e, st)
      | Inr d \<Rightarrow>
          (Inr d, snd (record_routing_decision (decision_to_dict (hi_iso hi)) (hi_now hi 1) (hi_fresh hi) st view d)))"

definition selected_target :: "target_candidate list \<Rightarrow> routing_decision \<Rightarrow> target_candidate option" where
  "selected_target targets d =
     find (\<lambda>t. tc_model_id t = rd_selected_model d \<and> tc_endpoint_id t = rd_selected_endpoint d \<and>
               tc_replica_id t = rd_selected_replica d) targets"

definition send_to_backend ::
  "(string \<Rightarrow> string) \<Rightarrow> backend_registry \<Rightarrow> neutral_request \<Rightarrow> target_candidate \<Rightarrow> send_error + backend_response" where
  "send_to_backend quoted bs request t =
     (case require_backend quoted bs (tc_backend_key t) of
        Inl e \<Rightarrow> Inl e
      | Inr adapter \<Rightarrow> adapter request t)"

section \<open>Responses\<close>

definition no_target_response :: "string \<Rightarrow> filter_rejection list \<Rightarrow> gateway_response" where
  "no_target_response message rejections =
     \<lparr>gr_status_code = 503,
      gr_payload = PDict [(''error'', PDict [(''type'', PStr ''no_feasible_target''), (''message'', PStr message),
        (''rejections'', PList (map rejection_to_dict rejections))])],
      gr_decision = None, gr_headers = []\<rparr>"

definition backend_error_response :: "string \<Rightarrow> routing_decision \<Rightarrow> gateway_response" where
  "backend_error_response message d =
     \<lparr>gr_status_code = 502,
      gr_payload = PDict [(''error'', PDict [(''type'', PStr ''backend_error''), (''message'', PStr message)])],
      gr_decision = Some d, gr_headers = [(''x-stateflow-decision-id'', rd_decision_id d)]\<rparr>"

definition routed_response :: "backend_response \<Rightarrow> routing_decision \<Rightarrow> gateway_response" where
  "routed_response b d =
     \<lparr>gr_status_code = br_status_code b, gr_payload = br_payload b, gr_decision = Some d,
      gr_headers = [(''x-stateflow-decision-id'', rd_decision_id d),
        (''x-stateflow-selected-model'', rd_selected_model d),
        (''x-stateflow-selected-replica'', rd_selected_replica d)]\<rparr>"

section \<open>\<open>handle\<close>\<close>

definition returning :: "'a \<Rightarrow> unit res \<times> 's \<Rightarrow> 'a res \<times> 's" where
  "returning x = (\<lambda>(r, s). (res_bind r (\<lambda>_. Inr x), s))"

text \<open>From the decision on: the backend, the projection of the decision, the response event.\<close>

definition dispatch ::
  "handle_inputs \<Rightarrow> neutral_request \<Rightarrow> target_candidate list \<Rightarrow> routing_decision \<Rightarrow> gateway
     \<Rightarrow> gateway_response res \<times> gateway" where
  "dispatch hi request targets d gw =
     (case selected_target targets d of
        None \<Rightarrow> (Inl (OtherException ''StopIteration''), gw)
      | Some t \<Rightarrow>
          (case send_to_backend (hi_quoted hi) (gw_backends gw) request t of
             Inl (SendRaised e) \<Rightarrow> (Inl e, gw)
           | Inl (BackendError message) \<Rightarrow>
               (case returning (backend_error_response message d)
                       (record_failure hi request ''BACKEND'' message (gw_store gw)) of
                  (r, st) \<Rightarrow> (r, gw\<lparr>gw_store := st\<rparr>))
           | Inr b \<Rightarrow>
               (let gw' = project (project_decision (\<lambda>n. hi_projection hi (n + 2 + 6 * length targets)) request d) gw in
                case returning (routed_response b d)
                       (record_model_response hi request (br_output_tokens b) (gw_store gw')) of
                  (r, st) \<Rightarrow> (r, gw'\<lparr>gw_store := st\<rparr>))))"

text \<open>From the scheduling view on.\<close>

definition route ::
  "predictor \<Rightarrow> scheduler_config \<Rightarrow> handle_inputs \<Rightarrow> neutral_request \<Rightarrow> target_candidate list \<Rightarrow> scheduling_view
     \<Rightarrow> gateway \<Rightarrow> gateway_response res \<times> gateway" where
  "route predict config hi request targets view gw =
     (case schedule_request predict config hi view targets (gw_store gw) of
        (Inl (ScheduleError e), st) \<Rightarrow> (Inl e, gw\<lparr>gw_store := st\<rparr>)
      | (Inl (NoFeasibleTarget message rejections), st) \<Rightarrow>
          (case returning (no_target_response message rejections)
                  (record_failure hi request ''NO_FEASIBLE_TARGET'' message st) of
             (r, st') \<Rightarrow> (r, gw\<lparr>gw_store := st'\<rparr>))
      | (Inr d, st) \<Rightarrow> dispatch hi request targets d (gw\<lparr>gw_store := st\<rparr>))"

definition handle ::
  "predictor \<Rightarrow> scheduler_config \<Rightarrow> handle_inputs \<Rightarrow> neutral_request \<Rightarrow> gateway
     \<Rightarrow> gateway_response res \<times> gateway" where
  "handle predict config hi request gw0 =
     (let targets = gw_targets gw0;
          gw = project (record_request (hi_clock hi) (hi_projection hi) request targets) gw0
      in case record_model_request hi request (gw_store gw) of
           (Inl e, st) \<Rightarrow> (Inl e, gw\<lparr>gw_store := st\<rparr>)
         | (Inr _, st) \<Rightarrow>
             (case get_scheduling_view (hi_now hi 2) (hi_fresh hi) st (nr_session_id request) (nr_task_id request) of
                Inl e \<Rightarrow> (Inl e, gw\<lparr>gw_store := st\<rparr>)
              | Inr view \<Rightarrow> route predict config hi request targets (request_view request view) (gw\<lparr>gw_store := st\<rparr>)))"

end
