(* ===== verification/SF_Store_Order.thy ===== *)
theory SF_Store_Order
  imports SF_Store
begin

text \<open>
  Ordering of the state store: what every step keeps of the order tracked for a session, and that the
  event log of a session is strictly ordered by epoch and sequence number.
\<close>

section \<open>What an operation leaves alone\<close>

text \<open>The operation keeps \<open>P\<close>, whether it returns or raises.\<close>

definition keeps :: "('s \<Rightarrow> bool) \<Rightarrow> ('s, 'a) st \<Rightarrow> bool" where
  "keeps P m \<longleftrightarrow> (\<forall>s. P s \<longrightarrow> P (snd (m s)))"

named_theorems keeps_rules \<comment> \<open>introduction rules for operations that keep a predicate\<close>

lemma keepsD: "keeps P m \<Longrightarrow> m s = (r, s') \<Longrightarrow> P s \<Longrightarrow> P s'"
  unfolding keeps_def by (metis snd_conv)

lemma keeps_return [keeps_rules]: "keeps P (st_return x)"
  by (simp add: keeps_def st_return_def)

lemma keeps_read [keeps_rules]: "keeps P (st_read f)"
  by (simp add: keeps_def st_read_def)

lemma keeps_bind [keeps_rules]: "keeps P m \<Longrightarrow> (\<And>x. keeps P (f x)) \<Longrightarrow> keeps P (st_bind m f)"
  by (fastforce simp: keeps_def st_bind_def split: prod.splits sum.splits)

lemma keeps_then [keeps_rules]: "keeps P m \<Longrightarrow> keeps P m' \<Longrightarrow> keeps P (st_then m m')"
  unfolding st_then_def by (rule keeps_bind)

lemma keeps_when [keeps_rules]: "keeps P m \<Longrightarrow> keeps P (st_when b m)"
  by (simp add: st_when_def keeps_return)

lemma keeps_if [keeps_rules]: "keeps P m \<Longrightarrow> keeps P m' \<Longrightarrow> keeps P (if b then m else m')"
  by simp

lemma keeps_seq_Nil [keeps_rules]: "keeps P (st_seq [])"
  by (simp add: keeps_return)

lemma keeps_seq_Cons [keeps_rules]: "keeps P m \<Longrightarrow> keeps P (st_seq ms) \<Longrightarrow> keeps P (st_seq (m # ms))"
  by (simp add: keeps_then)

lemma keeps_raising [keeps_rules]: "(\<And>x. keeps P (f x)) \<Longrightarrow> keeps P (raising_step r f)"
  unfolding raising_step_def by (intro keeps_rules)

definition holds :: "string \<Rightarrow> string \<Rightarrow> sval \<Rightarrow> agent_state \<Rightarrow> bool" where
  "holds sec name v s \<longleftrightarrow> attr s sec name = v"

lemma attr_set_attr [simp]:
  "attr (set_attr sec name v s) sec' name' = (if sec' = sec \<and> name' = name then v else attr s sec' name')"
  by (simp add: attr_def set_attr_def section_attrs_def dict_get_or_def)

lemma keeps_put [keeps_rules]: "(sec, name) \<noteq> (sec', name') \<Longrightarrow> keeps (holds sec name v) (put sec' name' w)"
  by (auto simp: keeps_def put_def st_write_def holds_def)

lemma keeps_update [keeps_rules]:
  "(sec, name) \<noteq> (sec', name') \<Longrightarrow> keeps (holds sec name v) (update sec' name' f)"
  unfolding update_def by (intro keeps_rules)

lemma put_holds: "holds sec name v (snd (put sec name v s))"
  by (simp add: put_def st_write_def holds_def)

section \<open>The header after an event and after a decision\<close>

lemma then_returns:
  "st_then m m' s = (Inr x, s') \<longleftrightarrow> (\<exists>y s1. m s = (Inr y, s1) \<and> m' s1 = (Inr x, s'))"
  by (auto simp: st_then_def st_bind_def split: prod.splits sum.splits)

lemma seq_append: "st_seq (ms @ ms') = st_then (st_seq ms) (st_seq ms')"
proof (induction ms)
  case Nil
  show ?case by (rule ext) (simp add: st_then_def st_bind_def st_return_def)
next
  case (Cons m ms)
  then show ?case
    by (intro ext) (auto simp: st_then_def st_bind_def split: prod.splits sum.splits)
qed

lemma put_returns: "put sec name v s = (Inr (), set_attr sec name v s)"
  by (simp add: put_def st_write_def)

text \<open>An event that is accepted leaves its epoch and sequence number in the header.\<close>

lemma stamp_header_order:
  assumes "stamp_header ev s = (Inr x, s')"
  shows "attr s' ''header'' ''epoch'' = SInt (ev_epoch ev)"
    and "attr s' ''header'' ''sequence_number'' = SInt (ev_sequence ev)"
proof -
  let ?rest = "[put ''header'' ''updated_at'' (STime (ev_observed_at ev)),
      put ''header'' ''update_source'' (SStr (ev_source ev)),
      update ''header'' ''dirty_fields'' (\<lambda>v.
        case v of
          SSet vs \<Rightarrow> Inr (SSet (remdups (vs @ map (\<lambda>(k, _). SStr k) (ev_payload ev))))
        | _ \<Rightarrow> Inl attribute_error)]"
  let ?before = "[put ''header'' ''session_id'' (SStr (ev_session_id ev)),
      put ''header'' ''task_id'' (SStr (ev_task_id ev)),
      update ''header'' ''turn_id'' (\<lambda>t. s_max t (SInt (ev_turn_id ev))),
      put_when_given ''step_id'' (ev_step_id ev), put_when_given ''request_id'' (ev_request_id ev),
      put_when_given ''attempt_id'' (ev_attempt_id ev),
      put_when_given ''parent_step_id'' (ev_parent_step_id ev),
      put_when_given ''trace_id'' (ev_trace_id ev)]"
  let ?after = "put ''header'' ''epoch'' (SInt (ev_epoch ev)) #
      put ''header'' ''sequence_number'' (SInt (ev_sequence ev)) # ?rest"
  have "stamp_header ev = st_then (st_seq ?before) (st_seq ?after)"
    unfolding stamp_header_def seq_append [symmetric] by (simp only: append.simps)
  with assms obtain s1 where s1: "st_seq ?after s1 = (Inr x, s')" by (auto simp only: then_returns)
  let ?s2 = "set_attr ''header'' ''sequence_number'' (SInt (ev_sequence ev))
    (set_attr ''header'' ''epoch'' (SInt (ev_epoch ev)) s1)"
  from s1 have s2: "st_seq ?rest ?s2 = (Inr x, s')" by (simp only: st_seq.simps then_returns put_returns) blast
  have "keeps (holds ''header'' ''epoch'' v) (st_seq ?rest)"
    "keeps (holds ''header'' ''sequence_number'' v) (st_seq ?rest)" for v
    by (intro keeps_rules; simp)+
  from keepsD [OF this(1) s2] keepsD [OF this(2) s2]
  show "attr s' ''header'' ''epoch'' = SInt (ev_epoch ev)"
    and "attr s' ''header'' ''sequence_number'' = SInt (ev_sequence ev)"
    by (auto simp: holds_def)
qed

text \<open>So does its session and its task.\<close>

lemma stamp_header_key:
  assumes "stamp_header ev s = (Inr x, s')"
  shows "attr s' ''header'' ''session_id'' = SStr (ev_session_id ev)"
    and "attr s' ''header'' ''task_id'' = SStr (ev_task_id ev)"
proof -
  let ?ms = "[update ''header'' ''turn_id'' (\<lambda>t. s_max t (SInt (ev_turn_id ev))),
      put_when_given ''step_id'' (ev_step_id ev), put_when_given ''request_id'' (ev_request_id ev),
      put_when_given ''attempt_id'' (ev_attempt_id ev),
      put_when_given ''parent_step_id'' (ev_parent_step_id ev),
      put_when_given ''trace_id'' (ev_trace_id ev),
      put ''header'' ''epoch'' (SInt (ev_epoch ev)),
      put ''header'' ''sequence_number'' (SInt (ev_sequence ev)),
      put ''header'' ''updated_at'' (STime (ev_observed_at ev)),
      put ''header'' ''update_source'' (SStr (ev_source ev)),
      update ''header'' ''dirty_fields'' (\<lambda>v.
        case v of
          SSet vs \<Rightarrow> Inr (SSet (remdups (vs @ map (\<lambda>(k, _). SStr k) (ev_payload ev))))
        | _ \<Rightarrow> Inl attribute_error)]"
  have split: "stamp_header ev = st_seq (put ''header'' ''session_id'' (SStr (ev_session_id ev)) #
      put ''header'' ''task_id'' (SStr (ev_task_id ev)) # ?ms)"
    by (simp only: stamp_header_def)
  have keeps: "keeps (holds ''header'' ''session_id'' v) (st_seq ?ms)"
    "keeps (holds ''header'' ''task_id'' v) (st_seq ?ms)" for v
    unfolding put_when_given_def by (intro keeps_rules; simp)+
  let ?s = "set_attr ''header'' ''task_id'' (SStr (ev_task_id ev))
    (set_attr ''header'' ''session_id'' (SStr (ev_session_id ev)) s)"
  from assms have rest: "st_seq ?ms ?s = (Inr x, s')"
    unfolding split by (simp only: st_seq.simps then_returns put_returns) blast
  have "holds ''header'' ''session_id'' (SStr (ev_session_id ev)) ?s"
    "holds ''header'' ''task_id'' (SStr (ev_task_id ev)) ?s" by (simp_all add: holds_def)
  then show "attr s' ''header'' ''session_id'' = SStr (ev_session_id ev)"
    "attr s' ''header'' ''task_id'' = SStr (ev_task_id ev)"
    using keepsD [of "holds ''header'' ''session_id'' (SStr (ev_session_id ev))" "st_seq ?ms", OF keeps(1) rest]
      keepsD [of "holds ''header'' ''task_id'' (SStr (ev_task_id ev))" "st_seq ?ms", OF keeps(2) rest]
    by (simp_all add: holds_def)
qed

text \<open>A decision that is recorded keeps the epoch in the header and raises the sequence number by one.\<close>

lemma keeps_history [keeps_rules]:
  "(sec, x) \<noteq> (''scheduling'', ''routing_history'') \<Longrightarrow> keeps (holds sec x v) (put_history name w)"
  unfolding put_history_def by (rule keeps_update)

lemma keeps_history_attr [keeps_rules]: "keeps P (history_attr name)"
  unfolding history_attr_def by (rule keeps_read)

definition ends_with :: "('s, unit) st \<Rightarrow> (('s, unit) st \<Rightarrow> bool) \<Rightarrow> ('s, unit) st \<Rightarrow> bool" where
  "ends_with final K m \<longleftrightarrow> (\<exists>before. m = st_then before final \<and> K before)"

lemma ends_with_last: "K (st_seq []) \<Longrightarrow> ends_with final K (st_seq [final])"
  unfolding ends_with_def
  by (rule exI [of _ "st_seq []"], rule conjI, rule ext)
    (simp_all add: st_then_def st_bind_def st_return_def split: prod.splits sum.splits)

lemma ends_with_Cons:
  assumes "ends_with final K (st_seq ms)" "\<And>before. K before \<Longrightarrow> K (st_then m before)"
  shows "ends_with final K (st_seq (m # ms))"
proof -
  from assms(1) obtain before where b: "st_seq ms = st_then before final" "K before"
    unfolding ends_with_def by blast
  have "st_seq (m # ms) = st_then (st_then m before) final"
    by (rule ext) (simp add: b(1) st_then_def st_bind_def split: prod.splits sum.splits)
  with b(2) assms(2) show ?thesis unfolding ends_with_def by blast
qed

abbreviation keeps_header :: "(agent_state, 'a) st \<Rightarrow> bool" where
  "keeps_header m \<equiv> \<forall>name v. keeps (holds ''header'' name v) m"

lemma ends_with_keeps:
  "ends_with final keeps_header (st_seq ms) \<Longrightarrow> keeps_header m \<Longrightarrow> ends_with final keeps_header (st_seq (m # ms))"
  by (rule ends_with_Cons) (auto intro: keeps_rules)

lemma ends_with_keeps_last: "ends_with final keeps_header (st_seq [final])"
  by (rule ends_with_last) (auto intro: keeps_rules)

lemma apply_decision_header:
  assumes "apply_decision to_dict view d s = (Inr x, s')"
  shows "attr s' ''header'' ''epoch'' = attr s ''header'' ''epoch''"
    and "attr s ''header'' ''sequence_number'' = SInt n \<Longrightarrow> attr s' ''header'' ''sequence_number'' = SInt (n + 1)"
proof -
  let ?last = "update ''header'' ''sequence_number'' (\<lambda>n. s_add n (SInt 1))"
  have "ends_with ?last keeps_header (apply_decision to_dict view d)"
    unfolding apply_decision_def Let_def
    by ((rule ends_with_keeps_last | rule ends_with_keeps)+; (intro allI keeps_rules; simp))
  then obtain before :: "(agent_state, unit) st" where split: "apply_decision to_dict view d = st_then before ?last"
    and "keeps_header before"
    unfolding ends_with_def by blast
  then have keeps: "keeps (holds ''header'' name v) before" for name v by simp
  from assms obtain y s1 where s1: "before s = (Inr y, s1)" and s': "?last s1 = (Inr x, s')"
    unfolding split then_returns by blast
  have same: "attr s1 ''header'' name = attr s ''header'' name" for name
    using keepsD [OF keeps s1, of name "attr s ''header'' name"] by (simp add: holds_def)
  from s' obtain w where w: "s_add (attr s1 ''header'' ''sequence_number'') (SInt 1) = Inr w"
    "s' = set_attr ''header'' ''sequence_number'' w s1"
    by (auto simp: update_def st_bind_def st_read_def put_returns split: sum.splits)
  then show "attr s' ''header'' ''epoch'' = attr s ''header'' ''epoch''" by (simp add: same)
  show "attr s ''header'' ''sequence_number'' = SInt n \<Longrightarrow> attr s' ''header'' ''sequence_number'' = SInt (n + 1)"
    using w by (simp add: same s_add_def)
qed

section \<open>The order of the log\<close>

definition event_order :: "agent_event \<Rightarrow> int \<times> int" where
  "event_order ev = (ev_epoch ev, ev_sequence ev)"

lemma order_less_trans: "order_less a b \<Longrightarrow> order_less b c \<Longrightarrow> order_less a c"
  by (auto simp: order_less_def)

lemma order_less_irrefl [simp]: "\<not> order_less a a"
  by (simp add: order_less_def)

lemma order_less_linear: "order_less a b \<or> a = b \<or> order_less b a"
  by (auto simp: order_less_def prod_eq_iff)

lemma event_key_sequenced [simp]: "event_key (sequenced st ev) = event_key ev"
  by (simp add: sequenced_def event_key_def Let_def split: prod.split)

lemma sequenced_given: "0 < ev_sequence ev \<Longrightarrow> sequenced st ev = ev"
  by (simp add: sequenced_def Let_def split: prod.split)

text \<open>What a step changes of the order and the log.\<close>

lemma append_event_cases:
  obtains (refused) b where "append_event repr now fresh st ev = (Inr (refused st (sequenced st ev) b), st)"
      "\<not> order_less (last_order st (event_key ev)) (event_order (sequenced st ev))"
      "b \<longleftrightarrow> event_order (sequenced st ev) = last_order st (event_key ev)"
    | (raised) e s where "append_event repr now fresh st ev =
        (Inl e, st\<lparr>st_states := dict_set (st_states st) (event_key ev) s\<rparr>)"
      "order_less (last_order st (event_key ev)) (event_order (sequenced st ev))"
      "st_then (apply_event repr (sequenced st ev)) (stamp_header (sequenced st ev))
         (case dict_get (st_states st) (event_key ev) of
            Some x \<Rightarrow> x
          | None \<Rightarrow> new_agent_state now fresh (ev_session_id (sequenced st ev)) (ev_task_id (sequenced st ev))
                       ''default'' ''generic-proxy'') = (Inl e, s)"
    | (accepted) r s where "append_event repr now fresh st ev = (Inr r,
        \<lparr>st_states = dict_set (st_states st) (event_key ev) s,
         st_last_order = dict_set (st_last_order st) (event_key ev) (event_order (sequenced st ev)),
         st_events = st_events st @ [sequenced st ev]\<rparr>)"
      "order_less (last_order st (event_key ev)) (event_order (sequenced st ev))"
      "ar_accepted r" "ar_state_version r = SInt (ev_sequence (sequenced st ev))"
      "attr s ''header'' ''epoch'' = SInt (ev_epoch (sequenced st ev))"
      "attr s ''header'' ''sequence_number'' = SInt (ev_sequence (sequenced st ev))"
      "st_then (apply_event repr (sequenced st ev)) (stamp_header (sequenced st ev))
         (case dict_get (st_states st) (event_key ev) of
            Some x \<Rightarrow> x
          | None \<Rightarrow> new_agent_state now fresh (ev_session_id (sequenced st ev)) (ev_task_id (sequenced st ev))
                       ''default'' ''generic-proxy'') = (Inr (), s)"
proof -
  let ?ev = "sequenced st ev" and ?previous = "last_order st (event_key ev)"
  let ?s = "case dict_get (st_states st) (event_key ev) of
      Some x \<Rightarrow> x
    | None \<Rightarrow> new_agent_state now fresh (ev_session_id ?ev) (ev_task_id ?ev) ''default'' ''generic-proxy''"
  consider "event_order ?ev = ?previous" | "order_less (event_order ?ev) ?previous" "event_order ?ev \<noteq> ?previous"
    | "order_less ?previous (event_order ?ev)" "\<not> order_less (event_order ?ev) ?previous" "event_order ?ev \<noteq> ?previous"
    using order_less_linear order_less_trans order_less_irrefl by metis
  then show thesis
  proof cases
    case 1
    then show thesis
      by (intro refused [where b = True]) (simp_all add: append_event_def Let_def event_order_def)
  next
    case 2
    moreover from 2 have "\<not> order_less ?previous (event_order ?ev)"
      using order_less_trans order_less_irrefl by metis
    ultimately show thesis
      by (intro refused [where b = False]) (simp_all add: append_event_def Let_def event_order_def)
  next
    case 3
    show thesis
    proof (cases "st_then (apply_event repr ?ev) (stamp_header ?ev) ?s")
      case (Pair r s')
      show thesis
      proof (cases r)
        case (Inl e)
        with Pair 3 show thesis
          by (intro raised [where e = e and s = s']) (simp_all add: append_event_def Let_def event_order_def)
      next
        case (Inr x)
        with Pair obtain s1 where "stamp_header ?ev s1 = (Inr x, s')" by (auto simp: then_returns)
        note header = stamp_header_order [OF this]
        show thesis
          by (rule accepted [of "\<lparr>ar_accepted = True, ar_duplicate = False, ar_stale = False,
                ar_state_id = attr s' ''header'' ''state_id'',
                ar_state_version = attr s' ''header'' ''sequence_number'', ar_reason = ''accepted''\<rparr>",
                OF _ 3(1) _ _ header])
            (use Pair Inr 3 header in \<open>simp_all add: append_event_def Let_def event_order_def\<close>)
      qed
    qed
  qed
qed

lemma record_routing_decision_cases:
  obtains (raised) e s where "record_routing_decision to_dict now fresh st view d =
        (Inl e, st\<lparr>st_states := dict_set (st_states st) (hv_session_id view, hv_task_id view) s\<rparr>)"
    | (recorded) r s e n where "record_routing_decision to_dict now fresh st view d =
        (r, st\<lparr>st_states := dict_set (st_states st) (hv_session_id view, hv_task_id view) s,
              st_last_order := dict_set (st_last_order st) (hv_session_id view, hv_task_id view) (e, n)\<rparr>)"
      "\<And>s0. (case dict_get (st_states st) (hv_session_id view, hv_task_id view) of
          Some x \<Rightarrow> x
        | None \<Rightarrow> new_agent_state now fresh (hv_session_id view) (hv_task_id view)
                     (hv_tenant_id view) ''generic-proxy'') = s0 \<Longrightarrow>
        attr s0 ''header'' ''epoch'' = SInt e \<and>
        (\<forall>m. attr s0 ''header'' ''sequence_number'' = SInt m \<longrightarrow> n = m + 1)"
proof -
  let ?key = "(hv_session_id view, hv_task_id view)"
  let ?s = "case dict_get (st_states st) ?key of
      Some x \<Rightarrow> x
    | None \<Rightarrow> new_agent_state now fresh (hv_session_id view) (hv_task_id view) (hv_tenant_id view) ''generic-proxy''"
  obtain r1 s1 where s1: "apply_decision to_dict view d ?s = (r1, s1)" by fastforce
  show thesis
  proof (cases r1)
    case (Inl e)
    with s1 show thesis by (intro raised [of e s1]) (simp add: record_routing_decision_def Let_def)
  next
    case (Inr x)
    note header = apply_decision_header [OF s1 [unfolded Inr]]
    let ?order = "res_bind (as_int (attr s1 ''header'' ''epoch'')) (\<lambda>e.
        res_bind (as_int (attr s1 ''header'' ''sequence_number'')) (\<lambda>n. Inr (e, n)))"
    show thesis
    proof (cases ?order)
      case (Inl e)
      with s1 Inr show thesis by (intro raised [of e s1]) (simp add: record_routing_decision_def Let_def)
    next
      case (Inr order)
      then obtain e n where e: "attr s1 ''header'' ''epoch'' = SInt e"
        and n: "attr s1 ''header'' ''sequence_number'' = SInt n" and order: "order = (e, n)"
        by (auto simp: as_int_def untyped_def res_bind_Inr_iff split: sval.splits)
      obtain r2 s2 where "stamp_decision d s1 = (r2, s2)" by fastforce
      with s1 \<open>r1 = Inr x\<close> Inr order
      have eq: "record_routing_decision to_dict now fresh st view d =
          (r2, st\<lparr>st_states := dict_set (st_states st) ?key s2, st_last_order := dict_set (st_last_order st) ?key (e, n)\<rparr>)"
        by (simp add: record_routing_decision_def Let_def)
      show thesis by (rule recorded [OF eq]) (use header e n in auto)
    qed
  qed
qed

text \<open>
  The header of a session is not behind the order tracked for it, so that the version a routing decision
  reserves is a later one. An accepted event leaves it so; a patch of the header that raises afterwards
  need not.
\<close>

definition header_not_behind :: "state_store \<Rightarrow> state_key \<Rightarrow> bool" where
  "header_not_behind st key \<longleftrightarrow>
     (case dict_get (st_states st) key of
        None \<Rightarrow> True
      | Some s \<Rightarrow> (\<exists>n. attr s ''header'' ''sequence_number'' = SInt n \<and>
          (\<forall>e. attr s ''header'' ''epoch'' = SInt e \<longrightarrow> order_less (last_order st key) (e, n + 1))))"

inductive store_step :: "state_store \<Rightarrow> state_store \<Rightarrow> bool" where
  append: "store_step st (snd (append_event repr now fresh st ev))"
| create: "store_step st (snd (get_or_create now fresh st session_id task_id tenant_id harness_type))"
| decide: "header_not_behind st (hv_session_id view, hv_task_id view) \<Longrightarrow>
    store_step st (snd (record_routing_decision to_dict now fresh st view d))"

inductive store_reachable :: "state_store \<Rightarrow> bool" where
  start: "store_reachable empty_store"
| step: "store_reachable st \<Longrightarrow> store_step st st' \<Longrightarrow> store_reachable st'"

definition log_inv :: "state_store \<Rightarrow> bool" where
  "log_inv st \<longleftrightarrow>
     (\<forall>key. sorted_wrt order_less (map event_order (filter (\<lambda>ev. event_key ev = key) (st_events st)))) \<and>
     (\<forall>ev \<in> set (st_events st). \<not> order_less (last_order st (event_key ev)) (event_order ev)) \<and>
     (\<forall>key. dict_get (st_states st) key = None \<longrightarrow> last_order st key = (-1, -1))"

lemma last_order_set:
  "last_order (st\<lparr>st_states := d, st_last_order := dict_set (st_last_order st) key v\<rparr>) key' =
     (if key' = key then v else last_order st key')"
  by (simp add: last_order_def dict_get_or_def)

lemma log_inv_states:
  assumes "log_inv st"
  shows "log_inv (st\<lparr>st_states := dict_set (st_states st) key s\<rparr>)"
  using assms by (auto simp: log_inv_def last_order_def split: if_splits)

lemma order_not_less_trans: "\<not> order_less b a \<Longrightarrow> order_less b c \<Longrightarrow> order_less a c"
  using order_less_linear order_less_trans by metis

lemma order_less_asym: "order_less a b \<Longrightarrow> \<not> order_less b a"
  by (auto simp: order_less_def)

lemma log_inv_advance:
  assumes "log_inv st" "order_less (last_order st key) v"
  shows "log_inv (st\<lparr>st_states := dict_set (st_states st) key s, st_last_order := dict_set (st_last_order st) key v\<rparr>)"
  using assms unfolding log_inv_def
  by (auto simp: last_order_set split: if_splits) (metis order_less_trans)

lemma log_inv_accept:
  assumes inv: "log_inv st" and less: "order_less (last_order st (event_key ev)) (event_order ev)"
  shows "log_inv \<lparr>st_states = dict_set (st_states st) (event_key ev) s,
     st_last_order = dict_set (st_last_order st) (event_key ev) (event_order ev), st_events = st_events st @ [ev]\<rparr>"
proof -
  have lo: "last_order \<lparr>st_states = d, st_last_order = dict_set (st_last_order st) (event_key ev) (event_order ev), st_events = es\<rparr> key
      = (if key = event_key ev then event_order ev else last_order st key)" for d es key
    by (simp add: last_order_def dict_get_or_def)
  have below: "order_less (event_order x) (event_order ev)" if "x \<in> set (st_events st)" "event_key x = event_key ev" for x
    using inv that less order_not_less_trans unfolding log_inv_def by metis
  then show ?thesis
    using inv unfolding log_inv_def
    by (auto simp: lo sorted_wrt_append dest: order_less_asym split: if_splits)
qed

lemma blank_state_header:
  "attr (blank_agent_state now fresh) ''header'' ''epoch'' = SInt 0"
  "attr (blank_agent_state now fresh) ''header'' ''sequence_number'' = SInt 0"
  by (simp_all add: attr_def section_attrs_def blank_agent_state_def agent_schema_def
      default_attrs_def state_header_fields_def dict_get_or_def)

lemma new_state_header:
  "attr (new_agent_state now fresh session_id task_id tenant_id harness_type) ''header'' ''epoch'' = SInt 0"
  "attr (new_agent_state now fresh session_id task_id tenant_id harness_type) ''header'' ''sequence_number'' = SInt 0"
  by (simp_all add: new_agent_state_def blank_state_header)

lemma store_step_inv:
  assumes "store_step st st'" "log_inv st"
  shows "log_inv st'"
  using assms(1)
proof cases
  case (append repr now fresh ev)
  show ?thesis
  proof (cases rule: append_event_cases [of repr now fresh st ev])
    case accepted
    with append log_inv_accept [OF assms(2), of "sequenced st ev"] show ?thesis by simp
  qed (use append assms(2) log_inv_states in auto)
next
  case (create now fresh session_id task_id tenant_id harness_type)
  then show ?thesis using assms(2) log_inv_states
    by (auto simp: get_or_create_def Let_def split: option.splits)
next
  case (decide view to_dict now fresh d)
  let ?key = "(hv_session_id view, hv_task_id view)"
  show ?thesis
  proof (cases rule: record_routing_decision_cases [of to_dict now fresh st view d])
    case (raised e s)
    with decide assms(2) log_inv_states show ?thesis by auto
  next
    case (recorded r s e n)
    have "order_less (last_order st ?key) (e, n)"
    proof (cases "dict_get (st_states st) ?key")
      case None
      with assms(2) have "last_order st ?key = (-1, -1)" by (simp add: log_inv_def)
      moreover have "e = 0" "n = 1" using recorded(2) [OF refl] None by (simp_all add: new_state_header)
      ultimately show ?thesis by (simp add: order_less_def)
    next
      case (Some s0)
      with recorded(2) [OF refl] decide(2) show ?thesis by (auto simp: header_not_behind_def)
    qed
    with log_inv_advance [OF assms(2)] decide(1) recorded(1) show ?thesis by simp
  qed
qed

lemma store_reachable_inv: "store_reachable st \<Longrightarrow> log_inv st"
proof (induction rule: store_reachable.induct)
  case start
  show ?case by (simp add: log_inv_def empty_store_def last_order_def dict_get_or_def)
next
  case (step st st')
  then show ?case using store_step_inv by blast
qed

section \<open>Properties\<close>

text \<open>C5: However events are appended, states created and routing decisions recorded, raising operations
  included, the event log of every session and task stays strictly ordered by epoch and sequence number;
  an event that is already in the log is refused when it is sent again and changes nothing; and an event
  that is accepted reports its sequence number as the version of the state and leaves the header where a
  routing decision can reserve the next version. A decision is only recorded for a session whose header
  is not behind its order.\<close>

theorem store_log_ordered:
  assumes "store_reachable st"
  shows "sorted_wrt order_less (map event_order (events_for st session_id task_id)) \<and>
    (\<forall>ev \<in> set (st_events st). 0 < ev_sequence ev \<longrightarrow>
      (\<exists>r. append_event repr now fresh st ev = (Inr r, st) \<and> \<not> ar_accepted r)) \<and>
    (\<forall>ev r st'. append_event repr now fresh st ev = (Inr r, st') \<and> ar_accepted r \<longrightarrow>
      ar_state_version r = SInt (ev_sequence (sequenced st ev)) \<and> header_not_behind st' (event_key ev) \<and>
      st_events st' = st_events st @ [sequenced st ev])"
proof (intro conjI ballI allI impI)
  note inv = store_reachable_inv [OF assms]
  then show "sorted_wrt order_less (map event_order (events_for st session_id task_id))"
    by (simp add: log_inv_def events_for_def)
  show "\<exists>r. append_event repr now fresh st ev = (Inr r, st) \<and> \<not> ar_accepted r"
    if "ev \<in> set (st_events st)" "0 < ev_sequence ev" for ev
  proof (cases rule: append_event_cases [of repr now fresh st ev])
    case (refused b)
    then show ?thesis by (auto simp: refused_def Let_def)
  qed (use inv that in \<open>auto simp: log_inv_def sequenced_given\<close>)
  fix ev r st'
  assume "append_event repr now fresh st ev = (Inr r, st') \<and> ar_accepted r"
  then obtain s where "st' = \<lparr>st_states = dict_set (st_states st) (event_key ev) s,
      st_last_order = dict_set (st_last_order st) (event_key ev) (event_order (sequenced st ev)),
      st_events = st_events st @ [sequenced st ev]\<rparr>"
    "ar_state_version r = SInt (ev_sequence (sequenced st ev))"
    "attr s ''header'' ''epoch'' = SInt (ev_epoch (sequenced st ev))"
    "attr s ''header'' ''sequence_number'' = SInt (ev_sequence (sequenced st ev))"
    by (cases rule: append_event_cases [of repr now fresh st ev]) (auto simp: refused_def Let_def)
  then show "ar_state_version r = SInt (ev_sequence (sequenced st ev))"
    "header_not_behind st' (event_key ev)" "st_events st' = st_events st @ [sequenced st ev]"
    by (simp_all add: header_not_behind_def last_order_def dict_get_or_def order_less_def event_order_def)
qed

section \<open>Witnesses\<close>

definition example_event :: "int \<Rightarrow> agent_event" where
  "example_event sequence = (new_agent_event ''MODEL_DECODE'' ''s'' ''t'' (utc 5))\<lparr>ev_sequence := sequence\<rparr>"

definition example_store :: state_store where
  "example_store = snd (append_event (\<lambda>_. []) (utc 0) ''f'' empty_store (example_event 1))"

lemma example_store_reachable: "store_reachable example_store"
  unfolding example_store_def by (rule store_reachable.step [OF store_reachable.start store_step.append])

lemma attr_mark_field [simp]: "attr (mark_field ev path s) = attr s"
  by (simp add: fun_eq_iff attr_def section_attrs_def mark_field_def)

lemma blank_state_attrs:
  "attr (blank_agent_state now fresh) ''header'' ''turn_id'' = SInt 0"
  "attr (blank_agent_state now fresh) ''header'' ''dirty_fields'' = SSet []"
  by (simp_all add: attr_def section_attrs_def blank_agent_state_def agent_schema_def
      default_attrs_def state_header_fields_def dict_get_or_def)

lemma example_store_events: "st_events example_store = [example_event 1]"
proof -
  let ?ev = "example_event 1" and ?s = "new_agent_state (utc 0) ''f'' ''s'' ''t'' ''default'' ''generic-proxy''"
  have ev: "ev_payload ?ev = []" "str_upper (ev_event_type ?ev) = ''MODEL_DECODE''" "event_key ?ev = (''s'', ''t'')"
    "ev_session_id ?ev = ''s''" "ev_task_id ?ev = ''t''" "ev_epoch ?ev = 0" "ev_sequence ?ev = 1" "ev_turn_id ?ev = 0"
    by (simp_all add: example_event_def new_agent_event_def str_upper_def event_key_def upper_char_def)
  have "apply_identity (\<lambda>_. []) ?ev (SDict []) = st_return ()"
    by (simp add: apply_identity_def identity_patch_def identity_keys_def st_when_def)
  then have "fst (st_then (apply_event (\<lambda>_. []) ?ev) (stamp_header ?ev) ?s) = Inr ()"
    by (simp add: apply_event_def Let_def ev dict_get_or_def stamp_header_def put_when_given_def st_then_def st_bind_def st_return_def
        st_when_def put_returns update_def look_def st_read_def set_phase_def set_runnable_def mark_def st_write_def
        new_agent_state_def blank_state_attrs s_max_def s_lt_def)
  then show ?thesis
    by (auto simp: example_store_def append_event_def sequenced_given ev Let_def empty_store_def last_order_def
        dict_get_or_def order_less_def split: prod.splits)
qed

theorem store_log_ordered_witness:
  "sorted_wrt order_less (map event_order (events_for example_store ''s'' ''t'')) \<and>
   (\<exists>r. append_event (\<lambda>_. []) (utc 0) ''f'' example_store (example_event 1) = (Inr r, example_store) \<and>
     \<not> ar_accepted r)"
  using store_log_ordered [OF example_store_reachable, of "''s''" "''t''" "\<lambda>_. []" "utc 0" "''f''"]
  by (simp add: example_store_events example_event_def)

end
