(* ===== verification/SF_Gateway_Security.thy ===== *)
theory SF_Gateway_Security
  imports SF_Gateway SF_Store_Order
begin

text \<open>
  How the security restrictions of a request reach the scheduling view: the event of the request is
  accepted, its security patch overwrites the restrictions of the session, nothing after it touches
  them, and the view reads them.
\<close>

section \<open>Attributes an operation does not touch\<close>

definition has :: "string \<Rightarrow> string \<Rightarrow> sval \<Rightarrow> agent_state \<Rightarrow> bool" where
  "has sec name v s \<longleftrightarrow> dict_get (section_attrs s sec) name = Some v"

lemma has_attr: "has sec name v s \<Longrightarrow> attr s sec name = v"
  by (simp add: has_def attr_def dict_get_or_def)

lemma has_set_attr:
  "has sec name v (set_attr sec' name' w s) \<longleftrightarrow>
     (if sec = sec' \<and> name = name' then v = w else has sec name v s)"
  by (auto simp: has_def set_attr_def section_attrs_def dict_get_or_def)

lemma keeps_write [keeps_rules]: "(\<And>s. P s \<Longrightarrow> P (f s)) \<Longrightarrow> keeps P (st_write f)"
  by (simp add: keeps_def st_write_def)

lemma keeps_has_put [keeps_rules]:
  "(sec, name) \<noteq> (sec', name') \<Longrightarrow> keeps (has sec name v) (put sec' name' w)"
  unfolding put_def by (rule keeps_write) (auto simp: has_set_attr)

lemma keeps_has_update [keeps_rules]:
  "(sec, name) \<noteq> (sec', name') \<Longrightarrow> keeps (has sec name v) (update sec' name' f)"
  unfolding update_def by (intro keeps_rules)

lemma has_mark: "has sec name v (mark_field ev path s) \<longleftrightarrow> has sec name v s"
  by (simp add: has_def mark_field_def section_attrs_def)

lemma keeps_has_mark [keeps_rules]: "keeps (has sec name v) (mark ev path)"
  unfolding mark_def by (rule keeps_write) (simp add: has_mark)

lemma keeps_look [keeps_rules]: "keeps P (look sec name)"
  unfolding look_def by (rule keeps_read)

lemma keeps_each [keeps_rules]: "(\<And>x. x \<in> set xs \<Longrightarrow> keeps P (f x)) \<Longrightarrow> keeps P (st_each f xs)"
  by (induction xs) (auto intro: keeps_rules)

lemma keeps_given [keeps_rules]:
  "(\<And>v. dict_get payload key = Some v \<Longrightarrow> keeps P (f v)) \<Longrightarrow> keeps P (given payload key f)"
  by (auto simp: given_def intro: keeps_return split: option.splits)

lemma keeps_entry:
  assumes "sec \<noteq> sec' \<or> name \<noteq> k"
  shows "keeps (has sec name v) (set_section_entry repr ev sec' (k, w))"
  using assms unfolding set_section_entry_def
  by (auto intro!: keeps_rules split: option.splits)

lemma keeps_section [keeps_rules]:
  assumes "sec \<noteq> sec'" "sec \<noteq> ''context''"
  shows "keeps (has sec name v) (set_section repr ev sec' payload)"
  using assms unfolding set_section_def
  by (auto intro!: keeps_rules keeps_entry split: sval.splits)

lemma keeps_phase [keeps_rules]: "sec \<noteq> ''lifecycle'' \<Longrightarrow> keeps (has sec name v) (set_phase ev phase)"
  unfolding set_phase_def by (intro keeps_rules) auto

lemma keeps_runnable [keeps_rules]: "sec \<noteq> ''lifecycle'' \<Longrightarrow> keeps (has sec name v) (set_runnable b)"
  unfolding set_runnable_def by (intro keeps_rules) auto

lemma keeps_identity:
  "name \<noteq> ''tenant_id'' \<Longrightarrow> keeps (has ''security'' name v) (apply_identity repr ev payload)"
  unfolding apply_identity_def Let_def
  by (auto intro!: keeps_rules split: sval.splits option.splits)

lemma keeps_stamp: "keeps (has ''security'' name v) (stamp_header ev)"
  unfolding stamp_header_def put_when_given_def by (intro keeps_rules) auto

section \<open>A patch of a section\<close>

lemma entry_sets:
  assumes "has sec k old s" "convert_for_field repr old v (sec @ ''.'' @ k) = Inr w" "\<not> str_startswith k ''_''"
  shows "set_section_entry repr ev sec (k, v) s = (Inr (), mark_field ev [sec, k] (set_attr sec k w s))"
  using assms
  by (simp add: has_def set_section_entry_def st_bind_def st_read_def st_then_def put_returns mark_def st_write_def)

lemma entries_set:
  assumes "st_each (set_section_entry repr ev sec) d s = (Inr x, s')" "distinct (map fst d)" "(k, v) \<in> set d"
    and "has sec k old s" "convert_for_field repr old v (sec @ ''.'' @ k) = Inr w" "\<not> str_startswith k ''_''"
  shows "has sec k w s'"
  using assms
proof (induction d arbitrary: s)
  case (Cons e d)
  obtain k' v' where e: "e = (k', v')" by (cases e)
  from Cons.prems(1) obtain y s1 where s1: "set_section_entry repr ev sec (k', v') s = (Inr y, s1)"
    and rest: "st_each (set_section_entry repr ev sec) d s1 = (Inr x, s')"
    by (auto simp: e then_returns)
  show ?case
  proof (cases "k' = k")
    case True
    with Cons.prems(2,3) e have v: "v' = v" by (auto simp: rev_image_eqI)
    have "has sec k w s1"
      using s1 entry_sets [OF Cons.prems(4-6)] by (auto simp: True v has_mark has_set_attr)
    moreover have "keeps (has sec k w) (st_each (set_section_entry repr ev sec) d)"
      using Cons.prems(2) e True by (intro keeps_each) (auto intro!: keeps_entry simp: rev_image_eqI)
    ultimately show ?thesis using keepsD [of "has sec k w" "st_each (set_section_entry repr ev sec) d", OF _ rest] by blast
  next
    case False
    then have "has sec k old s1" using keepsD [OF keeps_entry s1 Cons.prems(4)] by simp
    with Cons.IH [OF rest] Cons.prems e False show ?thesis by auto
  qed
qed simp

section \<open>The security patch of a request\<close>

definition security_patch :: "neutral_request \<Rightarrow> (string, sval) dict" where
  "security_patch r =
     [(''tenant_id'', SStr (nr_tenant_id r)), (''security_domain'', SStr (nr_security_domain r)),
      (''allowed_models'', SList (map SStr (sort (nr_allowed_models r)))),
      (''allowed_regions'', SList (map SStr (sort (nr_allowed_regions r)))),
      (''allowed_cache_domains'', SList (map SStr (sort (nr_allowed_cache_domains r)))),
      (''remote_kv_allowed'', SBool (nr_remote_kv_allowed r))]"

definition request_payload :: "neutral_request \<Rightarrow> (string, sval) dict" where
  "request_payload r = map (\<lambda>(k, v). (k, of_py v)) (to_state_payload r)"

lemma request_payload_security: "dict_get (request_payload r) ''security'' = Some (SDict (security_patch r))"
  by (simp add: request_payload_def to_state_payload_def security_patch_def sorted_names_def)

text \<open>The session's restrictions have their declared types.\<close>

definition restrictions_typed :: "agent_state \<Rightarrow> bool" where
  "restrictions_typed s \<longleftrightarrow>
     (\<exists>d. has ''security'' ''security_domain'' (SStr d) s) \<and>
     (\<forall>name \<in> {''allowed_models'', ''allowed_regions'', ''allowed_cache_domains''}.
        \<exists>vs. has ''security'' name (SSet vs) s)"

definition names_value :: "string list \<Rightarrow> sval" where
  "names_value xs = SSet (remdups (map SStr (sort xs)))"

definition restricted :: "neutral_request \<Rightarrow> agent_state \<Rightarrow> bool" where
  "restricted r s \<longleftrightarrow>
     has ''security'' ''security_domain'' (SStr (nr_security_domain r)) s \<and>
     has ''security'' ''allowed_models'' (names_value (nr_allowed_models r)) s \<and>
     has ''security'' ''allowed_regions'' (names_value (nr_allowed_regions r)) s \<and>
     has ''security'' ''allowed_cache_domains'' (names_value (nr_allowed_cache_domains r)) s"

lemma convert_names:
  "convert_for_field repr (SSet vs) (SList (map SStr (sort xs))) name = Inr (names_value xs)"
  by (cases "xs = []")
    (simp_all add: convert_for_field_def s_set_def s_or_def names_value_def list_all_iff)

lemma patch_restricts:
  assumes "set_section repr ev ''security'' (SDict (security_patch r)) s = (Inr x, s')" "restrictions_typed s"
  shows "restricted r s'"
proof -
  have run: "st_each (set_section_entry repr ev ''security'') (security_patch r) s = (Inr (), s')"
    using assms(1) by (auto simp: set_section_def then_returns st_when_def st_return_def)
  have d: "distinct (map fst (security_patch r))" by (simp add: security_patch_def)
  note sets = entries_set [OF run d]
  from assms(2) obtain dom ms rs cs where
    old: "has ''security'' ''security_domain'' (SStr dom) s" "has ''security'' ''allowed_models'' (SSet ms) s"
      "has ''security'' ''allowed_regions'' (SSet rs) s" "has ''security'' ''allowed_cache_domains'' (SSet cs) s"
    by (auto simp: restrictions_typed_def)
  show ?thesis unfolding restricted_def
  proof (intro conjI)
    show "has ''security'' ''security_domain'' (SStr (nr_security_domain r)) s'"
      by (rule sets [OF _ old(1)]) (simp_all add: security_patch_def convert_for_field_def str_startswith_def)
    show "has ''security'' ''allowed_models'' (names_value (nr_allowed_models r)) s'"
      by (rule sets [OF _ old(2) convert_names]) (simp_all add: security_patch_def str_startswith_def)
    show "has ''security'' ''allowed_regions'' (names_value (nr_allowed_regions r)) s'"
      by (rule sets [OF _ old(3) convert_names]) (simp_all add: security_patch_def str_startswith_def)
    show "has ''security'' ''allowed_cache_domains'' (names_value (nr_allowed_cache_domains r)) s'"
      by (rule sets [OF _ old(4) convert_names]) (simp_all add: security_patch_def str_startswith_def)
  qed
qed

text \<open>Everything else of the handler of a model request leaves the restrictions alone.\<close>

definition keeps_restrictions :: "(agent_state, 'a) st \<Rightarrow> bool" where
  "keeps_restrictions m \<longleftrightarrow> (\<forall>name v. name \<noteq> ''tenant_id'' \<longrightarrow> keeps (has ''security'' name v) m)"

lemma keeps_restrictionsD:
  "keeps_restrictions m \<Longrightarrow> name \<noteq> ''tenant_id'' \<Longrightarrow> m s = (x, s') \<Longrightarrow> has ''security'' name v s \<Longrightarrow>
     has ''security'' name v s'"
  unfolding keeps_restrictions_def keeps_def by (metis snd_conv)

lemma keeps_typed:
  assumes "keeps_restrictions m" "m s = (x, s')" "restrictions_typed s"
  shows "restrictions_typed s'"
proof -
  note keep = keeps_restrictionsD [OF assms(1) _ assms(2)]
  have "''security_domain'' \<noteq> ''tenant_id''"
    "name \<in> {''allowed_models'', ''allowed_regions'', ''allowed_cache_domains''} \<Longrightarrow> name \<noteq> ''tenant_id''" for name
    by auto
  with assms(3) keep show ?thesis unfolding restrictions_typed_def by metis
qed

lemma keeps_restricted:
  assumes "keeps_restrictions m" "m s = (x, s')" "restricted r s"
  shows "restricted r s'"
proof -
  note keep = keeps_restrictionsD [OF assms(1) _ assms(2)]
  from assms(3) show ?thesis
    unfolding restricted_def by (elim conjE) (intro conjI; rule keep; (assumption | simp))
qed

lemma model_request_restricts:
  assumes "apply_model_request repr ev payload s = (Inr x, s')" "restrictions_typed s"
    and "dict_get payload ''security'' = Some (SDict (security_patch r))"
  shows "restricted r s'"
proof -
  let ?before = "[set_phase ev ''MODEL_QUEUED'', set_runnable True,
      st_when (ev_step_id ev \<noteq> []) (put ''lifecycle'' ''current_step'' (SStr (ev_step_id ev))),
      st_bind (look ''model'' ''logical_model'') (\<lambda>current.
        let model = s_or (s_or (s_get payload ''logical_model'' SNone) (s_get payload ''model'' SNone)) current in
        st_when (s_truthy model) (st_then
          (put ''model'' ''logical_model'' (SStr (s_str repr model))) (mark ev [''model'', ''logical_model'']))),
      given payload ''prompt_tokens'' (\<lambda>v. raising_step (natural_of v) (\<lambda>tokens. st_seq
        [put ''model'' ''prompt_tokens'' tokens, put ''context'' ''prompt_tokens'' tokens,
         update ''context'' ''total_tokens'' (\<lambda>t. s_max t tokens)])),
      given payload ''predicted_output_tokens'' (\<lambda>v. raising_step (natural_of v)
        (put ''model'' ''predicted_output_tokens'')),
      given payload ''context'' (set_section repr ev ''context''),
      given payload ''required_capabilities'' (\<lambda>v. raising_step (s_set v)
        (put ''identity'' ''required_capabilities''))]"
  let ?patch = "set_section repr ev ''security'' (SDict (security_patch r))"
  let ?after = "[given payload ''inference'' (set_section repr ev ''inference''),
      given payload ''qos'' (set_section repr ev ''qos''),
      mark ev [''model''], mark ev [''context'', ''prompt_tokens''], mark ev [''lifecycle'']]"
  have g: "given payload ''security'' (set_section repr ev ''security'') = ?patch"
    using assms(3) by (simp add: given_def)
  have "apply_model_request repr ev payload = st_seq (?before @ ?patch # ?after)"
    by (simp only: apply_model_request_def g append.simps)
  then have "apply_model_request repr ev payload = st_then (st_seq ?before) (st_then ?patch (st_seq ?after))"
    by (simp only: seq_append st_seq.simps(2))
  with assms(1) obtain y s1 z s2 where s1: "st_seq ?before s = (Inr y, s1)"
    and s2: "?patch s1 = (Inr z, s2)" and s': "st_seq ?after s2 = (Inr x, s')"
    by (auto simp only: then_returns)
  have "keeps_restrictions (st_seq ?before)" "keeps_restrictions (st_seq ?after)"
    unfolding keeps_restrictions_def Let_def by (intro allI impI keeps_rules; simp)+
  note keep = this
  have "restrictions_typed s1" by (rule keeps_typed [of "st_seq ?before" s "Inr y"]) (fact keep s1 assms(2))+
  with s2 have "restricted r s2" by (rule patch_restricts)
  show ?thesis by (rule keeps_restricted [of "st_seq ?after" s2 "Inr x"]) (fact keep s' \<open>restricted r s2\<close>)+
qed

lemma request_event_restricts:
  assumes "st_then (apply_event repr ev) (stamp_header ev) s = (Inr x, s')" "restrictions_typed s"
    and "ev_event_type ev = ''MODEL_REQUESTED''" "ev_payload ev = request_payload r"
  shows "restricted r s'"
proof -
  let ?identity = "apply_identity repr ev (s_get (request_payload r) ''identity'' (SDict (request_payload r)))"
  have "str_upper ''MODEL_REQUESTED'' = ''MODEL_REQUESTED''" by code_simp
  then have "apply_event repr ev = st_then ?identity (apply_model_request repr ev (request_payload r))"
    by (simp add: apply_event_def Let_def assms(3,4))
  with assms(1) obtain y s1 z s2 where s1: "?identity s = (Inr y, s1)"
    and s2: "apply_model_request repr ev (request_payload r) s1 = (Inr z, s2)"
    and s': "stamp_header ev s2 = (Inr x, s')"
    by (auto simp only: then_returns)
  have "keeps_restrictions ?identity" "keeps_restrictions (stamp_header ev)"
    by (simp_all add: keeps_restrictions_def keeps_identity keeps_stamp)
  note keep = this
  have "restrictions_typed s1" by (rule keeps_typed [of ?identity s "Inr y"]) (fact keep s1 assms(2))+
  from model_request_restricts [OF s2 this request_payload_security] have "restricted r s2" .
  then show ?thesis by (rule keeps_restricted [of "stamp_header ev" s2 "Inr x", OF keep(2) s'])
qed

section \<open>The view\<close>

lemma remdups_map_text: "remdups (map SStr xs) = map SStr (remdups xs)"
  by (induction xs) auto

lemma res_map_text: "res_map as_text (map SStr xs) = Inr xs"
  by (induction xs) (simp_all add: as_text_def)

lemma as_names_value: "as_names (names_value xs) = Inr (set xs)"
  by (simp add: as_names_def names_value_def remdups_map_text res_map_text)

lemma view_restrictions:
  assumes "build_scheduling_view s now = Inr view"
  shows "as_text (attr s ''security'' ''security_domain'') = Inr (hv_security_domain view) \<and>
    as_names (attr s ''security'' ''allowed_models'') = Inr (hv_allowed_models view) \<and>
    as_names (attr s ''security'' ''allowed_regions'') = Inr (hv_allowed_regions view) \<and>
    as_names (attr s ''security'' ''allowed_cache_domains'') = Inr (hv_allowed_cache_domains view)"
  using assms unfolding build_scheduling_view_def Let_def res_bind_Inr_iff
  by (elim exE conjE) (simp only: sum.inject, hypsubst, simp)

lemma view_key:
  assumes "build_scheduling_view s now = Inr view"
  shows "as_text (attr s ''header'' ''session_id'') = Inr (hv_session_id view)"
    and "as_text (attr s ''header'' ''task_id'') = Inr (hv_task_id view)"
proof -
  have "as_text (attr s ''header'' ''session_id'') = Inr (hv_session_id view) \<and>
      as_text (attr s ''header'' ''task_id'') = Inr (hv_task_id view)"
    using assms unfolding build_scheduling_view_def Let_def res_bind_Inr_iff
    by (elim exE conjE) (simp only: sum.inject, hypsubst, simp)
  then show "as_text (attr s ''header'' ''session_id'') = Inr (hv_session_id view)"
    "as_text (attr s ''header'' ''task_id'') = Inr (hv_task_id view)" by simp_all
qed

lemma view_restricted:
  assumes "build_scheduling_view s now = Inr view" "restricted r s"
  shows "hv_security_domain view = nr_security_domain r" "hv_allowed_models view = set (nr_allowed_models r)"
    "hv_allowed_regions view = set (nr_allowed_regions r)"
    "hv_allowed_cache_domains view = set (nr_allowed_cache_domains r)"
  using view_restrictions [OF assms(1)] assms(2)
  by (auto simp: restricted_def as_names_value as_text_def dest!: has_attr)

end
