(* ===== verification/SF_View_Typing.thy ===== *)
theory SF_View_Typing
  imports SF_Store_Order
begin

text \<open>
  The type invariant of the Agent State store: attributes, sections and tools, new states, and the
  scheduling view of a typed state.
\<close>

chapter \<open>Typed states\<close>

text \<open>
  The type invariant of the state store, part one: rules for operations that return and keep it, in
  the style of a total-correctness logic, and the typing of attributes, sections and tools.
\<close>

section \<open>Typing of attributes\<close>

lemma flat_conforms_conforms: "flat_conforms t v \<Longrightarrow> conforms t v"
  by (cases t) auto

lemma typed_attr:
  assumes "typed_state s" "field_type sec name = Some t"
  shows "conforms t (attr s sec name)"
proof -
  from assms obtain attrs v where "dict_get (as_sections s) sec = Some attrs"
    "dict_get attrs name = Some v" "conforms t v"
    unfolding typed_state_def by blast
  then show ?thesis by (simp add: attr_def section_attrs_def dict_get_or_def)
qed

lemma typed_attr_found:
  assumes "typed_state s" "dict_get (section_attrs s sec) name = Some v"
  shows "v = attr s sec name" "\<exists>t. field_type sec name = Some t"
proof -
  show "v = attr s sec name" using assms(2) by (simp add: attr_def dict_get_or_def)
  have "dict_get (as_sections s) sec = Some (section_attrs s sec)"
    using assms(2) by (auto simp: section_attrs_def dict_get_or_def split: option.splits)
  with assms show "\<exists>t. field_type sec name = Some t" unfolding typed_state_def by fastforce
qed

lemma typed_set_attr:
  assumes "typed_state s" "field_type sec name = Some t" "conforms t v"
  shows "typed_state (set_attr sec name v s)"
proof -
  from assms(1,2) obtain attrs w where sec: "dict_get (as_sections s) sec = Some attrs"
    and w: "dict_get attrs name = Some w" unfolding typed_state_def by blast
  have a: "section_attrs s sec = attrs" using sec by (simp add: section_attrs_def dict_get_or_def)
  show ?thesis
    using assms(1) unfolding typed_state_def
    by (auto simp: set_attr_def a assms(2,3) sec split: if_splits) (metis option.inject sec)+
qed

lemma typed_meta_set:
  "list_all (\<lambda>(_, f). typed_field f) d \<Longrightarrow> typed_field f \<Longrightarrow> list_all (\<lambda>(_, f). typed_field f) (dict_set d k f)"
  by (induction d) auto

lemma typed_set_field_meta:
  "typed_state s \<Longrightarrow> typed_field f \<Longrightarrow> typed_state (s\<lparr>as_field_meta := dict_set (as_field_meta s) name f\<rparr>)"
  by (simp add: typed_state_def typed_meta_set)

lemma typed_mark: "typed_state s \<Longrightarrow> typed_state (mark_field ev path s)"
  unfolding mark_field_def
  by (rule typed_set_field_meta) (simp_all add: typed_field_def event_ttl_def split: option.split)

section \<open>Typing of tools\<close>

lemma field_type_tools: "field_type ''tools'' ''active_tools'' = Some (TObjs ''ToolExecution'')"
  by code_simp

definition tool_count :: "agent_state \<Rightarrow> nat" where
  "tool_count s = (case attr s ''tools'' ''active_tools'' of SList vs \<Rightarrow> length vs | _ \<Rightarrow> 0)"

lemma typed_tools:
  assumes "typed_state s"
  obtains vs where "attr s ''tools'' ''active_tools'' = SList vs" "list_all (flat_object ''ToolExecution'') vs"
    "tool_count s = length vs"
  using typed_attr [OF assms field_type_tools] that
  by (auto simp: tool_count_def split: sval.splits)

lemma typed_tool_at:
  assumes "typed_state s" "i < tool_count s"
  shows "flat_object ''ToolExecution'' (tool_at s i)"
  by (rule typed_tools [OF assms(1)]) (use assms(2) in \<open>simp add: tool_at_def list_all_length\<close>)

lemma flat_object_attr:
  assumes "flat_object cls v" "class_type cls name = Some t"
  obtains x where "s_attr v name = Inr x" "flat_conforms t x"
  using assms by (fastforce simp: flat_object_def s_attr_def split: sval.splits)

lemma flat_object_set:
  assumes "flat_object cls v" "class_type cls name = Some t" "flat_conforms t x"
  obtains w where "s_set_attr v name x = Inr w" "flat_object cls w"
proof (cases v)
  case (SObj c attrs)
  with assms have "flat_object cls (SObj c (dict_set attrs name x))"
    by (auto simp: flat_object_def)
  with SObj show thesis by (intro that) (auto simp: s_set_attr_def)
qed (use assms in \<open>auto simp: flat_object_def\<close>)

section \<open>Operations that return and keep the invariant\<close>

definition inv :: "nat \<Rightarrow> agent_state \<Rightarrow> bool" where
  "inv n s \<longleftrightarrow> typed_state s \<and> n \<le> tool_count s"

definition ok :: "nat \<Rightarrow> (agent_state, 'a) st \<Rightarrow> ('a \<Rightarrow> bool) \<Rightarrow> bool" where
  "ok n m Q \<longleftrightarrow> (\<forall>s. inv n s \<longrightarrow> (\<exists>x s'. m s = (Inr x, s') \<and> inv n s' \<and> Q x))"

abbreviation step_ok :: "nat \<Rightarrow> (agent_state, unit) st \<Rightarrow> bool" where
  "step_ok n m \<equiv> ok n m (\<lambda>_. True)"

named_theorems ok_rules \<comment> \<open>introduction rules for operations that return and keep the type invariant\<close>

lemma ok_weaken: "ok n m Q \<Longrightarrow> (\<And>x. Q x \<Longrightarrow> R x) \<Longrightarrow> ok n m R"
  unfolding ok_def by blast

lemma ok_return [ok_rules]: "Q x \<Longrightarrow> ok n (st_return x) Q"
  by (simp add: ok_def st_return_def)

lemma ok_seq_bind:
  assumes "ok n m R" "\<And>x. R x \<Longrightarrow> ok n (f x) Q"
  shows "ok n (st_bind m f) Q"
  unfolding ok_def
proof (intro allI impI)
  fix s assume "inv n s"
  with assms(1) obtain x s' where "m s = (Inr x, s')" "inv n s'" "R x" unfolding ok_def by blast
  with assms(2) [of x] show "\<exists>x s'. st_bind m f s = (Inr x, s') \<and> inv n s' \<and> Q x"
    by (auto simp: ok_def st_bind_def)
qed

lemma ok_then [ok_rules]: "step_ok n m \<Longrightarrow> ok n m' Q \<Longrightarrow> ok n (st_then m m') Q"
  unfolding st_then_def by (rule ok_seq_bind)

lemma ok_read: "(\<And>s. inv n s \<Longrightarrow> \<exists>x. f s = Inr x \<and> Q x) \<Longrightarrow> ok n (st_read f) Q"
  by (fastforce simp: ok_def st_read_def)

lemma ok_when [ok_rules]: "(b \<Longrightarrow> step_ok n m) \<Longrightarrow> step_ok n (st_when b m)"
  by (simp add: st_when_def ok_return)

lemma ok_if [ok_rules]: "(b \<Longrightarrow> ok n m Q) \<Longrightarrow> (\<not> b \<Longrightarrow> ok n m' Q) \<Longrightarrow> ok n (if b then m else m') Q"
  by simp

lemma ok_each: "(\<And>x. x \<in> set xs \<Longrightarrow> step_ok n (f x)) \<Longrightarrow> step_ok n (st_each f xs)"
  by (induction xs) (auto intro: ok_rules)

lemma ok_seq_Nil [ok_rules]: "step_ok n (st_seq [])"
  by (simp add: ok_return)

lemma ok_seq_Cons [ok_rules]: "step_ok n m \<Longrightarrow> step_ok n (st_seq ms) \<Longrightarrow> step_ok n (st_seq (m # ms))"
  by (simp add: ok_then)

lemma ok_put [ok_rules]:
  assumes "field_type sec name = Some t" "conforms t v" "(sec, name) \<noteq> (''tools'', ''active_tools'')"
  shows "step_ok n (put sec name v)"
  unfolding ok_def inv_def put_def st_write_def
  using assms typed_set_attr [OF _ assms(1,2)] by (auto simp: tool_count_def attr_set_attr)

lemma ok_look: "field_type sec name = Some t \<Longrightarrow> ok n (look sec name) (conforms t)"
  unfolding look_def by (rule ok_read) (auto simp: inv_def typed_attr)

lemma ok_update [ok_rules]:
  assumes "field_type sec name = Some t" "(sec, name) \<noteq> (''tools'', ''active_tools'')"
    and "\<And>v. conforms t v \<Longrightarrow> \<exists>w. f v = Inr w \<and> conforms t w"
  shows "step_ok n (update sec name f)"
  unfolding update_def
  by (rule ok_seq_bind [where R = "conforms t"])
    (use assms in \<open>auto intro!: ok_read ok_put simp: inv_def typed_attr\<close>)

lemma ok_mark [ok_rules]: "step_ok n (mark ev path)"
proof -
  have "tool_count (mark_field ev path s) = tool_count s" for s
    by (simp add: tool_count_def attr_def section_attrs_def mark_field_def)
  then show ?thesis by (simp add: ok_def mark_def st_write_def inv_def typed_mark)
qed

lemma ok_raising: "(\<exists>x. r = Inr x \<and> Q x) \<Longrightarrow> (\<And>x. Q x \<Longrightarrow> step_ok n (f x)) \<Longrightarrow> step_ok n (raising_step r f)"
  unfolding raising_step_def by (rule ok_seq_bind [where R = Q]) (auto intro: ok_read)

lemma ok_given [ok_rules]:
  "(\<And>v. dict_get payload key = Some v \<Longrightarrow> step_ok n (f v)) \<Longrightarrow> step_ok n (given payload key f)"
  by (auto simp: given_def intro: ok_return split: option.splits)

chapter \<open>Typed views\<close>

text \<open>
  New states are typed, and the scheduling view of a typed state can always be built.
\<close>

section \<open>New states\<close>

text \<open>The declared types of a section are those of its table.\<close>

lemma section_types:
  "field_type ''header'' name = map_option fst (dict_get (state_header_fields (utc 0) []) name)"
  "field_type ''identity'' name = map_option fst (dict_get (agent_identity_fields) name)"
  "field_type ''lifecycle'' name = map_option fst (dict_get (lifecycle_state_fields (utc 0)) name)"
  "field_type ''task'' name = map_option fst (dict_get (task_state_fields) name)"
  "field_type ''execution'' name = map_option fst (dict_get (execution_state_fields) name)"
  "field_type ''context'' name = map_option fst (dict_get (context_state_fields) name)"
  "field_type ''model'' name = map_option fst (dict_get (model_state_fields) name)"
  "field_type ''tools'' name = map_option fst (dict_get (tool_state_fields) name)"
  "field_type ''inference'' name = map_option fst (dict_get (inference_state_fields) name)"
  "field_type ''kv_cache'' name = map_option fst (dict_get (kv_cache_state_fields) name)"
  "field_type ''scheduling'' name = map_option fst (dict_get (scheduling_state_fields) name)"
  "field_type ''prediction'' name = map_option fst (dict_get (prediction_state_fields (utc 0)) name)"
  "field_type ''qos'' name = map_option fst (dict_get (qos_state_fields) name)"
  "field_type ''affinity'' name = map_option fst (dict_get (affinity_state_fields) name)"
  "field_type ''failure'' name = map_option fst (dict_get (failure_state_fields) name)"
  "field_type ''observability'' name = map_option fst (dict_get (observability_state_fields) name)"
  "field_type ''security'' name = map_option fst (dict_get (security_state_fields) name)"
  "field_type ''progress_signals'' name = map_option fst (dict_get (agent_progress_signals_fields) name)"
  by (simp_all add: field_type_def agent_schema_def)

lemmas tables = state_header_fields_def agent_identity_fields_def
  lifecycle_state_fields_def task_state_fields_def execution_state_fields_def context_state_fields_def
  model_state_fields_def tool_state_fields_def inference_state_fields_def kv_cache_state_fields_def
  scheduling_state_fields_def prediction_state_fields_def qos_state_fields_def affinity_state_fields_def
  failure_state_fields_def observability_state_fields_def security_state_fields_def
  agent_progress_signals_fields_def

lemmas schema = section_types tables

lemma dict_get_map_snd: "dict_get (map (\<lambda>(k, v). (k, f v)) d) k = map_option f (dict_get d k)"
  by (induction d) auto

lemma default_attrs_lookup:
  "dict_get (default_attrs table) name =
     map_option (\<lambda>(_, d). case d of Some v \<Rightarrow> v | None \<Rightarrow> SNone) (dict_get table name)"
  by (induction table) (auto simp: default_attrs_def)

lemma history_flat: "flat_object ''RoutingHistory'' (SObj ''RoutingHistory'' (default_attrs routing_history_fields))"
  unfolding flat_object_def
  by (auto simp: class_type_def class_table_def default_attrs_lookup routing_history_fields_def split: if_splits)

text \<open>The defaults of the schema conform, whatever the clock and the identifier.\<close>

definition table_ok :: "field_table \<Rightarrow> bool" where
  "table_ok table \<longleftrightarrow> list_all (\<lambda>(n, t, d). case d of Some v \<Rightarrow> conforms t v | None \<Rightarrow> False) table"

lemma table_okD:
  "table_ok table \<Longrightarrow> dict_get table name = Some (t, d) \<Longrightarrow> \<exists>v. d = Some v \<and> conforms t v"
  by (induction table) (auto simp: table_ok_def split: if_splits option.splits)

lemma enum_defaults:
  "flat_conforms (TEnum ''AgentPhase'') (SEnum ''AgentPhase'' ''CREATED'')"
  by code_simp

lemma schema_ok: "list_all (\<lambda>(sec, table). table_ok table) (agent_schema now fresh)"
  using history_flat enum_defaults by (simp add: agent_schema_def tables table_ok_def)

text \<open>The declared types do not depend on the clock.\<close>

lemma schema_types:
  "map (\<lambda>(sec, table). (sec, map (\<lambda>(n, t, _). (n, t)) table)) (agent_schema now fresh)
     = map (\<lambda>(sec, table). (sec, map (\<lambda>(n, t, _). (n, t)) table)) (agent_schema now' fresh')"
  by (simp add: agent_schema_def tables)

lemma field_type_alt:
  "field_type sec name =
     (case dict_get (agent_schema now fresh) sec of
        None \<Rightarrow> None
      | Some table \<Rightarrow> map_option fst (dict_get table name))"
proof -
  have lookup: "map_option fst (dict_get table name) = dict_get (map (\<lambda>(n, t, _). (n, t)) table) name" for table :: field_table
    by (induction table) auto
  have "(case dict_get schema sec of None \<Rightarrow> None | Some table \<Rightarrow> map_option fst (dict_get table name)) =
      (case dict_get (map (\<lambda>(sec, table). (sec, map (\<lambda>(n, t, _). (n, t)) table)) schema) sec of
         None \<Rightarrow> None | Some table \<Rightarrow> dict_get table name)" for schema :: "(string, field_table) dict"
    by (simp add: dict_get_map_snd lookup split: option.split)
  then show ?thesis unfolding field_type_def using schema_types by metis
qed

lemma typed_blank: "typed_state (blank_agent_state now fresh)"
proof -
  have sections: "dict_get (as_sections (blank_agent_state now fresh)) sec
      = map_option default_attrs (dict_get (agent_schema now fresh) sec)" for sec
    by (simp add: blank_agent_state_def dict_get_map_snd)
  have ok: "table_ok table" if "dict_get (agent_schema now fresh) sec = Some table" for sec table
    using schema_ok [of now fresh] dict_get_Some_in [OF that] by (auto simp: list_all_iff)
  show ?thesis
    unfolding typed_state_def
  proof (intro conjI allI impI)
    fix sec name t
    assume "field_type sec name = Some t"
    then obtain table d where table: "dict_get (agent_schema now fresh) sec = Some table"
      "dict_get table name = Some (t, d)"
      by (auto simp: field_type_alt [of sec name now fresh] split: option.splits)
    with table_okD [OF ok] obtain v where "d = Some v" "conforms t v" by blast
    with table show "\<exists>attrs v. dict_get (as_sections (blank_agent_state now fresh)) sec = Some attrs \<and>
        dict_get attrs name = Some v \<and> conforms t v"
      by (simp add: sections default_attrs_lookup)
  next
    fix sec attrs name
    assume "dict_get (as_sections (blank_agent_state now fresh)) sec = Some attrs" "dict_get attrs name \<noteq> None"
    then show "field_type sec name \<noteq> None"
      by (auto simp: sections field_type_alt [of sec name now fresh] default_attrs_lookup)
  qed (simp_all add: blank_agent_state_def dict_get_or_def)
qed

lemma typed_new: "typed_state (new_agent_state now fresh session_id task_id tenant_id harness_type)"
  unfolding new_agent_state_def
  by (intro typed_set_attr [where t = TStr] typed_blank) (simp_all add: schema)

section \<open>Computations that return\<close>

definition returns :: "'a res \<Rightarrow> bool" where
  "returns r \<longleftrightarrow> (\<exists>x. r = Inr x)"

lemma returns_Inr [simp]: "returns (Inr x)"
  by (simp add: returns_def)

lemma returns_bind: "returns r \<Longrightarrow> (\<And>x. r = Inr x \<Longrightarrow> returns (f x)) \<Longrightarrow> returns (res_bind r f)"
  by (auto simp: returns_def)

lemma returns_bind_any: "returns r \<Longrightarrow> (\<And>x. returns (f x)) \<Longrightarrow> returns (res_bind r f)"
  by (auto simp: returns_def)

lemma returns_map: "(\<And>x. x \<in> set xs \<Longrightarrow> returns (f x)) \<Longrightarrow> returns (res_map f xs)"
  by (induction xs) (auto intro!: returns_bind)

lemma returns_any: "(\<And>x. x \<in> set xs \<Longrightarrow> returns (f x)) \<Longrightarrow> returns (res_any f xs)"
  by (induction xs) (auto intro!: returns_bind)

lemma returns_or: "returns r \<Longrightarrow> returns (res_or b r)"
  by (simp add: res_or_def)

section \<open>Numbers\<close>

lemma is_num_cases:
  assumes "is_num v"
  obtains i where "v = SInt i" | x where "v = SFloat (Finite x)"
  using assms by (cases v rule: is_num.cases) auto

lemma number_num: "is_num v \<Longrightarrow> \<exists>x. s_number v = Some (Finite x)"
  by (erule is_num_cases) auto

lemma s_lt_num: "is_num a \<Longrightarrow> is_num b \<Longrightarrow> returns (s_lt a b)"
  by (auto simp: s_lt_def dest!: number_num)

lemma s_max_num: "is_num a \<Longrightarrow> is_num b \<Longrightarrow> \<exists>c. s_max a b = Inr c \<and> is_num c"
  using s_lt_num [of a b] by (auto simp: s_max_def returns_def)

lemma s_max_list_num: "is_num a \<Longrightarrow> list_all is_num bs \<Longrightarrow> \<exists>c. s_max_list a bs = Inr c \<and> is_num c"
  by (induction bs arbitrary: a) (auto dest: s_max_num)

lemma s_max_int: "\<exists>i. s_max (SInt a) (SInt b) = Inr (SInt i)"
  by (simp add: s_max_def s_lt_def)

lemma s_clamp_num: "is_num v \<Longrightarrow> returns (s_clamp v)"
  by (erule is_num_cases) (simp_all add: s_clamp_def)

lemma as_real_num: "is_num v \<Longrightarrow> returns (as_real v)"
  by (erule is_num_cases) (simp_all add: as_real_def)

section \<open>Reading a typed state\<close>

lemma typed_text: "typed_state s \<Longrightarrow> field_type sec n = Some TStr \<Longrightarrow> \<exists>t. attr s sec n = SStr t"
  using typed_attr [of s sec n TStr] by (auto elim: is_string.elims)

lemma typed_int: "typed_state s \<Longrightarrow> field_type sec n = Some TInt \<Longrightarrow> \<exists>i. attr s sec n = SInt i"
  using typed_attr [of s sec n TInt] by (auto split: sval.splits)

lemma typed_flag: "typed_state s \<Longrightarrow> field_type sec n = Some TBool \<Longrightarrow> \<exists>b. attr s sec n = SBool b"
  using typed_attr [of s sec n TBool] by (auto split: sval.splits)

lemma typed_num: "typed_state s \<Longrightarrow> field_type sec n \<in> {Some TNum, Some TInt} \<Longrightarrow> is_num (attr s sec n)"
  using typed_attr [of s sec n] by (auto split: sval.splits)

lemma is_string_text: "is_string v \<Longrightarrow> returns (as_text v)"
  by (cases v) (simp_all add: as_text_def)

lemma typed_names: "typed_state s \<Longrightarrow> field_type sec n = Some TNames \<Longrightarrow> returns (as_names (attr s sec n))"
proof -
  assume "typed_state s" "field_type sec n = Some TNames"
  then obtain vs where "attr s sec n = SSet vs" "list_all is_string vs"
    using typed_attr [of s sec n TNames] by (auto split: sval.splits)
  then show ?thesis
    by (auto simp: as_names_def list_all_iff intro!: returns_bind returns_map is_string_text)
qed

lemma typed_history:
  assumes "typed_state s" "class_type ''RoutingHistory'' n = Some t"
  shows "\<exists>x. s_attr (attr s ''scheduling'' ''routing_history'') n = Inr x \<and> flat_conforms t x"
proof -
  have "flat_object ''RoutingHistory'' (attr s ''scheduling'' ''routing_history'')"
    using typed_attr [OF assms(1), of "''scheduling''" "''routing_history''" "TObj ''RoutingHistory''"]
    by (simp add: schema)
  with assms(2) show ?thesis by (meson flat_object_attr)
qed

lemma typed_history_int:
  assumes "typed_state s" "class_type ''RoutingHistory'' n = Some TInt"
  obtains i where "s_attr (attr s ''scheduling'' ''routing_history'') n = Inr (SInt i)"
proof -
  obtain x where "s_attr (attr s ''scheduling'' ''routing_history'') n = Inr x" "flat_conforms TInt x"
    using typed_history [OF assms] by blast
  with that show thesis by (cases x) auto
qed

lemmas history_types = class_type_def class_table_def routing_history_fields_def

lemma typed_phase: "typed_state s \<Longrightarrow> returns (as_phase (attr s ''lifecycle'' ''phase''))"
proof -
  assume "typed_state s"
  then obtain m where m: "attr s ''lifecycle'' ''phase'' = SEnum ''AgentPhase'' m"
    "m \<in> set (dict_get_or enum_members ''AgentPhase'' [])"
    using typed_attr [of s "''lifecycle''" "''phase''" "TEnum ''AgentPhase''"]
    by (auto simp: schema split: sval.splits)
  have "list_all (\<lambda>m. case as_phase (SEnum ''AgentPhase'' m) of Inr _ \<Rightarrow> True | Inl _ \<Rightarrow> False)
      (dict_get_or enum_members ''AgentPhase'' [])" by code_simp
  with m(2) have "case as_phase (SEnum ''AgentPhase'' m) of Inr _ \<Rightarrow> True | Inl _ \<Rightarrow> False"
    unfolding list_all_iff by blast
  then show ?thesis by (simp add: m(1) returns_def split: sum.splits)
qed

section \<open>Freshness and availability\<close>

lemma typed_fresh: "typed_field f \<Longrightarrow> returns (field_is_fresh f now)"
  by (auto simp: field_is_fresh_def typed_field_def split: sval.splits)

lemma typed_confidence: "typed_field f \<Longrightarrow> returns (effective_confidence f now)"
  unfolding effective_confidence_def by (intro returns_bind typed_fresh) simp_all

lemma typed_meta: "typed_state s \<Longrightarrow> (n, f) \<in> set (as_field_meta s) \<Longrightarrow> typed_field f"
  by (auto simp: typed_state_def list_all_iff)

lemma typed_freshness: "typed_state s \<Longrightarrow> returns (state_freshness s now)"
  unfolding state_freshness_def
  by (auto intro!: returns_bind returns_map typed_confidence intro: typed_meta)

lemma typed_available: "typed_state s \<Longrightarrow> returns (meta_available s now name)"
proof -
  assume "typed_state s"
  then have "typed_field f" if "f \<in> set (meta_candidates s name)" for f
    using that typed_meta by (auto simp: meta_candidates_def)
  then show ?thesis
    unfolding meta_available_def by (auto intro!: returns_any returns_bind typed_fresh typed_confidence)
qed

lemma typed_availability: "typed_state s \<Longrightarrow> returns (derive_availability s now)"
proof -
  assume s: "typed_state s"
  obtain harness where h: "attr s ''identity'' ''harness_type'' = SStr harness"
    using typed_text [OF s, of "''identity''" "''harness_type''"] by (auto simp: schema)
  have progress: "is_num (attr s ''lifecycle'' ''progress'')" by (rule typed_num [OF s]) (simp add: schema)
  show ?thesis
    unfolding derive_availability_def Let_def
    by (rule returns_bind, simp add: h)
      ((rule returns_bind, (rule returns_or, rule typed_available [OF s] | rule s_lt_num, simp, rule progress))+,
       rule returns_bind, simp add: returns_bind typed_freshness s, rule returns_Inr)
qed

section \<open>The parts of the view\<close>

lemma view_parts:
  assumes "typed_state s"
  shows "returns (deadline_seconds s now)" "returns (critical_step s)"
    "returns (path_urgency s remaining critical)"
proof -
  show "returns (deadline_seconds s now)"
    using typed_attr [OF assms, of "''qos''" "''task_deadline''" TOptTime]
    by (auto simp: deadline_seconds_def schema split: sval.splits)
  have "\<exists>vs. attr s ''execution'' ''critical_path_nodes'' = SList vs"
    using typed_attr [OF assms, of "''execution''" "''critical_path_nodes''" TList]
    by (auto simp: schema split: sval.splits)
  then show "returns (critical_step s)" by (auto simp: critical_step_def s_in_def Let_def)
  have "returns (deadline_urgency s remaining)"
  proof -
    have "is_num (attr s ''qos'' ''task_latency_target_seconds'') \<or> attr s ''qos'' ''task_latency_target_seconds'' = SNone"
      using typed_attr [OF assms, of "''qos''" "''task_latency_target_seconds''" TOptNum] by (simp add: schema)
    moreover obtain m x where "s_max (attr s ''qos'' ''task_latency_target_seconds'') (SFloat (Finite (1 / 1000000))) = Inr m"
      "s_number m = Some (Finite x)" if "is_num (attr s ''qos'' ''task_latency_target_seconds'')"
      using s_max_num [of "attr s ''qos'' ''task_latency_target_seconds''" "SFloat (Finite (1 / 1000000))"] number_num
      by fastforce
    ultimately show ?thesis by (auto simp: deadline_urgency_def Let_def split: option.split)
  qed
  moreover obtain x where "s_float (dict_get_or (as_extensions s) ''critical_path_urgency'' (SFloat (Finite 0))) = Inr x"
    using assms unfolding typed_state_def by blast
  ultimately show "returns (path_urgency s remaining critical)"
    unfolding path_urgency_def Let_def by (intro returns_bind) (auto simp: s_clamp_def)
qed

named_theorems view_rules \<comment> \<open>parts of the scheduling view of a typed state that return\<close>

lemma text_part [view_rules]: "typed_state s \<Longrightarrow> field_type sec n = Some TStr \<Longrightarrow> returns (as_text (attr s sec n))"
  by (drule (1) typed_text) (auto simp: as_text_def)

lemma int_part [view_rules]: "typed_state s \<Longrightarrow> field_type sec n = Some TInt \<Longrightarrow> returns (as_int (attr s sec n))"
  by (drule (1) typed_int) (auto simp: as_int_def)

lemma flag_part [view_rules]: "typed_state s \<Longrightarrow> field_type sec n = Some TBool \<Longrightarrow> returns (as_bool (attr s sec n))"
  by (drule (1) typed_flag) (auto simp: as_bool_def)

lemma score_part [view_rules]: "typed_state s \<Longrightarrow> field_type sec n = Some TNum \<Longrightarrow> returns (s_clamp (attr s sec n))"
  by (intro s_clamp_num typed_num) simp_all

lemma real_part [view_rules]: "typed_state s \<Longrightarrow> field_type sec n = Some TNum \<Longrightarrow> returns (as_real (attr s sec n))"
  by (intro as_real_num typed_num) simp_all

lemma either_text [view_rules]:
  "typed_state s \<Longrightarrow> field_type sec n = Some TStr \<Longrightarrow> field_type sec' n' = Some TStr \<Longrightarrow>
     returns (as_text (s_or (attr s sec n) (attr s sec' n')))"
  using typed_text [of s sec n] typed_text [of s sec' n'] by (auto simp: as_text_def s_or_def)

lemma max_int_part [view_rules]:
  "typed_state s \<Longrightarrow> field_type sec n = Some TInt \<Longrightarrow> field_type sec' n' = Some TInt \<Longrightarrow>
     returns (res_bind (s_max (attr s sec n) (attr s sec' n')) as_int)"
  using typed_int [of s sec n] typed_int [of s sec' n'] by (auto simp: s_max_def s_lt_def as_int_def)

lemma max_zero_part [view_rules]:
  "typed_state s \<Longrightarrow> field_type sec n = Some TInt \<Longrightarrow> returns (res_bind (s_max (SInt 0) (attr s sec n)) as_int)"
  by (drule (1) typed_int) (auto simp: s_max_def s_lt_def as_int_def)

lemma max_score_part [view_rules]:
  "typed_state s \<Longrightarrow> field_type sec n = Some TNum \<Longrightarrow> field_type sec' n' = Some TNum \<Longrightarrow>
     returns (res_bind (s_max (attr s sec n) (attr s sec' n')) s_clamp)"
  using s_max_num [of "attr s sec n" "attr s sec' n'"] typed_num [of s sec n] typed_num [of s sec' n']
  by (auto simp: s_clamp_num)

lemma max_real_part [view_rules]:
  "typed_state s \<Longrightarrow> field_type sec n = Some TNum \<Longrightarrow>
     returns (res_bind (s_max (SFloat (Finite 0)) (attr s sec n)) as_real)"
  using s_max_num [of "SFloat (Finite 0)" "attr s sec n"] typed_num [of s sec n] by (auto simp: as_real_num)

lemma max_reals_part [view_rules]:
  "typed_state s \<Longrightarrow> field_type a n = Some TNum \<Longrightarrow> field_type b m = Some TNum \<Longrightarrow> field_type c k = Some TNum \<Longrightarrow>
     returns (res_bind (s_max_list (SFloat (Finite 0)) [attr s a n, attr s b m, attr s c k]) as_real)"
  using s_max_list_num [of "SFloat (Finite 0)" "[attr s a n, attr s b m, attr s c k]"]
    typed_num [of s a n] typed_num [of s b m] typed_num [of s c k] by (auto simp del: s_max_list.simps simp: as_real_num)

lemma max_ints_part [view_rules]:
  "typed_state s \<Longrightarrow> field_type a n = Some TInt \<Longrightarrow> field_type b m = Some TInt \<Longrightarrow> field_type c k = Some TInt \<Longrightarrow>
     returns (res_bind (s_max_list (attr s a n) [attr s b m, attr s c k]) as_int)"
  using typed_int [of s a n] typed_int [of s b m] typed_int [of s c k] by (auto simp: s_max_def s_lt_def as_int_def)

lemma history_int_part [view_rules]:
  "typed_state s \<Longrightarrow> class_type ''RoutingHistory'' n = Some TInt \<Longrightarrow>
     returns (res_bind (s_attr (attr s ''scheduling'' ''routing_history'') n) as_int)"
  by (erule (1) typed_history_int) (simp add: as_int_def)

lemma history_text_part [view_rules]:
  "typed_state s \<Longrightarrow> class_type ''RoutingHistory'' n = Some TStr \<Longrightarrow>
     returns (res_bind (s_attr (attr s ''scheduling'' ''routing_history'') n) as_text)"
  using typed_history [of s n TStr] by (auto simp: is_string_text)

lemma history_or_part [view_rules]:
  "typed_state s \<Longrightarrow> class_type ''RoutingHistory'' n = Some TStr \<Longrightarrow> field_type sec m = Some TStr \<Longrightarrow>
     returns (res_bind (s_attr (attr s ''scheduling'' ''routing_history'') n) (\<lambda>h. as_text (s_or h (attr s sec m))))"
  using typed_history [of s n TStr] typed_text [of s sec m] by (auto simp: s_or_def is_string_text)

lemma history_max_part [view_rules]:
  "typed_state s \<Longrightarrow> class_type ''RoutingHistory'' n = Some TInt \<Longrightarrow> field_type sec m = Some TInt \<Longrightarrow>
     returns (res_bind (s_attr (attr s ''scheduling'' ''routing_history'') n) (\<lambda>h.
       res_bind (s_max (attr s sec m) h) as_int))"
  by (frule (1) typed_int [of s sec m], erule (1) typed_history_int) (auto simp: s_max_def s_lt_def as_int_def)

lemma numbers_part [view_rules]:
  assumes "typed_state s" "field_type sec n = Some TNums"
  shows "returns (as_numbers (attr s sec n))"
proof -
  obtain d where "attr s sec n = SDict d" "list_all (\<lambda>(_, x). is_num x) d"
    using typed_attr [OF assms] by (auto split: sval.splits)
  then show ?thesis
    by (auto simp: as_numbers_def list_all_iff intro!: returns_map returns_bind as_real_num)
qed

lemma optional_part [view_rules]:
  "typed_state s \<Longrightarrow> field_type sec n = Some TOptNum \<Longrightarrow> returns (as_optional as_real (attr s sec n))"
  by (drule (1) typed_attr) (auto simp: as_optional_def intro!: returns_bind as_real_num)

declare view_parts [view_rules] typed_names [view_rules] typed_phase [view_rules]
  typed_availability [view_rules] typed_freshness [view_rules]

lemma typed_view:
  assumes "typed_state s"
  shows "returns (build_scheduling_view s now)"
  unfolding build_scheduling_view_def Let_def
  by ((rule returns_bind_any, (rule view_rules; (rule assms | simp add: schema history_types)))+, rule returns_Inr)

end
