(* ===== verification/SF_Gateway_Typing.thy ===== *)
theory SF_Gateway_Typing
  imports SF_Gateway_Security SF_View_Typing SF_Scheduler_Properties
begin

text \<open>
  The gateway's own events and its routing decisions keep a session typed and never raise, so that a
  session that starts typed can always be viewed and recorded.
\<close>

section \<open>Patches of a section\<close>

lemma ok_entry:
  assumes "\<And>t old. field_type sec k = Some t \<Longrightarrow> conforms t old \<Longrightarrow>
      \<exists>w. convert_for_field repr old v (sec @ ''.'' @ k) = Inr w \<and> conforms t w"
    and "(sec, k) \<noteq> (''tools'', ''active_tools'')"
  shows "step_ok n (set_section_entry repr ev sec (k, v))"
proof -
  have found: "ok n (st_read (\<lambda>s. Inr (dict_get (section_attrs s sec) k)))
      (\<lambda>found. \<forall>old. found = Some old \<longrightarrow> (\<exists>t. field_type sec k = Some t \<and> conforms t old))"
    by (rule ok_read) (use typed_attr typed_attr_found in \<open>fastforce simp: inv_def\<close>)
  show ?thesis
    unfolding set_section_entry_def prod.case
  proof (rule ok_seq_bind [OF found])
    fix found assume f: "\<forall>old. found = Some old \<longrightarrow> (\<exists>t. field_type sec k = Some t \<and> conforms t old)"
    show "step_ok n (case found of None \<Rightarrow> st_return () | Some old \<Rightarrow>
        if str_startswith k ''_'' then st_return ()
        else st_bind (st_read (\<lambda>_. convert_for_field repr old v (sec @ ''.'' @ k)))
          (\<lambda>converted. st_then (put sec k converted) (mark ev [sec, k])))"
    proof (cases found)
      case None
      then show ?thesis by (simp add: ok_return)
    next
      case (Some old)
      with f obtain t where t: "field_type sec k = Some t" "conforms t old" by blast
      show ?thesis
        unfolding Some option.case
        by (intro ok_if ok_return TrueI ok_seq_bind [where R = "conforms t"] ok_read assms(1) [OF t] ok_then ok_mark
            ok_put [OF t(1) _ assms(2)])
    qed
  qed
qed

lemma ok_section:
  assumes "\<And>k v t old. (k, v) \<in> set d \<Longrightarrow> field_type sec k = Some t \<Longrightarrow> conforms t old \<Longrightarrow>
      \<exists>w. convert_for_field repr old v (sec @ ''.'' @ k) = Inr w \<and> conforms t w"
    and "sec \<notin> {''tools'', ''context''}"
  shows "step_ok n (set_section repr ev sec (SDict d))"
proof -
  have "step_ok n (set_section_entry repr ev sec e)" if "e \<in> set d" for e
  proof -
    obtain k v where e: "e = (k, v)" by (cases e)
    show ?thesis unfolding e by (rule ok_entry) (use assms that e in auto)
  qed
  with assms(2) show ?thesis
    by (auto simp: set_section_def intro!: ok_each ok_rules)
qed

section \<open>Shared steps\<close>

lemma phase_conforms:
  assumes "phase \<in> {''MODEL_QUEUED'', ''PLANNING'', ''REPLANNING''}"
  shows "flat_conforms (TEnum ''AgentPhase'') (phase_member phase)"
proof -
  have "list_all (\<lambda>p. flat_conforms (TEnum ''AgentPhase'') (phase_member p)) [''MODEL_QUEUED'', ''PLANNING'', ''REPLANNING'']"
    by code_simp
  with assms show ?thesis by auto
qed

lemma ok_phase:
  assumes "flat_conforms (TEnum ''AgentPhase'') (phase_member phase)"
  shows "step_ok n (set_phase ev phase)"
  unfolding set_phase_def
proof (rule ok_seq_bind)
  show "ok n (look ''lifecycle'' ''phase'') (conforms (TEnum ''AgentPhase''))"
    by (rule ok_look) (simp add: schema)
  fix current assume "conforms (TEnum ''AgentPhase'') current"
  then have "conforms (TOptEnum ''AgentPhase'') current" by (auto split: sval.splits)
  with assms show "step_ok n (st_then
       (st_when (current \<noteq> phase_member phase) (st_seq
         [put ''lifecycle'' ''previous_phase'' current,
          put ''lifecycle'' ''phase_enter_time'' (STime (ev_observed_at ev)),
          put ''lifecycle'' ''phase'' (phase_member phase)]))
       (mark ev [''lifecycle'', ''phase'']))"
    by (intro ok_then ok_when ok_seq_Cons ok_seq_Nil ok_mark ok_put) (auto simp: schema simp del: flat_conforms.simps(12,13))
qed

lemma ok_runnable: "step_ok n (set_runnable b)"
  unfolding set_runnable_def by (rule ok_put [where t = TBool]) (simp_all add: schema)

lemma ok_put_text: "field_type sec name = Some TStr \<Longrightarrow> step_ok n (put sec name (SStr v))"
  and ok_put_int: "field_type sec name = Some TInt \<Longrightarrow> step_ok n (put sec name (SInt i))"
  and ok_put_flag: "field_type sec name = Some TBool \<Longrightarrow> step_ok n (put sec name (SBool b))"
  and ok_put_time: "field_type sec name = Some TTime \<Longrightarrow> step_ok n (put sec name (STime d))"
  using field_type_tools by (auto intro!: ok_put)

lemma ok_update_int:
  assumes "field_type sec name = Some TInt" "(sec, name) \<noteq> (''tools'', ''active_tools'')"
    and "\<And>i. \<exists>j. f (SInt i) = Inr (SInt j)"
  shows "step_ok n (update sec name f)"
proof (rule ok_update [OF assms(1,2)])
  fix v assume "conforms TInt v"
  then obtain i where "v = SInt i" by (auto split: sval.splits)
  with assms(3) [of i] show "\<exists>w. f v = Inr w \<and> conforms TInt w" by auto
qed

lemma s_add_int: "s_add (SInt a) (SInt b) = Inr (SInt (a + b))"
  by (simp add: s_add_def)

lemma names_conform: "list_all is_string vs \<Longrightarrow> conforms TNames (SSet (remdups vs))"
  by (simp add: list_all_iff)

lemma ok_stamp_header: "step_ok n (stamp_header ev)"
proof -
  have dirty: "step_ok n (update ''header'' ''dirty_fields'' (\<lambda>v. case v of
      SSet vs \<Rightarrow> Inr (SSet (remdups (vs @ map (\<lambda>(k, _). SStr k) (ev_payload ev)))) | _ \<Rightarrow> Inl attribute_error))"
    by (rule ok_update [where t = TNames]) (auto simp: schema list_all_iff split: sval.splits)
  show ?thesis
    unfolding stamp_header_def put_when_given_def
    by (intro ok_seq_Cons ok_seq_Nil ok_when dirty ok_update_int s_max_int ok_put_text ok_put_int ok_put_time)
      (simp_all add: schema)
qed

section \<open>The gateway's events\<close>

definition budget_finite :: "neutral_request \<Rightarrow> bool" where
  "budget_finite r \<longleftrightarrow> (case nr_cost_budget r of Some (Finite _) \<Rightarrow> True | None \<Rightarrow> True | _ \<Rightarrow> False)"

lemma names_value_conforms: "conforms TNames (names_value xs)"
  by (simp add: names_value_def list_all_iff)

lemma convert_request_names:
  "conforms TNames old \<Longrightarrow>
     \<exists>w. convert_for_field repr old (SList (map SStr (sort xs))) name = Inr w \<and> conforms TNames w"
proof -
  assume "conforms TNames old"
  then obtain vs where "old = SSet vs" by (auto split: sval.splits)
  with convert_names names_value_conforms show ?thesis by blast
qed

lemma ok_security_patch: "step_ok n (set_section repr ev ''security'' (SDict (security_patch r)))"
proof (rule ok_section)
  fix k v t old
  assume kv: "(k, v) \<in> set (security_patch r)" and t: "field_type ''security'' k = Some t" and old: "conforms t old"
  from kv consider a where "v = SStr a" "k \<in> {''tenant_id'', ''security_domain''}"
    | xs where "v = SList (map SStr (sort xs))" "k \<in> {''allowed_models'', ''allowed_regions'', ''allowed_cache_domains''}"
    | b where "v = SBool b" "k = ''remote_kv_allowed''"
  proof -
    have "(\<exists>a. v = SStr a) \<and> k \<in> {''tenant_id'', ''security_domain''} \<or>
        (\<exists>xs. v = SList (map SStr (sort xs))) \<and> k \<in> {''allowed_models'', ''allowed_regions'', ''allowed_cache_domains''} \<or>
        (\<exists>b. v = SBool b) \<and> k = ''remote_kv_allowed''"
      using kv unfolding security_patch_def set_simps insert_iff prod.inject by (elim disjE) (simp_all, blast+)
    with that show thesis by metis
  qed
  then show "\<exists>w. convert_for_field repr old v (''security'' @ ''.'' @ k) = Inr w \<and> conforms t w"
  proof cases
    case 1
    with t have "t = TStr" by (auto simp: schema)
    with old 1 show ?thesis by (auto simp: convert_for_field_def elim!: is_string.elims)
  next
    case 2
    with t have "t = TNames" by (auto simp: schema)
    with old 2 convert_request_names show ?thesis by blast
  next
    case 3
    with t have "t = TBool" by (auto simp: schema)
    with old 3 show ?thesis by (auto simp: convert_for_field_def split: sval.splits)
  qed
qed simp

lemma ok_identity_patch: "step_ok n (set_section repr ev ''identity'' (SDict [(''tenant_id'', SStr t)]))"
  by (rule ok_section) (auto simp: schema convert_for_field_def elim!: is_string.elims)

lemma ok_budget_patch:
  "is_num v \<Longrightarrow> step_ok n (set_section repr ev ''qos'' (SDict [(''task_cost_budget'', v)]))"
  by (rule ok_section) (auto simp: schema convert_for_field_def elim!: is_num_cases)

lemma request_payload_lookups:
  "dict_get (request_payload r) ''identity'' = Some (SDict [(''tenant_id'', SStr (nr_tenant_id r))])"
  "dict_get (request_payload r) ''logical_model'' = Some (SStr (nr_model r))"
  "dict_get (request_payload r) ''model'' = Some (SStr (nr_model r))"
  "dict_get (request_payload r) ''prompt_tokens'' = Some (SInt (nr_prompt_tokens r))"
  "dict_get (request_payload r) ''predicted_output_tokens'' = Some (SInt (nr_predicted_output_tokens r))"
  "dict_get (request_payload r) ''required_capabilities'' = Some (SList (map SStr (sort (nr_required_capabilities r))))"
  "dict_get (request_payload r) ''context'' = None" "dict_get (request_payload r) ''inference'' = None"
  "dict_get (request_payload r) ''qos'' =
     map_option (\<lambda>b. SDict [(''task_cost_budget'', of_py (float_value b))]) (nr_cost_budget r)"
  by (auto simp: request_payload_def to_state_payload_def sorted_names_def split: option.split)

lemma ok_request_identity:
  "step_ok n (apply_identity repr ev (SDict [(''tenant_id'', SStr t)]))"
proof -
  have "identity_patch [(''tenant_id'', SStr t)] = [(''tenant_id'', SStr t)]"
    by (simp add: identity_patch_def identity_keys_def)
  then show ?thesis
    by (auto simp: apply_identity_def Let_def schema intro!: ok_when ok_then ok_identity_patch ok_put_text)
qed

lemma ok_model_request:
  assumes "budget_finite r"
  shows "step_ok n (apply_model_request repr ev (request_payload r))"
proof -
  have model: "step_ok n (st_bind (look ''model'' ''logical_model'') (\<lambda>current.
      let model = s_or (s_or (s_get (request_payload r) ''logical_model'' SNone) (s_get (request_payload r) ''model'' SNone)) current in
      st_when (s_truthy model) (st_then
        (put ''model'' ''logical_model'' (SStr (s_str repr model))) (mark ev [''model'', ''logical_model'']))))"
    unfolding Let_def
    by (rule ok_seq_bind [OF ok_look [where t = TStr]]) (auto simp: schema intro!: ok_when ok_then ok_mark ok_put_text)
  have tokens: "step_ok n (raising_step (natural_of (SInt i)) f)" if "\<And>j. step_ok n (f (SInt j))" for i f
    by (rule ok_raising [where Q = "conforms TInt"]) (use that in \<open>auto simp: natural_of_def split: sval.splits\<close>)
  have prompt: "step_ok n (st_seq [put ''model'' ''prompt_tokens'' (SInt j), put ''context'' ''prompt_tokens'' (SInt j),
      update ''context'' ''total_tokens'' (\<lambda>t. s_max t (SInt j))])" for j
    by (intro ok_seq_Cons ok_seq_Nil ok_put_int ok_update_int s_max_int) (simp_all add: schema)
  have predicted: "step_ok n (put ''model'' ''predicted_output_tokens'' (SInt j))" for j
    by (rule ok_put_int) (simp add: schema)
  have names: "s_set (SList (map SStr (sort xs))) = Inr (names_value xs)" for xs
    by (cases "xs = []") (simp_all add: s_set_def s_or_def names_value_def list_all_iff)
  have required: "step_ok n (raising_step (s_set (SList (map SStr (sort xs)))) (put ''identity'' ''required_capabilities''))" for xs
    by (rule ok_raising [where Q = "\<lambda>v. v = names_value xs"])
      (use names_value_conforms [of xs] in \<open>auto simp: names schema simp del: conforms.simps intro!: ok_put\<close>)
  have qos: "step_ok n (given (request_payload r) ''qos'' (set_section repr ev ''qos''))"
    using assms ok_budget_patch
    by (auto simp: request_payload_lookups budget_finite_def intro!: ok_given split: option.splits pyfloat.splits)
  show ?thesis
    unfolding apply_model_request_def
    by (intro ok_seq_Cons ok_seq_Nil model qos ok_mark ok_runnable ok_when)
      (auto simp: request_payload_lookups request_payload_security schema
        intro!: ok_phase phase_conforms ok_given tokens prompt [unfolded st_seq.simps] predicted required ok_security_patch ok_put_text)
qed

lemma ok_put_num:
  "field_type sec name = Some TNum \<Longrightarrow> is_num v \<Longrightarrow> step_ok n (put sec name v)"
  using field_type_tools by (auto intro!: ok_put)

definition response_payload :: "int \<Rightarrow> (string, sval) dict" where
  "response_payload n = [(''success'', SBool True), (''output_tokens'', SInt n)]"

lemma ok_model_response: "step_ok n (apply_model_response repr ev (response_payload tokens))"
proof -
  have step: "step_ok n (raising_step (natural_of (SInt i)) f)" if "\<And>j. step_ok n (f (SInt j))" for i f
    by (rule ok_raising [where Q = "conforms TInt"]) (use that in \<open>auto simp: natural_of_def split: sval.splits\<close>)
  have count: "step_ok n (st_seq [update ''context'' ''assistant_tokens'' (\<lambda>t. s_add t (SInt j)),
      update ''context'' ''total_tokens'' (\<lambda>t. s_add t (SInt j))])" for j
    by (intro ok_seq_Cons ok_seq_Nil ok_update_int) (simp_all add: schema s_add_int)
  show ?thesis
    unfolding apply_model_response_def Let_def
    by (intro ok_seq_Cons ok_seq_Nil ok_mark ok_if)
      (auto simp: response_payload_def schema dict_get_or_def str_upper_def
        intro!: ok_given step count [unfolded st_seq.simps] ok_then ok_return ok_runnable ok_phase phase_conforms ok_put_int)
qed

definition failure_payload :: "string \<Rightarrow> string \<Rightarrow> (string, sval) dict" where
  "failure_payload component error =
     [(''failed_component'', SStr component), (''error'', SStr error), (''error_severity'', s_real (8 / 10))]"

lemma ok_failure: "step_ok n (apply_failure repr ev (failure_payload component error) t)"
proof -
  have severity: "step_ok n (update ''failure'' ''error_severity'' (\<lambda>current. s_max current (SFloat (Finite (4 / 5)))))"
    by (rule ok_update [where t = TNum]) (auto simp: schema dest: s_max_num [of _ "SFloat (Finite (4 / 5))"])
  have streak: "step_ok n (st_bind (look ''failure'' ''failure_streak'') (put ''progress_signals'' ''consecutive_failures''))"
    by (rule ok_seq_bind [OF ok_look [where t = TInt]]) (auto simp: schema intro!: ok_put_int split: sval.splits)
  have count: "step_ok n (update ''failure'' name (\<lambda>m. s_add m (SInt 1)))" if "name \<in> {''retry_count'', ''failure_streak''}" for name
    using that by (intro ok_update_int) (auto simp: schema s_add_int)
  show ?thesis
    unfolding apply_failure_def
    by (intro ok_seq_Cons ok_seq_Nil ok_mark streak count ok_runnable ok_put_text ok_put_flag ok_phase phase_conforms)
      (auto simp: schema failure_payload_def dict_get_or_def s_real_def float_lt_def less_pyfloat_def severity)
qed

section \<open>Events\<close>

definition gateway_payload :: "agent_event \<Rightarrow> bool" where
  "gateway_payload ev \<longleftrightarrow>
     (\<exists>r. budget_finite r \<and> ev_event_type ev = ''MODEL_REQUESTED'' \<and> ev_payload ev = request_payload r) \<or>
     (\<exists>n. ev_event_type ev = ''MODEL_RESPONSE_RECEIVED'' \<and> ev_payload ev = response_payload n) \<or>
     (\<exists>component error. ev_event_type ev = ''MODEL_FAILED'' \<and> ev_payload ev = failure_payload component error)"

lemma ok_gateway_event:
  assumes "gateway_payload ev"
  shows "step_ok n (apply_event repr ev)"
proof -
  have upper: "str_upper ''MODEL_REQUESTED'' = ''MODEL_REQUESTED''"
    "str_upper ''MODEL_RESPONSE_RECEIVED'' = ''MODEL_RESPONSE_RECEIVED''" "str_upper ''MODEL_FAILED'' = ''MODEL_FAILED''"
    by code_simp+
  have identity: "apply_identity repr ev (s_get (response_payload m) ''identity'' (SDict (response_payload m))) = st_return ()"
    "apply_identity repr ev (s_get (failure_payload c error) ''identity'' (SDict (failure_payload c error))) = st_return ()"
    for m c error
    by (simp_all add: apply_identity_def identity_patch_def identity_keys_def response_payload_def failure_payload_def
        dict_get_or_def st_when_def)
  from assms consider r where "budget_finite r" "ev_event_type ev = ''MODEL_REQUESTED''" "ev_payload ev = request_payload r"
    | m where "ev_event_type ev = ''MODEL_RESPONSE_RECEIVED''" "ev_payload ev = response_payload m"
    | component error where "ev_event_type ev = ''MODEL_FAILED''" "ev_payload ev = failure_payload component error"
    unfolding gateway_payload_def by blast
  then show ?thesis
  proof cases
    case 1
    then have "apply_event repr ev = st_then (apply_identity repr ev (SDict [(''tenant_id'', SStr (nr_tenant_id r))]))
        (apply_model_request repr ev (request_payload r))"
      by (simp add: apply_event_def Let_def upper request_payload_lookups dict_get_or_def)
    then show ?thesis using ok_then [OF ok_request_identity ok_model_request [OF 1(1)]] by simp
  next
    case 2
    then show ?thesis
      by (simp add: apply_event_def Let_def upper identity ok_then ok_return ok_model_response)
  next
    case 3
    then show ?thesis
      by (simp add: apply_event_def Let_def upper identity ok_then ok_return ok_failure)
  qed
qed

section \<open>Routing decisions\<close>

lemma ok_put_history:
  assumes "class_type ''RoutingHistory'' name = Some t" "flat_conforms t x"
  shows "step_ok n (put_history name x)"
  unfolding put_history_def
  by (rule ok_update [where t = "TObj ''RoutingHistory''"])
    (use assms in \<open>auto simp: schema elim: flat_object_set\<close>)

lemma ok_history_attr:
  assumes "class_type ''RoutingHistory'' name = Some t"
  shows "ok n (history_attr name) (flat_conforms t)"
  unfolding history_attr_def
proof (rule ok_read)
  fix s assume "inv n s"
  then have "flat_object ''RoutingHistory'' (attr s ''scheduling'' ''routing_history'')"
    using typed_attr [of s "''scheduling''" "''routing_history''"] by (simp add: inv_def schema)
  from flat_object_attr [OF this assms]
  show "\<exists>x. s_attr (attr s ''scheduling'' ''routing_history'') name = Inr x \<and> flat_conforms t x" by metis
qed

lemma ok_history_count:
  assumes "class_type ''RoutingHistory'' name = Some TInt"
  shows "step_ok n (st_bind (history_attr name) (\<lambda>v. raising_step (s_add v (SInt 1)) (put_history name)))"
proof (rule ok_seq_bind [OF ok_history_attr [OF assms]])
  fix v assume "flat_conforms TInt v"
  then have "\<exists>x. s_add v (SInt 1) = Inr x \<and> flat_conforms TInt x" by (auto simp: s_add_int split: sval.splits)
  then show "step_ok n (raising_step (s_add v (SInt 1)) (put_history name))"
    by (rule ok_raising) (rule ok_put_history [OF assms])
qed

lemma ok_decision:
  assumes "\<And>d. \<not> is_object (to_dict d)"
  shows "step_ok n (apply_decision to_dict view d)"
proof -
  have log: "step_ok n (update ''scheduling'' ''decision_history'' (\<lambda>v. case v of
      SList ds \<Rightarrow> Inr (SList (keep_last 1000 (ds @ [to_dict d]))) | _ \<Rightarrow> Inl attribute_error))"
    by (rule ok_update [where t = TList])
      (use assms in \<open>auto simp: schema keep_last_def list_ex_iff split: sval.splits dest!: in_set_dropD\<close>)
  have history: "class_type ''RoutingHistory'' ''current_tier'' = Some TStr"
    "class_type ''RoutingHistory'' ''stable_steps'' = Some TInt"
    "class_type ''RoutingHistory'' ''escalation_count'' = Some TInt"
    by (simp_all add: history_types)
  note steps = ok_seq_Cons ok_seq_Nil
  show ?thesis
    unfolding apply_decision_def Let_def
    by (intro steps log; (rule ok_put_text | rule ok_put_history | rule ok_update_int
          | rule ok_seq_bind [OF ok_history_attr [OF history(1)]], intro steps ok_if ok_when ok_history_count history
        )?)
      (auto simp: schema history_types s_add_int intro!: ok_put_history split: option.split)
qed

lemma ok_stamp_decision: "step_ok n (stamp_decision d)"
proof -
  have dirty: "step_ok n (update ''header'' ''dirty_fields'' (\<lambda>v. case v of
      SSet vs \<Rightarrow> Inr (SSet (remdups (vs @ [SStr ''model'', SStr ''scheduling.routing_history'', SStr ''decision_history''])))
      | _ \<Rightarrow> Inl attribute_error))"
    by (rule ok_update [where t = TNames]) (auto simp: schema list_all_iff split: sval.splits)
  show ?thesis
    unfolding stamp_decision_def
    by (intro ok_seq_Cons ok_seq_Nil dirty ok_put_text ok_put_time) (simp_all add: schema)
qed

section \<open>The store of a gateway\<close>

definition store_typed :: "state_store \<Rightarrow> bool" where
  "store_typed st \<longleftrightarrow> (\<forall>key s. dict_get (st_states st) key = Some s \<longrightarrow> typed_state s)"

lemma store_typed_set:
  "store_typed st \<Longrightarrow> typed_state s \<Longrightarrow> st_states st' = dict_set (st_states st) key s \<Longrightarrow> store_typed st'"
  by (simp add: store_typed_def)

lemma store_typed_at:
  "store_typed st \<Longrightarrow> typed_state (case dict_get (st_states st) key of
     Some x \<Rightarrow> x | None \<Rightarrow> new_agent_state now fresh session_id task_id tenant_id harness_type)"
  by (auto simp: store_typed_def typed_new simp del: split_paired_All split: option.split)

lemma okD: "step_ok 0 m \<Longrightarrow> typed_state s \<Longrightarrow> \<exists>s'. m s = (Inr (), s') \<and> typed_state s'"
  by (fastforce simp: ok_def inv_def)

lemma gateway_event_appends:
  assumes "gateway_payload ev" "store_typed st"
  obtains r st' where "append_event repr now fresh st ev = (Inr r, st')" "store_typed st'"
proof -
  let ?m = "st_then (apply_event repr (sequenced st ev)) (stamp_header (sequenced st ev))"
  let ?s = "case dict_get (st_states st) (event_key ev) of
      Some x \<Rightarrow> x
    | None \<Rightarrow> new_agent_state now fresh (ev_session_id (sequenced st ev)) (ev_task_id (sequenced st ev))
                 ''default'' ''generic-proxy''"
  have "gateway_payload (sequenced st ev)"
    using assms(1) by (auto simp: gateway_payload_def sequenced_def Let_def split: prod.splits)
  then have "step_ok 0 ?m"
    by (intro ok_then ok_gateway_event ok_stamp_header)
  then obtain s' where run: "?m ?s = (Inr (), s')" "typed_state s'"
    using okD store_typed_at [OF assms(2)] by blast
  show thesis
  proof (cases rule: append_event_cases [of repr now fresh st ev])
    case (refused b)
    with assms(2) that show thesis by blast
  next
    case (accepted r s)
    from accepted(7) run have "typed_state s" by simp
    show thesis
      by (rule that [OF accepted(1)]) (rule store_typed_set [OF assms(2) \<open>typed_state s\<close>], simp)
  next
    case (raised e s)
    with run show thesis by simp
  qed
qed

lemma gateway_event_stored:
  assumes "gateway_payload ev" "store_typed st"
  obtains st' where "store_event hi ev st = (Inr (), st')" "store_typed st'"
  using gateway_event_appends [OF assms, of "hi_repr hi" "hi_now hi 1" "hi_fresh hi"] that
  by (force simp: store_event_def)

lemma gateway_event_simps [simp]:
  "event_key (gateway_event request t now p) = (nr_session_id request, nr_task_id request)"
  "ev_epoch (gateway_event request t now p) = 0" "ev_sequence (gateway_event request t now p) = 0"
  "ev_event_type (gateway_event request t now p) = t" "ev_payload (gateway_event request t now p) = p"
  "ev_request_id (gateway_event request t now p) = nr_request_id request"
  "ev_session_id (gateway_event request t now p) = nr_session_id request"
  "ev_task_id (gateway_event request t now p) = nr_task_id request"
  by (simp_all add: gateway_event_def new_agent_event_def event_key_def)

lemma request_stored:
  assumes "budget_finite request" "store_typed st"
  obtains st' where "record_model_request hi request st = (Inr (), st')" "store_typed st'"
  unfolding record_model_request_def request_payload_def [symmetric]
  by (rule gateway_event_stored [OF _ assms(2)]) (use assms(1) in \<open>auto simp: gateway_payload_def\<close>)

lemma response_stored:
  assumes "store_typed st"
  obtains st' where "record_model_response hi request n st = (Inr (), st')" "store_typed st'"
  unfolding record_model_response_def response_payload_def [symmetric]
  by (rule gateway_event_stored [OF _ assms]) (auto simp: gateway_payload_def)

lemma failure_event:
  "ev_event_type ev = ''MODEL_FAILED'' \<Longrightarrow> ev_payload ev = failure_payload component error \<Longrightarrow> gateway_payload ev"
  unfolding gateway_payload_def by blast

lemma failure_stored:
  assumes "store_typed st"
  obtains st' where "record_failure hi request component error st = (Inr (), st')" "store_typed st'"
  unfolding record_failure_def failure_payload_def [symmetric]
proof (rule gateway_event_stored [OF failure_event assms])
  show "ev_payload (gateway_event request ''MODEL_FAILED'' (hi_now hi 3) (failure_payload component error))
      = failure_payload component error" by simp
qed simp_all

lemma decision_stored:
  assumes "store_typed st"
  shows "store_typed (snd (record_routing_decision (decision_to_dict isoformat) now fresh st view d))"
proof -
  let ?key = "(hv_session_id view, hv_task_id view)"
  let ?s = "case dict_get (st_states st) ?key of
      Some x \<Rightarrow> x
    | None \<Rightarrow> new_agent_state now fresh (hv_session_id view) (hv_task_id view) (hv_tenant_id view) ''generic-proxy''"
  have "step_ok 0 (apply_decision (decision_to_dict isoformat) view d)"
    by (rule ok_decision) (simp add: decision_to_dict_def)
  from okD [OF this store_typed_at [OF assms]] obtain s1 where
    s1: "apply_decision (decision_to_dict isoformat) view d ?s = (Inr (), s1)" "typed_state s1" by blast
  from okD [OF ok_stamp_decision s1(2)] obtain s2 where
    s2: "stamp_decision d s1 = (Inr (), s2)" "typed_state s2" by blast
  show ?thesis
    using store_typed_set [OF assms s1(2)] store_typed_set [OF assms s2(2)]
    by (auto simp: record_routing_decision_def Let_def s1(1) s2(1) split: sum.split)
qed

text \<open>On a typed store the decision is recorded: the version it reserves is the one after the header's.\<close>

lemma decision_reserves:
  fixes view :: scheduling_view
  defines "key \<equiv> (hv_session_id view, hv_task_id view)"
  assumes "store_typed st" "dict_get (st_states st) key = Some s"
    and "attr s ''header'' ''epoch'' = SInt e" "attr s ''header'' ''sequence_number'' = SInt n"
  shows "last_order (snd (record_routing_decision (decision_to_dict isoformat) now fresh st view d)) key = (e, n + 1)"
proof -
  have "step_ok 0 (apply_decision (decision_to_dict isoformat) view d)"
    by (rule ok_decision) (simp add: decision_to_dict_def)
  moreover have "typed_state s" using assms(2,3) by (cases key) (auto simp: store_typed_def)
  ultimately obtain s1 where s1: "apply_decision (decision_to_dict isoformat) view d s = (Inr (), s1)"
    using okD by blast
  have "as_int (attr s1 ''header'' ''epoch'') = Inr e" "as_int (attr s1 ''header'' ''sequence_number'') = Inr (n + 1)"
    using apply_decision_header [OF s1] assms(4,5) by (simp_all add: as_int_def)
  moreover obtain r s2 where "stamp_decision d s1 = (r, s2)" by fastforce
  ultimately show ?thesis
    using assms(3) s1 by (simp add: key_def record_routing_decision_def Let_def last_order_def dict_get_or_def)
qed

lemma typed_session_viewed:
  assumes "store_typed st"
  obtains view where "get_scheduling_view now fresh st session_id task_id = Inr view"
proof -
  have "returns (get_scheduling_view now fresh st session_id task_id)"
    unfolding get_scheduling_view_def session_state_def by (rule typed_view [OF store_typed_at [OF assms]])
  with that show thesis by (auto simp: returns_def)
qed

end
