(* ===== verification/SF_Gateway_Properties.thy ===== *)
theory SF_Gateway_Properties
  imports SF_Gateway_Typing SF_Plane_Runs
begin

text \<open>
  The properties of the request gateway: which target may serve a request, what a request leaves in
  the event log, and that the projection into the State Plane never changes an answer.
\<close>

section \<open>The events of a request\<close>

lemma unsequenced_is_next:
  assumes "ev_sequence ev \<le> 0" "fst (last_order st (event_key ev)) \<le> ev_epoch ev"
  shows "order_less (last_order st (event_key ev)) (event_order (sequenced st ev))"
  using assms by (auto simp: sequenced_def event_order_def order_less_def Let_def split: prod.split)

lemma sequenced_simps [simp]:
  "ev_event_type (sequenced st ev) = ev_event_type ev" "ev_payload (sequenced st ev) = ev_payload ev"
  "ev_session_id (sequenced st ev) = ev_session_id ev" "ev_task_id (sequenced st ev) = ev_task_id ev"
  "ev_request_id (sequenced st ev) = ev_request_id ev" "ev_epoch (sequenced st ev) = ev_epoch ev"
  by (simp_all add: sequenced_def Let_def split: prod.split)

lemma store_event_logs:
  assumes "store_event hi ev st = (Inr u, st')" "ev_sequence ev \<le> 0"
    and "fst (last_order st (event_key ev)) \<le> ev_epoch ev"
  obtains s where "st' = \<lparr>st_states = dict_set (st_states st) (event_key ev) s,
      st_last_order = dict_set (st_last_order st) (event_key ev) (event_order (sequenced st ev)),
      st_events = st_events st @ [sequenced st ev]\<rparr>"
    "st_then (apply_event (hi_repr hi) (sequenced st ev)) (stamp_header (sequenced st ev))
       (case dict_get (st_states st) (event_key ev) of
          Some x \<Rightarrow> x
        | None \<Rightarrow> new_agent_state (hi_now hi 1) (hi_fresh hi) (ev_session_id ev) (ev_task_id ev)
                     ''default'' ''generic-proxy'') = (Inr (), s)"
    "attr s ''header'' ''epoch'' = SInt (ev_epoch ev)"
    "attr s ''header'' ''sequence_number'' = SInt (ev_sequence (sequenced st ev))"
proof (cases rule: append_event_cases [of "hi_repr hi" "hi_now hi 1" "hi_fresh hi" st ev])
  case (refused b)
  with unsequenced_is_next [OF assms(2,3)] show thesis by simp
next
  case (raised e s)
  with assms(1) show thesis by (simp add: store_event_def)
next
  case (accepted r s)
  from assms(1) accepted(1) have "st' = \<lparr>st_states = dict_set (st_states st) (event_key ev) s,
      st_last_order = dict_set (st_last_order st) (event_key ev) (event_order (sequenced st ev)),
      st_events = st_events st @ [sequenced st ev]\<rparr>" by (simp add: store_event_def)
  from that [OF this accepted(7,5,6) [unfolded sequenced_simps]] show thesis .
qed

abbreviation request_key :: "neutral_request \<Rightarrow> state_key" where
  "request_key request \<equiv> (nr_session_id request, nr_task_id request)"

text \<open>
  The decision takes the version after the event before it, in the same epoch, unless the recording
  raises; on a typed store it does not.
\<close>

lemma schedule_request_store:
  assumes run: "schedule_request predict config hi view targets st = (r, st')"
    and key: "(hv_session_id view, hv_task_id view) = key"
    and s: "dict_get (st_states st) key = Some s"
    and header: "attr s ''header'' ''epoch'' = SInt 0" "attr s ''header'' ''sequence_number'' = SInt n"
    and order: "last_order st key = (0, n)"
  shows "st_events st' = st_events st \<and>
    (\<forall>e. r = Inl e \<longrightarrow> last_order st' key = (0, n)) \<and>
    (last_order st' key = (0, n) \<or> last_order st' key = (0, n + 1)) \<and>
    (\<forall>d. r = Inr d \<and> store_typed st \<longrightarrow> last_order st' key = (0, n + 1))"
proof (cases "schedule predict config None (hi_decision_id hi) (hi_decision_time hi) view (Some targets)")
  case (Inl e)
  with run order show ?thesis by (auto simp: schedule_request_def)
next
  case (Inr d)
  let ?recorded = "record_routing_decision (decision_to_dict (hi_iso hi)) (hi_now hi 1) (hi_fresh hi) st view d"
  from Inr run have r: "r = Inr d" "st' = snd ?recorded" by (simp_all add: schedule_request_def)
  have "st_events st' = st_events st \<and> (last_order st' key = (0, n) \<or> last_order st' key = (0, n + 1))"
  proof (cases rule: record_routing_decision_cases
      [of "decision_to_dict (hi_iso hi)" "hi_now hi 1" "hi_fresh hi" st view d])
    case (raised e s1)
    with r order show ?thesis by (simp add: last_order_def)
  next
    case (recorded r1 s1 e m)
    from recorded(2) [OF refl] have "e = 0" "m = n + 1" by (simp_all add: key s header)
    with recorded(1) r show ?thesis by (simp add: last_order_def dict_get_or_def key)
  qed
  moreover have "store_typed st \<Longrightarrow> last_order st' key = (0, n + 1)"
    using decision_reserves [where view = view, unfolded key, OF _ s header] by (simp add: r)
  ultimately show ?thesis using r by simp
qed

section \<open>The steps of \<open>handle\<close>\<close>

lemma project_simps [simp]:
  "gw_store (project op gw) = gw_store gw" "gw_targets (project op gw) = gw_targets gw"
  "gw_backends (project op gw) = gw_backends gw"
  by (simp_all add: project_def split: prod.split sum.split)

lemma handle_returns:
  assumes "handle predict config hi request gw = (Inr resp, gw')"
  obtains st view gw1 where
    "record_model_request hi request (gw_store gw) = (Inr (), st)"
    "get_scheduling_view (hi_now hi 2) (hi_fresh hi) st (nr_session_id request) (nr_task_id request) = Inr view"
    "route predict config hi request (gw_targets gw) (request_view request view) gw1 = (Inr resp, gw')"
    "gw_store gw1 = st" "gw_backends gw1 = gw_backends gw"
  using assms by (force simp: handle_def Let_def split: prod.splits sum.splits)

lemma route_returns:
  assumes "route predict config hi request targets view gw = (Inr resp, gw')"
  obtains (refused) message rejections st st' where
      "schedule_request predict config hi view targets (gw_store gw) = (Inl (NoFeasibleTarget message rejections), st)"
      "record_failure hi request ''NO_FEASIBLE_TARGET'' message st = (Inr (), st')"
      "resp = no_target_response message rejections" "gw_store gw' = st'"
    | (failed) d st t message st' where
      "schedule_request predict config hi view targets (gw_store gw) = (Inr d, st)"
      "selected_target targets d = Some t"
      "send_to_backend (hi_quoted hi) (gw_backends gw) request t = Inl (BackendError message)"
      "record_failure hi request ''BACKEND'' message st = (Inr (), st')"
      "resp = backend_error_response message d" "gw_store gw' = st'"
    | (served) d st t b st' where
      "schedule_request predict config hi view targets (gw_store gw) = (Inr d, st)"
      "selected_target targets d = Some t"
      "send_to_backend (hi_quoted hi) (gw_backends gw) request t = Inr b"
      "record_model_response hi request (br_output_tokens b) st = (Inr (), st')"
      "resp = routed_response b d" "gw_store gw' = st'"
proof (cases "schedule_request predict config hi view targets (gw_store gw)")
  case (Pair r st)
  show thesis
  proof (cases r)
    case (Inl e)
    with Pair assms show thesis
      by (cases e) (auto simp: route_def returning_def res_bind_Inr_iff split: prod.splits intro: refused)
  next
    case (Inr d)
    with Pair assms have run: "dispatch hi request targets d (gw\<lparr>gw_store := st\<rparr>) = (Inr resp, gw')"
      by (simp add: route_def)
    then obtain t where t: "selected_target targets d = Some t"
      by (auto simp: dispatch_def split: option.splits)
    show thesis
    proof (cases "send_to_backend (hi_quoted hi) (gw_backends gw) request t")
      case (Inl e)
      with run t Pair Inr show thesis
        by (cases e) (auto simp: dispatch_def returning_def res_bind_Inr_iff split: prod.splits intro: failed)
    next
      case (Inr b)
      with run t Pair \<open>r = Inr d\<close> show thesis
        by (auto simp: dispatch_def returning_def res_bind_Inr_iff Let_def split: prod.splits intro: served)
    qed
  qed
qed

section \<open>What the first event leaves\<close>

lemma request_recorded:
  assumes "record_model_request hi request st = (Inr (), st')" "fst (last_order st (request_key request)) \<le> 0"
    and "get_scheduling_view now fresh st' (nr_session_id request) (nr_task_id request) = Inr view"
  obtains s e where
    "dict_get (st_states st') (request_key request) = Some s" "attr s ''header'' ''epoch'' = SInt 0"
    "attr s ''header'' ''sequence_number'' = SInt (ev_sequence e)"
    "build_scheduling_view s now = Inr view"
    "hv_session_id view = nr_session_id request" "hv_task_id view = nr_task_id request"
    "st_events st' = st_events st @ [e]" "ev_event_type e = ''MODEL_REQUESTED''"
    "ev_request_id e = nr_request_id request" "event_key e = request_key request"
    "last_order st' (request_key request) = event_order e" "ev_epoch e = 0"
    "order_less (last_order st (request_key request)) (event_order e)"
    "\<And>s0. (case dict_get (st_states st) (request_key request) of
          Some x \<Rightarrow> x
        | None \<Rightarrow> new_agent_state (hi_now hi 1) (hi_fresh hi) (nr_session_id request) (nr_task_id request)
                     ''default'' ''generic-proxy'') = s0 \<Longrightarrow> restrictions_typed s0 \<Longrightarrow> restricted request s"
proof -
  let ?ev = "gateway_event request ''MODEL_REQUESTED'' (hi_now hi 0) (request_payload request)"
  let ?e = "sequenced st ?ev"
  have run: "store_event hi ?ev st = (Inr (), st')" using assms(1) by (simp add: record_model_request_def request_payload_def)
  obtain s where st': "st' = \<lparr>st_states = dict_set (st_states st) (event_key ?ev) s,
      st_last_order = dict_set (st_last_order st) (event_key ?ev) (event_order ?e),
      st_events = st_events st @ [?e]\<rparr>"
    and applied: "st_then (apply_event (hi_repr hi) ?e) (stamp_header ?e)
       (case dict_get (st_states st) (event_key ?ev) of
          Some x \<Rightarrow> x
        | None \<Rightarrow> new_agent_state (hi_now hi 1) (hi_fresh hi) (ev_session_id ?ev) (ev_task_id ?ev)
                     ''default'' ''generic-proxy'') = (Inr (), s)"
    and epoch: "attr s ''header'' ''epoch'' = SInt (ev_epoch ?ev)"
      "attr s ''header'' ''sequence_number'' = SInt (ev_sequence ?e)"
    by (rule store_event_logs [OF run]) (use assms(2) in simp_all)
  have s: "dict_get (st_states st') (request_key request) = Some s" by (simp add: st')
  have view: "build_scheduling_view s now = Inr view"
    using assms(3) s by (simp add: get_scheduling_view_def session_state_def)
  from applied obtain s1 where "stamp_header ?e s1 = (Inr (), s)" by (auto simp only: then_returns)
  note key = stamp_header_key [OF this]
  show thesis
  proof (rule that [of s ?e])
    show "hv_session_id view = nr_session_id request" "hv_task_id view = nr_task_id request"
      using view_key [OF view] key by (simp_all add: as_text_def)
    show "restricted request s"
      if "(case dict_get (st_states st) (request_key request) of
          Some x \<Rightarrow> x
        | None \<Rightarrow> new_agent_state (hi_now hi 1) (hi_fresh hi) (nr_session_id request) (nr_task_id request)
                     ''default'' ''generic-proxy'') = s0" "restrictions_typed s0" for s0
      by (rule request_event_restricts [where r = request, OF applied [unfolded gateway_event_simps]]) (use that in simp_all)
    show "order_less (last_order st (request_key request)) (event_order ?e)"
      using unsequenced_is_next [of ?ev st] assms(2) by simp
  qed (use s view epoch in \<open>simp_all add: st' last_order_def dict_get_or_def\<close>)
qed

lemma new_state_typed: "restrictions_typed (new_agent_state now fresh session_id task_id tenant_id harness_type)"
proof -
  have "has ''security'' ''security_domain'' (SStr ''default'') (blank_agent_state now fresh)"
    "has ''security'' ''allowed_models'' (SSet []) (blank_agent_state now fresh)"
    "has ''security'' ''allowed_regions'' (SSet []) (blank_agent_state now fresh)"
    "has ''security'' ''allowed_cache_domains'' (SSet []) (blank_agent_state now fresh)"
    by (simp_all add: has_def section_attrs_def blank_agent_state_def agent_schema_def default_attrs_def
        security_state_fields_def dict_get_or_def)
  then show ?thesis
    unfolding restrictions_typed_def new_agent_state_def by (simp add: has_set_attr) blast
qed

section \<open>When the gateway answers\<close>

lemma request_scheduled:
  assumes "schedule_request predict config hi view targets st = (r, st')" "store_typed st"
    and "\<And>t. t \<in> set targets \<Longrightarrow> \<exists>c. is_capable t = Inr c"
  shows "store_typed st'" "r \<noteq> Inl (ScheduleError e)"
proof -
  note stored = decision_stored [OF assms(2), of "hi_iso hi" "hi_now hi 1" "hi_fresh hi" view]
  then show "store_typed st'"
    using assms(1,2) by (auto simp: schedule_request_def split: sum.splits)
  show "r \<noteq> Inl (ScheduleError e)"
    using assms(1) schedule_refusals [of view "Some targets" predict config None "hi_decision_id hi" "hi_decision_time hi"]
      assms(3)
    by (auto simp: schedule_request_def split: sum.splits)
qed

lemma decision_has_target:
  assumes "schedule predict config sink decision_id now view (Some targets) = Inr d"
  obtains t where "selected_target targets d = Some t" "t \<in> set targets"
proof -
  from schedule_safe [OF assms] obtain t where "t \<in> set targets" "decision_key d = target_key t" by auto
  then have "selected_target targets d \<noteq> None"
    by (auto simp: selected_target_def find_None_iff decision_key_def target_key_def)
  then obtain t where "selected_target targets d = Some t" by blast
  moreover from this have "t \<in> set targets" by (auto simp: selected_target_def find_Some_iff)
  ultimately show thesis by (rule that)
qed

text \<open>
  What the gateway has to answer, given what the scheduler says: the reasons when no target would do,
  otherwise what the selected target's backend returned, or its error.
\<close>

definition backend_answer ::
  "(string \<Rightarrow> string) \<Rightarrow> backend_registry \<Rightarrow> neutral_request \<Rightarrow> target_candidate \<Rightarrow> routing_decision
     \<Rightarrow> gateway_response res" where
  "backend_answer quoted bs request t d =
     (case send_to_backend quoted bs request t of
        Inl (SendRaised e) \<Rightarrow> Inl e
      | Inl (BackendError message) \<Rightarrow> Inr (backend_error_response message d)
      | Inr b \<Rightarrow> Inr (routed_response b d))"

lemma dispatch_answers:
  assumes "selected_target targets d = Some t" "store_typed (gw_store gw)"
  shows "fst (dispatch hi request targets d gw) = backend_answer (hi_quoted hi) (gw_backends gw) request t d \<and>
    store_typed (gw_store (snd (dispatch hi request targets d gw)))"
proof (cases "send_to_backend (hi_quoted hi) (gw_backends gw) request t")
  case (Inl e)
  show ?thesis
  proof (cases e)
    case (BackendError message)
    obtain st where "record_failure hi request ''BACKEND'' message (gw_store gw) = (Inr (), st)" "store_typed st"
      by (rule failure_stored [OF assms(2)])
    with assms(1) Inl BackendError show ?thesis by (simp add: dispatch_def backend_answer_def returning_def)
  next
    case (SendRaised x)
    with assms Inl show ?thesis by (simp add: dispatch_def backend_answer_def)
  qed
next
  case (Inr b)
  let ?gw = "project (project_decision (\<lambda>n. hi_projection hi (n + 2 + 6 * length targets)) request d) gw"
  obtain st where "record_model_response hi request (br_output_tokens b) (gw_store ?gw) = (Inr (), st)" "store_typed st"
    by (rule response_stored [of "gw_store ?gw"]) (use assms(2) in auto)
  with assms(1) Inr show ?thesis by (simp add: dispatch_def backend_answer_def returning_def Let_def)
qed

lemma route_answers:
  assumes "store_typed (gw_store gw)" "\<And>t. t \<in> set targets \<Longrightarrow> \<exists>c. is_capable t = Inr c"
  shows "store_typed (gw_store (snd (route predict config hi request targets view gw))) \<and>
    (case schedule predict config None (hi_decision_id hi) (hi_decision_time hi) view (Some targets) of
       Inl (ScheduleError e) \<Rightarrow> False
     | Inl (NoFeasibleTarget message rejections) \<Rightarrow>
         fst (route predict config hi request targets view gw) = Inr (no_target_response message rejections)
     | Inr d \<Rightarrow> (\<exists>t \<in> set targets. selected_target targets d = Some t \<and>
         fst (route predict config hi request targets view gw)
           = backend_answer (hi_quoted hi) (gw_backends gw) request t d))"
proof (cases "schedule_request predict config hi view targets (gw_store gw)")
  case (Pair r st)
  note st = request_scheduled [OF Pair assms]
  have sched: "schedule predict config None (hi_decision_id hi) (hi_decision_time hi) view (Some targets) = r"
    using Pair by (auto simp: schedule_request_def split: sum.splits)
  show ?thesis
  proof (cases r)
    case (Inl e)
    with st(2) obtain message rejections where e: "e = NoFeasibleTarget message rejections" by (cases e) auto
    obtain st' where "record_failure hi request ''NO_FEASIBLE_TARGET'' message st = (Inr (), st')" "store_typed st'"
      by (rule failure_stored [OF st(1)])
    with Pair Inl e sched show ?thesis by (simp add: route_def returning_def)
  next
    case (Inr d)
    obtain t where t: "selected_target targets d = Some t" "t \<in> set targets"
      by (rule decision_has_target [OF sched [unfolded Inr]])
    have "store_typed (gw_store (gw\<lparr>gw_store := st\<rparr>))" using st(1) by simp
    from dispatch_answers [OF t(1) this, of hi request] t Pair Inr sched show ?thesis by (auto simp: route_def)
  qed
qed

lemma handle_answers:
  assumes "store_typed (gw_store gw)" "budget_finite request"
    and "\<And>t. t \<in> set (gw_targets gw) \<Longrightarrow> \<exists>c. is_capable t = Inr c"
  obtains st view where "record_model_request hi request (gw_store gw) = (Inr (), st)"
    "get_scheduling_view (hi_now hi 2) (hi_fresh hi) st (nr_session_id request) (nr_task_id request) = Inr view"
    "store_typed (gw_store (snd (handle predict config hi request gw)))"
    "case schedule predict config None (hi_decision_id hi) (hi_decision_time hi) (request_view request view)
        (Some (gw_targets gw)) of
       Inl (ScheduleError e) \<Rightarrow> False
     | Inl (NoFeasibleTarget message rejections) \<Rightarrow>
         fst (handle predict config hi request gw) = Inr (no_target_response message rejections)
     | Inr d \<Rightarrow> (\<exists>t \<in> set (gw_targets gw). selected_target (gw_targets gw) d = Some t \<and>
         fst (handle predict config hi request gw)
           = backend_answer (hi_quoted hi) (gw_backends gw) request t d)"
proof -
  let ?gw = "project (record_request (hi_clock hi) (hi_projection hi) request (gw_targets gw)) gw"
  obtain st where st: "record_model_request hi request (gw_store gw) = (Inr (), st)" "store_typed st"
    by (rule request_stored [OF assms(2,1)])
  obtain view where view: "get_scheduling_view (hi_now hi 2) (hi_fresh hi) st (nr_session_id request) (nr_task_id request)
      = Inr view" by (rule typed_session_viewed [OF st(2)])
  have run: "handle predict config hi request gw
      = route predict config hi request (gw_targets gw) (request_view request view) (?gw\<lparr>gw_store := st\<rparr>)"
    by (simp add: handle_def Let_def st view)
  have typed: "store_typed (gw_store (?gw\<lparr>gw_store := st\<rparr>))" using st(2) by simp
  have targets: "\<exists>c. is_capable t = Inr c" if "t \<in> set (gw_targets gw)" for t by (rule assms(3) [OF that])
  note answers = route_answers [where targets = "gw_targets gw", OF typed targets, where predict = predict
      and config = config and hi = hi and request = request and view = "request_view request view"]
  have "gw_backends (?gw\<lparr>gw_store := st\<rparr>) = gw_backends gw" by simp
  note answers = answers [unfolded this, folded run]
  show thesis
    by (rule that [OF st(1) view answers [THEN conjunct1] answers [THEN conjunct2]])
qed

section \<open>An example\<close>

text \<open>
  A request that allows the model \<open>small\<close> only, to a gateway with an empty store, two targets and the
  in-memory backend.
\<close>

definition served_request :: neutral_request where
  "served_request =
     \<lparr>nr_protocol = ''openai_chat'', nr_request_id = ''r1'', nr_session_id = ''s'', nr_task_id = ''t'',
      nr_turn_id = 0, nr_step_id = [], nr_attempt_id = ''a'', nr_trace_id = [], nr_model = [],
      nr_prompt_tokens = 100, nr_predicted_output_tokens = 10, nr_required_capabilities = [],
      nr_tenant_id = ''default'', nr_security_domain = ''default'', nr_allowed_models = [''small''],
      nr_allowed_regions = [], nr_allowed_cache_domains = [], nr_remote_kv_allowed = True,
      nr_cost_budget = None, nr_stream = False, nr_body = [], nr_headers = []\<rparr>"

definition served_inputs :: handle_inputs where
  "served_inputs =
     \<lparr>hi_repr = (\<lambda>_. []), hi_quoted = (\<lambda>s. s), hi_iso = (\<lambda>_. []), hi_clock = (\<lambda>_. utc 0),
      hi_projection = (\<lambda>_. utc 0), hi_now = (\<lambda>_. utc 0), hi_fresh = ''f'', hi_decision_id = ''d'',
      hi_decision_time = 0\<rparr>"

definition serving_gateway :: gateway where
  "serving_gateway =
     \<lparr>gw_store = empty_store, gw_targets = [ex_small, ex_large],
      gw_backends = register_backend [] ''default'' in_memory_send,
      gw_world = \<lparr>aw_plane = ex_plane0, aw_resolver = new_resolver\<rparr>,
      gw_projection_errors = 0, gw_last_projection_error = []\<rparr>"

lemma serving_gateway_simps:
  "gw_store serving_gateway = empty_store" "gw_targets serving_gateway = [ex_small, ex_large]"
  "store_typed empty_store" "budget_finite served_request" "last_order empty_store key = (-1, -1)"
  "session_state empty_store session_id task_id = None" "distinct (map target_key [ex_small, ex_large])"
  by (simp_all add: serving_gateway_def store_typed_def empty_store_def budget_finite_def served_request_def last_order_def
      dict_get_or_def session_state_def target_key_def ex_small_def ex_large_def TargetCandidate_def)

text \<open>A request without a budget and without required capabilities leaves both as they are in a new state.\<close>

lemma plain_request_keeps:
  assumes "ev_event_type ev = ''MODEL_REQUESTED''" "ev_payload ev = request_payload r"
    and "nr_required_capabilities r = []" "nr_cost_budget r = None"
  shows "keeps (has ''qos'' name v) (st_then (apply_event repr ev) (stamp_header ev))"
    and "keeps (has ''identity'' ''required_capabilities'' (SSet [])) (st_then (apply_event repr ev) (stamp_header ev))"
proof -
  have "str_upper ''MODEL_REQUESTED'' = ''MODEL_REQUESTED''" by code_simp
  then have run: "apply_event repr ev = st_then (apply_identity repr ev (SDict [(''tenant_id'', SStr (nr_tenant_id r))]))
      (apply_model_request repr ev (request_payload r))"
    using assms(1,2) by (simp add: apply_event_def Let_def request_payload_lookups dict_get_or_def)
  have names: "s_set (SList []) = Inr (SSet [])" by (simp add: s_set_def s_or_def)
  have patch: "identity_patch [(''tenant_id'', SStr (nr_tenant_id r))] = [(''tenant_id'', SStr (nr_tenant_id r))]"
    by (simp add: identity_patch_def identity_keys_def)
  have tenant: "keeps (has ''identity'' ''required_capabilities'' (SSet []))
      (set_section repr ev ''identity'' (SDict [(''tenant_id'', w)]))" for w
    by (auto simp: set_section_def intro!: keeps_rules keeps_entry)
  have same: "keeps (has sec n w) (put sec n w)" for sec n w
    unfolding put_def by (rule keeps_write) (simp add: has_set_attr)
  note request = apply_model_request_def request_payload_lookups request_payload_security assms(3,4)
  have "keeps (has ''qos'' name v) (apply_identity repr ev (SDict [(''tenant_id'', SStr (nr_tenant_id r))]))"
    by (auto simp: apply_identity_def patch intro!: keeps_rules)
  moreover have "keeps (has ''qos'' name v) (apply_model_request repr ev (request_payload r))"
    unfolding apply_model_request_def Let_def
    by (intro keeps_rules) (simp_all add: request)
  moreover have "keeps (has ''qos'' name v) (stamp_header ev)"
    unfolding stamp_header_def put_when_given_def by (intro keeps_rules) auto
  ultimately show "keeps (has ''qos'' name v) (st_then (apply_event repr ev) (stamp_header ev))"
    unfolding run by (intro keeps_rules)
  let ?P = "has ''identity'' ''required_capabilities'' (SSet [])"
  have "keeps ?P (apply_identity repr ev (SDict [(''tenant_id'', SStr (nr_tenant_id r))]))"
    by (auto simp: apply_identity_def patch intro!: keeps_rules tenant)
  moreover have required: "keeps ?P (given (request_payload r) ''required_capabilities'' (\<lambda>v. raising_step (s_set v)
        (put ''identity'' ''required_capabilities'')))"
    by (simp add: given_def request names raising_step_def st_bind_def st_read_def keeps_def same [unfolded keeps_def])
  have "keeps ?P (apply_model_request repr ev (request_payload r))"
    unfolding apply_model_request_def Let_def
    by (rule required | rule keeps_rules | (simp; fail))+
  moreover have "keeps ?P (stamp_header ev)"
    unfolding stamp_header_def put_when_given_def by (intro keeps_rules) auto
  ultimately show "keeps ?P (st_then (apply_event repr ev) (stamp_header ev))"
    unfolding run by (intro keeps_rules)
qed

lemma view_budget:
  assumes "build_scheduling_view s now = Inr view"
  shows "as_optional as_real (attr s ''qos'' ''task_cost_budget'') = Inr (hv_cost_budget view) \<and>
    as_names (attr s ''identity'' ''required_capabilities'') = Inr (hv_required_capabilities view)"
  using assms unfolding build_scheduling_view_def Let_def res_bind_Inr_iff
  by (elim exE conjE) (simp only: sum.inject, hypsubst, simp)

lemma served_view:
  assumes "record_model_request served_inputs served_request empty_store = (Inr (), st)"
    and "get_scheduling_view now fresh st ''s'' ''t'' = Inr view"
  shows "hv_cost_budget view = None" "target_safe (request_view served_request view) ex_small"
proof -
  let ?ev = "gateway_event served_request ''MODEL_REQUESTED'' (utc 0) (request_payload served_request)"
  let ?e = "sequenced empty_store ?ev"
  let ?s = "new_agent_state (utc 0) ''f'' ''s'' ''t'' ''default'' ''generic-proxy''"
  have served: "nr_session_id served_request = ''s''" "nr_task_id served_request = ''t''"
    by (simp_all add: served_request_def)
  then have key: "event_key ?ev = (''s'', ''t'')" "ev_session_id ?ev = ''s''" "ev_task_id ?ev = ''t''"
    by simp_all
  have run: "store_event served_inputs ?ev empty_store = (Inr (), st)"
    using assms(1) by (simp add: record_model_request_def request_payload_def served_inputs_def)
  obtain s where st: "st = \<lparr>st_states = dict_set (st_states empty_store) (event_key ?ev) s,
      st_last_order = dict_set (st_last_order empty_store) (event_key ?ev) (event_order ?e),
      st_events = st_events empty_store @ [?e]\<rparr>"
    and applied: "st_then (apply_event (hi_repr served_inputs) ?e) (stamp_header ?e) ?s = (Inr (), s)"
  proof (rule store_event_logs [OF run])
    show "fst (last_order empty_store (event_key ?ev)) \<le> ev_epoch ?ev" by (simp add: serving_gateway_simps)
    fix s
    assume "st_then (apply_event (hi_repr served_inputs) ?e) (stamp_header ?e)
       (case dict_get (st_states empty_store) (event_key ?ev) of
          Some x \<Rightarrow> x
        | None \<Rightarrow> new_agent_state (hi_now served_inputs 1) (hi_fresh served_inputs) (ev_session_id ?ev) (ev_task_id ?ev)
                     ''default'' ''generic-proxy'') = (Inr (), s)"
    moreover have "dict_get (st_states empty_store) (event_key ?ev) = None"
      "hi_now served_inputs 1 = utc 0" "hi_fresh served_inputs = ''f''"
      by (simp_all add: empty_store_def served_inputs_def)
    ultimately have "st_then (apply_event (hi_repr served_inputs) ?e) (stamp_header ?e) ?s = (Inr (), s)"
      by (simp only: key option.case)
    moreover assume "st = \<lparr>st_states = dict_set (st_states empty_store) (event_key ?ev) s,
      st_last_order = dict_set (st_last_order empty_store) (event_key ?ev) (event_order ?e),
      st_events = st_events empty_store @ [?e]\<rparr>"
    ultimately show thesis using that by blast
  qed simp
  have view: "build_scheduling_view s now = Inr view"
    using assms(2) by (simp add: st served get_scheduling_view_def session_state_def)
  have "restrictions_typed ?s" by (rule new_state_typed)
  from request_event_restricts [OF applied this, where r = served_request] have "restricted served_request s" by simp
  note restricted = view_restricted [OF view this]
  have new: "has ''qos'' ''task_cost_budget'' SNone ?s" "has ''identity'' ''required_capabilities'' (SSet []) ?s"
    by (simp_all add: new_agent_state_def has_set_attr)
      (simp_all add: has_def section_attrs_def blank_agent_state_def agent_schema_def default_attrs_def
        qos_state_fields_def agent_identity_fields_def dict_get_or_def)
  have plain: "ev_event_type ?e = ''MODEL_REQUESTED''" "ev_payload ?e = request_payload served_request"
    "nr_required_capabilities served_request = []" "nr_cost_budget served_request = None"
    by (simp_all add: served_request_def)
  let ?m = "st_then (apply_event (hi_repr served_inputs) ?e) (stamp_header ?e)"
  have "has ''qos'' ''task_cost_budget'' SNone s"
    by (rule keepsD [of "has ''qos'' ''task_cost_budget'' SNone" ?m ?s "Inr ()"])
      (rule plain_request_keeps(1) [OF plain], rule applied, rule new(1))
  moreover have "has ''identity'' ''required_capabilities'' (SSet []) s"
    by (rule keepsD [of "has ''identity'' ''required_capabilities'' (SSet [])" ?m ?s "Inr ()"])
      (rule plain_request_keeps(2) [OF plain], rule applied, rule new(2))
  ultimately have budget: "hv_cost_budget view = None" "hv_required_capabilities view = {}"
    using view_budget [OF view] by (auto dest!: has_attr simp: as_optional_def as_names_def)
  show "hv_cost_budget view = None" by (rule budget)
  show "target_safe (request_view served_request view) ex_small"
    by (simp add: target_safe_def request_view_def budget restricted)
      (simp add: served_request_def ex_small_def TargetCandidate_def no_metadata_def)
qed

lemma serving_gateway_serves:
  obtains resp gw' d where
    "handle ex_predict default_config served_inputs served_request serving_gateway = (Inr resp, gw')" "gr_decision resp = Some d"
proof -
  have ranks: "\<exists>c. is_capable t = Inr c" if "t \<in> set (gw_targets serving_gateway)" for t
    by (rule ex_ranks) (use that in \<open>simp add: serving_gateway_simps\<close>)
  have typed: "store_typed (gw_store serving_gateway)" by (simp add: serving_gateway_simps)
  have request: "nr_session_id served_request = ''s''" "nr_task_id served_request = ''t''"
    "hi_decision_id served_inputs = ''d''" "hi_decision_time served_inputs = 0"
    by (simp_all add: served_request_def served_inputs_def)
  have backend: "send_to_backend quoted (gw_backends serving_gateway) served_request t \<noteq> Inl (SendRaised e)" for quoted t e
    by (auto simp: send_to_backend_def require_backend_def get_backend_def serving_gateway_def register_backend_def
        in_memory_send_def)
  show thesis
  proof (rule handle_answers [OF typed serving_gateway_simps(4) ranks, where predict = ex_predict and config = default_config
        and hi = served_inputs])
    fix st view
    assume "record_model_request served_inputs served_request (gw_store serving_gateway) = (Inr (), st)"
      and "get_scheduling_view (hi_now served_inputs 2) (hi_fresh served_inputs) st (nr_session_id served_request)
        (nr_task_id served_request) = Inr view"
    note view = served_view [OF this [unfolded request serving_gateway_simps]]
    have "hv_cost_budget (request_view served_request view) = None" using view(1) by (simp add: request_view_def)
    moreover from this view(2) have "target_reasons (request_view served_request view) ex_small = []"
      by (simp add: target_reasons_Nil)
    ultimately obtain d where d: "ex_schedule (request_view served_request view) = Inr d" by (rule ex_runs)
    assume "case schedule ex_predict default_config None (hi_decision_id served_inputs) (hi_decision_time served_inputs)
          (request_view served_request view) (Some (gw_targets serving_gateway)) of
        Inl (ScheduleError e) \<Rightarrow> False
      | Inl (NoFeasibleTarget message rejections) \<Rightarrow>
          fst (handle ex_predict default_config served_inputs served_request serving_gateway)
            = Inr (no_target_response message rejections)
      | Inr d \<Rightarrow> (\<exists>t \<in> set (gw_targets serving_gateway). selected_target (gw_targets serving_gateway) d = Some t \<and>
          fst (handle ex_predict default_config served_inputs served_request serving_gateway)
            = backend_answer (hi_quoted served_inputs) (gw_backends serving_gateway) served_request t d)"
    with d obtain t where "fst (handle ex_predict default_config served_inputs served_request serving_gateway)
        = backend_answer (hi_quoted served_inputs) (gw_backends serving_gateway) served_request t d"
      by (auto simp: request serving_gateway_simps)
    with backend [of "hi_quoted served_inputs" t] obtain resp
      where "fst (handle ex_predict default_config served_inputs served_request serving_gateway) = Inr resp"
        "gr_decision resp = Some d"
      by (auto simp: backend_answer_def routed_response_def backend_error_response_def
          split: sum.splits send_error.splits)
    then show thesis using that by (metis prod.collapse)
  qed
qed

section \<open>Properties\<close>

lemma route_decides:
  assumes "route predict config hi request targets view gw = (Inr resp, gw')" "gr_decision resp = Some d"
  obtains t where "schedule predict config None (hi_decision_id hi) (hi_decision_time hi) view (Some targets) = Inr d"
    "selected_target targets d = Some t"
    "case send_to_backend (hi_quoted hi) (gw_backends gw) request t of
       Inr b \<Rightarrow> resp = routed_response b d
     | Inl (BackendError message) \<Rightarrow> resp = backend_error_response message d
     | Inl (SendRaised e) \<Rightarrow> False"
  using assms(1)
proof (cases rule: route_returns)
  case refused
  with assms(2) show thesis by (simp add: no_target_response_def)
next
  case (failed d' st t)
  with assms(2) that show thesis
    by (auto simp: backend_error_response_def schedule_request_def split: sum.splits)
next
  case (served d' st t)
  with assms(2) that show thesis by (auto simp: routed_response_def schedule_request_def split: sum.splits)
qed

lemma selected_target_unique:
  assumes "selected_target targets d = Some t'" "distinct (map target_key targets)"
    and "t \<in> set targets" "decision_key d = target_key t"
  shows "t' = t"
proof -
  from assms(1) have "t' \<in> set targets" "target_key t' = decision_key d"
    by (auto simp: selected_target_def find_Some_iff target_key_def decision_key_def)
  with assms(2-4) show ?thesis by (auto simp: distinct_map inj_on_def)
qed

text \<open>C3: The restrictions a request carries are enforced on the target that serves it. When the
  gateway answers with a decision, the backend that was called is the one of a registered target that is
  available and healthy, holds the prompt and the predicted output, has every capability the request
  requires, and lies in the request's security domain and in its allowed models, regions and cache
  domains; and the answer is what that backend returned, or its error. It holds whichever restrictions
  the session recorded before, as long as those have their declared types (a string for the security
  domain, sets for the allowed models, regions and cache domains; a new session has), no event of a later
  epoch is recorded for the session and target keys are unique.\<close>

theorem request_restrictions_enforced:
  assumes "handle predict config hi request gw = (Inr resp, gw')" "gr_decision resp = Some d"
    and "fst (last_order (gw_store gw) (request_key request)) \<le> 0"
    and "\<forall>s. session_state (gw_store gw) (nr_session_id request) (nr_task_id request) = Some s \<longrightarrow> restrictions_typed s"
    and "distinct (map target_key (gw_targets gw))"
  shows "\<exists>t \<in> set (gw_targets gw). decision_key d = target_key t \<and> tc_available t \<and> tc_healthy t \<and>
    max 0 (nr_prompt_tokens request) + max 0 (nr_predicted_output_tokens request) \<le> tc_context_window_tokens t \<and>
    set (nr_required_capabilities request) \<subseteq> tc_capabilities t \<and>
    (nr_security_domain request \<noteq> [] \<longrightarrow> tc_security_domain t = nr_security_domain request) \<and>
    (nr_allowed_models request \<noteq> [] \<longrightarrow> tc_model_id t \<in> set (nr_allowed_models request)) \<and>
    (nr_allowed_regions request \<noteq> [] \<longrightarrow> tc_region t \<in> set (nr_allowed_regions request)) \<and>
    (nr_allowed_cache_domains request \<noteq> [] \<longrightarrow> tc_cache_domain t \<in> set (nr_allowed_cache_domains request)) \<and>
    (case send_to_backend (hi_quoted hi) (gw_backends gw) request t of
       Inr b \<Rightarrow> resp = routed_response b d
     | Inl (BackendError message) \<Rightarrow> resp = backend_error_response message d
     | Inl (SendRaised e) \<Rightarrow> False)"
proof -
  obtain st view gw1 where recorded: "record_model_request hi request (gw_store gw) = (Inr (), st)"
    and view: "get_scheduling_view (hi_now hi 2) (hi_fresh hi) st (nr_session_id request) (nr_task_id request) = Inr view"
    and run: "route predict config hi request (gw_targets gw) (request_view request view) gw1 = (Inr resp, gw')"
    and gw1: "gw_store gw1 = st" "gw_backends gw1 = gw_backends gw"
    by (rule handle_returns [OF assms(1)])
  obtain s where s: "build_scheduling_view s (hi_now hi 2) = Inr view" "restricted request s"
    by (rule request_recorded [OF recorded assms(3) view])
      (use assms(4) in \<open>auto simp: session_state_def new_state_typed split: option.splits\<close>)
  note restricted = view_restricted [OF s]
  obtain t' where sched: "schedule predict config None (hi_decision_id hi) (hi_decision_time hi)
        (request_view request view) (Some (gw_targets gw)) = Inr d"
    and t': "selected_target (gw_targets gw) d = Some t'"
    and answer: "case send_to_backend (hi_quoted hi) (gw_backends gw1) request t' of
       Inr b \<Rightarrow> resp = routed_response b d
     | Inl (BackendError message) \<Rightarrow> resp = backend_error_response message d
     | Inl (SendRaised e) \<Rightarrow> False"
    by (rule route_decides [OF run assms(2)])
  from schedule_safe [OF sched] obtain t where t: "t \<in> set (gw_targets gw)" "decision_key d = target_key t"
    and safe: "target_safe (request_view request view) t" by auto
  have "t' = t" by (rule selected_target_unique [OF t' assms(5) t])
  with t safe answer gw1 restricted show ?thesis
    by (intro bexI [of _ t]) (auto simp: target_safe_def request_view_def)
qed

theorem request_restrictions_enforced_witness:
  "\<exists>resp gw' d. handle ex_predict default_config served_inputs served_request serving_gateway = (Inr resp, gw') \<and>
     gr_decision resp = Some d \<and> decision_key d = target_key ex_small"
proof -
  obtain resp gw' d where run:
    "handle ex_predict default_config served_inputs served_request serving_gateway = (Inr resp, gw')" "gr_decision resp = Some d"
    by (rule serving_gateway_serves)
  from request_restrictions_enforced [OF run] have "decision_key d = target_key ex_small"
    by (auto simp: serving_gateway_simps served_request_def ex_small_def ex_large_def TargetCandidate_def target_key_def)
  with run show ?thesis by blast
qed

text \<open>The second event of a request, on a store whose order for the session is in epoch zero.\<close>

lemma outcome_logged:
  assumes "store_event hi (gateway_event request t now p) st = (Inr (), st')"
    and "fst (last_order st (request_key request)) \<le> 0"
  obtains e where "st_events st' = st_events st @ [e]" "event_key e = request_key request"
    "ev_request_id e = nr_request_id request" "ev_event_type e = t" "ev_epoch e = 0"
    "order_less (last_order st (request_key request)) (event_order e)"
    "fst (last_order st (request_key request)) = 0 \<Longrightarrow> ev_sequence e = snd (last_order st (request_key request)) + 1"
proof -
  let ?e = "sequenced st (gateway_event request t now p)"
  have "fst (last_order st (request_key request)) = 0 \<Longrightarrow> ev_sequence ?e = snd (last_order st (request_key request)) + 1"
    by (auto simp: sequenced_def Let_def split: prod.split)
  moreover
  have "order_less (last_order st (request_key request)) (event_order ?e)"
    using unsequenced_is_next [of "gateway_event request t now p" st] assms(2) by simp
  moreover have "st_events st' = st_events st @ [?e]"
    by (rule store_event_logs [OF assms(1)]) (use assms(2) in simp_all)
  ultimately show thesis by (intro that [of ?e]) simp_all
qed

lemma outcome_after_request:
  assumes "store_event hi (gateway_event request t now p) st1 = (Inr (), st2)"
    and "st_events st1 = es @ [e1]" "event_order e1 = (0, n)"
    and "last_order st1 (request_key request) = (0, n) \<or> last_order st1 (request_key request) = (0, n + 1)"
  obtains e2 where "st_events st2 = es @ [e1, e2]" "event_key e2 = request_key request"
    "ev_request_id e2 = nr_request_id request" "ev_event_type e2 = t" "ev_epoch e2 = 0"
    "order_less (event_order e1) (event_order e2)"
    "\<And>m. last_order st1 (request_key request) = (0, m) \<Longrightarrow> ev_sequence e2 = m + 1"
  by (rule outcome_logged [OF assms(1)])
    (use assms(2-4) that in \<open>auto simp: event_order_def order_less_def\<close>)

text \<open>C11: A request the gateway answers, when no event of a later epoch than the gateway's own is
  recorded for its session, leaves exactly two events in the log of the store: that it was requested,
  and then how it ended, with a response when the backend answered and as a failure when there was no
  target or the backend failed. Both carry the request's identity, the first comes after the last
  order recorded for the session and the second after the first: by one when nothing was decided, and by
  two when a routing decision was made, whose version lies between them (on a store whose sessions have
  the types of the schema, for a finite budget; on any other store the recording of the decision may
  raise, which the gateway drops).\<close>

theorem request_logged_twice:
  assumes "handle predict config hi request gw = (Inr resp, gw')"
    and "fst (last_order (gw_store gw) (request_key request)) \<le> 0"
  shows "\<exists>e1 e2. st_events (gw_store gw') = st_events (gw_store gw) @ [e1, e2] \<and>
    event_key e1 = request_key request \<and> event_key e2 = request_key request \<and>
    ev_request_id e1 = nr_request_id request \<and> ev_request_id e2 = nr_request_id request \<and>
    ev_event_type e1 = ''MODEL_REQUESTED'' \<and>
    (ev_event_type e2 = ''MODEL_RESPONSE_RECEIVED'' \<and> (\<exists>b d. resp = routed_response b d) \<or>
     ev_event_type e2 = ''MODEL_FAILED'' \<and> gr_status_code resp \<in> {502, 503}) \<and>
    order_less (last_order (gw_store gw) (request_key request)) (event_order e1) \<and>
    order_less (event_order e1) (event_order e2) \<and> ev_epoch e1 = 0 \<and> ev_epoch e2 = 0 \<and>
    (gr_decision resp = None \<longrightarrow> ev_sequence e2 = ev_sequence e1 + 1) \<and>
    (gr_decision resp \<noteq> None \<and> store_typed (gw_store gw) \<and> budget_finite request \<longrightarrow>
       ev_sequence e2 = ev_sequence e1 + 2)"
proof -
  obtain st view gw1 where recorded: "record_model_request hi request (gw_store gw) = (Inr (), st)"
    and view: "get_scheduling_view (hi_now hi 2) (hi_fresh hi) st (nr_session_id request) (nr_task_id request) = Inr view"
    and run: "route predict config hi request (gw_targets gw) (request_view request view) gw1 = (Inr resp, gw')"
    and gw1: "gw_store gw1 = st"
    by (rule handle_returns [OF assms(1)])
  obtain s e1 where s: "dict_get (st_states st) (request_key request) = Some s" "attr s ''header'' ''epoch'' = SInt 0"
      "attr s ''header'' ''sequence_number'' = SInt (ev_sequence e1)"
    and key: "hv_session_id view = nr_session_id request" "hv_task_id view = nr_task_id request"
    and e1: "st_events st = st_events (gw_store gw) @ [e1]" "ev_event_type e1 = ''MODEL_REQUESTED''"
      "ev_request_id e1 = nr_request_id request" "event_key e1 = request_key request"
      "last_order st (request_key request) = event_order e1" "ev_epoch e1 = 0"
      "order_less (last_order (gw_store gw) (request_key request)) (event_order e1)"
    by (rule request_recorded [OF recorded assms(2) view])
  have typed: "store_typed st" if "store_typed (gw_store gw)" "budget_finite request"
    by (rule request_stored [OF that(2,1), of hi]) (use recorded in simp)
  have order: "last_order st (request_key request) = (0, ev_sequence e1)" "event_order e1 = (0, ev_sequence e1)"
    by (simp_all add: e1 event_order_def)
  have key': "(hv_session_id (request_view request view), hv_task_id (request_view request view)) = request_key request"
    by (simp add: request_view_def key)
  note decided = schedule_request_store [OF _ key' s order(1)]
  from run show ?thesis
  proof (cases rule: route_returns)
    case (refused message rejections st1 st2)
    from decided [OF refused(1) [unfolded gw1]] e1(1)
    have d: "st_events st1 = st_events (gw_store gw) @ [e1]" "last_order st1 (request_key request) = (0, ev_sequence e1)"
      by simp_all
    show ?thesis
      by (rule outcome_after_request [OF refused(2) [unfolded record_failure_def] d(1) order(2)])
        (use d e1 refused in \<open>auto simp: no_target_response_def\<close>)
  next
    case (failed d st1 t message st2)
    note d = decided [OF failed(1) [unfolded gw1]]
    show ?thesis
      by (rule outcome_after_request [OF failed(4) [unfolded record_failure_def] _ order(2)])
        (use d e1 failed typed in \<open>auto simp: backend_error_response_def\<close>)
  next
    case (served d st1 t b st2)
    note d = decided [OF served(1) [unfolded gw1]]
    show ?thesis
      by (rule outcome_after_request [OF served(4) [unfolded record_model_response_def] _ order(2)])
        (use d e1 served typed in \<open>auto simp: routed_response_def\<close>)
  qed
qed

theorem request_logged_twice_witness:
  "\<exists>resp gw' e1 e2. handle ex_predict default_config served_inputs served_request serving_gateway = (Inr resp, gw') \<and>
     st_events (gw_store gw') = [e1, e2] \<and> ev_event_type e1 = ''MODEL_REQUESTED'' \<and>
     ev_sequence e2 = ev_sequence e1 + 2"
proof -
  obtain resp gw' d where run:
    "handle ex_predict default_config served_inputs served_request serving_gateway = (Inr resp, gw')" "gr_decision resp = Some d"
    by (rule serving_gateway_serves)
  have "st_events empty_store = []" by (simp add: empty_store_def)
  with request_logged_twice [OF run(1)] run show ?thesis
    by (simp add: serving_gateway_simps) blast
qed

text \<open>Two gateways that serve alike: the same store, targets and backends.\<close>

definition serves_alike :: "gateway \<Rightarrow> gateway \<Rightarrow> bool" where
  "serves_alike a b \<longleftrightarrow> gw_store a = gw_store b \<and> gw_targets a = gw_targets b \<and> gw_backends a = gw_backends b"

lemma dispatch_alike:
  assumes "serves_alike a b"
  shows "fst (dispatch hi request targets d a) = fst (dispatch hi request targets d b) \<and>
    gw_store (snd (dispatch hi request targets d a)) = gw_store (snd (dispatch hi request targets d b))"
  using assms
  by (auto simp: dispatch_def serves_alike_def returning_def Let_def split: option.split sum.split send_error.split prod.split)

lemma route_alike:
  assumes "serves_alike a b"
  shows "fst (route predict config hi request targets view a) = fst (route predict config hi request targets view b) \<and>
    gw_store (snd (route predict config hi request targets view a))
      = gw_store (snd (route predict config hi request targets view b))"
proof -
  obtain r st where r: "schedule_request predict config hi view targets (gw_store b) = (r, st)" by fastforce
  have store: "gw_store a = gw_store b" using assms by (simp add: serves_alike_def)
  have "serves_alike (a\<lparr>gw_store := st\<rparr>) (b\<lparr>gw_store := st\<rparr>)" using assms by (simp add: serves_alike_def)
  note alike = dispatch_alike [OF this]
  show ?thesis
    using alike
    by (cases r) (auto simp: route_def store r returning_def split: schedule_error.split prod.split)
qed

lemma projection_errors:
  "gw_projection_errors (project op gw) \<in> {gw_projection_errors gw, gw_projection_errors gw + 1}"
  by (simp add: project_def split: prod.split sum.split)

lemma dispatch_errors:
  "gw_projection_errors (snd (dispatch hi request targets d gw)) \<in> {gw_projection_errors gw, gw_projection_errors gw + 1}"
  using projection_errors
  by (auto simp: dispatch_def returning_def Let_def split: option.split sum.split send_error.split prod.split)

lemma route_errors:
  "gw_projection_errors (snd (route predict config hi request targets view gw))
     \<in> {gw_projection_errors gw, gw_projection_errors gw + 1}"
  using dispatch_errors [of hi request targets _ "gw\<lparr>gw_store := _\<rparr>"]
  by (auto simp: route_def returning_def split: sum.split schedule_error.split prod.split)

text \<open>C13: The State Plane is off the serving path. Whatever the plane and the resolver hold, however often
  the projection failed before and whether it fails now, the gateway gives the same answer or the same
  exception and leaves the same state store; a request adds at most two to the count of failed
  projections.\<close>

theorem projection_isolated:
  "fst (handle predict config hi request (gw\<lparr>gw_world := w, gw_projection_errors := n, gw_last_projection_error := e\<rparr>))
     = fst (handle predict config hi request gw) \<and>
   gw_store (snd (handle predict config hi request
       (gw\<lparr>gw_world := w, gw_projection_errors := n, gw_last_projection_error := e\<rparr>)))
     = gw_store (snd (handle predict config hi request gw)) \<and>
   gw_projection_errors gw \<le> gw_projection_errors (snd (handle predict config hi request gw)) \<and>
   gw_projection_errors (snd (handle predict config hi request gw)) \<le> gw_projection_errors gw + 2"
proof -
  let ?gw = "gw\<lparr>gw_world := w, gw_projection_errors := n, gw_last_projection_error := e\<rparr>"
  let ?project = "project (record_request (hi_clock hi) (hi_projection hi) request (gw_targets gw))"
  obtain r st where r: "record_model_request hi request (gw_store gw) = (r, st)" by fastforce
  have alike: "serves_alike (?project ?gw\<lparr>gw_store := st\<rparr>) (?project gw\<lparr>gw_store := st\<rparr>)"
    by (simp add: serves_alike_def)
  have "gw_projection_errors (?project gw) \<in> {gw_projection_errors gw, gw_projection_errors gw + 1}"
    by (rule projection_errors)
  then have errors: "gw_projection_errors (snd (route predict config hi request targets view (?project gw\<lparr>gw_store := st\<rparr>)))
      \<in> {gw_projection_errors gw .. gw_projection_errors gw + 2}" for targets view
    using route_errors [of predict config hi request targets view "?project gw\<lparr>gw_store := st\<rparr>"] by auto
  show ?thesis
    using route_alike [OF alike] errors projection_errors [of "record_request (hi_clock hi) (hi_projection hi) request (gw_targets gw)" gw]
    by (auto simp: handle_def Let_def r split: sum.split)
qed







section \<open>An order that is ahead of the gateway\<close>

text \<open>
  The gateway's events carry epoch zero. Once an event of a later epoch has been accepted for the
  session, they are all refused as stale, silently: the restrictions of the request are not recorded and
  the view is the one of the session as it was.
\<close>

lemma stale_request_ignored:
  assumes "0 < fst (last_order st (request_key request))"
  shows "record_model_request hi request st = (Inr (), st)"
proof -
  let ?ev = "gateway_event request ''MODEL_REQUESTED'' (hi_now hi 0) (request_payload request)"
  have "order_less (event_order (sequenced st ?ev)) (last_order st (event_key ?ev))"
    using assms by (simp add: order_less_def event_order_def)
  then show ?thesis
    by (auto simp: record_model_request_def request_payload_def [symmetric] store_event_def append_event_def Let_def
        event_order_def)
qed

end
