(* ===== verification/Spec2Isabelle.thy ===== *)
theory Spec2Isabelle
  imports SF_Registry SF_Plane_Properties SF_Snapshot_Properties SF_Graph_Properties
    SF_Scheduler_Properties SF_Prediction_Properties SF_Journal_Properties SF_Bridge_Properties
    SF_KV_Properties SF_Replay_Properties SF_Adapter_Properties SF_Source_Properties
    SF_Watch_Properties SF_Gateway_Properties
begin

text \<open>
  A verification development for StateFlow, the state plane, the success-first scheduler and the request
  gateway under \<open>src/stateflow\<close>. This theory imports the others and holds their description.

  \<^bold>\<open>The program.\<close> Agents and infrastructure report to two stores. The State Plane
  (\<open>state/plane.py\<close>) is a versioned graph of entities, relations and typed values with provenance;
  adapters (\<open>adapters/\<close>) decode observations of runtimes, KV caches, hardware and clusters and publish
  them there. The Agent State store (\<open>state/store/in_memory.py\<close>) keeps one state per session and task,
  changed by ordered events. The gateway (\<open>gateway/service.py\<close>) records a request in the store, has
  \<open>scheduler/harness/success_first\<close> choose a target from the scheduling view of the session, sends the
  request to a backend and records the outcome; it also projects the request into the State Plane. The
  prediction service (\<open>prediction/\<close>) answers from snapshots of the plane; the KV controller, the
  control journal and the policy replay (\<open>control/\<close>) propose actions from its predictions, record
  them with their outcomes and compare policies over the record.

  \<^bold>\<open>Which theory models what.\<close>
  \<^item> \<open>SF_Prelude\<close>: dictionaries as association lists in insertion order (locale \<open>dictionary\<close>),
    exceptions as the left side of a sum (\<open>'a res\<close>, \<open>res_bind\<close>), strings, and the locales
    \<open>step_system\<close> and \<open>monotone_system\<close> of runs that keep an invariant and never go back in an order.
  \<^item> \<open>SF_Contracts\<close> (\<open>state/contracts.py\<close>), \<open>SF_Registry\<close> (\<open>registry.py\<close> with the default keys),
    \<open>SF_Fnmatch\<close>, \<open>SF_Plane\<close>, \<open>SF_Snapshot\<close>, \<open>SF_Graph\<close> (\<open>plane.py\<close>: writes, reads, graph queries);
    \<open>SF_Plane_Invariants\<close>, \<open>SF_Plane_Safety\<close>, \<open>SF_Plane_Runs\<close> and the \<open>_Properties\<close> theories: the
    invariant of the plane over its step relation, versions and authority, idempotent writes, exactness of
    snapshots and of graph queries against reachability, paging of the change log.
  \<^item> \<open>SF_Scheduler_Types\<close>, \<open>_Gates\<close>, \<open>_Cost\<close>, \<open>SF_Predictors\<close>, \<open>SF_Placement\<close>, \<open>SF_Scheduler\<close>: the
    scheduler file by file, composed as \<open>schedule\<close>; \<open>_Lemmas\<close>, \<open>_Runs\<close>, \<open>_Properties\<close>: the selected
    target is safe, success comes before cost, and scheduling fails only for the stated reasons.
  \<^item> \<open>SF_Prediction_*\<close>, \<open>SF_Feature_Resolver\<close>: contracts, the analytical model stage by stage and the
    service with its journal; predictions are well formed, complete when trusted, and replayable.
  \<^item> \<open>SF_Control_*\<close>, \<open>SF_Evaluation\<close>, \<open>SF_Journal_*\<close>, \<open>SF_KV_*\<close>, \<open>SF_Replay\<close>, \<open>SF_Routing_Bridge\<close>
    (\<open>control/\<close> and \<open>scheduler/contract_bridge.py\<close>) with their lemmas and properties: the immutable
    journal, guarded KV movement, the lexicographic optimum of a replay.
  \<^item> \<open>SF_Entity_Refs\<close>, \<open>SF_Identity\<close>, \<open>SF_Adapter_Base\<close>, \<open>SF_Serving_Adapters\<close> (KV, runtime),
    \<open>SF_Cluster_Adapters\<close> (DCGM, Kubernetes), \<open>SF_Observability_Bridge\<close>: the adapters as actions on a
    world of plane and resolver; \<open>SF_Adapter_Lemmas\<close>, \<open>SF_Adapter_Publishing\<close>, \<open>SF_Bridge_Lemmas\<close>,
    \<open>SF_Adapter_Properties\<close>: an adapter is a run of plane operations, always publishes valid
    observations, and changes nothing when it publishes again.
  \<^item> \<open>SF_Py_Float\<close>, \<open>SF_Prometheus\<close>, \<open>SF_Source_Clients\<close>, \<open>SF_Metadata_Clients\<close>,
    \<open>SF_Kubernetes_Watch\<close>, \<open>SF_Polling\<close>, \<open>SF_Adapter_Process\<close>: the sources (\<open>adapters/source.py\<close>,
    \<open>profiles.py\<close>, \<open>clients.py\<close>, \<open>kubernetes_watch.py\<close>, \<open>runner.py\<close>, \<open>process.py\<close>);
    quantiles that are monotone over non-negative bounds, at-least-once delivery of the watch, termination of the polling loop.
  \<^item> \<open>SF_Iso_Time\<close>, \<open>SF_Agent_Values\<close>, \<open>SF_Agent_Schema\<close>, \<open>SF_Agent_View\<close> (\<open>state/schema.py\<close>),
    \<open>SF_State_Store\<close>, \<open>SF_Store_Events\<close>, \<open>SF_Store\<close> (\<open>in_memory.py\<close>, \<open>event.py\<close>): the agent state as
    attributes that can hold any value, one definition per event handler, and the store; \<open>SF_Store_Order\<close>:
    the ordered log; \<open>SF_View_Typing\<close>: the type invariant and the totality of the scheduling view.
  \<^item> \<open>SF_Request_Normalizer\<close>, \<open>SF_Gateway_Projector\<close>, \<open>SF_Backends\<close>, \<open>SF_Gateway\<close>: the request path;
    \<open>SF_Gateway_Security\<close>, \<open>SF_Gateway_Typing\<close>, \<open>SF_Gateway_Properties\<close>: the restrictions of a request
    reach the target that serves it, the gateway always answers, with what the backend or the
    scheduler says, logs every request twice and does not depend on the State Plane.

  \<^bold>\<open>Conventions.\<close> State is passed explicitly and returned. An operation that changes state before it
  raises returns the result together with the state (\<open>'a res \<times> 's\<close>). The locks of the program make
  each operation one step; a schedule of threads is a sequence of steps. Integers are \<open>int\<close>, as in Python.
  Floats are reals without rounding; where parsed input can be infinite or NaN they are \<open>pyfloat\<close>. The
  constructor \<open>PNonFinite\<close> of decoded JSON does not tell infinities from NaN. Times and durations are
  integers in microseconds. What the program reads from outside is an argument: the clock, identifiers of
  \<open>uuid4\<close>, digests, \<open>repr\<close> and \<open>isoformat\<close> texts, \<open>json.loads\<close>, the HTTP exchange, the predictor and the
  backends. Strings are lists of 8-bit characters; \<open>upper\<close> and \<open>lower\<close> change ASCII letters only.

  \<^bold>\<open>Loops and bounds.\<close> Recursion is structural or has a measure; there is no fuel. The graph search
  is bounded by the depth of its query. The polling loop may run forever and is a
  \<open>partial_function (option)\<close>; that it returns exactly when it is stopped is a theorem. The bounds of
  the plane's histories are its own parameters.

  \<^bold>\<open>Not modelled.\<close> The HTTP and gRPC servers and clients (\<open>state/api.py\<close>, \<open>state/http_client.py\<close>,
  \<open>rpc/\<close>, \<open>gateway/server/http.py\<close>) only decode, transport and encode the operations modelled here. The
  harness adapters and their reporter thread (\<open>harness/\<close>) produce events from callbacks of an agent
  framework. Command line, demo, tests, benchmarks, scripts and generated code are left out, as are the
  subscribers of the store, which run after the lock is released and whose exceptions are dropped.
\<close>

end
